(* ===== verification/Errs.thy ===== *)
theory Errs
  imports Go_Prelude
begin

text \<open>
  Package \<open>internal/errs\<close> and the error types of \<open>internal/transport\<close>. A Go \<open>error\<close> is a value:
  a categorised error of \<open>errs.New\<close>, a formatted one of \<open>fmt.Errorf\<close> (which keeps the error it
  wraps with \<open>%w\<close>), a sentinel of \<open>errors.New\<close>, a \<open>transport.LockError\<close> or \<open>transport.ExitError\<close>, or one of the two context
  errors. A function that returns a value and an error is a sum, \<open>Inl\<close> for the error.
\<close>

datatype code =
    ConfigInvalid | InventoryInvalid | TargetInvalid | TargetUnreachable | TargetAuthentication
  | TargetHostKey | TargetTimeout | UnsupportedOS | PrivilegeUnavailable | PlanBlocked
  | PlanInvalid | PlanTampered | PlanStale | TargetIdentityMismatch | ApplyLocked
  | ApplyFailed | VerificationFailed | MultiHostFailed

fun code_string :: "code \<Rightarrow> string" where
  "code_string ConfigInvalid = ''config_invalid''"
| "code_string InventoryInvalid = ''inventory_invalid''"
| "code_string TargetInvalid = ''target_invalid''"
| "code_string TargetUnreachable = ''target_unreachable''"
| "code_string TargetAuthentication = ''target_authentication''"
| "code_string TargetHostKey = ''target_host_key''"
| "code_string TargetTimeout = ''target_timeout''"
| "code_string UnsupportedOS = ''unsupported_os''"
| "code_string PrivilegeUnavailable = ''privilege_unavailable''"
| "code_string PlanBlocked = ''plan_blocked''"
| "code_string PlanInvalid = ''plan_invalid''"
| "code_string PlanTampered = ''plan_tampered''"
| "code_string PlanStale = ''plan_stale''"
| "code_string TargetIdentityMismatch = ''target_identity_mismatch''"
| "code_string ApplyLocked = ''apply_locked''"
| "code_string ApplyFailed = ''apply_failed''"
| "code_string VerificationFailed = ''verification_failed''"
| "code_string MultiHostFailed = ''multi_host_failed''"

datatype error =
    Coded code string "error option"
  | Errorf string "error option"
  | Lock_Error bool "error option"
  | Exit_Error int string
  | Sentinel string
  | Context_Canceled
  | Deadline_Exceeded

type_synonym 'a result = "error + 'a"

text \<open>\<open>Error()\<close> of each type. The text of a formatted error already holds the text it wraps.\<close>

fun error_text :: "error \<Rightarrow> string" where
  "error_text (Coded c m None) = m"
| "error_text (Coded c m (Some e)) = m @ '': '' @ error_text e"
| "error_text (Errorf m e) = m"
| "error_text (Lock_Error True e) = ''another Bebop apply already holds the target lock''"
| "error_text (Lock_Error False (Some e)) = ''acquire Bebop target lock: '' @ error_text e"
| "error_text (Lock_Error False None) = ''acquire Bebop target lock''"
| "error_text (Exit_Error n err) =
     ''command exited with status '' @ show_int n @ (if err = [] then [] else '': '' @ err)"
| "error_text (Sentinel m) = m"
| "error_text Context_Canceled = ''context canceled''"
| "error_text Deadline_Exceeded = ''context deadline exceeded''"

fun unwrap :: "error \<Rightarrow> error option" where
  "unwrap (Coded c m e) = e"
| "unwrap (Errorf m e) = e"
| "unwrap (Lock_Error b e) = e"
| "unwrap _ = None"

text \<open>\<open>fmt.Errorf("<prefix>: %w", err)\<close>.\<close>

definition wrapf :: "string \<Rightarrow> error \<Rightarrow> error" where
  "wrapf prefix e = Errorf (prefix @ error_text e) (Some e)"

abbreviation errorf :: "string \<Rightarrow> error" where
  "errorf m \<equiv> Errorf m None"

abbreviation coded :: "code \<Rightarrow> string \<Rightarrow> error" where
  "coded c m \<equiv> Coded c m None"

text \<open>\<open>errors.As\<close>: the first error of the wanted type along the chain of \<open>Unwrap\<close>.\<close>

fun as_coded :: "error \<Rightarrow> (code \<times> string) option" where
  "as_coded (Coded c m e) = Some (c, m)"
| "as_coded (Errorf m (Some e)) = as_coded e"
| "as_coded (Lock_Error b (Some e)) = as_coded e"
| "as_coded _ = None"

fun as_exit :: "error \<Rightarrow> int option" where
  "as_exit (Exit_Error n err) = Some n"
| "as_exit (Coded c m (Some e)) = as_exit e"
| "as_exit (Errorf m (Some e)) = as_exit e"
| "as_exit (Lock_Error b (Some e)) = as_exit e"
| "as_exit _ = None"

fun as_lock_busy :: "error \<Rightarrow> bool option" where
  "as_lock_busy (Lock_Error b e) = Some b"
| "as_lock_busy (Coded c m (Some e)) = as_lock_busy e"
| "as_lock_busy (Errorf m (Some e)) = as_lock_busy e"
| "as_lock_busy _ = None"

fun has_deadline :: "error \<Rightarrow> bool" where
  "has_deadline Deadline_Exceeded = True"
| "has_deadline (Coded c m (Some e)) = has_deadline e"
| "has_deadline (Errorf m (Some e)) = has_deadline e"
| "has_deadline (Lock_Error b (Some e)) = has_deadline e"
| "has_deadline _ = False"

text \<open>\<open>errors.Is\<close> for a value made with \<open>errors.New\<close> and compared by identity.\<close>

fun is_sentinel :: "string \<Rightarrow> error \<Rightarrow> bool" where
  "is_sentinel s (Sentinel m) = (m = s)"
| "is_sentinel s (Coded c m (Some e)) = is_sentinel s e"
| "is_sentinel s (Errorf m (Some e)) = is_sentinel s e"
| "is_sentinel s (Lock_Error b (Some e)) = is_sentinel s e"
| "is_sentinel s _ = False"

lemma as_coded_wrapf [simp]: "as_coded (wrapf p e) = as_coded e"
  by (simp add: wrapf_def)

lemma code_string_inj: "code_string c = code_string d \<Longrightarrow> c = d"
  by (cases c; cases d) simp_all

section \<open>Results\<close>

definition is_ok :: "'a result \<Rightarrow> bool" where
  "is_ok r = (case r of Inl _ \<Rightarrow> False | Inr _ \<Rightarrow> True)"

definition error_code :: "'a result \<Rightarrow> code option" where
  "error_code r = (case r of Inl e \<Rightarrow> map_option fst (as_coded e) | Inr _ \<Rightarrow> None)"

definition rbind :: "'a result \<Rightarrow> ('a \<Rightarrow> 'b result) \<Rightarrow> 'b result" where
  "rbind r f = (case r of Inl e \<Rightarrow> Inl e | Inr x \<Rightarrow> f x)"

text \<open>A guard of a validation: the error when the condition holds, else go on.\<close>

definition rfail_if :: "bool \<Rightarrow> error \<Rightarrow> 'a result \<Rightarrow> 'a result" where
  "rfail_if b e r = (if b then Inl e else r)"

text \<open>\<open>if err := f(); err != nil { return g(err) }\<close>.\<close>

definition rmap_err :: "(error \<Rightarrow> error) \<Rightarrow> 'a result \<Rightarrow> 'a result" where
  "rmap_err g r = (case r of Inl e \<Rightarrow> Inl (g e) | Inr x \<Rightarrow> Inr x)"

text \<open>A loop over a list that stops at the first error.\<close>

fun rforeach :: "('a \<Rightarrow> unit result) \<Rightarrow> 'a list \<Rightarrow> unit result" where
  "rforeach f [] = Inr ()"
| "rforeach f (x # xs) = rbind (f x) (\<lambda>_. rforeach f xs)"

lemma is_ok_simps [simp]: "is_ok (Inr x) = True" "is_ok (Inl e) = False"
  by (simp_all add: is_ok_def)

lemma is_ok_iff: "is_ok r \<longleftrightarrow> (\<exists>x. r = Inr x)"
  by (cases r) simp_all

lemma not_is_ok_iff: "\<not> is_ok r \<longleftrightarrow> (\<exists>e. r = Inl e)"
  by (cases r) simp_all

lemma rbind_simps [simp]: "rbind (Inl e) f = Inl e" "rbind (Inr x) f = f x"
  by (simp_all add: rbind_def)

lemma rbind_eq_Inr [result_simps]: "rbind r f = Inr y \<longleftrightarrow> (\<exists>x. r = Inr x \<and> f x = Inr y)"
  by (cases r) simp_all

lemma is_ok_rbind [result_simps]: "is_ok (rbind r f) \<longleftrightarrow> (\<exists>x. r = Inr x \<and> is_ok (f x))"
  by (cases r) simp_all

lemma rfail_if_simps [simp]: "rfail_if True e r = Inl e" "rfail_if False e r = r"
  by (simp_all add: rfail_if_def)

lemma rfail_if_eq_Inr [result_simps]: "rfail_if b e r = Inr y \<longleftrightarrow> \<not> b \<and> r = Inr y"
  by (simp add: rfail_if_def)

lemma is_ok_rfail_if [result_simps]: "is_ok (rfail_if b e r) \<longleftrightarrow> \<not> b \<and> is_ok r"
  by (simp add: rfail_if_def)

lemma rmap_err_simps [simp]: "rmap_err g (Inl e) = Inl (g e)" "rmap_err g (Inr x) = Inr x"
  by (simp_all add: rmap_err_def)

lemma rmap_err_eq_Inr [result_simps]: "rmap_err g r = Inr y \<longleftrightarrow> r = Inr y"
  by (cases r) simp_all

lemma is_ok_rmap_err [result_simps]: "is_ok (rmap_err g r) \<longleftrightarrow> is_ok r"
  by (cases r) simp_all

lemma rforeach_ok [result_simps]: "rforeach f xs = Inr u \<longleftrightarrow> (\<forall>x\<in>set xs. f x = Inr ())"
  by (induction xs) (auto simp: result_simps)

lemma is_ok_rforeach [result_simps]: "is_ok (rforeach f xs) \<longleftrightarrow> (\<forall>x\<in>set xs. is_ok (f x))"
  by (induction xs) (auto simp: is_ok_iff result_simps)

end
