(* ===== verification/Go_Path.thy ===== *)
theory Go_Path
  imports Errs
begin

text \<open>
  Packages \<open>path\<close> and \<open>path/filepath\<close> on a Unix controller (where both treat paths alike), and
  \<open>time.ParseDuration\<close>: what the validators of the configuration call.

  \<open>path_clean\<close> splits at the slashes and keeps a stack of elements: \<open>..\<close> pops an element, is dropped
  at the root, and stays at the front of a relative path. \<open>parse_duration\<close> follows the loop of
  \<open>ParseDuration\<close>; where Go scales a decimal fraction in floating point, the model takes the exact
  value rounded down to a nanosecond.
\<close>

section \<open>Clean, Join, Dir\<close>

definition push_element :: "bool \<Rightarrow> string list \<Rightarrow> string \<Rightarrow> string list" where
  "push_element rooted stack e =
     (if e = [] \<or> e = ''.'' then stack
      else if e = ''..'' then
        (if stack \<noteq> [] \<and> last stack \<noteq> ''..'' then butlast stack
         else if rooted then stack
         else stack @ [''..''])
      else stack @ [e])"

definition clean_elements :: "bool \<Rightarrow> string \<Rightarrow> string list" where
  "clean_elements rooted p = foldl (push_element rooted) [] (split_on (CHR ''/'') p)"

definition is_rooted :: "string \<Rightarrow> bool" where
  "is_rooted p = has_prefix p ''/''"

definition path_clean :: "string \<Rightarrow> string" where
  "path_clean p =
     (if p = [] then ''.''
      else let es = clean_elements (is_rooted p) p
           in if is_rooted p then ''/'' @ join_with ''/'' es
              else if es = [] then ''.'' else join_with ''/'' es)"

definition path_join :: "string \<Rightarrow> string \<Rightarrow> string" where
  "path_join a b =
     (if a = [] \<and> b = [] then []
      else path_clean (if a = [] then b else if b = [] then a else a @ ''/'' @ b))"

text \<open>\<open>Dir\<close>: all but the last element, cleaned.\<close>

definition path_dir :: "string \<Rightarrow> string" where
  "path_dir p = path_clean (rev (dropWhile (\<lambda>c. c \<noteq> CHR ''/'') (rev p)))"

text \<open>
  \<open>filepath.Rel\<close> of two paths: drop the common elements, go up once for each element left of the
  base. It fails when only one path is rooted or when the base would have to be left through \<open>..\<close>.
\<close>

fun drop_common :: "string list \<Rightarrow> string list \<Rightarrow> string list \<times> string list" where
  "drop_common (a # as) (b # bs) = (if a = b then drop_common as bs else (a # as, b # bs))"
| "drop_common as bs = (as, bs)"

definition path_rel :: "string \<Rightarrow> string \<Rightarrow> string option" where
  "path_rel base targ =
     (if path_clean base = path_clean targ then Some ''.''
      else if is_rooted base \<noteq> is_rooted targ then None
      else (case drop_common (clean_elements (is_rooted base) base)
                             (clean_elements (is_rooted targ) targ) of
              (up, down) \<Rightarrow>
                if up \<noteq> [] \<and> hd up = ''..'' then None
                else Some (join_with ''/'' (replicate (length up) ''..'' @ down))))"

text \<open>The four tests with which the program decides that a relative path leaves its base.\<close>

definition rel_escapes :: "string option \<Rightarrow> bool" where
  "rel_escapes r =
     (case r of None \<Rightarrow> True
      | Some rel \<Rightarrow> rel = ''..'' \<or> has_prefix rel ''../'' \<or> is_rooted rel)"

section \<open>Lemmas on Clean\<close>

definition plain :: "string \<Rightarrow> bool" where
  "plain e \<longleftrightarrow> e \<noteq> [] \<and> e \<noteq> ''.'' \<and> e \<noteq> ''..'' \<and> CHR ''/'' \<notin> set e"

text \<open>A cleaned stack: for a rooted path only plain elements, else some \<open>..\<close> and then plain ones.\<close>

definition clean_stack :: "bool \<Rightarrow> string list \<Rightarrow> bool" where
  "clean_stack rooted es \<longleftrightarrow>
     (\<exists>n ps. es = replicate n ''..'' @ ps \<and> list_all plain ps \<and> (rooted \<longrightarrow> n = 0))"

lemma clean_stack_push:
  assumes "clean_stack rooted es" and "CHR ''/'' \<notin> set e"
  shows "clean_stack rooted (push_element rooted es e)"
proof -
  from assms(1) obtain n ps where es: "es = replicate n ''..'' @ ps"
    and ps: "list_all plain ps" and n: "rooted \<longrightarrow> n = 0" by (auto simp: clean_stack_def)
  consider "e = [] \<or> e = ''.''" | "e = ''..''" | "plain e" using assms(2) by (auto simp: plain_def)
  then show ?thesis
  proof cases
    case 1
    then have "push_element rooted es e = es" by (simp add: push_element_def)
    with assms(1) show ?thesis by simp
  next
    case 2
    show ?thesis
    proof (cases "ps = []")
      case True
      then have "push_element rooted es e = replicate (if rooted then n else Suc n) ''..''"
        using 2 es n by (cases n) (auto simp: push_element_def replicate_append_same)
      with n show ?thesis unfolding clean_stack_def by (intro exI [of _ "if rooted then n else Suc n"] exI [of _ "[]"]) auto
    next
      case False
      have "plain (last ps)" using False ps by (simp add: list_all_iff)
      then have "push_element rooted es e = replicate n ''..'' @ butlast ps"
        using 2 False es by (auto simp: push_element_def butlast_append plain_def)
      moreover have "list_all plain (butlast ps)"
        using ps by (auto simp: list_all_iff dest: in_set_butlastD)
      ultimately show ?thesis using n unfolding clean_stack_def by blast
    qed
  next
    case 3
    then have "push_element rooted es e = replicate n ''..'' @ (ps @ [e])"
      by (simp add: push_element_def plain_def es)
    moreover have "list_all plain (ps @ [e])" using ps 3 by simp
    ultimately show ?thesis using n unfolding clean_stack_def by blast
  qed
qed

lemma clean_stack_foldl:
  assumes "clean_stack rooted es" and "\<And>e. e \<in> set xs \<Longrightarrow> CHR ''/'' \<notin> set e"
  shows "clean_stack rooted (foldl (push_element rooted) es xs)"
  using assms by (induction xs arbitrary: es) (auto intro: clean_stack_push)

lemma clean_stack_elements: "clean_stack rooted (clean_elements rooted p)"
  unfolding clean_elements_def
  by (rule clean_stack_foldl) (auto simp: clean_stack_def dest: split_on_no_sep)

lemma push_plain [simp]: "plain e \<Longrightarrow> push_element rooted es e = es @ [e]"
  by (simp add: push_element_def plain_def)

lemma push_plains: "list_all plain ps \<Longrightarrow> foldl (push_element rooted) es ps = es @ ps"
  by (induction ps arbitrary: es) auto

lemma push_dotdots:
  "foldl (push_element False) (replicate m ''..'') (replicate n ''..'') = replicate (m + n) ''..''"
proof (induction n arbitrary: m)
  case (Suc n)
  have "push_element False (replicate m ''..'') ''..'' = replicate (Suc m) ''..''"
    by (cases m) (auto simp: push_element_def replicate_append_same)
  with Suc.IH [of "Suc m"] show ?case by simp
qed simp

lemma push_clean_stack:
  assumes "clean_stack rooted es"
  shows "foldl (push_element rooted) [] es = es"
proof -
  from assms obtain n ps where es: "es = replicate n ''..'' @ ps"
    and ps: "list_all plain ps" and n: "rooted \<longrightarrow> n = 0" by (auto simp: clean_stack_def)
  show ?thesis
  proof (cases rooted)
    case True
    with n es ps show ?thesis by (simp add: push_plains)
  next
    case False
    with push_dotdots [of 0 n] es ps show ?thesis by (simp add: push_plains)
  qed
qed

lemma clean_stack_element:
  assumes "clean_stack rooted es" and "e \<in> set es"
  shows "e = ''..'' \<or> plain e"
proof -
  from assms(1) obtain n ps where "es = replicate n ''..'' @ ps" "list_all plain ps"
    unfolding clean_stack_def by blast
  with assms(2) show ?thesis unfolding list_all_iff by auto
qed

lemma clean_stack_no_slash: "clean_stack rooted es \<Longrightarrow> e \<in> set es \<Longrightarrow> CHR ''/'' \<notin> set e"
  by (drule (1) clean_stack_element) (auto simp: plain_def)

lemma clean_stack_nonempty: "clean_stack rooted es \<Longrightarrow> e \<in> set es \<Longrightarrow> e \<noteq> []"
  by (drule (1) clean_stack_element) (auto simp: plain_def)

lemma clean_elements_join:
  assumes "clean_stack rooted es" and "es \<noteq> []"
  shows "clean_elements rooted (join_with ''/'' es) = es"
proof -
  have "split_on (CHR ''/'') (join_with ''/'' es) = es"
    by (rule split_join) (use assms clean_stack_no_slash in auto)
  with push_clean_stack [OF assms(1)] show ?thesis by (simp add: clean_elements_def)
qed

lemma clean_elements_slash: "clean_elements rooted (CHR ''/'' # p) = clean_elements rooted p"
  by (simp add: clean_elements_def push_element_def)

lemma join_not_rooted:
  assumes "clean_stack rooted es" and "es \<noteq> []"
  shows "join_with ''/'' es \<noteq> []" "\<not> is_rooted (join_with ''/'' es)"
proof -
  obtain e rest where es: "es = e # rest" using assms(2) by (cases es) auto
  have e: "e \<noteq> []" "CHR ''/'' \<notin> set e"
    using assms(1) es clean_stack_no_slash clean_stack_nonempty by auto
  obtain t where "join_with ''/'' es = e @ t"
    using es by (cases rest) (auto simp: join_with_Cons)
  with e show "join_with ''/'' es \<noteq> []" "\<not> is_rooted (join_with ''/'' es)"
    by (cases e; auto simp: is_rooted_def)+
qed

lemma path_clean_idem: "path_clean (path_clean p) = path_clean p"
proof (cases "p = []")
  case True
  then show ?thesis by (simp add: path_clean_def clean_elements_def push_element_def is_rooted_def)
next
  case False
  let ?r = "is_rooted p" and ?es = "clean_elements (is_rooted p) p"
  have st: "clean_stack ?r ?es" by (rule clean_stack_elements)
  show ?thesis
  proof (cases "?es = []")
    case True
    with False show ?thesis
      by (cases ?r) (simp_all add: path_clean_def clean_elements_def push_element_def is_rooted_def)
  next
    case ne: False
    note J = join_not_rooted [OF st ne] and E = clean_elements_join [OF st ne]
    show ?thesis
    proof (cases ?r)
      case True
      have "clean_elements True (CHR ''/'' # join_with ''/'' ?es) = ?es"
        using E True by (simp add: clean_elements_slash)
      with False True show ?thesis by (simp add: path_clean_def is_rooted_def)
    next
      case nr: False
      with J E False ne show ?thesis by (simp add: path_clean_def Let_def)
    qed
  qed
qed

text \<open>A clean rooted path other than the root is a slash and plain elements.\<close>

lemma clean_rooted:
  assumes "path_clean p = p" and "is_rooted p" and "p \<noteq> ''/''"
  obtains es where "es \<noteq> []" "list_all plain es" "p = ''/'' @ join_with ''/'' es"
proof -
  let ?es = "clean_elements True p"
  have p: "p = ''/'' @ join_with ''/'' ?es"
    using assms(1,2) by (auto simp: path_clean_def is_rooted_def split: if_splits)
  moreover have "?es \<noteq> []" using p assms(3) by (metis append.right_neutral join_with.simps(1))
  moreover have "list_all plain ?es"
    using clean_stack_elements [of True p] by (auto simp: clean_stack_def)
  ultimately show thesis using that by blast
qed

text \<open>
  Joining a clean relative path without \<open>..\<close> in front below a clean rooted path only puts a slash
  between them.
\<close>

lemma path_join_below:
  assumes m: "path_clean m = m" "is_rooted m" "m \<noteq> ''/''"
    and r: "path_clean r = r" "r \<noteq> []" "r \<noteq> ''.''" "\<not> is_rooted r" "r \<noteq> ''..''" "\<not> has_prefix r ''../''"
  shows "path_join m r = m @ ''/'' @ r" and "path_clean (m @ ''/'' @ r) = m @ ''/'' @ r"
proof -
  obtain ms where ms: "ms \<noteq> []" "list_all plain ms" "m = ''/'' @ join_with ''/'' ms"
    by (rule clean_rooted [OF m])
  let ?rs = "clean_elements False r"
  have st: "clean_stack False ?rs" by (rule clean_stack_elements)
  have "r = (if ?rs = [] then ''.'' else join_with ''/'' ?rs)"
    using r(1,2,4) unfolding path_clean_def Let_def by metis
  then have ne: "?rs \<noteq> []" and rj: "r = join_with ''/'' ?rs" using r(3) by metis+
  obtain n ps where rs: "?rs = replicate n ''..'' @ ps" "list_all plain ps"
    using st by (auto simp: clean_stack_def)
  have "n = 0"
  proof (rule ccontr)
    assume "n \<noteq> 0"
    then obtain rest where "?rs = ''..'' # rest" using rs by (cases n) auto
    with rj r(5,6) show False by (cases rest) (auto simp: join_with_Cons)
  qed
  with rs have rs: "list_all plain ?rs" by simp
  have join: "join_with ''/'' (ms @ ?rs) = join_with ''/'' ms @ ''/'' @ r"
    using join_with_append [OF ms(1) ne, of "''/''"] rj by simp
  have st2: "clean_stack True (ms @ ?rs)"
    using ms(2) rs unfolding clean_stack_def
    by (metis append_Nil list_all_append replicate_0)
  have "clean_elements True (m @ ''/'' @ r) = ms @ ?rs"
    using clean_elements_join [OF st2] ms join by (simp add: clean_elements_slash)
  then show clean: "path_clean (m @ ''/'' @ r) = m @ ''/'' @ r"
    using ms join by (simp add: path_clean_def is_rooted_def)
  show "path_join m r = m @ ''/'' @ r"
    using clean m(2) r(2) by (auto simp: path_join_def is_rooted_def)
qed

lemma drop_common_append:
  "drop_common as bs = (up, down) \<Longrightarrow> \<exists>common. as = common @ up \<and> bs = common @ down"
proof (induction as bs rule: drop_common.induct)
  case (1 a as b bs)
  show ?case
  proof (cases "a = b")
    case True
    with 1 obtain common where "as = common @ up" "bs = common @ down" by auto
    with True show ?thesis by (intro exI [of _ "a # common"]) simp
  next
    case False
    with "1.prems" show ?thesis by (intro exI [of _ "[]"]) simp
  qed
qed auto

lemma clean_stack_tail: "clean_stack rooted (as @ bs) \<Longrightarrow> bs \<noteq> [] \<Longrightarrow> hd bs \<noteq> ''..'' \<Longrightarrow> list_all plain bs"
proof -
  assume st: "clean_stack rooted (as @ bs)" and ne: "bs \<noteq> []" "hd bs \<noteq> ''..''"
  then obtain n ps where eq: "as @ bs = replicate n ''..'' @ ps" and ps: "list_all plain ps"
    by (auto simp: clean_stack_def)
  show "list_all plain bs"
  proof (cases "n \<le> length as")
    case True
    then have "bs = drop (length as - n) ps" using arg_cong [OF eq, of "drop (length as)"] by simp
    with ps show ?thesis by (auto simp: list_all_iff dest: in_set_dropD)
  next
    case False
    then have "bs = replicate (n - length as) ''..'' @ ps" using arg_cong [OF eq, of "drop (length as)"] by simp
    with False ne show ?thesis by (cases "n - length as") auto
  qed
qed

text \<open>
  A relative path that does not escape says that the target has the elements of the base and at
  least one more below them.
\<close>

lemma path_rel_below:
  assumes rel: "path_rel base targ = Some rel" and "\<not> rel_escapes (Some rel)" and "rel \<noteq> ''.''"
    and nr: "\<not> is_rooted base" "\<not> is_rooted targ"
  shows "\<exists>below. below \<noteq> [] \<and> list_all plain below
    \<and> clean_elements False targ = clean_elements False base @ below"
proof -
  obtain up down where d: "drop_common (clean_elements False base) (clean_elements False targ) = (up, down)"
    by fastforce
  have r: "rel = join_with ''/'' (replicate (length up) ''..'' @ down)"
    and ne: "path_clean base \<noteq> path_clean targ"
    using rel d nr assms(3) by (auto simp: path_rel_def split: if_splits)
  from drop_common_append [OF d] obtain common where
    c: "clean_elements False base = common @ up" "clean_elements False targ = common @ down" by blast
  have "up = []"
  proof (rule ccontr)
    assume "up \<noteq> []"
    then obtain k where "length up = Suc k" by (cases up) auto
    with r have "rel = join_with ''/'' (''..'' # replicate k ''..'' @ down)" by simp
    then have "rel = ''..'' \<or> has_prefix rel ''../''"
      by (cases "replicate k ''..'' @ down = []") (auto simp: join_with_Cons)
    with assms(2) show False by (simp add: rel_escapes_def)
  qed
  moreover have "down \<noteq> []"
  proof
    assume "down = []"
    with c \<open>up = []\<close> have "clean_elements False base = clean_elements False targ" by simp
    with nr have "path_clean base = path_clean targ"
      by (auto simp: path_clean_def clean_elements_def push_element_def)
    with ne show False by simp
  qed
  moreover have "hd down \<noteq> ''..''"
  proof
    assume "hd down = ''..''"
    with \<open>down \<noteq> []\<close> obtain ds where "down = ''..'' # ds" by (cases down) auto
    with r \<open>up = []\<close> have "rel = ''..'' \<or> has_prefix rel ''../''"
      by (cases "ds = []") (auto simp: join_with_Cons)
    with assms(2) show False by (simp add: rel_escapes_def)
  qed
  ultimately show ?thesis
    using clean_stack_tail [of False common down] clean_stack_elements [of False targ] c
    by (intro exI [of _ down]) simp
qed

text \<open>The same for two rooted paths: a target that does not escape is the base or lies below it.\<close>

lemma path_rel_rooted:
  assumes rel: "\<not> rel_escapes (path_rel base targ)" and r: "is_rooted base" "is_rooted targ"
    and nb: "path_clean base \<noteq> ''/''"
  shows "path_clean targ = path_clean base \<or> has_prefix (path_clean targ) (path_clean base @ ''/'')"
proof (cases "path_clean base = path_clean targ")
  case False
  obtain up down where d: "drop_common (clean_elements True base) (clean_elements True targ) = (up, down)"
    by fastforce
  have st: "clean_stack True (clean_elements True base)" "clean_stack True (clean_elements True targ)"
    by (rule clean_stack_elements)+
  from drop_common_append [OF d] obtain common where
    c: "clean_elements True base = common @ up" "clean_elements True targ = common @ down" by blast
  obtain r' where r': "path_rel base targ = Some r'" using rel by (auto simp: rel_escapes_def split: option.splits)
  then have r'': "r' = join_with ''/'' (replicate (length up) ''..'' @ down)"
    using False d r by (auto simp: path_rel_def split: if_splits)
  have "up = []"
  proof (rule ccontr)
    assume "up \<noteq> []"
    then obtain k where "length up = Suc k" by (cases up) auto
    with r'' have "r' = join_with ''/'' (''..'' # replicate k ''..'' @ down)" by simp
    then have "r' = ''..'' \<or> has_prefix r' ''../''"
      by (cases "replicate k ''..'' @ down = []") (auto simp: join_with_Cons)
    with rel r' show False by (simp add: rel_escapes_def)
  qed
  have ne: "path_clean base = ''/'' @ join_with ''/'' (clean_elements True base)"
    "path_clean targ = ''/'' @ join_with ''/'' (clean_elements True targ)"
    using r by (auto simp: path_clean_def is_rooted_def)
  with False nb c \<open>up = []\<close> have "down \<noteq> []" "common \<noteq> []" by auto
  then have "path_clean targ = (path_clean base @ ''/'') @ join_with ''/'' down"
    using ne c \<open>up = []\<close> by (simp add: join_with_append)
  then show ?thesis by (metis has_prefix_append)
qed simp

lemma path_clean_rooted: "is_rooted p \<Longrightarrow> is_rooted (path_clean p)"
  by (auto simp: path_clean_def is_rooted_def)

lemma path_join_rooted: "is_rooted a \<Longrightarrow> is_rooted (path_join a b)"
  by (cases a) (auto simp: path_join_def path_clean_def is_rooted_def)

lemma path_dir_rooted: "is_rooted p \<Longrightarrow> is_rooted (path_dir p)"
proof -
  assume "is_rooted p"
  then obtain q where p: "p = CHR ''/'' # q" by (auto simp: is_rooted_def has_prefix_iff)
  have "\<exists>ys. dropWhile (\<lambda>c. c \<noteq> CHR ''/'') (rev p) = ys @ [CHR ''/'']"
    using p by (cases "CHR ''/'' \<in> set q") (auto simp: dropWhile_append)
  then obtain ys where "dropWhile (\<lambda>c. c \<noteq> CHR ''/'') (rev p) = ys @ [CHR ''/'']" ..
  then have "is_rooted (rev (dropWhile (\<lambda>c. c \<noteq> CHR ''/'') (rev p)))" by (auto simp: is_rooted_def)
  then show "is_rooted (path_dir p)" unfolding path_dir_def by (rule path_clean_rooted)
qed

text \<open>
  A path whose cleaned form does not start with \<open>..\<close> never leaves the directory it is joined to, at
  no point of the walk; so it may be cleaned before or after joining.
\<close>

lemma dotdot_stays:
  "es \<noteq> [] \<Longrightarrow> hd es = ''..'' \<Longrightarrow>
   foldl (push_element False) es xs \<noteq> [] \<and> hd (foldl (push_element False) es xs) = ''..''"
proof (induction xs arbitrary: es)
  case (Cons x xs)
  have "push_element False es x \<noteq> [] \<and> hd (push_element False es x) = ''..''"
  proof (cases "x = ''..'' \<and> last es \<noteq> ''..''")
    case True
    with Cons.prems obtain a b bs where "es = a # b # bs" by (cases es; cases "tl es") auto
    with True Cons.prems show ?thesis by (simp add: push_element_def)
  next
    case False
    with Cons.prems show ?thesis by (auto simp: push_element_def)
  qed
  with Cons.IH show ?case by simp
qed simp

lemma foldl_push_above:
  assumes "list_all plain es" and "\<And>x. x \<in> set xs \<Longrightarrow> CHR ''/'' \<notin> set x"
    and "list_all plain (foldl (push_element False) es xs)"
  shows "foldl (push_element rooted) (ds @ es) xs = ds @ foldl (push_element False) es xs"
  using assms
proof (induction xs arbitrary: es)
  case (Cons x xs)
  consider "x = [] \<or> x = ''.''" | "x = ''..''" "es \<noteq> []" | "x = ''..''" "es = []" | "plain x"
    using Cons.prems(2) by (auto simp: plain_def)
  then show ?case
  proof cases
    case 1
    with Cons show ?thesis by (simp add: push_element_def)
  next
    case 2
    then have "last es \<noteq> ''..''" using Cons.prems(1) by (auto simp: list_all_iff plain_def)
    with 2 have "push_element rooted (ds @ es) x = ds @ butlast es" "push_element False es x = butlast es"
      by (auto simp: push_element_def butlast_append)
    moreover have "list_all plain (butlast es)"
      using Cons.prems(1) by (auto simp: list_all_iff dest: in_set_butlastD)
    ultimately show ?thesis using Cons by simp
  next
    case 3
    then have "push_element False es x = [''..'']" by (simp add: push_element_def)
    with dotdot_stays [of "[''..'']" xs] Cons.prems(3) have False
      by (cases "foldl (push_element False) [''..''] xs") (auto simp: plain_def)
    then show ?thesis ..
  next
    case 4
    moreover have "list_all plain (es @ [x])" using Cons.prems(1) 4 by simp
    ultimately show ?thesis using Cons.IH [of "es @ [x]"] Cons.prems by simp
  qed
qed simp

lemma clean_elements_plain:
  assumes "\<not> is_rooted r" "path_clean r \<noteq> ''..''" "\<not> has_prefix (path_clean r) ''../''"
  shows "list_all plain (clean_elements False r)"
proof (cases "clean_elements False r = []")
  case False
  have "r \<noteq> []" using False by (auto simp: clean_elements_def push_element_def)
  then have p: "path_clean r = join_with ''/'' (clean_elements False r)"
    using False assms(1) by (simp add: path_clean_def)
  have "hd (clean_elements False r) \<noteq> ''..''"
  proof
    assume "hd (clean_elements False r) = ''..''"
    with False obtain rest where "clean_elements False r = ''..'' # rest"
      by (cases "clean_elements False r") auto
    with p assms(2,3) show False by (cases "rest = []") (auto simp: join_with_Cons)
  qed
  with False clean_stack_tail [of False "[]" "clean_elements False r"] clean_stack_elements
  show ?thesis by simp
qed simp

lemma path_join_clean:
  assumes m: "path_clean m = m" "is_rooted m" "m \<noteq> ''/''"
    and r: "r \<noteq> []" "\<not> is_rooted r" "path_clean r \<noteq> ''..''" "\<not> has_prefix (path_clean r) ''../''"
  shows "path_join m r = m \<or> path_join m r = m @ ''/'' @ path_clean r"
proof -
  obtain ms where ms: "ms \<noteq> []" "list_all plain ms" "m = ''/'' @ join_with ''/'' ms"
    by (rule clean_rooted [OF m])
  let ?rs = "clean_elements False r"
  have rs: "list_all plain ?rs" by (rule clean_elements_plain [OF r(2-4)])
  have st: "clean_stack True ms" using ms(2) by (auto simp: clean_stack_def)
  have em: "clean_elements True m = ms"
    using clean_elements_join [OF st ms(1)] ms(3) by (simp add: clean_elements_slash)
  have "clean_elements True (m @ ''/'' @ r) = foldl (push_element True) ms (split_on (CHR ''/'') r)"
    using em by (simp add: clean_elements_def split_on_append_sep)
  also have "\<dots> = ms @ ?rs"
    using foldl_push_above [of "[]" "split_on (CHR ''/'') r" True ms] rs split_on_no_sep
    unfolding clean_elements_def by fastforce
  finally have e: "clean_elements True (m @ ''/'' @ r) = ms @ ?rs" .
  have "is_rooted (m @ ''/'' @ r)" using ms(3) by (simp add: is_rooted_def)
  then have j: "path_join m r = ''/'' @ join_with ''/'' (ms @ ?rs)"
    using e ms(3) r(1) by (simp add: path_join_def path_clean_def)
  show ?thesis
  proof (cases "?rs = []")
    case True
    with j ms(3) show ?thesis by simp
  next
    case False
    then have "path_clean r = join_with ''/'' ?rs" using r(1,2) by (simp add: path_clean_def)
    with j join_with_append [OF ms(1) False] ms(3) show ?thesis by simp
  qed
qed

section \<open>ParseDuration\<close>

definition duration_unit :: "string \<Rightarrow> nat option" where
  "duration_unit u =
     (if u = ''ns'' then Some 1
      else if u = ''us'' \<or> u = [CHR 0xC2, CHR 0xB5, CHR ''s''] \<or> u = [CHR 0xCE, CHR 0xBC, CHR ''s'']
        then Some 1000
      else if u = ''ms'' then Some 1000000
      else if u = ''s'' then Some 1000000000
      else if u = ''m'' then Some 60000000000
      else if u = ''h'' then Some 3600000000000
      else None)"

definition leading_int :: "string \<Rightarrow> nat option" where
  "leading_int ds = (if digits_val ds > 2 ^ 63 then None else Some (digits_val ds))"

text \<open>Digits of a fraction count until the numerator would overflow; the rest is skipped.\<close>

fun leading_fraction :: "nat \<Rightarrow> nat \<Rightarrow> string \<Rightarrow> nat \<times> nat" where
  "leading_fraction f scale [] = (f, scale)"
| "leading_fraction f scale (d # ds) =
     (if f > (2 ^ 63 - 1) div 10 \<or> 10 * f + digit_val d > 2 ^ 63 then (f, scale)
      else leading_fraction (10 * f + digit_val d) (10 * scale) ds)"

definition is_number_char :: "char \<Rightarrow> bool" where
  "is_number_char c \<longleftrightarrow> c = CHR ''.'' \<or> is_digit c"

function duration_loop :: "nat \<Rightarrow> string \<Rightarrow> nat option" where
  "duration_loop d s =
     (if s = [] then Some d
      else if \<not> is_number_char (hd s) then None
      else
        (let ints = takeWhile is_digit s; s1 = dropWhile is_digit s;
             dot = s1 \<noteq> [] \<and> hd s1 = CHR ''.'';
             s2 = (if dot then tl s1 else s1);
             fracs = (if dot then takeWhile is_digit s2 else []);
             s3 = (if dot then dropWhile is_digit s2 else s2);
             u = takeWhile (\<lambda>c. \<not> is_number_char c) s3;
             s4 = dropWhile (\<lambda>c. \<not> is_number_char c) s3
         in case leading_int ints of None \<Rightarrow> None
            | Some v \<Rightarrow>
              if ints = [] \<and> fracs = [] then None
              else if u = [] then None
              else case duration_unit u of None \<Rightarrow> None
                | Some unit \<Rightarrow>
                  if v > 2 ^ 63 div unit then None
                  else (case leading_fraction 0 1 fracs of (f, scale) \<Rightarrow>
                    let v' = v * unit + f * unit div scale
                    in if v' > 2 ^ 63 \<or> d + v' > 2 ^ 63 then None
                       else duration_loop (d + v') s4)))"
  by pat_completeness auto
termination
proof (relation "measure (\<lambda>(d, s). length s)")
  fix d :: nat and s ints s1 :: string and dot s2 fracs s3 u s4
  assume "s \<noteq> []" and "s1 = dropWhile is_digit s" and "s2 = (if dot then tl s1 else s1)"
    and "s3 = (if dot then dropWhile is_digit s2 else s2)"
    and u: "u = takeWhile (\<lambda>c. \<not> is_number_char c) s3" "u \<noteq> []"
    and s4: "s4 = dropWhile (\<lambda>c. \<not> is_number_char c) s3"
  have "length s1 \<le> length s" using \<open>s1 = _\<close> length_dropWhile_le [of is_digit s] by simp
  moreover have "length s2 \<le> length s1" using \<open>s2 = _\<close> by simp
  moreover have "length s3 \<le> length s2"
    using \<open>s3 = _\<close> length_dropWhile_le [of is_digit s2] by (cases dot) simp_all
  moreover have "length s3 = length u + length s4"
    unfolding u(1) s4 by (metis length_append takeWhile_dropWhile_id)
  ultimately show "\<And>a b c e f. ((d + a, s4), (d, s)) \<in> measure (\<lambda>(d, s). length s)"
    using u(2) by (simp, metis add_diff_cancel_left' diff_is_0_eq leD le_trans length_greater_0_conv
        less_add_same_cancel2 not_le_imp_less)
qed auto

declare duration_loop.simps [simp del]

definition parse_duration :: "string \<Rightarrow> int option" where
  "parse_duration s =
     (let neg = (s \<noteq> [] \<and> hd s = CHR ''-'');
          s1 = (if s \<noteq> [] \<and> (hd s = CHR ''-'' \<or> hd s = CHR ''+'') then tl s else s)
      in if s1 = ''0'' then Some 0
         else if s1 = [] then None
         else case duration_loop 0 s1 of None \<Rightarrow> None
           | Some d \<Rightarrow> if neg then Some (- int d)
                      else if d > 2 ^ 63 - 1 then None else Some (int d))"

end
