(* ===== verification/Target.thy ===== *)
theory Target
  imports Errs
begin

text \<open>
  Package \<open>internal/target\<close>: the targets the program accepts, and what it uses of \<open>net/url\<close> and
  \<open>net\<close>. \<open>url_parse\<close> is \<open>url.Parse\<close> up to the fields that \<open>Parse\<close> reads; \<open>parse_ip\<close> says when
  \<open>net.ParseIP\<close> accepts a string.
\<close>

section \<open>net.ParseIP\<close>

text \<open>Four decimal fields without leading zeros, each at most 255.\<close>

definition ipv4_field :: "string \<Rightarrow> bool" where
  "ipv4_field f \<longleftrightarrow> f \<noteq> [] \<and> list_all is_digit f \<and> length f \<le> 3 \<and> digits_val f \<le> 255
     \<and> (hd f = CHR ''0'' \<longrightarrow> length f = 1)"

definition parse_ipv4 :: "string \<Rightarrow> bool" where
  "parse_ipv4 s \<longleftrightarrow> (let fs = split_on (CHR ''.'') s in length fs = 4 \<and> list_all ipv4_field fs)"

text \<open>
  The loop over the groups of 16 bits: the first argument counts the groups that still fit; the
  Boolean says that \<open>::\<close> has been seen. A shorter address needs the ellipsis, a full one must not
  have it.
\<close>

fun ipv6_groups :: "nat \<Rightarrow> bool \<Rightarrow> string \<Rightarrow> bool" where
  "ipv6_groups 0 ellipsis s = (s = [] \<and> \<not> ellipsis)"
| "ipv6_groups (Suc n) ellipsis s =
     (let hex = takeWhile is_hex s; rest = dropWhile is_hex s
      in if hex = [] \<or> length hex > 4 then False
         else if rest \<noteq> [] \<and> hd rest = CHR ''.'' then
           (n = 1 \<or> (ellipsis \<and> n \<ge> 1)) \<and> parse_ipv4 s \<and> (n > 1) = ellipsis
         else if rest = [] then (n > 0) = ellipsis
         else if hd rest \<noteq> CHR '':'' \<or> tl rest = [] then False
         else if hd (tl rest) = CHR '':'' then
           (if ellipsis then False
            else if tl (tl rest) = [] then n > 0
            else ipv6_groups n True (tl (tl rest)))
         else ipv6_groups n ellipsis (tl rest))"

definition parse_ipv6 :: "string \<Rightarrow> bool" where
  "parse_ipv6 s =
     (if has_prefix s ''::'' then s = ''::'' \<or> ipv6_groups 8 True (drop 2 s)
      else ipv6_groups 8 False s)"

fun parse_ip_by :: "string \<Rightarrow> string \<Rightarrow> bool" where
  "parse_ip_by s [] = False"
| "parse_ip_by s (c # cs) =
     (if c = CHR ''.'' then parse_ipv4 s
      else if c = CHR '':'' then parse_ipv6 s
      else if c = CHR ''%'' then False
      else parse_ip_by s cs)"

definition parse_ip :: "string \<Rightarrow> bool" where
  "parse_ip s = parse_ip_by s s"

section \<open>net/url\<close>

record url =
  url_scheme :: string
  url_user :: "(string \<times> string option) option"
  url_host :: string
  url_path :: string
  url_raw_query :: string
  url_fragment :: string

datatype escape_mode = EncodeOther | EncodeHost | EncodeZone

definition unreserved :: "char \<Rightarrow> bool" where
  "unreserved c \<longleftrightarrow> is_alnum c \<or> c \<in> set ''-_.~''"

definition host_char :: "char \<Rightarrow> bool" where
  "host_char c \<longleftrightarrow> unreserved c \<or> c \<in> set ''!$&()*+,;=:[]<>'' \<or> c = CHR 0x27 \<or> c = CHR 0x22"

definition unhex :: "char \<Rightarrow> nat" where
  "unhex c = (if is_digit c then of_char c - 48
     else if CHR ''a'' \<le> c then of_char c - 87 else of_char c - 55)"

fun unescape :: "escape_mode \<Rightarrow> string \<Rightarrow> string option" where
  "unescape mode [] = Some []"
| "unescape mode (c # cs) =
     (if c = CHR ''%'' then
        (case cs of
           a # b # rest \<Rightarrow>
             (let v = char_of (16 * unhex a + unhex b) in
              if \<not> is_hex a \<or> \<not> is_hex b then None
              else if mode = EncodeHost \<and> unhex a < 8 \<and> \<not> (a = CHR ''2'' \<and> b = CHR ''5'') then None
              else if mode = EncodeZone \<and> \<not> (a = CHR ''2'' \<and> b = CHR ''5'') \<and> v \<noteq> CHR '' '' \<and> \<not> host_char v
                then None
              else map_option (Cons v) (unescape mode rest))
         | _ \<Rightarrow> None)
      else if mode \<noteq> EncodeOther \<and> c < CHR 0x80 \<and> \<not> host_char c then None
      else map_option (Cons c) (unescape mode cs))"

definition last_index :: "char \<Rightarrow> string \<Rightarrow> (string \<times> string) option" where
  "last_index d s =
     (if d \<in> set s
      then Some (rev (tl (dropWhile (\<lambda>c. c \<noteq> d) (rev s))), rev (takeWhile (\<lambda>c. c \<noteq> d) (rev s)))
      else None)"

definition valid_optional_port :: "string \<Rightarrow> bool" where
  "valid_optional_port p \<longleftrightarrow> p = [] \<or> (hd p = CHR '':'' \<and> list_all is_digit (tl p))"

text \<open>The part of \<open>s\<close> before the first occurrence of \<open>p\<close>, and the rest from there.\<close>

fun split_before :: "string \<Rightarrow> string \<Rightarrow> (string \<times> string) option" where
  "split_before p [] = (if p = [] then Some ([], []) else None)"
| "split_before p (c # cs) =
     (if has_prefix (c # cs) p then Some ([], c # cs)
      else map_option (apfst (Cons c)) (split_before p cs))"

definition parse_host :: "string \<Rightarrow> string option" where
  "parse_host host =
     (if has_prefix host ''['' then
        (case last_index (CHR '']'') host of
           None \<Rightarrow> None
         | Some (pre, colon_port) \<Rightarrow>
             if \<not> valid_optional_port colon_port then None
             else (case split_before ''%25'' pre of
                 None \<Rightarrow> unescape EncodeHost host
               | Some (h, zone) \<Rightarrow>
                   (case (unescape EncodeHost h, unescape EncodeZone zone,
                          unescape EncodeHost (CHR '']'' # colon_port)) of
                      (Some a, Some b, Some c) \<Rightarrow> Some (a @ b @ c) | _ \<Rightarrow> None)))
      else (case last_index (CHR '':'') host of
          None \<Rightarrow> unescape EncodeHost host
        | Some (_, port) \<Rightarrow>
            if \<not> valid_optional_port (CHR '':'' # port) then None else unescape EncodeHost host))"

definition userinfo_char :: "char \<Rightarrow> bool" where
  "userinfo_char c \<longleftrightarrow> is_alnum c \<or> c \<in> set ''-._:~!$&()*+,;=%@'' \<or> c = CHR 0x27"

definition parse_authority :: "string \<Rightarrow> ((string \<times> string option) option \<times> string) option" where
  "parse_authority authority =
     (case last_index (CHR ''@'') authority of
        None \<Rightarrow> map_option (Pair None) (parse_host authority)
      | Some (userinfo, h) \<Rightarrow>
          (case parse_host h of None \<Rightarrow> None
           | Some host \<Rightarrow>
              if \<not> list_all userinfo_char userinfo then None
              else (case cut_byte (CHR '':'') userinfo of (u, p, found) \<Rightarrow>
                (case (unescape EncodeOther u, unescape EncodeOther p) of
                   (Some user, Some password) \<Rightarrow>
                     Some (Some (user, if found then Some password else None), host)
                 | _ \<Rightarrow> None))))"

text \<open>\<open>getScheme\<close>: None is the error, else the scheme (maybe empty) and the rest.\<close>

fun get_scheme :: "string \<Rightarrow> string \<Rightarrow> string \<Rightarrow> (string \<times> string) option" where
  "get_scheme raw seen [] = Some ([], raw)"
| "get_scheme raw seen (c # cs) =
     (if is_lower c \<or> is_upper c then get_scheme raw (seen @ [c]) cs
      else if is_digit c \<or> c \<in> set ''+-.'' then
        (if seen = [] then Some ([], raw) else get_scheme raw (seen @ [c]) cs)
      else if c = CHR '':'' then (if seen = [] then None else Some (seen, cs))
      else Some ([], raw))"

definition cut_query :: "string \<Rightarrow> string \<times> string" where
  "cut_query rest = (case cut_byte (CHR ''?'') rest of (a, b, _) \<Rightarrow> (a, b))"

definition url_of :: "string \<Rightarrow> (string \<times> string option) option \<Rightarrow> string \<Rightarrow> string \<Rightarrow> string \<Rightarrow> url" where
  "url_of scheme user host pth query =
     \<lparr>url_scheme = scheme, url_user = user, url_host = host, url_path = pth,
      url_raw_query = query, url_fragment = []\<rparr>"

definition url_parse_main :: "string \<Rightarrow> url option" where
  "url_parse_main raw =
     (if list_ex is_control raw then None
      else if raw = ''*'' then Some (url_of [] None [] ''*'' [])
      else case get_scheme raw [] raw of None \<Rightarrow> None
      | Some (s, rest0) \<Rightarrow>
        (let scheme = to_lower s in
         case cut_query rest0 of (rest, query) \<Rightarrow>
           if \<not> has_prefix rest ''/'' \<and> scheme \<noteq> [] then Some (url_of scheme None [] [] query)
           else if \<not> has_prefix rest ''/'' \<and> CHR '':'' \<in> set (takeWhile (\<lambda>c. c \<noteq> CHR ''/'') rest) then None
           else if (scheme \<noteq> [] \<or> \<not> has_prefix rest ''///'') \<and> has_prefix rest ''//'' then
             (let a = drop 2 rest;
                  authority = takeWhile (\<lambda>c. c \<noteq> CHR ''/'') a; p = dropWhile (\<lambda>c. c \<noteq> CHR ''/'') a
              in case parse_authority authority of None \<Rightarrow> None
                 | Some (user, host) \<Rightarrow>
                     map_option (\<lambda>pth. url_of scheme user host pth query) (unescape EncodeOther p))
           else map_option (\<lambda>pth. url_of scheme None [] pth query) (unescape EncodeOther rest)))"

definition url_parse :: "string \<Rightarrow> url option" where
  "url_parse raw =
     (case cut_byte (CHR ''#'') raw of (u, frag, _) \<Rightarrow>
        case url_parse_main u of None \<Rightarrow> None
        | Some parsed \<Rightarrow>
            map_option (\<lambda>f. parsed\<lparr>url_fragment := f\<rparr>) (unescape EncodeOther frag))"

text \<open>\<open>Hostname()\<close> and \<open>Port()\<close>.\<close>

definition split_host_port :: "string \<Rightarrow> string \<times> string" where
  "split_host_port hp =
     (let (h, p) = (case last_index (CHR '':'') hp of
            Some (pre, post) \<Rightarrow>
              if valid_optional_port (CHR '':'' # post) then (pre, post) else (hp, [])
          | None \<Rightarrow> (hp, []))
      in (if has_prefix h ''['' \<and> has_suffix h '']'' then (butlast (tl h), p) else (h, p)))"

section \<open>Targets\<close>

datatype kind = Local | SSH

record target =
  tg_kind :: kind
  tg_user :: string
  tg_host :: string
  tg_port :: int

definition local_target :: target where
  "local_target = \<lparr>tg_kind = Local, tg_user = [], tg_host = [], tg_port = 0\<rparr>"

definition user_pattern :: "string \<Rightarrow> bool" where
  "user_pattern s \<longleftrightarrow> s \<noteq> [] \<and> (is_lower (hd s) \<or> is_upper (hd s) \<or> hd s = CHR ''_'')
     \<and> list_all (\<lambda>c. is_alnum c \<or> c \<in> set ''_.-'') (tl s)"

definition host_pattern :: "string \<Rightarrow> bool" where
  "host_pattern s \<longleftrightarrow> s \<noteq> [] \<and> is_alnum (hd s) \<and> list_all (\<lambda>c. is_alnum c \<or> c \<in> set ''._-'') (tl s)"

definition parse_target :: "string \<Rightarrow> target result" where
  "parse_target raw =
     (if raw = [] \<or> raw = ''local'' then Inr local_target
      else case url_parse raw of
        None \<Rightarrow> Inl (Coded TargetInvalid ''invalid target'' (Some (errorf ''parse'')))
      | Some u \<Rightarrow>
          (case url_user u of
             None \<Rightarrow> Inl (coded TargetInvalid ''target must be local or ssh://user@host[:port]'')
           | Some (user, password) \<Rightarrow>
             if url_scheme u \<noteq> ''ssh'' \<or> url_host u = [] \<or> user = []
             then Inl (coded TargetInvalid ''target must be local or ssh://user@host[:port]'')
             else if password \<noteq> None \<or> url_raw_query u \<noteq> [] \<or> url_fragment u \<noteq> []
               \<or> (url_path u \<noteq> [] \<and> url_path u \<noteq> ''/'')
             then Inl (coded TargetInvalid
               ''SSH targets cannot include passwords, paths, queries, or fragments'')
             else (case split_host_port (url_host u) of (host, raw_port) \<Rightarrow>
               if \<not> user_pattern user
               then Inl (coded TargetInvalid ''SSH user contains unsupported characters'')
               else if \<not> parse_ip host \<and> \<not> host_pattern host
               then Inl (coded TargetInvalid ''SSH host contains unsupported characters'')
               else if raw_port \<noteq> [] \<and> (digits_val raw_port < 1 \<or> digits_val raw_port > 65535)
               then Inl (coded TargetInvalid ''SSH port must be between 1 and 65535'')
               else Inr \<lparr>tg_kind = SSH, tg_user = user, tg_host = host,
                 tg_port = (if raw_port = [] then 0 else int (digits_val raw_port))\<rparr>)))"

definition target_string :: "target \<Rightarrow> string" where
  "target_string t =
     (if tg_kind t = Local then ''local''
      else let host = (if str_contains (tg_host t) '':'' then ''['' @ tg_host t @ '']'' else tg_host t)
           in if tg_port t \<noteq> 0
              then ''ssh://'' @ tg_user t @ ''@'' @ host @ '':'' @ show_int (tg_port t)
              else ''ssh://'' @ tg_user t @ ''@'' @ host)"

section \<open>Lemmas\<close>

text \<open>The bytes of a target's host: no \<open>%\<close>, no delimiter of a URL but the colon.\<close>

definition host_byte :: "char \<Rightarrow> bool" where
  "host_byte c \<longleftrightarrow> is_alnum c \<or> c \<in> set ''._-:''"

lemma host_byte_safe:
  assumes "host_byte c \<or> c = CHR ''['' \<or> c = CHR '']''"
  shows "c \<noteq> CHR ''#''" "c \<noteq> CHR ''?''" "c \<noteq> CHR ''/''" "c \<noteq> CHR ''@''" "c \<noteq> CHR ''%''"
    "\<not> is_control c" "host_char c"
  using assms
  by (auto simp: host_byte_def host_char_def unreserved_def is_control_def char_class_defs
      less_eq_char_def less_char_def)

lemma host_byte_no_bracket: "host_byte c \<Longrightarrow> c \<noteq> CHR '']'' \<and> c \<noteq> CHR ''[''"
  by (auto simp: host_byte_def char_class_defs less_eq_char_def)

lemma user_bytes: "user_pattern u \<Longrightarrow> c \<in> set u \<Longrightarrow> is_alnum c \<or> c \<in> set ''_.-''"
  by (cases u) (auto simp: user_pattern_def list_all_iff is_alnum_def)

lemma host_pattern_bytes: "host_pattern h \<Longrightarrow> c \<in> set h \<Longrightarrow> host_byte c \<and> c \<noteq> CHR '':''"
  by (cases h) (auto simp: host_pattern_def list_all_iff host_byte_def char_class_defs less_eq_char_def)

lemma user_byte_safe:
  assumes "user_pattern u" and "c \<in> set u"
  shows "c \<noteq> CHR ''#''" "c \<noteq> CHR ''?''" "c \<noteq> CHR ''/''" "c \<noteq> CHR ''@''" "c \<noteq> CHR ''%''" "c \<noteq> CHR '':''"
    "\<not> is_control c" "userinfo_char c" "host_char c"
  using user_bytes [OF assms]
  by (auto simp: host_char_def userinfo_char_def unreserved_def is_control_def char_class_defs
      less_eq_char_def less_char_def)

lemma is_hex_host_byte: "is_hex c \<Longrightarrow> host_byte c"
  by (auto simp: host_byte_def char_class_defs less_eq_char_def)

lemma split_on_bytes: "c \<in> set s \<Longrightarrow> c = d \<or> (\<exists>p\<in>set (split_on d s). c \<in> set p)"
proof (induction s)
  case (Cons x s)
  then show ?case by (cases "split_on d s") (auto split: list.splits)
qed simp

lemma parse_ipv4_bytes:
  assumes "parse_ipv4 s" and "c \<in> set s"
  shows "is_digit c \<or> c = CHR ''.''"
proof -
  from split_on_bytes [OF assms(2), of "CHR ''.''"] assms(1) show ?thesis
    by (auto simp: parse_ipv4_def ipv4_field_def Let_def list_all_iff)
qed

lemma ipv6_groups_bytes: "ipv6_groups n e s \<Longrightarrow> c \<in> set s \<Longrightarrow> is_hex c \<or> c = CHR '':'' \<or> c = CHR ''.''"
proof (induction n e s rule: ipv6_groups.induct)
  case (2 n e s)
  let ?rest = "dropWhile is_hex s"
  have hex: "\<And>x. x \<in> set (takeWhile is_hex s) \<Longrightarrow> is_hex x" by (meson set_takeWhileD)
  have s: "set s = set (takeWhile is_hex s) \<union> set ?rest"
    by (metis set_append takeWhile_dropWhile_id)
  show ?case
  proof (cases "?rest = [] \<or> hd ?rest = CHR ''.''")
    case True
    with "2.prems" s hex parse_ipv4_bytes [of s c] show ?thesis
      by (auto simp: Let_def is_hex_def split: if_splits)
  next
    case False
    then obtain t where t: "?rest = CHR '':'' # t" "t \<noteq> []"
      using "2.prems" by (cases ?rest) (auto simp: Let_def split: if_splits)
    consider "c \<in> set (takeWhile is_hex s)" | "c = CHR '':''" | "c \<in> set t"
      using "2.prems"(2) s t by auto
    then show ?thesis
    proof cases
      case 3
      show ?thesis
      proof (cases "hd t = CHR '':''")
        case True
        with 3 t(2) have "c = CHR '':'' \<or> c \<in> set (tl t)" by (cases t) auto
        with "2.IH"(1) "2.prems" t True False show ?thesis
          by (cases "tl t = []") (auto simp: Let_def split: if_splits)
      next
        case nc: False
        with "2.IH"(2) "2.prems" t 3 False show ?thesis
          by (auto simp: Let_def split: if_splits)
      qed
    qed (auto simp: hex)
  qed
qed auto

lemma parse_ip_bytes: "parse_ip h \<Longrightarrow> c \<in> set h \<Longrightarrow> host_byte c"
proof -
  have by_cases: "parse_ip_by s t \<Longrightarrow> parse_ipv4 s \<or> parse_ipv6 s" for s t
    by (induction s t rule: parse_ip_by.induct) (auto split: if_splits)
  assume "parse_ip h" and c: "c \<in> set h"
  then consider "parse_ipv4 h" | "parse_ipv6 h" by (auto simp: parse_ip_def dest: by_cases)
  then have "is_hex c \<or> c = CHR '':'' \<or> c = CHR ''.''"
  proof cases
    case 1
    then show ?thesis using parse_ipv4_bytes [OF _ c] by (auto simp: is_hex_def)
  next
    case 2
    show ?thesis
    proof (cases "has_prefix h ''::''")
      case True
      then obtain t where t: "h = ''::'' @ t" by (auto simp: has_prefix_iff)
      with 2 c show ?thesis
        using ipv6_groups_bytes [of 8 True t c] by (auto simp: parse_ipv6_def)
    next
      case False
      with 2 c show ?thesis using ipv6_groups_bytes by (auto simp: parse_ipv6_def)
    qed
  qed
  then show ?thesis using is_hex_host_byte by (auto simp: host_byte_def)
qed

lemma last_index_append: "d \<notin> set b \<Longrightarrow> last_index d (a @ d # b) = Some (a, b)"
  by (simp add: last_index_def dropWhile_append takeWhile_append)

lemma last_index_none: "d \<notin> set s \<Longrightarrow> last_index d s = None"
  by (simp add: last_index_def)

lemma unescape_plain:
  "(\<And>c. c \<in> set s \<Longrightarrow> c \<noteq> CHR ''%'' \<and> (mode = EncodeOther \<or> host_char c)) \<Longrightarrow> unescape mode s = Some s"
proof (induction s)
  case (Cons c s)
  from Cons.prems [of c] Cons.IH Cons.prems show ?case by auto
qed simp

lemma split_before_none: "p \<noteq> [] \<Longrightarrow> hd p \<notin> set s \<Longrightarrow> split_before p s = None"
proof (induction s)
  case (Cons c s)
  then show ?case by (cases p) auto
qed simp

definition target_ok :: "target \<Rightarrow> bool" where
  "target_ok t \<longleftrightarrow> t = local_target \<or>
     (tg_kind t = SSH \<and> user_pattern (tg_user t) \<and> (parse_ip (tg_host t) \<or> host_pattern (tg_host t))
      \<and> 0 \<le> tg_port t \<and> tg_port t \<le> 65535)"

lemma parse_target_ok: "parse_target raw = Inr t \<Longrightarrow> target_ok t"
  unfolding parse_target_def target_ok_def
  by (auto split: if_splits option.splits prod.splits)

text \<open>The host and port as \<open>String\<close> prints them.\<close>

definition host_text :: "string \<Rightarrow> string" where
  "host_text h = (if CHR '':'' \<in> set h then ''['' @ h @ '']'' else h)"

definition port_text :: "int \<Rightarrow> string" where
  "port_text p = (if p \<noteq> 0 then show_int p else [])"

definition port_suffix :: "int \<Rightarrow> string" where
  "port_suffix p = (if p \<noteq> 0 then CHR '':'' # show_int p else [])"

lemma str_contains_byte: "str_contains s [c] \<longleftrightarrow> c \<in> set s"
proof (induction s)
  case (Cons x s)
  then show ?case by (cases s) auto
qed simp

lemma target_string_ssh:
  "tg_kind t = SSH \<Longrightarrow>
   target_string t = ''ssh://'' @ tg_user t @ ''@'' @ host_text (tg_host t) @ port_suffix (tg_port t)"
  by (simp add: target_string_def host_text_def port_suffix_def str_contains_byte)

lemma show_int_digits: "0 \<le> p \<Longrightarrow> c \<in> set (show_int p) \<Longrightarrow> is_digit c"
  by (auto simp: show_int_def dest: show_nat_digits)

lemma digit_not_colon: "is_digit c \<Longrightarrow> c \<noteq> CHR '':'' \<and> c \<noteq> CHR '']'' \<and> host_byte c"
  by (auto simp: host_byte_def char_class_defs less_eq_char_def)

lemma host_port_bytes:
  assumes "\<And>c. c \<in> set h \<Longrightarrow> host_byte c" and "0 \<le> p" and "c \<in> set (host_text h @ port_suffix p)"
  shows "host_byte c \<or> c = CHR ''['' \<or> c = CHR '']''"
proof -
  have "c \<in> set h \<or> c = CHR ''['' \<or> c = CHR '']'' \<or> c = CHR '':'' \<or> c \<in> set (show_int p)"
    using assms(3) by (auto simp: host_text_def port_suffix_def split: if_splits)
  moreover have "host_byte (CHR '':'')" by (simp add: host_byte_def)
  moreover have "c \<in> set (show_int p) \<Longrightarrow> host_byte c"
    using show_int_digits [OF assms(2)] digit_not_colon by simp
  ultimately show ?thesis using assms(1) by (elim disjE) simp_all
qed

lemma parse_host_text:
  assumes h: "\<And>c. c \<in> set h \<Longrightarrow> host_byte c" "h \<noteq> []" and p: "0 \<le> p"
  shows "parse_host (host_text h @ port_suffix p) = Some (host_text h @ port_suffix p)"
proof -
  have "c \<noteq> CHR ''%'' \<and> host_char c" if "c \<in> set (host_text h @ port_suffix p)" for c
    using host_byte_safe(5,7) [OF host_port_bytes [OF h(1) p that]] by simp
  then have un: "unescape EncodeHost (host_text h @ port_suffix p) = Some (host_text h @ port_suffix p)"
    by (intro unescape_plain) blast
  have port: "valid_optional_port (port_suffix p)"
    using show_int_digits [OF p] by (auto simp: valid_optional_port_def port_suffix_def list_all_iff)
  have nb: "CHR '']'' \<notin> set (port_suffix p)"
    using digit_not_colon show_int_digits [OF p] by (fastforce simp: port_suffix_def split: if_splits)
  have h1: "hd h \<noteq> CHR ''[''" using h host_byte_no_bracket [of "hd h"] by auto
  show ?thesis
  proof (cases "CHR '':'' \<in> set h")
    case True
    have "CHR ''%'' \<notin> set (CHR ''['' # h)" using h host_byte_safe(5) by fastforce
    then have "split_before ''%25'' (CHR ''['' # h) = None" by (intro split_before_none) auto
    with True un port last_index_append [OF nb, of "CHR ''['' # h"] show ?thesis
      by (simp add: parse_host_def host_text_def)
  next
    case False
    show ?thesis
    proof (cases "p = 0")
      case True
      with False un h h1 last_index_none [of "CHR '':''" h] show ?thesis
        by (cases h) (simp_all add: parse_host_def host_text_def port_suffix_def)
    next
      case np: False
      have "CHR '':'' \<notin> set (show_int p)" using show_int_digits [OF p] digit_not_colon by blast
      with np False un h h1 port last_index_append [of "CHR '':''" "show_int p" h] show ?thesis
        by (cases h) (simp_all add: parse_host_def host_text_def port_suffix_def)
    qed
  qed
qed

lemma split_host_port_text:
  assumes h: "\<And>c. c \<in> set h \<Longrightarrow> host_byte c" "h \<noteq> []" and p: "0 \<le> p"
  shows "split_host_port (host_text h @ port_suffix p) = (h, port_text p)"
proof -
  have nc: "CHR '':'' \<notin> set (show_int p)" using show_int_digits [OF p] digit_not_colon by blast
  have vp: "valid_optional_port (CHR '':'' # show_int p)"
    using show_int_digits [OF p] by (auto simp: valid_optional_port_def list_all_iff)
  have h1: "hd h \<noteq> CHR ''[''" using h host_byte_no_bracket [of "hd h"] by auto
  have np: "\<not> has_prefix h ''[''" using h1 h by (cases h) auto
  have strip: "(has_prefix (host_text h) ''['' \<and> has_suffix (host_text h) '']'' \<longrightarrow> butlast (tl (host_text h)) = h)
      \<and> (\<not> (has_prefix (host_text h) ''['' \<and> has_suffix (host_text h) '']'') \<longrightarrow> host_text h = h)"
    using np by (simp add: host_text_def has_suffix_def)
  show ?thesis
  proof (cases "p = 0")
    case False
    then have "last_index (CHR '':'') (host_text h @ port_suffix p) = Some (host_text h, show_int p)"
      using last_index_append [OF nc] by (simp add: port_suffix_def)
    then show ?thesis
      unfolding split_host_port_def using False vp strip by (simp add: port_text_def)
  next
    case True
    show ?thesis
    proof (cases "CHR '':'' \<in> set h")
      case False
      then have "last_index (CHR '':'') (host_text h) = None"
        by (simp add: host_text_def last_index_none)
      then show ?thesis
        unfolding split_host_port_def using True strip by (simp add: port_text_def port_suffix_def)
    next
      case colon: True
      obtain a b where ab: "h = a @ CHR '':'' # b" "CHR '':'' \<notin> set b"
        using colon by (metis split_list_last)
      then have "last_index (CHR '':'') (host_text h) = Some (CHR ''['' # a, b @ '']'')"
        using last_index_append [of "CHR '':''" "b @ '']''" "CHR ''['' # a"]
        by (simp add: host_text_def)
      moreover have "\<not> valid_optional_port (CHR '':'' # b @ '']'')"
        by (simp add: valid_optional_port_def char_class_defs less_eq_char_def)
      ultimately show ?thesis
        unfolding split_host_port_def using True strip by (simp add: port_text_def port_suffix_def)
    qed
  qed
qed

lemma ip_hd_not_dash:
  assumes "parse_ip s"
  shows "hd s \<noteq> CHR ''-''"
proof
  assume hd: "hd s = CHR ''-''"
  have by_cases: "parse_ip_by s t \<Longrightarrow> parse_ipv4 s \<or> parse_ipv6 s" for t
    by (induction s t rule: parse_ip_by.induct) (auto split: if_splits)
  have s: "s = CHR ''-'' # tl s" using assms hd by (cases s) (auto simp: parse_ip_def)
  then have "CHR ''-'' \<in> set s" by (metis list.set_intros(1))
  then have "\<not> parse_ipv4 s"
    using parse_ipv4_bytes [of s "CHR ''-''"] by (auto simp: char_class_defs less_eq_char_def)
  moreover have "\<not> parse_ipv6 s"
  proof -
    have "takeWhile is_hex s = []"
      using hd assms by (cases s) (auto simp: parse_ip_def char_class_defs less_eq_char_def)
    moreover have "\<not> has_prefix s ''::''" by (subst s) simp
    ultimately show ?thesis by (simp add: parse_ipv6_def eval_nat_numeral)
  qed
  ultimately show False using assms by_cases by (auto simp: parse_ip_def)
qed

lemma host_hd_not_dash: "parse_ip h \<or> host_pattern h \<Longrightarrow> h \<noteq> [] \<Longrightarrow> hd h \<noteq> CHR ''-''"
  using ip_hd_not_dash by (auto simp: host_pattern_def char_class_defs less_eq_char_def)

lemma url_parse_main_ssh:
  assumes "list_ex is_control a = False" and "\<not> has_prefix (''//'' @ a) ''///''"
    and "cut_byte (CHR ''?'') (''//'' @ a) = (''//'' @ a, [], False)"
    and "takeWhile (\<lambda>c. c \<noteq> CHR ''/'') a = a" "dropWhile (\<lambda>c. c \<noteq> CHR ''/'') a = []"
    and "parse_authority a = Some (user, h)"
  shows "url_parse_main (''ssh://'' @ a) = Some (url_of ''ssh'' user h [] [])"
proof -
  have "to_lower ''ssh'' = ''ssh''"
    by (simp add: to_lower_def lower_char_def char_class_defs less_eq_char_def)
  moreover have "list_ex is_control (''ssh://'' @ a) = False"
    using assms(1) by (simp add: is_control_def less_char_def)
  moreover have "get_scheme (''ssh://'' @ a) [] (''ssh://'' @ a) = Some (''ssh'', ''//'' @ a)"
    by (simp add: char_class_defs less_eq_char_def)
  ultimately show ?thesis
    using assms(2,3,6) by (simp add: url_parse_main_def cut_query_def assms(4,5))
qed

lemma url_parse_ssh:
  assumes u: "user_pattern u" and h: "\<And>c. c \<in> set h \<Longrightarrow> host_byte c" "h \<noteq> []" and p: "0 \<le> p"
  shows "url_parse (''ssh://'' @ u @ ''@'' @ host_text h @ port_suffix p)
    = Some (url_of ''ssh'' (Some (u, None)) (host_text h @ port_suffix p) [] [])"
proof -
  let ?hp = "host_text h @ port_suffix p"
  let ?a = "u @ ''@'' @ ?hp"
  have hp: "c \<noteq> CHR ''#''" "c \<noteq> CHR ''?''" "c \<noteq> CHR ''/''" "c \<noteq> CHR ''@''" "\<not> is_control c"
    if "c \<in> set ?hp" for c
    using host_byte_safe [OF host_port_bytes [OF h(1) p that]] by simp_all
  have at: "\<not> is_control (CHR ''@'')" by (simp add: is_control_def less_char_def)
  have a: "c \<noteq> CHR ''#'' \<and> c \<noteq> CHR ''?'' \<and> c \<noteq> CHR ''/'' \<and> \<not> is_control c" if "c \<in> set ?a" for c
  proof -
    from that consider "c \<in> set u" | "c = CHR ''@''" | "c \<in> set ?hp" by auto
    then show ?thesis
      by cases (simp_all add: user_byte_safe [OF u] hp at)
  qed
  have no: "CHR ''#'' \<notin> set ?a" "CHR ''?'' \<notin> set ?a" "list_ex is_control ?a = False"
    "\<forall>c\<in>set ?a. c \<noteq> CHR ''/''"
    using a by (auto simp only: list_ex_iff)
  have frag: "cut_byte (CHR ''#'') (''ssh://'' @ ?a) = (''ssh://'' @ ?a, [], False)"
    by (rule cut_byte_absent) (use no(1) in simp)
  have query: "cut_byte (CHR ''?'') (''//'' @ ?a) = (''//'' @ ?a, [], False)"
    by (rule cut_byte_absent) (use no(2) in simp)
  have take: "takeWhile (\<lambda>c. c \<noteq> CHR ''/'') ?a = ?a" "dropWhile (\<lambda>c. c \<noteq> CHR ''/'') ?a = []"
    using no(4) by (simp_all only: takeWhile_eq_all_conv dropWhile_eq_Nil_conv)
  have "CHR '':'' \<notin> set u" using user_byte_safe(6) [OF u] by blast
  moreover have "unescape EncodeOther u = Some u"
    by (rule unescape_plain) (simp add: user_byte_safe [OF u])
  moreover have "list_all userinfo_char u" by (simp add: list_all_iff user_byte_safe [OF u])
  moreover have "last_index (CHR ''@'') ?a = Some (u, ?hp)"
    using last_index_append [of "CHR ''@''" ?hp u] hp(4) by fastforce
  ultimately have auth: "parse_authority ?a = Some (Some (u, None), ?hp)"
    using parse_host_text [OF h p] by (simp add: parse_authority_def)
  have three: "\<not> has_prefix (''//'' @ ?a) ''///''" using a [of "hd ?a"] by (cases u) auto
  have "url_parse_main (''ssh://'' @ ?a) = Some (url_of ''ssh'' (Some (u, None)) ?hp [] [])"
    by (rule url_parse_main_ssh [OF no(3) three query take auth])
  then show ?thesis using frag by (simp add: url_parse_def url_of_def)
qed

lemma target_string_parses:
  assumes "parse_target raw = Inr t"
  shows "parse_target (target_string t) = Inr t"
proof -
  from parse_target_ok [OF assms] consider "t = local_target"
    | "tg_kind t = SSH" "user_pattern (tg_user t)" "parse_ip (tg_host t) \<or> host_pattern (tg_host t)"
      "0 \<le> tg_port t" "tg_port t \<le> 65535"
    by (auto simp: target_ok_def)
  then show ?thesis
  proof cases
    case 1
    then show ?thesis by (simp add: target_string_def parse_target_def local_target_def)
  next
    case 2
    let ?h = "tg_host t" and ?p = "tg_port t"
    have h: "\<And>c. c \<in> set ?h \<Longrightarrow> host_byte c" using 2(3) parse_ip_bytes host_pattern_bytes by blast
    have ne: "?h \<noteq> []" using 2(3) by (auto simp: parse_ip_def host_pattern_def)
    have hp: "host_text ?h \<noteq> []" using ne by (simp add: host_text_def)
    have "tg_user t \<noteq> []" using 2(2) by (simp add: user_pattern_def)
    then have u: "url_parse (target_string t)
      = Some (url_of ''ssh'' (Some (tg_user t, None)) (host_text ?h @ port_suffix ?p) [] [])"
      by (simp only: target_string_ssh [OF 2(1)] url_parse_ssh [OF 2(2) h ne 2(4)])
    have "target_string t \<noteq> [] \<and> target_string t \<noteq> ''local''"
      by (simp add: target_string_ssh [OF 2(1)])
    moreover have "tg_port t \<noteq> 0 \<Longrightarrow> \<not> nat (tg_port t) < 1 \<and> \<not> 65535 < nat (tg_port t)"
      using 2 by arith
    ultimately show ?thesis using 2 u hp \<open>tg_user t \<noteq> []\<close> split_host_port_text [OF h ne 2(4)]
      by (simp add: parse_target_def url_of_def port_text_def show_int_def)
  qed
qed

text \<open>
  Printing an accepted target and parsing it again gives the same target: \<open>Parse\<close> accepts the
  output of \<open>String\<close> for every target that \<open>Parse\<close> returned, with the user, the host (an IPv6
  address goes in and out of its brackets) and the port unchanged.
\<close>

theorem target_roundtrip:
  assumes "parse_target raw = Inr t"
  shows "parse_target (target_string t) = Inr t"
  by (rule target_string_parses [OF assms])

lemma target_roundtrip_witness:
  "parse_target (target_string \<lparr>tg_kind = SSH, tg_user = ''pi'', tg_host = ''::1'', tg_port = 0\<rparr>)
    = Inr \<lparr>tg_kind = SSH, tg_user = ''pi'', tg_host = ''::1'', tg_port = 0\<rparr>"
  by (rule target_roundtrip [of "''ssh://pi@[::1]/''"]) code_simp

text \<open>
  C37. What \<open>Parse\<close> accepts is safe as an argument of the ssh program: neither the user nor the
  host is empty or starts with a dash, both consist of letters, digits and \<open>._-:\<close> (so none holds a
  blank, a quote, a slash or an at sign), and the port fits in 16 bits.
\<close>

theorem parse_target_safe:
  assumes "parse_target raw = Inr t" and "tg_kind t = SSH"
  shows "tg_user t \<noteq> [] \<and> hd (tg_user t) \<noteq> CHR ''-'' \<and> tg_host t \<noteq> [] \<and> hd (tg_host t) \<noteq> CHR ''-''
    \<and> list_all host_byte (tg_user t) \<and> list_all host_byte (tg_host t)
    \<and> 0 \<le> tg_port t \<and> tg_port t \<le> 65535"
proof -
  from parse_target_ok [OF assms(1)] assms(2)
  have t: "user_pattern (tg_user t)" "parse_ip (tg_host t) \<or> host_pattern (tg_host t)"
    "0 \<le> tg_port t" "tg_port t \<le> 65535"
    by (auto simp: target_ok_def local_target_def)
  have h: "list_all host_byte (tg_host t)" "tg_host t \<noteq> []"
    using t(2) parse_ip_bytes host_pattern_bytes by (auto simp: list_all_iff parse_ip_def host_pattern_def)
  have "list_all host_byte (tg_user t)"
    using user_bytes [OF t(1)] by (auto simp: list_all_iff host_byte_def)
  moreover have "hd (tg_user t) \<noteq> CHR ''-''" "tg_user t \<noteq> []"
    using t(1) by (auto simp: user_pattern_def char_class_defs less_eq_char_def)
  moreover have "hd (tg_host t) \<noteq> CHR ''-''" using t(2) h(2) by (rule host_hd_not_dash)
  ultimately show ?thesis using h t by simp
qed

lemma parse_target_safe_witness:
  "list_all host_byte ''raspberrypi.local''"
proof -
  have "parse_target ''ssh://pi@raspberrypi.local'' = Inr
    \<lparr>tg_kind = SSH, tg_user = ''pi'', tg_host = ''raspberrypi.local'', tg_port = 0\<rparr>"
    by code_simp
  from parse_target_safe [OF this] show ?thesis by simp
qed

end
