(* ===== verification/Config_Base.thy ===== *)
theory Config_Base
  imports Go_Path Target
begin

text \<open>
  What the three files of package \<open>internal/config\<close> share: the regular expressions of names, the
  validators of controller and target paths, and the quantities of bytes. A validator returns
  \<open>Inr ()\<close> or the error of the first test that fails, in the order of the code.
\<close>

section \<open>Patterns\<close>

text \<open>The anchored expressions \<open>^[first][rest]{lo,hi}$\<close>.\<close>

definition pattern_of :: "(char \<Rightarrow> bool) \<Rightarrow> (char \<Rightarrow> bool) \<Rightarrow> nat \<Rightarrow> nat \<Rightarrow> string \<Rightarrow> bool" where
  "pattern_of first others lo hi s \<longleftrightarrow>
     s \<noteq> [] \<and> first (hd s) \<and> list_all others (tl s) \<and> lo \<le> length (tl s) \<and> length (tl s) \<le> hi"

definition name_pattern :: "string \<Rightarrow> bool" where
  "name_pattern = pattern_of is_alnum (\<lambda>c. is_alnum c \<or> c \<in> set ''._-'') 0 62"

definition service_name_pattern :: "string \<Rightarrow> bool" where
  "service_name_pattern = pattern_of is_lower (\<lambda>c. is_lower c \<or> is_digit c \<or> c = CHR ''-'') 0 62"

definition filesystem_uuid_pattern :: "string \<Rightarrow> bool" where
  "filesystem_uuid_pattern = pattern_of is_alnum (\<lambda>c. is_alnum c \<or> c = CHR ''-'') 7 63"

definition filesystem_type_pattern :: "string \<Rightarrow> bool" where
  "filesystem_type_pattern =
     pattern_of (\<lambda>c. is_lower c \<or> is_digit c) (\<lambda>c. is_lower c \<or> is_digit c \<or> c \<in> set ''._+-'') 0 31"

definition docker_volume_key_pattern :: "string \<Rightarrow> bool" where
  "docker_volume_key_pattern = pattern_of is_alnum (\<lambda>c. is_alnum c \<or> c \<in> set ''_.-'') 0 127"

definition notification_environment_name :: "string \<Rightarrow> bool" where
  "notification_environment_name =
     pattern_of (\<lambda>c. is_lower c \<or> is_upper c \<or> c = CHR ''_'') (\<lambda>c. is_alnum c \<or> c = CHR ''_'') 0 127"

lemma pattern_bytes:
  "pattern_of first others lo hi s \<Longrightarrow> c \<in> set s \<Longrightarrow> first c \<or> others c"
  by (cases s) (auto simp: pattern_of_def list_all_iff)

lemma pattern_length: "pattern_of first others lo hi s \<Longrightarrow> length s \<le> Suc hi"
  by (cases s) (auto simp: pattern_of_def)

lemma service_name_bytes:
  "service_name_pattern s \<Longrightarrow> c \<in> set s \<Longrightarrow> is_lower c \<or> is_digit c \<or> c = CHR ''-''"
  unfolding service_name_pattern_def by (drule (1) pattern_bytes) auto

lemma service_name_nonempty: "service_name_pattern s \<Longrightarrow> s \<noteq> []"
  by (auto simp: service_name_pattern_def pattern_of_def)

section \<open>Byte quantities\<close>

text \<open>\<open>byteSizePattern\<close>: digits and one of eight units.\<close>

definition byte_multiplier :: "string \<Rightarrow> int option" where
  "byte_multiplier u =
     (if u = ''KiB'' then Some 1024
      else if u = ''MiB'' then Some 1048576
      else if u = ''GiB'' then Some 1073741824
      else if u = ''TiB'' then Some 1099511627776
      else if u = ''KB'' then Some 1000
      else if u = ''MB'' then Some 1000000
      else if u = ''GB'' then Some 1000000000
      else if u = ''TB'' then Some 1000000000000
      else None)"

abbreviation max_int64 :: int where
  "max_int64 \<equiv> 9223372036854775807"

definition parse_byte_size :: "string \<Rightarrow> int result" where
  "parse_byte_size value =
     (let ds = takeWhile is_digit value; u = dropWhile is_digit value; amount = int (digits_val ds)
      in case byte_multiplier u of
           None \<Rightarrow> Inl (errorf ''must be an integer quantity such as 20GiB'')
         | Some multiplier \<Rightarrow>
             if ds = [] then Inl (errorf ''must be an integer quantity such as 20GiB'')
             else if amount > max_int64 \<or> amount \<le> 0
               then Inl (errorf ''must be a positive byte quantity'')
             else if amount > max_int64 div multiplier
               then Inl (errorf ''overflows supported byte capacity'')
             else Inr (amount * multiplier))"

lemma byte_multiplier_pos: "byte_multiplier u = Some m \<Longrightarrow> 0 < m"
  by (auto simp: byte_multiplier_def split: if_splits)

lemma mult_le_by_div: "0 < (m::int) \<Longrightarrow> a \<le> b div m \<Longrightarrow> a * m \<le> b"
proof -
  assume m: "0 < m" and a: "a \<le> b div m"
  have "a * m \<le> (b div m) * m" using m a by (simp add: mult_right_mono)
  also have "\<dots> \<le> b" using m by (simp add: minus_mod_eq_div_mult [symmetric])
  finally show ?thesis .
qed

text \<open>
  \<open>ParseByteSize\<close> never wraps around: what it returns is positive, fits in a signed 64-bit
  integer, and is the number that the digits denote times the unit.
\<close>

theorem parse_byte_size_exact:
  assumes "parse_byte_size value = Inr bytes"
  shows "\<exists>ds u m. value = ds @ u \<and> ds \<noteq> [] \<and> list_all is_digit ds \<and> byte_multiplier u = Some m
    \<and> bytes = int (digits_val ds) * m \<and> 0 < bytes \<and> bytes \<le> max_int64"
proof -
  let ?ds = "takeWhile is_digit value" and ?u = "dropWhile is_digit value"
  from assms obtain m where m: "byte_multiplier ?u = Some m" "?ds \<noteq> []" "0 < int (digits_val ?ds)"
    "int (digits_val ?ds) \<le> max_int64 div m" "bytes = int (digits_val ?ds) * m"
    by (auto simp: parse_byte_size_def Let_def split: option.splits if_splits)
  have "0 < m" using byte_multiplier_pos m(1) .
  with m have "0 < bytes" "bytes \<le> max_int64" by (simp_all add: mult_le_by_div)
  moreover have "list_all is_digit ?ds" by (simp add: list_all_iff) (meson set_takeWhileD)
  ultimately show ?thesis using m by (intro exI [of _ ?ds] exI [of _ ?u] exI [of _ m]) simp
qed

lemma parse_byte_size_exact_witness:
  "0 < (20 * 1073741824 :: int) \<and> parse_byte_size ''20GiB'' = Inr (20 * 1073741824)"
proof -
  have ok: "parse_byte_size ''20GiB'' = Inr (20 * 1073741824)"
    by (simp add: parse_byte_size_def byte_multiplier_def digits_val_def digit_val_def
        is_digit_def less_eq_char_def)
  from parse_byte_size_exact [OF ok] ok show ?thesis by simp
qed

section \<open>Paths\<close>

abbreviation nul :: char where
  "nul \<equiv> CHR 0x00"

definition system_directories :: "string list" where
  "system_directories = [''/etc'', ''/usr'', ''/var'', ''/home'', ''/root'', ''/proc'', ''/sys'',
     ''/dev'', ''/run'', ''/boot'', ''/bin'', ''/lib'', ''/lib64'', ''/sbin'']"

definition data_prefixes :: "string list" where
  "data_prefixes = [''/srv/'', ''/mnt/'', ''/data/'']"

definition covers :: "string \<Rightarrow> string \<Rightarrow> bool" where
  "covers d p \<longleftrightarrow> p = d \<or> has_prefix p (d @ ''/'')"

definition validate_storage_mount :: "string \<Rightarrow> unit result" where
  "validate_storage_mount mount =
     (if mount = [] \<or> \<not> has_prefix mount ''/'' \<or> nul \<in> set mount \<or> path_clean mount \<noteq> mount
        \<or> mount = ''/''
      then Inl (errorf ''must be a clean absolute mount point other than /'')
      else rbind (rforeach (\<lambda>forbidden. rfail_if (covers forbidden mount)
             (errorf (''must not cover system directory '' @ forbidden)) (Inr ())) system_directories)
        (\<lambda>_. if list_ex (has_prefix mount) data_prefixes then Inr ()
             else Inl (errorf ''must be below /srv, /mnt, or /data'')))"

definition validate_backup_path :: "string \<Rightarrow> string \<Rightarrow> unit result" where
  "validate_backup_path target_path data_root =
     (if target_path = [] \<or> \<not> has_prefix target_path ''/'' \<or> nul \<in> set target_path
        \<or> path_clean target_path \<noteq> target_path \<or> target_path = ''/''
      then Inl (errorf ''path must be a clean absolute target path'')
      else rbind (rforeach (\<lambda>forbidden. rfail_if (covers forbidden target_path)
             (errorf (''path must not cover system directory '' @ forbidden)) (Inr ())) system_directories)
        (\<lambda>_. if covers data_root target_path
             then Inl (errorf ''path must not be inside Bebop's replaceable deployment data root'')
             else if list_ex (has_prefix target_path) data_prefixes then Inr ()
             else Inl (errorf ''path must be below /srv, /mnt, or /data'')))"

definition validate_data_root :: "string \<Rightarrow> unit result" where
  "validate_data_root root =
     (if root = [] \<or> \<not> has_prefix root ''/'' then
        Inl (errorf ''storage.data_root must be an absolute path'')
      else if root = ''/'' \<or> path_clean root \<noteq> root \<or> nul \<in> set root then
        Inl (errorf ''storage.data_root must be a clean absolute path other than /'')
      else if length root > 240 then Inl (errorf ''storage.data_root is too long'')
      else Inr ())"

definition replace_backslash :: "string \<Rightarrow> string" where
  "replace_backslash = map (\<lambda>c. if c = CHR 0x5C then CHR ''/'' else c)"

definition validate_controller_relative_path :: "string \<Rightarrow> bool \<Rightarrow> unit result" where
  "validate_controller_relative_path value names_file =
     (if value = [] \<or> nul \<in> set value \<or> is_rooted value \<or> has_prefix value ''/''
        \<or> has_prefix value [CHR 0x5C]
      then Inl (errorf ''must be a non-empty relative path'')
      else if list_ex is_control value then Inl (errorf ''must not contain control characters'')
      else (let cleaned = path_clean (replace_backslash value)
            in if cleaned = ''..'' \<or> has_prefix cleaned ''../''
               then Inl (errorf ''must stay within the configuration directory'')
               else if names_file \<and> cleaned = ''.'' then Inl (errorf ''must name a file'')
               else Inr ()))"

definition validate_backup_destination :: "string \<Rightarrow> unit result" where
  "validate_backup_destination destination =
     (if destination = [] \<or> nul \<in> set destination
      then Inl (errorf ''backup.destination must be a non-empty controller path'')
      else if is_rooted destination then
        (if path_clean destination \<noteq> destination \<or> destination = ''/''
         then Inl (errorf
           ''backup.destination must be a clean directory path other than the filesystem root'')
         else Inr ())
      else rmap_err (wrapf ''backup.destination '') (validate_controller_relative_path destination False))"

section \<open>Lemmas\<close>

lemma validate_storage_mount_ok:
  "validate_storage_mount m = Inr () \<longleftrightarrow>
     m \<noteq> [] \<and> is_rooted m \<and> nul \<notin> set m \<and> path_clean m = m \<and> m \<noteq> ''/''
     \<and> (\<forall>d\<in>set system_directories. \<not> covers d m) \<and> list_ex (has_prefix m) data_prefixes"
  by (auto simp: validate_storage_mount_def is_rooted_def result_simps)

lemma validate_backup_path_ok:
  "validate_backup_path p root = Inr () \<longleftrightarrow>
     p \<noteq> [] \<and> is_rooted p \<and> nul \<notin> set p \<and> path_clean p = p \<and> p \<noteq> ''/''
     \<and> (\<forall>d\<in>set system_directories. \<not> covers d p) \<and> \<not> covers root p
     \<and> list_ex (has_prefix p) data_prefixes"
  by (auto simp: validate_backup_path_def is_rooted_def result_simps)

lemma relative_contained:
  assumes "validate_controller_relative_path v names_file = Inr ()"
    and "path_clean base = base" and "is_rooted base" and "base \<noteq> ''/''"
  shows "covers base (path_join base (replace_backslash v))"
proof -
  let ?r = "replace_backslash v"
  from assms(1) have v: "v \<noteq> []" "\<not> is_rooted v" "\<not> has_prefix v [CHR 0x5C]"
    "path_clean ?r \<noteq> ''..''" "\<not> has_prefix (path_clean ?r) ''../''"
    by (auto simp: validate_controller_relative_path_def Let_def split: if_splits)
  have "\<not> is_rooted ?r" "?r \<noteq> []"
    using v by (cases v, auto simp: replace_backslash_def is_rooted_def split: if_splits)
  from path_join_clean [OF assms(2-4) this(2,1) v(4,5)] show ?thesis
    by (auto simp: covers_def has_prefix_iff)
qed

lemma replace_backslash_id: "CHR 0x5C \<notin> set v \<Longrightarrow> replace_backslash v = v"
  by (auto simp: replace_backslash_def intro!: map_idI)

lemma data_prefix_rooted: "list_ex (has_prefix p) data_prefixes \<Longrightarrow> has_prefix p ''/''"
  by (auto simp: data_prefixes_def has_prefix_iff)

text \<open>
  A relative path that the program accepts stays inside the directory it is joined to, when it is
  joined the way \<open>containedPath\<close> of the services does, with backslashes turned into slashes: for every
  clean absolute base other than the root, the result is the base itself or lies below it, whatever
  slashes of either style and \<open>..\<close> elements the configuration holds.
\<close>

theorem controller_path_contained:
  assumes "validate_controller_relative_path v names_file = Inr ()"
    and "path_clean base = base" and "is_rooted base" and "base \<noteq> ''/''"
  shows "covers base (path_join base (replace_backslash v))"
  by (rule relative_contained [OF assms])

lemma controller_path_contained_witness:
  "covers ''/home/me/cfg'' (path_join ''/home/me/cfg''
     (replace_backslash (''compose'' @ [CHR 0x5C] @ ''..'' @ [CHR 0x5C] @ ''media'')))"
  by (rule controller_path_contained [where names_file = False]) code_simp+

end
