(* ===== verification/Maintenance_Config.thy ===== *)
theory Maintenance_Config
  imports Config_Base
begin

text \<open>
  File \<open>internal/config/maintenance.go\<close>: the controller-side maintenance policy, its decoding from
  the optional fields of the TOML tables, its validation, and the grammar of schedules. A Go
  pointer field of a raw table is an \<open>option\<close>; a \<open>time.Duration\<close> is a number of nanoseconds.
\<close>

record maintenance_schedule =
  ms_kind :: string
  ms_at :: string
  ms_weekday :: string

record maintenance_window =
  mw_start :: string
  mw_end :: string

record maintenance_retention =
  mr_keep_last :: int

record maintenance_job =
  mj_name :: string
  mj_type :: string
  mj_target :: string
  mj_service :: string
  mj_enabled :: bool
  mj_schedule :: maintenance_schedule
  mj_window :: "maintenance_window option"
  mj_retention :: maintenance_retention
  mj_refresh_metadata :: bool

record maintenance =
  mt_version :: int
  mt_history_directory :: string
  mt_history_max_entries :: int
  mt_jobs :: "maintenance_job list"

record raw_maintenance_retention =
  rmr_keep_last :: "int option"

record raw_maintenance_job =
  rmj_name :: "string option"
  rmj_type :: "string option"
  rmj_target :: "string option"
  rmj_service :: "string option"
  rmj_enabled :: "bool option"
  rmj_schedule :: "string option"
  rmj_window :: "maintenance_window option"
  rmj_retention :: raw_maintenance_retention
  rmj_refresh_metadata :: "bool option"

record raw_maintenance =
  rmt_version :: "int option"
  rmt_history_directory :: "string option"
  rmt_history_max_entries :: "int option"
  rmt_jobs :: "raw_maintenance_job list"

text \<open>\<open>if p != nil { x = *p }\<close>.\<close>

definition or_default :: "'a \<Rightarrow> 'a option \<Rightarrow> 'a" where
  "or_default d p = (case p of None \<Rightarrow> d | Some x \<Rightarrow> x)"

lemma or_default_simps [simp]: "or_default d None = d" "or_default d (Some x) = x"
  by (simp_all add: or_default_def)

section \<open>Times and schedules\<close>

text \<open>
  \<open>time.Parse("15:04", v)\<close> on five bytes with a colon in the middle, where printing the time gives
  \<open>v\<close> back: two digits below 24 and two digits below 60.
\<close>

definition parse_maintenance_time :: "string \<Rightarrow> int result" where
  "parse_maintenance_time v =
     (let h = take 2 v; m = drop 3 v
      in if length v \<noteq> 5 \<or> v ! 2 \<noteq> CHR '':'' then Inl (errorf ''must use HH:MM in 24-hour time'')
         else if \<not> list_all is_digit h \<or> \<not> list_all is_digit m \<or> digits_val h \<ge> 24 \<or> digits_val m \<ge> 60
           then Inl (errorf ''must use HH:MM in 24-hour time'')
         else Inr (int (digits_val h) * 3600000000000 + int (digits_val m) * 60000000000))"

definition weekdays :: "string list" where
  "weekdays = [''mon'', ''tue'', ''wed'', ''thu'', ''fri'', ''sat'', ''sun'']"

definition valid_maintenance_weekday :: "string \<Rightarrow> bool" where
  "valid_maintenance_weekday v \<longleftrightarrow> list_ex (\<lambda>weekday. v = weekday) weekdays"

definition parse_maintenance_schedule :: "string \<Rightarrow> maintenance_schedule result" where
  "parse_maintenance_schedule v =
     (if v = ''hourly'' then Inr \<lparr>ms_kind = ''hourly'', ms_at = [], ms_weekday = []\<rparr>
      else if has_prefix v ''daily@'' then
        (let at = trim_prefix v ''daily@'' in
         case parse_maintenance_time at of Inl e \<Rightarrow> Inl e
         | Inr _ \<Rightarrow> Inr \<lparr>ms_kind = ''daily'', ms_at = at, ms_weekday = []\<rparr>)
      else (case split_on (CHR ''@'') v of
          [p0, p1, p2] \<Rightarrow>
            if p0 = ''weekly'' then
              (let weekday = to_lower p1 in
               if \<not> valid_maintenance_weekday weekday
               then Inl (errorf ''must use mon, tue, wed, thu, fri, sat, or sun'')
               else case parse_maintenance_time p2 of Inl e \<Rightarrow> Inl e
                 | Inr _ \<Rightarrow> Inr \<lparr>ms_kind = ''weekly'', ms_at = p2, ms_weekday = weekday\<rparr>)
            else Inl (errorf ''must be hourly, daily@HH:MM, or weekly@day@HH:MM'')
        | _ \<Rightarrow> Inl (errorf ''must be hourly, daily@HH:MM, or weekly@day@HH:MM'')))"

definition maintenance_schedule_string :: "maintenance_schedule \<Rightarrow> string" where
  "maintenance_schedule_string s =
     (if ms_kind s = ''hourly'' then ''hourly''
      else if ms_kind s = ''daily'' then ''daily@'' @ ms_at s
      else if ms_kind s = ''weekly'' then ''weekly@'' @ ms_weekday s @ ''@'' @ ms_at s
      else [])"

section \<open>Decoding\<close>

definition decode_maintenance_job :: "nat \<Rightarrow> raw_maintenance_job \<Rightarrow> maintenance_job result" where
  "decode_maintenance_job index raw =
     (case rmj_schedule raw of
        None \<Rightarrow> Inl (errorf (''maintenance.jobs['' @ show_nat index @ ''].schedule is required''))
      | Some text \<Rightarrow>
        rbind (rmap_err (wrapf (''maintenance.jobs['' @ show_nat index @ ''].schedule ''))
                 (parse_maintenance_schedule text))
          (\<lambda>schedule. Inr \<lparr>mj_name = or_default [] (rmj_name raw), mj_type = or_default [] (rmj_type raw),
             mj_target = or_default [] (rmj_target raw), mj_service = or_default [] (rmj_service raw),
             mj_enabled = or_default True (rmj_enabled raw), mj_schedule = schedule,
             mj_window = rmj_window raw,
             mj_retention = \<lparr>mr_keep_last = or_default 0 (rmr_keep_last (rmj_retention raw))\<rparr>,
             mj_refresh_metadata = or_default False (rmj_refresh_metadata raw)\<rparr>))"

fun decode_maintenance_jobs :: "nat \<Rightarrow> raw_maintenance_job list \<Rightarrow> maintenance_job list result" where
  "decode_maintenance_jobs index [] = Inr []"
| "decode_maintenance_jobs index (raw # raws) =
     rbind (decode_maintenance_job index raw)
       (\<lambda>job. rbind (decode_maintenance_jobs (Suc index) raws) (\<lambda>jobs. Inr (job # jobs)))"

definition decode_maintenance :: "raw_maintenance \<Rightarrow> maintenance result" where
  "decode_maintenance raw =
     rbind (decode_maintenance_jobs 0 (rmt_jobs raw))
       (\<lambda>jobs. Inr \<lparr>mt_version = or_default 0 (rmt_version raw),
          mt_history_directory = or_default ''.bebop/history'' (rmt_history_directory raw),
          mt_history_max_entries = or_default 500 (rmt_history_max_entries raw),
          mt_jobs = sort_slice mj_name jobs\<rparr>)"

section \<open>Validation\<close>

definition validate_maintenance_target :: "string \<Rightarrow> unit result" where
  "validate_maintenance_target v =
     (if v = [] then Inl (errorf ''must name an inventory host, local, or a literal target'')
      else if v = ''local'' \<or> str_contains v ''://'' then
        (case parse_target v of Inl e \<Rightarrow> Inl e | Inr _ \<Rightarrow> Inr ())
      else if \<not> name_pattern v then Inl (errorf ''must be a safe inventory alias or target'')
      else Inr ())"

definition validate_maintenance_window :: "string \<Rightarrow> maintenance_window \<Rightarrow> unit result" where
  "validate_maintenance_window name w =
     (case parse_maintenance_time (mw_start w) of
        Inl e \<Rightarrow> Inl (wrapf (''maintenance job '' @ name @ '' window.start '') e)
      | Inr _ \<Rightarrow> (case parse_maintenance_time (mw_end w) of
          Inl e \<Rightarrow> Inl (wrapf (''maintenance job '' @ name @ '' window.end '') e)
        | Inr _ \<Rightarrow> rfail_if (mw_start w = mw_end w)
            (errorf (''maintenance job '' @ name @ '' window start and end must differ'')) (Inr ())))"

text \<open>The body of the loop; \<open>seen\<close> are the names of the jobs before this one.\<close>

definition validate_maintenance_job :: "string list \<Rightarrow> maintenance_job \<Rightarrow> unit result" where
  "validate_maintenance_job seen job =
     (let name = mj_name job in
      rfail_if (\<not> service_name_pattern name)
        (errorf ''maintenance job name must be 1-63 lowercase letters, numbers, or hyphens and start with a letter'')
      (rfail_if (name \<in> set seen) (errorf ''maintenance job names must be unique'')
      (rfail_if (mj_type job \<noteq> ''backup'' \<and> mj_type job \<noteq> ''doctor'' \<and> mj_type job \<noteq> ''update-check'')
        (errorf (''maintenance job '' @ name @ '' type must be backup, doctor, or update-check''))
      (rbind (rmap_err (wrapf (''maintenance job '' @ name @ '' target ''))
                (validate_maintenance_target (mj_target job))) (\<lambda>_.
      rfail_if (mj_type job = ''backup'' \<and> \<not> service_name_pattern (mj_service job))
        (errorf (''maintenance backup job '' @ name @ '' requires a safe service name''))
      (rfail_if (mj_type job \<noteq> ''backup'' \<and> mj_service job \<noteq> [])
        (errorf (''maintenance job '' @ name @ '' service is supported only for backup''))
      (rfail_if (mj_refresh_metadata job \<and> mj_type job \<noteq> ''update-check'')
        (errorf (''maintenance job '' @ name @ '' refresh_metadata is supported only for update-check''))
      (rbind (rmap_err (wrapf (''maintenance job '' @ name @ '' schedule ''))
                (parse_maintenance_schedule (maintenance_schedule_string (mj_schedule job)))) (\<lambda>_.
      rbind (case mj_window job of None \<Rightarrow> Inr () | Some w \<Rightarrow> validate_maintenance_window name w) (\<lambda>_.
      rfail_if (mr_keep_last (mj_retention job) < 0 \<or> mr_keep_last (mj_retention job) > 100000)
        (errorf (''maintenance job '' @ name @ '' retention.keep_last must be between 1 and 100000 when set''))
      (rfail_if (mj_type job \<noteq> ''backup'' \<and> mr_keep_last (mj_retention job) \<noteq> 0)
        (errorf (''maintenance job '' @ name @ '' retention is supported only for backup''))
      (Inr ()))))))))))))"

fun validate_maintenance_jobs :: "string list \<Rightarrow> maintenance_job list \<Rightarrow> unit result" where
  "validate_maintenance_jobs seen [] = Inr ()"
| "validate_maintenance_jobs seen (job # jobs) =
     rbind (validate_maintenance_job seen job) (\<lambda>_. validate_maintenance_jobs (mj_name job # seen) jobs)"

definition validate_maintenance :: "maintenance \<Rightarrow> unit result" where
  "validate_maintenance m =
     rfail_if (mt_version m \<noteq> 1) (errorf ''maintenance.version must be 1'')
     (rbind (rmap_err (wrapf ''maintenance.history_dir '')
               (validate_controller_relative_path (mt_history_directory m) False)) (\<lambda>_.
     rfail_if (path_clean (mt_history_directory m) = ''.'')
       (errorf ''maintenance.history_dir must name a dedicated directory'')
     (rfail_if (mt_history_max_entries m < 1 \<or> mt_history_max_entries m > 100000)
       (errorf ''maintenance.history_max_entries must be between 1 and 100000'')
     (validate_maintenance_jobs [] (mt_jobs m)))))"

text \<open>\<open>Fingerprint\<close> of a job: the digest of its JSON, which has every field of the record.\<close>

definition maintenance_job_fingerprint :: "(maintenance_job \<Rightarrow> string) \<Rightarrow> maintenance_job \<Rightarrow> string" where
  "maintenance_job_fingerprint digest job = digest job"

section \<open>Lemmas\<close>

lemma parse_time_bytes:
  assumes "parse_maintenance_time v = Inr d"
  shows "length v = 5" and "v ! 2 = CHR '':''" and "list_all is_digit (take 2 v)"
    and "list_all is_digit (drop 3 v)" and "digits_val (take 2 v) < 24" and "digits_val (drop 3 v) < 60"
    and "d = int (digits_val (take 2 v)) * 3600000000000 + int (digits_val (drop 3 v)) * 60000000000"
  using assms by (auto simp: parse_maintenance_time_def Let_def split: if_splits)

lemma parse_time_split: "parse_maintenance_time v = Inr d \<Longrightarrow> v = take 2 v @ CHR '':'' # drop 3 v"
  using parse_time_bytes(1,2) [of v d] id_take_nth_drop [of 2 v] by (simp add: eval_nat_numeral)

lemma parse_time_no_at: "parse_maintenance_time v = Inr d \<Longrightarrow> CHR ''@'' \<notin> set v"
proof
  assume p: "parse_maintenance_time v = Inr d" and "CHR ''@'' \<in> set v"
  then have "CHR ''@'' \<in> set (take 2 v) \<or> CHR ''@'' \<in> set (drop 3 v)"
    by (subst (asm) parse_time_split [OF p]) auto
  with parse_time_bytes(3,4) [OF p] show False
    by (auto simp: list_all_iff is_digit_def less_eq_char_def)
qed

lemma weekday_lower: "valid_maintenance_weekday w \<Longrightarrow> to_lower w = w \<and> CHR ''@'' \<notin> set w"
  by (auto simp: valid_maintenance_weekday_def weekdays_def to_lower_def lower_char_def is_upper_def
      less_eq_char_def)

text \<open>
  Schedules round trip: what \<open>ParseMaintenanceSchedule\<close> accepts prints to a text that parses to
  the same schedule, so a job that was decoded passes the check of its schedule in
  \<open>ValidateMaintenance\<close> (the weekday comes back in lower case).
\<close>

theorem schedule_roundtrip:
  assumes "parse_maintenance_schedule v = Inr s"
  shows "parse_maintenance_schedule (maintenance_schedule_string s) = Inr s"
proof -
  from assms consider "s = \<lparr>ms_kind = ''hourly'', ms_at = [], ms_weekday = []\<rparr>"
    | at d where "s = \<lparr>ms_kind = ''daily'', ms_at = at, ms_weekday = []\<rparr>" "parse_maintenance_time at = Inr d"
    | at d w where "s = \<lparr>ms_kind = ''weekly'', ms_at = at, ms_weekday = w\<rparr>"
        "parse_maintenance_time at = Inr d" "valid_maintenance_weekday w"
    by (auto simp: parse_maintenance_schedule_def Let_def split: if_splits sum.splits list.splits)
  then show ?thesis
  proof cases
    case 1
    then show ?thesis by (simp add: maintenance_schedule_string_def parse_maintenance_schedule_def)
  next
    case 2
    then show ?thesis
      using trim_prefix_append [of "''daily@''" at]
      by (simp add: maintenance_schedule_string_def parse_maintenance_schedule_def)
  next
    case 3
    have "split_on (CHR ''@'') (''weekly@'' @ w @ ''@'' @ at) = [''weekly'', w, at]"
      using weekday_lower [OF 3(3)] parse_time_no_at [OF 3(2)]
      by (simp add: split_on_append split_on_single)
    with 3 weekday_lower [OF 3(3)] show ?thesis
      by (simp add: maintenance_schedule_string_def parse_maintenance_schedule_def Let_def)
  qed
qed

lemma schedule_roundtrip_witness:
  "parse_maintenance_schedule (maintenance_schedule_string
     \<lparr>ms_kind = ''weekly'', ms_at = ''03:15'', ms_weekday = ''sun''\<rparr>)
   = Inr \<lparr>ms_kind = ''weekly'', ms_at = ''03:15'', ms_weekday = ''sun''\<rparr>"
  by (rule schedule_roundtrip [of "''weekly@SUN@03:15''"]) code_simp

lemma validate_jobs_ok:
  "validate_maintenance_jobs seen jobs = Inr () \<Longrightarrow>
     distinct (map mj_name jobs) \<and> set (map mj_name jobs) \<inter> set seen = {}
     \<and> (\<forall>j\<in>set jobs. \<exists>s. validate_maintenance_job s j = Inr ())"
proof (induction seen jobs rule: validate_maintenance_jobs.induct)
  case (2 seen job jobs)
  then have j: "validate_maintenance_job seen job = Inr ()"
    and rest: "validate_maintenance_jobs (mj_name job # seen) jobs = Inr ()"
    by (auto simp: result_simps)
  have "mj_name job \<notin> set seen" using j by (auto simp: validate_maintenance_job_def result_simps Let_def)
  with "2.IH" rest j show ?case by auto
qed simp

lemma validate_job_window:
  assumes "validate_maintenance_job seen j = Inr ()" and "mj_window j = Some w"
  shows "\<exists>a b. parse_maintenance_time (mw_start w) = Inr a \<and> parse_maintenance_time (mw_end w) = Inr b
    \<and> mw_start w \<noteq> mw_end w"
  using assms
  by (auto simp: validate_maintenance_job_def validate_maintenance_window_def result_simps Let_def
      split: sum.splits)

lemma clock_inj:
  fixes a b c d :: nat
  assumes "int a * 3600000000000 + int b * 60000000000 = int c * 3600000000000 + int d * 60000000000"
    and "b < 60" and "d < 60"
  shows "a = c \<and> b = d"
proof -
  have eq: "a * 60 + b = c * 60 + d" using assms(1) by linarith
  have "(a * 60 + b) div 60 = a" "(c * 60 + d) div 60 = c" using assms(2,3) by simp_all
  with eq have "a = c" by metis
  with eq show ?thesis by simp
qed

lemma digits_two_inj:
  assumes "length a = 2" "length b = 2" "list_all is_digit a" "list_all is_digit b"
    and "digits_val a = digits_val b"
  shows "a = b"
proof -
  obtain a0 a1 where a: "a = [a0, a1]" using assms(1) by (auto simp: numeral_2_eq_2 length_Suc_conv)
  obtain b0 b1 where b: "b = [b0, b1]" using assms(2) by (auto simp: numeral_2_eq_2 length_Suc_conv)
  have d: "digit_val c < 10" "c = char_of (digit_val c + 48)" if "is_digit c" for c
    using that by (simp_all add: is_digit_def digit_val_def less_eq_char_def) linarith
  have "is_digit a0" "is_digit a1" "is_digit b0" "is_digit b1" using assms a b by auto
  note D = this [THEN d(1)] and E = this [THEN d(2)]
  have eq: "10 * digit_val a0 + digit_val a1 = 10 * digit_val b0 + digit_val b1"
    using assms(5) a b by (simp add: digits_val_def)
  have "digit_val a0 = digit_val b0" using eq D by linarith
  moreover from this have "digit_val a1 = digit_val b1" using eq by simp
  ultimately show ?thesis using E a b by metis
qed

lemma parse_time_inj:
  assumes a: "parse_maintenance_time u = Inr d" and b: "parse_maintenance_time v = Inr d"
  shows "u = v"
proof -
  note A = parse_time_bytes [OF a] and B = parse_time_bytes [OF b]
  from A(7) B(7) have "digits_val (take 2 u) = digits_val (take 2 v) \<and> digits_val (drop 3 u) = digits_val (drop 3 v)"
    by (intro clock_inj [OF _ A(6) B(6)]) simp
  with A B have "take 2 u = take 2 v" "drop 3 u = drop 3 v"
    by (simp_all add: digits_two_inj)
  with parse_time_split [OF a] parse_time_split [OF b] show ?thesis by metis
qed

text \<open>
  The times of a window of a validated policy are canonical: both parse to a time of day below
  24 hours, and because equal times have equal texts, a window that passes the textual test
  \<open>start <> end\<close> is not empty as an interval of minutes.
\<close>

theorem maintenance_windows_proper:
  assumes "validate_maintenance m = Inr ()" and "j \<in> set (mt_jobs m)" and "mj_window j = Some w"
  shows "\<exists>a b. parse_maintenance_time (mw_start w) = Inr a \<and> parse_maintenance_time (mw_end w) = Inr b
    \<and> a \<noteq> b \<and> 0 \<le> a \<and> a < 86400000000000 \<and> 0 \<le> b \<and> b < 86400000000000"
proof -
  have "validate_maintenance_jobs [] (mt_jobs m) = Inr ()"
    using assms(1) by (auto simp: validate_maintenance_def result_simps)
  with assms(2) obtain s where "validate_maintenance_job s j = Inr ()"
    using validate_jobs_ok by blast
  from validate_job_window [OF this assms(3)] obtain a b where
    a: "parse_maintenance_time (mw_start w) = Inr a" and b: "parse_maintenance_time (mw_end w) = Inr b"
    and ne: "mw_start w \<noteq> mw_end w" by blast
  note A = parse_time_bytes [OF a] and B = parse_time_bytes [OF b]
  have "a \<noteq> b" using parse_time_inj a b ne by metis
  moreover have "0 \<le> a \<and> a < 86400000000000" "0 \<le> b \<and> b < 86400000000000"
    using A(5-7) B(5-7) by linarith+
  ultimately show ?thesis using a b by blast
qed

definition ex_maintenance :: maintenance where
  "ex_maintenance = \<lparr>mt_version = 1, mt_history_directory = ''.bebop/history'', mt_history_max_entries = 500,
     mt_jobs = [\<lparr>mj_name = ''nightly'', mj_type = ''backup'', mj_target = ''pi'', mj_service = ''media'',
       mj_enabled = True, mj_schedule = \<lparr>ms_kind = ''daily'', ms_at = ''02:30'', ms_weekday = []\<rparr>,
       mj_window = Some \<lparr>mw_start = ''22:00'', mw_end = ''04:00''\<rparr>,
       mj_retention = \<lparr>mr_keep_last = 7\<rparr>, mj_refresh_metadata = False\<rparr>]\<rparr>"

lemma ex_maintenance_valid: "validate_maintenance ex_maintenance = Inr ()"
  by (simp add: ex_maintenance_def validate_maintenance_def validate_controller_relative_path_def
      is_rooted_def replace_backslash_def path_clean_def clean_elements_def push_element_def
      validate_maintenance_job_def service_name_pattern_def name_pattern_def pattern_of_def
      validate_maintenance_target_def parse_maintenance_schedule_def maintenance_schedule_string_def
      trim_prefix_def parse_maintenance_time_def validate_maintenance_window_def char_eval)

lemma maintenance_windows_proper_witness:
  "\<exists>a b. parse_maintenance_time ''22:00'' = Inr a \<and> parse_maintenance_time ''04:00'' = Inr b \<and> a \<noteq> b"
  using maintenance_windows_proper [OF ex_maintenance_valid, of "hd (mt_jobs ex_maintenance)"
      "\<lparr>mw_start = ''22:00'', mw_end = ''04:00''\<rparr>"]
  by (auto simp: ex_maintenance_def)

end
