(* ===== verification/Notification_Config.thy ===== *)
theory Notification_Config
  imports Maintenance_Config
begin

text \<open>
  File \<open>internal/config/notifications.go\<close>: the routing policy of notifications, its decoding and its
  validation. A sink is a file below the state directory or a webhook whose address is named by an
  environment variable; a route selects event types and severities for one sink.
\<close>

record notification_sink =
  nk_name :: string
  nk_type :: string
  nk_path :: string
  nk_url_env :: string
  nk_authorization_env :: string

record notification_route =
  nr_name :: string
  nr_sink :: string
  nr_events :: "string list"
  nr_severities :: "string list"
  nr_recoveries :: bool
  nr_cooldown :: string

record notifications =
  nt_version :: int
  nt_enabled :: bool
  nt_notify_manual :: bool
  nt_state_directory :: string
  nt_history_max_entries :: int
  nt_sinks :: "notification_sink list"
  nt_routes :: "notification_route list"

record raw_notification_sink =
  rnk_name :: "string option"
  rnk_type :: "string option"
  rnk_path :: "string option"
  rnk_url_env :: "string option"
  rnk_authorization_env :: "string option"

record raw_notification_route =
  rnr_name :: "string option"
  rnr_sink :: "string option"
  rnr_events :: "string list"
  rnr_severities :: "string list"
  rnr_recoveries :: "bool option"
  rnr_cooldown :: "string option"

record raw_notifications =
  rnt_version :: "int option"
  rnt_enabled :: "bool option"
  rnt_notify_manual :: "bool option"
  rnt_state_directory :: "string option"
  rnt_history_max_entries :: "int option"
  rnt_sinks :: "raw_notification_sink list"
  rnt_routes :: "raw_notification_route list"

section \<open>Decoding\<close>

fun decode_notification_sinks :: "nat \<Rightarrow> raw_notification_sink list \<Rightarrow> notification_sink list result" where
  "decode_notification_sinks index [] = Inr []"
| "decode_notification_sinks index (raw # raws) =
     (let sink = \<lparr>nk_name = or_default [] (rnk_name raw), nk_type = or_default [] (rnk_type raw),
            nk_path = or_default [] (rnk_path raw), nk_url_env = or_default [] (rnk_url_env raw),
            nk_authorization_env = or_default [] (rnk_authorization_env raw)\<rparr>
      in rfail_if (nk_name sink = [])
           (errorf (''notifications.sinks['' @ show_nat index @ ''].name is required''))
           (rbind (decode_notification_sinks (Suc index) raws) (\<lambda>sinks. Inr (sink # sinks))))"

fun decode_notification_routes :: "nat \<Rightarrow> raw_notification_route list \<Rightarrow> notification_route list result" where
  "decode_notification_routes index [] = Inr []"
| "decode_notification_routes index (raw # raws) =
     (let route = \<lparr>nr_name = or_default [] (rnr_name raw), nr_sink = or_default [] (rnr_sink raw),
            nr_events = rnr_events raw, nr_severities = rnr_severities raw,
            nr_recoveries = or_default False (rnr_recoveries raw),
            nr_cooldown = or_default [] (rnr_cooldown raw)\<rparr>
      in rfail_if (nr_name route = [])
           (errorf (''notifications.routes['' @ show_nat index @ ''].name is required''))
           (rbind (decode_notification_routes (Suc index) raws) (\<lambda>routes. Inr (route # routes))))"

definition decode_notifications :: "raw_notifications \<Rightarrow> notifications result" where
  "decode_notifications raw =
     rbind (decode_notification_sinks 0 (rnt_sinks raw)) (\<lambda>sinks.
     rbind (decode_notification_routes 0 (rnt_routes raw)) (\<lambda>routes.
     Inr \<lparr>nt_version = or_default 0 (rnt_version raw), nt_enabled = or_default True (rnt_enabled raw),
       nt_notify_manual = or_default False (rnt_notify_manual raw),
       nt_state_directory = or_default ''.bebop/notifications'' (rnt_state_directory raw),
       nt_history_max_entries = or_default 1000 (rnt_history_max_entries raw),
       nt_sinks = sort_slice nk_name sinks, nt_routes = sort_slice nr_name routes\<rparr>))"

section \<open>Validation\<close>

definition event_types :: "string list" where
  "event_types =
     [''backup.succeeded'', ''backup.failed'', ''backup.retention_failed'',
      ''doctor.warning'', ''doctor.failed'', ''doctor.recovered'',
      ''updates.available'', ''updates.cleared'',
      ''maintenance.failed'', ''maintenance.skipped'', ''maintenance.recovered'',
      ''storage.failed'', ''storage.recovered'',
      ''service.unhealthy'', ''service.recovered'']"

definition notification_event_types :: "string list" where
  "notification_event_types = sort event_types"

definition severities :: "string list" where
  "severities = [''info'', ''warning'', ''error'', ''recovery'']"

text \<open>The body of the loop over the sinks; \<open>seen\<close> are the names before this one.\<close>

definition validate_sink :: "string \<Rightarrow> string list \<Rightarrow> notification_sink \<Rightarrow> unit result" where
  "validate_sink state_dir seen sink =
     (let name = nk_name sink in
      rfail_if (\<not> service_name_pattern name) (errorf ''notification sink name must be a safe identifier'')
      (rfail_if (name \<in> set seen) (errorf ''notification sink names must be unique'')
      (if nk_type sink = ''file'' then
         rbind (rmap_err (wrapf (''notification sink '' @ name @ '' path ''))
                  (validate_controller_relative_path (nk_path sink) True)) (\<lambda>_.
         let relative = path_rel (path_clean state_dir) (path_clean (nk_path sink)) in
         rfail_if (rel_escapes relative \<or> relative = Some ''.'')
           (errorf (''notification file sink '' @ name @ '' path must be below notifications.state_dir''))
         (rfail_if (nk_url_env sink \<noteq> [] \<or> nk_authorization_env sink \<noteq> [])
           (errorf (''notification file sink '' @ name @ '' must not declare webhook settings''))
         (Inr ())))
       else if nk_type sink = ''webhook'' then
         rfail_if (nk_path sink \<noteq> [] \<or> \<not> notification_environment_name (nk_url_env sink))
           (errorf (''notification webhook sink '' @ name @ '' requires a safe url_env and no path''))
         (rfail_if (nk_authorization_env sink \<noteq> [] \<and> \<not> notification_environment_name (nk_authorization_env sink))
           (errorf (''notification webhook sink '' @ name @
              '' authorization_env must be a safe environment variable name''))
         (Inr ()))
       else Inl (errorf (''notification sink '' @ name @ '' type must be file or webhook'')))))"

fun validate_sinks :: "string \<Rightarrow> string list \<Rightarrow> notification_sink list \<Rightarrow> unit result" where
  "validate_sinks state_dir seen [] = Inr ()"
| "validate_sinks state_dir seen (sink # sinks) =
     rbind (validate_sink state_dir seen sink) (\<lambda>_. validate_sinks state_dir (nk_name sink # seen) sinks)"

fun validate_events :: "string \<Rightarrow> string list \<Rightarrow> string list \<Rightarrow> unit result" where
  "validate_events name seen [] = Inr ()"
| "validate_events name seen (event # events) =
     rfail_if (event \<notin> set event_types)
       (errorf (''notification route '' @ name @ '' references unknown event '' @ event))
     (rfail_if (event \<in> set seen)
       (errorf (''notification route '' @ name @ '' repeats event '' @ event))
     (validate_events name (event # seen) events))"

fun validate_severities :: "string \<Rightarrow> string list \<Rightarrow> string list \<Rightarrow> unit result" where
  "validate_severities name seen [] = Inr ()"
| "validate_severities name seen (severity # rest) =
     rfail_if (severity \<notin> set severities)
       (errorf (''notification route '' @ name @ '' has unsupported severity '' @ severity))
     (rfail_if (severity \<in> set seen)
       (errorf (''notification route '' @ name @ '' repeats severity '' @ severity))
     (validate_severities name (severity # seen) rest))"

definition recovery_event :: "string \<Rightarrow> bool" where
  "recovery_event event \<longleftrightarrow> has_suffix event ''.recovered'' \<or> event = ''updates.cleared''"

definition validate_cooldown :: "string \<Rightarrow> string \<Rightarrow> unit result" where
  "validate_cooldown name cooldown =
     rfail_if (case parse_duration cooldown of None \<Rightarrow> True
         | Some d \<Rightarrow> d < 60000000000 \<or> d > 2592000000000000)
       (errorf (''notification route '' @ name @ '' cooldown must be between 1m and 720h'')) (Inr ())"

definition validate_route :: "string list \<Rightarrow> string list \<Rightarrow> notification_route \<Rightarrow> unit result" where
  "validate_route sinks seen route =
     (let name = nr_name route in
      rfail_if (\<not> service_name_pattern name) (errorf ''notification route name must be a safe identifier'')
      (rfail_if (name \<in> set seen) (errorf ''notification route names must be unique'')
      (rfail_if (nr_sink route \<notin> set sinks)
        (errorf (''notification route '' @ name @ '' references unknown sink '' @ nr_sink route))
      (rfail_if (nr_events route = [])
        (errorf (''notification route '' @ name @ '' requires at least one event''))
      (rbind (validate_events name [] (nr_events route)) (\<lambda>_.
      rbind (validate_severities name [] (nr_severities route)) (\<lambda>_.
      rbind (if nr_cooldown route = [] then Inr () else validate_cooldown name (nr_cooldown route)) (\<lambda>_.
      if nr_recoveries route then Inr ()
      else rforeach (\<lambda>event. rfail_if (recovery_event event)
        (errorf (''notification route '' @ name @ '' selects recovery event '' @ event @
           '' but recoveries is false'')) (Inr ())) (nr_events route)))))))))"

fun validate_routes :: "string list \<Rightarrow> string list \<Rightarrow> notification_route list \<Rightarrow> unit result" where
  "validate_routes sinks seen [] = Inr ()"
| "validate_routes sinks seen (route # routes) =
     rbind (validate_route sinks seen route) (\<lambda>_. validate_routes sinks (nr_name route # seen) routes)"

definition validate_notifications :: "notifications \<Rightarrow> unit result" where
  "validate_notifications n =
     rfail_if (nt_version n \<noteq> 1) (errorf ''notifications.version must be 1'')
     (rbind (rmap_err (wrapf ''notifications.state_dir '')
               (validate_controller_relative_path (nt_state_directory n) False)) (\<lambda>_.
     rfail_if (nt_state_directory n = ''.'')
       (errorf ''notifications.state_dir must name a dedicated directory'')
     (rfail_if (nt_history_max_entries n < 1 \<or> nt_history_max_entries n > 100000)
       (errorf ''notifications.history_max_entries must be between 1 and 100000'')
     (rbind (validate_sinks (nt_state_directory n) [] (nt_sinks n)) (\<lambda>_.
     validate_routes (map nk_name (nt_sinks n)) [] (nt_routes n))))))"

section \<open>Lemmas\<close>

lemma validate_sinks_ok:
  "validate_sinks d seen sinks = Inr () \<Longrightarrow>
     distinct (map nk_name sinks) \<and> (\<forall>s\<in>set sinks. nk_name s \<notin> set seen
       \<and> (\<exists>p. validate_sink d p s = Inr ()))"
proof (induction d seen sinks rule: validate_sinks.induct)
  case (2 d seen sink sinks)
  then have s: "validate_sink d seen sink = Inr ()"
    and rest: "validate_sinks d (nk_name sink # seen) sinks = Inr ()"
    by (auto simp: result_simps)
  have "nk_name sink \<notin> set seen" using s by (auto simp: validate_sink_def result_simps Let_def)
  with "2.IH" rest s show ?case by auto
qed simp

lemma validate_routes_ok:
  "validate_routes sinks seen routes = Inr () \<Longrightarrow>
     distinct (map nr_name routes) \<and> (\<forall>r\<in>set routes. nr_name r \<notin> set seen
       \<and> (\<exists>p. validate_route sinks p r = Inr ()))"
proof (induction sinks seen routes rule: validate_routes.induct)
  case (2 sinks seen route routes)
  then have r: "validate_route sinks seen route = Inr ()"
    and rest: "validate_routes sinks (nr_name route # seen) routes = Inr ()"
    by (auto simp: result_simps)
  have "nr_name route \<notin> set seen" using r by (auto simp: validate_route_def result_simps Let_def)
  with "2.IH" rest r show ?case by auto
qed simp

lemma validate_events_ok:
  "validate_events name seen events = Inr () \<longleftrightarrow>
     distinct events \<and> set events \<inter> set seen = {} \<and> set events \<subseteq> set event_types"
  by (induction name seen events rule: validate_events.induct) (auto simp: result_simps)

lemma validate_severities_ok:
  "validate_severities name seen ss = Inr () \<longleftrightarrow>
     distinct ss \<and> set ss \<inter> set seen = {} \<and> set ss \<subseteq> set severities"
  by (induction name seen ss rule: validate_severities.induct) (auto simp: result_simps)

lemma relative_not_rooted: "validate_controller_relative_path v f = Inr () \<Longrightarrow> v \<noteq> [] \<and> \<not> is_rooted v"
  by (auto simp: validate_controller_relative_path_def split: if_splits)

lemma clean_not_rooted: "\<not> is_rooted v \<Longrightarrow> \<not> is_rooted (path_clean v)"
  using join_not_rooted [OF clean_stack_elements [of False v]]
  by (auto simp: path_clean_def Let_def is_rooted_def)

lemma clean_elements_clean: "\<not> is_rooted v \<Longrightarrow> clean_elements False (path_clean v) = clean_elements False v"
  using clean_elements_join [OF clean_stack_elements [of False v]]
  by (auto simp: path_clean_def Let_def clean_elements_def push_element_def)

text \<open>
  File sinks are confined to the state directory: in a validated policy the cleaned path of a
  file sink consists of the elements of the cleaned state directory followed by at least one
  ordinary element, so it is neither the directory itself nor anything outside it.
\<close>

theorem file_sinks_below_state:
  assumes "validate_notifications n = Inr ()" and "s \<in> set (nt_sinks n)" and "nk_type s = ''file''"
  shows "\<exists>below. below \<noteq> [] \<and> list_all plain below
    \<and> clean_elements False (nk_path s) = clean_elements False (nt_state_directory n) @ below"
proof -
  let ?d = "nt_state_directory n"
  have d: "validate_controller_relative_path ?d False = Inr ()"
    and "validate_sinks ?d [] (nt_sinks n) = Inr ()"
    using assms(1) by (auto simp: validate_notifications_def result_simps)
  with assms(2) obtain seen where "validate_sink ?d seen s = Inr ()" using validate_sinks_ok by blast
  with assms(3) have p: "validate_controller_relative_path (nk_path s) True = Inr ()"
    and r: "\<not> rel_escapes (path_rel (path_clean ?d) (path_clean (nk_path s)))"
      "path_rel (path_clean ?d) (path_clean (nk_path s)) \<noteq> Some ''.''"
    by (auto simp: validate_sink_def result_simps Let_def)
  have nr: "\<not> is_rooted ?d" "\<not> is_rooted (nk_path s)" using d p relative_not_rooted by auto
  obtain rel where "path_rel (path_clean ?d) (path_clean (nk_path s)) = Some rel"
    using r(1) by (cases "path_rel (path_clean ?d) (path_clean (nk_path s))") (auto simp: rel_escapes_def)
  with r path_rel_below [of "path_clean ?d" "path_clean (nk_path s)" rel] nr show ?thesis
    by (simp add: clean_not_rooted clean_elements_clean)
qed

definition ex_notifications :: notifications where
  "ex_notifications = \<lparr>nt_version = 1, nt_enabled = True, nt_notify_manual = False,
     nt_state_directory = ''.bebop/notes'', nt_history_max_entries = 100,
     nt_sinks = [\<lparr>nk_name = ''log'', nk_type = ''file'', nk_path = ''.bebop/notes/log'',
       nk_url_env = [], nk_authorization_env = []\<rparr>],
     nt_routes = [\<lparr>nr_name = ''all'', nr_sink = ''log'', nr_events = [''backup.failed'', ''doctor.recovered''],
       nr_severities = [''error''], nr_recoveries = True, nr_cooldown = []\<rparr>]\<rparr>"

lemma ex_notifications_valid: "validate_notifications ex_notifications = Inr ()"
  by (simp add: ex_notifications_def validate_notifications_def validate_controller_relative_path_def
      is_rooted_def replace_backslash_def path_clean_def clean_elements_def push_element_def
      validate_sink_def service_name_pattern_def pattern_of_def path_rel_def rel_escapes_def
      validate_route_def event_types_def severities_def char_eval)

lemma file_sinks_below_state_witness:
  "\<exists>below. below \<noteq> [] \<and> clean_elements False ''.bebop/notes/log'' = clean_elements False ''.bebop/notes'' @ below"
  using file_sinks_below_state [OF ex_notifications_valid, of "hd (nt_sinks ex_notifications)"]
  by (auto simp: ex_notifications_def)

text \<open>
  Routes of a validated policy are well formed: names are unique, the sink of every route is
  declared, its events are known and not repeated, and a route with recoveries off selects no
  recovery event.
\<close>

theorem routes_well_formed:
  assumes "validate_notifications n = Inr ()" and "r \<in> set (nt_routes n)"
  shows "distinct (map nr_name (nt_routes n)) \<and> distinct (map nk_name (nt_sinks n))
    \<and> nr_sink r \<in> nk_name ` set (nt_sinks n) \<and> nr_events r \<noteq> [] \<and> distinct (nr_events r)
    \<and> set (nr_events r) \<subseteq> set notification_event_types
    \<and> (nr_recoveries r \<or> \<not> list_ex recovery_event (nr_events r))"
proof -
  have rs: "validate_routes (map nk_name (nt_sinks n)) [] (nt_routes n) = Inr ()"
    and ss: "validate_sinks (nt_state_directory n) [] (nt_sinks n) = Inr ()"
    using assms(1) by (auto simp: validate_notifications_def result_simps)
  with assms(2) obtain seen where "validate_route (map nk_name (nt_sinks n)) seen r = Inr ()"
    using validate_routes_ok by blast
  then have "nr_sink r \<in> nk_name ` set (nt_sinks n)" "nr_events r \<noteq> []" "distinct (nr_events r)"
    "set (nr_events r) \<subseteq> set event_types" "nr_recoveries r \<or> \<not> list_ex recovery_event (nr_events r)"
    by (auto simp: validate_route_def result_simps Let_def validate_events_ok list_ex_iff split: if_splits)
  with validate_routes_ok [OF rs] validate_sinks_ok [OF ss] show ?thesis
    by (simp add: notification_event_types_def)
qed

lemma routes_well_formed_witness:
  "nr_sink (hd (nt_routes ex_notifications)) \<in> nk_name ` set (nt_sinks ex_notifications)
    \<and> nr_events (hd (nt_routes ex_notifications)) \<noteq> []"
proof -
  have r: "hd (nt_routes ex_notifications) \<in> set (nt_routes ex_notifications)"
    by (simp add: ex_notifications_def)
  show ?thesis using routes_well_formed [OF ex_notifications_valid r] by blast
qed

text \<open>
  The test for a dedicated state directory compares the text with a dot before cleaning it, so the
  configuration directory itself is accepted when it is spelled differently. The maintenance policy
  cleans first and refuses the same spelling.
\<close>

definition ex_unclean_state :: notifications where
  "ex_unclean_state = ex_notifications\<lparr>nt_state_directory := ''./'', nt_sinks := [], nt_routes := []\<rparr>"

lemma state_dir_spelling:
  "validate_notifications ex_unclean_state = Inr ()"
  "path_clean (nt_state_directory ex_unclean_state) = ''.''"
  "validate_maintenance (ex_maintenance\<lparr>mt_history_directory := ''./''\<rparr>)
    = Inl (errorf ''maintenance.history_dir must name a dedicated directory'')"
  by (simp_all add: ex_unclean_state_def ex_notifications_def ex_maintenance_def validate_notifications_def
      validate_maintenance_def validate_controller_relative_path_def is_rooted_def replace_backslash_def
      path_clean_def clean_elements_def push_element_def char_eval)

end
