(* ===== verification/Config.thy ===== *)
theory Config
  imports Notification_Config
begin

text \<open>
  File \<open>internal/config/config.go\<close>: the configuration, its decoding from the optional fields of the
  TOML document, its validation, the paths of data resources, the adoption of a storage resource,
  and the fingerprint. The TOML reader is a library: \<open>decode\<close> starts from what it delivers, with a
  table of named tables as an association list.
\<close>

record server =
  srv_name :: string

record features =
  ft_automatic_updates :: bool
  ft_ssh_hardening :: bool
  ft_docker :: bool
  ft_tailscale :: bool

record network =
  net_firewall :: string

record storage_resource =
  sr_name :: string
  sr_mount :: string
  sr_filesystem_uuid :: string
  sr_filesystem_type :: string
  sr_minimum_capacity_bytes :: int
  sr_minimum_free_bytes :: int
  sr_managed_mount :: bool

record storage =
  stg_data_root :: string
  stg_resources :: "storage_resource list"

record backup =
  bk_destination :: string

record data_resource =
  dr_name :: string
  dr_type :: string
  dr_volume :: string
  dr_path :: string
  dr_storage :: string

record service_backup =
  sbk_consistency :: string

record service =
  svc_name :: string
  svc_type :: string
  svc_source :: string
  svc_state :: string
  svc_secret_env_file :: string
  svc_health_timeout :: string
  svc_data :: "data_resource list"
  svc_backup :: service_backup

record config =
  cfg_version :: int
  cfg_server :: server
  cfg_features :: features
  cfg_network :: network
  cfg_storage :: storage
  cfg_backup :: backup
  cfg_maintenance :: "maintenance option"
  cfg_notifications :: "notifications option"
  cfg_services :: "service list"
  cfg_source_directory :: string

record raw_storage_resource =
  rsr_mount :: "string option"
  rsr_filesystem_uuid :: "string option"
  rsr_filesystem_type :: "string option"
  rsr_minimum_capacity_bytes :: "int option"
  rsr_minimum_free_bytes :: "int option"
  rsr_minimum_capacity :: "string option"
  rsr_minimum_free :: "string option"
  rsr_managed_mount :: "bool option"

record raw_service =
  rsv_type :: "string option"
  rsv_source :: "string option"
  rsv_state :: "string option"
  rsv_secret_env_file :: "string option"
  rsv_health_timeout :: "string option"
  rsv_data :: "data_resource list"
  rsv_consistency :: "string option"

record raw_config =
  rc_version :: int
  rc_server_name :: "string option"
  rc_automatic_updates :: "bool option"
  rc_ssh_hardening :: "bool option"
  rc_docker :: "bool option"
  rc_tailscale :: "bool option"
  rc_firewall :: "string option"
  rc_data_root :: "string option"
  rc_resources :: "(string \<times> raw_storage_resource) list"
  rc_destination :: "string option"
  rc_maintenance :: "raw_maintenance option"
  rc_notifications :: "raw_notifications option"
  rc_services :: "(string \<times> raw_service) list"

definition defaults :: config where
  "defaults = \<lparr>cfg_version = 1, cfg_server = \<lparr>srv_name = ''home''\<rparr>,
     cfg_features = \<lparr>ft_automatic_updates = True, ft_ssh_hardening = True, ft_docker = True, ft_tailscale = True\<rparr>,
     cfg_network = \<lparr>net_firewall = ''disabled''\<rparr>,
     cfg_storage = \<lparr>stg_data_root = ''/srv/bebop'', stg_resources = []\<rparr>,
     cfg_backup = \<lparr>bk_destination = ''.bebop/backups''\<rparr>,
     cfg_maintenance = None, cfg_notifications = None, cfg_services = [], cfg_source_directory = []\<rparr>"

section \<open>Storage resources and data paths\<close>

text \<open>
  The body of the first loop. The maps from mount points and UUIDs to names are association lists
  of the resources already seen, latest first.
\<close>

definition validate_storage_resource ::
  "string \<Rightarrow> (string \<times> string) list \<Rightarrow> (string \<times> string) list \<Rightarrow> storage_resource \<Rightarrow> unit result" where
  "validate_storage_resource previous mounts uuids r =
     (let name = sr_name r in
      rfail_if (\<not> service_name_pattern name \<or> name = ''resources'')
        (errorf ''storage resource names must be 1-63 lowercase letters, numbers, or hyphens and start with a letter'')
      (rfail_if (previous \<noteq> [] \<and> name \<le> previous)
        (errorf ''storage resources must have unique names in lexical order'')
      (rbind (rmap_err (wrapf (''storage.resources.'' @ name @ ''.mount '')) (validate_storage_mount (sr_mount r))) (\<lambda>_.
      rfail_if (\<not> filesystem_uuid_pattern (sr_filesystem_uuid r))
        (errorf (''storage.resources.'' @ name @ ''.filesystem_uuid must be a safe filesystem UUID''))
      (rfail_if (sr_filesystem_type r \<noteq> [] \<and> \<not> filesystem_type_pattern (sr_filesystem_type r))
        (errorf (''storage.resources.'' @ name @ ''.filesystem_type must be a safe filesystem type''))
      (rfail_if (sr_minimum_capacity_bytes r < 0 \<or> sr_minimum_free_bytes r < 0)
        (errorf (''storage.resources.'' @ name @ '' capacity thresholds must not be negative''))
      (case map_of mounts (sr_mount r) of
         Some earlier \<Rightarrow> Inl (errorf (''storage resources '' @ earlier @ '' and '' @ name @ '' use the same mount point''))
       | None \<Rightarrow> (case map_of uuids (sr_filesystem_uuid r) of
           Some earlier \<Rightarrow> Inl (errorf (''storage resources '' @ earlier @ '' and '' @ name @ '' use the same filesystem UUID''))
         | None \<Rightarrow> Inr ()))))))))"

fun validate_storage_list ::
  "string \<Rightarrow> (string \<times> string) list \<Rightarrow> (string \<times> string) list \<Rightarrow> storage_resource list \<Rightarrow> unit result" where
  "validate_storage_list previous mounts uuids [] = Inr ()"
| "validate_storage_list previous mounts uuids (r # rs) =
     rbind (validate_storage_resource previous mounts uuids r)
       (\<lambda>_. validate_storage_list (sr_name r) ((sr_mount r, sr_name r) # mounts)
              ((sr_filesystem_uuid r, sr_name r) # uuids) rs)"

definition validate_storage_resources :: "storage \<Rightarrow> unit result" where
  "validate_storage_resources s =
     rbind (validate_storage_list [] [] [] (stg_resources s)) (\<lambda>_.
     rforeach (\<lambda>one. rforeach (\<lambda>other.
       rfail_if (sr_name one \<noteq> sr_name other \<and> has_prefix (sr_mount other) (sr_mount one @ ''/''))
         (errorf (''storage mount points '' @ sr_mount one @ '' and '' @ sr_mount other @ '' must not be nested''))
         (Inr ())) (stg_resources s)) (stg_resources s))"

definition resolve_data_path :: "storage \<Rightarrow> data_resource \<Rightarrow> string result" where
  "resolve_data_path s r =
     (if dr_storage r = [] then
        (if dr_path r = [] then Inl (errorf ''path must not be empty'') else Inr (dr_path r))
      else if \<not> service_name_pattern (dr_storage r)
        then Inl (errorf ''storage must name a configured storage resource'')
      else if dr_path r = [] \<or> has_prefix (dr_path r) ''/'' \<or> nul \<in> set (dr_path r)
          \<or> path_clean (dr_path r) \<noteq> dr_path r \<or> dr_path r = ''.'' \<or> has_prefix (dr_path r) ''../'' \<or> dr_path r = ''..''
        then Inl (errorf ''storage-relative path must be a clean non-empty relative target path'')
      else (case filter (\<lambda>candidate. sr_name candidate = dr_storage r) (stg_resources s) of
          candidate # _ \<Rightarrow> Inr (path_join (sr_mount candidate) (dr_path r))
        | [] \<Rightarrow> Inl (errorf (''storage '' @ go_quote (dr_storage r) @ '' is not declared''))))"

section \<open>Validation\<close>

abbreviation invalid :: "string \<Rightarrow> error" where
  "invalid m \<equiv> coded ConfigInvalid m"

text \<open>\<open>errs.New(errs.ConfigInvalid, prefix+err.Error(), nil)\<close>.\<close>

definition invalid_for :: "string \<Rightarrow> 'a result \<Rightarrow> 'a result" where
  "invalid_for prefix = rmap_err (\<lambda>e. invalid (prefix @ error_text e))"

definition validate_data_resource :: "storage \<Rightarrow> string \<Rightarrow> string \<Rightarrow> data_resource \<Rightarrow> unit result" where
  "validate_data_resource s svc previous r =
     (let at = ''service.'' @ svc @ ''.data.'' @ dr_name r in
      rfail_if (\<not> service_name_pattern (dr_name r))
        (invalid (''service.'' @ svc @ ''.data name must be 1-63 lowercase letters, numbers, or hyphens and start with a letter''))
      (rfail_if (previous \<noteq> [] \<and> dr_name r \<le> previous)
        (invalid (''service.'' @ svc @ ''.data resources must have unique names in lexical order''))
      (if dr_type r = ''volume'' then
         rfail_if (\<not> docker_volume_key_pattern (dr_volume r) \<or> dr_path r \<noteq> [] \<or> dr_storage r \<noteq> [])
           (invalid (at @ '' volume resources require a safe Compose volume key and no path'')) (Inr ())
       else if dr_type r = ''path'' then
         rfail_if (dr_volume r \<noteq> []) (invalid (at @ '' path resources must not declare volume''))
         (rbind (invalid_for (at @ '' '') (resolve_data_path s r)) (\<lambda>resolved.
          invalid_for (at @ '' '') (validate_backup_path resolved (stg_data_root s))))
       else Inl (invalid (at @ ''.type must be \"volume\" or \"path\"'')))))"

fun validate_data_list :: "storage \<Rightarrow> string \<Rightarrow> string \<Rightarrow> data_resource list \<Rightarrow> unit result" where
  "validate_data_list s svc previous [] = Inr ()"
| "validate_data_list s svc previous (r # rs) =
     rbind (validate_data_resource s svc previous r) (\<lambda>_. validate_data_list s svc (dr_name r) rs)"

definition validate_service :: "storage \<Rightarrow> string \<Rightarrow> service \<Rightarrow> unit result" where
  "validate_service s previous svc =
     (let name = svc_name svc in
      rfail_if (\<not> service_name_pattern name)
        (invalid ''service name must be 1-63 lowercase letters, numbers, or hyphens and start with a letter'')
      (rfail_if (previous \<noteq> [] \<and> name \<le> previous)
        (invalid ''services must have unique names in lexical order'')
      (rfail_if (svc_type svc \<noteq> ''compose'')
        (invalid (''service.'' @ name @ ''.type currently supports only \"compose\"''))
      (rbind (invalid_for (''service.'' @ name @ ''.source '')
                (validate_controller_relative_path (svc_source svc) False)) (\<lambda>_.
      rfail_if (svc_state svc \<noteq> ''running'' \<and> svc_state svc \<noteq> ''stopped'' \<and> svc_state svc \<noteq> ''absent'')
        (invalid (''service.'' @ name @ ''.state must be \"running\", \"stopped\", or \"absent\"''))
      (rbind (if svc_secret_env_file svc = [] then Inr ()
              else invalid_for (''service.'' @ name @ ''.secret_env_file '')
                (validate_controller_relative_path (svc_secret_env_file svc) True)) (\<lambda>_.
      rfail_if (svc_health_timeout svc = [])
        (invalid (''service.'' @ name @ ''.health_timeout must not be empty''))
      (rfail_if (case parse_duration (svc_health_timeout svc) of None \<Rightarrow> True
          | Some timeout \<Rightarrow> timeout < 1000000000 \<or> timeout > 1800000000000)
        (invalid (''service.'' @ name @ ''.health_timeout must be between 1s and 30m''))
      (rfail_if (sbk_consistency (svc_backup svc) \<noteq> ''stop'' \<and> sbk_consistency (svc_backup svc) \<noteq> ''live'')
        (invalid (''service.'' @ name @ ''.backup.consistency must be \"stop\" or \"live\"''))
      (validate_data_list s name [] (svc_data svc)))))))))))"

fun validate_services :: "storage \<Rightarrow> string \<Rightarrow> service list \<Rightarrow> unit result" where
  "validate_services s previous [] = Inr ()"
| "validate_services s previous (svc # svcs) =
     rbind (validate_service s previous svc) (\<lambda>_. validate_services s (svc_name svc) svcs)"

definition validate :: "config \<Rightarrow> unit result" where
  "validate c =
     rfail_if (cfg_version c \<noteq> 1)
       (invalid (''unsupported configuration version '' @ show_int (cfg_version c) @ '' (expected 1)''))
     (rfail_if (\<not> name_pattern (srv_name (cfg_server c)))
       (invalid ''server.name must be 1-63 letters, numbers, dots, underscores, or hyphens'')
     (rfail_if (net_firewall (cfg_network c) \<noteq> ''disabled'')
       (invalid ''network.firewall currently supports only \"disabled\"; Bebop M0 never configures firewalls'')
     (rbind (invalid_for [] (validate_data_root (stg_data_root (cfg_storage c)))) (\<lambda>_.
     rbind (invalid_for [] (validate_storage_resources (cfg_storage c))) (\<lambda>_.
     rbind (invalid_for [] (validate_backup_destination (bk_destination (cfg_backup c)))) (\<lambda>_.
     rbind (case cfg_maintenance c of None \<Rightarrow> Inr () | Some m \<Rightarrow> invalid_for [] (validate_maintenance m)) (\<lambda>_.
     rbind (case cfg_notifications c of None \<Rightarrow> Inr () | Some n \<Rightarrow> invalid_for [] (validate_notifications n)) (\<lambda>_.
     validate_services (cfg_storage c) [] (cfg_services c)))))))))"

section \<open>Decoding\<close>

text \<open>A quantity in bytes, or in words, but not both.\<close>

definition decode_threshold ::
  "string \<Rightarrow> string \<Rightarrow> int option \<Rightarrow> string option \<Rightarrow> int result" where
  "decode_threshold name field bytes text =
     (case text of None \<Rightarrow> Inr (or_default 0 bytes)
      | Some quantity \<Rightarrow>
          if bytes \<noteq> None
          then Inl (invalid (''storage.resources.'' @ name @ '' may use either '' @ field @ '' or '' @ field @ ''_bytes, not both''))
          else invalid_for (''storage.resources.'' @ name @ ''.'' @ field @ '' '') (parse_byte_size quantity))"

definition decode_storage_resource :: "string \<times> raw_storage_resource \<Rightarrow> storage_resource result" where
  "decode_storage_resource entry =
     (case entry of (name, raw) \<Rightarrow>
        rbind (decode_threshold name ''minimum_capacity'' (rsr_minimum_capacity_bytes raw) (rsr_minimum_capacity raw)) (\<lambda>capacity.
        rbind (decode_threshold name ''minimum_free'' (rsr_minimum_free_bytes raw) (rsr_minimum_free raw)) (\<lambda>free.
        Inr \<lparr>sr_name = name, sr_mount = or_default [] (rsr_mount raw),
          sr_filesystem_uuid = or_default [] (rsr_filesystem_uuid raw),
          sr_filesystem_type = or_default [] (rsr_filesystem_type raw),
          sr_minimum_capacity_bytes = capacity, sr_minimum_free_bytes = free,
          sr_managed_mount = or_default False (rsr_managed_mount raw)\<rparr>)))"

definition decode_service :: "string \<times> raw_service \<Rightarrow> service" where
  "decode_service entry =
     (case entry of (name, raw) \<Rightarrow>
        \<lparr>svc_name = name, svc_type = or_default [] (rsv_type raw), svc_source = or_default [] (rsv_source raw),
         svc_state = or_default ''running'' (rsv_state raw),
         svc_secret_env_file = or_default [] (rsv_secret_env_file raw),
         svc_health_timeout = or_default ''2m'' (rsv_health_timeout raw), svc_data = rsv_data raw,
         svc_backup = \<lparr>sbk_consistency = or_default ''stop'' (rsv_consistency raw)\<rparr>\<rparr>)"

fun rmap_list :: "('a \<Rightarrow> 'b result) \<Rightarrow> 'a list \<Rightarrow> 'b list result" where
  "rmap_list f [] = Inr []"
| "rmap_list f (x # xs) = rbind (f x) (\<lambda>y. rbind (rmap_list f xs) (\<lambda>ys. Inr (y # ys)))"

definition decode :: "raw_config option \<Rightarrow> config result" where
  "decode document =
     (case document of
        None \<Rightarrow> Inl (Coded ConfigInvalid ''invalid bebop.toml'' (Some (errorf ''toml'')))
      | Some raw \<Rightarrow>
        rbind (rmap_list decode_storage_resource (sort_slice fst (rc_resources raw))) (\<lambda>resources.
        rbind (case rc_maintenance raw of None \<Rightarrow> Inr None
               | Some m \<Rightarrow> rbind (decode_maintenance m) (\<lambda>x. Inr (Some x))) (\<lambda>maintenance.
        rbind (case rc_notifications raw of None \<Rightarrow> Inr None
               | Some n \<Rightarrow> rbind (decode_notifications n) (\<lambda>x. Inr (Some x))) (\<lambda>notifications.
        let c = \<lparr>cfg_version = rc_version raw,
              cfg_server = \<lparr>srv_name = or_default ''home'' (rc_server_name raw)\<rparr>,
              cfg_features = \<lparr>ft_automatic_updates = or_default True (rc_automatic_updates raw),
                ft_ssh_hardening = or_default True (rc_ssh_hardening raw),
                ft_docker = or_default True (rc_docker raw), ft_tailscale = or_default True (rc_tailscale raw)\<rparr>,
              cfg_network = \<lparr>net_firewall = or_default ''disabled'' (rc_firewall raw)\<rparr>,
              cfg_storage = \<lparr>stg_data_root = or_default ''/srv/bebop'' (rc_data_root raw), stg_resources = resources\<rparr>,
              cfg_backup = \<lparr>bk_destination = or_default ''.bebop/backups'' (rc_destination raw)\<rparr>,
              cfg_maintenance = maintenance, cfg_notifications = notifications,
              cfg_services = map decode_service (sort_slice fst (rc_services raw)),
              cfg_source_directory = []\<rparr>
        in rbind (validate c) (\<lambda>_. Inr c)))))"

text \<open>
  \<open>LoadFile\<close>, over the working directory, the files that can be read, and the TOML reader.
\<close>

definition path_abs :: "string \<Rightarrow> string \<Rightarrow> string" where
  "path_abs cwd p = (if is_rooted p then path_clean p else path_join cwd p)"

definition load_file ::
  "(string \<Rightarrow> raw_config option) \<Rightarrow> (string \<Rightarrow> string option) \<Rightarrow> string \<Rightarrow> string \<Rightarrow> config result" where
  "load_file toml read cwd filename =
     (let abs = path_abs cwd filename in
      case read abs of
        None \<Rightarrow> Inl (Coded ConfigInvalid ''cannot read configuration'' (Some (errorf ''open'')))
      | Some contents \<Rightarrow>
          rbind (decode (toml contents)) (\<lambda>c. Inr (c\<lparr>cfg_source_directory := path_dir abs\<rparr>)))"

section \<open>Adoption, the starter file, the fingerprint\<close>

definition storage_table :: "storage_resource \<Rightarrow> string" where
  "storage_table r =
     (let line = (\<lambda>key v. key @ '' = '' @ v @ [CHR 0x0A]) in
      [CHR 0x0A] @ ''[storage.resources.'' @ sr_name r @ '']'' @ [CHR 0x0A]
      @ line ''mount'' (go_quote (sr_mount r))
      @ line ''filesystem_uuid'' (go_quote (sr_filesystem_uuid r))
      @ (if sr_filesystem_type r \<noteq> [] then line ''filesystem_type'' (go_quote (sr_filesystem_type r)) else [])
      @ (if sr_minimum_capacity_bytes r > 0
         then line ''minimum_capacity_bytes'' (show_int (sr_minimum_capacity_bytes r)) else [])
      @ (if sr_minimum_free_bytes r > 0
         then line ''minimum_free_bytes'' (show_int (sr_minimum_free_bytes r)) else [])
      @ (if sr_managed_mount r then line ''managed_mount'' ''true'' else []))"

text \<open>The new contents of the file; writing it atomically is left to the operating system.\<close>

definition adopt_storage_resource ::
  "(string \<Rightarrow> raw_config option) \<Rightarrow> (string \<Rightarrow> string option) \<Rightarrow> string \<Rightarrow> string \<Rightarrow> storage_resource \<Rightarrow> string result" where
  "adopt_storage_resource toml read cwd filename resource =
     rbind (load_file toml read cwd filename) (\<lambda>c.
     rbind (invalid_for [] (validate_storage_resources ((cfg_storage c)
              \<lparr>stg_resources := sort_slice sr_name (stg_resources (cfg_storage c) @ [resource])\<rparr>))) (\<lambda>_.
     case read (path_abs cwd filename) of
       None \<Rightarrow> Inl (Coded ConfigInvalid ''read configuration for storage adoption'' (Some (errorf ''open'')))
     | Some contents \<Rightarrow>
         if str_contains contents (''[storage.resources.'' @ sr_name resource @ '']'')
         then Inl (invalid (''storage resource '' @ sr_name resource @ '' already exists''))
         else Inr (contents @ storage_table resource)))"

definition show_bool :: "bool \<Rightarrow> string" where
  "show_bool b = (if b then ''true'' else ''false'')"

definition starter :: string where
  "starter =
     (let c = defaults; nl = [CHR 0x0A] in
      ''version = '' @ show_int (cfg_version c) @ nl @ nl @ ''[server]'' @ nl
      @ ''name = '' @ go_quote (srv_name (cfg_server c)) @ nl @ nl @ ''[features]'' @ nl
      @ ''automatic_updates = '' @ show_bool (ft_automatic_updates (cfg_features c)) @ nl
      @ ''ssh_hardening = '' @ show_bool (ft_ssh_hardening (cfg_features c)) @ nl
      @ ''docker = '' @ show_bool (ft_docker (cfg_features c)) @ nl
      @ ''tailscale = '' @ show_bool (ft_tailscale (cfg_features c)) @ nl @ nl @ ''[network]'' @ nl
      @ ''firewall = '' @ go_quote (net_firewall (cfg_network c)) @ nl @ nl @ ''[storage]'' @ nl
      @ ''data_root = '' @ go_quote (stg_data_root (cfg_storage c)) @ nl)"

text \<open>
  The fields that the JSON of the normalised configuration has: everything but the maintenance
  policy, the notification policy and the unexported source directory.
\<close>

definition normalized :: "config \<Rightarrow> config" where
  "normalized c = c\<lparr>cfg_maintenance := None, cfg_notifications := None,
     cfg_services := sort_slice svc_name (cfg_services c), cfg_source_directory := []\<rparr>"

definition fingerprint :: "(config \<Rightarrow> string) \<Rightarrow> config \<Rightarrow> string result" where
  "fingerprint digest c = rbind (validate c) (\<lambda>_. Inr (digest (normalized c)))"

text \<open>\<open>Open\<close> of \<open>internal/backup/repository.go\<close>: the directory of the repository, up to symbolic links.\<close>

definition backup_root :: "config \<Rightarrow> string result" where
  "backup_root c =
     rbind (validate c) (\<lambda>_.
     let destination = bk_destination (cfg_backup c) in
     if is_rooted destination then Inr (path_clean destination)
     else if cfg_source_directory c = []
       then Inl (invalid ''relative backup.destination requires a configuration loaded from a file'')
     else Inr (path_join (cfg_source_directory c) destination))"

section \<open>Lemmas\<close>

lemma invalid_for_ok [result_simps]: "invalid_for p r = Inr x \<longleftrightarrow> r = Inr x"
  by (cases r) (simp_all add: invalid_for_def)

lemma unit_result_ok: "(r :: unit result) = Inr u \<longleftrightarrow> r = Inr ()"
  by simp

text \<open>Strict lexical order of names, from a previous name (empty at the start).\<close>

definition ascending :: "string \<Rightarrow> string list \<Rightarrow> bool" where
  "ascending previous ns \<longleftrightarrow>
     sorted_wrt (<) ns \<and> (previous \<noteq> [] \<longrightarrow> (\<forall>n\<in>set ns. previous < n)) \<and> [] \<notin> set ns"

lemma ascending_Cons:
  "ascending n ns \<Longrightarrow> n \<noteq> [] \<Longrightarrow> \<not> (previous \<noteq> [] \<and> n \<le> previous) \<Longrightarrow> ascending previous (n # ns)"
  by (auto simp: ascending_def)

lemma ascending_distinct: "ascending previous ns \<Longrightarrow> distinct ns"
  by (auto simp: ascending_def sorted_wrt_less_distinct)

text \<open>What the loop over the storage resources establishes.\<close>

definition resource_ok :: "storage_resource \<Rightarrow> bool" where
  "resource_ok r \<longleftrightarrow> service_name_pattern (sr_name r) \<and> sr_name r \<noteq> ''resources''
     \<and> validate_storage_mount (sr_mount r) = Inr () \<and> filesystem_uuid_pattern (sr_filesystem_uuid r)
     \<and> (sr_filesystem_type r = [] \<or> filesystem_type_pattern (sr_filesystem_type r))
     \<and> 0 \<le> sr_minimum_capacity_bytes r \<and> 0 \<le> sr_minimum_free_bytes r"

lemma validate_storage_list_ok:
  "validate_storage_list previous mounts uuids rs = Inr () \<Longrightarrow>
     ascending previous (map sr_name rs) \<and> (\<forall>r\<in>set rs. resource_ok r)
     \<and> distinct (map sr_mount rs) \<and> set (map sr_mount rs) \<inter> fst ` set mounts = {}
     \<and> distinct (map sr_filesystem_uuid rs) \<and> set (map sr_filesystem_uuid rs) \<inter> fst ` set uuids = {}"
proof (induction previous mounts uuids rs rule: validate_storage_list.induct)
  case (1 previous mounts uuids)
  then show ?case by (simp add: ascending_def)
next
  case (2 previous mounts uuids r rs)
  then have r: "validate_storage_resource previous mounts uuids r = Inr ()"
    and rest: "validate_storage_list (sr_name r) ((sr_mount r, sr_name r) # mounts)
      ((sr_filesystem_uuid r, sr_name r) # uuids) rs = Inr ()"
    by (auto simp: result_simps)
  have ok: "resource_ok r" "\<not> (previous \<noteq> [] \<and> sr_name r \<le> previous)"
    "sr_mount r \<notin> fst ` set mounts" "sr_filesystem_uuid r \<notin> fst ` set uuids"
    using r by (auto simp: validate_storage_resource_def resource_ok_def result_simps Let_def
        map_of_eq_None_iff split: option.splits)
  moreover have "sr_name r \<noteq> []" using ok(1) by (simp add: resource_ok_def service_name_nonempty)
  ultimately show ?case using "2.IH" r rest by (auto intro: ascending_Cons)
qed

lemma validate_storage_facts:
  assumes "validate_storage_resources s = Inr ()"
  shows "ascending [] (map sr_name (stg_resources s))" "\<And>r. r \<in> set (stg_resources s) \<Longrightarrow> resource_ok r"
    "distinct (map sr_mount (stg_resources s))" "distinct (map sr_filesystem_uuid (stg_resources s))"
    "\<And>a b. a \<in> set (stg_resources s) \<Longrightarrow> b \<in> set (stg_resources s) \<Longrightarrow>
       sr_name a \<noteq> sr_name b \<Longrightarrow> \<not> has_prefix (sr_mount b) (sr_mount a @ ''/'')"
proof -
  have l: "validate_storage_list [] [] [] (stg_resources s) = Inr ()"
    using assms by (auto simp: validate_storage_resources_def result_simps)
  show "ascending [] (map sr_name (stg_resources s))" "\<And>r. r \<in> set (stg_resources s) \<Longrightarrow> resource_ok r"
    "distinct (map sr_mount (stg_resources s))" "distinct (map sr_filesystem_uuid (stg_resources s))"
    using validate_storage_list_ok [OF l] by auto
  show "\<And>a b. a \<in> set (stg_resources s) \<Longrightarrow> b \<in> set (stg_resources s) \<Longrightarrow>
       sr_name a \<noteq> sr_name b \<Longrightarrow> \<not> has_prefix (sr_mount b) (sr_mount a @ ''/'')"
    using assms by (auto simp: validate_storage_resources_def result_simps)
qed

lemma validate_services_ok:
  "validate_services s previous svcs = Inr () \<Longrightarrow>
     ascending previous (map svc_name svcs) \<and> (\<forall>v\<in>set svcs. \<exists>p. validate_service s p v = Inr ())"
proof (induction s previous svcs rule: validate_services.induct)
  case (1 s previous)
  then show ?case by (simp add: ascending_def)
next
  case (2 s previous svc svcs)
  then have v: "validate_service s previous svc = Inr ()"
    and rest: "validate_services s (svc_name svc) svcs = Inr ()" by (auto simp: result_simps)
  have "service_name_pattern (svc_name svc)" "\<not> (previous \<noteq> [] \<and> svc_name svc \<le> previous)"
    using v by (auto simp: validate_service_def result_simps Let_def)
  moreover from this have "svc_name svc \<noteq> []" by (simp add: service_name_nonempty)
  ultimately show ?case using "2.IH" v rest by (auto intro: ascending_Cons)
qed

lemma validate_data_ok:
  "validate_data_list s svc previous rs = Inr () \<Longrightarrow>
     ascending previous (map dr_name rs) \<and> (\<forall>r\<in>set rs. \<exists>p. validate_data_resource s svc p r = Inr ())"
proof (induction s svc previous rs rule: validate_data_list.induct)
  case (1 s svc previous)
  then show ?case by (simp add: ascending_def)
next
  case (2 s svc previous r rs)
  then have v: "validate_data_resource s svc previous r = Inr ()"
    and rest: "validate_data_list s svc (dr_name r) rs = Inr ()" by (auto simp: result_simps)
  have "service_name_pattern (dr_name r)" "\<not> (previous \<noteq> [] \<and> dr_name r \<le> previous)"
    using v by (auto simp: validate_data_resource_def result_simps Let_def)
  moreover from this have "dr_name r \<noteq> []" by (simp add: service_name_nonempty)
  ultimately show ?case using "2.IH" v rest by (auto intro: ascending_Cons)
qed

lemma validate_parts:
  assumes "validate c = Inr ()"
  shows "validate_data_root (stg_data_root (cfg_storage c)) = Inr ()"
    "validate_storage_resources (cfg_storage c) = Inr ()"
    "validate_backup_destination (bk_destination (cfg_backup c)) = Inr ()"
    "validate_services (cfg_storage c) [] (cfg_services c) = Inr ()"
    "\<And>m. cfg_maintenance c = Some m \<Longrightarrow> validate_maintenance m = Inr ()"
    "\<And>n. cfg_notifications c = Some n \<Longrightarrow> validate_notifications n = Inr ()"
    "name_pattern (srv_name (cfg_server c))" "cfg_version c = 1" "net_firewall (cfg_network c) = ''disabled''"
  using assms by (auto simp: validate_def result_simps split: option.splits)

lemma validate_service_data:
  "validate_service s p v = Inr () \<Longrightarrow> validate_data_list s (svc_name v) [] (svc_data v) = Inr ()"
  by (auto simp: validate_service_def result_simps Let_def)

lemma validated_data:
  assumes "validate c = Inr ()" and "v \<in> set (cfg_services c)" and "r \<in> set (svc_data v)"
  shows "\<exists>p. validate_data_resource (cfg_storage c) (svc_name v) p r = Inr ()"
proof -
  obtain p where "validate_service (cfg_storage c) p v = Inr ()"
    using validate_services_ok [OF validate_parts(4) [OF assms(1)]] assms(2) by blast
  from validate_data_ok [OF validate_service_data [OF this]] assms(3) show ?thesis by blast
qed

section \<open>Properties\<close>

text \<open>
  The storage resources of a validated configuration never overlap: names are in strict order,
  every mount point is clean and outside the system directories, filesystem UUIDs are distinct, and
  no mount point equals or lies below that of another resource.
\<close>

theorem storage_resources_disjoint:
  assumes "validate c = Inr ()"
  shows "let rs = stg_resources (cfg_storage c) in
    sorted_wrt (<) (map sr_name rs) \<and> distinct (map sr_filesystem_uuid rs)
    \<and> list_all (\<lambda>r. validate_storage_mount (sr_mount r) = Inr ()) rs
    \<and> list_all (\<lambda>a. list_all (\<lambda>b. covers (sr_mount a) (sr_mount b) = (a = b)) rs) rs"
proof -
  let ?rs = "stg_resources (cfg_storage c)"
  note F = validate_storage_facts [OF validate_parts(2) [OF assms]]
  have "covers (sr_mount a) (sr_mount b) = (a = b)" if "a \<in> set ?rs" "b \<in> set ?rs" for a b
  proof (cases "a = b")
    case False
    have "sr_name a \<noteq> sr_name b"
      using False that ascending_distinct [OF F(1)] by (auto simp: distinct_map inj_on_def)
    moreover have "sr_mount b \<noteq> sr_mount a"
      using False that F(3) by (auto simp: distinct_map inj_on_def)
    ultimately show ?thesis using False that F(5) by (simp add: covers_def)
  qed (simp add: covers_def)
  with F show ?thesis by (simp add: list_all_iff ascending_def resource_ok_def)
qed

text \<open>
  C9. Declared data stays where the configuration authorises it. For a path resource of a validated
  configuration, the resolved target path is clean and absolute, outside every system directory and
  outside the data root; when it names a storage resource, that resource is declared and the path
  lies strictly below its mount point.
\<close>

theorem data_paths_contained:
  assumes "validate c = Inr ()" and "v \<in> set (cfg_services c)" and "r \<in> set (svc_data v)"
    and "dr_type r = ''path''"
  shows "\<exists>p. resolve_data_path (cfg_storage c) r = Inr p \<and> path_clean p = p \<and> is_rooted p
    \<and> list_all (\<lambda>d. \<not> covers d p) system_directories \<and> \<not> covers (stg_data_root (cfg_storage c)) p
    \<and> (dr_storage r = [] \<or> list_ex (\<lambda>s. sr_name s = dr_storage r \<and> p = sr_mount s @ ''/'' @ dr_path r)
          (stg_resources (cfg_storage c)))"
proof -
  obtain q where "validate_data_resource (cfg_storage c) (svc_name v) q r = Inr ()"
    using validated_data [OF assms(1-3)] by blast
  with assms(4) obtain p where p: "resolve_data_path (cfg_storage c) r = Inr p"
    "validate_backup_path p (stg_data_root (cfg_storage c)) = Inr ()"
    by (auto simp: validate_data_resource_def result_simps Let_def)
  have "list_ex (\<lambda>s. sr_name s = dr_storage r \<and> p = sr_mount s @ ''/'' @ dr_path r)
      (stg_resources (cfg_storage c))" if ne: "dr_storage r \<noteq> []"
  proof -
    obtain s rest where s: "filter (\<lambda>x. sr_name x = dr_storage r) (stg_resources (cfg_storage c)) = s # rest"
      "p = path_join (sr_mount s) (dr_path r)"
      and d: "dr_path r \<noteq> []" "\<not> is_rooted (dr_path r)" "path_clean (dr_path r) = dr_path r"
        "dr_path r \<noteq> ''.''" "dr_path r \<noteq> ''..''" "\<not> has_prefix (dr_path r) ''../''"
      using p(1) ne by (auto simp: resolve_data_path_def is_rooted_def split: if_splits list.splits)
    have "s \<in> set (filter (\<lambda>x. sr_name x = dr_storage r) (stg_resources (cfg_storage c)))"
      using s(1) by simp
    then have mem: "s \<in> set (stg_resources (cfg_storage c))" "sr_name s = dr_storage r" by simp_all
    have "validate_storage_mount (sr_mount s) = Inr ()"
      using validate_storage_facts(2) [OF validate_parts(2) [OF assms(1)] mem(1)] by (simp add: resource_ok_def)
    then have "path_clean (sr_mount s) = sr_mount s" "is_rooted (sr_mount s)" "sr_mount s \<noteq> ''/''"
      by (simp_all add: validate_storage_mount_ok)
    from path_join_below(1) [OF this d(3,1,4,2,5,6)] mem s(2) show ?thesis
      by (auto simp: list_ex_iff)
  qed
  with p show ?thesis by (auto simp: validate_backup_path_ok list_all_iff)
qed

definition ex_service :: service where
  "ex_service = \<lparr>svc_name = ''media'', svc_type = ''compose'', svc_source = ''services/media'',
     svc_state = ''running'', svc_secret_env_file = [], svc_health_timeout = ''2m'',
     svc_data = [\<lparr>dr_name = ''files'', dr_type = ''path'', dr_volume = [], dr_path = ''media/files'',
       dr_storage = ''disk''\<rparr>],
     svc_backup = \<lparr>sbk_consistency = ''stop''\<rparr>\<rparr>"

definition ex_config :: config where
  "ex_config = defaults\<lparr>
     cfg_storage := \<lparr>stg_data_root = ''/srv/bebop'', stg_resources =
       [\<lparr>sr_name = ''disk'', sr_mount = ''/mnt/disk'', sr_filesystem_uuid = ''1234-ABCD'', sr_filesystem_type = ''ext4'',
         sr_minimum_capacity_bytes = 0, sr_minimum_free_bytes = 0, sr_managed_mount = True\<rparr>]\<rparr>,
     cfg_services := [ex_service], cfg_source_directory := ''/home/me/cfg''\<rparr>"

lemmas config_eval =
  validate_def validate_data_root_def validate_storage_resources_def validate_storage_resource_def
  validate_storage_mount_def validate_backup_destination_def validate_service_def
  validate_data_resource_def resolve_data_path_def validate_backup_path_def
  validate_controller_relative_path_def invalid_for_def covers_def system_directories_def
  data_prefixes_def is_rooted_def replace_backslash_def path_clean_def clean_elements_def
  push_element_def path_join_def name_pattern_def service_name_pattern_def
  filesystem_uuid_pattern_def filesystem_type_pattern_def pattern_of_def char_eval

lemma two_minutes: "parse_duration ''2m'' = Some 120000000000"
  by (simp add: parse_duration_def duration_loop.simps is_number_char_def leading_int_def
      duration_unit_def char_eval)

lemma ex_config_valid: "validate ex_config = Inr ()"
  by (simp add: ex_config_def ex_service_def defaults_def config_eval two_minutes)

lemma storage_resources_disjoint_witness:
  "list_all (\<lambda>r. validate_storage_mount (sr_mount r) = Inr ()) (stg_resources (cfg_storage ex_config))"
  using storage_resources_disjoint [OF ex_config_valid] by (simp add: Let_def)

lemma data_paths_contained_witness:
  "\<exists>p. resolve_data_path (cfg_storage ex_config) (hd (svc_data ex_service)) = Inr p
    \<and> \<not> covers ''/srv/bebop'' p"
  using data_paths_contained [OF ex_config_valid, of ex_service "hd (svc_data ex_service)"]
  by (auto simp: ex_config_def ex_service_def)

text \<open>
  Decoding does not depend on the order in which the document names its tables: permuting the
  storage resources and the services of a document, whose names are distinct as the keys of a TOML
  table are, gives the same configuration or the same error.
\<close>

theorem decode_order_independent:
  assumes "mset resources = mset (rc_resources raw)" and "distinct (map fst (rc_resources raw))"
    and "mset services = mset (rc_services raw)" and "distinct (map fst (rc_services raw))"
  shows "decode (Some (raw\<lparr>rc_resources := resources, rc_services := services\<rparr>)) = decode (Some raw)"
proof -
  have "sort_slice fst resources = sort_slice fst (rc_resources raw)"
    by (rule sort_key_unique [symmetric]) (use assms in simp_all)
  moreover have "sort_slice fst services = sort_slice fst (rc_services raw)"
    by (rule sort_key_unique [symmetric]) (use assms in simp_all)
  ultimately show ?thesis by (simp add: decode_def)
qed

definition ex_raw :: raw_config where
  "ex_raw = \<lparr>rc_version = 1, rc_server_name = None, rc_automatic_updates = None, rc_ssh_hardening = None,
     rc_docker = None, rc_tailscale = Some False, rc_firewall = None, rc_data_root = None,
     rc_resources = [], rc_destination = None, rc_maintenance = None, rc_notifications = None,
     rc_services =
       [(''web'', \<lparr>rsv_type = Some ''compose'', rsv_source = Some ''services/web'', rsv_state = None,
          rsv_secret_env_file = None, rsv_health_timeout = None, rsv_data = [], rsv_consistency = None\<rparr>),
        (''dns'', \<lparr>rsv_type = Some ''compose'', rsv_source = Some ''services/dns'', rsv_state = Some ''stopped'',
          rsv_secret_env_file = None, rsv_health_timeout = None, rsv_data = [], rsv_consistency = None\<rparr>)]\<rparr>"

lemma decode_order_independent_witness:
  "decode (Some (ex_raw\<lparr>rc_resources := [], rc_services := rev (rc_services ex_raw)\<rparr>)) = decode (Some ex_raw)"
  by (rule decode_order_independent) (simp_all add: ex_raw_def)

lemma ascending_sorted: "ascending [] (map f xs) \<Longrightarrow> sort_key f xs = xs"
proof -
  assume "ascending [] (map f xs)"
  then have "sorted_wrt (<) (map f xs)" by (simp add: ascending_def)
  then have "sorted (map f xs)" by (simp add: strict_sorted_iff)
  then show "sort_key f xs = xs" by (rule sort_key_id_if_sorted)
qed

text \<open>
  The fingerprint is that of the desired state of the target alone: two valid configurations that
  differ only in the maintenance policy, the notification policy and the directory they were loaded
  from have the same fingerprint, and if the digest tells their normalised forms apart, equal
  fingerprints mean that nothing else differs.
\<close>

theorem fingerprint_desired_state:
  assumes "fingerprint digest a = Inr f" and "fingerprint digest b = Inr g"
    and "digest (normalized a) = digest (normalized b) \<Longrightarrow> normalized a = normalized b"
  shows "f = g \<longleftrightarrow> cfg_version a = cfg_version b \<and> cfg_server a = cfg_server b \<and> cfg_features a = cfg_features b
    \<and> cfg_network a = cfg_network b \<and> cfg_storage a = cfg_storage b \<and> cfg_backup a = cfg_backup b
    \<and> cfg_services a = cfg_services b"
proof -
  have v: "validate a = Inr ()" "validate b = Inr ()" and d: "f = digest (normalized a)" "g = digest (normalized b)"
    using assms(1,2) by (auto simp: fingerprint_def result_simps)
  have s: "sort_key svc_name (cfg_services c) = cfg_services c" if "validate c = Inr ()" for c
    using validate_services_ok [OF validate_parts(4) [OF that]] by (auto intro: ascending_sorted)
  have "normalized a = normalized b \<longleftrightarrow> cfg_version a = cfg_version b \<and> cfg_server a = cfg_server b
    \<and> cfg_features a = cfg_features b \<and> cfg_network a = cfg_network b \<and> cfg_storage a = cfg_storage b
    \<and> cfg_backup a = cfg_backup b \<and> cfg_services a = cfg_services b"
    using s [OF v(1)] s [OF v(2)] by (cases a; cases b) (auto simp: normalized_def)
  with d assms(3) show ?thesis by metis
qed

lemma fingerprint_desired_state_witness:
  "srv_name (cfg_server ex_config) \<noteq> srv_name (cfg_server (ex_config\<lparr>cfg_server := \<lparr>srv_name = ''pi''\<rparr>\<rparr>))"
proof -
  let ?b = "ex_config\<lparr>cfg_server := \<lparr>srv_name = ''pi''\<rparr>\<rparr>" and ?digest = "\<lambda>c. srv_name (cfg_server c)"
  have b: "validate ?b = Inr ()"
    by (simp add: ex_config_def ex_service_def defaults_def config_eval two_minutes)
  have f: "fingerprint ?digest ex_config = Inr ''home''" "fingerprint ?digest ?b = Inr ''pi''"
    using b ex_config_valid by (simp_all add: fingerprint_def normalized_def ex_config_def defaults_def)
  have "?digest (normalized ex_config) \<noteq> ?digest (normalized ?b)"
    by (simp add: normalized_def ex_config_def defaults_def)
  with fingerprint_desired_state [OF f] show ?thesis by auto
qed

text \<open>
  A relative backup destination without backslashes keeps the backup repository inside the
  directory of the configuration, as \<open>ValidateBackupDestination\<close> promises: the root that \<open>Open\<close>
  computes is that directory or lies below it.
\<close>

theorem backup_root_contained:
  assumes "backup_root c = Inr root" and "\<not> is_rooted (bk_destination (cfg_backup c))"
    and "CHR 0x5C \<notin> set (bk_destination (cfg_backup c))"
    and "path_clean (cfg_source_directory c) = cfg_source_directory c"
    and "is_rooted (cfg_source_directory c)" and "cfg_source_directory c \<noteq> ''/''"
  shows "covers (cfg_source_directory c) root"
proof -
  have v: "validate c = Inr ()" and r: "root = path_join (cfg_source_directory c) (bk_destination (cfg_backup c))"
    using assms(1,2) by (auto simp: backup_root_def result_simps Let_def split: if_splits)
  have "validate_controller_relative_path (bk_destination (cfg_backup c)) False = Inr ()"
    using validate_parts(3) [OF v] assms(2)
    by (auto simp: validate_backup_destination_def result_simps split: if_splits)
  from relative_contained [OF this assms(4-6)] r assms(3) show ?thesis
    by (simp add: replace_backslash_id)
qed

lemma backup_root_contained_witness:
  "covers ''/home/me/cfg'' ''/home/me/cfg/.bebop/backups''"
proof -
  have "backup_root ex_config = Inr ''/home/me/cfg/.bebop/backups''"
    using ex_config_valid by (simp add: backup_root_def ex_config_def defaults_def path_join_def
        path_clean_def clean_elements_def push_element_def is_rooted_def)
  from backup_root_contained [OF this] show ?thesis
    by (simp add: ex_config_def defaults_def path_clean_def clean_elements_def push_element_def is_rooted_def)
qed

text \<open>
  With a backslash it need not: the validator reads a backslash as a separator, the repository on a
  Unix controller reads it as an ordinary byte. The destination below passes validation and puts the
  repository outside the directory of the configuration.
\<close>

definition ex_backslash :: config where
  "ex_backslash = ex_config\<lparr>cfg_backup := \<lparr>bk_destination = ''a'' @ [CHR 0x5C] @ ''b/../../other''\<rparr>\<rparr>"

lemma backup_destination_escapes:
  "validate ex_backslash = Inr ()"
  "backup_root ex_backslash = Inr ''/home/me/other''"
  "\<not> covers (cfg_source_directory ex_backslash) ''/home/me/other''"
proof -
  show v: "validate ex_backslash = Inr ()"
    by (simp add: ex_backslash_def ex_config_def ex_service_def defaults_def config_eval two_minutes)
  then show "backup_root ex_backslash = Inr ''/home/me/other''"
    by (simp add: backup_root_def ex_backslash_def ex_config_def defaults_def path_join_def
        path_clean_def clean_elements_def push_element_def is_rooted_def)
  show "\<not> covers (cfg_source_directory ex_backslash) ''/home/me/other''"
    by (simp add: ex_backslash_def ex_config_def covers_def)
qed

end
