(* ===== verification/Platform.thy ===== *)
theory Platform
  imports Errs
begin

text \<open>
  Files \<open>platform.go\<close> and \<open>osrelease.go\<close> of \<open>internal/facts\<close>, with type \<open>OS\<close> of \<open>facts.go\<close>: the
  matrix of reviewed platforms, the match of an operating system against it, the parser of
  \<open>/etc/os-release\<close> and the policies that depend on the platform. A Go string type with named
  constants stays a string, with an abbreviation per constant.
\<close>

section \<open>The operating system and the platform policy\<close>

record os =
  os_id :: string
  os_name :: string
  os_version_id :: string
  os_build_id :: string
  os_version_codename :: string
  os_platform_id :: string
  os_family :: string
  os_supported :: bool

type_synonym init_system = string

abbreviation InitSystemUnknown :: init_system where "InitSystemUnknown \<equiv> ''unknown''"
abbreviation InitSystemSystemd :: init_system where "InitSystemSystemd \<equiv> ''systemd''"
abbreviation InitSystemOpenRC :: init_system where "InitSystemOpenRC \<equiv> ''openrc''"
abbreviation InitSystemRunit :: init_system where "InitSystemRunit \<equiv> ''runit''"
abbreviation InitSystemSysV :: init_system where "InitSystemSysV \<equiv> ''sysvinit''"
abbreviation InitSystemDinit :: init_system where "InitSystemDinit \<equiv> ''dinit''"

type_synonym release_model = string

abbreviation ReleaseFixed :: release_model where "ReleaseFixed \<equiv> ''fixed''"
abbreviation ReleaseRolling :: release_model where "ReleaseRolling \<equiv> ''rolling''"
abbreviation ReleaseStream :: release_model where "ReleaseStream \<equiv> ''stream''"

type_synonym automatic_update_policy = string

abbreviation AutomaticUpdatesSupported :: automatic_update_policy
  where "AutomaticUpdatesSupported \<equiv> ''supported''"
abbreviation AutomaticUpdatesUnsupported :: automatic_update_policy
  where "AutomaticUpdatesUnsupported \<equiv> ''intentionally_unsupported''"

type_synonym root_persistence_policy = string

abbreviation RootPersistenceStandard :: root_persistence_policy
  where "RootPersistenceStandard \<equiv> ''standard''"
abbreviation RootPersistencePersistent :: root_persistence_policy
  where "RootPersistencePersistent \<equiv> ''persistent_host_required''"

type_synonym capability = string

abbreviation CapabilityInspect :: capability where "CapabilityInspect \<equiv> ''inspect''"
abbreviation CapabilityBootstrap :: capability where "CapabilityBootstrap \<equiv> ''bootstrap''"
abbreviation CapabilityDoctor :: capability where "CapabilityDoctor \<equiv> ''doctor''"
abbreviation CapabilityStatus :: capability where "CapabilityStatus \<equiv> ''status''"
abbreviation CapabilityPlan :: capability where "CapabilityPlan \<equiv> ''plan''"
abbreviation CapabilityApply :: capability where "CapabilityApply \<equiv> ''apply''"
abbreviation CapabilitySavedPlanApply :: capability where "CapabilitySavedPlanApply \<equiv> ''saved_plan_apply''"
abbreviation CapabilityDataRoot :: capability where "CapabilityDataRoot \<equiv> ''data_root''"
abbreviation CapabilityAutomaticUpdates :: capability where "CapabilityAutomaticUpdates \<equiv> ''automatic_updates''"
abbreviation CapabilityDocker :: capability where "CapabilityDocker \<equiv> ''docker''"
abbreviation CapabilityComposeV2 :: capability where "CapabilityComposeV2 \<equiv> ''compose_v2''"
abbreviation CapabilityTailscale :: capability where "CapabilityTailscale \<equiv> ''tailscale''"
abbreviation CapabilitySSHHardening :: capability where "CapabilitySSHHardening \<equiv> ''ssh_hardening''"
abbreviation CapabilityStorageAssessment :: capability where "CapabilityStorageAssessment \<equiv> ''storage_assessment''"
abbreviation CapabilityManagedMounts :: capability where "CapabilityManagedMounts \<equiv> ''managed_mounts''"
abbreviation CapabilityComposeServices :: capability where "CapabilityComposeServices \<equiv> ''compose_services''"
abbreviation CapabilityBackups :: capability where "CapabilityBackups \<equiv> ''backups''"
abbreviation CapabilityRestore :: capability where "CapabilityRestore \<equiv> ''restore''"
abbreviation CapabilityMaintenanceBackup :: capability where "CapabilityMaintenanceBackup \<equiv> ''maintenance_backup''"
abbreviation CapabilityMaintenanceDoctor :: capability where "CapabilityMaintenanceDoctor \<equiv> ''maintenance_doctor''"
abbreviation CapabilityMaintenanceUpdateCheck :: capability where "CapabilityMaintenanceUpdateCheck \<equiv> ''maintenance_update_check''"
abbreviation CapabilityNotifications :: capability where "CapabilityNotifications \<equiv> ''notifications''"
abbreviation CapabilityRecipes :: capability where "CapabilityRecipes \<equiv> ''recipes''"

definition required_capabilities :: "capability list" where
  "required_capabilities =
     [CapabilityInspect,
      CapabilityBootstrap,
      CapabilityDoctor,
      CapabilityStatus,
      CapabilityPlan,
      CapabilityApply,
      CapabilitySavedPlanApply,
      CapabilityDataRoot,
      CapabilityAutomaticUpdates,
      CapabilityDocker,
      CapabilityComposeV2,
      CapabilityTailscale,
      CapabilitySSHHardening,
      CapabilityStorageAssessment,
      CapabilityManagedMounts,
      CapabilityComposeServices,
      CapabilityBackups,
      CapabilityRestore,
      CapabilityMaintenanceBackup,
      CapabilityMaintenanceDoctor,
      CapabilityMaintenanceUpdateCheck,
      CapabilityNotifications,
      CapabilityRecipes]"

type_synonym capability_state = string

abbreviation CapabilitySupported :: capability_state where "CapabilitySupported \<equiv> ''supported''"
abbreviation CapabilitySupportedWithConstraint :: capability_state
  where "CapabilitySupportedWithConstraint \<equiv> ''supported_with_constraint''"
abbreviation CapabilityIntentionallyUnsupported :: capability_state
  where "CapabilityIntentionallyUnsupported \<equiv> ''intentionally_unsupported''"

record platform_match =
  pm_id :: string
  pm_version_id :: string
  pm_version_prefix :: string
  pm_numeric_triplet :: bool
  pm_version_codename :: string
  pm_build_id :: string
  pm_platform_id :: string
  pm_name :: string

record platform_policy =
  pp_key :: string
  pp_display_name :: string
  pp_family :: string
  pp_match :: platform_match
  pp_architectures :: "string list"
  pp_libcs :: "string list"
  pp_package_manager :: string
  pp_package_database :: string
  pp_init_system :: init_system
  pp_release_model :: release_model
  pp_automatic_updates :: automatic_update_policy
  pp_root_persistence :: root_persistence_policy
  pp_requires_mutation_tools :: bool
  pp_manual_tool_remediation :: string
  pp_capabilities :: "capability_state list"

definition numeric_version_triplet :: "string \<Rightarrow> bool" where
  "numeric_version_triplet version =
     (let parts = split_on (CHR ''.'') version
      in length parts = 3 \<and> list_all (\<lambda>part. part \<noteq> [] \<and> list_all is_digit part) parts)"

definition is_alpine324 :: "string \<Rightarrow> bool" where
  "is_alpine324 version = (has_prefix version ''3.24.'' \<and> numeric_version_triplet version)"

definition platform_matches :: "platform_match \<Rightarrow> os \<Rightarrow> bool" where
  "platform_matches m os =
     (if os_id os \<noteq> pm_id m then False
      else if pm_version_id m \<noteq> [] \<and> os_version_id os \<noteq> pm_version_id m then False
      else if pm_version_prefix m \<noteq> [] \<and> \<not> has_prefix (os_version_id os) (pm_version_prefix m) then False
      else if pm_numeric_triplet m \<and> \<not> numeric_version_triplet (os_version_id os) then False
      else if pm_version_codename m \<noteq> [] \<and> os_version_codename os \<noteq> pm_version_codename m then False
      else if pm_build_id m \<noteq> [] \<and> os_build_id os \<noteq> pm_build_id m then False
      else if pm_platform_id m \<noteq> [] \<and> os_platform_id os \<noteq> pm_platform_id m then False
      else pm_name m = [] \<or> os_name os = pm_name m)"

definition policy_supports_architecture :: "platform_policy \<Rightarrow> string \<Rightarrow> bool" where
  "policy_supports_architecture p architecture =
     list_ex (\<lambda>supported. architecture = supported) (pp_architectures p)"

definition policy_supports_libc :: "platform_policy \<Rightarrow> string \<Rightarrow> bool" where
  "policy_supports_libc p libc =
     (if pp_libcs p = [] then libc = [] else list_ex (\<lambda>supported. libc = supported) (pp_libcs p))"

fun capability_from :: "capability list \<Rightarrow> capability_state list \<Rightarrow> capability \<Rightarrow> capability_state" where
  "capability_from [] states c = []"
| "capability_from (r # rs) states c =
     (if r = c then (case states of [] \<Rightarrow> [] | s # _ \<Rightarrow> s)
      else capability_from rs (drop 1 states) c)"

definition policy_capability :: "platform_policy \<Rightarrow> capability \<Rightarrow> capability_state" where
  "policy_capability p c = capability_from required_capabilities (pp_capabilities p) c"

definition validate_policy :: "platform_policy \<Rightarrow> unit result" where
  "validate_policy p =
     (if pp_key p = [] \<or> pp_display_name p = [] \<or> pp_family p = [] \<or> pm_id (pp_match p) = []
      then Inl (errorf ''platform policy has incomplete identity'')
      else if pp_architectures p = [] \<or> pp_package_manager p = [] \<or> pp_init_system p = InitSystemUnknown
        \<or> pp_release_model p = [] \<or> pp_automatic_updates p = [] \<or> pp_root_persistence p = []
      then Inl (errorf (''platform policy '' @ pp_key p @ '' has incomplete required support fields''))
      else if length (pp_capabilities p) \<noteq> length required_capabilities
      then Inl (errorf (''platform policy '' @ pp_key p @ '' has incomplete capability parity''))
      else rbind (rforeach (\<lambda>(state, capability).
          if state \<in> {CapabilitySupported, CapabilitySupportedWithConstraint,
              CapabilityIntentionallyUnsupported} then Inr ()
          else Inl (errorf (''platform policy '' @ pp_key p @ '' has invalid '' @ capability
              @ '' capability state '' @ go_quote state)))
        (zip (pp_capabilities p) required_capabilities)) (\<lambda>_.
      if policy_capability p CapabilityAutomaticUpdates = CapabilityIntentionallyUnsupported
        \<and> pp_automatic_updates p \<noteq> AutomaticUpdatesUnsupported
      then Inl (errorf (''platform policy '' @ pp_key p @ '' has inconsistent automatic-update policy''))
      else if policy_capability p CapabilityAutomaticUpdates \<noteq> CapabilityIntentionallyUnsupported
        \<and> pp_automatic_updates p \<noteq> AutomaticUpdatesSupported
      then Inl (errorf (''platform policy '' @ pp_key p @ '' has inconsistent automatic-update capability''))
      else Inr ()))"

text \<open>\<open>capabilities\<close>: three passes over the list, the later ones overriding the earlier.\<close>

definition capabilities :: "automatic_update_policy \<Rightarrow> bool \<Rightarrow> capability_state list" where
  "capabilities automatic constrained =
     map (\<lambda>capability.
        if capability = CapabilityAutomaticUpdates \<and> automatic = AutomaticUpdatesUnsupported
          then CapabilityIntentionallyUnsupported
        else if constrained \<and> capability \<noteq> CapabilityAutomaticUpdates
          then CapabilitySupportedWithConstraint
        else CapabilitySupported) required_capabilities"

definition policy where
  "policy key display family ident version prefix codename build platform name architectures libcs
      manager database init release automatic root requires_tools remediation =
     \<lparr>pp_key = key, pp_display_name = display, pp_family = family,
      pp_match = \<lparr>pm_id = ident, pm_version_id = version, pm_version_prefix = prefix,
        pm_numeric_triplet = (ident = ''alpine'' \<and> prefix \<noteq> []), pm_version_codename = codename,
        pm_build_id = build, pm_platform_id = platform, pm_name = name\<rparr>,
      pp_architectures = architectures, pp_libcs = libcs, pp_package_manager = manager,
      pp_package_database = database, pp_init_system = init, pp_release_model = release,
      pp_automatic_updates = automatic, pp_root_persistence = root,
      pp_requires_mutation_tools = requires_tools, pp_manual_tool_remediation = remediation,
      pp_capabilities = capabilities automatic (root = RootPersistencePersistent)\<rparr>"

definition platform_policies :: "platform_policy list" where
  "platform_policies = [
     policy ''debian-12'' ''Debian 12'' ''debian''
       ''debian'' ''12'' [] [] [] [] []
       [''amd64'', ''arm64''] [] ''apt'' ''dpkg'' InitSystemSystemd ReleaseFixed AutomaticUpdatesSupported RootPersistenceStandard
       False [],
     policy ''debian-13'' ''Debian 13'' ''debian''
       ''debian'' ''13'' [] [] [] [] []
       [''amd64'', ''arm64''] [] ''apt'' ''dpkg'' InitSystemSystemd ReleaseFixed AutomaticUpdatesSupported RootPersistenceStandard
       False [],
     policy ''ubuntu-22.04'' ''Ubuntu 22.04'' ''ubuntu''
       ''ubuntu'' ''22.04'' [] [] [] [] []
       [''amd64'', ''arm64''] [] ''apt'' ''dpkg'' InitSystemSystemd ReleaseFixed AutomaticUpdatesSupported RootPersistenceStandard
       False [],
     policy ''ubuntu-24.04'' ''Ubuntu 24.04'' ''ubuntu''
       ''ubuntu'' ''24.04'' [] [] [] [] []
       [''amd64'', ''arm64''] [] ''apt'' ''dpkg'' InitSystemSystemd ReleaseFixed AutomaticUpdatesSupported RootPersistenceStandard
       False [],
     policy ''raspberry-pi-os-12'' ''Raspberry Pi OS 12'' ''raspberry-pi-os''
       ''raspbian'' ''12'' [] [] [] [] []
       [''amd64'', ''arm64''] [] ''apt'' ''dpkg'' InitSystemSystemd ReleaseFixed AutomaticUpdatesSupported RootPersistenceStandard
       False [],
     policy ''raspberry-pi-os-13'' ''Raspberry Pi OS 13'' ''raspberry-pi-os''
       ''raspbian'' ''13'' [] [] [] [] []
       [''amd64'', ''arm64''] [] ''apt'' ''dpkg'' InitSystemSystemd ReleaseFixed AutomaticUpdatesSupported RootPersistenceStandard
       False [],
     policy ''fedora-43'' ''Fedora 43'' ''fedora''
       ''fedora'' ''43'' [] [] [] [] []
       [''amd64'', ''arm64''] [] ''dnf5'' ''rpm'' InitSystemSystemd ReleaseFixed AutomaticUpdatesSupported RootPersistenceStandard
       False [],
     policy ''fedora-44'' ''Fedora 44'' ''fedora''
       ''fedora'' ''44'' [] [] [] [] []
       [''amd64'', ''arm64''] [] ''dnf5'' ''rpm'' InitSystemSystemd ReleaseFixed AutomaticUpdatesSupported RootPersistenceStandard
       False [],
     policy ''rocky-9.8'' ''Rocky Linux 9.8'' ''enterprise-linux''
       ''rocky'' ''9.8'' [] [] [] [] []
       [''amd64'', ''arm64''] [] ''dnf'' ''rpm'' InitSystemSystemd ReleaseFixed AutomaticUpdatesSupported RootPersistenceStandard
       False [],
     policy ''rocky-10.2'' ''Rocky Linux 10.2'' ''enterprise-linux''
       ''rocky'' ''10.2'' [] [] [] [] []
       [''amd64'', ''arm64''] [] ''dnf'' ''rpm'' InitSystemSystemd ReleaseFixed AutomaticUpdatesSupported RootPersistenceStandard
       False [],
     policy ''alma-9.8'' ''AlmaLinux 9.8'' ''enterprise-linux''
       ''almalinux'' ''9.8'' [] [] [] [] []
       [''amd64'', ''arm64''] [] ''dnf'' ''rpm'' InitSystemSystemd ReleaseFixed AutomaticUpdatesSupported RootPersistenceStandard
       False [],
     policy ''alma-10.2'' ''AlmaLinux 10.2'' ''enterprise-linux''
       ''almalinux'' ''10.2'' [] [] [] [] []
       [''amd64'', ''arm64''] [] ''dnf'' ''rpm'' InitSystemSystemd ReleaseFixed AutomaticUpdatesSupported RootPersistenceStandard
       False [],
     policy ''centos-stream-9'' ''CentOS Stream 9'' ''enterprise-linux''
       ''centos'' ''9'' [] [] [] ''platform:el9'' ''CentOS Stream''
       [''amd64'', ''arm64''] [] ''dnf'' ''rpm'' InitSystemSystemd ReleaseStream AutomaticUpdatesSupported RootPersistenceStandard
       False [],
     policy ''centos-stream-10'' ''CentOS Stream 10'' ''enterprise-linux''
       ''centos'' ''10'' [] [] [] ''platform:el10'' ''CentOS Stream''
       [''amd64'', ''arm64''] [] ''dnf'' ''rpm'' InitSystemSystemd ReleaseStream AutomaticUpdatesSupported RootPersistenceStandard
       False [],
     policy ''opensuse-leap-16.0'' ''openSUSE Leap 16.0'' ''opensuse''
       ''opensuse-leap'' ''16.0'' [] [] [] [] []
       [''amd64'', ''arm64''] [] ''zypper'' ''rpm'' InitSystemSystemd ReleaseFixed AutomaticUpdatesSupported RootPersistenceStandard
       False [],
     policy ''opensuse-tumbleweed'' ''openSUSE Tumbleweed'' ''opensuse''
       ''opensuse-tumbleweed'' [] [] [] [] [] []
       [''amd64'', ''arm64''] [] ''zypper'' ''rpm'' InitSystemSystemd ReleaseRolling AutomaticUpdatesSupported RootPersistenceStandard
       False [],
     policy ''arch'' ''Arch Linux'' ''arch''
       ''arch'' [] [] [] ''rolling'' [] []
       [''amd64''] [] ''pacman'' [] InitSystemSystemd ReleaseRolling AutomaticUpdatesUnsupported RootPersistenceStandard
       False [],
     policy ''alpine-3.24'' ''Alpine Linux 3.24.x'' ''alpine''
       ''alpine'' [] ''3.24.'' [] [] [] []
       [''amd64'', ''arm64''] [] ''apk'' [] InitSystemOpenRC ReleaseFixed AutomaticUpdatesSupported RootPersistencePersistent
       True ''apk add flock findmnt lsblk'',
     policy ''void'' ''Void Linux'' ''void''
       ''void'' [] [] [] [] [] []
       [''amd64'', ''arm64''] [''glibc'', ''musl''] ''xbps'' [] InitSystemRunit ReleaseRolling AutomaticUpdatesUnsupported RootPersistencePersistent
       True ''xbps-install -S util-linux'',
     policy ''devuan-6'' ''Devuan 6 Excalibur'' ''devuan''
       ''devuan'' ''6'' [] ''excalibur'' [] [] []
       [''amd64'', ''arm64''] [] ''apt'' ''dpkg'' InitSystemSysV ReleaseFixed AutomaticUpdatesSupported RootPersistencePersistent
       True ''apt-get install flock util-linux'',
     policy ''artix'' ''Artix Linux'' ''artix''
       ''artix'' [] [] [] ''rolling'' [] []
       [''amd64''] [] ''pacman'' [] InitSystemDinit ReleaseRolling AutomaticUpdatesUnsupported RootPersistencePersistent
       True ''pacman -S util-linux'']"

definition platform_policy_for :: "os \<Rightarrow> platform_policy option" where
  "platform_policy_for os = find (\<lambda>p. platform_matches (pp_match p) os) platform_policies"

definition reviewed_platforms_for_id :: "string \<Rightarrow> platform_policy list" where
  "reviewed_platforms_for_id i = filter (\<lambda>p. pm_id (pp_match p) = i) platform_policies"

definition reviewed_platform_names_for_id :: "string \<Rightarrow> string list" where
  "reviewed_platform_names_for_id i = map pp_display_name (reviewed_platforms_for_id i)"

definition libc_supported :: "os \<Rightarrow> string \<Rightarrow> bool" where
  "libc_supported os libc =
     (case platform_policy_for os of None \<Rightarrow> False
      | Some p \<Rightarrow> pp_libcs p = [] \<or> policy_supports_libc p libc)"

definition mutation_tool_policy :: "os \<Rightarrow> bool \<times> string" where
  "mutation_tool_policy os =
     (case platform_policy_for os of None \<Rightarrow> (False, [])
      | Some p \<Rightarrow> if \<not> pp_requires_mutation_tools p then (False, [])
                  else (True, pp_manual_tool_remediation p))"

definition platform_family :: "string \<Rightarrow> string" where
  "platform_family i =
     (case find (\<lambda>p. pm_id (pp_match p) = i) platform_policies of
        None \<Rightarrow> ''unsupported'' | Some p \<Rightarrow> pp_family p)"

section \<open>Methods of OS\<close>

definition os_display :: "os \<Rightarrow> string" where
  "os_display os =
     (if os_name os = [] then os_id os
      else if os_version_id os = [] then os_name os
      else os_name os @ '' '' @ os_version_id os)"

definition os_is_supported :: "os \<Rightarrow> bool" where
  "os_is_supported os = (os_supported os \<and> platform_policy_for os \<noteq> None)"

definition os_supports_architecture :: "os \<Rightarrow> string \<Rightarrow> bool" where
  "os_supports_architecture os architecture =
     (case platform_policy_for os of None \<Rightarrow> False
      | Some p \<Rightarrow> os_is_supported os \<and> policy_supports_architecture p architecture)"

definition required_init_system :: "os \<Rightarrow> init_system" where
  "required_init_system os =
     (case platform_policy_for os of None \<Rightarrow> InitSystemUnknown | Some p \<Rightarrow> pp_init_system p)"

definition init_system_available :: "os \<Rightarrow> init_system \<Rightarrow> bool \<Rightarrow> bool" where
  "init_system_available os init legacy_systemd =
     (let init' = (if init = [] \<and> legacy_systemd then InitSystemSystemd else init);
          required = required_init_system os
      in required \<noteq> InitSystemUnknown \<and> init' = required)"

section \<open>os-release\<close>

text \<open>
  \<open>bufio.Scanner\<close> yields the lines without their newline and without one carriage return before it;
  a final empty line is not yielded. It fails when a line does not fit its 64 KiB buffer.
\<close>

definition scan_lines :: "string \<Rightarrow> string list" where
  "scan_lines s =
     (let ls = split_on (CHR 0x0A) s; ls' = (if last ls = [] then butlast ls else ls)
      in map (\<lambda>l. if l \<noteq> [] \<and> last l = CHR 0x0D then butlast l else l) ls')"

definition scan_too_long :: "string \<Rightarrow> bool" where
  "scan_too_long s = list_ex (\<lambda>l. length l \<ge> 65536) (split_on (CHR 0x0A) s)"

definition unquote_value :: "string \<Rightarrow> string" where
  "unquote_value v =
     (if length v \<ge> 2 \<and> ((hd v = CHR 0x22 \<and> last v = CHR 0x22) \<or> (hd v = CHR 0x27 \<and> last v = CHR 0x27))
      then butlast (tl v) else v)"

definition os_release_line :: "(string \<rightharpoonup> string) \<Rightarrow> string \<Rightarrow> (string \<rightharpoonup> string)" where
  "os_release_line values text =
     (let line = trim_space text
      in if line = [] \<or> has_prefix line ''#'' then values
         else (case cut_byte (CHR ''='') line of (key, value, found) \<Rightarrow>
           if \<not> found \<or> key = [] then values
           else values(key \<mapsto> unquote_value (trim_space value))))"

definition os_value :: "(string \<rightharpoonup> string) \<Rightarrow> string \<Rightarrow> string" where
  "os_value values key = (case values key of None \<Rightarrow> [] | Some v \<Rightarrow> v)"

definition os_of_values :: "(string \<rightharpoonup> string) \<Rightarrow> os" where
  "os_of_values values =
     (let i = to_lower (os_value values ''ID'');
          os = \<lparr>os_id = i, os_name = os_value values ''NAME'',
            os_version_id = os_value values ''VERSION_ID'',
            os_build_id = to_lower (os_value values ''BUILD_ID''),
            os_version_codename = to_lower (os_value values ''VERSION_CODENAME''),
            os_platform_id = to_lower (os_value values ''PLATFORM_ID''),
            os_family = platform_family i, os_supported = False\<rparr>;
          os' = (if i = ''raspbian'' then os\<lparr>os_name := ''Raspberry Pi OS''\<rparr> else os)
      in os'\<lparr>os_supported := platform_policy_for os' \<noteq> None\<rparr>)"

definition parse_os_release :: "string \<Rightarrow> os result" where
  "parse_os_release contents =
     (if scan_too_long contents then Inl (errorf ''bufio.Scanner: token too long'')
      else Inr (os_of_values (foldl os_release_line Map.empty (scan_lines contents))))"

section \<open>Policies that depend on the platform\<close>

definition package_tools_for_family :: "string \<Rightarrow> os \<Rightarrow> (string \<times> string) option" where
  "package_tools_for_family family os =
     (if family \<in> {''debian'', ''ubuntu'', ''raspberry-pi-os'', ''devuan''} then Some (''apt'', ''dpkg'')
      else if family = ''fedora'' then Some (''dnf5'', ''rpm'')
      else if family = ''enterprise-linux'' then Some (''dnf'', ''rpm'')
      else if family = ''opensuse'' then Some (''zypper'', ''rpm'')
      else if family \<in> {''arch'', ''artix''} then Some (''pacman'', [])
      else if family = ''alpine'' then Some (''apk'', [])
      else if family = ''void'' then Some (''xbps'', [])
      else if os_supported os \<and> os_id os = [] then Some (''apt'', ''dpkg'')
      else None)"

definition required_package_tools :: "os \<Rightarrow> (string \<times> string) option" where
  "required_package_tools os =
     (case platform_policy_for os of
        Some p \<Rightarrow> Some (pp_package_manager p, pp_package_database p)
      | None \<Rightarrow>
          (let family = (if os_family os = [] \<or> os_family os = ''unsupported''
                         then platform_family (os_id os) else os_family os)
           in package_tools_for_family family os))"

definition package_tools_available :: "os \<Rightarrow> string \<Rightarrow> string \<Rightarrow> bool" where
  "package_tools_available os manager database =
     (case required_package_tools os of None \<Rightarrow> False
      | Some (required_manager, required_database) \<Rightarrow>
          manager = required_manager \<and> database = required_database)"

definition opensuse_update_policy :: "os \<Rightarrow> string option" where
  "opensuse_update_policy os =
     (if \<not> os_is_supported os \<or> os_family os \<noteq> ''opensuse'' then None
      else if os_id os = ''opensuse-leap'' then Some ''leap''
      else if os_id os = ''opensuse-tumbleweed'' then Some ''tumbleweed''
      else None)"

definition opensuse_tailscale_repository_policy :: "os \<Rightarrow> string option" where
  "opensuse_tailscale_repository_policy os =
     (case opensuse_update_policy os of None \<Rightarrow> None
      | Some mode \<Rightarrow> if mode = ''leap'' then Some ''stable/opensuse/leap/16.0''
                    else Some ''stable/opensuse/tumbleweed'')"

definition enterprise_linux_major :: "os \<Rightarrow> string option" where
  "enterprise_linux_major os =
     (if \<not> os_is_supported os \<or> os_family os \<noteq> ''enterprise-linux'' then None
      else if os_id os \<in> {''rocky'', ''almalinux''} then
        (if os_version_id os = ''9.8'' then Some ''9''
         else if os_version_id os = ''10.2'' then Some ''10'' else None)
      else if os_id os = ''centos'' then
        (if os_version_id os = ''9'' then Some ''9''
         else if os_version_id os = ''10'' then Some ''10'' else None)
      else None)"

definition docker_ce_repository_policy :: "os \<Rightarrow> (string \<times> string) option" where
  "docker_ce_repository_policy os =
     (case enterprise_linux_major os of None \<Rightarrow> None
      | Some major \<Rightarrow> Some (if os_id os = ''centos'' then ''centos'' else ''rhel'', major))"

definition tailscale_rpm_repository_policy :: "os \<Rightarrow> (string \<times> string) option" where
  "tailscale_rpm_repository_policy os = docker_ce_repository_policy os"

definition normalize_selinux_mode :: "string \<Rightarrow> string" where
  "normalize_selinux_mode raw =
     (let m = to_lower (trim_space raw)
      in if m \<in> {''enforcing'', ''permissive'', ''disabled''} then m else ''unavailable'')"

definition normalize_architecture :: "string \<Rightarrow> string \<times> bool" where
  "normalize_architecture raw =
     (let a = trim_space (to_lower raw)
      in if a \<in> {''x86_64'', ''amd64''} then (''amd64'', True)
         else if a \<in> {''aarch64'', ''arm64''} then (''arm64'', True)
         else (trim_space raw, False))"

definition normalize_void_architecture :: "string \<Rightarrow> (string \<times> string) option" where
  "normalize_void_architecture raw =
     (let a = trim_space (to_lower raw)
      in if a = ''x86_64'' then Some (''amd64'', ''glibc'')
         else if a = ''x86_64-musl'' then Some (''amd64'', ''musl'')
         else if a = ''aarch64'' then Some (''arm64'', ''glibc'')
         else if a = ''aarch64-musl'' then Some (''arm64'', ''musl'')
         else None)"

definition void_repository :: "string \<Rightarrow> string \<Rightarrow> string option" where
  "void_repository architecture libc =
     (let key = architecture @ ''/'' @ libc
      in if key = ''amd64/glibc'' then Some ''https://repo-default.voidlinux.org/current''
         else if key = ''amd64/musl'' then Some ''https://repo-default.voidlinux.org/current/musl''
         else if key = ''arm64/glibc'' then Some ''https://repo-default.voidlinux.org/current/aarch64''
         else if key = ''arm64/musl'' then Some ''https://repo-default.voidlinux.org/current/aarch64''
         else None)"

definition void_libc_supported :: "os \<Rightarrow> string \<Rightarrow> bool" where
  "void_libc_supported os libc = (os_id os = ''void'' \<and> libc_supported os libc)"

section \<open>The matrix\<close>

text \<open>Two matches that no operating system can satisfy together.\<close>

definition excludes :: "platform_match \<Rightarrow> platform_match \<Rightarrow> bool" where
  "excludes m n \<longleftrightarrow> pm_id m \<noteq> pm_id n
     \<or> (pm_version_id m \<noteq> [] \<and> pm_version_id n \<noteq> [] \<and> pm_version_id m \<noteq> pm_version_id n)"

lemma platform_matchesD:
  assumes "platform_matches m os"
  shows "os_id os = pm_id m" and "pm_version_id m \<noteq> [] \<Longrightarrow> os_version_id os = pm_version_id m"
  using assms unfolding platform_matches_def by presburger+

lemma excludes_matches: "excludes m n \<Longrightarrow> platform_matches m os \<Longrightarrow> \<not> platform_matches n os"
  using platform_matchesD [of m os] platform_matchesD [of n os] unfolding excludes_def by metis

lemma matrix_excludes: "sorted_wrt (\<lambda>p q. excludes (pp_match p) (pp_match q)) platform_policies"
  by code_simp

lemma matrix_valid: "list_all (\<lambda>p. is_ok (validate_policy p)) platform_policies"
  by code_simp

lemma matrix_tools:
  "list_all (\<lambda>p. package_tools_for_family (pp_family p) os
     = Some (pp_package_manager p, pp_package_database p)) platform_policies"
  by (simp add: platform_policies_def policy_def package_tools_for_family_def)

lemma matrix_family:
  "list_all (\<lambda>p. platform_family (pm_id (pp_match p)) = pp_family p) platform_policies"
  by code_simp

lemma matrix_match_unique:
  assumes "p \<in> set platform_policies" and "platform_matches (pp_match p) os"
  shows "platform_policy_for os = Some p"
proof -
  have "platform_policy_for os = Some p"
    if "sorted_wrt (\<lambda>p q. excludes (pp_match p) (pp_match q)) ps" "p \<in> set ps"
      "platform_policy_for os = find (\<lambda>p. platform_matches (pp_match p) os) ps" for ps
    using that
  proof (induction ps arbitrary: )
    case (Cons q qs)
    show ?case
    proof (cases "p = q")
      case True
      with Cons.prems(3) assms(2) show ?thesis by simp
    next
      case False
      with Cons.prems(1,2) have "excludes (pp_match q) (pp_match p)" "p \<in> set qs" by auto
      then have "\<not> platform_matches (pp_match q) os" using excludes_matches assms(2) by blast
      with Cons.prems Cons.IH \<open>p \<in> set qs\<close> show ?thesis by simp
    qed
  qed simp
  then show ?thesis using matrix_excludes assms(1) by (simp add: platform_policy_for_def)
qed

lemma platform_policy_for_SomeD:
  assumes "platform_policy_for os = Some p"
  shows "p \<in> set platform_policies" and "platform_matches (pp_match p) os"
  using assms by (auto simp: platform_policy_for_def find_Some_iff)

lemma platform_policy_for_ext:
  assumes "os_id a = os_id b" "os_version_id a = os_version_id b" "os_build_id a = os_build_id b"
    "os_version_codename a = os_version_codename b" "os_platform_id a = os_platform_id b"
    "os_name a = os_name b"
  shows "platform_policy_for a = platform_policy_for b"
  by (simp only: platform_policy_for_def platform_matches_def assms)

section \<open>What the parser guarantees\<close>

lemma os_of_values_supported:
  "os_supported (os_of_values values) \<longleftrightarrow> platform_policy_for (os_of_values values) \<noteq> None"
proof -
  have "platform_policy_for (os\<lparr>os_supported := b\<rparr>) = platform_policy_for os" for os :: os and b
    by (rule platform_policy_for_ext) simp_all
  then show ?thesis by (simp only: os_of_values_def Let_def os.simps(16)) simp
qed

lemma os_of_values_family:
  assumes "platform_policy_for (os_of_values values) = Some p"
  shows "os_family (os_of_values values) = pp_family p"
proof -
  note M = platform_policy_for_SomeD [OF assms]
  have "os_id (os_of_values values) = pm_id (pp_match p)" by (rule platform_matchesD(1) [OF M(2)])
  then have "os_family (os_of_values values) = platform_family (pm_id (pp_match p))"
    by (auto simp: os_of_values_def Let_def)
  with M(1) matrix_family show ?thesis by (simp add: list_all_iff)
qed

definition same_but :: "string \<Rightarrow> (string \<rightharpoonup> string) \<Rightarrow> (string \<rightharpoonup> string) \<Rightarrow> bool" where
  "same_but key u v \<longleftrightarrow> (\<forall>k. k \<noteq> key \<longrightarrow> u k = v k)"

lemma same_but_line: "same_but key u v \<Longrightarrow> same_but key (os_release_line u l) (os_release_line v l)"
  by (auto simp: same_but_def os_release_line_def Let_def split: prod.splits)

lemma same_but_lines: "same_but key u v \<Longrightarrow> same_but key (foldl os_release_line u ls) (foldl os_release_line v ls)"
  by (induction ls arbitrary: u v) (auto dest: same_but_line)

lemma same_but_os: "same_but ''ID_LIKE'' u v \<Longrightarrow> os_of_values u = os_of_values v"
  by (simp add: same_but_def os_of_values_def os_value_def)

lemma trim_space_keep:
  assumes "p \<noteq> []" and "\<not> is_space (hd p)" and "\<not> is_space (last p)"
  shows "\<exists>t. trim_space (p @ v) = p @ t"
proof -
  from assms(1,2) have "dropWhile is_space (p @ v) = p @ v" by (cases p) auto
  moreover have "dropWhile is_space (rev v @ rev p) = dropWhile is_space (rev v) @ rev p"
  proof (cases "\<forall>x \<in> set (rev v). is_space x")
    case True
    then have "dropWhile is_space (rev v @ rev p) = dropWhile is_space (rev p)"
      by (intro dropWhile_append2) blast
    also have "\<dots> = rev p" using assms(1,3) by (cases p rule: rev_cases) auto
    also have "\<dots> = dropWhile is_space (rev v) @ rev p"
      using True by (simp add: dropWhile_eq_Nil_conv)
    finally show ?thesis .
  next
    case False
    then show ?thesis by (auto simp: dropWhile_append1)
  qed
  ultimately show ?thesis by (simp add: trim_space_def)
qed

lemma id_like_line:
  "\<exists>x. os_release_line m (''ID_LIKE='' @ v) = m(''ID_LIKE'' \<mapsto> x)"
proof -
  obtain t where t: "trim_space (''ID_LIKE='' @ v) = ''ID_LIKE='' @ t"
    using trim_space_keep [of "''ID_LIKE=''" v] by (auto simp: is_space_def)
  have "cut_byte (CHR ''='') (''ID_LIKE='' @ t) = (''ID_LIKE'', t, True)"
    using cut_byte_append [of "CHR ''=''" "''ID_LIKE''" t] by simp
  then show ?thesis unfolding os_release_line_def t Let_def by auto
qed

lemma drop_cr_keep:
  assumes "p \<noteq> []" and "last p \<noteq> c"
  shows "\<exists>w. (if p @ v \<noteq> [] \<and> last (p @ v) = c then butlast (p @ v) else p @ v) = p @ w"
  using assms by (cases v rule: rev_cases) (auto simp: butlast_append)

lemma scan_lines_Cons:
  assumes "CHR 0x0A \<notin> set l"
  shows "scan_lines (l @ CHR 0x0A # s)
    = (if l \<noteq> [] \<and> last l = CHR 0x0D then butlast l else l) # scan_lines s"
  by (simp add: scan_lines_def Let_def split_on_append [OF assms])

text \<open>
  The matrix of reviewed platforms is unambiguous: an operating system that matches an entry
  is given exactly that entry, whatever the order of the matrix.
\<close>

theorem matrix_unambiguous:
  assumes "p \<in> set platform_policies" and "platform_matches (pp_match p) os"
  shows "platform_policy_for os = Some p"
  using assms by (rule matrix_match_unique)

definition ex_debian :: os where
  "ex_debian = \<lparr>os_id = ''debian'', os_name = ''Debian GNU/Linux'', os_version_id = ''13'',
     os_build_id = [], os_version_codename = ''trixie'', os_platform_id = [],
     os_family = ''debian'', os_supported = True\<rparr>"

theorem matrix_unambiguous_witness: "platform_policy_for ex_debian = Some (platform_policies ! 1)"
proof (rule matrix_unambiguous)
  show "platform_policies ! 1 \<in> set platform_policies"
    by (simp add: platform_policies_def)
  show "platform_matches (pp_match (platform_policies ! 1)) ex_debian"
    by (simp add: platform_policies_def policy_def platform_matches_def ex_debian_def)
qed

text \<open>
  Every entry of the matrix is complete and agrees with the tables that repeat part of it:
  it passes \<open>Validate\<close>, the package tools chosen by family are its own, and looking its id up
  gives its family.
\<close>

theorem matrix_consistent:
  assumes "p \<in> set platform_policies"
  shows "is_ok (validate_policy p)
    \<and> package_tools_for_family (pp_family p) os = Some (pp_package_manager p, pp_package_database p)
    \<and> platform_family (pm_id (pp_match p)) = pp_family p"
  using assms matrix_valid matrix_tools [of os] matrix_family by (simp add: list_all_iff)

theorem matrix_consistent_witness:
  "package_tools_for_family (pp_family (platform_policies ! 20)) ex_debian = Some (''pacman'', [])"
proof -
  have "platform_policies ! 20 \<in> set platform_policies" by (simp add: platform_policies_def)
  from matrix_consistent [OF this, of ex_debian] show ?thesis
    by (simp add: platform_policies_def policy_def)
qed

text \<open>
  The parser of os-release fails closed: it marks a system supported exactly when the matrix
  has an entry for it, the family it reports is then that entry's, and an \<open>ID_LIKE\<close> line, whatever
  its value, has no influence on the result.
\<close>

theorem parse_os_release_fails_closed:
  assumes "parse_os_release contents = Inr os"
  shows "(os_supported os \<longleftrightarrow> platform_policy_for os \<noteq> None)
    \<and> (os_is_supported os \<longleftrightarrow> os_supported os)
    \<and> (\<forall>p. platform_policy_for os = Some p \<longrightarrow> os_family os = pp_family p)
    \<and> (CHR 0x0A \<notin> set v \<and> length v < 65000
        \<longrightarrow> parse_os_release (''ID_LIKE='' @ v @ CHR 0x0A # contents) = Inr os)"
proof -
  from assms have short: "\<not> scan_too_long contents"
    and os: "os = os_of_values (foldl os_release_line Map.empty (scan_lines contents))"
    by (auto simp: parse_os_release_def split: if_splits)
  have "parse_os_release (''ID_LIKE='' @ v @ CHR 0x0A # contents) = Inr os"
    if v: "CHR 0x0A \<notin> set v" "length v < 65000"
  proof -
    let ?l = "''ID_LIKE='' @ v"
    have nl: "CHR 0x0A \<notin> set ?l" using v(1) by simp
    obtain w where w: "(if ?l \<noteq> [] \<and> last ?l = CHR 0x0D then butlast ?l else ?l) = ''ID_LIKE='' @ w"
      using drop_cr_keep [of "''ID_LIKE=''" "CHR 0x0D" v] by auto
    obtain x where "os_release_line Map.empty (''ID_LIKE='' @ w) = [''ID_LIKE'' \<mapsto> x]"
      using id_like_line by blast
    then have "same_but ''ID_LIKE'' (os_release_line Map.empty (''ID_LIKE='' @ w)) Map.empty"
      by (simp add: same_but_def)
    from same_but_os [OF same_but_lines [OF this]] have
      "os_of_values (foldl os_release_line Map.empty (scan_lines (?l @ CHR 0x0A # contents))) = os"
      unfolding scan_lines_Cons [OF nl] w by (simp add: os)
    moreover have "\<not> scan_too_long (?l @ CHR 0x0A # contents)"
      using short v unfolding scan_too_long_def split_on_append [OF nl] by simp
    ultimately show ?thesis unfolding parse_os_release_def by simp
  qed
  moreover have "os_supported os \<longleftrightarrow> platform_policy_for os \<noteq> None"
    unfolding os by (rule os_of_values_supported)
  moreover have "\<forall>p. platform_policy_for os = Some p \<longrightarrow> os_family os = pp_family p"
    unfolding os using os_of_values_family by blast
  ultimately show ?thesis by (auto simp: os_is_supported_def)
qed

theorem parse_os_release_fails_closed_witness:
  "\<exists>os. parse_os_release (''ID=debian'' @ [CHR 0x0A]) = Inr os
    \<and> parse_os_release (''ID_LIKE=arch'' @ CHR 0x0A # (''ID=debian'' @ [CHR 0x0A])) = Inr os"
proof -
  have "\<not> scan_too_long (''ID=debian'' @ [CHR 0x0A])" by (simp add: scan_too_long_def)
  then obtain os where os: "parse_os_release (''ID=debian'' @ [CHR 0x0A]) = Inr os"
    by (simp add: parse_os_release_def)
  from parse_os_release_fails_closed [OF this, of "''arch''"] os show ?thesis by auto
qed

end
