(* ===== verification/Host_Facts.thy ===== *)
theory Host_Facts
  imports Platform
begin

text \<open>
  File \<open>facts.go\<close> of \<open>internal/facts\<close>: the normalized observations of a target, its identity, and
  the snapshot of what convergence depends on, whose digest a saved plan is checked against. The
  digest itself (SHA-256 of the JSON of the snapshot) is a parameter.
\<close>

section \<open>Observations\<close>

record required_tools =
  rt_flock :: bool
  rt_lsblk :: bool
  rt_findmnt :: bool

record ssh_facts =
  ssh_installed :: bool
  ssh_service :: string
  ssh_service_enabled :: bool
  ssh_service_active :: bool
  ssh_config_valid :: bool
  ssh_drop_in_supported :: bool
  ssh_first_drop_in :: string
  ssh_hardening_effective :: bool
  ssh_authorized_keys_present :: bool
  ssh_bebop_drop_in :: string

record docker =
  dk_installed :: bool
  dk_package_set_complete :: bool
  dk_package_set_available :: bool
  dk_conflicting_packages :: bool
  dk_repository_state :: string
  dk_repository_policy :: string
  dk_service_enabled :: bool
  dk_service_active :: bool
  dk_responsive :: bool
  dk_compose_available :: bool
  dk_compose_package_available :: string
  dk_cgroups_available :: bool
  dk_cgroups_service_exists :: bool
  dk_cgroups_service_enabled :: bool
  dk_cgroups_service_active :: bool
  dk_service_definition :: bool
  dk_service_link_state :: string
  dk_package_held :: bool
  dk_package_repolocked :: bool

record service_facts =
  sv_name :: string
  sv_project :: string
  sv_desired_state :: string
  sv_deployment_present :: bool
  sv_deployment_unsafe :: bool
  sv_deployment_digest :: string
  sv_runtime :: string
  sv_health :: string
  sv_container_count :: int
  sv_secret_fingerprint :: string
  sv_placement_fingerprint :: string

record tailscale =
  ts_installed :: bool
  ts_package_available :: bool
  ts_service_enabled :: bool
  ts_service_active :: bool
  ts_connected :: bool
  ts_backend_state :: string
  ts_repository_state :: string
  ts_service_definition :: bool
  ts_service_link_state :: string
  ts_package_held :: bool
  ts_package_repolocked :: bool

record automatic_updates =
  au_installed :: bool
  au_package_available :: bool
  au_service_exists :: bool
  au_enabled :: bool
  au_config_state :: string
  au_conflicting_timers :: bool

record selinux =
  se_mode :: string

record firewall =
  fw_ufw_available :: bool
  fw_ufw_active :: bool
  fw_other_active :: bool

record filesystem =
  fs_source :: string
  fs_type :: string
  fs_size_kib :: int
  fs_available_kib :: int
  fs_read_only :: bool

record storage_device =
  sd_name :: string
  sd_size_bytes :: int
  sd_transport :: string

record storage_policy =
  sp_name :: string
  sp_state :: string

record storage_mount_config =
  smc_name :: string
  smc_state :: string

record block_device =
  bd_path :: string
  bd_name :: string
  bd_type :: string
  bd_size_bytes :: int
  bd_filesystem :: string
  bd_label :: string
  bd_uuid :: string
  bd_read_only :: bool
  bd_removable :: bool
  bd_transport :: string
  bd_mounts :: "string list"

record storage_mount =
  sm_target :: string
  sm_source :: string
  sm_filesystem :: string
  sm_uuid :: string
  sm_options :: "string list"
  sm_size_bytes :: int
  sm_available_bytes :: int
  sm_read_only :: bool

record storage_facts =
  st_available :: bool
  st_devices :: "block_device list"
  st_mounts :: "storage_mount list"
  st_mount_configs :: "storage_mount_config list"
  st_policy :: "storage_policy list"

record directory =
  dir_path :: string
  dir_exists :: bool
  dir_mode :: string
  dir_uid :: int
  dir_gid :: int
  dir_writable :: bool

record host_facts =
  hf_target :: string
  hf_hostname :: string
  hf_machine_id :: string
  hf_os :: os
  hf_architecture :: string
  hf_architecture_known :: bool
  hf_libc :: string
  hf_kernel :: string
  hf_package_manager :: string
  hf_package_database :: string
  hf_init_system :: init_system
  hf_systemd :: bool
  hf_effective_user :: string
  hf_sudo_available :: bool
  hf_privilege_mode :: string
  hf_required_tools :: required_tools
  hf_root_mode :: string
  hf_ssh :: ssh_facts
  hf_docker :: docker
  hf_services :: "service_facts list"
  hf_tailscale :: tailscale
  hf_automatic_updates :: automatic_updates
  hf_maintenance_update_check_available :: bool
  hf_selinux :: selinux
  hf_firewall :: firewall
  hf_memory_kib :: int
  hf_root_filesystem :: filesystem
  hf_mutation_blocked :: bool
  hf_mutation_block_reason :: string
  hf_unconfigured_storage :: "storage_device list"
  hf_storage :: storage_facts
  hf_data_root :: directory

record identity =
  idn_machine_id :: string
  idn_hostname :: string
  idn_os_id :: string
  idn_os_version :: string

record storage_snapshot =
  ss_available :: bool
  ss_mount_configs :: "storage_mount_config list"
  ss_policy :: "storage_policy list"

record service_snapshot =
  svs_name :: string
  svs_project :: string
  svs_desired_state :: string
  svs_deployment_present :: bool
  svs_deployment_unsafe :: bool
  svs_deployment_digest :: string
  svs_runtime :: string
  svs_health :: string
  svs_container_count :: int
  svs_secret_fingerprint :: string
  svs_placement_fingerprint :: string

record convergence_snapshot =
  cs_os :: os
  cs_architecture :: string
  cs_architecture_known :: bool
  cs_libc :: string
  cs_package_manager :: string
  cs_package_database :: string
  cs_init_system :: init_system
  cs_systemd :: bool
  cs_effective_user :: string
  cs_sudo_available :: bool
  cs_privilege_mode :: string
  cs_required_tools :: required_tools
  cs_root_mode :: string
  cs_ssh :: ssh_facts
  cs_docker :: docker
  cs_services :: "service_snapshot list"
  cs_tailscale :: tailscale
  cs_automatic_updates :: automatic_updates
  cs_selinux :: selinux
  cs_firewall :: firewall
  cs_unconfigured_storage :: "storage_device list"
  cs_storage :: storage_snapshot
  cs_data_root :: directory
  cs_mutation_blocked :: bool

section \<open>Go's zero values\<close>

definition zero_os :: os where
  "zero_os = \<lparr>os_id = [], os_name = [], os_version_id = [], os_build_id = [], os_version_codename = [],
     os_platform_id = [], os_family = [], os_supported = False\<rparr>"

definition zero_required_tools :: required_tools where
  "zero_required_tools = \<lparr>rt_flock = False, rt_lsblk = False, rt_findmnt = False\<rparr>"

definition zero_ssh_facts :: ssh_facts where
  "zero_ssh_facts = \<lparr>ssh_installed = False, ssh_service = [], ssh_service_enabled = False, ssh_service_active =
     False, ssh_config_valid = False, ssh_drop_in_supported = False, ssh_first_drop_in = [],
     ssh_hardening_effective = False, ssh_authorized_keys_present = False, ssh_bebop_drop_in = []\<rparr>"

definition zero_docker :: docker where
  "zero_docker = \<lparr>dk_installed = False, dk_package_set_complete = False, dk_package_set_available = False,
     dk_conflicting_packages = False, dk_repository_state = [], dk_repository_policy = [],
     dk_service_enabled = False, dk_service_active = False, dk_responsive = False,
     dk_compose_available = False, dk_compose_package_available = [], dk_cgroups_available =
     False, dk_cgroups_service_exists = False, dk_cgroups_service_enabled = False,
     dk_cgroups_service_active = False, dk_service_definition = False, dk_service_link_state =
     [], dk_package_held = False, dk_package_repolocked = False\<rparr>"

definition zero_tailscale :: tailscale where
  "zero_tailscale = \<lparr>ts_installed = False, ts_package_available = False, ts_service_enabled = False,
     ts_service_active = False, ts_connected = False, ts_backend_state = [], ts_repository_state
     = [], ts_service_definition = False, ts_service_link_state = [], ts_package_held = False,
     ts_package_repolocked = False\<rparr>"

definition zero_automatic_updates :: automatic_updates where
  "zero_automatic_updates = \<lparr>au_installed = False, au_package_available = False, au_service_exists = False, au_enabled =
     False, au_config_state = [], au_conflicting_timers = False\<rparr>"

definition zero_selinux :: selinux where
  "zero_selinux = \<lparr>se_mode = []\<rparr>"

definition zero_firewall :: firewall where
  "zero_firewall = \<lparr>fw_ufw_available = False, fw_ufw_active = False, fw_other_active = False\<rparr>"

definition zero_filesystem :: filesystem where
  "zero_filesystem = \<lparr>fs_source = [], fs_type = [], fs_size_kib = 0, fs_available_kib = 0, fs_read_only = False\<rparr>"

definition zero_storage_facts :: storage_facts where
  "zero_storage_facts = \<lparr>st_available = False, st_devices = [], st_mounts = [], st_mount_configs = [], st_policy = []\<rparr>"

definition zero_directory :: directory where
  "zero_directory = \<lparr>dir_path = [], dir_exists = False, dir_mode = [], dir_uid = 0, dir_gid = 0, dir_writable =
     False\<rparr>"

definition zero_host_facts :: host_facts where
  "zero_host_facts = \<lparr>hf_target = [], hf_hostname = [], hf_machine_id = [], hf_os = zero_os, hf_architecture = [],
     hf_architecture_known = False, hf_libc = [], hf_kernel = [], hf_package_manager = [],
     hf_package_database = [], hf_init_system = [], hf_systemd = False, hf_effective_user = [],
     hf_sudo_available = False, hf_privilege_mode = [], hf_required_tools = zero_required_tools,
     hf_root_mode = [], hf_ssh = zero_ssh_facts, hf_docker = zero_docker, hf_services = [],
     hf_tailscale = zero_tailscale, hf_automatic_updates = zero_automatic_updates,
     hf_maintenance_update_check_available = False, hf_selinux = zero_selinux, hf_firewall =
     zero_firewall, hf_memory_kib = 0, hf_root_filesystem = zero_filesystem, hf_mutation_blocked
     = False, hf_mutation_block_reason = [], hf_unconfigured_storage = [], hf_storage =
     zero_storage_facts, hf_data_root = zero_directory\<rparr>"

section \<open>Identity\<close>

definition is_rolling :: "os \<Rightarrow> bool" where
  "is_rolling os = (case platform_policy_for os of None \<Rightarrow> False
     | Some p \<Rightarrow> pp_release_model p = ReleaseRolling)"

definition host_identity :: "host_facts \<Rightarrow> identity" where
  "host_identity host =
     (let version = (if is_rolling (hf_os host) then [] else os_version_id (hf_os host))
      in \<lparr>idn_machine_id = hf_machine_id host, idn_hostname = hf_hostname host,
          idn_os_id = os_id (hf_os host), idn_os_version = version\<rparr>)"

definition identity_matches :: "identity \<Rightarrow> identity \<Rightarrow> bool" where
  "identity_matches i current =
     (if idn_machine_id i \<noteq> []
      then idn_machine_id current \<noteq> [] \<and> idn_machine_id i = idn_machine_id current
      else idn_hostname i \<noteq> [] \<and> idn_hostname i = idn_hostname current
        \<and> idn_os_id i = idn_os_id current \<and> idn_os_version i = idn_os_version current)"

section \<open>The convergence snapshot\<close>

definition service_snapshot_of :: "service_facts \<Rightarrow> service_snapshot" where
  "service_snapshot_of s =
     \<lparr>svs_name = sv_name s, svs_project = sv_project s, svs_desired_state = sv_desired_state s,
      svs_deployment_present = sv_deployment_present s, svs_deployment_unsafe = sv_deployment_unsafe s,
      svs_deployment_digest = sv_deployment_digest s, svs_runtime = sv_runtime s,
      svs_health = sv_health s, svs_container_count = sv_container_count s,
      svs_secret_fingerprint = sv_secret_fingerprint s,
      svs_placement_fingerprint = sv_placement_fingerprint s\<rparr>"

definition convergence_snapshot :: "host_facts \<Rightarrow> convergence_snapshot" where
  "convergence_snapshot host =
     (let storage = sort_slice sd_name (hf_unconfigured_storage host);
          services = sort_slice svs_name (map service_snapshot_of (hf_services host));
          policy = sort_slice sp_name (st_policy (hf_storage host));
          mount_configs = sort_slice smc_name (st_mount_configs (hf_storage host));
          os = (if is_rolling (hf_os host) then (hf_os host)\<lparr>os_version_id := []\<rparr> else hf_os host)
      in \<lparr>cs_os = os, cs_architecture = hf_architecture host,
          cs_architecture_known = hf_architecture_known host, cs_libc = hf_libc host,
          cs_package_manager = hf_package_manager host, cs_package_database = hf_package_database host,
          cs_init_system = hf_init_system host, cs_systemd = hf_systemd host,
          cs_effective_user = hf_effective_user host, cs_sudo_available = hf_sudo_available host,
          cs_privilege_mode = hf_privilege_mode host, cs_required_tools = hf_required_tools host,
          cs_root_mode = hf_root_mode host, cs_ssh = hf_ssh host, cs_docker = hf_docker host,
          cs_services = services, cs_tailscale = hf_tailscale host,
          cs_automatic_updates = hf_automatic_updates host, cs_selinux = hf_selinux host,
          cs_firewall = hf_firewall host, cs_unconfigured_storage = storage,
          cs_storage = \<lparr>ss_available = st_available (hf_storage host),
            ss_mount_configs = mount_configs, ss_policy = policy\<rparr>,
          cs_data_root = hf_data_root host, cs_mutation_blocked = hf_mutation_blocked host\<rparr>)"

definition convergence_fingerprint :: "(convergence_snapshot \<Rightarrow> string) \<Rightarrow> host_facts \<Rightarrow> string" where
  "convergence_fingerprint digest host = digest (convergence_snapshot host)"

section \<open>The properties\<close>

text \<open>Two observations that differ only in what convergence must not depend on.\<close>

definition volatile_variant :: "host_facts \<Rightarrow> host_facts \<Rightarrow> bool" where
  "volatile_variant a b \<longleftrightarrow>
     (\<exists>target hostname machine kernel memory root reason check devices mounts services.
        mset services = mset (hf_services a) \<and> distinct (map sv_name (hf_services a)) \<and>
        b = a\<lparr>hf_target := target, hf_hostname := hostname, hf_machine_id := machine,
          hf_kernel := kernel, hf_memory_kib := memory, hf_root_filesystem := root,
          hf_mutation_block_reason := reason, hf_maintenance_update_check_available := check,
          hf_services := services,
          hf_storage := (hf_storage a)\<lparr>st_devices := devices, st_mounts := mounts\<rparr>\<rparr>)"

lemma svs_name_snapshot [simp]: "svs_name (service_snapshot_of s) = sv_name s"
  by (simp add: service_snapshot_of_def)

lemma services_snapshot_permuted:
  assumes "mset xs = mset ys" and "distinct (map sv_name ys)"
  shows "sort_slice svs_name (map service_snapshot_of xs) = sort_slice svs_name (map service_snapshot_of ys)"
proof (rule sort_key_unique)
  show "mset (map service_snapshot_of xs) = mset (map service_snapshot_of ys)"
    using assms(1) by simp
  have "distinct (map sv_name xs)"
    using assms by (metis mset_map mset_eq_imp_distinct_iff)
  then show "distinct (map svs_name (map service_snapshot_of xs))" by (simp add: comp_def)
qed

text \<open>
  Telemetry does not make a reviewed plan stale: kernel, memory, free space, the block devices
  and mounts with their sizes, the machine's names, and the order in which services were observed
  do not enter the snapshot.
\<close>

theorem snapshot_ignores_telemetry:
  assumes "volatile_variant a b"
  shows "convergence_snapshot b = convergence_snapshot a"
proof -
  from assms obtain target hostname machine kernel memory root reason check devices mounts services
    where services: "mset services = mset (hf_services a)" "distinct (map sv_name (hf_services a))"
    and b: "b = a\<lparr>hf_target := target, hf_hostname := hostname, hf_machine_id := machine,
          hf_kernel := kernel, hf_memory_kib := memory, hf_root_filesystem := root,
          hf_mutation_block_reason := reason, hf_maintenance_update_check_available := check,
          hf_services := services,
          hf_storage := (hf_storage a)\<lparr>st_devices := devices, st_mounts := mounts\<rparr>\<rparr>"
    unfolding volatile_variant_def by blast
  show ?thesis
    unfolding b convergence_snapshot_def Let_def
    using services_snapshot_permuted [OF services] by simp
qed

lemma snapshot_ignores_telemetry_witness:
  "convergence_snapshot (zero_host_facts\<lparr>hf_kernel := ''6.8'', hf_memory_kib := 1024\<rparr>)
     = convergence_snapshot zero_host_facts"
proof (rule snapshot_ignores_telemetry)
  show "volatile_variant zero_host_facts (zero_host_facts\<lparr>hf_kernel := ''6.8'', hf_memory_kib := 1024\<rparr>)"
    unfolding volatile_variant_def
    by (rule exI [of _ "[]"], rule exI [of _ "[]"], rule exI [of _ "[]"], rule exI [of _ "''6.8''"],
        rule exI [of _ 1024], rule exI [of _ zero_filesystem], rule exI [of _ "[]"],
        rule exI [of _ False], rule exI [of _ "[]"], rule exI [of _ "[]"], rule exI [of _ "[]"])
      (simp add: zero_host_facts_def zero_storage_facts_def)
qed

text \<open>
  A saved identity with a machine id only ever matches a target with the same machine id, and one
  without a machine id only a target with the same host name and operating system; in particular a
  host matches its own identity exactly when it has a machine id or a host name.
\<close>

theorem identity_matches_same_machine:
  "(identity_matches (host_identity a) (host_identity b) \<longrightarrow>
      (hf_machine_id a \<noteq> [] \<and> hf_machine_id b = hf_machine_id a) \<or>
      (hf_machine_id a = [] \<and> hf_hostname b = hf_hostname a \<and> os_id (hf_os b) = os_id (hf_os a)))
   \<and> (identity_matches (host_identity a) (host_identity a) \<longleftrightarrow>
      hf_machine_id a \<noteq> [] \<or> hf_hostname a \<noteq> [])"
  by (auto simp: identity_matches_def host_identity_def Let_def)

lemma identity_matches_same_machine_witness:
  "\<not> identity_matches (host_identity zero_host_facts) (host_identity zero_host_facts)"
  using identity_matches_same_machine [of zero_host_facts zero_host_facts]
  by (simp add: zero_host_facts_def)

end
