(* ===== verification/Plan.thy ===== *)
theory Plan
  imports Errs
begin

text \<open>
  Package \<open>internal/plan\<close>: the change model, the ordering of changes and \<open>Finalize\<close>.

  \<open>sort_changes\<close> is \<open>SortChanges\<close> statement by statement: the index of ids, the counting of
  dependencies into \<open>inDegree\<close> and \<open>next\<close>, and the loop over the sorted list of ready ids. The
  loop is given fuel one more than the number of changes; \<open>kahn_enough_fuel\<close> shows that this never
  runs out. \<open>CanonicalJSON\<close> followed by SHA-256 is the parameter \<open>digest\<close> on the canonical value.
\<close>

type_synonym risk = string

abbreviation Safe :: risk where "Safe \<equiv> ''safe''"
abbreviation Privileged :: risk where "Privileged \<equiv> ''privileged''"
abbreviation NetworkSensitive :: risk where "NetworkSensitive \<equiv> ''network-sensitive''"
abbreviation Destructive :: risk where "Destructive \<equiv> ''destructive''"

record action =
  ac_kind :: string
  ac_resource :: string
  ac_source_digest :: string
  ac_input_fingerprint :: string
  ac_secret_fingerprint :: string
  ac_script :: string

record precondition =
  pc_id :: string
  pc_description :: string
  pc_script :: string

record change =
  ch_id :: string
  ch_module :: string
  ch_summary :: string
  ch_reason :: string
  ch_risk :: risk
  ch_requires_root :: bool
  ch_current :: string
  ch_desired :: string
  ch_dependencies :: "string list"
  ch_requirements :: "string list"
  ch_preconditions :: "precondition list"
  ch_action :: action
  ch_verification :: string
  ch_blocked :: string

record warning =
  wa_id :: string
  wa_module :: string
  wa_summary :: string
  wa_resolution :: string

record plan =
  pl_version :: int
  pl_target :: string
  pl_changes :: "change list"
  pl_warnings :: "warning list"
  pl_fingerprint :: string

text \<open>Go's zero values, which composite literals with missing fields start from.\<close>

definition zero_action :: action where
  "zero_action = \<lparr>ac_kind = [], ac_resource = [], ac_source_digest = [], ac_input_fingerprint = [],
     ac_secret_fingerprint = [], ac_script = []\<rparr>"

definition zero_change :: change where
  "zero_change = \<lparr>ch_id = [], ch_module = [], ch_summary = [], ch_reason = [], ch_risk = [],
     ch_requires_root = False, ch_current = [], ch_desired = [], ch_dependencies = [],
     ch_requirements = [], ch_preconditions = [], ch_action = zero_action, ch_verification = [],
     ch_blocked = []\<rparr>"

definition zero_plan :: plan where
  "zero_plan = \<lparr>pl_version = 0, pl_target = [], pl_changes = [], pl_warnings = [], pl_fingerprint = []\<rparr>"

type_synonym canonical_plan = "int \<times> string \<times> change list \<times> warning list"

definition canonical_plan :: "plan \<Rightarrow> canonical_plan" where
  "canonical_plan p = (pl_version p, pl_target p, pl_changes p, pl_warnings p)"

section \<open>SortChanges\<close>

text \<open>The first loop: ids are not empty and not repeated; \<open>byID\<close> maps an id to its index.\<close>

fun index_ids :: "nat \<Rightarrow> (string \<rightharpoonup> nat) \<Rightarrow> change list \<Rightarrow> (string \<rightharpoonup> nat) result" where
  "index_ids i byID [] = Inr byID"
| "index_ids i byID (c # cs) =
     (if ch_id c = [] then Inl (errorf ''plan contains an empty change ID'')
      else if byID (ch_id c) \<noteq> None
        then Inl (errorf (''plan contains duplicate change ID '' @ go_quote (ch_id c)))
      else index_ids (Suc i) (byID(ch_id c \<mapsto> i)) cs)"

text \<open>
  The second loop. A missing key of \<open>inDegree\<close> reads 0 and one of \<open>next\<close> reads nil, so both maps
  are total functions.
\<close>

fun count_deps :: "(string \<rightharpoonup> nat) \<Rightarrow> string \<Rightarrow> string list \<Rightarrow> (string \<Rightarrow> int) \<times> (string \<Rightarrow> string list)
    \<Rightarrow> ((string \<Rightarrow> int) \<times> (string \<Rightarrow> string list)) result" where
  "count_deps byID i [] (deg, nxt) = Inr (deg, nxt)"
| "count_deps byID i (d # ds) (deg, nxt) =
     (if byID d = None
        then Inl (errorf (''change '' @ go_quote i @ '' depends on absent change '' @ go_quote d))
      else count_deps byID i ds (deg(i := deg i + 1), nxt(d := nxt d @ [i])))"

fun link_changes :: "(string \<rightharpoonup> nat) \<Rightarrow> change list \<Rightarrow> (string \<Rightarrow> int) \<times> (string \<Rightarrow> string list)
    \<Rightarrow> ((string \<Rightarrow> int) \<times> (string \<Rightarrow> string list)) result" where
  "link_changes byID [] st = Inr st"
| "link_changes byID (c # cs) st =
     rbind (count_deps byID (ch_id c) (ch_dependencies c) st) (link_changes byID cs)"

text \<open>The inner loop over the children of the change just placed.\<close>

fun relax :: "(string \<Rightarrow> int) \<Rightarrow> string list \<Rightarrow> string list \<Rightarrow> (string \<Rightarrow> int) \<times> string list" where
  "relax deg ready [] = (deg, ready)"
| "relax deg ready (c # cs) =
     (let deg' = deg(c := deg c - 1)
      in relax deg' (if deg' c = 0 then ready @ [c] else ready) cs)"

fun kahn :: "nat \<Rightarrow> (string \<Rightarrow> string list) \<Rightarrow> (string \<Rightarrow> change) \<Rightarrow> (string \<Rightarrow> int) \<Rightarrow> string list
    \<Rightarrow> change list \<Rightarrow> change list option" where
  "kahn fuel nxt get deg [] ordered = Some ordered"
| "kahn 0 nxt get deg (i # ready) ordered = None"
| "kahn (Suc fuel) nxt get deg (i # ready) ordered =
     (case relax deg ready (nxt i) of
        (deg', ready') \<Rightarrow> kahn fuel nxt get deg' (sort ready') (ordered @ [get i]))"

definition change_at :: "change list \<Rightarrow> (string \<rightharpoonup> nat) \<Rightarrow> string \<Rightarrow> change" where
  "change_at changes byID i = changes ! (case byID i of None \<Rightarrow> 0 | Some k \<Rightarrow> k)"

definition sort_changes :: "change list \<Rightarrow> change list result" where
  "sort_changes changes =
     rbind (index_ids 0 Map.empty changes) (\<lambda>byID.
     rbind (link_changes byID changes (\<lambda>_. 0, \<lambda>_. [])) (\<lambda>(deg, nxt).
       (let ready = sort (map ch_id (filter (\<lambda>c. deg (ch_id c) = 0) changes))
        in case kahn (Suc (length changes)) nxt (change_at changes byID) deg ready [] of
             None \<Rightarrow> Inl (errorf ''out of fuel'')
           | Some ordered \<Rightarrow>
               if length ordered \<noteq> length changes
               then Inl (errorf ''change dependency cycle detected'')
               else Inr ordered)))"

definition finalize :: "(canonical_plan \<Rightarrow> string) \<Rightarrow> plan \<Rightarrow> plan result" where
  "finalize digest p =
     rbind (sort_changes (pl_changes p)) (\<lambda>changes.
       (let p' = p\<lparr>pl_changes := changes, pl_warnings := sort_slice wa_id (pl_warnings p)\<rparr>
        in Inr (p'\<lparr>pl_fingerprint := digest (canonical_plan p')\<rparr>)))"

section \<open>The specification of the order\<close>

text \<open>
  \<open>well_formed\<close>: what a plan must satisfy to have an order. \<open>dep_rel\<close>: the edges from a change to
  those that wait for it. \<open>deps_first\<close>: every change comes after all it depends on.
\<close>

definition well_formed :: "change list \<Rightarrow> bool" where
  "well_formed cs \<longleftrightarrow>
     distinct (map ch_id cs) \<and> [] \<notin> ch_id ` set cs \<and>
     (\<forall>c \<in> set cs. set (ch_dependencies c) \<subseteq> ch_id ` set cs)"

definition dep_rel :: "change list \<Rightarrow> (string \<times> string) set" where
  "dep_rel cs = {(d, ch_id c) | c d. c \<in> set cs \<and> d \<in> set (ch_dependencies c)}"

fun deps_first_from :: "string set \<Rightarrow> change list \<Rightarrow> bool" where
  "deps_first_from done [] = True"
| "deps_first_from done (c # cs) =
     (set (ch_dependencies c) \<subseteq> done \<and> deps_first_from (insert (ch_id c) done) cs)"

definition deps_first :: "change list \<Rightarrow> bool" where
  "deps_first cs = deps_first_from {} cs"

lemma deps_first_from_append:
  "deps_first_from D (xs @ ys) \<longleftrightarrow> deps_first_from D xs \<and> deps_first_from (D \<union> ch_id ` set xs) ys"
  by (induction xs arbitrary: D) auto

section \<open>The loops compute what the specification says\<close>

lemma index_ids_ok:
  assumes "index_ids i m cs = Inr m'"
  shows "distinct (map ch_id cs) \<and> [] \<notin> ch_id ` set cs \<and> dom m \<inter> ch_id ` set cs = {}
    \<and> (\<forall>k < length cs. m' (ch_id (cs ! k)) = Some (i + k))
    \<and> (\<forall>x. x \<notin> ch_id ` set cs \<longrightarrow> m' x = m x)"
  using assms
proof (induction cs arbitrary: i m)
  case (Cons c cs)
  then have ne: "ch_id c \<noteq> []" and new: "m (ch_id c) = None"
    and rest: "index_ids (Suc i) (m(ch_id c \<mapsto> i)) cs = Inr m'"
    by (auto split: if_splits)
  note IH = Cons.IH [OF rest]
  then have notin: "ch_id c \<notin> ch_id ` set cs" by auto
  have "m' (ch_id ((c # cs) ! k)) = Some (i + k)" if "k < length (c # cs)" for k
    using that IH notin by (cases k) auto
  moreover have "dom m \<inter> ch_id ` set (c # cs) = {}"
  proof -
    have "dom m \<subseteq> dom (m(ch_id c \<mapsto> i))" and "ch_id c \<notin> dom m" using new by auto
    moreover have "dom (m(ch_id c \<mapsto> i)) \<inter> ch_id ` set cs = {}" using IH by blast
    ultimately show ?thesis by auto
  qed
  moreover have "\<forall>x. x \<notin> ch_id ` set (c # cs) \<longrightarrow> m' x = m x" using IH by simp
  moreover have "distinct (map ch_id (c # cs))" "[] \<notin> ch_id ` set (c # cs)"
    using IH ne notin by auto
  ultimately show ?case by blast
qed simp

lemma index_ids_total:
  assumes "distinct (map ch_id cs)" and "[] \<notin> ch_id ` set cs" and "dom m \<inter> ch_id ` set cs = {}"
  shows "\<exists>m'. index_ids i m cs = Inr m'"
  using assms
proof (induction cs arbitrary: i m)
  case (Cons c cs)
  then have "dom (m(ch_id c \<mapsto> i)) \<inter> ch_id ` set cs = {}" by auto
  with Cons show ?case by (auto simp: domIff)
qed simp

definition indexed :: "change list \<Rightarrow> (string \<rightharpoonup> nat) \<Rightarrow> bool" where
  "indexed cs m \<longleftrightarrow> distinct (map ch_id cs) \<and> dom m = ch_id ` set cs
     \<and> (\<forall>k < length cs. m (ch_id (cs ! k)) = Some k)"

lemma index_ids_indexed:
  assumes "index_ids 0 Map.empty cs = Inr m"
  shows "indexed cs m"
proof -
  note A = index_ids_ok [OF assms]
  have "x \<in> dom m \<longleftrightarrow> x \<in> ch_id ` set cs" for x
    using A by (cases "x \<in> ch_id ` set cs") (auto simp: in_set_conv_nth)
  with A show ?thesis by (auto simp: indexed_def)
qed

lemma change_at_member:
  assumes "indexed cs m" and "c \<in> set cs"
  shows "change_at cs m (ch_id c) = c"
proof -
  from assms(2) obtain k where k: "k < length cs" "cs ! k = c" by (auto simp: in_set_conv_nth)
  with assms(1) have "m (ch_id c) = Some k" unfolding indexed_def by blast
  with k show ?thesis by (simp add: change_at_def)
qed

lemma count_deps_ok:
  "count_deps m i ds (deg, nxt) = Inr (deg', nxt') \<Longrightarrow>
     set ds \<subseteq> dom m \<and> deg' = deg(i := deg i + int (length ds))
     \<and> nxt' = (\<lambda>x. nxt x @ replicate (count_list ds x) i)"
proof (induction ds arbitrary: deg nxt)
  case (Cons d ds)
  then have d: "m d \<noteq> None"
    and rest: "count_deps m i ds (deg(i := deg i + 1), nxt(d := nxt d @ [i])) = Inr (deg', nxt')"
    by (auto split: if_splits)
  from Cons.IH [OF rest] d show ?case
    by (auto simp: fun_eq_iff replicate_app_Cons_same simp flip: replicate_Suc)
qed auto

lemma count_deps_total:
  "set ds \<subseteq> dom m \<Longrightarrow> \<exists>r. count_deps m i ds (deg, nxt) = Inr r"
  by (induction ds arbitrary: deg nxt) (auto simp: domIff)

text \<open>
  What \<open>link_changes\<close> builds: the degree of a change is the number of its dependencies, and \<open>next\<close> of
  an id lists each change once per occurrence of that id among its dependencies.
\<close>

definition waiting :: "change list \<Rightarrow> string \<Rightarrow> string list" where
  "waiting cs d = concat (map (\<lambda>c. replicate (count_list (ch_dependencies c) d) (ch_id c)) cs)"

lemma link_changes_ok:
  assumes "link_changes m cs (deg, nxt) = Inr (deg', nxt')" and "distinct (map ch_id cs)"
  shows "(\<forall>c \<in> set cs. set (ch_dependencies c) \<subseteq> dom m)
    \<and> (\<forall>c \<in> set cs. deg' (ch_id c) = deg (ch_id c) + int (length (ch_dependencies c)))
    \<and> (\<forall>i. i \<notin> ch_id ` set cs \<longrightarrow> deg' i = deg i)
    \<and> (\<forall>d. nxt' d = nxt d @ waiting cs d)"
  using assms
proof (induction cs arbitrary: deg nxt)
  case Nil
  then show ?case by (simp add: waiting_def)
next
  case (Cons c cs)
  from Cons.prems(1) obtain d1 n1 where
    one: "count_deps m (ch_id c) (ch_dependencies c) (deg, nxt) = Inr (d1, n1)" and
    rest: "link_changes m cs (d1, n1) = Inr (deg', nxt')"
    by (auto simp: result_simps)
  note A = count_deps_ok [OF one]
  from Cons.prems(2) have "distinct (map ch_id cs)" and notin: "ch_id c \<notin> ch_id ` set cs" by auto
  note B = Cons.IH [OF rest this(1)]
  from A B notin show ?case by (auto simp: waiting_def image_iff)
qed

lemma link_changes_total:
  assumes "\<forall>c \<in> set cs. set (ch_dependencies c) \<subseteq> dom m"
  shows "\<exists>r. link_changes m cs st = Inr r"
  using assms
proof (induction cs arbitrary: st)
  case (Cons c cs)
  obtain deg nxt where st: "st = (deg, nxt)" by (cases st)
  from Cons.prems count_deps_total [of "ch_dependencies c" m "ch_id c" deg nxt]
  obtain r where "count_deps m (ch_id c) (ch_dependencies c) (deg, nxt) = Inr r" by auto
  with Cons st show ?case by auto
qed simp

lemma count_list_replicate: "count_list (replicate n x) y = (if x = y then n else 0)"
  by (induction n) auto

lemma waiting_Cons:
  "waiting (c # cs) d = replicate (count_list (ch_dependencies c) d) (ch_id c) @ waiting cs d"
  by (simp add: waiting_def)

lemma waiting_notin: "i \<notin> ch_id ` set cs \<Longrightarrow> count_list (waiting cs d) i = 0"
  by (induction cs) (auto simp: waiting_Cons count_list_replicate, simp add: waiting_def)

lemma count_waiting:
  assumes "distinct (map ch_id cs)" and "c \<in> set cs"
  shows "count_list (waiting cs d) (ch_id c) = count_list (ch_dependencies c) d"
  using assms
proof (induction cs)
  case (Cons a cs)
  show ?case
  proof (cases "c = a")
    case True
    with Cons.prems show ?thesis by (simp add: waiting_Cons count_list_replicate waiting_notin)
  next
    case False
    with Cons have "ch_id a \<noteq> ch_id c" "c \<in> set cs" by auto
    with Cons show ?thesis by (simp add: waiting_Cons count_list_replicate)
  qed
qed simp

lemma set_waiting: "set (waiting cs d) = ch_id ` {c \<in> set cs. d \<in> set (ch_dependencies c)}"
  by (auto simp: waiting_def count_list_0_iff split: if_splits)

lemma relax_props:
  assumes "relax deg ready cs = (deg', ready')"
  shows "deg' = (\<lambda>i. deg i - int (count_list cs i))
    \<and> (\<exists>z. ready' = ready @ z \<and> distinct z
        \<and> set z = {i. 1 \<le> deg i \<and> deg i \<le> int (count_list cs i)})"
  using assms
proof (induction cs arbitrary: deg ready)
  case Nil
  then show ?case by auto
next
  case (Cons c cs)
  let ?deg1 = "deg(c := deg c - 1)"
  have step: "relax ?deg1 (if deg c = 1 then ready @ [c] else ready) cs = (deg', ready')"
    using Cons.prems by (simp add: Let_def split: if_splits)
  from Cons.IH [OF step] obtain z where
    d: "deg' = (\<lambda>i. ?deg1 i - int (count_list cs i))" and
    r: "ready' = (if deg c = 1 then ready @ [c] else ready) @ z" and
    z: "distinct z" "set z = {i. 1 \<le> ?deg1 i \<and> ?deg1 i \<le> int (count_list cs i)}"
    by auto
  let ?z = "if deg c = 1 then c # z else z"
  have "ready' = ready @ ?z" using r by simp
  moreover have "distinct ?z" using z by auto
  moreover have "set ?z = {i. 1 \<le> deg i \<and> deg i \<le> int (count_list (c # cs) i)}"
  proof -
    have "i \<in> set ?z \<longleftrightarrow> 1 \<le> deg i \<and> deg i \<le> int (count_list (c # cs) i)" for i
      using z(2) by (cases "i = c") auto
    then show ?thesis by blast
  qed
  moreover have "deg' = (\<lambda>i. deg i - int (count_list (c # cs) i))"
    using d by (auto simp: fun_eq_iff)
  ultimately show ?case by blast
qed

section \<open>The loop keeps a partial order of what it has placed\<close>

lemma filter_notin_insert:
  "i \<notin> D \<Longrightarrow>
    length (filter (\<lambda>d. d \<notin> D) ds) = length (filter (\<lambda>d. d \<notin> insert i D) ds) + count_list ds i"
  by (induction ds) auto

definition kahn_inv :: "change list \<Rightarrow> (string \<Rightarrow> int) \<Rightarrow> string list \<Rightarrow> change list \<Rightarrow> bool" where
  "kahn_inv cs deg ready ordered \<longleftrightarrow>
     distinct (map ch_id ordered @ ready) \<and> set ready \<subseteq> ch_id ` set cs \<and> set ordered \<subseteq> set cs
     \<and> (\<forall>c \<in> set cs. deg (ch_id c)
          = int (length (filter (\<lambda>d. d \<notin> ch_id ` set ordered) (ch_dependencies c))))
     \<and> (\<forall>c \<in> set cs. ch_id c \<in> set (map ch_id ordered @ ready) \<longleftrightarrow> deg (ch_id c) = 0)
     \<and> deps_first ordered"

lemma kahn_inv_sort: "kahn_inv cs deg (sort ready) ordered = kahn_inv cs deg ready ordered"
  by (simp add: kahn_inv_def)

lemma kahn_inv_step:
  assumes inv: "kahn_inv cs deg (ch_id c # ready) ordered" and c: "c \<in> set cs"
    and dist: "distinct (map ch_id cs)"
    and step: "relax deg ready (waiting cs (ch_id c)) = (deg', ready')"
  shows "kahn_inv cs deg' ready' (ordered @ [c])"
proof -
  let ?i = "ch_id c" and ?D = "ch_id ` set ordered"
  from relax_props [OF step] obtain z where
    deg': "deg' = (\<lambda>x. deg x - int (count_list (waiting cs ?i) x))" and
    ready': "ready' = ready @ z" and "distinct z" and
    z: "set z = {x. 1 \<le> deg x \<and> deg x \<le> int (count_list (waiting cs ?i) x)}" by auto
  from inv have i_new: "?i \<notin> ?D" and dr: "distinct (map ch_id ordered @ ?i # ready)"
    and deg: "\<forall>a \<in> set cs. deg (ch_id a) = int (length (filter (\<lambda>d. d \<notin> ?D) (ch_dependencies a)))"
    and zero: "\<forall>a \<in> set cs. ch_id a \<in> set (map ch_id ordered @ ?i # ready) \<longleftrightarrow> deg (ch_id a) = 0"
    and sub: "set ready \<subseteq> ch_id ` set cs" "set ordered \<subseteq> set cs" and df: "deps_first ordered"
    by (auto simp: kahn_inv_def)
  have deg_new: "deg' (ch_id a)
      = int (length (filter (\<lambda>d. d \<notin> ch_id ` set (ordered @ [c])) (ch_dependencies a)))"
    if "a \<in> set cs" for a
    using deg that filter_notin_insert [OF i_new, of "ch_dependencies a"]
    by (simp add: deg' count_waiting [OF dist that])
  have z_ids: "set z \<subseteq> ch_id ` set cs"
  proof
    fix x assume "x \<in> set z"
    then have "count_list (waiting cs ?i) x \<noteq> 0" using z by simp
    then show "x \<in> ch_id ` set cs" using waiting_notin by metis
  qed
  have z_new: "x \<notin> set (map ch_id ordered @ ?i # ready)" if "x \<in> set z" for x
  proof -
    from z_ids that obtain a where a: "a \<in> set cs" "x = ch_id a" by auto
    have "deg x \<noteq> 0" using z that by simp
    with a zero show ?thesis by blast
  qed
  have zero_new: "ch_id a \<in> set (map ch_id (ordered @ [c]) @ ready') \<longleftrightarrow> deg' (ch_id a) = 0"
    if a: "a \<in> set cs" for a
  proof -
    have "deg (ch_id a) \<ge> 0" "deg' (ch_id a) \<ge> 0" using deg deg_new a by simp_all
    moreover have "ch_id a \<in> set z \<longleftrightarrow> 1 \<le> deg (ch_id a) \<and> deg' (ch_id a) \<le> 0"
      using z deg' by auto
    ultimately show ?thesis using zero a deg' ready' by auto
  qed
  have "set (ch_dependencies c) \<subseteq> ?D"
  proof -
    have "deg ?i = 0" using bspec [OF zero c] by simp
    with deg c have "filter (\<lambda>d. d \<notin> ?D) (ch_dependencies c) = []" by simp
    then show ?thesis by (auto simp: filter_empty_conv)
  qed
  with df have "deps_first (ordered @ [c])" by (simp add: deps_first_def deps_first_from_append)
  moreover have "distinct (map ch_id (ordered @ [c]) @ ready')"
    using dr z_new \<open>distinct z\<close> by (auto simp: ready')
  ultimately show ?thesis
    using deg_new zero_new sub z_ids c by (auto simp: kahn_inv_def ready')
qed

lemma kahn_inv_bound:
  assumes "kahn_inv cs deg ready ordered" and "distinct (map ch_id cs)"
  shows "length ordered + length ready \<le> length cs"
proof -
  have "length (map ch_id ordered @ ready) = card (set (map ch_id ordered @ ready))"
    using assms(1) distinct_card unfolding kahn_inv_def by metis
  also have "\<dots> \<le> card (ch_id ` set cs)"
    using assms(1) by (intro card_mono) (auto simp: kahn_inv_def)
  also have "\<dots> = length cs" using assms(2) distinct_card by fastforce
  finally show ?thesis by simp
qed

text \<open>
  Each change placed is the smallest, by id, of those that could be placed next.
\<close>

definition smallest_first :: "change list \<Rightarrow> change list \<Rightarrow> bool" where
  "smallest_first cs out \<longleftrightarrow>
     (\<forall>k < length out. \<forall>c \<in> set cs.
        ch_id c \<notin> ch_id ` set (take k out) \<and> set (ch_dependencies c) \<subseteq> ch_id ` set (take k out)
        \<longrightarrow> ch_id (out ! k) \<le> ch_id c)"

lemma smallest_first_step:
  assumes inv: "kahn_inv cs deg (ch_id c # ready) ordered" and "sorted (ch_id c # ready)"
    and lex: "smallest_first cs ordered"
  shows "smallest_first cs (ordered @ [c])"
proof -
  have "ch_id c \<le> ch_id a"
    if a: "a \<in> set cs" "ch_id a \<notin> ch_id ` set ordered" "set (ch_dependencies a) \<subseteq> ch_id ` set ordered"
    for a
  proof -
    have "filter (\<lambda>d. d \<notin> ch_id ` set ordered) (ch_dependencies a) = []"
      using a(3) by (auto simp: filter_empty_conv)
    with inv a(1) have "deg (ch_id a) = 0" by (simp add: kahn_inv_def)
    with inv a(1,2) have "ch_id a \<in> set (ch_id c # ready)" unfolding kahn_inv_def by auto
    with assms(2) show ?thesis by auto
  qed
  with lex show ?thesis by (auto simp: smallest_first_def nth_append less_Suc_eq)
qed

lemma kahn_enough_fuel:
  assumes "kahn_inv cs deg ready ordered" and "distinct (map ch_id cs)"
    and "fuel + length ordered = Suc (length cs)"
    and "\<And>c. c \<in> set cs \<Longrightarrow> get (ch_id c) = c"
    and "sorted ready" and "smallest_first cs ordered"
  shows "\<exists>out deg'. kahn fuel (waiting cs) get deg ready ordered = Some out
    \<and> kahn_inv cs deg' [] out \<and> smallest_first cs out"
  using assms
proof (induction fuel arbitrary: deg ready ordered)
  case 0
  then show ?case using kahn_inv_bound [OF 0(1,2)] by simp
next
  case (Suc fuel)
  show ?case
  proof (cases ready)
    case Nil
    with Suc.prems(1,6) show ?thesis by auto
  next
    case (Cons i rest)
    with Suc.prems(1) obtain c where c: "c \<in> set cs" "i = ch_id c"
      by (auto simp: kahn_inv_def)
    obtain deg' ready' where step: "relax deg rest (waiting cs i) = (deg', ready')" by fastforce
    note here = Suc.prems(1,5) [unfolded Cons c(2)]
    have "kahn_inv cs deg' (sort ready') (ordered @ [c])"
      using kahn_inv_step [OF here(1) c(1) Suc.prems(2)] step c(2) by (simp add: kahn_inv_sort)
    moreover have "smallest_first cs (ordered @ [c])"
      using smallest_first_step [OF here Suc.prems(6)] .
    ultimately obtain out d2 where
      "kahn fuel (waiting cs) get deg' (sort ready') (ordered @ [c]) = Some out"
      "kahn_inv cs d2 [] out" "smallest_first cs out"
      using Suc.IH [of deg' "sort ready'" "ordered @ [c]"] Suc.prems(2,3,4) by auto
    then show ?thesis using Cons step c Suc.prems(4) [OF c(1)] by auto
  qed
qed

lemma deps_first_earlier:
  assumes "deps_first_from D xs" and "k < length xs"
  shows "set (ch_dependencies (xs ! k)) \<subseteq> D \<union> ch_id ` set (take k xs)"
  using assms
proof (induction xs arbitrary: D k)
  case (Cons x xs)
  show ?case
  proof (cases k)
    case 0
    with Cons.prems show ?thesis by simp
  next
    case (Suc j)
    with Cons.prems Cons.IH [of "insert (ch_id x) D" j] show ?thesis by auto
  qed
qed simp

lemma deps_first_acyclic:
  assumes df: "deps_first out" and dist: "distinct (map ch_id out)" and set: "set out = set cs"
  shows "acyclic (dep_rel cs)"
proof -
  define pos where "pos i = length (takeWhile (\<lambda>c. ch_id c \<noteq> i) out)" for i
  have pos_nth: "pos (ch_id (out ! k)) = k" if "k < length out" for k
  proof -
    have "takeWhile (\<lambda>c. ch_id c \<noteq> ch_id (out ! k)) out = take k out"
    proof (rule takeWhile_eq_take_P_nth)
      fix i assume "i < k" "i < length out"
      then show "ch_id (out ! i) \<noteq> ch_id (out ! k)"
        using that dist nth_eq_iff_index_eq [of "map ch_id out" i k] by simp
    qed simp
    with that show ?thesis by (simp add: pos_def)
  qed
  have "dep_rel cs \<subseteq> measure pos"
  proof
    fix e assume "e \<in> dep_rel cs"
    then obtain d c where e: "e = (d, ch_id c)" "c \<in> set out" "d \<in> set (ch_dependencies c)"
      using set by (auto simp: dep_rel_def)
    then obtain k where k: "k < length out" "out ! k = c" by (auto simp: in_set_conv_nth)
    with deps_first_earlier [of "{}" out k] df e(3)
    have "d \<in> ch_id ` set (take k out)" unfolding deps_first_def by blast
    then obtain j where "j < k" "d = ch_id (out ! j)"
      by (auto simp: in_set_conv_nth)
    moreover from this k have "pos d = j" "pos (ch_id c) = k"
      using pos_nth [of j] pos_nth [of k] by simp_all
    ultimately show "e \<in> measure pos" by (simp add: e)
  qed
  then show ?thesis by (meson wf_acyclic wf_measure wf_subset)
qed

lemma stuck_cyclic:
  assumes inv: "kahn_inv cs deg [] out" and wf: "well_formed cs" and ne: "length out \<noteq> length cs"
  shows "\<not> acyclic (dep_rel cs)"
proof
  assume "acyclic (dep_rel cs)"
  have "dep_rel cs = (\<Union>c \<in> set cs. (\<lambda>d. (d, ch_id c)) ` set (ch_dependencies c))"
    by (auto simp: dep_rel_def)
  then have "finite (dep_rel cs)" by simp
  with \<open>acyclic (dep_rel cs)\<close> have "wf (dep_rel cs)" by (rule finite_acyclic_wf[rotated])
  let ?R = "ch_id ` set cs - ch_id ` set out"
  have "?R \<noteq> {}"
  proof
    assume "?R = {}"
    then have "card (ch_id ` set cs) \<le> card (ch_id ` set out)" by (intro card_mono) auto
    moreover have "card (ch_id ` set cs) = length cs"
      using wf distinct_card [of "map ch_id cs"] by (simp add: well_formed_def)
    moreover have "card (ch_id ` set out) = length out"
      using inv distinct_card [of "map ch_id out"] by (simp add: kahn_inv_def)
    moreover have "length out \<le> length cs"
      using kahn_inv_bound [OF inv] wf by (simp add: well_formed_def)
    ultimately show False using ne by simp
  qed
  then obtain x where x: "x \<in> ?R" and min: "\<And>y. (y, x) \<in> dep_rel cs \<Longrightarrow> y \<notin> ?R"
    using wfE_min [OF \<open>wf (dep_rel cs)\<close>] by (metis ex_in_conv)
  then obtain c where c: "c \<in> set cs" "x = ch_id c" by auto
  have "deg x \<noteq> 0" using inv c x by (auto simp: kahn_inv_def)
  then obtain d where d: "d \<in> set (ch_dependencies c)" "d \<notin> ch_id ` set out"
    using inv c by (auto simp: kahn_inv_def filter_empty_conv)
  then have "(d, x) \<in> dep_rel cs" "d \<in> ch_id ` set cs"
    using c wf by (auto simp: dep_rel_def well_formed_def)
  with min d show False by blast
qed

section \<open>What SortChanges returns\<close>

lemma sort_changes_needs_wf:
  assumes "sort_changes cs = Inr out"
  shows "well_formed cs"
proof -
  from assms obtain m deg nxt where
    m: "index_ids 0 Map.empty cs = Inr m" and l: "link_changes m cs (\<lambda>_. 0, \<lambda>_. []) = Inr (deg, nxt)"
    by (auto simp: sort_changes_def result_simps)
  note A = index_ids_ok [OF m] and B = index_ids_indexed [OF m]
  from A link_changes_ok [OF l] indexed_def [of cs m] B show ?thesis
    unfolding well_formed_def by simp
qed

lemma sort_changes_run:
  assumes wf: "well_formed cs"
  obtains out deg where "kahn_inv cs deg [] out" and "smallest_first cs out"
    and "sort_changes cs = (if length out \<noteq> length cs
           then Inl (errorf ''change dependency cycle detected'') else Inr out)"
proof -
  from wf have dist: "distinct (map ch_id cs)" by (simp add: well_formed_def)
  from wf index_ids_total [of cs Map.empty 0] obtain m where m: "index_ids 0 Map.empty cs = Inr m"
    by (auto simp: well_formed_def)
  have ix: "indexed cs m" by (rule index_ids_indexed [OF m])
  with wf have "\<forall>c \<in> set cs. set (ch_dependencies c) \<subseteq> dom m"
    by (simp add: indexed_def well_formed_def)
  from link_changes_total [OF this, of "(\<lambda>_. 0, \<lambda>_. [])"] obtain deg nxt where
    l: "link_changes m cs (\<lambda>_. 0, \<lambda>_. []) = Inr (deg, nxt)" by auto
  note L = link_changes_ok [OF l dist]
  then have nxt: "nxt = waiting cs" by auto
  let ?ready = "map ch_id (filter (\<lambda>c. deg (ch_id c) = 0) cs)"
  have "distinct ?ready" using dist by (simp add: distinct_map_filter)
  then have "kahn_inv cs deg (sort ?ready) []"
    using L by (force simp: kahn_inv_def deps_first_def)
  moreover have "smallest_first cs []" by (simp add: smallest_first_def)
  ultimately obtain out d2 where
    "kahn (Suc (length cs)) (waiting cs) (change_at cs m) deg (sort ?ready) [] = Some out"
    "kahn_inv cs d2 [] out" "smallest_first cs out"
    using kahn_enough_fuel [of cs deg "sort ?ready" "[]" "Suc (length cs)" "change_at cs m"]
      dist change_at_member [OF ix] by auto
  then show thesis using that m l nxt by (simp add: sort_changes_def Let_def)
qed

lemma kahn_inv_complete:
  assumes "kahn_inv cs deg [] out" and "distinct (map ch_id cs)" and "length out = length cs"
  shows "mset out = mset cs"
proof -
  have "distinct out" "distinct cs" "set out \<subseteq> set cs"
    using assms by (auto simp: kahn_inv_def distinct_map)
  with assms(3) have "set out = set cs"
    by (metis List.finite_set card_subset_eq distinct_card)
  with \<open>distinct out\<close> \<open>distinct cs\<close> show ?thesis by (simp add: set_eq_iff_mset_eq_distinct)
qed

lemma sort_changes_facts:
  assumes "sort_changes cs = Inr out"
  shows "well_formed cs" "mset out = mset cs" "deps_first out" "smallest_first cs out"
proof -
  show wf: "well_formed cs" by (rule sort_changes_needs_wf [OF assms])
  from sort_changes_run [OF wf] obtain o2 deg where
    o2: "kahn_inv cs deg [] o2" "smallest_first cs o2"
    "sort_changes cs = (if length o2 \<noteq> length cs
       then Inl (errorf ''change dependency cycle detected'') else Inr o2)" by blast
  with assms have "o2 = out" "length out = length cs" by (auto split: if_splits)
  with o2 wf show "mset out = mset cs" "deps_first out" "smallest_first cs out"
    using kahn_inv_complete [of cs deg out] by (auto simp: well_formed_def kahn_inv_def)
qed

lemma ids_eq_change_eq:
  "distinct (map ch_id cs) \<Longrightarrow> a \<in> set cs \<Longrightarrow> b \<in> set cs \<Longrightarrow> ch_id a = ch_id b \<Longrightarrow> a = b"
  by (auto simp: distinct_map inj_on_def)

text \<open>An order that respects the dependencies and always takes the smallest id is unique.\<close>

lemma smallest_first_unique:
  assumes dist: "distinct (map ch_id cs)"
    and xs: "mset xs = mset cs" "deps_first xs" "smallest_first cs xs"
    and ys: "mset ys = mset cs" "deps_first ys" "smallest_first cs ys"
  shows "xs = ys"
proof -
  have len: "length xs = length cs" "length ys = length cs"
    using xs(1) ys(1) by (metis size_mset)+
  have sets: "set xs = set cs" "set ys = set cs" using xs(1) ys(1) by (metis set_mset_mset)+
  have dxs: "distinct (map ch_id xs)" "distinct (map ch_id ys)"
    using dist xs(1) ys(1) by (metis mset_map mset_eq_imp_distinct_iff)+
  have later: "ch_id (zs ! k) \<notin> ch_id ` set (take k zs)"
    if "distinct (map ch_id zs)" "k < length zs" for k and zs :: "change list"
    using that nth_eq_iff_index_eq [of "map ch_id zs"] by (auto simp: in_set_conv_nth)
  have "take k xs = take k ys" if "k \<le> length cs" for k
    using that
  proof (induction k)
    case (Suc k)
    then have eq: "take k xs = take k ys" and k: "k < length cs" by auto
    have "ch_id (ys ! k) \<le> ch_id (xs ! k)"
      using ys(3) k len later [OF dxs(1), of k] deps_first_earlier [of "{}" xs k] xs(2) eq
        nth_mem [of k xs] sets
      unfolding smallest_first_def deps_first_def by auto
    moreover have "ch_id (xs ! k) \<le> ch_id (ys ! k)"
      using xs(3) k len later [OF dxs(2), of k] deps_first_earlier [of "{}" ys k] ys(2) eq
        nth_mem [of k ys] sets
      unfolding smallest_first_def deps_first_def by auto
    ultimately have "xs ! k = ys ! k"
      using ids_eq_change_eq [OF dist] nth_mem [of k xs] nth_mem [of k ys] sets len k by auto
    with eq k len show ?case by (simp add: take_Suc_conv_app_nth)
  qed simp
  from this [of "length cs"] len show ?thesis by simp
qed

lemma well_formed_mset:
  assumes "mset cs = mset ds"
  shows "well_formed cs = well_formed ds" "dep_rel cs = dep_rel ds"
proof -
  have "set cs = set ds" using assms by (metis set_mset_mset)
  moreover have "distinct (map ch_id cs) = distinct (map ch_id ds)"
    using assms by (metis mset_map mset_eq_imp_distinct_iff)
  ultimately show "well_formed cs = well_formed ds" "dep_rel cs = dep_rel ds"
    by (simp_all add: well_formed_def dep_rel_def)
qed

lemma sort_changes_ok_iff:
  "is_ok (sort_changes cs) \<longleftrightarrow> well_formed cs \<and> acyclic (dep_rel cs)"
proof
  assume "is_ok (sort_changes cs)"
  then obtain out where "sort_changes cs = Inr out" by (auto simp: is_ok_iff)
  note F = sort_changes_facts [OF this]
  then have "distinct (map ch_id out)" "set out = set cs"
    using mset_eq_imp_distinct_iff [of "map ch_id out" "map ch_id cs"]
    by (auto simp: well_formed_def dest: mset_eq_setD)
  with F deps_first_acyclic show "well_formed cs \<and> acyclic (dep_rel cs)" by blast
next
  assume "well_formed cs \<and> acyclic (dep_rel cs)"
  then show "is_ok (sort_changes cs)"
    using sort_changes_run [of cs] stuck_cyclic by (metis is_ok_simps(1))
qed

lemma sort_changes_permuted:
  assumes "mset cs = mset ds" and "sort_changes cs = Inr out"
  shows "sort_changes ds = Inr out"
proof -
  note F = sort_changes_facts [OF assms(2)]
  have "is_ok (sort_changes ds)"
    using assms sort_changes_ok_iff well_formed_mset [OF assms(1)] by (metis is_ok_simps(1))
  then obtain out2 where out2: "sort_changes ds = Inr out2" by (auto simp: is_ok_iff)
  note G = sort_changes_facts [OF out2]
  have "smallest_first cs out2"
    using G(4) assms(1) unfolding smallest_first_def by (metis mset_eq_setD)
  with F G assms(1) have "out = out2"
    using smallest_first_unique [of cs out out2] by (simp add: well_formed_def)
  with out2 show ?thesis by simp
qed

text \<open>\<open>Finalize\<close> does not depend on the order of its changes, nor, when their ids differ, of its warnings.\<close>

lemma finalize_permuted:
  assumes "finalize digest p = Inr q"
    and "mset (pl_changes p) = mset (pl_changes p')"
    and "mset (pl_warnings p) = mset (pl_warnings p')" and "distinct (map wa_id (pl_warnings p))"
    and "pl_version p = pl_version p'" and "pl_target p = pl_target p'"
  shows "finalize digest p' = Inr q"
proof -
  have "sort_slice wa_id (pl_warnings p) = sort_slice wa_id (pl_warnings p')"
    using assms(3,4) by (rule sort_key_unique)
  moreover from assms(1) obtain out where "sort_changes (pl_changes p) = Inr out"
    by (auto simp: finalize_def result_simps)
  moreover from this assms(2) have "sort_changes (pl_changes p') = Inr out"
    using sort_changes_permuted by blast
  ultimately show ?thesis using assms(1,5,6) by (auto simp: finalize_def Let_def canonical_plan_def)
qed

lemma finalize_again:
  assumes "finalize digest p = Inr q"
  shows "finalize digest q = Inr q"
proof -
  from assms obtain out where s: "sort_changes (pl_changes p) = Inr out"
    and q: "pl_changes q = out" "pl_warnings q = sort_slice wa_id (pl_warnings p)"
      "pl_fingerprint q = digest (canonical_plan q)"
    by (auto simp: finalize_def result_simps Let_def canonical_plan_def)
  have "sort_changes out = Inr out"
    using sort_changes_permuted [OF _ s] sort_changes_facts(2) [OF s] by simp
  moreover have "sort_slice wa_id (pl_warnings q) = pl_warnings q"
    unfolding q(2) by (intro sort_key_id_if_sorted) simp
  ultimately show ?thesis using q by (simp add: finalize_def Let_def canonical_plan_def)
qed

section \<open>The properties\<close>

definition ex_change :: "string \<Rightarrow> string list \<Rightarrow> change" where
  "ex_change i ds = zero_change\<lparr>ch_id := i, ch_dependencies := ds\<rparr>"

text \<open>
  C3. What SortChanges returns is a permutation of the changes in which every change comes after
  all it depends on, and in which every position holds the smallest id among the changes that could
  stand there.
\<close>

theorem sort_changes_sound:
  assumes "sort_changes cs = Inr out"
  shows "mset out = mset cs \<and> deps_first out \<and> smallest_first cs out"
  using sort_changes_facts [OF assms] by blast

lemma sort_changes_example:
  "sort_changes [ex_change ''b'' [''c''], ex_change ''c'' [], ex_change ''a'' []]
     = Inr [ex_change ''a'' [], ex_change ''c'' [], ex_change ''b'' [''c'']]"
  by code_simp

theorem sort_changes_sound_witness:
  "mset [ex_change ''a'' [], ex_change ''c'' [], ex_change ''b'' [''c'']]
     = mset [ex_change ''b'' [''c''], ex_change ''c'' [], ex_change ''a'' []]
   \<and> deps_first [ex_change ''a'' [], ex_change ''c'' [], ex_change ''b'' [''c'']]"
  using sort_changes_sound [OF sort_changes_example] by blast




text \<open>
  Finalize is idempotent: a plan it returns is already in order and already carries the
  fingerprint of its own content, so finalizing it again changes nothing.
\<close>

theorem finalize_idempotent:
  assumes "finalize digest p = Inr q"
  shows "finalize digest q = Inr q \<and> pl_fingerprint q = digest (canonical_plan q)
    \<and> sorted (map wa_id (pl_warnings q)) \<and> mset (pl_warnings q) = mset (pl_warnings p)"
  using finalize_again [OF assms] assms
  by (auto simp: finalize_def result_simps Let_def canonical_plan_def)

theorem finalize_idempotent_witness:
  "\<exists>q. finalize (\<lambda>(v, t, cs, ws). show_int v @ t @ concat (map ch_id cs))
       (zero_plan\<lparr>pl_changes := [ex_change ''b'' [''a''], ex_change ''a'' []]\<rparr>) = Inr q
     \<and> finalize (\<lambda>(v, t, cs, ws). show_int v @ t @ concat (map ch_id cs)) q = Inr q"
proof -
  let ?d = "\<lambda>(v, t, cs, ws). show_int v @ t @ concat (map ch_id cs)"
  let ?p = "zero_plan\<lparr>pl_changes := [ex_change ''b'' [''a''], ex_change ''a'' []]\<rparr>"
  have "sort_changes [ex_change ''b'' [''a''], ex_change ''a'' []]
      = Inr [ex_change ''a'' [], ex_change ''b'' [''a'']]" by code_simp
  then obtain q where "finalize ?d ?p = Inr q" by (simp add: finalize_def Let_def)
  with finalize_idempotent [OF this] show ?thesis by blast
qed

end
