(* ===== verification/Planner.thy ===== *)
theory Planner
  imports Config Host_Facts Plan
begin

text \<open>
  Packages \<open>internal/module\<close> and \<open>internal/planner\<close>: the operations of a module and the plan built from
  the facts of a target and a configuration. A module acts on a target; the target is a value of the
  type variable that its \<open>Apply\<close> and \<open>Verify\<close> take and return.
\<close>

record 'w module_ops =
  md_name :: string
  md_plan :: "host_facts \<Rightarrow> config \<Rightarrow> (change list \<times> warning list) result"
  md_apply :: "config \<Rightarrow> change \<Rightarrow> 'w \<Rightarrow> 'w \<times> error option"
  md_verify :: "config \<Rightarrow> change \<Rightarrow> 'w \<Rightarrow> 'w \<times> error option"

text \<open>\<open>New\<close>: the modules in the order of their names.\<close>

definition new_planner :: "'w module_ops list \<Rightarrow> 'w module_ops list" where
  "new_planner modules = sort_slice md_name modules"

abbreviation unsupported :: "string \<Rightarrow> error" where
  "unsupported m \<equiv> coded UnsupportedOS m"

definition missing_tools :: "required_tools \<Rightarrow> string list" where
  "missing_tools t = (if rt_flock t then [] else [''flock'']) @ (if rt_lsblk t then [] else [''lsblk''])
     @ (if rt_findmnt t then [] else [''findmnt''])"

text \<open>The guards of \<open>Build\<close>, in the order of the code.\<close>

definition check_host :: "host_facts \<Rightarrow> unit result" where
  "check_host host =
     (let os = hf_os host in
      rfail_if (\<not> os_is_supported os)
        (unsupported (''unsupported target OS '' @ go_quote (os_id os) @ ''; Bebop requires an explicitly reviewed OS release''))
      (rfail_if (\<not> os_supports_architecture os (hf_architecture host))
        (unsupported (''supported '' @ os_family os @ '' target does not expose a reviewed architecture: '' @ hf_architecture host))
      (rfail_if ((case platform_policy_for os of None \<Rightarrow> False | Some p \<Rightarrow> pp_libcs p \<noteq> [])
          \<and> \<not> libc_supported os (hf_libc host))
        (unsupported (''supported '' @ os_family os @ '' target does not expose a reviewed libc variant''))
      (rfail_if (\<not> init_system_available os (hf_init_system host) (hf_systemd host))
        (unsupported (''supported '' @ os_family os @ '' target does not expose the required '' @ required_init_system os @ '' init system''))
      (rfail_if (hf_mutation_blocked host)
        (unsupported (''target mutation is unsafe: '' @ hf_mutation_block_reason host))
      (rfail_if (\<not> package_tools_available os (hf_package_manager host) (hf_package_database host))
        (case required_package_tools os of
           None \<Rightarrow> unsupported (''supported '' @ os_family os @ '' target does not expose the required  package tools'')
         | Some (manager, database) \<Rightarrow>
             unsupported (''supported '' @ os_family os @ '' target does not expose the required ''
               @ manager @ (if database \<noteq> [] then ''/'' @ database else []) @ '' package tools''))
      (case mutation_tool_policy os of (requires, remediation) \<Rightarrow>
        rfail_if (requires \<and> missing_tools (hf_required_tools host) \<noteq> [])
          (unsupported (os_display os @ '' target is missing required mutation/storage tools: ''
             @ join_with '', '' (missing_tools (hf_required_tools host)) @ ''; install them manually with ''
             @ remediation @ '' before Bebop apply''))
          (Inr ()))))))))"

definition host_warnings :: "host_facts \<Rightarrow> warning list" where
  "host_warnings host =
     (if hf_architecture_known host then [] else
        [\<lparr>wa_id = ''host.architecture'', wa_module = ''host'',
          wa_summary = ''unknown target architecture: '' @ hf_architecture host,
          wa_resolution = ''Bebop will not infer architecture-specific packages; confirm repository availability before apply.''\<rparr>])
     @ (if fw_ufw_active (hf_firewall host) \<or> fw_other_active (hf_firewall host) then
        [\<lparr>wa_id = ''firewall.external'', wa_module = ''firewall'', wa_summary = ''an existing firewall is active'',
          wa_resolution = ''Bebop M0 inspects firewall state but never modifies it.''\<rparr>]
        else [])"

text \<open>The loop over the modules; the first error ends it.\<close>

fun collect_changes :: "'w module_ops list \<Rightarrow> host_facts \<Rightarrow> config \<Rightarrow> (change list \<times> warning list) result" where
  "collect_changes [] host cfg = Inr ([], [])"
| "collect_changes (m # ms) host cfg =
     rbind (rmap_err (wrapf (''plan '' @ md_name m @ '': '')) (md_plan m host cfg)) (\<lambda>(changes, warnings).
     rbind (collect_changes ms host cfg) (\<lambda>(more_changes, more_warnings).
     Inr (changes @ more_changes, warnings @ more_warnings)))"

definition build :: "(canonical_plan \<Rightarrow> string) \<Rightarrow> 'w module_ops list \<Rightarrow> host_facts \<Rightarrow> config \<Rightarrow> plan result" where
  "build digest modules host cfg =
     rbind (validate cfg) (\<lambda>_.
     rbind (check_host host) (\<lambda>_.
     rbind (collect_changes modules host cfg) (\<lambda>(changes, warnings).
     finalize digest \<lparr>pl_version = 1, pl_target = hf_target host, pl_changes = changes,
       pl_warnings = host_warnings host @ warnings, pl_fingerprint = []\<rparr>)))"

section \<open>Lemmas\<close>

lemma collect_changes_ok:
  "collect_changes ms host cfg = Inr (changes, warnings) \<Longrightarrow>
     \<exists>parts. list_all2 (\<lambda>m part. md_plan m host cfg = Inr part) ms parts
       \<and> changes = concat (map fst parts) \<and> warnings = concat (map snd parts)"
proof (induction ms arbitrary: changes warnings)
  case (Cons m ms)
  from Cons.prems obtain cs ws cs' ws' where
    m: "md_plan m host cfg = Inr (cs, ws)" and r: "collect_changes ms host cfg = Inr (cs', ws')"
    and c: "changes = cs @ cs'" "warnings = ws @ ws'"
    by (auto simp: result_simps split: prod.splits)
  from Cons.IH [OF r] obtain parts where
    "list_all2 (\<lambda>m part. md_plan m host cfg = Inr part) ms parts"
    "cs' = concat (map fst parts)" "ws' = concat (map snd parts)" by blast
  with m c show ?case by (intro exI [of _ "(cs, ws) # parts"]) simp
qed simp

lemma build_ok:
  assumes "build digest ms host cfg = Inr p"
  obtains changes warnings where "validate cfg = Inr ()" "check_host host = Inr ()"
    "collect_changes ms host cfg = Inr (changes, warnings)"
    "finalize digest \<lparr>pl_version = 1, pl_target = hf_target host, pl_changes = changes,
       pl_warnings = host_warnings host @ warnings, pl_fingerprint = []\<rparr> = Inr p"
  using assms by (auto simp: build_def result_simps split: prod.splits)

lemma finalize_fields:
  assumes "finalize digest q = Inr p"
  shows "sort_changes (pl_changes q) = Inr (pl_changes p)" "pl_target p = pl_target q" "pl_version p = pl_version q"
    "mset (pl_warnings p) = mset (pl_warnings q)" "pl_fingerprint p = digest (canonical_plan p)"
  using assms by (auto simp: finalize_def result_simps Let_def canonical_plan_def)

lemma check_host_ok:
  assumes "check_host host = Inr ()"
  shows "os_is_supported (hf_os host)" "os_supports_architecture (hf_os host) (hf_architecture host)"
    "init_system_available (hf_os host) (hf_init_system host) (hf_systemd host)"
    "\<not> hf_mutation_blocked host"
    "package_tools_available (hf_os host) (hf_package_manager host) (hf_package_database host)"
  using assms by (auto simp: check_host_def result_simps Let_def)

text \<open>
  The interface that saved plans have with the planner: \<open>Build\<close> promises plans that \<open>Finalize\<close> leaves
  alone, and only for targets and configurations that passed its guards.
\<close>

locale plan_builder =
  fixes digest :: "canonical_plan \<Rightarrow> string"
    and builder :: "host_facts \<Rightarrow> config \<Rightarrow> plan result"
  assumes builder_final: "builder host cfg = Inr p \<Longrightarrow> finalize digest p = Inr p"
    and builder_target: "builder host cfg = Inr p \<Longrightarrow> pl_target p = hf_target host"
    and builder_valid: "builder host cfg = Inr p \<Longrightarrow> validate cfg = Inr ()"
    and builder_host: "builder host cfg = Inr p \<Longrightarrow> check_host host = Inr ()"
begin

lemma builder_fingerprint: "builder host cfg = Inr p \<Longrightarrow> pl_fingerprint p = digest (canonical_plan p)"
  using finalize_fields(5) [OF builder_final] .

lemma builder_ordered: "builder host cfg = Inr p \<Longrightarrow> sort_changes (pl_changes p) = Inr (pl_changes p)"
  using finalize_fields(1) [OF builder_final] .

end

text \<open>Whatever its modules plan, the planner of the code keeps these promises.\<close>

interpretation planner: plan_builder digest "build digest modules"
  for digest :: "canonical_plan \<Rightarrow> string" and modules :: "'w module_ops list"
proof
  fix host cfg p
  assume b: "build digest modules host cfg = Inr p"
  from b obtain changes warnings where q: "validate cfg = Inr ()" "check_host host = Inr ()"
    "finalize digest \<lparr>pl_version = 1, pl_target = hf_target host, pl_changes = changes,
       pl_warnings = host_warnings host @ warnings, pl_fingerprint = []\<rparr> = Inr p"
    by (rule build_ok)
  show "finalize digest p = Inr p" by (rule finalize_again [OF q(3)])
  show "pl_target p = hf_target host" using finalize_fields(2) [OF q(3)] by simp
  show "validate cfg = Inr ()" "check_host host = Inr ()" using q by simp_all
qed

section \<open>Properties\<close>

text \<open>
  C38. \<open>Build\<close> only plans for a supported target: the operating system is in the reviewed matrix with this
  architecture, init system and package tools, and mutation is not blocked; and the plan is complete
  and ordered, holding exactly the changes of every module, each after the changes it depends on.
\<close>

theorem build_sound:
  assumes "build digest modules host cfg = Inr p"
  shows "os_is_supported (hf_os host) \<and> os_supports_architecture (hf_os host) (hf_architecture host)
    \<and> init_system_available (hf_os host) (hf_init_system host) (hf_systemd host)
    \<and> package_tools_available (hf_os host) (hf_package_manager host) (hf_package_database host)
    \<and> \<not> hf_mutation_blocked host \<and> pl_target p = hf_target host
    \<and> (\<exists>parts. list_all2 (\<lambda>m part. md_plan m host cfg = Inr part) modules parts
         \<and> mset (pl_changes p) = mset (concat (map fst parts)))
    \<and> deps_first (pl_changes p) \<and> distinct (map ch_id (pl_changes p))"
proof -
  from assms obtain changes warnings where q: "check_host host = Inr ()"
    "collect_changes modules host cfg = Inr (changes, warnings)"
    "finalize digest \<lparr>pl_version = 1, pl_target = hf_target host, pl_changes = changes,
       pl_warnings = host_warnings host @ warnings, pl_fingerprint = []\<rparr> = Inr p"
    by (rule build_ok)
  obtain parts where "list_all2 (\<lambda>m part. md_plan m host cfg = Inr part) modules parts"
    "changes = concat (map fst parts)"
    using collect_changes_ok [OF q(2)] by blast
  moreover have s: "sort_changes changes = Inr (pl_changes p)" using finalize_fields(1) [OF q(3)] by simp
  moreover have "deps_first (pl_changes p)" "mset (pl_changes p) = mset changes"
    using sort_changes_facts [OF s] by auto
  moreover from this(2) have "distinct (map ch_id (pl_changes p))"
    using sort_changes_facts(1) [OF s] well_formed_mset by (metis well_formed_def)
  ultimately show ?thesis
    using check_host_ok [OF q(1)] finalize_fields(2) [OF q(3)] by auto
qed

definition ex_host :: host_facts where
  "ex_host = zero_host_facts\<lparr>hf_target := ''local'', hf_machine_id := ''0123'', hf_os := ex_debian,
     hf_architecture := ''amd64'', hf_architecture_known := True, hf_init_system := ''systemd'',
     hf_package_manager := ''apt'', hf_package_database := ''dpkg'', hf_sudo_available := True,
     hf_required_tools := \<lparr>rt_flock = True, rt_lsblk = True, rt_findmnt = True\<rparr>\<rparr>"

lemma ex_debian_policy: "platform_policy_for ex_debian = Some (platform_policies ! 1)"
  by (rule matrix_match_unique)
    (simp_all add: platform_policies_def policy_def platform_matches_def ex_debian_def)

lemma ex_host_checked: "check_host ex_host = Inr ()"
  using ex_debian_policy
  by (simp add: check_host_def ex_host_def missing_tools_def os_is_supported_def os_supports_architecture_def
      libc_supported_def init_system_available_def package_tools_available_def required_package_tools_def
      mutation_tool_policy_def required_init_system_def)
    (simp add: platform_policies_def policy_def policy_supports_architecture_def ex_debian_def
      zero_host_facts_def)

text \<open>Two changes planned in the wrong order.\<close>

definition ex_module :: "unit module_ops" where
  "ex_module = \<lparr>md_name = ''ex'',
     md_plan = (\<lambda>host cfg. Inr ([zero_change\<lparr>ch_id := ''b'', ch_module := ''ex'', ch_dependencies := [''c'']\<rparr>,
       zero_change\<lparr>ch_id := ''c'', ch_module := ''ex''\<rparr>], [])),
     md_apply = (\<lambda>cfg c w. (w, None)), md_verify = (\<lambda>cfg c w. (w, None))\<rparr>"

definition ex_plan :: plan where
  "ex_plan = \<lparr>pl_version = 1, pl_target = ''local'',
     pl_changes = [zero_change\<lparr>ch_id := ''c'', ch_module := ''ex''\<rparr>,
       zero_change\<lparr>ch_id := ''b'', ch_module := ''ex'', ch_dependencies := [''c'']\<rparr>],
     pl_warnings = [], pl_fingerprint = ''f''\<rparr>"

lemma ex_build: "build (\<lambda>_. ''f'') [ex_module] ex_host ex_config = Inr ex_plan"
  using ex_config_valid ex_host_checked
  by (simp add: build_def ex_module_def finalize_def sort_changes_def host_warnings_def change_at_def
      ex_plan_def canonical_plan_def zero_change_def)
    (simp add: ex_host_def zero_host_facts_def zero_firewall_def)

lemma build_sound_witness:
  "deps_first (pl_changes ex_plan) \<and> os_is_supported ex_debian"
  using build_sound [OF ex_build] by (simp add: ex_host_def)

text \<open>
  The order in which modules are registered does not matter: for modules with distinct names,
  \<open>New\<close> gives the same planner, and so the same plan with the same fingerprint, for every
  permutation of them.
\<close>

theorem planner_order_independent:
  assumes "mset modules = mset modules'" and "distinct (map md_name modules)"
  shows "build digest (new_planner modules) host cfg = build digest (new_planner modules') host cfg"
  using sort_key_unique [OF assms] by (simp add: new_planner_def)

lemma planner_order_independent_witness:
  "build (\<lambda>_. ''f'') (new_planner [ex_module, ex_module\<lparr>md_name := ''a''\<rparr>]) ex_host ex_config
   = build (\<lambda>_. ''f'') (new_planner [ex_module\<lparr>md_name := ''a''\<rparr>, ex_module]) ex_host ex_config"
  by (rule planner_order_independent) (simp_all add: ex_module_def)

end
