(* ===== verification/Saved_Plan.thy ===== *)
theory Saved_Plan
  imports Planner Target
begin

text \<open>
  Packages \<open>internal/artifact\<close> and \<open>internal/savedplan\<close>: the persistent plan, the checks that it passes
  before anything is done with it, and its comparison with a fresh plan. The digests (SHA-256 of the
  JSON of a value) are the fields of \<open>digests\<close>; the service inputs of a configuration, which are read
  from the controller's files, are the parameter \<open>inputs\<close>.
\<close>

record service_input =
  si_name :: string
  si_project :: string
  si_state :: string
  si_source_digest :: string
  si_input_fingerprint :: string
  si_secret_configured :: bool
  si_secret_fingerprint :: string
  si_placement_fingerprint :: string

record artifact =
  af_schema_version :: int
  af_bebop_version :: string
  af_host_alias :: string
  af_target :: string
  af_config_path :: string
  af_config :: config
  af_config_fingerprint :: string
  af_service_inputs :: "service_input list"
  af_service_inputs_fingerprint :: string
  af_host_identity :: identity
  af_observed_state_fingerprint :: string
  af_plan :: plan
  af_fingerprint :: string

record digests =
  dg_config :: "config \<Rightarrow> string"
  dg_inputs :: "service_input list \<Rightarrow> string"
  dg_snapshot :: "convergence_snapshot \<Rightarrow> string"
  dg_plan :: "canonical_plan \<Rightarrow> string"
  dg_artifact :: "artifact \<Rightarrow> string"

section \<open>Service inputs\<close>

text \<open>\<open>FingerprintInputs\<close> of package \<open>services\<close>: the names are checked after sorting.\<close>

fun inputs_well_formed :: "service_input list \<Rightarrow> bool" where
  "inputs_well_formed [] = True"
| "inputs_well_formed [i] = (si_name i \<noteq> [] \<and> si_project i \<noteq> [] \<and> si_state i \<noteq> [])"
| "inputs_well_formed (i # j # is) =
     (si_name i \<noteq> [] \<and> si_project i \<noteq> [] \<and> si_state i \<noteq> [] \<and> si_name j \<noteq> si_name i
      \<and> inputs_well_formed (j # is))"

definition fingerprint_inputs :: "digests \<Rightarrow> service_input list \<Rightarrow> string result" where
  "fingerprint_inputs dg inputs =
     (let sorted = sort_slice si_name inputs
      in if inputs_well_formed sorted then Inr (dg_inputs dg sorted)
         else Inl (errorf ''invalid service input metadata''))"

definition inputs_fingerprint :: "digests \<Rightarrow> (config \<Rightarrow> service_input list result) \<Rightarrow> config
    \<Rightarrow> (string \<times> service_input list) result" where
  "inputs_fingerprint dg inputs cfg =
     rbind (inputs cfg) (\<lambda>is. rbind (fingerprint_inputs dg is) (\<lambda>f. Inr (f, is)))"

definition input_named :: "service_input list \<Rightarrow> string \<Rightarrow> service_input option" where
  "input_named inputs name = map_of (rev (map (\<lambda>i. (si_name i, i)) inputs)) name"

definition validate_service_action :: "service_input list \<Rightarrow> change \<Rightarrow> unit result" where
  "validate_service_action inputs c =
     (let a = ch_action c in
      if ch_module c \<noteq> ''services'' then Inr ()
      else case (if ac_resource a = [] then None else input_named inputs (ac_resource a)) of
          None \<Rightarrow> Inl (errorf (''unknown service resource '' @ go_quote (ac_resource a)))
        | Some input \<Rightarrow>
            if ac_kind a = ''service.remove'' then Inr ()
            else if ac_kind a \<noteq> ''service.deploy'' \<and> ac_kind a \<noteq> ''service.start'' \<and> ac_kind a \<noteq> ''service.stop''
            then Inl (errorf (''unknown service action '' @ go_quote (ac_kind a)))
            else if ac_source_digest a \<noteq> si_source_digest input \<or> ac_input_fingerprint a \<noteq> si_input_fingerprint input
              \<or> ac_secret_fingerprint a \<noteq> si_secret_fingerprint input
            then Inl (errorf (''service action '' @ go_quote (ch_id c) @ '' does not match input fingerprint''))
            else Inr ())"

definition validate_service_actions :: "plan \<Rightarrow> service_input list \<Rightarrow> unit result" where
  "validate_service_actions p inputs = rforeach (validate_service_action inputs) (pl_changes p)"

section \<open>Artifacts\<close>

text \<open>What \<open>CanonicalJSON\<close> keeps: every exported field but the fingerprint.\<close>

definition canonical_artifact :: "artifact \<Rightarrow> artifact" where
  "canonical_artifact a = a\<lparr>af_fingerprint := [], af_config := (af_config a)\<lparr>cfg_source_directory := []\<rparr>\<rparr>"

definition finalize_artifact :: "digests \<Rightarrow> artifact \<Rightarrow> artifact" where
  "finalize_artifact dg a = a\<lparr>af_fingerprint := dg_artifact dg (canonical_artifact a)\<rparr>"

definition new_artifact :: "digests \<Rightarrow> (config \<Rightarrow> service_input list result) \<Rightarrow> string \<Rightarrow> string \<Rightarrow> string
    \<Rightarrow> target \<Rightarrow> config \<Rightarrow> host_facts \<Rightarrow> plan \<Rightarrow> artifact result" where
  "new_artifact dg inputs build_version alias config_path current desired host p =
     rbind (fingerprint (dg_config dg) desired) (\<lambda>config_fp.
     rbind (inputs_fingerprint dg inputs desired) (\<lambda>(inputs_fp, is).
     rbind (validate_service_actions p is) (\<lambda>_.
     Inr (finalize_artifact dg \<lparr>af_schema_version = 1, af_bebop_version = build_version, af_host_alias = alias,
       af_target = target_string current, af_config_path = config_path, af_config = desired,
       af_config_fingerprint = config_fp, af_service_inputs = is, af_service_inputs_fingerprint = inputs_fp,
       af_host_identity = host_identity host,
       af_observed_state_fingerprint = convergence_fingerprint (dg_snapshot dg) host,
       af_plan = p, af_fingerprint = []\<rparr>))))"

definition plan_invalid :: "string \<Rightarrow> 'a result \<Rightarrow> 'a result" where
  "plan_invalid m = rmap_err (\<lambda>e. Coded PlanInvalid m (Some e))"

abbreviation tampered :: "string \<Rightarrow> error" where
  "tampered m \<equiv> coded PlanTampered m"

definition verify_artifact :: "digests \<Rightarrow> string \<Rightarrow> artifact \<Rightarrow> unit result" where
  "verify_artifact dg build_version a =
     rfail_if (af_schema_version a \<noteq> 1)
       (coded PlanInvalid (''unsupported Bebop plan schema version '' @ show_int (af_schema_version a) @ '' (this binary supports 1)''))
     (rfail_if (af_bebop_version a \<noteq> build_version)
       (coded PlanInvalid (''plan was generated by Bebop '' @ af_bebop_version a @ '' but this binary is '' @ build_version))
     (rbind (plan_invalid ''plan contains an invalid target'' (parse_target (af_target a))) (\<lambda>_.
     rbind (plan_invalid ''plan contains invalid desired configuration'' (validate (af_config a))) (\<lambda>_.
     rbind (fingerprint (dg_config dg) (af_config a)) (\<lambda>config_fp.
     rfail_if (af_config_fingerprint a \<noteq> config_fp)
       (tampered ''plan configuration fingerprint does not match its configuration'')
     (rbind (plan_invalid ''plan contains invalid service input metadata'' (fingerprint_inputs dg (af_service_inputs a))) (\<lambda>inputs_fp.
     rfail_if (af_service_inputs_fingerprint a \<noteq> inputs_fp)
       (tampered ''plan service input fingerprint does not match its input metadata'')
     (rfail_if (length (cfg_services (af_config a)) \<noteq> length (af_service_inputs a))
       (tampered ''plan service inputs do not match its desired configuration'')
     (rbind (rmap_err (\<lambda>e. Coded PlanTampered ''plan service actions do not match input metadata'' (Some e))
               (validate_service_actions (af_plan a) (af_service_inputs a))) (\<lambda>_.
     rfail_if (pl_fingerprint (af_plan a) = [] \<or> pl_fingerprint (af_plan a) \<noteq> dg_plan dg (canonical_plan (af_plan a)))
       (tampered ''plan fingerprint does not match its ordered actions'')
     (rfail_if (pl_target (af_plan a) \<noteq> af_target a) (tampered ''plan target does not match artifact target'')
     (rfail_if (af_fingerprint a = [] \<or> af_fingerprint a \<noteq> dg_artifact dg (canonical_artifact a))
       (tampered ''plan artifact fingerprint mismatch'') (Inr ())))))))))))))"

text \<open>What reading one JSON value, and looking for another, can give.\<close>

datatype artifact_text = Malformed | Single artifact | Followed_By_Value artifact | Followed_By_Garbage artifact

definition decode_artifact :: "digests \<Rightarrow> string \<Rightarrow> artifact_text \<Rightarrow> artifact result" where
  "decode_artifact dg build_version t =
     (case t of
        Malformed \<Rightarrow> Inl (Coded PlanInvalid ''invalid plan artifact'' (Some (errorf ''json'')))
      | Followed_By_Value a \<Rightarrow> Inl (coded PlanInvalid ''plan artifact contains multiple JSON values'')
      | Followed_By_Garbage a \<Rightarrow> Inl (Coded PlanInvalid ''invalid trailing plan artifact data'' (Some (errorf ''json'')))
      | Single a \<Rightarrow> rbind (verify_artifact dg build_version a) (\<lambda>_. Inr a))"

section \<open>Saved plans\<close>

abbreviation stale :: "string \<Rightarrow> error" where
  "stale m \<equiv> coded PlanStale m"

definition validate_saved_config :: "digests \<Rightarrow> (config \<Rightarrow> service_input list result) \<Rightarrow> artifact \<Rightarrow> config \<Rightarrow> unit result" where
  "validate_saved_config dg inputs saved desired =
     rbind (fingerprint (dg_config dg) desired) (\<lambda>config_fp.
     rfail_if (config_fp \<noteq> af_config_fingerprint saved)
       (stale ''saved plan configuration changed; generate a new plan'')
     (rbind (inputs_fingerprint dg inputs desired) (\<lambda>(inputs_fp, _).
     rfail_if (inputs_fp \<noteq> af_service_inputs_fingerprint saved)
       (stale ''saved plan service source or secret input changed; generate a new plan'') (Inr ()))))"

definition identity_text :: "identity \<Rightarrow> string" where
  "identity_text i =
     (if idn_machine_id i \<noteq> [] then idn_machine_id i
      else idn_hostname i @ '' ('' @ idn_os_id i @ '' '' @ idn_os_version i @ '')'')"

definition validate_observed :: "digests \<Rightarrow> (config \<Rightarrow> service_input list result) \<Rightarrow> string
    \<Rightarrow> (host_facts \<Rightarrow> config \<Rightarrow> plan result) \<Rightarrow> artifact \<Rightarrow> config \<Rightarrow> host_facts \<Rightarrow> plan result" where
  "validate_observed dg inputs build_version builder saved desired host =
     rbind (verify_artifact dg build_version saved) (\<lambda>_.
     rbind (validate_saved_config dg inputs saved desired) (\<lambda>_.
     rfail_if (\<not> identity_matches (af_host_identity saved) (host_identity host))
       (coded TargetIdentityMismatch (''saved plan expects machine '' @ identity_text (af_host_identity saved)
          @ '' but target is '' @ identity_text (host_identity host)))
     (rfail_if (convergence_fingerprint (dg_snapshot dg) host \<noteq> af_observed_state_fingerprint saved)
       (stale ''saved plan observed state changed; generate a new plan'')
     (rbind (builder host desired) (\<lambda>fresh.
     rfail_if (pl_fingerprint fresh \<noteq> pl_fingerprint (af_plan saved))
       (stale ''fresh plan differs from the saved reviewed plan; generate a new plan'') (Inr fresh))))))"

text \<open>\<open>Prepare\<close>: the inspection is the only step that contacts the target.\<close>

definition prepare :: "digests \<Rightarrow> (config \<Rightarrow> service_input list result) \<Rightarrow> string
    \<Rightarrow> (host_facts \<Rightarrow> config \<Rightarrow> plan result) \<Rightarrow> (target \<Rightarrow> config \<Rightarrow> 'w \<Rightarrow> 'w \<times> host_facts result)
    \<Rightarrow> artifact \<Rightarrow> config \<Rightarrow> 'w \<Rightarrow> 'w \<times> (target \<times> host_facts \<times> plan) result" where
  "prepare dg inputs build_version builder inspect saved desired w =
     (case rbind (verify_artifact dg build_version saved) (\<lambda>_.
           rbind (validate_saved_config dg inputs saved desired) (\<lambda>_.
           plan_invalid ''saved plan target is invalid'' (parse_target (af_target saved)))) of
        Inl e \<Rightarrow> (w, Inl e)
      | Inr current \<Rightarrow>
        (case inspect current desired w of
           (w1, Inl e) \<Rightarrow> (w1, Inl e)
         | (w1, Inr host) \<Rightarrow>
             (w1, rbind (validate_observed dg inputs build_version builder saved desired host)
                    (\<lambda>fresh. Inr (current, host, fresh)))))"

section \<open>Lemmas\<close>

lemma plan_invalid_ok [result_simps]: "plan_invalid m r = Inr x \<longleftrightarrow> r = Inr x"
  by (cases r) (simp_all add: plan_invalid_def)

lemma verify_artifact_ok:
  assumes "verify_artifact dg v a = Inr ()"
  shows "af_bebop_version a = v" "\<exists>t. parse_target (af_target a) = Inr t" "validate (af_config a) = Inr ()"
    "af_config_fingerprint a = dg_config dg (normalized (af_config a))"
    "pl_fingerprint (af_plan a) \<noteq> []" "pl_fingerprint (af_plan a) = dg_plan dg (canonical_plan (af_plan a))"
    "pl_target (af_plan a) = af_target a" "af_fingerprint a = dg_artifact dg (canonical_artifact a)"
    "validate_service_actions (af_plan a) (af_service_inputs a) = Inr ()"
  using assms by (auto simp: verify_artifact_def result_simps fingerprint_def)

lemma canonical_plan_eq:
  "canonical_plan p = canonical_plan q \<Longrightarrow> pl_fingerprint p = pl_fingerprint q \<Longrightarrow> p = q"
  by (cases p; cases q) (simp add: canonical_plan_def)

context plan_builder
begin

lemma observed_exact:
  assumes "validate_observed dg inputs v builder saved desired host = Inr fresh" and "digest = dg_plan dg"
    and "dg_plan dg (canonical_plan fresh) = dg_plan dg (canonical_plan (af_plan saved)) \<Longrightarrow>
      canonical_plan fresh = canonical_plan (af_plan saved)"
  shows "fresh = af_plan saved" and "identity_matches (af_host_identity saved) (host_identity host)"
    and "pl_target fresh = hf_target host" and "check_host host = Inr ()"
proof -
  from assms(1) have o: "verify_artifact dg v saved = Inr ()" "builder host desired = Inr fresh"
    "pl_fingerprint fresh = pl_fingerprint (af_plan saved)"
    and i: "identity_matches (af_host_identity saved) (host_identity host)"
    by (auto simp: validate_observed_def result_simps)
  have "canonical_plan fresh = canonical_plan (af_plan saved)"
    using builder_fingerprint [OF o(2)] verify_artifact_ok(6) [OF o(1)] o(3) assms(2,3) by simp
  with o(3) show "fresh = af_plan saved" by (intro canonical_plan_eq)
  show "identity_matches (af_host_identity saved) (host_identity host)" by (rule i)
  show "pl_target fresh = hf_target host" by (rule builder_target [OF o(2)])
  show "check_host host = Inr ()" by (rule builder_host [OF o(2)])
qed

end

section \<open>An example\<close>

definition ex_digests :: digests where
  "ex_digests = \<lparr>dg_config = (\<lambda>c. srv_name (cfg_server c)), dg_inputs = (\<lambda>is. concat (map si_name is)),
     dg_snapshot = cs_architecture, dg_plan = (\<lambda>_. ''f''), dg_artifact = (\<lambda>a. ''a'' @ af_target a)\<rparr>"

definition ex_inputs :: "config \<Rightarrow> service_input list result" where
  "ex_inputs cfg = Inr [\<lparr>si_name = ''media'', si_project = ''bebop-media'', si_state = ''running'',
     si_source_digest = ''d'', si_input_fingerprint = ''i'', si_secret_configured = False,
     si_secret_fingerprint = [], si_placement_fingerprint = []\<rparr>]"

definition ex_artifact :: artifact where
  "ex_artifact = \<lparr>af_schema_version = 1, af_bebop_version = ''dev'', af_host_alias = [], af_target = ''local'',
     af_config_path = ''bebop.toml'', af_config = ex_config, af_config_fingerprint = ''home'',
     af_service_inputs = projr (ex_inputs ex_config), af_service_inputs_fingerprint = ''media'',
     af_host_identity = host_identity ex_host, af_observed_state_fingerprint = ''amd64'',
     af_plan = ex_plan, af_fingerprint = ''alocal''\<rparr>"

lemma ex_new_artifact:
  "new_artifact ex_digests ex_inputs ''dev'' [] ''bebop.toml'' local_target ex_config ex_host ex_plan = Inr ex_artifact"
proof -
  have "fingerprint (dg_config ex_digests) ex_config = Inr ''home''"
    using ex_config_valid by (simp add: fingerprint_def ex_digests_def normalized_def ex_config_def defaults_def)
  moreover have "inputs_fingerprint ex_digests ex_inputs ex_config = Inr (''media'', projr (ex_inputs ex_config))"
    by (simp add: inputs_fingerprint_def ex_inputs_def fingerprint_inputs_def ex_digests_def)
  moreover have "validate_service_actions ex_plan (projr (ex_inputs ex_config)) = Inr ()"
    by (simp add: validate_service_actions_def validate_service_action_def ex_plan_def zero_change_def)
  moreover have "convergence_fingerprint (dg_snapshot ex_digests) ex_host = ''amd64''"
    by (simp add: convergence_fingerprint_def convergence_snapshot_def ex_digests_def ex_host_def Let_def)
  ultimately show ?thesis
    by (simp add: new_artifact_def finalize_artifact_def canonical_artifact_def ex_artifact_def
        target_string_def local_target_def)
      (simp add: ex_digests_def)
qed

lemma ex_artifact_verifies: "verify_artifact ex_digests ''dev'' ex_artifact = Inr ()"
proof -
  have "fingerprint (dg_config ex_digests) ex_config = Inr ''home''"
    using ex_config_valid by (simp add: fingerprint_def ex_digests_def normalized_def ex_config_def defaults_def)
  moreover have "fingerprint_inputs ex_digests (projr (ex_inputs ex_config)) = Inr ''media''"
    by (simp add: ex_inputs_def fingerprint_inputs_def ex_digests_def)
  moreover have "length (cfg_services ex_config) = length (projr (ex_inputs ex_config))"
    by (simp add: ex_config_def ex_inputs_def)
  ultimately show ?thesis using ex_config_valid
    by (simp add: verify_artifact_def ex_artifact_def parse_target_def plan_invalid_def
        validate_service_actions_def validate_service_action_def ex_plan_def zero_change_def
        canonical_artifact_def ex_digests_def)
qed

section \<open>Properties\<close>

text \<open>
  C1. Only the reviewed plan is ever carried out. When a saved plan passes \<open>ValidateObserved\<close> with the
  planner of the program, and the digest does not confuse it with the fresh plan, then the plan that
  is returned is the saved plan itself, change for change and script for script, the target has the
  saved identity, and it still passes every guard of the planner.
\<close>

theorem saved_plan_exact:
  assumes "validate_observed dg inputs v (build (dg_plan dg) modules) saved desired host = Inr fresh"
    and "dg_plan dg (canonical_plan fresh) = dg_plan dg (canonical_plan (af_plan saved)) \<Longrightarrow>
      canonical_plan fresh = canonical_plan (af_plan saved)"
  shows "fresh = af_plan saved \<and> identity_matches (af_host_identity saved) (host_identity host)
    \<and> pl_target (af_plan saved) = hf_target host \<and> check_host host = Inr ()"
  using planner.observed_exact [OF assms(1) refl assms(2)] by auto

lemma saved_plan_exact_witness:
  "ex_plan = af_plan ex_artifact \<and> identity_matches (host_identity ex_host) (host_identity ex_host)"
proof -
  have dg: "dg_plan ex_digests = (\<lambda>_. ''f'')" by (simp add: ex_digests_def)
  have "validate_saved_config ex_digests ex_inputs ex_artifact ex_config = Inr ()"
    using ex_config_valid
    by (simp add: validate_saved_config_def fingerprint_def inputs_fingerprint_def ex_inputs_def
        fingerprint_inputs_def ex_digests_def ex_artifact_def normalized_def ex_config_def defaults_def)
  moreover have "identity_matches (af_host_identity ex_artifact) (host_identity ex_host)"
    by (simp add: identity_matches_def host_identity_def ex_artifact_def ex_host_def Let_def)
  moreover have "convergence_fingerprint (dg_snapshot ex_digests) ex_host = af_observed_state_fingerprint ex_artifact"
    by (simp add: convergence_fingerprint_def convergence_snapshot_def ex_digests_def ex_host_def Let_def ex_artifact_def)
  ultimately have o: "validate_observed ex_digests ex_inputs ''dev'' (build (dg_plan ex_digests) [ex_module])
      ex_artifact ex_config ex_host = Inr ex_plan"
    using ex_artifact_verifies ex_build
    by (simp add: validate_observed_def dg) (simp add: ex_artifact_def)
  from saved_plan_exact [OF o] show ?thesis by (simp add: ex_artifact_def)
qed

text \<open>
  C36. A saved plan that was edited is refused: of two artifacts that verify under the same build and
  carry the same fingerprint, if the digest tells their contents apart, every field is equal, up to
  the directory from which the configuration was once loaded.
\<close>

theorem artifact_tamper_evident:
  assumes "verify_artifact dg v a = Inr ()" and "verify_artifact dg v b = Inr ()"
    and "af_fingerprint a = af_fingerprint b"
    and "dg_artifact dg (canonical_artifact a) = dg_artifact dg (canonical_artifact b) \<Longrightarrow>
      canonical_artifact a = canonical_artifact b"
  shows "a = b\<lparr>af_config := (af_config b)\<lparr>cfg_source_directory := cfg_source_directory (af_config a)\<rparr>\<rparr>"
proof -
  have c: "canonical_artifact a = canonical_artifact b"
    using verify_artifact_ok(8) [OF assms(1)] verify_artifact_ok(8) [OF assms(2)] assms(3,4) by simp
  have cfg: "c = d\<lparr>cfg_source_directory := cfg_source_directory c\<rparr>"
    if "c\<lparr>cfg_source_directory := []\<rparr> = d\<lparr>cfg_source_directory := []\<rparr>" for c d :: config
    using that by (cases c; cases d) simp
  from c have "(af_config a)\<lparr>cfg_source_directory := []\<rparr> = (af_config b)\<lparr>cfg_source_directory := []\<rparr>"
    by (cases a; cases b) (simp add: canonical_artifact_def)
  from cfg [OF this] c assms(3) show ?thesis
    by (cases a; cases b) (simp add: canonical_artifact_def)
qed

lemma artifact_tamper_evident_witness:
  "ex_artifact = ex_artifact\<lparr>af_config := (af_config ex_artifact)\<lparr>cfg_source_directory := ''/home/me/cfg''\<rparr>\<rparr>"
  using artifact_tamper_evident [OF ex_artifact_verifies ex_artifact_verifies refl refl]
  by (simp add: ex_artifact_def ex_config_def)

text \<open>
  A plan that was just saved verifies: \<open>Verify\<close> accepts what \<open>New\<close> returns for a plan of the
  planner on the target that the plan is for, provided that the inputs are one per service and that
  the digests are not empty.
\<close>

theorem new_artifact_verifies:
  assumes "new_artifact dg inputs v alias config_path t desired host p = Inr a"
    and "build (dg_plan dg) modules host desired = Inr p"
    and "parse_target raw = Inr t" and "hf_target host = target_string t"
    and "\<And>is. inputs desired = Inr is \<Longrightarrow> length is = length (cfg_services desired)"
    and "dg_plan dg (canonical_plan p) \<noteq> []" and "dg_artifact dg (canonical_artifact a) \<noteq> []"
  shows "verify_artifact dg v a = Inr ()"
proof -
  from assms(1) obtain cf inf "is" where n: "fingerprint (dg_config dg) desired = Inr cf"
    "inputs_fingerprint dg inputs desired = Inr (inf, is)" "validate_service_actions p is = Inr ()"
    and a: "af_schema_version a = 1" "af_bebop_version a = v" "af_target a = target_string t"
      "af_config a = desired" "af_config_fingerprint a = cf" "af_service_inputs a = is"
      "af_service_inputs_fingerprint a = inf" "af_plan a = p"
      "af_fingerprint a = dg_artifact dg (canonical_artifact a)"
    by (auto simp: new_artifact_def result_simps finalize_artifact_def canonical_artifact_def)
  have "inputs desired = Inr is" "fingerprint_inputs dg is = Inr inf"
    using n(2) by (auto simp: inputs_fingerprint_def result_simps)
  moreover have "pl_target p = target_string t"
    using planner.builder_target [OF assms(2)] assms(4) by simp
  moreover have "pl_fingerprint p = dg_plan dg (canonical_plan p)"
    using planner.builder_fingerprint [OF assms(2)] .
  moreover have "parse_target (target_string t) = Inr t" by (rule target_string_parses [OF assms(3)])
  moreover have "validate desired = Inr ()" using n(1) by (auto simp: fingerprint_def result_simps)
  ultimately show ?thesis using n a assms(5-7) by (simp add: verify_artifact_def plan_invalid_def)
qed

lemma new_artifact_verifies_witness:
  "verify_artifact ex_digests ''dev'' ex_artifact = Inr ()"
proof (rule new_artifact_verifies [OF ex_new_artifact, of "[ex_module]" "''local''"])
  show "build (dg_plan ex_digests) [ex_module] ex_host ex_config = Inr ex_plan"
    using ex_build by (simp add: ex_digests_def)
  show "parse_target ''local'' = Inr local_target" by (simp add: parse_target_def)
  show "hf_target ex_host = target_string local_target"
    by (simp add: ex_host_def target_string_def local_target_def)
  show "length is = length (cfg_services ex_config)" if "ex_inputs ex_config = Inr is" for "is"
    using that by (auto simp: ex_inputs_def ex_config_def)
qed (simp_all add: ex_digests_def)

text \<open>
  A changed artifact or a changed configuration never reaches the target: when verification of the
  artifact or the comparison of the configuration and its service inputs fails, \<open>Prepare\<close> returns that
  error and the target has not been contacted.
\<close>

theorem prepare_offline_checks:
  assumes "verify_artifact dg v saved = Inl e
    \<or> (verify_artifact dg v saved = Inr () \<and> validate_saved_config dg inputs saved desired = Inl e)"
  shows "prepare dg inputs v builder inspect saved desired w = (w, Inl e)"
  using assms by (auto simp: prepare_def)

lemma prepare_offline_checks_witness:
  "\<exists>e. prepare ex_digests ex_inputs ''dev'' (build (\<lambda>_. ''f'') [ex_module]) (\<lambda>t c w. (Suc w, Inr ex_host))
     (ex_artifact\<lparr>af_schema_version := 2\<rparr>) ex_config 0 = (0, Inl e)"
proof -
  obtain e where "verify_artifact ex_digests ''dev'' (ex_artifact\<lparr>af_schema_version := 2\<rparr>) = Inl e"
    by (simp add: verify_artifact_def)
  from prepare_offline_checks [OF disjI1, OF this] show ?thesis by (rule exI)
qed

end
