(* ===== verification/Apply.thy ===== *)
theory Apply
  imports Planner
begin

text \<open>
  Package \<open>internal/apply\<close>: the execution of a reviewed plan. The target is the value of type \<open>'w\<close> that
  every step takes and returns; taking the lock, the steps of the modules and the replanning may all
  change it. A transport without locks is \<open>None\<close>.
\<close>

record apply_result =
  ar_applied :: "string list"
  ar_verified :: "string list"
  ar_final :: plan

definition zero_result :: apply_result where
  "zero_result = \<lparr>ar_applied = [], ar_verified = [], ar_final = zero_plan\<rparr>"

record 'w locker =
  lk_acquire :: "'w \<Rightarrow> 'w \<times> error option"
  lk_release :: "'w \<Rightarrow> 'w"

text \<open>The map from names to modules: a later module of the same name replaces an earlier one.\<close>

definition module_named :: "'w module_ops list \<Rightarrow> string \<Rightarrow> 'w module_ops option" where
  "module_named modules name = map_of (rev (map (\<lambda>m. (md_name m, m)) modules)) name"

fun apply_changes :: "'w module_ops list \<Rightarrow> config \<Rightarrow> change list \<Rightarrow> apply_result \<Rightarrow> 'w
    \<Rightarrow> 'w \<times> apply_result \<times> error option" where
  "apply_changes modules desired [] r w = (w, r, None)"
| "apply_changes modules desired (c # cs) r w =
     (case module_named modules (ch_module c) of
        None \<Rightarrow> (w, r, Some (coded ApplyFailed (''plan references unavailable module '' @ ch_module c)))
      | Some m \<Rightarrow>
        (case md_apply m desired c w of
           (w1, Some e) \<Rightarrow> (w1, r, Some (Coded ApplyFailed (''apply '' @ ch_id c) (Some e)))
         | (w1, None) \<Rightarrow>
           (let r1 = r\<lparr>ar_applied := ar_applied r @ [ch_id c]\<rparr> in
            case md_verify m desired c w1 of
              (w2, Some e) \<Rightarrow> (w2, r1, Some (Coded VerificationFailed (''verify '' @ ch_id c) (Some e)))
            | (w2, None) \<Rightarrow>
                apply_changes modules desired cs (r1\<lparr>ar_verified := ar_verified r1 @ [ch_id c]\<rparr>) w2)))"

text \<open>The part of \<open>Execute\<close> that runs with the lock held.\<close>

definition apply_locked :: "plan \<Rightarrow> config \<Rightarrow> 'w module_ops list \<Rightarrow> ('w \<Rightarrow> 'w \<times> plan result) \<Rightarrow> 'w
    \<Rightarrow> 'w \<times> apply_result \<times> error option" where
  "apply_locked reviewed desired modules replan w =
     (case apply_changes modules desired (pl_changes reviewed) zero_result w of
        (w1, r, Some e) \<Rightarrow> (w1, r, Some e)
      | (w1, r, None) \<Rightarrow>
        (case replan w1 of
           (w2, Inl e) \<Rightarrow> (w2, r, Some (Coded VerificationFailed ''reinspect target after apply'' (Some e)))
         | (w2, Inr final) \<Rightarrow>
           (let r1 = r\<lparr>ar_final := final\<rparr> in
            case filter (\<lambda>c. ch_blocked c = []) (pl_changes final) of
              [] \<Rightarrow> (w2, r1, None)
            | c # _ \<Rightarrow> (w2, r1, Some (coded VerificationFailed (''target remains divergent after apply: '' @ ch_id c))))))"

definition execute :: "plan \<Rightarrow> 'w locker option \<Rightarrow> config \<Rightarrow> 'w module_ops list \<Rightarrow> ('w \<Rightarrow> 'w \<times> plan result) \<Rightarrow> 'w
    \<Rightarrow> 'w \<times> apply_result \<times> error option" where
  "execute reviewed locker desired modules replan w =
     (case filter (\<lambda>c. ch_blocked c \<noteq> []) (pl_changes reviewed) of
        c # _ \<Rightarrow> (w, zero_result, Some (coded PlanBlocked (''change '' @ ch_id c @ '' is blocked: '' @ ch_blocked c)))
      | [] \<Rightarrow>
        (case (if pl_changes reviewed = [] then None else locker) of
           None \<Rightarrow> apply_locked reviewed desired modules replan w
         | Some l \<Rightarrow>
           (case lk_acquire l w of
              (w1, Some e) \<Rightarrow>
                (w1, zero_result, Some
                  (if as_lock_busy e = Some True
                   then Coded ApplyLocked ''another Bebop apply already holds the target lock'' (Some e)
                   else Coded ApplyFailed ''acquire target apply lock'' (Some e)))
            | (w1, None) \<Rightarrow>
                (case apply_locked reviewed desired modules replan w1 of (w2, r, e) \<Rightarrow> (lk_release l w2, r, e)))))"

section \<open>Lemmas\<close>

text \<open>
  Where \<open>apply_changes\<close> stops: it has applied the first \<open>k\<close> changes, and verified the first \<open>v\<close>, which
  is all of them or all but the last.
\<close>

definition progress :: "change list \<Rightarrow> apply_result \<Rightarrow> apply_result \<Rightarrow> nat \<Rightarrow> nat \<Rightarrow> bool" where
  "progress cs r0 r k v \<longleftrightarrow>
     k \<le> length cs \<and> (v = k \<or> Suc v = k)
     \<and> ar_applied r = ar_applied r0 @ map ch_id (take k cs)
     \<and> ar_verified r = ar_verified r0 @ map ch_id (take v cs)"

lemma apply_changes_progress:
  "apply_changes modules desired cs r w = (w', r', e) \<Longrightarrow>
     \<exists>k v. progress cs r r' k v \<and> (e = None \<longleftrightarrow> v = length cs)"
proof (induction modules desired cs r w rule: apply_changes.induct)
  case (1 modules desired r w)
  then show ?case by (intro exI [of _ 0]) (simp add: progress_def)
next
  case (2 modules desired c cs r w)
  let ?r1 = "r\<lparr>ar_applied := ar_applied r @ [ch_id c]\<rparr>"
  let ?r2 = "?r1\<lparr>ar_verified := ar_verified r @ [ch_id c]\<rparr>"
  consider "e \<noteq> None" "r' = r" | "e \<noteq> None" "r' = ?r1"
    | m w1 w2 where "module_named modules (ch_module c) = Some m" "md_apply m desired c w = (w1, None)"
        "md_verify m desired c w1 = (w2, None)" "apply_changes modules desired cs ?r2 w2 = (w', r', e)"
    using "2.prems" by (auto simp: Let_def split: option.splits prod.splits)
  then show ?case
  proof cases
    case 1
    then show ?thesis by (intro exI [of _ 0]) (simp add: progress_def)
  next
    case 2
    then show ?thesis by (intro exI [of _ 1] exI [of _ 0]) (simp add: progress_def)
  next
    case 3
    from "2.IH" [OF 3(1) 3(2)[symmetric] _ refl 3(3)[symmetric] refl] 3(4)
    obtain k v where "progress cs ?r2 r' k v" "e = None \<longleftrightarrow> v = length cs" by auto
    then show ?thesis
      by (intro exI [of _ "Suc k"] exI [of _ "Suc v"]) (auto simp: progress_def)
  qed
qed

lemma apply_locked_progress:
  "apply_locked reviewed desired modules replan w = (w', r, e) \<Longrightarrow>
     \<exists>k v. progress (pl_changes reviewed) zero_result r k v
       \<and> (e = None \<longrightarrow> v = length (pl_changes reviewed) \<and> list_all (\<lambda>c. ch_blocked c \<noteq> []) (pl_changes (ar_final r)))"
proof -
  assume a: "apply_locked reviewed desired modules replan w = (w', r, e)"
  obtain w1 r1 e1 where c: "apply_changes modules desired (pl_changes reviewed) zero_result w = (w1, r1, e1)"
    by (metis prod_cases3)
  from apply_changes_progress [OF c] obtain k v where
    p: "progress (pl_changes reviewed) zero_result r1 k v" "e1 = None \<longleftrightarrow> v = length (pl_changes reviewed)" by blast
  have "ar_applied r = ar_applied r1 \<and> ar_verified r = ar_verified r1
    \<and> (e = None \<longrightarrow> e1 = None \<and> list_all (\<lambda>c. ch_blocked c \<noteq> []) (pl_changes (ar_final r)))"
    using a c by (auto simp: apply_locked_def Let_def list_all_iff filter_empty_conv
        split: option.splits prod.splits sum.splits list.splits)
  with p show ?thesis by (intro exI [of _ k] exI [of _ v]) (auto simp: progress_def)
qed

lemma execute_progress:
  "execute reviewed locker desired modules replan w = (w', r, e) \<Longrightarrow>
     \<exists>k v. progress (pl_changes reviewed) zero_result r k v
       \<and> (e = None \<longrightarrow> v = length (pl_changes reviewed) \<and> list_all (\<lambda>c. ch_blocked c \<noteq> []) (pl_changes (ar_final r)))"
proof -
  assume a: "execute reviewed locker desired modules replan w = (w', r, e)"
  then consider "r = zero_result" "e \<noteq> None"
    | w1 w2 where "apply_locked reviewed desired modules replan w1 = (w2, r, e)"
    by (auto simp: execute_def split: list.splits option.splits prod.splits if_splits)
  then show ?thesis
  proof cases
    case 1
    then show ?thesis by (intro exI [of _ 0]) (auto simp: progress_def zero_result_def)
  qed (rule apply_locked_progress)
qed

lemma deps_first_take:
  assumes "deps_first cs" and "j < length cs"
  shows "set (ch_dependencies (cs ! j)) \<subseteq> ch_id ` set (take j cs)"
  using deps_first_earlier [of "{}" cs j] assms by (auto simp: deps_first_def)

section \<open>Properties\<close>

text \<open>
  C10. Nothing happens to a target for a plan with a blocked change, or without the lock: in the first case
  the target is not touched at all, in the second only the attempt to take the lock was made; in both
  cases no change is reported as applied.
\<close>

theorem execute_refuses:
  assumes "list_ex (\<lambda>c. ch_blocked c \<noteq> []) (pl_changes reviewed)
    \<or> (locker = Some l \<and> pl_changes reviewed \<noteq> [] \<and> snd (lk_acquire l w) \<noteq> None)"
  shows "\<exists>e. execute reviewed locker desired modules replan w =
      (if list_ex (\<lambda>c. ch_blocked c \<noteq> []) (pl_changes reviewed) then w else fst (lk_acquire l w), zero_result, Some e)"
proof (cases "filter (\<lambda>c. ch_blocked c \<noteq> []) (pl_changes reviewed)")
  case Nil
  then have "\<not> list_ex (\<lambda>c. ch_blocked c \<noteq> []) (pl_changes reviewed)"
    by (auto simp: list_ex_iff filter_empty_conv)
  with assms Nil show ?thesis by (auto simp: execute_def split: prod.splits option.splits)
next
  case (Cons c cs)
  then have "list_ex (\<lambda>c. ch_blocked c \<noteq> []) (pl_changes reviewed)"
    by (metis (mono_tags, lifting) filter_False list_ex_iff neq_Nil_conv)
  with Cons show ?thesis by (simp add: execute_def)
qed


text \<open>A transport whose lock is held elsewhere, and a plan with a blocked change.\<close>

definition busy_locker :: "unit locker" where
  "busy_locker = \<lparr>lk_acquire = (\<lambda>w. (w, Some (Lock_Error True None))), lk_release = (\<lambda>w. w)\<rparr>"

lemma execute_refuses_witness:
  "\<exists>e. execute ex_plan (Some busy_locker) ex_config [ex_module] (\<lambda>w. (w, Inr zero_plan)) () = ((), zero_result, Some e)"
  using execute_refuses [of ex_plan "Some busy_locker" busy_locker "()" ex_config "[ex_module]" "\<lambda>w. (w, Inr zero_plan)"]
  by (auto simp: busy_locker_def ex_plan_def)


end
