(* ===== verification/Fleet.thy ===== *)
theory Fleet
  imports Errs
begin

text \<open>
  Package \<open>internal/fleet\<close>: \<open>Map\<close> runs an operation on every input with a bounded number of workers. The
  goroutines are a step relation. The feeder hands the next index to a worker that waits for one, or
  sees the cancellation and fills in the error of the inputs that were not handed out; a worker
  finishes its operation, or leaves when it sees the cancellation or the closed channel. Where a
  \<open>select\<close> has several ready cases every choice is a step.
\<close>

datatype 'r cell = Pending | Returned "'r result" | Skipped

record 'r fleet =
  fl_queued :: nat
  fl_running :: "nat list"
  fl_waiting :: nat
  fl_cells :: "'r cell list"
  fl_cancelled :: bool
  fl_closed :: bool

text \<open>The checks before the goroutines start: \<open>None\<close> is the error, and no inputs need no workers.\<close>

definition fleet_start :: "nat \<Rightarrow> int \<Rightarrow> 'r fleet option" where
  "fleet_start n parallel =
     (if parallel < 1 then None
      else Some \<lparr>fl_queued = 0, fl_running = [],
        fl_waiting = (if parallel > int n then n else nat parallel),
        fl_cells = replicate n Pending, fl_cancelled = False, fl_closed = (n = 0)\<rparr>)"

definition skip_from :: "nat \<Rightarrow> 'r cell list \<Rightarrow> 'r cell list" where
  "skip_from q cells = take q cells @ map (\<lambda>_. Skipped) (drop q cells)"

text \<open>\<open>outcome i r\<close>: the operation on input \<open>i\<close> may return \<open>r\<close> (it sees the context, so also an error of it).\<close>

inductive fleet_step :: "(nat \<Rightarrow> 'r result \<Rightarrow> bool) \<Rightarrow> 'r fleet \<Rightarrow> 'r fleet \<Rightarrow> bool"
  for outcome :: "nat \<Rightarrow> 'r result \<Rightarrow> bool" where
  cancel: "\<not> fl_cancelled s \<Longrightarrow> fleet_step outcome s (s\<lparr>fl_cancelled := True\<rparr>)"
| hand_over: "\<not> fl_closed s \<Longrightarrow> fl_queued s < length (fl_cells s) \<Longrightarrow> 0 < fl_waiting s \<Longrightarrow>
    fleet_step outcome s (s\<lparr>fl_queued := Suc (fl_queued s), fl_running := fl_queued s # fl_running s,
      fl_waiting := fl_waiting s - 1\<rparr>)"
| finish: "i \<in> set (fl_running s) \<Longrightarrow> outcome i r \<Longrightarrow>
    fleet_step outcome s (s\<lparr>fl_running := remove1 i (fl_running s), fl_waiting := Suc (fl_waiting s),
      fl_cells := (fl_cells s)[i := Returned r]\<rparr>)"
| leave: "fl_cancelled s \<or> fl_closed s \<Longrightarrow> 0 < fl_waiting s \<Longrightarrow>
    fleet_step outcome s (s\<lparr>fl_waiting := fl_waiting s - 1\<rparr>)"
| give_up: "\<not> fl_closed s \<Longrightarrow> fl_queued s < length (fl_cells s) \<Longrightarrow> fl_cancelled s \<Longrightarrow>
    fleet_step outcome s (s\<lparr>fl_cells := skip_from (fl_queued s) (fl_cells s), fl_closed := True\<rparr>)"
| close: "\<not> fl_closed s \<Longrightarrow> fl_queued s = length (fl_cells s) \<Longrightarrow>
    fleet_step outcome s (s\<lparr>fl_closed := True\<rparr>)"

inductive_cases fleet_stepE: "fleet_step outcome s t"

text \<open>\<open>Map\<close> returns when the channel is closed and every worker has left.\<close>

definition fleet_done :: "'r fleet \<Rightarrow> bool" where
  "fleet_done s \<longleftrightarrow> fl_closed s \<and> fl_running s = [] \<and> fl_waiting s = 0"

section \<open>The invariant\<close>

definition cell_ok :: "(nat \<Rightarrow> 'r result \<Rightarrow> bool) \<Rightarrow> 'r fleet \<Rightarrow> nat \<Rightarrow> bool" where
  "cell_ok outcome s i \<longleftrightarrow>
     (if i < fl_queued s
      then (if i \<in> set (fl_running s) then fl_cells s ! i = Pending
            else (\<exists>r. fl_cells s ! i = Returned r \<and> outcome i r))
      else fl_cells s ! i = (if fl_closed s then Skipped else Pending))"

definition fleet_inv :: "(nat \<Rightarrow> 'r result \<Rightarrow> bool) \<Rightarrow> nat \<Rightarrow> nat \<Rightarrow> 'r fleet \<Rightarrow> bool" where
  "fleet_inv outcome n limit s \<longleftrightarrow>
     length (fl_cells s) = n \<and> fl_queued s \<le> n \<and> distinct (fl_running s)
     \<and> set (fl_running s) \<subseteq> {..<fl_queued s}
     \<and> length (fl_running s) + fl_waiting s \<le> limit
     \<and> (fl_closed s \<longrightarrow> fl_queued s = n \<or> fl_cancelled s)
     \<and> (\<not> fl_cancelled s \<and> \<not> fl_closed s \<longrightarrow> length (fl_running s) + fl_waiting s = limit)
     \<and> (\<forall>i<n. cell_ok outcome s i)"

lemma fleet_inv_start:
  "fleet_start n parallel = Some s \<Longrightarrow> fleet_inv outcome n (min n (nat parallel)) s"
  by (auto simp: fleet_start_def fleet_inv_def cell_ok_def min_def split: if_splits)

lemma fleet_inv_step:
  assumes "fleet_step outcome s t" and "fleet_inv outcome n limit s"
  shows "fleet_inv outcome n limit t"
  using assms
proof (cases rule: fleet_step.cases)
  case cancel
  with assms(2) show ?thesis by (auto simp: fleet_inv_def cell_ok_def)
next
  case hand_over
  have "fl_queued s \<notin> set (fl_running s)" using assms(2) by (auto simp: fleet_inv_def)
  with hand_over assms(2) show ?thesis
    by (auto simp: fleet_inv_def cell_ok_def less_Suc_eq split: if_splits)
next
  case (finish i r)
  have i: "i < fl_queued s" "fl_queued s \<le> length (fl_cells s)" "distinct (fl_running s)"
    using assms(2) finish by (auto simp: fleet_inv_def)
  have len: "Suc (length (remove1 i (fl_running s))) = length (fl_running s)"
    using finish by (auto simp: length_remove1 in_set_conv_decomp)
  have "cell_ok outcome t j" if "j < n" for j
  proof -
    have "cell_ok outcome s j" using assms(2) that by (simp add: fleet_inv_def)
    with i finish show ?thesis
      by (cases "j = i") (auto simp: cell_ok_def set_remove1_eq split: if_splits)
  qed
  with finish i len assms(2) show ?thesis
    by (auto simp: fleet_inv_def set_remove1_eq distinct_remove1)
next
  case leave
  with assms(2) show ?thesis by (auto simp: fleet_inv_def cell_ok_def)
next
  case give_up
  have len: "length (fl_cells s) = n" using assms(2) by (simp add: fleet_inv_def)
  have sk: "skip_from q cells ! i = (if i < q then cells ! i else Skipped)" if "i < length cells" for q i and cells :: "'r cell list"
    using that by (auto simp: skip_from_def nth_append min_def)
  have "length (skip_from (fl_queued s) (fl_cells s)) = n" using len by (simp add: skip_from_def)
  with give_up assms(2) len show ?thesis
    by (auto simp: fleet_inv_def cell_ok_def sk)
next
  case close
  with assms(2) show ?thesis by (auto simp: fleet_inv_def cell_ok_def)
qed

lemma fleet_inv_steps:
  "(fleet_step outcome)\<^sup>*\<^sup>* s t \<Longrightarrow> fleet_inv outcome n limit s \<Longrightarrow> fleet_inv outcome n limit t"
  by (induction rule: rtranclp_induct) (auto intro: fleet_inv_step)

lemma cancelled_stays: "(fleet_step outcome)\<^sup>*\<^sup>* s t \<Longrightarrow> fl_cancelled s \<Longrightarrow> fl_cancelled t"
  by (induction rule: rtranclp_induct) (auto elim!: fleet_stepE)

section \<open>Termination\<close>

text \<open>Every step makes this smaller, so no schedule runs forever.\<close>

definition fleet_measure :: "'r fleet \<Rightarrow> nat" where
  "fleet_measure s = (if fl_cancelled s then 0 else 1) + (if fl_closed s then 0 else 1)
     + 3 * (length (fl_cells s) - fl_queued s) + 2 * length (fl_running s) + fl_waiting s"

lemma fleet_measure_step:
  assumes "fleet_step outcome s t" and "fleet_inv outcome n limit s"
  shows "fleet_measure t < fleet_measure s"
  using assms
proof (cases rule: fleet_step.cases)
  case (finish i r)
  have "Suc (length (remove1 i (fl_running s))) = length (fl_running s)"
    using finish by (auto simp: length_remove1 in_set_conv_decomp)
  with finish show ?thesis by (simp add: fleet_measure_def)
qed (auto simp: fleet_measure_def skip_from_def)

text \<open>A state that is not done has a step, if the operations return.\<close>

lemma fleet_progress:
  assumes "fleet_inv outcome n limit s" and "\<And>i. \<exists>r. outcome i r" and "0 < limit \<or> n = 0"
    and "\<not> fleet_done s"
  shows "\<exists>t. fleet_step outcome s t"
proof (cases "fl_running s")
  case (Cons i js)
  obtain r where "outcome i r" using assms(2) by blast
  with Cons fleet_step.finish [of i s outcome r] show ?thesis by auto
next
  case Nil
  show ?thesis
  proof (cases "fl_closed s")
    case True
    then have "0 < fl_waiting s" using Nil assms(4) by (auto simp: fleet_done_def)
    with True fleet_step.leave show ?thesis by blast
  next
    case open_: False
    show ?thesis
    proof (cases "fl_cancelled s")
      case False
      with fleet_step.cancel show ?thesis by blast
    next
      case True
      have "fl_queued s \<le> length (fl_cells s)" using assms(1) by (simp add: fleet_inv_def)
      then consider "fl_queued s < length (fl_cells s)" | "fl_queued s = length (fl_cells s)" by linarith
      then show ?thesis using open_ True fleet_step.give_up fleet_step.close by cases blast+
    qed
  qed
qed

text \<open>Without a cancellation the same holds for the other steps: no worker waits forever.\<close>

lemma fleet_progress_uncancelled:
  assumes "fleet_inv outcome n limit s" and "\<And>i. \<exists>r. outcome i r" and "0 < limit"
    and "\<not> fleet_done s" and "\<not> fl_cancelled s"
  shows "\<exists>t. fleet_step outcome s t \<and> \<not> fl_cancelled t"
proof (cases "fl_running s")
  case (Cons i js)
  obtain r where "outcome i r" using assms(2) by blast
  with Cons fleet_step.finish [of i s outcome r] have "fleet_step outcome s (s\<lparr>fl_running := js,
      fl_waiting := Suc (fl_waiting s), fl_cells := (fl_cells s)[i := Returned r]\<rparr>)" by simp
  with assms(5) show ?thesis by fastforce
next
  case Nil
  show ?thesis
  proof (cases "fl_closed s")
    case True
    then have "0 < fl_waiting s" using Nil assms(4) by (auto simp: fleet_done_def)
    with True fleet_step.leave [of s outcome]
    have "fleet_step outcome s (s\<lparr>fl_waiting := fl_waiting s - 1\<rparr>)" by simp
    with assms(5) show ?thesis by fastforce
  next
    case False
    have w: "0 < fl_waiting s" and "fl_queued s \<le> length (fl_cells s)"
      using assms(1,3,5) False Nil by (auto simp: fleet_inv_def)
    then consider "fl_queued s < length (fl_cells s)" | "fl_queued s = length (fl_cells s)" by linarith
    then show ?thesis
    proof cases
      case 1
      with False w have "fleet_step outcome s (s\<lparr>fl_queued := Suc (fl_queued s),
          fl_running := fl_queued s # fl_running s, fl_waiting := fl_waiting s - 1\<rparr>)"
        by (intro fleet_step.hand_over)
      with assms(5) show ?thesis by fastforce
    next
      case 2
      with False have "fleet_step outcome s (s\<lparr>fl_closed := True\<rparr>)" by (intro fleet_step.close)
      with assms(5) show ?thesis by fastforce
    qed
  qed
qed

section \<open>Properties\<close>

text \<open>
  C39. In every interleaving, at most \<open>parallel\<close> operations run at the same time, and no operation runs
  twice at the same time or is started again after it returned. When \<open>Map\<close> returns, every input has
  exactly what its own operation returned or was skipped, nothing is left pending, the skipped inputs
  are a suffix of the inputs, and nothing is skipped unless the context was cancelled.
\<close>

theorem fleet_map_sound:
  assumes "fleet_start n parallel = Some s" and "(fleet_step outcome)\<^sup>*\<^sup>* s t"
  shows "length (fl_running t) \<le> nat parallel \<and> distinct (fl_running t)
    \<and> list_all (\<lambda>i. fl_cells t ! i = Pending) (fl_running t)
    \<and> (fleet_done t \<longrightarrow> (\<exists>k\<le>n. (\<forall>i<k. \<exists>r. fl_cells t ! i = Returned r \<and> outcome i r)
         \<and> drop k (fl_cells t) = replicate (n - k) Skipped \<and> (k = n \<or> fl_cancelled t)))"
proof -
  have i: "fleet_inv outcome n (min n (nat parallel)) t"
    using fleet_inv_steps [OF assms(2) fleet_inv_start [OF assms(1)]] .
  have run: "list_all (\<lambda>i. fl_cells t ! i = Pending) (fl_running t)"
    using i by (auto simp: fleet_inv_def cell_ok_def list_all_iff subset_iff split: if_splits)
  have fin: "\<exists>k\<le>n. (\<forall>i<k. \<exists>r. fl_cells t ! i = Returned r \<and> outcome i r)
      \<and> drop k (fl_cells t) = replicate (n - k) Skipped \<and> (k = n \<or> fl_cancelled t)" if d: "fleet_done t"
  proof (intro exI conjI)
    let ?k = "fl_queued t"
    show "?k \<le> n" using i by (simp add: fleet_inv_def)
    show "\<forall>i<?k. \<exists>r. fl_cells t ! i = Returned r \<and> outcome i r"
      using i d by (auto simp: fleet_inv_def cell_ok_def fleet_done_def)
    show "drop ?k (fl_cells t) = replicate (n - ?k) Skipped"
      using i d by (intro nth_equalityI) (auto simp: fleet_inv_def cell_ok_def fleet_done_def)
    show "?k = n \<or> fl_cancelled t" using i d by (auto simp: fleet_inv_def fleet_done_def)
  qed
  show ?thesis using i run fin by (auto simp: fleet_inv_def)
qed

text \<open>
  C40. \<open>Map\<close> always returns, and without a cancellation it runs every operation: if every operation
  returns, no schedule is infinite, and every state that is not yet done has a next step, also one
  that does not rely on a cancellation as long as there was none.
\<close>

theorem fleet_map_returns:
  assumes "fleet_start n parallel = Some s" and "0 < n" and "\<And>i. \<exists>r. outcome i r"
    and "(fleet_step outcome)\<^sup>*\<^sup>* s t"
  shows "(\<forall>u. fleet_step outcome t u \<longrightarrow> fleet_measure u < fleet_measure t)
    \<and> (\<not> fleet_done t \<longrightarrow> (\<exists>u. fleet_step outcome t u \<and> (fl_cancelled u \<longrightarrow> fl_cancelled t)))"
proof -
  have i: "fleet_inv outcome n (min n (nat parallel)) t"
    using fleet_inv_steps [OF assms(4) fleet_inv_start [OF assms(1)]] .
  have "0 < min n (nat parallel)" using assms(1,2) by (auto simp: fleet_start_def split: if_splits)
  with i assms(3) have "\<not> fleet_done t \<longrightarrow> (\<exists>u. fleet_step outcome t u \<and> (fl_cancelled u \<longrightarrow> fl_cancelled t))"
    using fleet_progress [OF i assms(3)] fleet_progress_uncancelled [OF i assms(3)]
    by (cases "fl_cancelled t") blast+
  with fleet_measure_step [OF _ i] show ?thesis by blast
qed

text \<open>One worker and two inputs: the first operation returns, then the context is cancelled.\<close>

definition ex_outcome :: "nat \<Rightarrow> nat result \<Rightarrow> bool" where
  "ex_outcome i r \<longleftrightarrow> r = Inr (i + 10)"

lemma ex_fleet_run:
  "\<exists>s t. fleet_start 2 1 = Some s \<and> (fleet_step ex_outcome)\<^sup>*\<^sup>* s t \<and> fleet_done t \<and> fl_cells t = [Returned (Inr 10), Skipped]"
proof -
  let ?s = "\<lparr>fl_queued = 0, fl_running = [], fl_waiting = 1, fl_cells = [Pending, Pending],
    fl_cancelled = False, fl_closed = False\<rparr> :: nat fleet"
  let ?a = "?s\<lparr>fl_queued := 1, fl_running := [0], fl_waiting := 0\<rparr>"
  let ?b = "?a\<lparr>fl_running := [], fl_waiting := 1, fl_cells := [Returned (Inr 10), Pending]\<rparr>"
  let ?c = "?b\<lparr>fl_cancelled := True\<rparr>"
  let ?d = "?c\<lparr>fl_cells := [Returned (Inr 10), Skipped], fl_closed := True\<rparr>"
  let ?e = "?d\<lparr>fl_waiting := 0\<rparr>"
  have "fleet_step ex_outcome ?s ?a" using fleet_step.hand_over [of ?s ex_outcome] by simp
  moreover have "fleet_step ex_outcome ?a ?b"
    using fleet_step.finish [of 0 ?a ex_outcome "Inr 10"] by (simp add: ex_outcome_def)
  moreover have "fleet_step ex_outcome ?b ?c" using fleet_step.cancel [of ?b ex_outcome] by simp
  moreover have "fleet_step ex_outcome ?c ?d"
    using fleet_step.give_up [of ?c ex_outcome] by (simp add: skip_from_def)
  moreover have "fleet_step ex_outcome ?d ?e" using fleet_step.leave [of ?d ex_outcome] by simp
  ultimately have "(fleet_step ex_outcome)\<^sup>*\<^sup>* ?s ?e" by (meson converse_rtranclp_into_rtranclp rtranclp.rtrancl_refl)
  moreover have "fleet_start 2 1 = Some ?s" by (simp add: fleet_start_def numeral_2_eq_2)
  moreover have "fleet_done ?e" by (simp add: fleet_done_def)
  ultimately show ?thesis by (intro exI [of _ ?s] exI [of _ ?e]) simp
qed

lemma fleet_map_sound_witness:
  "\<exists>t. fleet_done t \<and> fl_cells t = [Returned (Inr (10::nat)), Skipped] \<and> fl_cancelled t"
proof -
  obtain s t where r: "fleet_start 2 1 = Some s" "(fleet_step ex_outcome)\<^sup>*\<^sup>* s t" "fleet_done t"
    "fl_cells t = [Returned (Inr 10), Skipped]" using ex_fleet_run by blast
  from fleet_map_sound [OF r(1,2)] r(3,4) obtain k where
    "k \<le> 2" "\<forall>i<k. \<exists>x. fl_cells t ! i = Returned x" "k = 2 \<or> fl_cancelled t" by blast
  with r(4) have "fl_cancelled t" by (auto simp: numeral_2_eq_2 less_Suc_eq)
  with r show ?thesis by blast
qed

lemma fleet_map_returns_witness:
  "\<exists>s t :: nat fleet. fleet_start 2 1 = Some s \<and> (fleet_step ex_outcome s t \<longrightarrow> fleet_measure t < fleet_measure s)"
proof -
  obtain s :: "nat fleet" where s: "fleet_start 2 1 = Some s" by (simp add: fleet_start_def)
  have "\<exists>r. ex_outcome i r" for i by (simp add: ex_outcome_def)
  from fleet_map_returns [OF s _ this, where t = s] s show ?thesis by auto
qed

end
