(* ===== verification/Inventory.thy ===== *)
theory Inventory
  imports Config_Base "HOL-Library.AList"
begin

text \<open>
  Packages \<open>internal/inventory\<close> and \<open>internal/resolve\<close>: the host inventory, its validation and its
  updates, the text it is written as, and the resolution of a reference to a target. The Go map of
  hosts is an association list with distinct keys; Go visits a map in any order, so what is proved of
  the validation does not depend on the order. Reading a file gives \<open>None\<close> when it cannot be read.
\<close>

record host =
  ho_target :: string
  ho_config :: string

record inventory =
  in_version :: int
  in_hosts :: "(string \<times> host) list"

definition empty_inventory :: inventory where
  "empty_inventory = \<lparr>in_version = 1, in_hosts = []\<rparr>"

abbreviation inventory_invalid :: "string \<Rightarrow> error" where
  "inventory_invalid m \<equiv> coded InventoryInvalid m"

definition validate_alias :: "string \<Rightarrow> unit result" where
  "validate_alias alias =
     (if alias = ''local'' \<or> \<not> name_pattern alias
      then Inl (inventory_invalid ''host alias must be 1-63 letters, numbers, dots, underscores, or hyphens and cannot be local'')
      else Inr ())"

definition split_either :: "string \<Rightarrow> string list" where
  "split_either p = split_on (CHR ''/'') (replace_backslash p)"

definition validate_config_path :: "string \<Rightarrow> unit result" where
  "validate_config_path p =
     (if p = [] then Inr ()
      else if nul \<in> set p \<or> is_rooted p then Inl (errorf ''config path must be a non-absolute relative path'')
      else if list_ex is_control p then Inl (errorf ''config path must not contain control characters'')
      else (let cleaned = path_clean p
            in if cleaned = ''.'' \<or> cleaned = ''..'' \<or> has_prefix cleaned ''../''
                 \<or> ''..'' \<in> set (split_either cleaned)
               then Inl (errorf ''config path must stay within the inventory directory'')
               else Inr ()))"

text \<open>The loop over the hosts; \<open>seen\<close> maps the targets already met to their aliases.\<close>

fun validate_hosts :: "(string \<times> string) list \<Rightarrow> (string \<times> host) list \<Rightarrow> unit result" where
  "validate_hosts seen [] = Inr ()"
| "validate_hosts seen ((alias, h) # hs) =
     rbind (validate_alias alias) (\<lambda>_.
     case parse_target (ho_target h) of
       Inl e \<Rightarrow> Inl (Coded InventoryInvalid (''invalid target for host '' @ alias) (Some e))
     | Inr _ \<Rightarrow>
       (case map_of seen (ho_target h) of
          Some previous \<Rightarrow> Inl (inventory_invalid (''hosts '' @ go_quote previous @ '' and '' @ go_quote alias @ '' use the same target''))
        | None \<Rightarrow>
          rbind (rmap_err (\<lambda>e. inventory_invalid (''invalid config for host '' @ alias @ '': '' @ error_text e))
                   (validate_config_path (ho_config h)))
            (\<lambda>_. validate_hosts ((ho_target h, alias) # seen) hs)))"

definition validate_inventory :: "inventory \<Rightarrow> unit result" where
  "validate_inventory iv =
     rfail_if (in_version iv \<noteq> 1)
       (inventory_invalid (''unsupported inventory version '' @ show_int (in_version iv) @ '' (expected 1)''))
     (validate_hosts [] (in_hosts iv))"

text \<open>\<open>Decode\<close> and \<open>LoadFile\<close>, over the document the TOML reader delivers.\<close>

definition decode_inventory :: "inventory option \<Rightarrow> inventory result" where
  "decode_inventory document =
     (case document of
        None \<Rightarrow> Inl (Coded InventoryInvalid ''invalid host inventory'' (Some (errorf ''toml'')))
      | Some iv \<Rightarrow> rbind (validate_inventory iv) (\<lambda>_. Inr iv))"

definition load_inventory :: "(string \<Rightarrow> inventory option option) \<Rightarrow> string \<Rightarrow> inventory result" where
  "load_inventory files filename =
     (case files filename of
        None \<Rightarrow> Inl (Coded InventoryInvalid ''cannot read host inventory'' (Some (errorf ''open'')))
      | Some document \<Rightarrow> decode_inventory document)"

definition config_path :: "string \<Rightarrow> host \<Rightarrow> string" where
  "config_path inventory_path h =
     (if ho_config h = [] then [] else path_join (path_dir inventory_path) (ho_config h))"

section \<open>Updates\<close>

text \<open>\<open>Add\<close> and \<open>Remove\<close> change the inventory in place: the result has the inventory afterwards.\<close>

definition add_host :: "string \<Rightarrow> host \<Rightarrow> inventory \<Rightarrow> inventory \<times> error option" where
  "add_host alias h iv =
     (case validate_alias alias of Inl e \<Rightarrow> (iv, Some e)
      | Inr _ \<Rightarrow>
        if map_of (in_hosts iv) alias \<noteq> None
        then (iv, Some (inventory_invalid (''host alias already exists: '' @ alias)))
        else (let added = iv\<lparr>in_hosts := in_hosts iv @ [(alias, h)]\<rparr>
              in case validate_inventory added of
                   Inl e \<Rightarrow> (added\<lparr>in_hosts := AList.delete alias (in_hosts added)\<rparr>, Some e)
                 | Inr _ \<Rightarrow> (added, None)))"

definition remove_host :: "string \<Rightarrow> inventory \<Rightarrow> inventory \<times> error option" where
  "remove_host alias iv =
     (if map_of (in_hosts iv) alias = None
      then (iv, Some (inventory_invalid (''unknown host alias: '' @ alias)))
      else (iv\<lparr>in_hosts := AList.delete alias (in_hosts iv)\<rparr>, None))"

definition sorted_aliases :: "inventory \<Rightarrow> string list" where
  "sorted_aliases iv = sort (map fst (in_hosts iv))"

section \<open>The text of an inventory\<close>

text \<open>
  \<open>tomlString\<close>: the replacer looks for two backslashes and for a quote, because its patterns are raw
  strings.
\<close>

fun toml_replace :: "string \<Rightarrow> string" where
  "toml_replace [] = []"
| "toml_replace (c # cs) =
     (if c = CHR 0x5C \<and> cs \<noteq> [] \<and> hd cs = CHR 0x5C
      then [CHR 0x5C, CHR 0x5C, CHR 0x5C, CHR 0x5C] @ toml_replace (tl cs)
      else if c = CHR 0x22 then [CHR 0x5C, CHR 0x5C, CHR 0x22] @ toml_replace cs
      else c # toml_replace cs)"

definition toml_string :: "string \<Rightarrow> string" where
  "toml_string v = [CHR 0x22] @ toml_replace v @ [CHR 0x22]"

definition host_header :: "string \<Rightarrow> string" where
  "host_header alias = ''[hosts.'' @ alias @ '']''"

definition host_table :: "string \<Rightarrow> host \<Rightarrow> string" where
  "host_table alias h =
     (let nl = [CHR 0x0A] in
      nl @ host_header alias @ nl @ ''target = '' @ toml_string (ho_target h) @ nl
      @ (if ho_config h \<noteq> [] then ''config = '' @ toml_string (ho_config h) @ nl else []))"

definition canonical_toml :: "inventory \<Rightarrow> string result" where
  "canonical_toml iv =
     rbind (validate_inventory iv) (\<lambda>_.
     Inr (''version = '' @ show_int (in_version iv) @ [CHR 0x0A]
       @ concat (map (\<lambda>alias. host_table alias (the (map_of (in_hosts iv) alias))) (sorted_aliases iv))))"

section \<open>Resolution\<close>

record resolution =
  rs_alias :: string
  rs_target :: target
  rs_config_path :: string
  rs_inventory_path :: string

definition literal_resolution :: "target \<Rightarrow> string \<Rightarrow> resolution" where
  "literal_resolution t path = \<lparr>rs_alias = [], rs_target = t, rs_config_path = [], rs_inventory_path = path\<rparr>"

definition resolve :: "(string \<Rightarrow> inventory option option) \<Rightarrow> string \<Rightarrow> string \<Rightarrow> string \<Rightarrow> resolution result" where
  "resolve files reference explicit_target inventory_path =
     (if reference \<noteq> [] \<and> explicit_target \<noteq> []
      then Inl (coded TargetInvalid ''provide either a host reference or --target, not both'')
      else if explicit_target \<noteq> []
      then rbind (parse_target explicit_target) (\<lambda>t. Inr (literal_resolution t inventory_path))
      else if reference = [] then Inr (literal_resolution local_target inventory_path)
      else if reference = ''local'' \<or> str_contains reference ''://''
      then rbind (parse_target reference) (\<lambda>t. Inr (literal_resolution t inventory_path))
      else
        rbind (validate_alias reference) (\<lambda>_.
        rbind (load_inventory files inventory_path) (\<lambda>loaded.
        case map_of (in_hosts loaded) reference of
          None \<Rightarrow> Inl (inventory_invalid (''unknown host alias '' @ go_quote reference @ '' in '' @ inventory_path))
        | Some h \<Rightarrow>
            rbind (parse_target (ho_target h)) (\<lambda>t.
            Inr \<lparr>rs_alias = reference, rs_target = t, rs_config_path = config_path inventory_path h,
              rs_inventory_path = inventory_path\<rparr>))))"

fun resolve_aliases :: "inventory \<Rightarrow> string \<Rightarrow> string list \<Rightarrow> resolution list result" where
  "resolve_aliases loaded path [] = Inr []"
| "resolve_aliases loaded path (alias # aliases) =
     (let h = the (map_of (in_hosts loaded) alias) in
      rbind (parse_target (ho_target h)) (\<lambda>t.
      rbind (resolve_aliases loaded path aliases) (\<lambda>rest.
      Inr (\<lparr>rs_alias = alias, rs_target = t, rs_config_path = config_path path h, rs_inventory_path = path\<rparr> # rest))))"

definition resolve_all :: "(string \<Rightarrow> inventory option option) \<Rightarrow> string \<Rightarrow> resolution list result" where
  "resolve_all files inventory_path =
     rbind (load_inventory files inventory_path) (\<lambda>loaded.
     resolve_aliases loaded inventory_path (sorted_aliases loaded))"

section \<open>Lemmas\<close>

definition host_ok :: "string \<times> host \<Rightarrow> bool" where
  "host_ok e \<longleftrightarrow> validate_alias (fst e) = Inr () \<and> is_ok (parse_target (ho_target (snd e)))
     \<and> validate_config_path (ho_config (snd e)) = Inr ()"

lemma validate_hosts_ok:
  "validate_hosts seen hs = Inr () \<longleftrightarrow>
     list_all host_ok hs \<and> distinct (map (ho_target \<circ> snd) hs)
     \<and> (ho_target \<circ> snd) ` set hs \<inter> fst ` set seen = {}"
proof (induction seen hs rule: validate_hosts.induct)
  case (2 seen a h hs)
  show ?case
  proof (cases "validate_alias a = Inr () \<and> is_ok (parse_target (ho_target h))
      \<and> map_of seen (ho_target h) = None \<and> validate_config_path (ho_config h) = Inr ()")
    case True
    then have "validate_hosts seen ((a, h) # hs) = validate_hosts ((ho_target h, a) # seen) hs"
      by (auto simp: is_ok_iff)
    with True 2 show ?thesis
      by (auto simp: host_ok_def is_ok_iff map_of_eq_None_iff)
  next
    case False
    then show ?thesis
      by (auto simp: host_ok_def is_ok_iff result_simps map_of_eq_None_iff split: sum.splits option.splits)
  qed
qed simp

lemma validate_inventory_ok:
  "validate_inventory iv = Inr () \<longleftrightarrow>
     in_version iv = 1 \<and> list_all host_ok (in_hosts iv) \<and> distinct (map (ho_target \<circ> snd) (in_hosts iv))"
  by (auto simp: validate_inventory_def result_simps validate_hosts_ok)

lemma map_of_host_ok: "list_all host_ok hs \<Longrightarrow> map_of hs alias = Some h \<Longrightarrow> host_ok (alias, h)"
  by (auto simp: list_all_iff dest!: map_of_SomeD)

lemma config_path_below:
  assumes "validate_config_path p = Inr ()" and "p \<noteq> []"
    and "path_clean d = d" "is_rooted d" "d \<noteq> ''/''"
  shows "covers d (path_join d p)"
proof -
  from assms(1,2) have "\<not> is_rooted p" "path_clean p \<noteq> ''..''" "\<not> has_prefix (path_clean p) ''../''"
    by (auto simp: validate_config_path_def Let_def split: if_splits)
  from path_join_clean [OF assms(3-5,2) this] show ?thesis
    by (auto simp: covers_def has_prefix_iff)
qed

section \<open>Properties\<close>

text \<open>
  \<open>Add\<close> is atomic: when it succeeds the inventory is valid, the new alias has the given host and
  every other alias is unchanged; when it fails, for whatever reason, the inventory is what it was.
\<close>

theorem add_host_atomic:
  assumes "distinct (map fst (in_hosts iv))"
  shows "case add_host alias h iv of
      (iv', None) \<Rightarrow> validate_inventory iv' = Inr () \<and> distinct (map fst (in_hosts iv'))
         \<and> map_of (in_hosts iv') = (map_of (in_hosts iv))(alias \<mapsto> h) \<and> map_of (in_hosts iv) alias = None
    | (iv', Some e) \<Rightarrow> iv' = iv"
proof -
  have del: "AList.delete alias (in_hosts iv @ [(alias, h)]) = in_hosts iv"
    if "map_of (in_hosts iv) alias = None"
    using that by (force simp: AList.delete_eq map_of_eq_None_iff filter_id_conv)
  have upd: "map_of (in_hosts iv @ [(alias, h)]) = (map_of (in_hosts iv))(alias \<mapsto> h)"
    if "map_of (in_hosts iv) alias = None"
    using that by (auto simp: fun_eq_iff map_add_def split: option.splits)
  show ?thesis
    using assms del upd
    by (auto simp: add_host_def Let_def map_of_eq_None_iff split: sum.splits)
qed

lemma add_host_atomic_witness:
  "fst (add_host ''pi'' \<lparr>ho_target = ''ftp://pi'', ho_config = []\<rparr> empty_inventory) = empty_inventory"
proof -
  have "\<exists>e. snd (add_host ''pi'' \<lparr>ho_target = ''ftp://pi'', ho_config = []\<rparr> empty_inventory) = Some e"
    by (intro exI) code_simp
  with add_host_atomic [of empty_inventory "''pi''" "\<lparr>ho_target = ''ftp://pi'', ho_config = []\<rparr>"]
  show ?thesis by (auto simp: empty_inventory_def split: prod.splits option.splits)
qed

text \<open>
  Whether an inventory is valid does not depend on the order in which its map is visited: any
  permutation of its hosts is valid exactly when it is (only the error that is reported first may
  differ).
\<close>

theorem validate_inventory_order:
  assumes "mset hosts = mset (in_hosts iv)"
  shows "validate_inventory (iv\<lparr>in_hosts := hosts\<rparr>) = Inr () \<longleftrightarrow> validate_inventory iv = Inr ()"
proof -
  have "set hosts = set (in_hosts iv)" using assms by (metis set_mset_mset)
  moreover have "mset (map (ho_target \<circ> snd) hosts) = mset (map (ho_target \<circ> snd) (in_hosts iv))"
    using assms by (metis mset_map)
  then have "distinct (map (ho_target \<circ> snd) hosts) \<longleftrightarrow> distinct (map (ho_target \<circ> snd) (in_hosts iv))"
    by (rule mset_eq_imp_distinct_iff)
  ultimately show ?thesis by (simp add: validate_inventory_ok list_all_iff)
qed

definition ex_inventory :: inventory where
  "ex_inventory = \<lparr>in_version = 1, in_hosts =
     [(''pi'', \<lparr>ho_target = ''ssh://me@pi'', ho_config = ''pi/bebop.toml''\<rparr>),
      (''nas'', \<lparr>ho_target = ''ssh://me@nas'', ho_config = []\<rparr>)]\<rparr>"

lemma ex_inventory_valid: "validate_inventory ex_inventory = Inr ()"
  by code_simp

lemma validate_inventory_order_witness:
  "validate_inventory (ex_inventory\<lparr>in_hosts := rev (in_hosts ex_inventory)\<rparr>) = Inr ()"
  using validate_inventory_order [of "rev (in_hosts ex_inventory)" ex_inventory] ex_inventory_valid by simp

text \<open>
  Resolving an alias through a valid inventory gives the target that its entry names, and its
  configuration, when it has one, lies in or below the directory of the inventory.
\<close>

theorem resolve_alias_sound:
  assumes "resolve files reference [] inventory_path = Inr r" and "rs_alias r \<noteq> []"
    and "is_rooted inventory_path" and "path_dir inventory_path \<noteq> ''/''"
  shows "rs_alias r = reference \<and> (\<exists>iv h. load_inventory files inventory_path = Inr iv
      \<and> map_of (in_hosts iv) reference = Some h \<and> parse_target (ho_target h) = Inr (rs_target r)
      \<and> (rs_config_path r = [] \<or> covers (path_dir inventory_path) (rs_config_path r)))"
proof -
  from assms(1,2) obtain iv h where l: "load_inventory files inventory_path = Inr iv"
    "map_of (in_hosts iv) reference = Some h" "parse_target (ho_target h) = Inr (rs_target r)"
    "rs_alias r = reference" "rs_config_path r = config_path inventory_path h"
    by (auto simp: resolve_def literal_resolution_def result_simps split: if_splits option.splits)
  from l(1) have "validate_inventory iv = Inr ()"
    by (auto simp: load_inventory_def decode_inventory_def result_simps split: option.splits)
  then have "host_ok (reference, h)"
    using map_of_host_ok [OF _ l(2)] by (simp add: validate_inventory_ok)
  then have c: "validate_config_path (ho_config h) = Inr ()" by (simp add: host_ok_def)
  have "path_clean (path_dir inventory_path) = path_dir inventory_path" "is_rooted (path_dir inventory_path)"
    using assms(3) by (simp_all add: path_dir_def path_clean_idem path_dir_rooted [unfolded path_dir_def])
  with c assms(4) l(5) config_path_below have "rs_config_path r = [] \<or> covers (path_dir inventory_path) (rs_config_path r)"
    by (auto simp: config_path_def)
  with l show ?thesis by blast
qed

lemma resolve_alias_sound_witness:
  "covers ''/home/me'' ''/home/me/pi/bebop.toml''"
proof -
  let ?files = "\<lambda>_. Some (Some ex_inventory)"
  let ?t = "\<lparr>tg_kind = SSH, tg_user = ''me'', tg_host = ''pi'', tg_port = 0\<rparr>"
  have t: "parse_target ''ssh://me@pi'' = Inr ?t" by code_simp
  have r: "resolve ?files ''pi'' [] ''/home/me/bebop.hosts.toml'' = Inr \<lparr>rs_alias = ''pi'', rs_target = ?t,
      rs_config_path = ''/home/me/pi/bebop.toml'', rs_inventory_path = ''/home/me/bebop.hosts.toml''\<rparr>"
    using ex_inventory_valid t
    by (simp add: resolve_def validate_alias_def name_pattern_def pattern_of_def load_inventory_def
        decode_inventory_def char_eval)
      (simp add: ex_inventory_def t config_path_def path_dir_def path_join_def path_clean_def
        clean_elements_def push_element_def is_rooted_def)
  from resolve_alias_sound [OF r] show ?thesis
    by (auto simp: is_rooted_def path_dir_def path_clean_def clean_elements_def push_element_def)
qed

text \<open>
  How a TOML reader reads a basic string after its opening quote (Unicode escapes aside), and the keys
  of a table header made of bare keys: a dot separates keys.
\<close>

fun toml_read :: "string \<Rightarrow> (string \<times> string) option" where
  "toml_read [] = None"
| "toml_read (c # cs) =
     (if c = CHR 0x22 then Some ([], cs)
      else if c = CHR 0x5C then
        (case cs of [] \<Rightarrow> None
         | e # es \<Rightarrow>
           (case map_of [(CHR ''b'', CHR 0x08), (CHR ''t'', CHR 0x09), (CHR ''n'', CHR 0x0A), (CHR ''f'', CHR 0x0C),
               (CHR ''r'', CHR 0x0D), (CHR 0x22, CHR 0x22), (CHR 0x5C, CHR 0x5C)] e of
              None \<Rightarrow> None
            | Some v \<Rightarrow> map_option (apfst (Cons v)) (toml_read es)))
      else if is_control c then None
      else map_option (apfst (Cons c)) (toml_read cs))"

definition header_keys :: "string \<Rightarrow> string list" where
  "header_keys header = split_on (CHR ''.'') (butlast (tl header))"

lemma toml_replace_plain: "CHR 0x22 \<notin> set v \<Longrightarrow> CHR 0x5C \<notin> set v \<Longrightarrow> toml_replace v = v"
  by (induction v rule: toml_replace.induct) auto

lemma toml_read_plain:
  "CHR 0x22 \<notin> set v \<Longrightarrow> CHR 0x5C \<notin> set v \<Longrightarrow> \<not> list_ex is_control v \<Longrightarrow>
   toml_read (v @ CHR 0x22 # rest) = Some (v, rest)"
  by (induction v) auto

text \<open>
  What an inventory writes can be read again, for values without quotes and backslashes: the TOML
  reader gets back exactly the target and the configuration path from the strings that
  \<open>CanonicalTOML\<close> writes (the targets of a valid inventory never hold either byte), and the header of
  a host names the key of that host exactly when its alias has no dot.
\<close>

theorem toml_strings_read_back:
  assumes "CHR 0x22 \<notin> set v" and "CHR 0x5C \<notin> set v" and "\<not> list_ex is_control v"
  shows "toml_read (tl (toml_string v) @ rest) = Some (v, rest)
    \<and> (header_keys (host_header alias) = [''hosts'', alias] \<longleftrightarrow> CHR ''.'' \<notin> set alias)"
proof -
  have "CHR ''.'' \<notin> set alias" if "split_on (CHR ''.'') alias = [alias]"
    using that split_on_no_sep [of "alias" "CHR ''.''" "alias"] by simp
  then show ?thesis
    using toml_read_plain [OF assms] toml_replace_plain [OF assms(1,2)]
    by (auto simp: toml_string_def header_keys_def host_header_def split_on_single butlast_append)
qed

lemma toml_strings_read_back_witness:
  "toml_read (tl (toml_string ''pi/bebop.toml'') @ ''x'') = Some (''pi/bebop.toml'', ''x'')"
  using toml_strings_read_back [of "''pi/bebop.toml''" "''x''"] by (simp add: char_eval)

text \<open>
  The exceptions are reachable. A dot is allowed in an alias, and the table it is written as has another
  name; a quote or a backslash is allowed in a configuration path, and it is not read back.
\<close>

lemma inventory_not_read_back:
  "validate_alias ''home.pi'' = Inr ()"
  "header_keys (host_header ''home.pi'') = [''hosts'', ''home'', ''pi'']"
  "validate_config_path [CHR ''a'', CHR 0x22] = Inr ()"
  "toml_read (tl (toml_string [CHR ''a'', CHR 0x22])) = Some ([CHR ''a'', CHR 0x5C], [CHR 0x22])"
  "validate_config_path [CHR ''a'', CHR 0x5C, CHR ''b''] = Inr ()"
  "toml_read (tl (toml_string [CHR ''a'', CHR 0x5C, CHR ''b''])) = Some ([CHR ''a'', CHR 0x08], [])"
  by (simp_all add: validate_alias_def name_pattern_def pattern_of_def validate_config_path_def
      is_rooted_def path_clean_def clean_elements_def push_element_def split_either_def replace_backslash_def
      header_keys_def host_header_def toml_string_def char_eval)

end
