(* ===== verification/Event.thy ===== *)
theory Event
  imports Config "HOL-Library.Product_Lexorder"
begin

text \<open>
  File \<open>internal/notification/model.go\<close>: which events an operation gives rise to, and the fingerprint
  that ties the occurrences of one issue together. Instants are nanoseconds since 1970 (negative
  before), Go's zero time is one of them. The JSON and SHA-256 of a fingerprint are one parameter,
  \<open>digest\<close>, of the fields that are hashed; the random part of the \<open>k\<close>-th event id is \<open>random k\<close>, None
  when the system gives no randomness.
\<close>

section \<open>Data\<close>

type_synonym instant = int

definition zero_time :: instant where
  "zero_time = - 62135596800 * 1000000000"

type_synonym severity = string

abbreviation SevInfo :: severity where "SevInfo \<equiv> ''info''"
abbreviation SevWarning :: severity where "SevWarning \<equiv> ''warning''"
abbreviation SevError :: severity where "SevError \<equiv> ''error''"
abbreviation SevRecovery :: severity where "SevRecovery \<equiv> ''recovery''"

record event_details =
  ed_category :: string
  ed_snapshot_id :: string
  ed_updates :: int
  ed_security_updates :: int
  ed_state :: string

record event =
  ev_schema_version :: int
  ev_event_id :: string
  ev_type :: string
  ev_severity :: severity
  ev_occurred_at :: instant
  ev_fingerprint :: string
  ev_origin :: string
  ev_target :: string
  ev_job :: string
  ev_service :: string
  ev_resource :: string
  ev_summary :: string
  ev_details :: event_details
  ev_test :: bool

record finding =
  fd_code :: string
  fd_status :: string

record operation =
  op_run_id :: string
  op_job :: string
  op_operation :: string
  op_target :: string
  op_service :: string
  op_origin :: string
  op_result :: string
  op_occurred_at :: instant
  op_failure_category :: string
  op_snapshot_id :: string
  op_updates :: int
  op_security_updates :: int
  op_retention_failure :: bool
  op_reason :: string
  op_findings :: "finding list"

record issue_key =
  ik_domain :: string
  ik_target :: string
  ik_job :: string
  ik_service :: string
  ik_resource :: string
  ik_category :: string

section \<open>Derivation\<close>

definition no_details :: event_details where
  "no_details = \<lparr>ed_category = [], ed_snapshot_id = [], ed_updates = 0, ed_security_updates = 0, ed_state = []\<rparr>"

definition issue_fingerprint :: "(issue_key \<Rightarrow> string) \<Rightarrow> string \<Rightarrow> string \<Rightarrow> string \<Rightarrow> string \<Rightarrow> string \<Rightarrow> string \<Rightarrow> string" where
  "issue_fingerprint digest domain targ job srv resource category =
     digest \<lparr>ik_domain = domain, ik_target = targ, ik_job = job, ik_service = srv, ik_resource = resource,
       ik_category = category\<rparr>"

definition event_id :: "(nat \<Rightarrow> string option) \<Rightarrow> instant \<Rightarrow> nat \<Rightarrow> string" where
  "event_id random now k =
     ''evt-'' @ show_int now @ (case random k of None \<Rightarrow> [] | Some hex \<Rightarrow> ''-'' @ hex)"

definition non_empty :: "string \<Rightarrow> string \<Rightarrow> string" where
  "non_empty value fallback = (if value \<noteq> [] then value else fallback)"

definition safe_finding_pattern :: "string \<Rightarrow> bool" where
  "safe_finding_pattern s \<longleftrightarrow>
     s \<noteq> [] \<and> is_lower (hd s) \<and> length s \<le> 128
     \<and> list_all (\<lambda>c. is_lower c \<or> is_digit c \<or> c \<in> set ''_.-'') (tl s)"

definition clean_finding_code :: "string \<Rightarrow> string" where
  "clean_finding_code value = (if safe_finding_pattern value then value else ''unknown'')"

definition clean_failure_category :: "string \<Rightarrow> string" where
  "clean_failure_category value =
     (if value \<in> set [''config_invalid'', ''target_unreachable'', ''target_authentication'', ''target_host_key'',
          ''target_timeout'', ''unsupported_os'', ''privilege_unavailable'', ''apply_locked'', ''apply_failed'',
          ''verification_failed'', ''operation_failed'']
      then value else ''operation_failed'')"

definition severity_rank :: "severity \<Rightarrow> int" where
  "severity_rank s = (if s = SevInfo then 1 else if s = SevWarning then 2 else if s = SevError then 3 else 0)"

definition is_recovery :: "event \<Rightarrow> bool" where
  "is_recovery e \<longleftrightarrow> ev_severity e = SevRecovery"

definition new_event :: "(issue_key \<Rightarrow> string) \<Rightarrow> string \<Rightarrow> severity \<Rightarrow> operation \<Rightarrow> string \<Rightarrow> string \<Rightarrow> string
    \<Rightarrow> event_details \<Rightarrow> event" where
  "new_event digest event_type sev op domain category summary details =
     \<lparr>ev_schema_version = 0, ev_event_id = [], ev_type = event_type, ev_severity = sev, ev_occurred_at = zero_time,
      ev_fingerprint = issue_fingerprint digest domain (op_target op) (op_job op) (op_service op) [] category,
      ev_origin = [], ev_target = [], ev_job = [], ev_service = op_service op, ev_resource = [],
      ev_summary = summary, ev_details = details, ev_test = False\<rparr>"

text \<open>The closure \<open>add\<close> of \<open>Derive\<close>, up to the event id, which \<open>stamp\<close> gives in the order of the calls.\<close>

definition add_event :: "operation \<Rightarrow> event \<Rightarrow> event" where
  "add_event op e =
     e\<lparr>ev_schema_version := 1, ev_occurred_at := op_occurred_at op, ev_origin := op_origin op,
       ev_target := op_target op, ev_job := op_job op,
       ev_service := (if ev_service e = [] then op_service op else ev_service e)\<rparr>"

definition finding_domain :: "string \<Rightarrow> string \<times> string \<times> string \<times> string" where
  "finding_domain code =
     (if has_prefix code ''storage.''
      then (''storage'', ''storage.failed'', ''storage.recovered'', trim_prefix code ''storage.'')
      else if has_prefix code ''service.''
      then (''service'', ''service.unhealthy'', ''service.recovered'', trim_prefix code ''service.'')
      else (''doctor'', ''doctor.failed'', ''doctor.recovered'', []))"

definition event_for_finding :: "(issue_key \<Rightarrow> string) \<Rightarrow> operation \<Rightarrow> finding \<Rightarrow> event" where
  "event_for_finding digest op f =
     (let code = clean_finding_code (fd_code f) in
      case finding_domain code of (domain, failure_type, recovery_type, resource) \<Rightarrow>
       (let sev0 = (if fd_status f = ''fail'' then SevError else SevWarning);
            type0 = (if domain = ''doctor'' \<and> sev0 = SevWarning then ''doctor.warning'' else failure_type);
            summary0 = (if sev0 = SevError then ''Doctor check failed'' else ''Doctor warning'');
            pass = (fd_status f = ''pass'');
            e = new_event digest (if pass then recovery_type else type0) (if pass then SevRecovery else sev0) op
                  domain code (if pass then ''Doctor check recovered'' else summary0)
                  (no_details\<lparr>ed_category := code, ed_state := fd_status f\<rparr>)
        in e\<lparr>ev_schema_version := 1, ev_resource := resource,
             ev_service := (if domain = ''service'' then resource else ev_service e),
             ev_fingerprint := issue_fingerprint digest domain (op_target op) (op_job op) (op_service op) resource code,
             ev_occurred_at := op_occurred_at op, ev_origin := op_origin op, ev_target := op_target op,
             ev_job := op_job op\<rparr>))"

definition failure_event :: "(issue_key \<Rightarrow> string) \<Rightarrow> operation \<Rightarrow> string \<Rightarrow> string \<Rightarrow> string \<Rightarrow> event" where
  "failure_event digest op event_type domain summary =
     add_event op (new_event digest event_type SevError op domain ''failure'' summary
       (no_details\<lparr>ed_category := clean_failure_category (op_failure_category op)\<rparr>))"

text \<open>The events of an operation in the order in which \<open>Derive\<close> creates them.\<close>

definition drafts :: "(issue_key \<Rightarrow> string) \<Rightarrow> operation \<Rightarrow> event list" where
  "drafts digest op =
     (if op_result op = ''skipped'' then
        (let reason = non_empty (op_reason op) ''skipped'' in
         [add_event op (new_event digest ''maintenance.skipped'' SevInfo op ''maintenance'' reason
            ''Maintenance job skipped'' (no_details\<lparr>ed_category := reason\<rparr>))])
      else if op_operation op = ''backup'' then
        (if op_result op = ''success'' then
           [add_event op (new_event digest ''backup.succeeded'' SevInfo op ''backup'' ''success'' ''Backup completed''
              (no_details\<lparr>ed_snapshot_id := op_snapshot_id op\<rparr>)),
            add_event op (new_event digest ''maintenance.recovered'' SevRecovery op ''backup'' ''failure''
              ''Backup recovered'' (no_details\<lparr>ed_category := ''backup''\<rparr>))]
         else if op_retention_failure op then
           [add_event op (new_event digest ''backup.retention_failed'' SevError op ''backup'' ''failure''
              ''Backup completed but retention failed''
              (no_details\<lparr>ed_category := ''retention'', ed_snapshot_id := op_snapshot_id op\<rparr>))]
         else [failure_event digest op ''backup.failed'' ''backup'' ''Backup failed''])
      else if op_operation op = ''doctor'' then
        map (event_for_finding digest op) (filter (\<lambda>f. fd_code f \<noteq> []) (op_findings op))
        @ (if op_findings op = [] \<and> op_result op \<noteq> ''success''
           then [failure_event digest op ''doctor.failed'' ''doctor'' ''Doctor check failed''] else [])
      else if op_operation op = ''update-check'' then
        (if op_result op = ''success'' \<and> op_updates op > 0 then
           [add_event op (new_event digest ''updates.available'' SevInfo op ''updates'' ''available''
              ''Package updates are available''
              (no_details\<lparr>ed_category := ''available'', ed_updates := op_updates op,
                 ed_security_updates := op_security_updates op\<rparr>))]
         else if op_result op = ''success'' then
           [add_event op (new_event digest ''updates.cleared'' SevRecovery op ''updates'' ''available''
              ''No package updates are available'' (no_details\<lparr>ed_category := ''available''\<rparr>))]
         else [failure_event digest op ''maintenance.failed'' ''maintenance'' ''Update check failed''])
      else if op_result op \<noteq> ''success'' then
        [failure_event digest op ''maintenance.failed'' ''maintenance'' ''Maintenance job failed'']
      else [add_event op (new_event digest ''maintenance.recovered'' SevRecovery op ''maintenance'' ''failure''
              ''Maintenance job recovered'' (no_details\<lparr>ed_category := ''maintenance''\<rparr>))])"

fun stamp :: "(nat \<Rightarrow> string option) \<Rightarrow> nat \<Rightarrow> event list \<Rightarrow> event list" where
  "stamp random k [] = []"
| "stamp random k (e # es) = e\<lparr>ev_event_id := event_id random (ev_occurred_at e) k\<rparr> # stamp random (Suc k) es"

definition derive :: "(issue_key \<Rightarrow> string) \<Rightarrow> (nat \<Rightarrow> string option) \<Rightarrow> operation \<Rightarrow> event list result" where
  "derive digest random op =
     (if op_job op = [] \<or> op_operation op = [] \<or> op_target op = []
      then Inl (errorf ''notification operation requires job, operation, and target'')
      else if op_occurred_at op = zero_time
      then Inl (errorf ''notification operation requires occurrence time'')
      else Inr (sort_slice (\<lambda>e. (ev_type e, ev_resource e, ev_fingerprint e)) (stamp random 0 (drafts digest op))))"

section \<open>Lemmas\<close>

lemma in_stamp: "e \<in> set (stamp random k es) \<Longrightarrow> \<exists>d i. d \<in> set es \<and> e = d\<lparr>ev_event_id := i\<rparr>"
  by (induction random k es rule: stamp.induct) auto

lemma stamp_in: "d \<in> set es \<Longrightarrow> \<exists>i. d\<lparr>ev_event_id := i\<rparr> \<in> set (stamp random k es)"
  by (induction random k es rule: stamp.induct) auto

lemma length_stamp [simp]: "length (stamp random k es) = length es"
  by (induction random k es rule: stamp.induct) auto

lemma derive_events:
  assumes "derive digest random op = Inr es"
  shows "e \<in> set es \<Longrightarrow> \<exists>d i. d \<in> set (drafts digest op) \<and> e = d\<lparr>ev_event_id := i\<rparr>"
    and "d \<in> set (drafts digest op) \<Longrightarrow> \<exists>i. d\<lparr>ev_event_id := i\<rparr> \<in> set es"
  using assms in_stamp stamp_in by (auto simp: derive_def split: if_splits)

lemma derive_ok:
  "(\<exists>es. derive digest random op = Inr es) \<longleftrightarrow>
     op_job op \<noteq> [] \<and> op_operation op \<noteq> [] \<and> op_target op \<noteq> [] \<and> op_occurred_at op \<noteq> zero_time"
  by (simp add: derive_def)

lemmas draft_simps = drafts_def failure_event_def add_event_def new_event_def no_details_def Let_def

text \<open>What every event of an operation has in common.\<close>

definition from_operation :: "operation \<Rightarrow> event \<Rightarrow> bool" where
  "from_operation op e \<longleftrightarrow>
     ev_schema_version e = 1 \<and> ev_occurred_at e = op_occurred_at op \<and> ev_origin e = op_origin op
     \<and> ev_target e = op_target op \<and> ev_job e = op_job op \<and> \<not> ev_test e
     \<and> ev_type e \<in> set event_types
     \<and> ev_severity e \<in> set severities
     \<and> (recovery_event (ev_type e) \<longleftrightarrow> ev_severity e = SevRecovery)"

lemma finding_from_operation: "from_operation op (event_for_finding digest op f)"
  by (auto simp: from_operation_def event_for_finding_def finding_domain_def new_event_def no_details_def Let_def
      event_types_def severities_def recovery_event_def has_suffix_def)

lemma added_from_operation [simp]:
  "from_operation op (add_event op (new_event digest t sv op domain category summary details)) \<longleftrightarrow>
     t \<in> set event_types \<and> sv \<in> set severities \<and> (recovery_event t \<longleftrightarrow> sv = SevRecovery)"
  by (simp add: from_operation_def add_event_def new_event_def)

lemmas event_tables = event_types_def severities_def recovery_event_def has_suffix_def

lemma drafts_from_operation: "d \<in> set (drafts digest op) \<Longrightarrow> from_operation op d"
  using finding_from_operation [of op digest]
  by (auto simp: drafts_def failure_event_def event_tables Let_def split: if_splits)

text \<open>The only fingerprints of warnings and errors of a backup, and of one finding.\<close>

lemma backup_drafts:
  assumes "op_operation op = ''backup''" and "d \<in> set (drafts digest op)"
    and "ev_severity d = SevWarning \<or> ev_severity d = SevError"
  shows "ev_fingerprint d
    = issue_fingerprint digest ''backup'' (op_target op) (op_job op) (op_service op) [] ''failure''"
  using assms by (auto simp: draft_simps split: if_splits)

lemma finding_fingerprint:
  "ev_fingerprint (event_for_finding digest op f) =
     (let code = clean_finding_code (fd_code f) in case finding_domain code of (domain, _, _, resource) \<Rightarrow>
      issue_fingerprint digest domain (op_target op) (op_job op) (op_service op) resource code)"
  by (simp add: event_for_finding_def Let_def split: prod.splits)

section \<open>Properties\<close>

text \<open>
  Every event that \<open>Derive\<close> returns describes its operation and nothing else: it carries the
  schema version, the target, job, origin and time of the operation and no test mark, its type is one
  that a route can select, its severity one of the four, and it is of severity recovery exactly if
  its type is one that a route must opt in to as a recovery. The events come sorted by type,
  resource and fingerprint.
\<close>

theorem derived_events_sound:
  assumes "derive digest random op = Inr es"
  shows "list_all (from_operation op) es
    \<and> sorted (map (\<lambda>e. (ev_type e, ev_resource e, ev_fingerprint e)) es)
    \<and> length es = length (drafts digest op)"
proof -
  have "from_operation op e" if "e \<in> set es" for e
    using derive_events(1) [OF assms that] drafts_from_operation
    by (fastforce simp: from_operation_def)
  then show ?thesis using assms by (auto simp: list_all_iff derive_def split: if_splits)
qed

definition ex_operation :: "string \<Rightarrow> string \<Rightarrow> finding list \<Rightarrow> operation" where
  "ex_operation kind res fs =
     \<lparr>op_run_id = ''run-1'', op_job = ''nightly'', op_operation = kind, op_target = ''local'', op_service = [],
      op_origin = ''scheduled'', op_result = res, op_occurred_at = 1700000000, op_failure_category = ''apply_locked'',
      op_snapshot_id = [], op_updates = 0, op_security_updates = 0, op_retention_failure = False,
      op_reason = [], op_findings = fs\<rparr>"

definition ex_digest :: "issue_key \<Rightarrow> string" where
  "ex_digest k = ik_domain k @ ''/'' @ ik_job k @ ''/'' @ ik_category k"

definition ex_failure :: event where
  "ex_failure = (failure_event ex_digest (ex_operation ''backup'' ''failure'' []) ''backup.failed'' ''backup'' ''Backup failed'')
     \<lparr>ev_event_id := event_id (\<lambda>_. None) 1700000000 0\<rparr>"

lemma ex_derive: "derive ex_digest (\<lambda>_. None) (ex_operation ''backup'' ''failure'' []) = Inr [ex_failure]"
  by (simp add: derive_def drafts_def ex_operation_def ex_failure_def zero_time_def failure_event_def add_event_def)

lemma derived_events_sound_witness: "from_operation (ex_operation ''backup'' ''failure'' []) ex_failure"
  using derived_events_sound [OF ex_derive] by simp

text \<open>
  Every backup and every doctor finding that goes wrong can be cleared: for each warning or error
  derived from such an operation there is an outcome of the same job on the same target (a backup that
  succeeds, the same finding passing) from which a recovery event with the same fingerprint is derived.
\<close>

theorem failure_has_recovery:
  assumes "derive digest random op = Inr es" and "e \<in> set es"
    and "ev_severity e = SevWarning \<or> ev_severity e = SevError"
    and "op_operation op = ''backup'' \<or> op_operation op = ''doctor'' \<and> op_findings op \<noteq> []"
  shows "\<exists>result findings es' r.
    derive digest random (op\<lparr>op_result := result, op_findings := findings\<rparr>) = Inr es' \<and> r \<in> set es'
    \<and> is_recovery r \<and> ev_fingerprint r = ev_fingerprint e"
proof -
  obtain d i where d: "d \<in> set (drafts digest op)" "e = d\<lparr>ev_event_id := i\<rparr>"
    using derive_events(1) [OF assms(1,2)] by blast
  have sv: "ev_severity d = SevWarning \<or> ev_severity d = SevError" using assms(3) d(2) by simp
  have ok: "\<exists>es'. derive digest random (op\<lparr>op_result := res, op_findings := fs\<rparr>) = Inr es'" for res fs
    using assms(1) by (simp add: derive_def split: if_splits)
  show ?thesis
  proof (cases "op_operation op = ''backup''")
    case True
    let ?op = "op\<lparr>op_result := ''success'', op_findings := []\<rparr>"
    obtain es' where es': "derive digest random ?op = Inr es'" using ok by blast
    let ?r = "add_event ?op (new_event digest ''maintenance.recovered'' SevRecovery ?op ''backup'' ''failure''
      ''Backup recovered'' (no_details\<lparr>ed_category := ''backup''\<rparr>))"
    have "?r \<in> set (drafts digest ?op)" using True by (simp add: drafts_def)
    from derive_events(2) [OF es' this] obtain j where mem: "?r\<lparr>ev_event_id := j\<rparr> \<in> set es'" by blast
    have "is_recovery (?r\<lparr>ev_event_id := j\<rparr>)" by (simp add: is_recovery_def add_event_def new_event_def)
    moreover have "ev_fingerprint (?r\<lparr>ev_event_id := j\<rparr>) = ev_fingerprint e"
      using backup_drafts [OF True d(1) sv] d(2) by (simp add: add_event_def new_event_def)
    ultimately show ?thesis using es' mem by blast
  next
    case False
    then have doc: "op_operation op = ''doctor''" "op_findings op \<noteq> []" using assms(4) by auto
    with d(1) sv obtain f where f: "f \<in> set (op_findings op)" "fd_code f \<noteq> []" "d = event_for_finding digest op f"
      by (auto simp: drafts_def failure_event_def add_event_def new_event_def Let_def split: if_splits)
    let ?f = "f\<lparr>fd_status := ''pass''\<rparr>"
    let ?op = "op\<lparr>op_result := ''success'', op_findings := [?f]\<rparr>"
    obtain es' where es': "derive digest random ?op = Inr es'" using ok by blast
    have "event_for_finding digest ?op ?f \<in> set (drafts digest ?op)"
      using doc f(2) by (simp add: drafts_def)
    from derive_events(2) [OF es' this] obtain j
      where mem: "(event_for_finding digest ?op ?f)\<lparr>ev_event_id := j\<rparr> \<in> set es'" by blast
    have "ev_fingerprint ((event_for_finding digest ?op ?f)\<lparr>ev_event_id := j\<rparr>) = ev_fingerprint e"
      using d(2) f(3) by (simp add: finding_fingerprint)
    moreover have "is_recovery ((event_for_finding digest ?op ?f)\<lparr>ev_event_id := j\<rparr>)"
      by (simp add: event_for_finding_def new_event_def is_recovery_def Let_def split: prod.splits)
    ultimately show ?thesis using es' mem by blast
  qed
qed

lemma failure_has_recovery_witness:
  "\<exists>result findings es' r.
    derive ex_digest (\<lambda>_. None) ((ex_operation ''backup'' ''failure'' [])
      \<lparr>op_result := result, op_findings := findings\<rparr>) = Inr es'
    \<and> r \<in> set es' \<and> is_recovery r \<and> ev_fingerprint r = ev_fingerprint ex_failure"
  by (rule failure_has_recovery [OF ex_derive])
    (simp_all add: ex_failure_def failure_event_def add_event_def new_event_def ex_operation_def)

text \<open>
  The same does not hold of update checks: no outcome of an update check gives a recovery event with the
  fingerprint of a failed one, so the issue that a failed check opens is never cleared.
\<close>

lemma update_check_never_recovers:
  assumes "inj digest" and "op_operation op = ''update-check''" and "op_operation op' = ''update-check''"
    and "derive digest random op = Inr es" and "derive digest random op' = Inr es'"
    and "e \<in> set es" and "ev_severity e = SevError" and "r \<in> set es'" and "is_recovery r"
  shows "ev_fingerprint r \<noteq> ev_fingerprint e"
proof -
  obtain d i d' i' where d: "d \<in> set (drafts digest op)" "e = d\<lparr>ev_event_id := i\<rparr>"
    and d': "d' \<in> set (drafts digest op')" "r = d'\<lparr>ev_event_id := i'\<rparr>"
    using derive_events(1) [OF assms(4,6)] derive_events(1) [OF assms(5,8)] by blast
  have "\<exists>k. ev_fingerprint d = digest k \<and> ik_domain k = ''maintenance''"
    using d assms(2,7) by (auto simp: draft_simps issue_fingerprint_def split: if_splits)
  moreover have "\<exists>k. ev_fingerprint d' = digest k \<and> ik_domain k = ''updates''"
    using d' assms(3,9) by (auto simp: draft_simps issue_fingerprint_def is_recovery_def split: if_splits)
  ultimately show ?thesis using d(2) d'(2) assms(1) by (auto simp: inj_eq)
qed

end
