(* ===== verification/Bounded_Log.thy ===== *)
theory Bounded_Log
  imports Errs "HOL-Library.Product_Lexorder"
begin

text \<open>
  The controller keeps two logs of the same make: the maintenance history and the history of
  notification deliveries. Each record is a JSON file of its own in a private directory; a record is
  written to a temporary file and renamed into place, and then the directory is pruned to a maximum
  number of records, newest first.

  A directory is the list of its entries. What matters of an entry is whether it is a regular file
  whose text decodes to a record: then it holds the record, everything else (directories, symbolic
  links, other text) is foreign. The locale states what both logs promise; its lemmas are the
  consequences that the properties use.
\<close>

section \<open>Directories\<close>

datatype 'a entry = Holds 'a | Foreign

type_synonym 'a directory = "(string \<times> 'a entry) list"

definition read_dir :: "'a directory \<Rightarrow> 'a directory" where
  "read_dir d = sort_slice fst d"

definition rename_into :: "string \<Rightarrow> 'a \<Rightarrow> 'a directory \<Rightarrow> 'a directory" where
  "rename_into name x d = (name, Holds x) # filter (\<lambda>e. fst e \<noteq> name) d"

definition remove_all :: "string list \<Rightarrow> 'a directory \<Rightarrow> 'a directory" where
  "remove_all names d = filter (\<lambda>e. fst e \<notin> set names) d"

fun held :: "(string \<Rightarrow> 'a \<Rightarrow> bool) \<Rightarrow> 'a directory \<Rightarrow> 'a list" where
  "held accepts [] = []"
| "held accepts ((name, Holds x) # d) = (if accepts name x then x # held accepts d else held accepts d)"
| "held accepts ((name, Foreign) # d) = held accepts d"

text \<open>Names are unique, and a record that a listing accepts lies in the file of its own name.\<close>

definition well_kept :: "(string \<Rightarrow> 'a \<Rightarrow> bool) \<Rightarrow> ('a \<Rightarrow> string) \<Rightarrow> 'a directory \<Rightarrow> bool" where
  "well_kept accepts file_name d \<longleftrightarrow>
     distinct (map fst d) \<and> list_all (\<lambda>(name, e). case e of Holds x \<Rightarrow> accepts name x \<longrightarrow> name = file_name x | Foreign \<Rightarrow> True) d"

lemma held_append: "held accepts (d @ e) = held accepts d @ held accepts e"
  by (induction accepts d rule: held.induct) auto

lemma mset_held: "mset d = mset e \<Longrightarrow> mset (held accepts d) = mset (held accepts e)"
proof -
  have h: "mset (held accepts d) = (\<Sum>x\<in>#mset d. mset (held accepts [x]))" for d :: "'a directory"
    by (induction accepts d rule: held.induct) auto
  show "mset d = mset e \<Longrightarrow> mset (held accepts d) = mset (held accepts e)" by (metis h)
qed

lemma mset_held_read [simp]: "mset (held accepts (read_dir d)) = mset (held accepts d)"
  by (rule mset_held) (simp add: read_dir_def)

lemma set_held: "x \<in> set (held accepts d) \<longleftrightarrow> (\<exists>name. (name, Holds x) \<in> set d \<and> accepts name x)"
  by (induction accepts d rule: held.induct) auto

lemma held_file_names:
  assumes "well_kept accepts file_name d"
  shows "distinct (map file_name (held accepts d))" and "file_name ` set (held accepts d) \<subseteq> fst ` set d"
  using assms by (induction accepts d rule: held.induct) (auto simp: well_kept_def)

lemma held_remove_all:
  assumes "well_kept accepts file_name d"
  shows "held accepts (remove_all names d) = filter (\<lambda>x. file_name x \<notin> set names) (held accepts d)"
  using assms by (induction accepts d rule: held.induct) (auto simp: well_kept_def remove_all_def)

lemma well_kept_filter: "well_kept accepts file_name d \<Longrightarrow> well_kept accepts file_name (filter P d)"
  by (auto simp: well_kept_def list_all_iff distinct_map inj_on_def)

lemma well_kept_rename:
  "well_kept accepts file_name d \<Longrightarrow> well_kept accepts file_name (rename_into (file_name x) x d)"
  using well_kept_filter [of accepts file_name d "\<lambda>e. fst e \<noteq> file_name x"]
  by (auto simp: well_kept_def rename_into_def)

lemma well_kept_remove: "well_kept accepts file_name d \<Longrightarrow> well_kept accepts file_name (remove_all names d)"
  unfolding remove_all_def by (rule well_kept_filter)

lemma held_rename:
  assumes "accepts (file_name x) x" and "file_name x \<notin> fst ` set d"
  shows "held accepts (rename_into (file_name x) x d) = x # held accepts d"
proof -
  have "filter (\<lambda>e. fst e \<noteq> file_name x) d = d" using assms(2) by (force simp: filter_id_conv)
  then show ?thesis using assms(1) by (simp add: rename_into_def)
qed

section \<open>What a log promises\<close>

text \<open>
  \<open>append\<close> is the whole operation after the record was found valid; \<open>age\<close> orders records, the
  newest has the greatest age key. The laws speak of the listing only.
\<close>

locale bounded_log =
  fixes listing :: "'d \<Rightarrow> 'a list"
    and append :: "'a \<Rightarrow> 'd \<Rightarrow> 'd"
    and kept :: "'d \<Rightarrow> bool"
    and is_new :: "'a \<Rightarrow> 'd \<Rightarrow> bool"
    and age :: "'a \<Rightarrow> 'k::linorder"
    and limit :: nat
  assumes listing_sorted: "sorted_wrt (\<lambda>a b. age b \<le> age a) (listing d)"
    and append_listing: "kept d \<Longrightarrow> is_new x d \<Longrightarrow>
      \<exists>whole. mset whole = add_mset x (mset (listing d)) \<and> sorted_wrt (\<lambda>a b. age b \<le> age a) whole
        \<and> mset (listing (append x d)) = mset (take limit whole)"
    and append_kept: "kept d \<Longrightarrow> is_new x d \<Longrightarrow> kept (append x d)"
begin

lemma append_whole:
  assumes "kept d" and "is_new x d"
  obtains whole where "set whole = insert x (set (listing d))" "length whole = Suc (length (listing d))"
    "mset whole = add_mset x (mset (listing d))" "sorted_wrt (\<lambda>a b. age b \<le> age a) whole"
    "mset (listing (append x d)) = mset (take limit whole)"
    "set (listing (append x d)) = set (take limit whole)"
    "length (listing (append x d)) = length (take limit whole)"
proof -
  obtain whole where w: "mset whole = add_mset x (mset (listing d))" "sorted_wrt (\<lambda>a b. age b \<le> age a) whole"
    "mset (listing (append x d)) = mset (take limit whole)"
    using append_listing [OF assms] by blast
  show ?thesis
  proof (rule that [OF _ _ w])
    show "set whole = insert x (set (listing d))" using w(1) by (metis set_mset_add_mset_insert set_mset_mset)
    show "length whole = Suc (length (listing d))" using w(1) by (metis size_add_mset size_mset)
    show "set (listing (append x d)) = set (take limit whole)" using w(3) by (rule mset_eq_setD)
    show "length (listing (append x d)) = length (take limit whole)" using w(3) by (rule mset_eq_length)
  qed
qed

lemma bounded: "kept d \<Longrightarrow> is_new x d \<Longrightarrow> length (listing (append x d)) \<le> limit"
  by (rule append_whole [of d x]) auto

lemma nothing_lost:
  assumes "kept d" and "is_new x d" and "length (listing d) < limit"
  shows "mset (listing (append x d)) = add_mset x (mset (listing d))"
  using assms(3) by (rule_tac append_whole [OF assms(1,2)]) simp

lemma subset_of_whole:
  assumes "kept d" and "is_new x d"
  shows "set (listing (append x d)) \<subseteq> insert x (set (listing d))"
  by (rule append_whole [OF assms]) (auto dest: in_set_takeD)

text \<open>A record is only dropped when the log is full of records that are at least as new.\<close>

lemma dropped_is_oldest:
  assumes "kept d" and "is_new x d" and "y \<in> insert x (set (listing d))" and "y \<notin> set (listing (append x d))"
  shows "length (listing (append x d)) = limit \<and> (\<forall>z\<in>set (listing (append x d)). age y \<le> age z)"
proof (rule append_whole [OF assms(1,2)])
  fix whole
  assume w: "set whole = insert x (set (listing d))" "sorted_wrt (\<lambda>a b. age b \<le> age a) whole"
    "set (listing (append x d)) = set (take limit whole)"
    "length (listing (append x d)) = length (take limit whole)"
  from w(1) assms(3) have "y \<in> set (take limit whole @ drop limit whole)" by simp
  with assms(4) w(3) have y: "y \<in> set (drop limit whole)" by (metis UnE set_append)
  then have "limit < length whole" by (metis drop_all length_pos_if_in_set length_drop zero_less_diff)
  moreover have "age y \<le> age z" if "z \<in> set (take limit whole)" for z
  proof -
    have "sorted_wrt (\<lambda>a b. age b \<le> age a) (take limit whole @ drop limit whole)" using w(2) by simp
    then show ?thesis using that y unfolding sorted_wrt_append by blast
  qed
  ultimately show ?thesis using w(3,4) by simp
qed

end

text \<open>How a listing that is pruned by name realises the laws.\<close>

lemma prune_listing:
  assumes "well_kept accepts file_name d"
    and "mset whole = mset (held accepts d)"
    and "names = map file_name (drop n whole)"
  shows "mset (held accepts (remove_all names d)) = mset (take n whole)"
proof -
  have w: "distinct (map file_name whole)"
    using held_file_names(1) [OF assms(1)] assms(2) by (metis mset_eq_imp_distinct_iff mset_map)
  then have disj: "file_name x \<notin> file_name ` set (drop n whole)" if "x \<in> set (take n whole)" for x
    using that by (metis append_take_drop_id map_append distinct_append set_map imageI IntI emptyE)
  have "mset (held accepts (remove_all names d)) = filter_mset (\<lambda>x. file_name x \<notin> set names) (mset whole)"
    using held_remove_all [OF assms(1)] assms(2) by simp
  also have "\<dots> = mset (filter (\<lambda>x. file_name x \<notin> set names) (take n whole @ drop n whole))" by simp
  also have "filter (\<lambda>x. file_name x \<notin> set names) (take n whole @ drop n whole) = take n whole"
    using disj assms(3) unfolding filter_append by (auto simp: filter_id_conv filter_empty_conv)
  finally show ?thesis .
qed

end
