(* ===== verification/Delivery.thy ===== *)
theory Delivery
  imports Event Bounded_Log
begin

text \<open>
  File \<open>internal/notification/state.go\<close>: the active issues and the history of deliveries, kept below
  the controller's configuration directory. The world holds the state file, the directory of
  deliveries, the answers that the file system will give to the coming writes (none listed: they
  succeed) and, in \<open>nw_outside\<close>, whatever the sinks act on. Locks are blocking, so an operation under
  the lock is one step of the model; directory permissions and symbolic links are not modelled.
\<close>

section \<open>State\<close>

record route_delivery =
  ry_route :: string
  ry_delivered :: bool
  ry_last_notified :: instant

record issue =
  iu_fingerprint :: string
  iu_type :: string
  iu_severity :: severity
  iu_target :: string
  iu_job :: string
  iu_service :: string
  iu_resource :: string
  iu_summary :: string
  iu_first_seen :: instant
  iu_last_seen :: instant
  iu_route_delivery :: "route_delivery list"

record state_file =
  sf_schema_version :: int
  sf_issues :: "issue list"

record delivery_result =
  dl_schema_version :: int
  dl_event_id :: string
  dl_fingerprint :: string
  dl_type :: string
  dl_sink :: string
  dl_route :: string
  dl_attempted_at :: instant
  dl_result :: string
  dl_attempts :: int
  dl_http_status :: int
  dl_category :: string
  dl_test :: bool

record 'x notification_world =
  nw_state :: "state_file entry option"
  nw_deliveries :: "delivery_result directory"
  nw_faults :: "error option list"
  nw_outside :: 'x

record store =
  so_root :: string
  so_max_entries :: int

section \<open>Validity\<close>

definition valid_issue :: "issue \<Rightarrow> bool" where
  "valid_issue u \<longleftrightarrow>
     length (iu_fingerprint u) = 64 \<and> iu_type u \<noteq> [] \<and> iu_target u \<noteq> [] \<and> iu_summary u \<noteq> []
     \<and> iu_first_seen u \<noteq> zero_time \<and> iu_last_seen u \<noteq> zero_time
     \<and> (iu_severity u = SevWarning \<or> iu_severity u = SevError \<or> iu_severity u = SevInfo)"

definition valid_event_id :: "string \<Rightarrow> bool" where
  "valid_event_id v \<longleftrightarrow>
     has_prefix v ''evt-'' \<and> length v \<le> 128 \<and> \<not> list_ex (\<lambda>c. c = CHR ''/'' \<or> c = CHR 0x5C \<or> c = CHR 0x00) v"

definition valid_local_name :: "string \<Rightarrow> bool" where
  "valid_local_name v \<longleftrightarrow>
     v \<noteq> [] \<and> length v \<le> 63 \<and> list_all (\<lambda>c. is_lower c \<or> is_digit c \<or> c = CHR ''-'') v"

definition valid_delivery :: "delivery_result \<Rightarrow> bool" where
  "valid_delivery d \<longleftrightarrow>
     dl_schema_version d = 1 \<and> valid_event_id (dl_event_id d) \<and> length (dl_fingerprint d) = 64 \<and> dl_type d \<noteq> []
     \<and> valid_local_name (dl_sink d) \<and> (dl_route d = [] \<or> valid_local_name (dl_route d))
     \<and> dl_attempted_at d \<noteq> zero_time
     \<and> (dl_result d = ''delivered'' \<or> dl_result d = ''failed'' \<or> dl_result d = ''suppressed'')"

section \<open>The store\<close>

definition local_path :: "string \<Rightarrow> string \<Rightarrow> string \<Rightarrow> string result" where
  "local_path cwd base value =
     (let abs = path_abs cwd (path_join base value)
      in if rel_escapes (path_rel base abs) then Inl (errorf ''notification path escapes configuration directory'')
         else Inr abs)"

definition open_store :: "string \<Rightarrow> config \<Rightarrow> store result" where
  "open_store cwd c =
     (case cfg_notifications c of
        None \<Rightarrow> Inl (errorf ''notification configuration is not declared'')
      | Some n \<Rightarrow>
          if cfg_source_directory c = [] then Inl (errorf ''notification state requires a file-backed configuration'')
          else rbind (validate_notifications n) (\<lambda>_.
               rbind (local_path cwd (cfg_source_directory c) (nt_state_directory n)) (\<lambda>root.
               Inr \<lparr>so_root = root, so_max_entries = nt_history_max_entries n\<rparr>)))"

definition load_state :: "'x notification_world \<Rightarrow> issue list result" where
  "load_state w =
     (case nw_state w of
        None \<Rightarrow> Inr []
      | Some Foreign \<Rightarrow> Inl (wrapf ''notification state is corrupt: '' (errorf ''decode''))
      | Some (Holds st) \<Rightarrow>
          if sf_schema_version st \<noteq> 1
          then Inl (errorf (''unsupported notification state schema version '' @ show_int (sf_schema_version st)))
          else if \<not> list_all valid_issue (sf_issues st)
          then Inl (errorf ''notification state contains an invalid issue'')
          else Inr (sort_slice iu_fingerprint (sf_issues st)))"

definition next_fault :: "'x notification_world \<Rightarrow> error option \<times> 'x notification_world" where
  "next_fault w = (case nw_faults w of [] \<Rightarrow> (None, w) | f # fs \<Rightarrow> (f, w\<lparr>nw_faults := fs\<rparr>))"

definition save_state :: "issue list \<Rightarrow> 'x notification_world \<Rightarrow> 'x notification_world \<times> error option" where
  "save_state issues w =
     (case next_fault w of
        (Some e, w1) \<Rightarrow> (w1, Some e)
      | (None, w1) \<Rightarrow>
          (w1\<lparr>nw_state := Some (Holds \<lparr>sf_schema_version = 1, sf_issues = sort_slice iu_fingerprint issues\<rparr>)\<rparr>, None))"

definition active_issues :: "'x notification_world \<Rightarrow> issue list result" where
  "active_issues w = load_state w"

section \<open>The history of deliveries\<close>

definition delivery_file :: "delivery_result \<Rightarrow> string" where
  "delivery_file d = dl_event_id d @ ''-'' @ dl_sink d @ ''-'' @ non_empty (dl_route d) ''test'' @ ''.json''"

definition lists_delivery :: "string \<Rightarrow> delivery_result \<Rightarrow> bool" where
  "lists_delivery name d \<longleftrightarrow> has_prefix name ''evt-'' \<and> has_suffix name ''.json'' \<and> valid_delivery d"

definition delivery_history :: "delivery_result directory \<Rightarrow> delivery_result list" where
  "delivery_history d = sort_slice (\<lambda>r. - dl_attempted_at r) (held lists_delivery (read_dir d))"

definition prune_deliveries :: "int \<Rightarrow> delivery_result directory \<Rightarrow> delivery_result directory" where
  "prune_deliveries max_entries d =
     (let history = delivery_history d
      in if int (length history) \<le> max_entries then d
         else remove_all (map delivery_file (drop (nat max_entries) history)) d)"

definition record_delivery :: "int \<Rightarrow> delivery_result \<Rightarrow> delivery_result directory \<Rightarrow> delivery_result directory" where
  "record_delivery max_entries r d = prune_deliveries max_entries (rename_into (delivery_file r) r d)"

definition append_delivery :: "int \<Rightarrow> delivery_result \<Rightarrow> 'x notification_world \<Rightarrow> 'x notification_world \<times> error option" where
  "append_delivery max_entries r w =
     (if \<not> valid_delivery r then (w, Some (errorf ''invalid notification delivery record''))
      else case next_fault w of
        (Some e, w1) \<Rightarrow> (w1, Some e)
      | (None, w1) \<Rightarrow> (w1\<lparr>nw_deliveries := record_delivery max_entries r (nw_deliveries w1)\<rparr>, None))"

section \<open>Lemmas\<close>

lemma next_fault_world [simp]:
  "next_fault w = (f, w1) \<Longrightarrow> nw_state w1 = nw_state w \<and> nw_deliveries w1 = nw_deliveries w \<and> nw_outside w1 = nw_outside w"
  by (auto simp: next_fault_def split: list.splits)

lemma valid_delivery_listed: "valid_delivery r \<Longrightarrow> lists_delivery (delivery_file r) r"
  by (auto simp: lists_delivery_def valid_delivery_def valid_event_id_def delivery_file_def has_prefix_iff has_suffix_iff)

lemma local_name_no_slash: "valid_local_name v \<Longrightarrow> CHR ''/'' \<notin> set v"
  by (auto simp: valid_local_name_def list_all_iff char_eval)

lemma plain_file_name:
  assumes "CHR ''/'' \<notin> set (dl_event_id d)" "has_prefix (dl_event_id d) ''evt-''"
    "CHR ''/'' \<notin> set (dl_sink d)" "CHR ''/'' \<notin> set (dl_route d)"
  shows "plain (delivery_file d)"
proof -
  obtain t where t: "dl_event_id d = ''evt-'' @ t" using assms(2) unfolding has_prefix_iff by blast
  have "CHR ''/'' \<notin> set (non_empty (dl_route d) ''test'')" using assms(4) by (simp add: non_empty_def)
  then have "CHR ''/'' \<notin> set (delivery_file d)" using assms(1,3) by (simp add: delivery_file_def)
  moreover have "length (delivery_file d) \<ge> 4" "hd (delivery_file d) = CHR ''e''"
    using t by (simp_all add: delivery_file_def)
  ultimately show ?thesis by (auto simp: plain_def)
qed

definition kept_deliveries :: "delivery_result directory \<Rightarrow> bool" where
  "kept_deliveries = well_kept lists_delivery delivery_file"

definition new_delivery :: "delivery_result \<Rightarrow> delivery_result directory \<Rightarrow> bool" where
  "new_delivery r d \<longleftrightarrow> valid_delivery r \<and> delivery_file r \<notin> fst ` set d"

lemma mset_delivery_history: "mset (delivery_history d) = mset (held lists_delivery d)"
  by (simp add: delivery_history_def)

lemma delivery_history_sorted:
  "sorted_wrt (\<lambda>a b. dl_attempted_at b \<le> dl_attempted_at a) (delivery_history d)"
proof -
  have "sorted (map (\<lambda>r. - dl_attempted_at r) (delivery_history d))" by (simp add: delivery_history_def)
  then show ?thesis by (simp add: sorted_map)
qed

lemma pruned_deliveries:
  assumes "kept_deliveries d" and "0 \<le> n"
  shows "mset (delivery_history (prune_deliveries n d)) = mset (take (nat n) (delivery_history d))"
proof (cases "int (length (delivery_history d)) \<le> n")
  case False
  with prune_listing [of lists_delivery delivery_file d "delivery_history d" _ "nat n"] assms(1)
  show ?thesis by (simp add: prune_deliveries_def Let_def mset_delivery_history kept_deliveries_def)
qed (use assms in \<open>simp add: prune_deliveries_def Let_def nat_le_iff take_all\<close>)

interpretation deliveries: bounded_log delivery_history "record_delivery (int n)" kept_deliveries
    new_delivery dl_attempted_at n for n
proof unfold_locales
  fix d x
  assume d: "kept_deliveries d" and x: "new_delivery x d"
  let ?d = "rename_into (delivery_file x) x d"
  have k: "kept_deliveries ?d" using d well_kept_rename by (simp add: kept_deliveries_def)
  have "mset (delivery_history ?d) = add_mset x (mset (delivery_history d))"
    using x held_rename [of lists_delivery delivery_file x d] valid_delivery_listed
    by (simp add: new_delivery_def mset_delivery_history)
  then show "\<exists>whole. mset whole = add_mset x (mset (delivery_history d))
      \<and> sorted_wrt (\<lambda>a b. dl_attempted_at b \<le> dl_attempted_at a) whole
      \<and> mset (delivery_history (record_delivery (int n) x d)) = mset (take n whole)"
    using delivery_history_sorted pruned_deliveries [OF k, of "int n"]
    by (intro exI [of _ "delivery_history ?d"]) (simp add: record_delivery_def)
  show "kept_deliveries (record_delivery (int n) x d)"
    using k well_kept_remove by (auto simp: record_delivery_def prune_deliveries_def kept_deliveries_def Let_def)
qed (rule delivery_history_sorted)

section \<open>Properties\<close>

text \<open>
  Notification state never leaves the configuration directory: whatever the policy says, the root
  that \<open>OpenStore\<close> works below is the configuration's own directory or lies below it, and every file
  name of a delivery record is a single path element.
\<close>

theorem store_contained:
  assumes "open_store cwd c = Inr so"
    and "is_rooted (cfg_source_directory c)" and "path_clean (cfg_source_directory c) = cfg_source_directory c"
    and "cfg_source_directory c \<noteq> ''/''"
  shows "covers (cfg_source_directory c) (so_root so)
    \<and> (valid_delivery d \<longrightarrow> plain (delivery_file d))"
proof -
  let ?base = "cfg_source_directory c"
  obtain n where n: "cfg_notifications c = Some n"
    and p: "local_path cwd ?base (nt_state_directory n) = Inr (so_root so)"
    using assms(1) by (auto simp: open_store_def result_simps split: option.splits if_splits)
  have j: "is_rooted (path_join ?base (nt_state_directory n))"
    using assms(2) by (rule path_join_rooted)
  then have root: "so_root so = path_clean (path_join ?base (nt_state_directory n))"
    and esc: "\<not> rel_escapes (path_rel ?base (so_root so))"
    using p by (auto simp: local_path_def path_abs_def Let_def split: if_splits)
  have "is_rooted (so_root so)" using root j path_clean_rooted by simp
  from path_rel_rooted [OF esc assms(2) this] assms(3,4) root
  have "covers ?base (so_root so)" by (auto simp: covers_def path_clean_idem)
  moreover have "plain (delivery_file d)" if "valid_delivery d"
  proof -
    have e: "valid_event_id (dl_event_id d)" and k: "valid_local_name (dl_sink d)"
      and r: "dl_route d = [] \<or> valid_local_name (dl_route d)"
      using that unfolding valid_delivery_def by blast+
    have "CHR ''/'' \<notin> set (dl_event_id d)" "has_prefix (dl_event_id d) ''evt-''"
      using e unfolding valid_event_id_def list_ex_iff by blast+
    moreover have "CHR ''/'' \<notin> set (dl_sink d)" "CHR ''/'' \<notin> set (dl_route d)"
      using k r local_name_no_slash by auto
    ultimately show ?thesis by (rule plain_file_name)
  qed
  ultimately show ?thesis by blast
qed

definition ex_delivery :: "string \<Rightarrow> string \<Rightarrow> delivery_result" where
  "ex_delivery s r =
     \<lparr>dl_schema_version = 1, dl_event_id = ''evt-1'', dl_fingerprint = replicate 64 CHR ''0'', dl_type = ''backup.failed'',
      dl_sink = s, dl_route = r, dl_attempted_at = 5, dl_result = ''delivered'', dl_attempts = 1,
      dl_http_status = 0, dl_category = [], dl_test = False\<rparr>"

definition ex_noted :: config where
  "ex_noted = ex_config\<lparr>cfg_notifications := Some ex_notifications\<rparr>"

lemma store_contained_witness:
  "covers ''/home/me/cfg'' ''/home/me/cfg/.bebop/notes'' \<and> plain (delivery_file (ex_delivery ''log'' ''all''))"
proof -
  have src: "cfg_source_directory ex_noted = ''/home/me/cfg''" by (simp add: ex_noted_def ex_config_def)
  have not: "cfg_notifications ex_noted = Some ex_notifications"
    and dir: "nt_state_directory ex_notifications = ''.bebop/notes''" "nt_history_max_entries ex_notifications = 100"
    by (simp_all add: ex_noted_def ex_notifications_def)
  have o: "open_store ''/'' ex_noted = Inr \<lparr>so_root = ''/home/me/cfg/.bebop/notes'', so_max_entries = 100\<rparr>"
    using ex_notifications_valid
    by (simp add: open_store_def src not dir local_path_def path_abs_def path_join_def path_clean_def clean_elements_def
        push_element_def is_rooted_def path_rel_def rel_escapes_def)
  have v: "valid_delivery (ex_delivery ''log'' ''all'')"
    by (simp add: valid_delivery_def ex_delivery_def valid_event_id_def valid_local_name_def zero_time_def char_eval)
  show ?thesis
    using store_contained [OF o, of "ex_delivery ''log'' ''all''"] v
    by (simp add: src is_rooted_def path_clean_def clean_elements_def push_element_def)
qed

text \<open>
  The delivery history is bounded and forgets the oldest first: a recorded delivery leaves at most
  the configured number of records, all of them old records or the new one, every file still lies
  under its own name, and a record is only missing afterwards if the history is full of records that
  are at least as recent.
\<close>

theorem delivery_history_bounded:
  assumes "kept_deliveries (nw_deliveries w)" and "new_delivery r (nw_deliveries w)"
    and "append_delivery (int n) r w = (w', None)"
  shows "kept_deliveries (nw_deliveries w')
    \<and> length (delivery_history (nw_deliveries w')) \<le> n
    \<and> set (delivery_history (nw_deliveries w')) \<subseteq> insert r (set (delivery_history (nw_deliveries w)))
    \<and> (\<forall>y \<in> insert r (set (delivery_history (nw_deliveries w))) - set (delivery_history (nw_deliveries w')).
         length (delivery_history (nw_deliveries w')) = n
         \<and> (\<forall>z\<in>set (delivery_history (nw_deliveries w')). dl_attempted_at y \<le> dl_attempted_at z))"
proof -
  have w': "nw_deliveries w' = record_delivery (int n) r (nw_deliveries w)"
    using assms(3) by (auto simp: append_delivery_def split: prod.splits option.splits if_splits)
  note facts = deliveries.append_kept deliveries.bounded deliveries.subset_of_whole
  show ?thesis
    unfolding w' using facts [OF assms(1,2), of n] deliveries.dropped_is_oldest [OF assms(1,2)] by blast
qed

definition ex_world :: "unit notification_world" where
  "ex_world = \<lparr>nw_state = None, nw_deliveries = [], nw_faults = [], nw_outside = ()\<rparr>"

lemma delivery_history_bounded_witness:
  "length (delivery_history (nw_deliveries (fst (append_delivery 1 (ex_delivery ''log'' ''all'') ex_world)))) \<le> 1"
proof -
  have v: "valid_delivery (ex_delivery ''log'' ''all'')"
    by (simp add: valid_delivery_def ex_delivery_def valid_event_id_def valid_local_name_def zero_time_def char_eval)
  obtain w' where w': "append_delivery (int 1) (ex_delivery ''log'' ''all'') ex_world = (w', None)"
    using v by (simp add: append_delivery_def next_fault_def ex_world_def)
  have "kept_deliveries (nw_deliveries ex_world)" "new_delivery (ex_delivery ''log'' ''all'') (nw_deliveries ex_world)"
    using v by (simp_all add: kept_deliveries_def well_kept_def new_delivery_def ex_world_def)
  from delivery_history_bounded [OF this w'] w' show ?thesis by simp
qed

text \<open>
  File names are ambiguous, because sink and route names may hold the dash that separates them: two
  different deliveries of one event fall into the same file, and the second replaces the first.
\<close>

lemma delivery_files_collide:
  "ex_delivery ''a-b'' ''c'' \<noteq> ex_delivery ''a'' ''b-c''"
  "delivery_file (ex_delivery ''a-b'' ''c'') = delivery_file (ex_delivery ''a'' ''b-c'')"
  "delivery_history (record_delivery 10 (ex_delivery ''a'' ''b-c'') (record_delivery 10 (ex_delivery ''a-b'' ''c'') []))
     = [ex_delivery ''a'' ''b-c'']"
proof -
  show f: "delivery_file (ex_delivery ''a-b'' ''c'') = delivery_file (ex_delivery ''a'' ''b-c'')"
    by (simp add: delivery_file_def ex_delivery_def non_empty_def)
  show "ex_delivery ''a-b'' ''c'' \<noteq> ex_delivery ''a'' ''b-c''" by (simp add: ex_delivery_def)
  have v: "lists_delivery (delivery_file (ex_delivery ''a'' ''b-c'')) (ex_delivery ''a'' ''b-c'')"
    by (rule valid_delivery_listed)
      (simp add: valid_delivery_def ex_delivery_def valid_event_id_def valid_local_name_def zero_time_def char_eval)
  show "delivery_history (record_delivery 10 (ex_delivery ''a'' ''b-c'') (record_delivery 10 (ex_delivery ''a-b'' ''c'') []))
     = [ex_delivery ''a'' ''b-c'']"
  proof -
    have one: "length (delivery_history [(name, Holds x)]) \<le> 10" for name x
      by (simp add: delivery_history_def read_dir_def)
    show ?thesis
      using one by (simp add: record_delivery_def prune_deliveries_def rename_into_def f Let_def)
        (simp add: delivery_history_def read_dir_def v)
  qed
qed

end
