(* ===== verification/Notifier.thy ===== *)
theory Notifier
  imports Delivery
begin

text \<open>
  File \<open>internal/notification/service.go\<close>: what happens to a batch of events. Under the lock the
  state is loaded, every event is matched against the routes in turn, and the state is saved; a sink
  acts on the part \<open>nw_outside\<close> of the world. Results and world changes made before an error stay, the
  changed issues are only saved when no error occurred. Taking the lock is one of the file system
  calls that can fail.
\<close>

section \<open>Routes\<close>

definition recovery_matches :: "string \<Rightarrow> string \<Rightarrow> bool" where
  "recovery_matches selected recovered \<longleftrightarrow>
     (selected, recovered) \<in> set
       [(''backup.failed'', ''maintenance.recovered''), (''doctor.warning'', ''doctor.recovered''),
        (''doctor.failed'', ''doctor.recovered''), (''updates.available'', ''updates.cleared''),
        (''maintenance.failed'', ''maintenance.recovered''), (''storage.failed'', ''storage.recovered''),
        (''service.unhealthy'', ''service.recovered'')]"

definition route_matches :: "notification_route \<Rightarrow> event \<Rightarrow> bool \<Rightarrow> bool" where
  "route_matches route e recovery =
     (if recovery \<and> \<not> nr_recoveries route then False
      else if \<not> recovery \<and> nr_severities route \<noteq> [] \<and> \<not> list_ex (\<lambda>s. s = ev_severity e) (nr_severities route) then False
      else list_ex (\<lambda>selected. selected = ev_type e \<or> (recovery \<and> recovery_matches selected (ev_type e))) (nr_events route))"

definition cooldown_elapsed :: "notification_route \<Rightarrow> instant \<Rightarrow> instant \<Rightarrow> bool" where
  "cooldown_elapsed route last_notified now =
     (if last_notified \<noteq> zero_time \<and> nr_cooldown route \<noteq> []
      then (case parse_duration (nr_cooldown route) of None \<Rightarrow> False | Some d \<Rightarrow> \<not> now < last_notified + d)
      else False)"

section \<open>Issues\<close>

fun find_issue :: "issue list \<Rightarrow> string \<Rightarrow> nat option" where
  "find_issue [] fp = None"
| "find_issue (u # us) fp = (if iu_fingerprint u = fp then Some 0 else map_option Suc (find_issue us fp))"

definition route_delivery_of :: "issue \<Rightarrow> string \<Rightarrow> route_delivery" where
  "route_delivery_of u route =
     (case find (\<lambda>y. ry_route y = route) (iu_route_delivery u) of
        Some y \<Rightarrow> y | None \<Rightarrow> \<lparr>ry_route = route, ry_delivered = False, ry_last_notified = zero_time\<rparr>)"

fun mark_first :: "string \<Rightarrow> bool \<Rightarrow> instant \<Rightarrow> route_delivery list \<Rightarrow> route_delivery list option" where
  "mark_first route delivered t [] = None"
| "mark_first route delivered t (y # ys) =
     (if ry_route y = route then Some (y\<lparr>ry_delivered := delivered, ry_last_notified := t\<rparr> # ys)
      else map_option (Cons y) (mark_first route delivered t ys))"

definition set_route_delivery :: "issue \<Rightarrow> string \<Rightarrow> bool \<Rightarrow> instant \<Rightarrow> issue" where
  "set_route_delivery u route delivered t =
     u\<lparr>iu_route_delivery :=
        (case mark_first route delivered t (iu_route_delivery u) of
           Some ys \<Rightarrow> ys
         | None \<Rightarrow> sort_slice ry_route (iu_route_delivery u
             @ [\<lparr>ry_route = route, ry_delivered = delivered, ry_last_notified = t\<rparr>]))\<rparr>"

section \<open>Delivery\<close>

record delivery_outcome =
  dv_delivered :: bool
  dv_attempts :: int
  dv_http_status :: int
  dv_category :: string

type_synonym 'x sink = "event \<Rightarrow> 'x \<Rightarrow> 'x \<times> delivery_outcome"

record 'x notifier =
  nf_policy :: notifications
  nf_max_entries :: int
  nf_sinks :: "string \<Rightarrow> 'x sink option"

definition result_of :: "event \<Rightarrow> string \<Rightarrow> string \<Rightarrow> delivery_outcome \<Rightarrow> delivery_result" where
  "result_of e sink route out =
     \<lparr>dl_schema_version = 1, dl_event_id = ev_event_id e, dl_fingerprint = ev_fingerprint e, dl_type = ev_type e,
      dl_sink = sink, dl_route = route, dl_attempted_at = ev_occurred_at e,
      dl_result = (if dv_delivered out then ''delivered'' else ''failed''), dl_attempts = dv_attempts out,
      dl_http_status = dv_http_status out, dl_category = dv_category out, dl_test = ev_test e\<rparr>"

definition suppressed_result :: "event \<Rightarrow> notification_route \<Rightarrow> delivery_result" where
  "suppressed_result e route =
     \<lparr>dl_schema_version = 1, dl_event_id = ev_event_id e, dl_fingerprint = ev_fingerprint e, dl_type = ev_type e,
      dl_sink = nr_sink route, dl_route = nr_name route, dl_attempted_at = ev_occurred_at e,
      dl_result = ''suppressed'', dl_attempts = 0, dl_http_status = 0, dl_category = ''already_active'', dl_test = False\<rparr>"

definition deliver_one :: "'x notifier \<Rightarrow> notification_route \<Rightarrow> event \<Rightarrow> 'x notification_world
    \<Rightarrow> 'x notification_world \<times> delivery_result result" where
  "deliver_one nf route e w =
     (case nf_sinks nf (nr_sink route) of
        None \<Rightarrow> (w, Inl (errorf (''notification route '' @ nr_name route @ '' sink '' @ nr_sink route @ '' is unavailable'')))
      | Some deliver \<Rightarrow>
          (case deliver e (nw_outside w) of (x, out) \<Rightarrow>
            (let r = result_of e (nr_sink route) (nr_name route) out in
             case append_delivery (nf_max_entries nf) r (w\<lparr>nw_outside := x\<rparr>) of
               (w1, Some err) \<Rightarrow> (w1, Inl err)
             | (w1, None) \<Rightarrow> (w1, Inr r))))"

fun deliver_all :: "'x notifier \<Rightarrow> event \<Rightarrow> notification_route list \<Rightarrow> delivery_result list \<Rightarrow> 'x notification_world
    \<Rightarrow> 'x notification_world \<times> delivery_result list \<times> error option" where
  "deliver_all nf e [] rs w = (w, rs, None)"
| "deliver_all nf e (route # routes) rs w =
     (case deliver_one nf route e w of
        (w1, Inl err) \<Rightarrow> (w1, rs, Some err)
      | (w1, Inr r) \<Rightarrow> deliver_all nf e routes (rs @ [r]) w1)"

text \<open>The loop over the routes for a warning or an error; \<open>escalated\<close> was decided before the loop.\<close>

fun notify_issue :: "'x notifier \<Rightarrow> event \<Rightarrow> bool \<Rightarrow> notification_route list \<Rightarrow> issue \<Rightarrow> delivery_result list
    \<Rightarrow> 'x notification_world \<Rightarrow> 'x notification_world \<times> issue \<times> delivery_result list \<times> error option" where
  "notify_issue nf e escalated [] u rs w = (w, u, rs, None)"
| "notify_issue nf e escalated (route # routes) u rs w =
     (if \<not> route_matches route e False then notify_issue nf e escalated routes u rs w
      else (let y = route_delivery_of u (nr_name route) in
        if ry_delivered y \<and> \<not> escalated \<and> \<not> cooldown_elapsed route (ry_last_notified y) (ev_occurred_at e)
        then (case append_delivery (nf_max_entries nf) (suppressed_result e route) w of
                (w1, Some err) \<Rightarrow> (w1, u, rs, Some err)
              | (w1, None) \<Rightarrow> notify_issue nf e escalated routes u (rs @ [suppressed_result e route]) w1)
        else (case deliver_one nf route e w of
                (w1, Inl err) \<Rightarrow> (w1, u, rs, Some err)
              | (w1, Inr r) \<Rightarrow>
                  notify_issue nf e escalated routes
                    (if dl_result r = ''delivered'' then set_route_delivery u (nr_name route) True (ev_occurred_at e) else u)
                    (rs @ [r]) w1)))"

definition new_issue :: "event \<Rightarrow> issue" where
  "new_issue e =
     \<lparr>iu_fingerprint = ev_fingerprint e, iu_type = ev_type e, iu_severity = ev_severity e, iu_target = ev_target e,
      iu_job = ev_job e, iu_service = ev_service e, iu_resource = ev_resource e, iu_summary = ev_summary e,
      iu_first_seen = ev_occurred_at e, iu_last_seen = ev_occurred_at e, iu_route_delivery = []\<rparr>"

definition seen_again :: "event \<Rightarrow> issue \<Rightarrow> issue" where
  "seen_again e u = u\<lparr>iu_type := ev_type e, iu_severity := ev_severity e, iu_last_seen := ev_occurred_at e,
     iu_summary := ev_summary e\<rparr>"

definition process_recovery :: "'x notifier \<Rightarrow> event \<Rightarrow> issue list \<Rightarrow> delivery_result list \<Rightarrow> 'x notification_world
    \<Rightarrow> 'x notification_world \<times> issue list \<times> delivery_result list \<times> error option" where
  "process_recovery nf e us rs w =
     (case find_issue us (ev_fingerprint e) of
        None \<Rightarrow> (w, us, rs, None)
      | Some i \<Rightarrow>
          (case deliver_all nf e
              (filter (\<lambda>route. route_matches route e True \<and> ry_delivered (route_delivery_of (us ! i) (nr_name route)))
                (nt_routes (nf_policy nf))) rs w of
             (w1, rs1, Some err) \<Rightarrow> (w1, us, rs1, Some err)
           | (w1, rs1, None) \<Rightarrow> (w1, take i us @ drop (Suc i) us, rs1, None)))"

definition process_issue :: "'x notifier \<Rightarrow> event \<Rightarrow> issue list \<Rightarrow> delivery_result list \<Rightarrow> 'x notification_world
    \<Rightarrow> 'x notification_world \<times> issue list \<times> delivery_result list \<times> error option" where
  "process_issue nf e us rs w =
     (let us1 = (case find_issue us (ev_fingerprint e) of None \<Rightarrow> us @ [new_issue e] | Some _ \<Rightarrow> us);
          i = (case find_issue us (ev_fingerprint e) of None \<Rightarrow> length us | Some i \<Rightarrow> i);
          escalated = (severity_rank (ev_severity e) > severity_rank (iu_severity (us1 ! i)))
      in case notify_issue nf e escalated (nt_routes (nf_policy nf)) (seen_again e (us1 ! i)) rs w of
           (w1, u, rs1, err) \<Rightarrow> (w1, us1[i := u], rs1, err))"

definition process_event :: "'x notifier \<Rightarrow> event \<Rightarrow> issue list \<Rightarrow> delivery_result list \<Rightarrow> 'x notification_world
    \<Rightarrow> 'x notification_world \<times> issue list \<times> delivery_result list \<times> error option" where
  "process_event nf e us rs w =
     (if is_recovery e then process_recovery nf e us rs w
      else if ev_severity e = SevInfo then
        (case deliver_all nf e (filter (\<lambda>route. route_matches route e False) (nt_routes (nf_policy nf))) rs w of
           (w1, rs1, err) \<Rightarrow> (w1, us, rs1, err))
      else process_issue nf e us rs w)"

fun process_events :: "'x notifier \<Rightarrow> event list \<Rightarrow> issue list \<Rightarrow> delivery_result list \<Rightarrow> 'x notification_world
    \<Rightarrow> 'x notification_world \<times> issue list \<times> delivery_result list \<times> error option" where
  "process_events nf [] us rs w = (w, us, rs, None)"
| "process_events nf (e # es) us rs w =
     (case process_event nf e us rs w of
        (w1, us1, rs1, Some err) \<Rightarrow> (w1, us1, rs1, Some err)
      | (w1, us1, rs1, None) \<Rightarrow> process_events nf es us1 rs1 w1)"

definition selected_events :: "notifications \<Rightarrow> event list \<Rightarrow> event list" where
  "selected_events policy es =
     sort_slice (\<lambda>e. (ev_fingerprint e, ev_type e))
       (filter (\<lambda>e. \<not> (ev_origin e = ''manual'' \<and> \<not> nt_notify_manual policy)) es)"

definition process_batch :: "'x notifier \<Rightarrow> event list \<Rightarrow> 'x notification_world
    \<Rightarrow> 'x notification_world \<times> delivery_result list \<times> error option" where
  "process_batch nf es w =
     (if \<not> nt_enabled (nf_policy nf) \<or> es = [] then (w, [], None)
      else if selected_events (nf_policy nf) es = [] then (w, [], None)
      else case next_fault w of
        (Some err, w1) \<Rightarrow> (w1, [], Some (wrapf ''acquire notification state lock: '' err))
      | (None, w1) \<Rightarrow>
        (case load_state w1 of
           Inl err \<Rightarrow> (w1, [], Some err)
         | Inr us \<Rightarrow>
           (case process_events nf (selected_events (nf_policy nf) es) us [] w1 of
              (w2, us2, rs, Some err) \<Rightarrow> (w2, rs, Some err)
            | (w2, us2, rs, None) \<Rightarrow> (case save_state us2 w2 of (w3, err) \<Rightarrow> (w3, rs, err)))))"

text \<open>\<open>Test\<close>: a synthetic event straight to one sink; the state of issues is neither read nor written.\<close>

definition test_event :: "(issue_key \<Rightarrow> string) \<Rightarrow> (nat \<Rightarrow> string option) \<Rightarrow> instant \<Rightarrow> event" where
  "test_event digest random now =
     \<lparr>ev_schema_version = 1, ev_event_id = event_id random now 0, ev_type = ''maintenance.skipped'', ev_severity = SevInfo,
      ev_occurred_at = now, ev_fingerprint = issue_fingerprint digest ''test'' ''controller'' ''test'' [] [] ''notification'',
      ev_origin = ''manual'', ev_target = ''controller'', ev_job = ''test'', ev_service = [], ev_resource = [],
      ev_summary = ''Bebop test notification'', ev_details = no_details\<lparr>ed_category := ''test''\<rparr>, ev_test = True\<rparr>"

definition test_sink :: "'x notifier \<Rightarrow> (issue_key \<Rightarrow> string) \<Rightarrow> (nat \<Rightarrow> string option) \<Rightarrow> instant \<Rightarrow> string
    \<Rightarrow> 'x notification_world \<Rightarrow> 'x notification_world \<times> delivery_result result" where
  "test_sink nf digest random now sink w =
     (case nf_sinks nf sink of
        None \<Rightarrow> (w, Inl (errorf (''unknown notification sink '' @ go_quote sink)))
      | Some deliver \<Rightarrow>
          (let e = test_event digest random now in
           case deliver e (nw_outside w) of (x, out) \<Rightarrow>
             (case append_delivery (nf_max_entries nf) (result_of e sink [] out) (w\<lparr>nw_outside := x\<rparr>) of
                (w1, Some err) \<Rightarrow> (w1, Inl err)
              | (w1, None) \<Rightarrow> (w1, Inr (result_of e sink [] out)))))"

section \<open>Lemmas\<close>

lemma find_issue_none: "find_issue us fp = None \<longleftrightarrow> fp \<notin> iu_fingerprint ` set us"
  by (induction us) auto

lemma filter_other_issues [simp]:
  "fp \<notin> iu_fingerprint ` set us \<Longrightarrow> filter (\<lambda>u. iu_fingerprint u \<noteq> fp) us = us"
  by (induction us) auto

lemma find_issue_some: "find_issue us fp = Some i \<Longrightarrow> i < length us \<and> iu_fingerprint (us ! i) = fp"
  by (induction us arbitrary: i) (auto split: if_splits)

lemma mark_first_routes:
  "(case mark_first route b t ys of None \<Rightarrow> route \<notin> ry_route ` set ys
    | Some zs \<Rightarrow> map ry_route zs = map ry_route ys \<and> route \<in> ry_route ` set ys)"
  by (induction ys) (auto split: option.splits)

text \<open>The deliveries of an issue are kept in strict order of their routes.\<close>

definition tidy_issue :: "issue \<Rightarrow> bool" where
  "tidy_issue u \<longleftrightarrow> sorted (map ry_route (iu_route_delivery u)) \<and> distinct (map ry_route (iu_route_delivery u))"

lemma set_route_delivery_tidy: "tidy_issue u \<Longrightarrow> tidy_issue (set_route_delivery u route b t)"
  using mark_first_routes [where route = route and b = b and t = t and ys = "iu_route_delivery u"]
  by (auto simp: tidy_issue_def set_route_delivery_def split: option.splits)

lemma set_route_delivery_frame:
  "\<exists>ys. set_route_delivery u route b t = u\<lparr>iu_route_delivery := ys\<rparr>"
  by (auto simp: set_route_delivery_def)

lemma append_delivery_frame:
  "append_delivery n r w = (w', err) \<Longrightarrow> nw_state w' = nw_state w \<and> nw_outside w' = nw_outside w"
  by (auto simp: append_delivery_def split: if_splits prod.splits option.splits)

lemma deliver_one_frame: "deliver_one nf route e w = (w', out) \<Longrightarrow> nw_state w' = nw_state w"
  by (auto simp: deliver_one_def Let_def dest!: append_delivery_frame split: option.splits prod.splits)

lemma deliver_one_result:
  "deliver_one nf route e w = (w', Inr r) \<Longrightarrow> dl_route r = nr_name route \<and> dl_sink r = nr_sink route
     \<and> dl_fingerprint r = ev_fingerprint e \<and> (dl_result r = ''delivered'' \<or> dl_result r = ''failed'')"
  by (auto simp: deliver_one_def Let_def result_of_def split: option.splits prod.splits if_splits)

lemma deliver_all_facts:
  "deliver_all nf e routes rs w = (w', rs', err) \<Longrightarrow>
     nw_state w' = nw_state w \<and> (\<exists>new. rs' = rs @ new \<and> (err = None \<longrightarrow> map dl_route new = map nr_name routes))"
proof (induction nf e routes rs w rule: deliver_all.induct)
  case (2 nf e route routes rs w)
  obtain w1 out where d: "deliver_one nf route e w = (w1, out)" by fastforce
  show ?case
  proof (cases out)
    case (Inr r)
    with "2.prems" d have "deliver_all nf e routes (rs @ [r]) w1 = (w', rs', err)" by simp
    from "2.IH" [OF d [symmetric] Inr this] deliver_one_frame [OF d] deliver_one_result [OF d [unfolded Inr]]
    show ?thesis by auto
  qed (use "2.prems" d deliver_one_frame [OF d] in auto)
qed auto

text \<open>
  What the loop over the routes does to the issue: only the deliveries change, they stay tidy, and a
  route is only marked as delivered where a sink reported the delivery in this very loop.
\<close>

definition notified :: "issue \<Rightarrow> issue \<Rightarrow> delivery_result list \<Rightarrow> bool" where
  "notified u u' new \<longleftrightarrow>
     (\<exists>ys. u' = u\<lparr>iu_route_delivery := ys\<rparr>) \<and> (tidy_issue u \<longrightarrow> tidy_issue u')
     \<and> (\<forall>y\<in>set (iu_route_delivery u'). ry_delivered y \<longrightarrow>
          y \<in> set (iu_route_delivery u) \<or> (\<exists>r\<in>set new. dl_route r = ry_route y \<and> dl_result r = ''delivered''))"

lemma notified_refl: "notified u u new"
proof -
  have "u = u\<lparr>iu_route_delivery := iu_route_delivery u\<rparr>" by simp
  then show ?thesis unfolding notified_def by blast
qed

lemma mark_first_set:
  "mark_first route b t ys = Some zs \<Longrightarrow> y \<in> set zs \<Longrightarrow> y \<in> set ys \<or> ry_route y = route"
  by (induction ys arbitrary: zs) (auto split: if_splits)

lemma notified_set: "notified u (set_route_delivery u route True t)
    [r]" if "dl_route r = route" "dl_result r = ''delivered''"
proof -
  have "y \<in> set (iu_route_delivery u) \<or> ry_route y = route"
    if "y \<in> set (iu_route_delivery (set_route_delivery u route True t))" for y
    using that mark_first_set [of route True t "iu_route_delivery u"]
    by (auto simp: set_route_delivery_def split: option.splits)
  then show ?thesis
    using that set_route_delivery_frame [of u route True t] set_route_delivery_tidy [of u]
    unfolding notified_def by fastforce
qed

lemma notified_trans: "notified u v new \<Longrightarrow> notified v w more' \<Longrightarrow> notified u w (new @ more')"
  unfolding notified_def by fastforce

lemma notify_issue_facts:
  "notify_issue nf e escalated routes u rs w = (w', u', rs', err) \<Longrightarrow>
     nw_state w' = nw_state w \<and> (\<exists>new. rs' = rs @ new \<and> notified u u' new)"
proof (induction nf e escalated routes u rs w rule: notify_issue.induct)
  case (1 nf e escalated u rs w)
  then show ?case by (auto intro: notified_refl)
next
  case (2 nf e escalated route routes u rs w)
  let ?y = "route_delivery_of u (nr_name route)"
  let ?quiet = "ry_delivered ?y \<and> \<not> escalated \<and> \<not> cooldown_elapsed route (ry_last_notified ?y) (ev_occurred_at e)"
  consider "\<not> route_matches route e False" | "route_matches route e False" "?quiet" | "route_matches route e False" "\<not> ?quiet"
    by blast
  then show ?case
  proof cases
    case 1
    with "2.prems" "2.IH"(1) show ?thesis by simp
  next
    case 2
    obtain w1 o1 where a: "append_delivery (nf_max_entries nf) (suppressed_result e route) w = (w1, o1)" by fastforce
    show ?thesis
    proof (cases o1)
      case None
      with "2.prems" 2 a have "notify_issue nf e escalated routes u (rs @ [suppressed_result e route]) w1 = (w', u', rs', err)"
        by (simp add: Let_def)
      from "2.IH"(2) [OF _ refl 2(2) a [symmetric] None this] 2(1) append_delivery_frame [OF a] obtain new where
        "nw_state w' = nw_state w" "rs' = rs @ suppressed_result e route # new" "notified u u' new" by auto
      moreover from this(3) have "notified u u' (suppressed_result e route # new)" unfolding notified_def by auto
      ultimately show ?thesis by blast
    next
      case (Some x)
      with "2.prems" 2 a append_delivery_frame [OF a] show ?thesis by (auto simp: Let_def intro: notified_refl)
    qed
  next
    case 3
    obtain w1 out where d: "deliver_one nf route e w = (w1, out)" by fastforce
    show ?thesis
    proof (cases out)
      case (Inr r)
      let ?u = "if dl_result r = ''delivered'' then set_route_delivery u (nr_name route) True (ev_occurred_at e) else u"
      from Inr "2.prems" 3 d have "notify_issue nf e escalated routes ?u (rs @ [r]) w1 = (w', u', rs', err)"
        by (simp add: Let_def split del: if_split split: if_split_asm)
      from "2.IH"(3) [OF _ refl 3(2) d [symmetric] Inr this] 3(1) deliver_one_frame [OF d] obtain new where
        n: "nw_state w' = nw_state w" "rs' = rs @ r # new" "notified ?u u' new" by auto
      have "notified u ?u [r]"
        using notified_set deliver_one_result [OF d [unfolded Inr]] notified_refl by auto
      from notified_trans [OF this n(3)] n show ?thesis by auto
    next
      case (Inl x)
      with "2.prems" 3 d deliver_one_frame [OF d] show ?thesis by (auto simp: Let_def intro: notified_refl)
    qed
  qed
qed

section \<open>The invariant of the state\<close>

definition good_event :: "event \<Rightarrow> bool" where
  "good_event e \<longleftrightarrow>
     length (ev_fingerprint e) = 64 \<and> ev_type e \<noteq> [] \<and> ev_target e \<noteq> [] \<and> ev_summary e \<noteq> []
     \<and> ev_occurred_at e \<noteq> zero_time \<and> ev_severity e \<in> {SevInfo, SevWarning, SevError, SevRecovery}"

definition issues_inv :: "issue list \<Rightarrow> bool" where
  "issues_inv us \<longleftrightarrow> list_all valid_issue us \<and> list_all tidy_issue us \<and> distinct (map iu_fingerprint us)"

lemma issues_inv_sort [simp]: "issues_inv (sort_slice iu_fingerprint us) = issues_inv us"
  by (simp add: issues_inv_def list_all_iff)

lemma issues_inv_remove: "issues_inv us \<Longrightarrow> issues_inv (take i us @ drop (Suc i) us)"
proof -
  assume a: "issues_inv us"
  have "set (take i us @ drop (Suc i) us) \<subseteq> set us" by (auto dest: in_set_takeD in_set_dropD)
  moreover have "distinct (map iu_fingerprint (take i us @ drop (Suc i) us))"
  proof (cases "i < length us")
    case True
    then have "map iu_fingerprint us = map iu_fingerprint (take i us @ us ! i # drop (Suc i) us)"
      by (simp add: id_take_nth_drop [symmetric])
    with a show ?thesis by (auto simp: issues_inv_def)
  qed (use a in \<open>simp add: issues_inv_def\<close>)
  ultimately show ?thesis using a by (auto simp: issues_inv_def list_all_iff)
qed

lemma issues_inv_update:
  assumes "issues_inv us" and "i < length us" and "valid_issue u" and "tidy_issue u"
    and "iu_fingerprint u = iu_fingerprint (us ! i)"
  shows "issues_inv (us[i := u])"
proof -
  have "map iu_fingerprint (us[i := u]) = map iu_fingerprint us"
    using assms(2,5) by (simp add: map_update list_update_same_conv)
  then show ?thesis
    using assms set_update_subset_insert [of us i u] by (auto simp: issues_inv_def list_all_iff)
qed

lemma process_issue_facts:
  assumes "process_issue nf e us rs w = (w', us', rs', err)"
    and "good_event e" and "ev_severity e \<noteq> SevRecovery" and "issues_inv us"
  shows "nw_state w' = nw_state w \<and> issues_inv us'"
proof -
  obtain us1 i where us1: "us1 = (case find_issue us (ev_fingerprint e) of None \<Rightarrow> us @ [new_issue e] | Some _ \<Rightarrow> us)"
    and i: "i = (case find_issue us (ev_fingerprint e) of None \<Rightarrow> length us | Some i \<Rightarrow> i)" by blast
  have s1: "i < length us1" "iu_fingerprint (us1 ! i) = ev_fingerprint e"
    using us1 i find_issue_some by (auto simp: new_issue_def split: option.splits)
  have v: "valid_issue (new_issue e)" "tidy_issue (new_issue e)"
    using assms(2,3) by (auto simp: good_event_def valid_issue_def new_issue_def tidy_issue_def)
  have inv1: "issues_inv us1"
    using assms(4) us1 v find_issue_none [of us "ev_fingerprint e"]
    by (auto simp: issues_inv_def new_issue_def split: option.splits)
  obtain u where n: "notify_issue nf e (severity_rank (ev_severity e) > severity_rank (iu_severity (us1 ! i)))
      (nt_routes (nf_policy nf)) (seen_again e (us1 ! i)) rs w = (w', u, rs', err)" and us': "us' = us1[i := u]"
    using assms(1) us1 i by (auto simp: process_issue_def Let_def split: prod.splits)
  from notify_issue_facts [OF n] obtain new ys where
    f: "nw_state w' = nw_state w" "u = (seen_again e (us1 ! i))\<lparr>iu_route_delivery := ys\<rparr>"
      "tidy_issue (seen_again e (us1 ! i)) \<longrightarrow> tidy_issue u" by (auto simp: notified_def)
  have old: "valid_issue (us1 ! i)" "tidy_issue (us1 ! i)"
    using inv1 s1(1) by (auto simp: issues_inv_def list_all_iff)
  then have "tidy_issue u" using f(3) by (simp add: tidy_issue_def seen_again_def)
  moreover have "valid_issue u" using f(2) old(1) assms(2,3)
    by (auto simp: valid_issue_def good_event_def seen_again_def)
  ultimately show ?thesis
    using issues_inv_update [OF inv1 s1(1)] f(1,2) us' by (simp add: seen_again_def)
qed

lemma process_event_facts:
  assumes "process_event nf e us rs w = (w', us', rs', err)" and "good_event e" and "issues_inv us"
  shows "nw_state w' = nw_state w \<and> issues_inv us'"
proof (cases "is_recovery e \<or> ev_severity e = SevInfo")
  case True
  then show ?thesis
    using assms(1,3) issues_inv_remove deliver_all_facts
    by (fastforce simp: process_event_def process_recovery_def is_recovery_def split: option.splits prod.splits if_splits)
next
  case False
  then have "process_issue nf e us rs w = (w', us', rs', err)" using assms(1) by (simp add: process_event_def)
  from process_issue_facts [OF this assms(2) _ assms(3)] False show ?thesis by (simp add: is_recovery_def)
qed

lemma process_events_facts:
  "process_events nf es us rs w = (w', us', rs', err) \<Longrightarrow> list_all good_event es \<Longrightarrow> issues_inv us \<Longrightarrow>
     nw_state w' = nw_state w \<and> issues_inv us'"
proof (induction nf es us rs w rule: process_events.induct)
  case (2 nf e es us rs w)
  obtain w1 us1 rs1 err1 where p: "process_event nf e us rs w = (w1, us1, rs1, err1)" by (metis prod_cases4)
  note f = process_event_facts [OF p _ "2.prems"(3)]
  show ?case
  proof (cases err1)
    case None
    with "2.prems"(1) p have "process_events nf es us1 rs1 w1 = (w', us', rs', err)" by simp
    from "2.IH" [OF p [symmetric] refl refl None this] "2.prems"(2) f show ?thesis by simp
  qed (use "2.prems" p f in auto)
qed auto

lemma selected_events_set: "set (selected_events policy es) \<subseteq> set es"
  by (auto simp: selected_events_def)

lemma load_saved:
  assumes "issues_inv us"
  shows "load_state (w\<lparr>nw_state := Some (Holds \<lparr>sf_schema_version = 1, sf_issues = sort_slice iu_fingerprint us\<rparr>)\<rparr>)
    = Inr (sort_slice iu_fingerprint us)"
  using assms by (simp add: load_state_def issues_inv_def list_all_iff sort_key_id_if_sorted)

section \<open>Properties\<close>


definition ex_notifier :: "(unit \<Rightarrow> delivery_outcome) \<Rightarrow> unit notifier" where
  "ex_notifier answer =
     \<lparr>nf_policy = ex_notifications, nf_max_entries = 100, nf_sinks = (\<lambda>s. Some (\<lambda>e x. (x, answer x)))\<rparr>"

definition delivered_outcome :: delivery_outcome where
  "delivered_outcome = \<lparr>dv_delivered = True, dv_attempts = 1, dv_http_status = 0, dv_category = []\<rparr>"

definition ex_event :: "string \<Rightarrow> severity \<Rightarrow> event" where
  "ex_event t sv = ex_failure\<lparr>ev_event_id := ''evt-1'', ev_fingerprint := replicate 64 CHR ''0'', ev_type := t, ev_severity := sv\<rparr>"

lemma ex_event_good: "good_event (ex_event ''backup.failed'' SevError)"
  by (simp add: good_event_def ex_event_def ex_failure_def failure_event_def add_event_def new_event_def
      ex_operation_def zero_time_def)


text \<open>
  C29. An active issue does not notify twice: when every route that selects the event has already
  delivered the issue, the severity has not risen and no cooldown has elapsed, then no sink is called
  at all (nothing outside the store changes, whatever the sinks would do), and all the event leaves
  behind are records marked as suppressed.
\<close>

theorem active_issue_suppressed:
  assumes "find_issue us (ev_fingerprint e) = Some i" and "ev_severity e \<in> {SevWarning, SevError}"
    and "severity_rank (ev_severity e) \<le> severity_rank (iu_severity (us ! i))"
    and "list_all (\<lambda>route. route_matches route e False \<longrightarrow>
           ry_delivered (route_delivery_of (us ! i) (nr_name route))
           \<and> \<not> cooldown_elapsed route (ry_last_notified (route_delivery_of (us ! i) (nr_name route))) (ev_occurred_at e))
         (nt_routes (nf_policy nf))"
    and "process_event nf e us rs w = (w', us', rs', err)"
  shows "nw_outside w' = nw_outside w \<and> us' = us[i := seen_again e (us ! i)]
    \<and> (\<exists>new. rs' = rs @ new \<and> list_all (\<lambda>r. dl_result r = ''suppressed'') new)"
proof -
  let ?u = "seen_again e (us ! i)"
  have quiet: "notify_issue nf e False routes ?u rs w = (w', u', rs', err) \<Longrightarrow>
      list_all (\<lambda>route. route_matches route e False \<longrightarrow>
           ry_delivered (route_delivery_of ?u (nr_name route))
           \<and> \<not> cooldown_elapsed route (ry_last_notified (route_delivery_of ?u (nr_name route))) (ev_occurred_at e)) routes \<Longrightarrow>
      nw_outside w' = nw_outside w \<and> u' = ?u \<and> (\<exists>new. rs' = rs @ new \<and> list_all (\<lambda>r. dl_result r = ''suppressed'') new)"
    for routes u' rs w
  proof (induction routes arbitrary: rs w)
    case (Cons route routes)
    show ?case
    proof (cases "route_matches route e False")
      case True
      obtain w1 o1 where a: "append_delivery (nf_max_entries nf) (suppressed_result e route) w = (w1, o1)" by fastforce
      show ?thesis
      proof (cases o1)
        case None
        have "notify_issue nf e False routes ?u (rs @ [suppressed_result e route]) w1 = (w', u', rs', err)"
          using Cons.prems True a None by (simp add: Let_def)
        from Cons.IH [OF this] Cons.prems(2) append_delivery_frame [OF a]
        show ?thesis by (auto simp: suppressed_result_def)
      qed (use Cons.prems True a append_delivery_frame [OF a] in \<open>auto simp: Let_def\<close>)
    qed (use Cons in simp)
  qed simp
  have rd: "route_delivery_of ?u = route_delivery_of (us ! i)"
    by (simp add: fun_eq_iff route_delivery_of_def seen_again_def)
  have "process_issue nf e us rs w = (w', us', rs', err)"
    using assms(2,5) by (auto simp: process_event_def is_recovery_def)
  then obtain u' where "notify_issue nf e False (nt_routes (nf_policy nf)) ?u rs w = (w', u', rs', err)" "us' = us[i := u']"
    using assms(1,3) by (auto simp: process_issue_def Let_def not_less [symmetric] split: prod.splits)
  with quiet [OF this(1)] assms(4) rd show ?thesis by simp
qed

definition ex_issue :: issue where
  "ex_issue = (new_issue (ex_event ''backup.failed'' SevError))
     \<lparr>iu_route_delivery := [\<lparr>ry_route = ''all'', ry_delivered = True, ry_last_notified = 7\<rparr>]\<rparr>"

lemmas ex_simps = ex_issue_def ex_event_def new_issue_def ex_notifier_def ex_notifications_def route_delivery_of_def
  cooldown_elapsed_def route_matches_def recovery_matches_def

lemma active_issue_suppressed_witness:
  "nw_outside (fst (process_event (ex_notifier (\<lambda>_. delivered_outcome)) (ex_event ''backup.failed'' SevError)
      [ex_issue] [] ex_world)) = nw_outside ex_world"
proof -
  let ?e = "ex_event ''backup.failed'' SevError"
  obtain w' us' rs' err where
    p: "process_event (ex_notifier (\<lambda>_. delivered_outcome)) ?e [ex_issue] [] ex_world = (w', us', rs', err)"
    by (metis prod_cases4)
  have f: "find_issue [ex_issue] (ev_fingerprint ?e) = Some 0" by (simp add: ex_simps)
  have s: "ev_severity ?e \<in> {SevWarning, SevError}" by (simp add: ex_simps)
  have r: "severity_rank (ev_severity ?e) \<le> severity_rank (iu_severity ([ex_issue] ! 0))" by (simp add: ex_simps)
  have q: "list_all (\<lambda>route. route_matches route ?e False \<longrightarrow>
           ry_delivered (route_delivery_of ([ex_issue] ! 0) (nr_name route))
           \<and> \<not> cooldown_elapsed route (ry_last_notified (route_delivery_of ([ex_issue] ! 0) (nr_name route))) (ev_occurred_at ?e))
         (nt_routes (nf_policy (ex_notifier (\<lambda>_. delivered_outcome))))"
    by (simp add: ex_simps)
  from active_issue_suppressed [OF f s r q p] p show ?thesis by simp
qed

text \<open>
  C30. A recovery closes its issue and reaches exactly those who heard of it: without an active issue of
  the same fingerprint nothing happens; otherwise, when no error occurs, one delivery is attempted for
  each route that selects the recovery and had delivered the issue, in the order of the policy, and
  afterwards no issue with the fingerprint is active while all others are untouched.
\<close>

theorem recovery_reaches_notified:
  assumes "is_recovery e" and "distinct (map iu_fingerprint us)"
    and "process_event nf e us rs w = (w', us', rs', None)"
  shows "us' = filter (\<lambda>u. iu_fingerprint u \<noteq> ev_fingerprint e) us
    \<and> (case find (\<lambda>u. iu_fingerprint u = ev_fingerprint e) us of
         None \<Rightarrow> w' = w \<and> rs' = rs
       | Some u \<Rightarrow> (\<exists>new. rs' = rs @ new \<and> map dl_route new
           = map nr_name (filter (\<lambda>route. route_matches route e True \<and> ry_delivered (route_delivery_of u (nr_name route)))
               (nt_routes (nf_policy nf)))))"
proof (cases "find_issue us (ev_fingerprint e)")
  case None
  then have n: "ev_fingerprint e \<notin> iu_fingerprint ` set us" by (simp add: find_issue_none)
  then have "find (\<lambda>u. iu_fingerprint u = ev_fingerprint e) us = None" by (force simp: find_None_iff)
  moreover have "filter (\<lambda>u. iu_fingerprint u \<noteq> ev_fingerprint e) us = us" using n by simp
  ultimately show ?thesis using None assms(1,3) by (auto simp: process_event_def process_recovery_def)
next
  case (Some i)
  note i = find_issue_some [OF Some]
  have split: "us = take i us @ us ! i # drop (Suc i) us" using i by (simp add: id_take_nth_drop [symmetric])
  have d: "ev_fingerprint e \<notin> iu_fingerprint ` set (take i us @ drop (Suc i) us)"
    using assms(2) i by (subst (asm) split) auto
  have "filter (\<lambda>u. iu_fingerprint u \<noteq> ev_fingerprint e) us
      = filter (\<lambda>u. iu_fingerprint u \<noteq> ev_fingerprint e) (take i us) @ filter (\<lambda>u. iu_fingerprint u \<noteq> ev_fingerprint e) (drop (Suc i) us)"
    using i by (subst split) simp
  then have f: "filter (\<lambda>u. iu_fingerprint u \<noteq> ev_fingerprint e) us = take i us @ drop (Suc i) us"
    using d filter_other_issues [of "ev_fingerprint e" "take i us"] filter_other_issues [of "ev_fingerprint e" "drop (Suc i) us"]
    by (simp add: image_Un)
  have "find (\<lambda>u. iu_fingerprint u = ev_fingerprint e) us = Some (us ! i)"
    unfolding find_Some_iff
  proof (intro exI [of _ i] conjI allI impI)
    fix j assume "j < i"
    then have "us ! j \<in> set (take i us)" using i by (metis in_set_conv_nth length_take min.absorb4 nth_take)
    then show "iu_fingerprint (us ! j) \<noteq> ev_fingerprint e" using d by force
  qed (use i in simp_all)
  moreover obtain w1 rs1 err1 where a: "deliver_all nf e
      (filter (\<lambda>route. route_matches route e True \<and> ry_delivered (route_delivery_of (us ! i) (nr_name route)))
        (nt_routes (nf_policy nf))) rs w = (w1, rs1, err1)" by (metis prod_cases3)
  moreover from this assms(1,3) Some have "err1 = None" "rs' = rs1" "us' = take i us @ drop (Suc i) us"
    by (cases err1; simp add: process_event_def process_recovery_def)+
  ultimately show ?thesis using f deliver_all_facts [OF a] by simp
qed

lemma recovery_reaches_notified_witness:
  "\<exists>w' rs'. process_event (ex_notifier (\<lambda>_. delivered_outcome)) (ex_event ''maintenance.recovered'' SevRecovery)
      [ex_issue] [] ex_world = (w', [], rs', None) \<and> map dl_route rs' = [''all'']"
proof -
  let ?e = "ex_event ''maintenance.recovered'' SevRecovery"
  let ?nf = "ex_notifier (\<lambda>_. delivered_outcome)"
  have r: "is_recovery ?e" by (simp add: is_recovery_def ex_event_def)
  have m: "filter (\<lambda>route. route_matches route ?e True \<and> ry_delivered (route_delivery_of ex_issue (nr_name route)))
      (nt_routes (nf_policy ?nf)) = nt_routes ex_notifications"
    by (simp add: ex_simps)
  have v: "valid_delivery (result_of ?e ''log'' ''all'' delivered_outcome)"
    by (simp add: valid_delivery_def result_of_def ex_event_def delivered_outcome_def valid_event_id_def
        valid_local_name_def ex_failure_def failure_event_def add_event_def new_event_def ex_operation_def zero_time_def char_eval)
  obtain w' rs' where a: "deliver_all ?nf ?e (nt_routes ex_notifications) [] ex_world = (w', rs', None)"
    using v by (simp add: ex_notifications_def deliver_one_def append_delivery_def next_fault_def ex_world_def
        Let_def ex_notifier_def)
  have "process_event ?nf ?e [ex_issue] [] ex_world = (w', [], rs', None)"
    using a m r by (simp add: process_event_def process_recovery_def) (simp add: ex_simps)
  from recovery_reaches_notified [OF r _ this] m this show ?thesis
    by (auto simp: ex_issue_def new_issue_def ex_event_def) (auto simp: ex_notifications_def)
qed

text \<open>
  An escalation is lost when its delivery fails: the issue takes the new severity before the sink is
  called, so the next occurrence is no longer an escalation and is suppressed, although no one was told
  of the error.
\<close>

definition failed_outcome :: delivery_outcome where
  "failed_outcome = \<lparr>dv_delivered = False, dv_attempts = 3, dv_http_status = 503, dv_category = ''server_error''\<rparr>"

lemma escalation_lost:
  assumes "process_event (ex_notifier (\<lambda>_. failed_outcome)) (ex_event ''backup.failed'' SevError)
      [ex_issue\<lparr>iu_severity := SevWarning\<rparr>] [] w = (w1, us1, rs1, None)"
    and "process_event (ex_notifier (\<lambda>_. delivered_outcome)) (ex_event ''backup.failed'' SevError) us1 [] w1
      = (w2, us2, rs2, None)"
  shows "map dl_result rs1 = [''failed''] \<and> map dl_result rs2 = [''suppressed'']"
proof -
  have "map dl_result rs1 = [''failed''] \<and> us1 = [seen_again (ex_event ''backup.failed'' SevError) ex_issue]"
    using assms(1)
    by (auto simp: process_event_def is_recovery_def process_issue_def Let_def seen_again_def severity_rank_def ex_simps
        deliver_one_def failed_outcome_def result_of_def split: prod.splits option.splits)
  moreover from this have "map dl_result rs2 = [''suppressed'']"
    using assms(2)
    by (auto simp: process_event_def is_recovery_def process_issue_def Let_def seen_again_def severity_rank_def ex_simps
        suppressed_result_def split: prod.splits option.splits)
  ultimately show ?thesis by blast
qed

text \<open>
  An event of severity info is never an issue, so the recovery that \<open>updates.cleared\<close> is meant to be for
  \<open>updates.available\<close> finds nothing to close and is delivered to no one.
\<close>

lemma cleared_updates_not_delivered:
  assumes "ev_severity e = SevInfo" and "is_recovery r" and "ev_fingerprint r = ev_fingerprint e"
    and "ev_fingerprint e \<notin> iu_fingerprint ` set us"
    and "process_event nf e us rs w = (w1, us1, rs1, None)"
    and "process_event nf r us1 rs1 w1 = (w2, us2, rs2, err)"
  shows "w2 = w1 \<and> us2 = us \<and> rs2 = rs1 \<and> err = None"
proof -
  have "us1 = us" using assms(1,5) by (auto simp: process_event_def is_recovery_def split: prod.splits)
  moreover have "find_issue us (ev_fingerprint r) = None" using assms(3,4) by (simp add: find_issue_none)
  ultimately show ?thesis using assms(2,6) by (auto simp: process_event_def process_recovery_def)
qed

end
