(* ===== verification/Webhook.thy ===== *)
theory Webhook
  imports Notifier
begin

text \<open>
  File \<open>internal/notification/sinks.go\<close>: the webhook and the file sink. The environment variables are
  a parameter, sending a request and sleeping are operations on the outside world. A request either
  gets a status or fails with an error, of which the model keeps what \<open>requestFailure\<close> asks about it.
  Building the request from an already parsed URL and encoding the event are taken to succeed.
\<close>

section \<open>Endpoints\<close>

text \<open>\<open>url.ParseRequestURI\<close>: no fragment is split off, and without a scheme only a path is allowed.\<close>

definition parse_request_uri :: "string \<Rightarrow> url option" where
  "parse_request_uri raw =
     (if raw = [] then None
      else case get_scheme raw [] raw of None \<Rightarrow> None
      | Some (s, rest0) \<Rightarrow>
          if s \<noteq> [] \<or> raw = ''*'' then url_parse_main raw
          else if list_ex is_control raw \<or> \<not> has_prefix raw ''/'' then None
          else (case cut_query raw of (p, query) \<Rightarrow>
                  map_option (\<lambda>pth. url_of [] None [] pth query) (unescape EncodeOther p)))"

definition url_hostname :: "url \<Rightarrow> string" where
  "url_hostname u = fst (split_host_port (url_host u))"

definition validate_webhook_url :: "string \<Rightarrow> url result" where
  "validate_webhook_url value =
     (case parse_request_uri value of
        None \<Rightarrow> Inl (errorf ''invalid webhook endpoint'')
      | Some u \<Rightarrow>
          if url_host u = [] \<or> url_user u \<noteq> None then Inl (errorf ''invalid webhook endpoint'')
          else if url_scheme u = ''https'' then Inr u
          else if url_scheme u = ''http''
            \<and> (url_hostname u = ''localhost'' \<or> url_hostname u = ''127.0.0.1'' \<or> url_hostname u = ''::1'') then Inr u
          else Inl (errorf ''webhook endpoint must use HTTPS''))"

section \<open>Failures\<close>

definition http_failure :: "int \<Rightarrow> string \<times> bool" where
  "http_failure status =
     (if status = 429 then (''rate_limited'', True)
      else if status \<in> {502, 503, 504} then (''server_error'', True)
      else if status \<in> {401, 403} then (''authentication'', False)
      else if status \<in> {301, 302, 307, 308} then (''redirect'', False)
      else if status \<ge> 500 then (''server_error'', False)
      else (''invalid_request'', False))"

record request_error =
  re_deadline :: bool
  re_dns :: bool
  re_timeout :: bool
  re_url_error :: "string option"

definition request_failure :: "request_error \<Rightarrow> string \<times> bool" where
  "request_failure e =
     (if re_deadline e then (''timeout'', True)
      else if re_dns e then (''dns'', True)
      else if re_timeout e then (''timeout'', True)
      else if (case re_url_error e of Some text \<Rightarrow> str_contains (to_lower text) ''tls'' | None \<Rightarrow> False)
        then (''tls'', False)
      else (''connection'', True))"

section \<open>The webhook sink\<close>

datatype answer = Status int | No_Answer request_error

record webhook =
  wh_url_env :: string
  wh_authorization_env :: string

record 'x client =
  wc_env :: "string \<Rightarrow> string option"
  wc_send :: "url \<Rightarrow> string \<Rightarrow> event \<Rightarrow> 'x \<Rightarrow> 'x \<times> answer"
  wc_sleep :: "int \<Rightarrow> 'x \<Rightarrow> 'x"

definition undelivered :: "int \<Rightarrow> int \<Rightarrow> string \<Rightarrow> delivery_outcome" where
  "undelivered attempts status category =
     \<lparr>dv_delivered = False, dv_attempts = attempts, dv_http_status = status, dv_category = category\<rparr>"

fun post_attempts :: "'x client \<Rightarrow> url \<Rightarrow> string \<Rightarrow> event \<Rightarrow> int \<Rightarrow> int list \<Rightarrow> 'x \<Rightarrow> 'x \<times> delivery_outcome" where
  "post_attempts cl u auth e attempt [] x = (x, undelivered 3 0 ''server_error'')"
| "post_attempts cl u auth e attempt (delay # delays) x =
     (case wc_send cl u auth e (if delay > 0 then wc_sleep cl delay x else x) of
        (x1, Status status) \<Rightarrow>
          if 200 \<le> status \<and> status < 300
          then (x1, \<lparr>dv_delivered = True, dv_attempts = attempt + 1, dv_http_status = status, dv_category = []\<rparr>)
          else (case http_failure status of (category, retry) \<Rightarrow>
            if \<not> retry \<or> attempt = 2 then (x1, undelivered (attempt + 1) status category)
            else post_attempts cl u auth e (attempt + 1) delays x1)
      | (x1, No_Answer err) \<Rightarrow>
          (case request_failure err of (category, retry) \<Rightarrow>
            if \<not> retry \<or> attempt = 2 then (x1, undelivered (attempt + 1) 0 category)
            else post_attempts cl u auth e (attempt + 1) delays x1))"

definition retry_delays :: "int list" where
  "retry_delays = [0, 100000000, 250000000]"

definition webhook_deliver :: "'x client \<Rightarrow> webhook \<Rightarrow> 'x sink" where
  "webhook_deliver cl wh e x =
     (case wc_env cl (wh_url_env wh) of
        None \<Rightarrow> (x, undelivered 1 0 ''secret_unavailable'')
      | Some endpoint \<Rightarrow>
          if endpoint = [] then (x, undelivered 1 0 ''secret_unavailable'')
          else (case validate_webhook_url endpoint of
             Inl _ \<Rightarrow> (x, undelivered 1 0 ''invalid_endpoint'')
           | Inr u \<Rightarrow>
               if wh_authorization_env wh = [] then post_attempts cl u [] e 0 retry_delays x
               else (case wc_env cl (wh_authorization_env wh) of
                   None \<Rightarrow> (x, undelivered 1 0 ''secret_unavailable'')
                 | Some authorization \<Rightarrow>
                     if authorization = [] then (x, undelivered 1 0 ''secret_unavailable'')
                     else post_attempts cl u authorization e 0 retry_delays x)))"

section \<open>The file sink\<close>

text \<open>What the file system answers to the steps of one delivery.\<close>

datatype path_status = Absent | Regular_File | Irregular | Status_Error

record file_answers =
  fa_safe_directory :: bool
  fa_status :: path_status
  fa_lock :: bool
  fa_open :: bool
  fa_write :: bool
  fa_sync_close :: bool

definition file_deliver :: "file_answers \<Rightarrow> event \<Rightarrow> event list \<Rightarrow> event list \<times> delivery_outcome" where
  "file_deliver fa e appended =
     (if \<not> fa_safe_directory fa \<or> fa_status fa = Irregular then (appended, undelivered 1 0 ''unsafe_path'')
      else if fa_status fa = Status_Error then (appended, undelivered 1 0 ''file_error'')
      else if \<not> fa_lock fa then (appended, undelivered 1 0 ''file_lock'')
      else if \<not> fa_open fa then (appended, undelivered 1 0 ''file_error'')
      else let appended' = (if fa_write fa then appended @ [e] else appended)
           in if \<not> fa_write fa \<or> \<not> fa_sync_close fa then (appended', undelivered 1 0 ''file_error'')
              else (appended', \<lparr>dv_delivered = True, dv_attempts = 1, dv_http_status = 0, dv_category = []\<rparr>))"

section \<open>Properties\<close>

text \<open>The same client, with every request written down.\<close>

definition logged_client :: "'x client \<Rightarrow> ('x \<times> (url \<times> string) list) client" where
  "logged_client cl =
     \<lparr>wc_env = wc_env cl,
      wc_send = (\<lambda>u auth e (x, log). case wc_send cl u auth e x of (x1, a) \<Rightarrow> ((x1, log @ [(u, auth)]), a)),
      wc_sleep = (\<lambda>d (x, log). (wc_sleep cl d x, log))\<rparr>"

lemma post_attempts_log:
  assumes "post_attempts (logged_client cl) u auth e (int k) delays (x, log) = ((x', log'), out)"
    and "k + length delays = 3"
  shows "\<exists>n. log' = log @ replicate n (u, auth) \<and> n \<le> length delays
    \<and> (delays \<noteq> [] \<longrightarrow> 0 < n \<and> dv_attempts out = int (k + n))
    \<and> (dv_delivered out \<longrightarrow> 200 \<le> dv_http_status out \<and> dv_http_status out < 300)"
  using assms
proof (induction delays arbitrary: k x log)
  case Nil
  then show ?case by (auto simp: undelivered_def)
next
  case (Cons d ds)
  let ?x = "if d > 0 then wc_sleep cl d x else x"
  obtain x1 a where s: "wc_send cl u auth e ?x = (x1, a)" by fastforce
  then have s': "wc_send (logged_client cl) u auth e (if d > 0 then wc_sleep (logged_client cl) d (x, log) else (x, log))
      = ((x1, log @ [(u, auth)]), a)"
    by (cases "d > 0") (simp_all add: logged_client_def)
  have last: "out = r \<Longrightarrow> log' = log @ [(u, auth)] \<Longrightarrow> dv_attempts r = int k + 1
      \<Longrightarrow> (dv_delivered r \<longrightarrow> 200 \<le> dv_http_status r \<and> dv_http_status r < 300) \<Longrightarrow> ?case" for r
    by (intro exI [of _ 1]) simp
  have more': "post_attempts (logged_client cl) u auth e (int k + 1) ds (x1, log @ [(u, auth)]) = ((x', log'), out) \<Longrightarrow>
      int k \<noteq> 2 \<Longrightarrow> ?case"
  proof -
    assume p: "post_attempts (logged_client cl) u auth e (int k + 1) ds (x1, log @ [(u, auth)]) = ((x', log'), out)"
      and k: "int k \<noteq> 2"
    then have "ds \<noteq> []" using Cons.prems(2) by auto
    have "post_attempts (logged_client cl) u auth e (int (Suc k)) ds (x1, log @ [(u, auth)]) = ((x', log'), out)"
      using p by (simp add: add.commute)
    from Cons.IH [OF this] Cons.prems(2) \<open>ds \<noteq> []\<close> obtain n where
      "log' = (log @ [(u, auth)]) @ replicate n (u, auth)" "n \<le> length ds" "dv_attempts out = int (Suc k + n)"
      "dv_delivered out \<longrightarrow> 200 \<le> dv_http_status out \<and> dv_http_status out < 300" by auto
    then show ?case by (intro exI [of _ "Suc n"]) simp
  qed
  show ?case
  proof (cases a)
    case (Status st)
    show ?thesis
    proof (cases "200 \<le> st \<and> st < 300")
      case True
      with Cons.prems(1) s' Status show ?thesis by (intro last) auto
    next
      case False
      obtain c r where f: "http_failure st = (c, r)" by fastforce
      show ?thesis
      proof (cases "\<not> r \<or> int k = 2")
        case True
        with Cons.prems(1) s' Status False f show ?thesis by (intro last) (auto simp: undelivered_def)
      next
        case go: False
        with Cons.prems(1) s' Status False f show ?thesis by (intro more') auto
      qed
    qed
  next
    case (No_Answer err)
    obtain c r where f: "request_failure err = (c, r)" by fastforce
    show ?thesis
    proof (cases "\<not> r \<or> int k = 2")
      case True
      with Cons.prems(1) s' No_Answer f show ?thesis by (intro last) (auto simp: undelivered_def)
    next
      case False
      with Cons.prems(1) s' No_Answer f show ?thesis by (intro more') auto
    qed
  qed
qed


definition ex_client :: "unit client" where
  "ex_client = \<lparr>wc_env = (\<lambda>n. if n = ''HOOK'' then Some ''https://ntfy.example/bebop'' else None),
     wc_send = (\<lambda>u auth e x. (x, Status 503)), wc_sleep = (\<lambda>d x. x)\<rparr>"


text \<open>The endpoints that are accepted and refused.\<close>

lemma endpoint_examples:
  "is_ok (validate_webhook_url ''https://ntfy.example/bebop'')"
  "is_ok (validate_webhook_url ''http://127.0.0.1:8080/'')"
  "\<not> is_ok (validate_webhook_url ''http://ntfy.example/bebop'')"
  "\<not> is_ok (validate_webhook_url ''https://me:pw@ntfy.example/'')"
  by code_simp+

text \<open>The file sink reports a delivery only if the event was appended, and appends it at most once.\<close>

lemma file_delivery_appends:
  "file_deliver fa e lines = (lines', out) \<Longrightarrow>
     (lines' = lines \<or> lines' = lines @ [e]) \<and> (dv_delivered out \<longrightarrow> lines' = lines @ [e])"
  by (auto simp: file_deliver_def undelivered_def Let_def split: if_splits)

end
