(* ===== verification/Maintenance_History.thy ===== *)
theory Maintenance_History
  imports Event Bounded_Log
begin

text \<open>
  Files \<open>history.go\<close> and \<open>lock.go\<close> of \<open>internal/maintenance\<close> and package \<open>internal/lease\<close>: the records of
  maintenance runs, the directory that keeps them, and the locks that keep two runs of a job apart.
  The lock table lists the files whose advisory lock some process holds; \<open>prepare\<close> says whether the
  lock file can be made and opened. Blocking acquisition has no answer (None) while the lock is held.
\<close>

section \<open>Leases\<close>

type_synonym lock_table = "string list"

definition err_held :: error where
  "err_held = Sentinel ''controller-local lease is already held''"

definition err_job_already_running :: error where
  "err_job_already_running = Sentinel ''maintenance job is already running''"

definition lease_acquire :: "bool \<Rightarrow> (string \<Rightarrow> error option) \<Rightarrow> string \<Rightarrow> lock_table
    \<Rightarrow> (lock_table \<times> error option) option" where
  "lease_acquire blocking prepare filename table =
     (case prepare filename of
        Some e \<Rightarrow> Some (table, Some e)
      | None \<Rightarrow>
          if filename \<notin> set table then Some (filename # table, None)
          else if blocking then None
          else Some (table, Some err_held))"

definition lease_release :: "string \<Rightarrow> lock_table \<Rightarrow> lock_table" where
  "lease_release filename table = filter (\<lambda>f. f \<noteq> filename) table"

definition acquire_file_lock :: "bool \<Rightarrow> (string \<Rightarrow> error option) \<Rightarrow> string \<Rightarrow> lock_table
    \<Rightarrow> (lock_table \<times> error option) option" where
  "acquire_file_lock blocking prepare filename table =
     map_option (\<lambda>(t, err). (t, case err of
         Some e \<Rightarrow> Some (if is_sentinel ''controller-local lease is already held'' e then err_job_already_running else e)
       | None \<Rightarrow> None))
       (lease_acquire blocking prepare filename table)"

definition valid_local_id :: "string \<Rightarrow> bool" where
  "valid_local_id v \<longleftrightarrow>
     v \<noteq> [] \<and> length v \<le> 128 \<and> list_all (\<lambda>c. is_lower c \<or> is_digit c \<or> c = CHR ''-'') v"

definition lock_file :: "string \<Rightarrow> string \<Rightarrow> string" where
  "lock_file directory name = path_join directory (name @ ''.lock'')"

text \<open>\<open>LocalLocker.Acquire\<close> never blocks, so it always has an answer.\<close>

definition local_acquire :: "(string \<Rightarrow> error option) \<Rightarrow> string \<Rightarrow> string \<Rightarrow> lock_table \<Rightarrow> lock_table \<times> error option" where
  "local_acquire prepare directory name table =
     (if \<not> valid_local_id name then (table, Some (errorf ''invalid maintenance job lock name''))
      else the (acquire_file_lock False prepare (lock_file directory name) table))"

lemma acquire_file_lock_nonblocking:
  "acquire_file_lock False prepare filename table =
     Some (case prepare filename of
        Some e \<Rightarrow> (table, Some (if is_sentinel ''controller-local lease is already held'' e then err_job_already_running else e))
      | None \<Rightarrow> if filename \<notin> set table then (filename # table, None) else (table, Some err_job_already_running))"
  by (simp add: acquire_file_lock_def lease_acquire_def err_held_def split: option.splits)

section \<open>Records\<close>

record run_details =
  rd_snapshot_id :: string
  rd_resources :: int
  rd_stored_size :: int
  rd_retention_deleted :: "string list"
  rd_retention_corrupt_skipped :: "string list"
  rd_doctor_pass :: int
  rd_doctor_warn :: int
  rd_doctor_fail :: int
  rd_updates_available :: int
  rd_security_updates :: int
  rd_security_classification :: string
  rd_metadata_refreshed :: bool
  rd_retention_failure :: bool
  rd_findings :: "finding list"
  rd_reason :: string

record run_record =
  hr_schema_version :: int
  hr_run_id :: string
  hr_job :: string
  hr_job_fingerprint :: string
  hr_operation :: string
  hr_target :: string
  hr_origin :: string
  hr_window_override :: bool
  hr_started_at :: instant
  hr_finished_at :: instant
  hr_result :: string
  hr_details :: run_details
  hr_error :: string

definition valid_record :: "run_record \<Rightarrow> bool" where
  "valid_record r \<longleftrightarrow>
     hr_schema_version r = 1 \<and> valid_local_id (hr_run_id r) \<and> valid_local_id (hr_job r)
     \<and> length (hr_job_fingerprint r) = 64 \<and> hr_operation r \<noteq> [] \<and> hr_target r \<noteq> []
     \<and> (hr_origin r = ''manual'' \<or> hr_origin r = ''scheduled'')
     \<and> hr_started_at r \<noteq> zero_time \<and> hr_finished_at r \<noteq> zero_time
     \<and> (hr_result r = ''success'' \<or> hr_result r = ''warning'' \<or> hr_result r = ''failure'' \<or> hr_result r = ''skipped'')"

definition concise_error :: "string \<Rightarrow> string" where
  "concise_error text =
     (let v = trim_space (map (\<lambda>c. if is_control c then CHR '' '' else c) text)
      in if length v > 500 then take 500 v else v)"

section \<open>The history directory\<close>

definition history_root :: "string \<Rightarrow> config \<Rightarrow> string result" where
  "history_root cwd c =
     (case cfg_maintenance c of
        None \<Rightarrow> Inl (errorf ''maintenance configuration is not declared'')
      | Some m \<Rightarrow>
          if cfg_source_directory c = [] then Inl (errorf ''maintenance history requires a file-backed configuration'')
          else (let abs = path_abs cwd (path_join (cfg_source_directory c) (mt_history_directory m))
                in if rel_escapes (path_rel (cfg_source_directory c) abs)
                   then Inl (errorf ''maintenance history escapes configuration directory'')
                   else Inr abs))"

definition history_file :: "run_record \<Rightarrow> string" where
  "history_file r = hr_run_id r @ ''.json''"

definition lists_record :: "string \<Rightarrow> run_record \<Rightarrow> bool" where
  "lists_record name r \<longleftrightarrow>
     has_prefix name ''run-'' \<and> has_suffix name ''.json'' \<and> valid_record r \<and> history_file r = name"

definition history_list :: "string \<Rightarrow> run_record directory \<Rightarrow> run_record list" where
  "history_list job d =
     rev (sort_slice (\<lambda>r. (hr_started_at r, hr_run_id r))
       (filter (\<lambda>r. job = [] \<or> hr_job r = job) (held lists_record (read_dir d))))"

definition prune_history :: "int \<Rightarrow> run_record directory \<Rightarrow> run_record directory" where
  "prune_history max_entries d =
     (let records = history_list [] d
      in if int (length records) \<le> max_entries then d
         else remove_all (map history_file (drop (nat max_entries) records)) d)"

definition record_run :: "int \<Rightarrow> run_record \<Rightarrow> run_record directory \<Rightarrow> run_record directory" where
  "record_run max_entries r d = prune_history max_entries (rename_into (history_file r) r d)"

text \<open>
  \<open>Append\<close>: \<open>fault\<close> is the first error of the steps before the rename (the lock, the encoder, the
  temporary file). Until the rename nothing that a listing sees has changed.
\<close>

definition history_append :: "error option \<Rightarrow> int \<Rightarrow> run_record \<Rightarrow> run_record directory \<Rightarrow> run_record directory \<times> error option" where
  "history_append fault max_entries r d =
     (if \<not> valid_record r then (d, Some (errorf ''invalid maintenance history record''))
      else case fault of Some e \<Rightarrow> (d, Some e) | None \<Rightarrow> (record_run max_entries r d, None))"

section \<open>Lemmas\<close>

definition kept_history :: "run_record directory \<Rightarrow> bool" where
  "kept_history = well_kept lists_record history_file"

definition new_record :: "run_record \<Rightarrow> run_record directory \<Rightarrow> bool" where
  "new_record r d \<longleftrightarrow> valid_record r \<and> has_prefix (hr_run_id r) ''run-'' \<and> history_file r \<notin> fst ` set d"

lemma mset_history: "mset (history_list [] d) = mset (held lists_record d)"
  by (simp add: history_list_def)

lemma history_sorted: "sorted_wrt (\<lambda>a b. hr_started_at b \<le> hr_started_at a) (history_list job d)"
proof -
  have "sorted (map (\<lambda>r. (hr_started_at r, hr_run_id r)) (rev (history_list job d)))"
    unfolding history_list_def rev_rev_ident by (rule sorted_sort_key)
  then have "sorted_wrt (\<lambda>a b. (hr_started_at b, hr_run_id b) \<le> (hr_started_at a, hr_run_id a)) (history_list job d)"
    unfolding sorted_map sorted_wrt_rev .
  then show ?thesis by (rule sorted_wrt_mono_rel [rotated]) auto
qed

lemma pruned_history:
  assumes "kept_history d" and "0 \<le> n"
  shows "mset (history_list [] (prune_history n d)) = mset (take (nat n) (history_list [] d))"
proof (cases "int (length (history_list [] d)) \<le> n")
  case False
  with prune_listing [of lists_record history_file d "history_list [] d" _ "nat n"] assms(1)
  show ?thesis by (simp add: prune_history_def Let_def mset_history kept_history_def)
qed (use assms in \<open>simp add: prune_history_def Let_def nat_le_iff take_all\<close>)

interpretation history: bounded_log "history_list []" "record_run (int n)" kept_history new_record hr_started_at n for n
proof unfold_locales
  fix d x
  assume d: "kept_history d" and x: "new_record x d"
  let ?d = "rename_into (history_file x) x d"
  have k: "kept_history ?d" using d well_kept_rename by (simp add: kept_history_def)
  have "lists_record (history_file x) x"
    using x by (auto simp: new_record_def lists_record_def history_file_def has_prefix_iff has_suffix_iff)
  then have "mset (history_list [] ?d) = add_mset x (mset (history_list [] d))"
    using x held_rename [of lists_record history_file x d] by (simp add: new_record_def mset_history)
  then show "\<exists>whole. mset whole = add_mset x (mset (history_list [] d))
      \<and> sorted_wrt (\<lambda>a b. hr_started_at b \<le> hr_started_at a) whole
      \<and> mset (history_list [] (record_run (int n) x d)) = mset (take n whole)"
    using history_sorted pruned_history [OF k, of "int n"]
    by (intro exI [of _ "history_list [] ?d"]) (simp add: record_run_def)
  show "kept_history (record_run (int n) x d)"
    using k well_kept_remove by (auto simp: record_run_def prune_history_def kept_history_def Let_def)
qed (rule history_sorted)

section \<open>Properties\<close>


definition no_run_details :: run_details where
  "no_run_details = \<lparr>rd_snapshot_id = [], rd_resources = 0, rd_stored_size = 0, rd_retention_deleted = [],
     rd_retention_corrupt_skipped = [], rd_doctor_pass = 0, rd_doctor_warn = 0, rd_doctor_fail = 0,
     rd_updates_available = 0, rd_security_updates = 0, rd_security_classification = [], rd_metadata_refreshed = False,
     rd_retention_failure = False, rd_findings = [], rd_reason = []\<rparr>"

definition ex_record :: "string \<Rightarrow> int \<Rightarrow> run_record" where
  "ex_record i t = \<lparr>hr_schema_version = 1, hr_run_id = i, hr_job = ''nightly'', hr_job_fingerprint = replicate 64 CHR ''0'',
     hr_operation = ''backup'', hr_target = ''local'', hr_origin = ''manual'', hr_window_override = False,
     hr_started_at = t, hr_finished_at = t, hr_result = ''success'', hr_details = no_run_details, hr_error = []\<rparr>"


text \<open>
  The history never leaves the configuration directory: the directory that \<open>HistoryRoot\<close> accepts is
  the configuration's own or lies below it.
\<close>

theorem history_contained:
  assumes "history_root cwd c = Inr root"
    and "is_rooted (cfg_source_directory c)" and "path_clean (cfg_source_directory c) = cfg_source_directory c"
    and "cfg_source_directory c \<noteq> ''/''"
  shows "covers (cfg_source_directory c) root"
proof -
  obtain m where m: "cfg_maintenance c = Some m" using assms(1) by (auto simp: history_root_def split: option.splits)
  let ?j = "path_join (cfg_source_directory c) (mt_history_directory m)"
  have j: "is_rooted ?j" using assms(2) by (rule path_join_rooted)
  with m assms(1) have root: "root = path_clean ?j" and esc: "\<not> rel_escapes (path_rel (cfg_source_directory c) root)"
    by (auto simp: history_root_def path_abs_def Let_def split: if_splits)
  have "is_rooted root" using root j path_clean_rooted by simp
  from path_rel_rooted [OF esc assms(2) this] assms(3,4) root show ?thesis
    by (auto simp: covers_def path_clean_idem)
qed

lemma history_contained_witness: "covers ''/home/me/cfg'' ''/home/me/cfg/.bebop/history''"
proof -
  let ?c = "ex_config\<lparr>cfg_maintenance := Some ex_maintenance\<rparr>"
  have src: "cfg_source_directory ?c = ''/home/me/cfg''" by (simp add: ex_config_def)
  have "history_root ''/'' ?c = Inr ''/home/me/cfg/.bebop/history''"
    unfolding history_root_def src
    by (simp add: ex_maintenance_def path_abs_def path_join_def path_clean_def clean_elements_def push_element_def
        is_rooted_def path_rel_def rel_escapes_def)
  from history_contained [OF this] show ?thesis
    by (simp add: src is_rooted_def path_clean_def clean_elements_def push_element_def)
qed

end
