(* ===== verification/Maintenance.thy ===== *)
theory Maintenance
  imports Maintenance_History Notifier
begin

text \<open>
  File \<open>internal/maintenance/model.go\<close>: one invocation of a maintenance job. The clock, the history, the
  job locks, the executor and the notifier are operations on a world that is passed along; randomness
  and the local wall clock (hour, minute, second, nanosecond of an instant) are parameters of the runner.
  \<open>RunDetailed\<close> is cut where it may give up the processor for long: \<open>run_begin\<close> goes up to the point
  where the job's lock is held, \<open>run_operation\<close> executes the job, finishes and releases the lock, and
  \<open>finish_run\<close> is the closure \<open>finish\<close>.
\<close>

section \<open>Data\<close>

record invocation =
  in_run_id :: string
  in_job_fingerprint :: string

record outcome =
  oc_result :: string
  oc_details :: run_details

record run_options =
  ro_origin :: string
  ro_ignore_window :: bool

record invocation_result =
  ir_record :: run_record
  ir_notifications :: "delivery_result list"
  ir_notification_error :: string

record 'w runner =
  rn_jobs :: "maintenance_job list"
  rn_clock :: "'w \<Rightarrow> 'w \<times> instant"
  rn_random :: "'w \<Rightarrow> 'w \<times> string result"
  rn_append :: "run_record \<Rightarrow> 'w \<Rightarrow> 'w \<times> error option"
  rn_acquire :: "string \<Rightarrow> 'w \<Rightarrow> 'w \<times> error option"
  rn_release :: "string \<Rightarrow> 'w \<Rightarrow> 'w"
  rn_executor :: "(maintenance_job \<Rightarrow> invocation \<Rightarrow> 'w \<Rightarrow> 'w \<times> outcome \<times> error option) option"
  rn_notifier :: "(event list \<Rightarrow> 'w \<Rightarrow> 'w \<times> delivery_result list \<times> error option) option"
  rn_job_digest :: "maintenance_job \<Rightarrow> string"
  rn_issue_digest :: "issue_key \<Rightarrow> string"
  rn_event_random :: "'w \<Rightarrow> nat \<Rightarrow> string option"
  rn_wall_clock :: "instant \<Rightarrow> int \<times> int \<times> int \<times> int"

section \<open>Windows\<close>

definition time_of_day :: "int \<times> int \<times> int \<times> int \<Rightarrow> int" where
  "time_of_day t = (case t of (hour, minute, sec, nano) \<Rightarrow>
     hour * 3600000000000 + minute * 60000000000 + sec * 1000000000 + nano)"

definition eligible_at :: "(instant \<Rightarrow> int \<times> int \<times> int \<times> int) \<Rightarrow> maintenance_job \<Rightarrow> instant \<Rightarrow> bool" where
  "eligible_at wall job now =
     (case mj_window job of
        None \<Rightarrow> True
      | Some window \<Rightarrow>
          (case (parse_maintenance_time (mw_start window), parse_maintenance_time (mw_end window)) of
             (Inr s, Inr e) \<Rightarrow>
               if s = e then False
               else (let current = time_of_day (wall now)
                     in if s < e then current \<ge> s \<and> current < e else current \<ge> s \<or> current < e)
           | _ \<Rightarrow> False))"

section \<open>Records and events of a run\<close>

definition find_job :: "maintenance_job list \<Rightarrow> string \<Rightarrow> maintenance_job option" where
  "find_job jobs name = find (\<lambda>j. mj_name j = name) jobs"

definition new_run_id :: "instant \<Rightarrow> string \<Rightarrow> string" where
  "new_run_id now hex = ''run-'' @ show_int now @ ''-'' @ hex"

definition history_error :: "error \<Rightarrow> string" where
  "history_error e =
     (case as_coded e of
        Some (c, m) \<Rightarrow> code_string c @ '': '' @ concise_error m
      | None \<Rightarrow> ''operation failed; inspect command output or scheduler journal'')"

definition notification_failure_category :: "error option \<Rightarrow> string" where
  "notification_failure_category err =
     (case err of None \<Rightarrow> []
      | Some e \<Rightarrow> (case as_coded e of Some (c, m) \<Rightarrow> code_string c | None \<Rightarrow> ''operation_failed''))"

definition notification_operation :: "run_record \<Rightarrow> error option \<Rightarrow> operation" where
  "notification_operation r err =
     \<lparr>op_run_id = hr_run_id r, op_job = hr_job r, op_operation = hr_operation r, op_target = hr_target r,
      op_service = [], op_origin = hr_origin r, op_result = hr_result r, op_occurred_at = hr_finished_at r,
      op_failure_category = notification_failure_category err, op_snapshot_id = rd_snapshot_id (hr_details r),
      op_updates = rd_updates_available (hr_details r), op_security_updates = rd_security_updates (hr_details r),
      op_retention_failure = rd_retention_failure (hr_details r), op_reason = rd_reason (hr_details r),
      op_findings = rd_findings (hr_details r)\<rparr>"

section \<open>The runner\<close>

definition finish_run :: "'w runner \<Rightarrow> run_record \<Rightarrow> string \<Rightarrow> run_details \<Rightarrow> error option \<Rightarrow> 'w
    \<Rightarrow> 'w \<times> invocation_result \<times> error option" where
  "finish_run rn started res details run_err w =
     (case rn_clock rn w of (w1, now) \<Rightarrow>
       (let r = started\<lparr>hr_finished_at := now, hr_result := res, hr_details := details,
                  hr_error := (case run_err of None \<Rightarrow> hr_error started | Some e \<Rightarrow> history_error e)\<rparr>;
            ivk = \<lparr>ir_record = r, ir_notifications = [], ir_notification_error = []\<rparr>
        in case rn_append rn r w1 of
             (w2, Some err) \<Rightarrow>
               (w2, ivk, Some (case run_err of
                  Some e \<Rightarrow> Errorf (error_text e @ ''; also write maintenance history: '' @ error_text err) (Some e)
                | None \<Rightarrow> wrapf ''write maintenance history: '' err))
           | (w2, None) \<Rightarrow>
             (case rn_notifier rn of
                None \<Rightarrow> (w2, ivk, run_err)
              | Some process \<Rightarrow>
                (case derive (rn_issue_digest rn) (rn_event_random rn w2) (notification_operation r run_err) of
                   Inl _ \<Rightarrow> (w2, ivk\<lparr>ir_notification_error := ''event derivation failed''\<rparr>, run_err)
                 | Inr events \<Rightarrow>
                   (case process events w2 of (w3, deliveries, err) \<Rightarrow>
                      (w3, ivk\<lparr>ir_notifications := deliveries,
                         ir_notification_error := (if err = None then [] else ''notification delivery unavailable'')\<rparr>,
                       run_err))))))"

datatype begun =
    Refused error
  | Concluded run_record string run_details "error option"
  | Locked maintenance_job run_record

definition skip_details :: "string \<Rightarrow> run_details" where
  "skip_details reason = no_run_details\<lparr>rd_reason := reason\<rparr>"

definition run_begin :: "'w runner \<Rightarrow> string \<Rightarrow> run_options \<Rightarrow> 'w \<Rightarrow> 'w \<times> begun" where
  "run_begin rn name options w =
     (case find_job (rn_jobs rn) name of
        None \<Rightarrow> (w, Refused (errorf (''unknown maintenance job '' @ go_quote name)))
      | Some job \<Rightarrow>
        (let origin = (if ro_origin options = [] then ''manual'' else ro_origin options) in
         if rn_executor rn = None
         then (w, Refused (errorf ''maintenance runner has no operation executor''))
         else if origin \<noteq> ''manual'' \<and> origin \<noteq> ''scheduled''
         then (w, Refused (errorf ''invalid maintenance invocation origin''))
         else if ro_ignore_window options \<and> origin = ''scheduled''
         then (w, Refused (errorf ''scheduled maintenance cannot ignore its maintenance window''))
         else case rn_clock rn w of (w1, started) \<Rightarrow>
           (case rn_random rn w1 of
              (w2, Inl e) \<Rightarrow> (w2, Refused e)
            | (w2, Inr hex) \<Rightarrow>
              (let r = \<lparr>hr_schema_version = 1, hr_run_id = new_run_id started hex, hr_job = mj_name job,
                        hr_job_fingerprint = maintenance_job_fingerprint (rn_job_digest rn) job,
                        hr_operation = mj_type job, hr_target = mj_target job, hr_origin = origin,
                        hr_window_override = ro_ignore_window options, hr_started_at = started,
                        hr_finished_at = zero_time, hr_result = [], hr_details = no_run_details, hr_error = []\<rparr>
               in if \<not> mj_enabled job then (w2, Concluded r ''skipped'' (skip_details ''disabled'') None)
                  else if \<not> ro_ignore_window options \<and> \<not> eligible_at (rn_wall_clock rn) job started
                  then (w2, Concluded r ''skipped'' (skip_details ''outside-window'') None)
                  else (case rn_acquire rn (mj_name job) w2 of
                      (w3, Some e) \<Rightarrow>
                        if is_sentinel ''maintenance job is already running'' e
                        then (w3, Concluded r ''skipped'' (skip_details ''already-running'') None)
                        else (w3, Concluded r ''failure'' no_run_details
                                    (Some (wrapf ''acquire maintenance job lock: '' e)))
                    | (w3, None) \<Rightarrow> (w3, Locked job r))))))"

definition run_operation :: "'w runner \<Rightarrow> maintenance_job \<Rightarrow> run_record \<Rightarrow> 'w \<Rightarrow> 'w \<times> invocation_result \<times> error option" where
  "run_operation rn job r w =
     (case the (rn_executor rn) job \<lparr>in_run_id = hr_run_id r, in_job_fingerprint = hr_job_fingerprint r\<rparr> w of
        (w1, out, err) \<Rightarrow>
          (let res0 = (if oc_result out = [] then ''success'' else oc_result out);
               res = (if err \<noteq> None \<and> res0 = ''success'' then ''failure'' else res0)
           in case finish_run rn r res (oc_details out) err w1 of
                (w2, ivk, e) \<Rightarrow> (rn_release rn (mj_name job) w2, ivk, e)))"

definition run_detailed :: "'w runner \<Rightarrow> string \<Rightarrow> run_options \<Rightarrow> 'w \<Rightarrow> 'w \<times> invocation_result option \<times> error option" where
  "run_detailed rn name options w =
     (case run_begin rn name options w of
        (w1, Refused e) \<Rightarrow> (w1, None, Some e)
      | (w1, Concluded r res details err) \<Rightarrow>
          (case finish_run rn r res details err w1 of (w2, ivk, e) \<Rightarrow> (w2, Some ivk, e))
      | (w1, Locked job r) \<Rightarrow>
          (case run_operation rn job r w1 of (w2, ivk, e) \<Rightarrow> (w2, Some ivk, e)))"

section \<open>What a run does, and in which order\<close>

text \<open>The same runner, with the calls that matter written down.\<close>

datatype call = Acquire string bool | Exec string | Append run_record | Notify | Release string

definition traced :: "'w runner \<Rightarrow> ('w \<times> call list) runner" where
  "traced rn =
     \<lparr>rn_jobs = rn_jobs rn,
      rn_clock = (\<lambda>(w, log). case rn_clock rn w of (w1, t) \<Rightarrow> ((w1, log), t)),
      rn_random = (\<lambda>(w, log). case rn_random rn w of (w1, h) \<Rightarrow> ((w1, log), h)),
      rn_append = (\<lambda>r (w, log). case rn_append rn r w of (w1, e) \<Rightarrow> ((w1, log @ [Append r]), e)),
      rn_acquire = (\<lambda>j (w, log). case rn_acquire rn j w of (w1, e) \<Rightarrow> ((w1, log @ [Acquire j (e = None)]), e)),
      rn_release = (\<lambda>j (w, log). (rn_release rn j w, log @ [Release j])),
      rn_executor = map_option (\<lambda>ex job i (w, log). case ex job i w of (w1, r) \<Rightarrow> ((w1, log @ [Exec (mj_name job)]), r))
        (rn_executor rn),
      rn_notifier = map_option (\<lambda>process es (w, log). case process es w of (w1, r) \<Rightarrow> ((w1, log @ [Notify]), r))
        (rn_notifier rn),
      rn_job_digest = rn_job_digest rn, rn_issue_digest = rn_issue_digest rn,
      rn_event_random = (\<lambda>(w, log). rn_event_random rn w), rn_wall_clock = rn_wall_clock rn\<rparr>"

text \<open>The end of a run: the record, and the notification of it at most once.\<close>

definition closing :: "run_record \<Rightarrow> call list \<Rightarrow> bool" where
  "closing r cs \<longleftrightarrow> cs = [Append r] \<or> cs = [Append r, Notify]"

definition run_trace :: "string \<Rightarrow> run_record \<Rightarrow> call list \<Rightarrow> bool" where
  "run_trace name r log \<longleftrightarrow>
     (\<exists>cs. closing r cs \<and> (log = cs \<or> log = Acquire name False # cs \<or> log = Acquire name True # Exec name # cs @ [Release name]))"

lemma finish_trace:
  assumes "finish_run (traced rn) r0 res details run_err (w, log) = ((w', log'), ivk, err)"
  shows "\<exists>cs. log' = log @ cs \<and> closing (ir_record ivk) cs"
    and "hr_result (ir_record ivk) = res" "hr_started_at (ir_record ivk) = hr_started_at r0"
    and "hr_origin (ir_record ivk) = hr_origin r0" "hr_window_override (ir_record ivk) = hr_window_override r0"
  using assms
  by (auto simp: finish_run_def traced_def closing_def Let_def split: prod.splits option.splits sum.splits)

lemma begin_trace:
  assumes "run_begin (traced rn) name options (w, []) = ((w', log), b)"
  shows "case b of
      Refused e \<Rightarrow> log = []
    | Concluded r res details err \<Rightarrow> (\<exists>job. find_job (rn_jobs rn) name = Some job
        \<and> (log = [] \<or> log = [Acquire (mj_name job) False]) \<and> (res = ''skipped'' \<or> res = ''failure''))
    | Locked job r \<Rightarrow> find_job (rn_jobs rn) name = Some job \<and> log = [Acquire (mj_name job) True] \<and> mj_enabled job
        \<and> (eligible_at (rn_wall_clock rn) job (hr_started_at r) \<or> ro_ignore_window options \<and> hr_origin r = ''manual'')"
  using assms
  by (auto simp: run_begin_def traced_def Let_def split: prod.splits option.splits sum.splits if_splits)

lemma operation_trace:
  assumes "run_operation (traced rn) job r0 (w, log) = ((w', log'), ivk, err)" and "rn_executor rn \<noteq> None"
  shows "\<exists>cs. log' = log @ Exec (mj_name job) # cs @ [Release (mj_name job)] \<and> closing (ir_record ivk) cs"
    and "hr_started_at (ir_record ivk) = hr_started_at r0" "hr_origin (ir_record ivk) = hr_origin r0"
proof -
  obtain ex where ex: "rn_executor rn = Some ex" using assms(2) by blast
  obtain w1 out e1 where x: "ex job \<lparr>in_run_id = hr_run_id r0, in_job_fingerprint = hr_job_fingerprint r0\<rparr> w = (w1, out, e1)"
    by (metis prod_cases3)
  let ?res = "let res0 = (if oc_result out = [] then ''success'' else oc_result out)
    in if e1 \<noteq> None \<and> res0 = ''success'' then ''failure'' else res0"
  obtain w2 log2 ivk2 e2 where f: "finish_run (traced rn) r0 ?res (oc_details out) e1 (w1, log @ [Exec (mj_name job)])
      = ((w2, log2), ivk2, e2)" by (metis surj_pair)
  have exx: "the (rn_executor (traced rn)) job i (w, log) = (case ex job i w of (w1, r) \<Rightarrow> ((w1, log @ [Exec (mj_name job)]), r))"
    and rel: "rn_release (traced rn) j (w, log) = (rn_release rn j w, log @ [Release j])" for i j w log
    by (simp_all add: traced_def ex)
  have "((w', log'), ivk, err) = ((rn_release rn (mj_name job) w2, log2 @ [Release (mj_name job)]), ivk2, e2)"
    using assms(1) f by (simp add: run_operation_def exx x rel Let_def)
  with finish_trace [OF f]
  show "\<exists>cs. log' = log @ Exec (mj_name job) # cs @ [Release (mj_name job)] \<and> closing (ir_record ivk) cs"
    and "hr_started_at (ir_record ivk) = hr_started_at r0" "hr_origin (ir_record ivk) = hr_origin r0"
    by auto
qed

lemma locked_needs_executor: "run_begin rn name options w = (w', Locked job r) \<Longrightarrow> rn_executor rn \<noteq> None"
  by (auto simp: run_begin_def Let_def split: prod.splits option.splits sum.splits if_splits)

lemma find_job_name: "find_job jobs name = Some job \<Longrightarrow> mj_name job = name \<and> job \<in> set jobs"
  by (auto simp: find_job_def find_Some_iff)

section \<open>Properties\<close>

text \<open>
  C17. Every invocation follows the protocol. Either it is refused before anything happened, or it
  writes exactly one record of itself and notifies at most once, after the record. The operation is
  executed at most once, only for a job that is enabled and either inside its window or deliberately
  run by hand outside it, only between taking the lock of the job and releasing it, and the lock is
  released last. Without an execution the record says skipped or failure.
\<close>

theorem run_protocol:
  assumes "run_detailed (traced rn) name options (w, []) = ((w', log), out, err)"
  shows "case out of None \<Rightarrow> log = [] \<and> err \<noteq> None
    | Some ivk \<Rightarrow> run_trace name (ir_record ivk) log
        \<and> (if Exec name \<in> set log
           then (\<exists>job. find_job (rn_jobs rn) name = Some job \<and> mj_enabled job
              \<and> (eligible_at (rn_wall_clock rn) job (hr_started_at (ir_record ivk))
                 \<or> ro_ignore_window options \<and> hr_origin (ir_record ivk) = ''manual''))
           else hr_result (ir_record ivk) \<in> {''skipped'', ''failure''})"
proof -
  obtain w1 log1 b where b: "run_begin (traced rn) name options (w, []) = ((w1, log1), b)" by (metis surj_pair)
  note t = begin_trace [OF b]
  show ?thesis
  proof (cases b)
    case (Refused e)
    with assms b t show ?thesis by (auto simp: run_detailed_def)
  next
    case (Concluded r res details e)
    obtain w2 log2 ivk e2 where f: "finish_run (traced rn) r res details e (w1, log1) = ((w2, log2), ivk, e2)"
      by (metis surj_pair)
    with assms b Concluded have "log = log2" "out = Some ivk" by (auto simp: run_detailed_def)
    moreover have "log1 = [] \<or> log1 = [Acquire name False]" "res = ''skipped'' \<or> res = ''failure''"
      using t Concluded find_job_name by auto
    ultimately show ?thesis using finish_trace(1,2) [OF f] by (fastforce simp: run_trace_def closing_def)
  next
    case (Locked job r)
    have job: "find_job (rn_jobs rn) name = Some job" "mj_name job = name" "log1 = [Acquire name True]" "mj_enabled job"
      "eligible_at (rn_wall_clock rn) job (hr_started_at r) \<or> ro_ignore_window options \<and> hr_origin r = ''manual''"
      using t Locked find_job_name [of "rn_jobs rn" name job] by auto
    have ex: "rn_executor rn \<noteq> None" using locked_needs_executor [OF b [unfolded Locked]] by (simp add: traced_def)
    obtain w2 log2 ivk e2 where f: "run_operation (traced rn) job r (w1, log1) = ((w2, log2), ivk, e2)"
      by (metis surj_pair)
    with assms b Locked have o: "log = log2" "out = Some ivk" by (auto simp: run_detailed_def)
    from operation_trace [OF f ex] job(2,3) obtain cs where
      "log2 = Acquire name True # Exec name # cs @ [Release name]" "closing (ir_record ivk) cs" by auto
    with o job operation_trace(2,3) [OF f ex] show ?thesis by (auto simp: run_trace_def)
  qed
qed

lemma same_but_notifier:
  "rn_jobs (rn\<lparr>rn_notifier := x\<rparr>) = rn_jobs rn" "rn_clock (rn\<lparr>rn_notifier := x\<rparr>) = rn_clock rn"
  "rn_random (rn\<lparr>rn_notifier := x\<rparr>) = rn_random rn" "rn_acquire (rn\<lparr>rn_notifier := x\<rparr>) = rn_acquire rn"
  "rn_executor (rn\<lparr>rn_notifier := x\<rparr>) = rn_executor rn" "rn_job_digest (rn\<lparr>rn_notifier := x\<rparr>) = rn_job_digest rn"
  "rn_wall_clock (rn\<lparr>rn_notifier := x\<rparr>) = rn_wall_clock rn"
  by simp_all

definition reported :: "'w \<times> invocation_result \<times> error option \<Rightarrow> run_record \<times> error option" where
  "reported x = (ir_record (fst (snd x)), snd (snd x))"

lemma finish_reported:
  "reported (finish_run (rn\<lparr>rn_notifier := None\<rparr>) r res details run_err w) = reported (finish_run rn r res details run_err w)"
  by (auto simp: finish_run_def reported_def Let_def split: prod.splits option.splits sum.splits)

lemma operation_reported:
  "reported (run_operation (rn\<lparr>rn_notifier := None\<rparr>) job r w) = reported (run_operation rn job r w)"
proof -
  have shape: "reported (case x of (w2, ivk, e) \<Rightarrow> (f w2, ivk, e)) = reported x"
    for x :: "'a \<times> invocation_result \<times> error option" and f by (cases x) (simp add: reported_def)
  obtain w1 out e1 where
    "the (rn_executor rn) job \<lparr>in_run_id = hr_run_id r, in_job_fingerprint = hr_job_fingerprint r\<rparr> w = (w1, out, e1)"
    by (metis prod_cases3)
  then show ?thesis
    unfolding run_operation_def same_but_notifier by (simp only: prod.case Let_def shape finish_reported)
qed


text \<open>
  Windows mean what they say. For a window of a validated policy its start belongs to it and its end
  does not, and exchanging start and end gives exactly the rest of the day: at every instant the job
  is eligible under one of the two windows and not under the other, whether or not they cross
  midnight.
\<close>

theorem windows_split_day:
  assumes "validate_maintenance m = Inr ()" and "job \<in> set (mt_jobs m)" and "mj_window job = Some window"
  shows "(eligible_at wall job t \<longleftrightarrow>
      \<not> eligible_at wall (job\<lparr>mj_window := Some \<lparr>mw_start = mw_end window, mw_end = mw_start window\<rparr>\<rparr>) t)
    \<and> (parse_maintenance_time (mw_start window) = Inr (time_of_day (wall t)) \<longrightarrow> eligible_at wall job t)
    \<and> (parse_maintenance_time (mw_end window) = Inr (time_of_day (wall t)) \<longrightarrow> \<not> eligible_at wall job t)"
proof -
  have "validate_maintenance_jobs [] (mt_jobs m) = Inr ()"
    using assms(1) by (auto simp: validate_maintenance_def result_simps)
  with assms(2) obtain seen where "validate_maintenance_job seen job = Inr ()" using validate_jobs_ok by blast
  from validate_job_window [OF this assms(3)] obtain a b where
    ab: "parse_maintenance_time (mw_start window) = Inr a" "parse_maintenance_time (mw_end window) = Inr b"
    "mw_start window \<noteq> mw_end window" by blast
  then have "a \<noteq> b" using parse_time_inj by metis
  with ab assms(3) show ?thesis by (auto simp: eligible_at_def Let_def)
qed

lemma windows_split_day_witness:
  "eligible_at (\<lambda>_. (3, 59, 59, 999999999)) (hd (mt_jobs ex_maintenance)) 0
   \<and> \<not> eligible_at (\<lambda>_. (4, 0, 0, 0)) (hd (mt_jobs ex_maintenance)) 0"
proof -
  let ?j = "hd (mt_jobs ex_maintenance)"
  have j: "?j \<in> set (mt_jobs ex_maintenance)" "mj_window ?j = Some \<lparr>mw_start = ''22:00'', mw_end = ''04:00''\<rparr>"
    by (simp_all add: ex_maintenance_def)
  have t: "parse_maintenance_time ''04:00'' = Inr 14400000000000" "parse_maintenance_time ''22:00'' = Inr 79200000000000"
    by (simp_all add: parse_maintenance_time_def char_eval)
  note w = windows_split_day [OF ex_maintenance_valid j]
  have "parse_maintenance_time ''04:00'' = Inr (time_of_day (4, 0, 0, 0))" using t by (simp add: time_of_day_def)
  then have "\<not> eligible_at (\<lambda>_. (4, 0, 0, 0)) ?j 0"
    using w [of "\<lambda>_. (4, 0, 0, 0)" 0] unfolding maintenance_window.select_convs by blast
  moreover have "eligible_at (\<lambda>_. (3, 59, 59, 999999999)) ?j 0"
    using w [of "\<lambda>_. (3, 59, 59, 999999999)" 0] t by (simp add: eligible_at_def time_of_day_def Let_def)
  ultimately show ?thesis by blast
qed

section \<open>Records are accepted\<close>

lemma length_show_nat: "n < 10 ^ k \<Longrightarrow> 0 < k \<Longrightarrow> length (show_nat n) \<le> k"
proof (induction n arbitrary: k rule: show_nat.induct)
  case (1 n)
  show ?case
  proof (cases "n < 10")
    case False
    then have k: "k \<noteq> 1" using "1.prems" by (cases "k = 1") auto
    then obtain l where l: "k = Suc l" "0 < l" using "1.prems"(2) by (cases k) auto
    have "n div 10 < 10 ^ l" using "1.prems"(1) l by (simp add: less_mult_imp_div_less mult.commute)
    from "1.IH" [OF False this l(2)] False l show ?thesis by (simp add: show_nat.simps [of n])
  qed (use "1.prems" in \<open>simp add: show_nat.simps [of n]\<close>)
qed

lemma run_id_valid:
  assumes "- (2 ^ 63) \<le> now" and "now < 2 ^ 63" and "length hex = 12" and "list_all (\<lambda>c. is_lower c \<or> is_digit c) hex"
  shows "valid_local_id (new_run_id now hex)" and "has_prefix (new_run_id now hex) ''run-''"
proof -
  have "\<bar>now\<bar> < 10000000000000000000" using assms(1,2) by simp
  then have b: "nat \<bar>now\<bar> < 10 ^ 19" by simp
  have d: "is_digit c" if "c \<in> set (show_nat (nat \<bar>now\<bar>))" for c using that by (rule show_nat_digits)
  have "length (show_int now) \<le> 20" "\<forall>c\<in>set (show_int now). is_digit c \<or> c = CHR ''-''"
    using length_show_nat [OF b] d by (auto simp: show_int_def split: if_splits)
  moreover have "is_lower CHR ''r''" "is_lower CHR ''u''" "is_lower CHR ''n''" by (simp_all add: char_eval)
  ultimately show "valid_local_id (new_run_id now hex)"
    using assms(3,4) unfolding valid_local_id_def new_run_id_def by (auto simp: list_all_iff)
  show "has_prefix (new_run_id now hex) ''run-''" by (simp add: new_run_id_def)
qed

text \<open>
  What the runner relies on: the digest is the hexadecimal text of 32 bytes, the clock stays within the
  range of \<open>UnixNano\<close> and off the zero time, six random bytes print as twelve hexadecimal digits, and an
  executor reports one of the results of the program (or none).
\<close>

definition sound_environment :: "'w runner \<Rightarrow> bool" where
  "sound_environment rn \<longleftrightarrow>
     (\<forall>j. length (rn_job_digest rn j) = 64)
     \<and> (\<forall>w. let t = snd (rn_clock rn w) in t \<noteq> zero_time \<and> - (2 ^ 63) \<le> t \<and> t < 2 ^ 63)
     \<and> (\<forall>w. case snd (rn_random rn w) of Inl _ \<Rightarrow> True
          | Inr h \<Rightarrow> length h = 12 \<and> list_all (\<lambda>c. is_lower c \<or> is_digit c) h)
     \<and> (\<forall>job i w. case rn_executor rn of None \<Rightarrow> True
          | Some ex \<Rightarrow> oc_result (fst (snd (ex job i w))) \<in> {[], ''success'', ''warning'', ''failure''})"

lemma begun_record:
  assumes "run_begin rn name options w = (w', b)" and "sound_environment rn"
  shows "case b of Refused e \<Rightarrow> True
    | Concluded r res d e \<Rightarrow> res \<in> {''skipped'', ''failure''} \<and>
        (\<exists>job \<in> set (rn_jobs rn). hr_job r = mj_name job \<and> hr_operation r = mj_type job \<and> hr_target r = mj_target job)
        \<and> hr_schema_version r = 1 \<and> length (hr_job_fingerprint r) = 64 \<and> hr_origin r \<in> {''manual'', ''scheduled''}
        \<and> hr_started_at r \<noteq> zero_time \<and> valid_local_id (hr_run_id r) \<and> has_prefix (hr_run_id r) ''run-''
    | Locked job r \<Rightarrow> job \<in> set (rn_jobs rn) \<and> hr_job r = mj_name job \<and> hr_operation r = mj_type job \<and> hr_target r = mj_target job
        \<and> hr_schema_version r = 1 \<and> length (hr_job_fingerprint r) = 64 \<and> hr_origin r \<in> {''manual'', ''scheduled''}
        \<and> hr_started_at r \<noteq> zero_time \<and> valid_local_id (hr_run_id r) \<and> has_prefix (hr_run_id r) ''run-''"
proof -
  obtain w1 t where c: "rn_clock rn w = (w1, t)" by fastforce
  obtain w2 h where r: "rn_random rn w1 = (w2, h)" by fastforce
  have t: "t \<noteq> zero_time" "- (2 ^ 63) \<le> t" "t < 2 ^ 63"
    using assms(2) c unfolding sound_environment_def Let_def by (metis snd_conv)+
  have "case h of Inl _ \<Rightarrow> True | Inr h \<Rightarrow> length h = 12 \<and> list_all (\<lambda>c. is_lower c \<or> is_digit c) h"
    using assms(2) r unfolding sound_environment_def by (metis snd_conv)
  then have i: "h = Inr hex \<Longrightarrow> valid_local_id (new_run_id t hex) \<and> has_prefix (new_run_id t hex) ''run-''" for hex
    using run_id_valid [OF t(2,3)] by simp
  have d: "length (rn_job_digest rn j) = 64" for j using assms(2) by (simp add: sound_environment_def)
  show ?thesis
    using assms(1) c r t(1) i d find_job_name [of "rn_jobs rn" name]
    by (auto simp: run_begin_def maintenance_job_fingerprint_def Let_def
        split: option.splits sum.splits if_splits prod.splits)
qed

lemma finish_record:
  assumes "finish_run rn r0 res details run_err w = (w', ivk, err)" and "sound_environment rn"
  shows "\<exists>t msg. t \<noteq> zero_time \<and> ir_record ivk
    = r0\<lparr>hr_finished_at := t, hr_result := res, hr_details := details, hr_error := msg\<rparr>"
proof -
  obtain w1 t where c: "rn_clock rn w = (w1, t)" by fastforce
  have t: "t \<noteq> zero_time" using assms(2) c unfolding sound_environment_def Let_def by (metis snd_conv)
  have "ir_record ivk = r0\<lparr>hr_finished_at := t, hr_result := res, hr_details := details,
      hr_error := (case run_err of None \<Rightarrow> hr_error r0 | Some e \<Rightarrow> history_error e)\<rparr>"
    using assms(1) c by (auto simp: finish_run_def Let_def split: option.splits sum.splits prod.splits)
  with t show ?thesis by blast
qed

lemma valid_job_fields:
  assumes "validate_maintenance m = Inr ()" and "job \<in> set (mt_jobs m)"
  shows "valid_local_id (mj_name job) \<and> mj_type job \<noteq> [] \<and> mj_target job \<noteq> []"
proof -
  have "validate_maintenance_jobs [] (mt_jobs m) = Inr ()"
    using assms(1) by (auto simp: validate_maintenance_def result_simps)
  with assms(2) obtain seen where v: "validate_maintenance_job seen job = Inr ()" using validate_jobs_ok by blast
  then have "service_name_pattern (mj_name job)" "mj_type job \<in> {''backup'', ''doctor'', ''update-check''}"
    "validate_maintenance_target (mj_target job) = Inr ()"
    by (auto simp: validate_maintenance_job_def result_simps Let_def)
  then show ?thesis
    by (cases "mj_name job") (auto simp: service_name_pattern_def pattern_of_def valid_local_id_def validate_maintenance_target_def)
qed

text \<open>
  C34. The history never refuses a run: for a validated policy and an environment that keeps its
  promises, the record that an invocation writes passes the check of \<open>Append\<close>, and once written it is
  found again by \<open>List\<close> under its own file name.
\<close>

theorem records_accepted:
  assumes "validate_maintenance m = Inr ()" and "rn_jobs rn = mt_jobs m" and "sound_environment rn"
    and "run_detailed rn name options w = (w', Some ivk, err)"
  shows "valid_record (ir_record ivk) \<and> lists_record (history_file (ir_record ivk)) (ir_record ivk)"
proof -
  obtain w1 b where b: "run_begin rn name options w = (w1, b)" by fastforce
  note br = begun_record [OF b assms(3)]
  have "\<exists>r res details e w2 w3 e3 job. finish_run rn r res details e w2 = (w3, ivk, e3) \<and> job \<in> set (rn_jobs rn)
      \<and> hr_job r = mj_name job \<and> hr_operation r = mj_type job \<and> hr_target r = mj_target job
      \<and> hr_schema_version r = 1 \<and> length (hr_job_fingerprint r) = 64 \<and> hr_origin r \<in> {''manual'', ''scheduled''}
      \<and> hr_started_at r \<noteq> zero_time \<and> valid_local_id (hr_run_id r) \<and> has_prefix (hr_run_id r) ''run-''
      \<and> res \<in> {''success'', ''warning'', ''failure'', ''skipped''}"
  proof (cases b)
    case (Concluded r res details e)
    obtain w2 ivk' e2 where "finish_run rn r res details e w1 = (w2, ivk', e2)" by (metis prod_cases3)
    with assms(4) b Concluded have "finish_run rn r res details e w1 = (w2, ivk, e2)" by (simp add: run_detailed_def)
    with br Concluded show ?thesis by fastforce
  next
    case (Locked job r)
    obtain ex where ex: "rn_executor rn = Some ex" using locked_needs_executor [OF b [unfolded Locked]] by blast
    obtain w2 out e1 where x: "ex job \<lparr>in_run_id = hr_run_id r, in_job_fingerprint = hr_job_fingerprint r\<rparr> w1 = (w2, out, e1)"
      by (metis prod_cases3)
    have "case rn_executor rn of None \<Rightarrow> True
        | Some ex \<Rightarrow> oc_result (fst (snd (ex job i w))) \<in> {[], ''success'', ''warning'', ''failure''}" for i w
      using assms(3) unfolding sound_environment_def by blast
    then have out: "oc_result out \<in> {[], ''success'', ''warning'', ''failure''}"
      using ex x by (metis (no_types, lifting) fst_conv option.simps(5) snd_conv)
    define res where "res = (let res0 = (if oc_result out = [] then ''success'' else oc_result out)
      in if e1 \<noteq> None \<and> res0 = ''success'' then ''failure'' else res0)"
    obtain w3 ivk' e3 where f: "finish_run rn r res (oc_details out) e1 w2 = (w3, ivk', e3)" by (metis prod_cases3)
    have "run_detailed rn name options w = (rn_release rn (mj_name job) w3, Some ivk', e3)"
      using b Locked ex x f by (simp add: run_detailed_def run_operation_def res_def Let_def)
    with assms(4) f have "finish_run rn r res (oc_details out) e1 w2 = (w3, ivk, e3)" by simp
    moreover have "res \<in> {''success'', ''warning'', ''failure'', ''skipped''}"
      using out by (auto simp: res_def Let_def)
    ultimately show ?thesis using br Locked by fastforce
  qed (use assms(4) b in \<open>simp add: run_detailed_def\<close>)
  then obtain r res details e w2 w3 e3 job where f: "finish_run rn r res details e w2 = (w3, ivk, e3)"
    and job: "job \<in> set (mt_jobs m)" "hr_job r = mj_name job" "hr_operation r = mj_type job" "hr_target r = mj_target job"
    and r: "hr_schema_version r = 1" "length (hr_job_fingerprint r) = 64" "hr_origin r \<in> {''manual'', ''scheduled''}"
      "hr_started_at r \<noteq> zero_time" "valid_local_id (hr_run_id r)" "has_prefix (hr_run_id r) ''run-''"
      "res \<in> {''success'', ''warning'', ''failure'', ''skipped''}"
    using assms(2) by metis
  obtain t msg where "t \<noteq> zero_time"
    "ir_record ivk = r\<lparr>hr_finished_at := t, hr_result := res, hr_details := details, hr_error := msg\<rparr>"
    using finish_record [OF f assms(3)] by blast
  then have "valid_record (ir_record ivk)" "hr_run_id (ir_record ivk) = hr_run_id r"
    using r valid_job_fields [OF assms(1) job(1)] job(2-4) by (auto simp: valid_record_def)
  then show ?thesis using r(6) by (auto simp: lists_record_def history_file_def has_prefix_iff has_suffix_iff)
qed

definition ex_runner :: "unit runner" where
  "ex_runner =
     \<lparr>rn_jobs = mt_jobs ex_maintenance, rn_clock = (\<lambda>w. (w, 1700000000000000000)),
      rn_random = (\<lambda>w. (w, Inr (replicate 12 CHR ''a''))), rn_append = (\<lambda>r w. (w, None)),
      rn_acquire = (\<lambda>j w. (w, None)), rn_release = (\<lambda>j w. w),
      rn_executor = Some (\<lambda>job i w. (w, \<lparr>oc_result = ''success'', oc_details = no_run_details\<rparr>, None)),
      rn_notifier = None, rn_job_digest = (\<lambda>j. replicate 64 CHR ''0''), rn_issue_digest = ex_digest,
      rn_event_random = (\<lambda>w k. None), rn_wall_clock = (\<lambda>t. (23, 13, 20, 0))\<rparr>"

lemma ex_runner_sound: "sound_environment ex_runner"
  by (simp add: sound_environment_def ex_runner_def zero_time_def char_eval Let_def list_all_iff)

lemma records_accepted_witness:
  "\<exists>w' ivk err. run_detailed ex_runner ''nightly'' \<lparr>ro_origin = ''scheduled'', ro_ignore_window = False\<rparr> () = (w', Some ivk, err)
     \<and> valid_record (ir_record ivk) \<and> hr_result (ir_record ivk) = ''success''"
proof -
  have e: "eligible_at (rn_wall_clock ex_runner) (hd (mt_jobs ex_maintenance)) 1700000000000000000"
    by (simp add: eligible_at_def ex_runner_def ex_maintenance_def parse_maintenance_time_def time_of_day_def char_eval)
  obtain ivk where r: "run_detailed ex_runner ''nightly'' \<lparr>ro_origin = ''scheduled'', ro_ignore_window = False\<rparr> () = ((), Some ivk, None)"
    and "hr_result (ir_record ivk) = ''success''"
    using e by (simp add: run_detailed_def run_begin_def ex_runner_def find_job_def ex_maintenance_def run_operation_def finish_run_def Let_def)
  with records_accepted [OF ex_maintenance_valid _ ex_runner_sound r] show ?thesis by (simp add: ex_runner_def)
qed

lemma run_protocol_witness:
  "\<exists>w' log out err. run_detailed (traced ex_runner) ''nightly'' \<lparr>ro_origin = ''scheduled'', ro_ignore_window = False\<rparr> ((), [])
      = ((w', log), out, err) \<and> (out = None \<or> run_trace ''nightly'' (ir_record (the out)) log)"
proof -
  obtain w' log out err where r: "run_detailed (traced ex_runner) ''nightly''
      \<lparr>ro_origin = ''scheduled'', ro_ignore_window = False\<rparr> ((), []) = ((w', log), out, err)" by (metis surj_pair)
  from run_protocol [OF r] r show ?thesis by (cases out) auto
qed

end
