(* ===== verification/Maintenance_Locking.thy ===== *)
theory Maintenance_Locking
  imports Maintenance
begin

text \<open>
  Several invocations of maintenance jobs on one controller, in any interleaving. An invocation waits,
  then begins (up to holding the lock of its job), then operates; each of the two is one step of the
  model on a shared world. The locale says what is expected of the job locks, without saying where they
  live; it is interpreted on the advisory file locks of \<open>internal/lease\<close>.
\<close>

section \<open>Interleavings\<close>

datatype phase = Waiting string run_options | Running maintenance_job run_record | Finished

inductive run_step :: "'w runner \<Rightarrow> 'w \<times> phase list \<Rightarrow> 'w \<times> phase list \<Rightarrow> bool" for rn :: "'w runner" where
  enter: "i < length ps \<Longrightarrow> ps ! i = Waiting name options \<Longrightarrow> run_begin rn name options w = (w1, Locked job r) \<Longrightarrow>
    run_step rn (w, ps) (w1, ps[i := Running job r])"
| refused: "i < length ps \<Longrightarrow> ps ! i = Waiting name options \<Longrightarrow> run_begin rn name options w = (w1, Refused e) \<Longrightarrow>
    run_step rn (w, ps) (w1, ps[i := Finished])"
| concluded: "i < length ps \<Longrightarrow> ps ! i = Waiting name options \<Longrightarrow> run_begin rn name options w = (w1, Concluded r res d e) \<Longrightarrow>
    finish_run rn r res d e w1 = (w2, ivk, e2) \<Longrightarrow> run_step rn (w, ps) (w2, ps[i := Finished])"
| operate: "i < length ps \<Longrightarrow> ps ! i = Running job r \<Longrightarrow> run_operation rn job r w = (w1, ivk, e) \<Longrightarrow>
    run_step rn (w, ps) (w1, ps[i := Finished])"

inductive_cases run_stepE: "run_step rn s t"

text \<open>The \<open>i\<close>th invocation is operating job \<open>a\<close>.\<close>

definition operates :: "phase list \<Rightarrow> nat \<Rightarrow> maintenance_job \<Rightarrow> bool" where
  "operates ps i a \<longleftrightarrow> i < length ps \<and> (case ps ! i of Running b r \<Rightarrow> a = b | _ \<Rightarrow> False)"

lemma operates_finished: "operates (ps[i := Finished]) k a \<longleftrightarrow> k \<noteq> i \<and> operates ps k a"
  by (cases "i < length ps") (auto simp: operates_def nth_list_update)

lemma operates_running: "i < length ps \<Longrightarrow> operates (ps[i := Running job r]) k a \<longleftrightarrow> (if k = i then a = job else operates ps k a)"
  by (auto simp: operates_def nth_list_update)

section \<open>What a lock promises\<close>

text \<open>
  \<open>slot j\<close> is what the lock of job \<open>j\<close> is tied to. A lock is granted only while its slot is free, taking
  and releasing one slot leaves the others alone, and a refused request changes nothing.
\<close>

locale job_lock =
  fixes held :: "'w \<Rightarrow> 'k \<Rightarrow> bool"
    and slot :: "string \<Rightarrow> 'k"
    and acquire :: "string \<Rightarrow> 'w \<Rightarrow> 'w \<times> error option"
    and release :: "string \<Rightarrow> 'w \<Rightarrow> 'w"
  assumes granted: "acquire j w = (w', None) \<Longrightarrow> \<not> held w (slot j) \<and> (\<forall>k. held w' k \<longleftrightarrow> held w k \<or> k = slot j)"
    and denied: "acquire j w = (w', Some e) \<Longrightarrow> (\<forall>k. held w' k \<longleftrightarrow> held w k)"
    and released: "\<forall>k. held (release j w) k \<longleftrightarrow> held w k \<and> k \<noteq> slot j"
begin

text \<open>The runner uses these locks, and nothing else that it calls touches them.\<close>

definition guards :: "'w runner \<Rightarrow> bool" where
  "guards rn \<longleftrightarrow>
     rn_acquire rn = acquire \<and> rn_release rn = release
     \<and> (\<forall>w. held (fst (rn_clock rn w)) = held w) \<and> (\<forall>w. held (fst (rn_random rn w)) = held w)
     \<and> (\<forall>r w. held (fst (rn_append rn r w)) = held w)
     \<and> (case rn_executor rn of None \<Rightarrow> True | Some ex \<Rightarrow> \<forall>job i w. held (fst (ex job i w)) = held w)
     \<and> (case rn_notifier rn of None \<Rightarrow> True | Some p \<Rightarrow> \<forall>es w. held (fst (p es w)) = held w)"

lemma guards_each:
  assumes "guards rn"
  shows "held (fst (rn_clock rn w)) = held w" and "held (fst (rn_random rn w)) = held w"
    and "held (fst (rn_append rn r w)) = held w"
    and "rn_executor rn = Some ex \<Longrightarrow> held (fst (ex job i w)) = held w"
    and "rn_notifier rn = Some p \<Longrightarrow> held (fst (p es w)) = held w"
    and "rn_acquire rn = acquire" and "rn_release rn = release"
  using assms unfolding guards_def by auto

lemma guardsD:
  assumes "guards rn"
  shows "rn_clock rn w = (w1, t) \<Longrightarrow> held w1 = held w"
    and "rn_random rn w = (w1, h) \<Longrightarrow> held w1 = held w"
    and "rn_append rn r w = (w1, e) \<Longrightarrow> held w1 = held w"
    and "rn_executor rn = Some ex \<Longrightarrow> ex job i w = (w1, x) \<Longrightarrow> held w1 = held w"
    and "rn_notifier rn = Some p \<Longrightarrow> p es w = (w1, y) \<Longrightarrow> held w1 = held w"
  using guards_each(1,2) [OF assms, of w] guards_each(3) [OF assms, of r w]
    guards_each(4) [OF assms, of ex job i w] guards_each(5) [OF assms, of p es w] by simp_all

lemma finish_held:
  assumes "guards rn" and "finish_run rn r res d e w = (w', ivk, err)"
  shows "held w' = held w"
proof -
  obtain w1 now where c: "rn_clock rn w = (w1, now)" by fastforce
  define q where "q = r\<lparr>hr_finished_at := now, hr_result := res, hr_details := d,
    hr_error := (case e of None \<Rightarrow> hr_error r | Some e \<Rightarrow> history_error e)\<rparr>"
  obtain w2 oe where a: "rn_append rn q w1 = (w2, oe)" by fastforce
  have h: "held w2 = held w" using guardsD(1) [OF assms(1) c] guardsD(3) [OF assms(1) a] by simp
  note f = assms(2) [unfolded finish_run_def c prod.case Let_def q_def [symmetric] a]
  show ?thesis
  proof (cases "rn_notifier rn")
    case None
    with f h show ?thesis by (cases oe) auto
  next
    case (Some p)
    with f h guardsD(5) [OF assms(1) Some] show ?thesis
      by (cases oe; cases "derive (rn_issue_digest rn) (rn_event_random rn w2) (notification_operation q e)")
        (auto split: prod.splits)
  qed
qed

lemma begin_held:
  assumes "guards rn" and "run_begin rn name options w = (w', b)"
  shows "case b of Locked job r \<Rightarrow> \<not> held w (slot (mj_name job)) \<and> (\<forall>k. held w' k \<longleftrightarrow> held w k \<or> k = slot (mj_name job))
    | _ \<Rightarrow> (\<forall>k. held w' k \<longleftrightarrow> held w k)"
proof -
  obtain w1 now where c: "rn_clock rn w = (w1, now)" by fastforce
  obtain w2 h where r: "rn_random rn w1 = (w2, h)" by fastforce
  have h: "held w2 = held w" and h1: "held w1 = held w" using guardsD(1) [OF assms(1) c] guardsD(2) [OF assms(1) r] by auto
  note acq = guards_each(6) [OF assms(1)]
  show ?thesis
  proof (cases "find_job (rn_jobs rn) name")
    case None
    with assms(2) show ?thesis by (auto simp: run_begin_def)
  next
    case (Some job)
    obtain w3 oe where l: "acquire (mj_name job) w2 = (w3, oe)" by fastforce
    have g: "case oe of None \<Rightarrow> \<not> held w2 (slot (mj_name job)) \<and> (\<forall>k. held w3 k \<longleftrightarrow> held w2 k \<or> k = slot (mj_name job))
      | Some e \<Rightarrow> (\<forall>k. held w3 k \<longleftrightarrow> held w2 k)"
      using granted [of "mj_name job" w2 w3] denied [of "mj_name job" w2 w3] l by (cases oe) auto
    show ?thesis
      using assms(2) g h h1 unfolding run_begin_def Some c r prod.case option.case acq l Let_def
      by (cases h; cases oe) (auto simp: l split: if_splits)
  qed
qed

lemma operation_held:
  assumes "guards rn" and "run_operation rn job r w = (w', ivk, e)" and "rn_executor rn \<noteq> None"
  shows "\<forall>k. held w' k \<longleftrightarrow> held w k \<and> k \<noteq> slot (mj_name job)"
proof -
  obtain ex where ex: "rn_executor rn = Some ex" using assms(3) by blast
  obtain w1 out e1 where x: "ex job \<lparr>in_run_id = hr_run_id r, in_job_fingerprint = hr_job_fingerprint r\<rparr> w = (w1, out, e1)"
    by (metis prod_cases3)
  then obtain w2 res ivk2 e2 where f: "finish_run rn r res (oc_details out) e1 w1 = (w2, ivk2, e2)"
    and w': "w' = release (mj_name job) w2"
    using assms(1,2) ex by (auto simp: run_operation_def guards_def Let_def split: prod.splits)
  have "held w2 = held w" using finish_held [OF assms(1) f] guardsD(4) [OF assms(1) ex x] by simp
  with released [of "mj_name job" w2] w' show ?thesis by simp
qed

text \<open>The invariant: running jobs hold their slots, and no two the same.\<close>

definition exclusive :: "'w runner \<Rightarrow> 'w \<times> phase list \<Rightarrow> bool" where
  "exclusive rn s \<longleftrightarrow>
     (\<forall>i a. operates (snd s) i a \<longrightarrow> rn_executor rn \<noteq> None \<and> held (fst s) (slot (mj_name a)))
     \<and> (\<forall>i j a b. operates (snd s) i a \<longrightarrow> operates (snd s) j b \<longrightarrow> i \<noteq> j \<longrightarrow> slot (mj_name a) \<noteq> slot (mj_name b))"

lemma exclusiveI:
  assumes "\<And>i a. operates ps i a \<Longrightarrow> rn_executor rn \<noteq> None \<and> held w (slot (mj_name a))"
    and "\<And>i j a b. operates ps i a \<Longrightarrow> operates ps j b \<Longrightarrow> i \<noteq> j \<Longrightarrow> slot (mj_name a) \<noteq> slot (mj_name b)"
  shows "exclusive rn (w, ps)"
  unfolding exclusive_def fst_conv snd_conv using assms by blast

lemma exclusiveD:
  assumes "exclusive rn (w, ps)" and "operates ps i a"
  shows "rn_executor rn \<noteq> None" and "held w (slot (mj_name a))"
    and "operates ps j b \<Longrightarrow> i \<noteq> j \<Longrightarrow> slot (mj_name a) \<noteq> slot (mj_name b)"
  using assms unfolding exclusive_def fst_conv snd_conv by blast+

lemma finished_exclusive:
  assumes "exclusive rn (w, ps)" and "\<And>k. held w' k \<longleftrightarrow> held w k"
  shows "exclusive rn (w', ps[i := Finished])"
proof (rule exclusiveI)
  fix k a
  assume "operates (ps[i := Finished]) k a"
  then have "operates ps k a" by (simp add: operates_finished)
  with assms(2) exclusiveD(1,2) [OF assms(1) this]
  show "rn_executor rn \<noteq> None \<and> held w' (slot (mj_name a))" by simp
next
  fix k l a b
  assume "operates (ps[i := Finished]) k a" "operates (ps[i := Finished]) l b" "k \<noteq> l"
  then show "slot (mj_name a) \<noteq> slot (mj_name b)"
    using exclusiveD(3) [OF assms(1), of k a l b] by (simp add: operates_finished)
qed

lemma started_exclusive:
  assumes "exclusive rn (w, ps)" and "\<not> held w (slot (mj_name job))" and "rn_executor rn \<noteq> None" and "i < length ps"
    and h: "\<And>k. held w' k \<longleftrightarrow> held w k \<or> k = slot (mj_name job)"
  shows "exclusive rn (w', ps[i := Running job r])"
proof (rule exclusiveI)
  fix k a
  assume "operates (ps[i := Running job r]) k a"
  then have "k \<noteq> i \<Longrightarrow> operates ps k a" and "k = i \<Longrightarrow> a = job" by (simp_all add: operates_running [OF assms(4)])
  then show "rn_executor rn \<noteq> None \<and> held w' (slot (mj_name a))"
    using exclusiveD(2) [OF assms(1), of k a] assms(3) h by blast
next
  fix k l a b
  assume o: "operates (ps[i := Running job r]) k a" "operates (ps[i := Running job r]) l b" "k \<noteq> l"
  then have "k \<noteq> i \<Longrightarrow> operates ps k a" "k = i \<Longrightarrow> a = job" "l \<noteq> i \<Longrightarrow> operates ps l b" "l = i \<Longrightarrow> b = job"
    by (simp_all add: operates_running [OF assms(4)])
  then show "slot (mj_name a) \<noteq> slot (mj_name b)"
    using \<open>k \<noteq> l\<close> exclusiveD(2,3) [OF assms(1), of k a] exclusiveD(2) [OF assms(1), of l b] assms(2)
    by (cases "k = i"; cases "l = i") auto
qed

lemma ended_exclusive:
  assumes "exclusive rn (w, ps)" and "operates ps i job" and h: "\<And>k. held w' k \<longleftrightarrow> held w k \<and> k \<noteq> slot (mj_name job)"
  shows "exclusive rn (w', ps[i := Finished])"
proof (rule exclusiveI)
  fix k a
  assume "operates (ps[i := Finished]) k a"
  then have "operates ps k a" "k \<noteq> i" by (simp_all add: operates_finished)
  with exclusiveD [OF assms(1) this(1)] assms(2) h
  show "rn_executor rn \<noteq> None \<and> held w' (slot (mj_name a))" by blast
next
  fix k l a b
  assume "operates (ps[i := Finished]) k a" "operates (ps[i := Finished]) l b" "k \<noteq> l"
  then show "slot (mj_name a) \<noteq> slot (mj_name b)"
    using exclusiveD(3) [OF assms(1), of k a l b] by (simp add: operates_finished)
qed

lemma step_exclusive:
  assumes "guards rn" and "run_step rn s t" and "exclusive rn s"
  shows "exclusive rn t"
  using assms(2)
proof (cases rule: run_step.cases)
  case (enter i ps name options w w1 job r)
  from begin_held [OF assms(1) enter(5)] have
    "\<not> held w (slot (mj_name job))" "\<And>k. held w1 k \<longleftrightarrow> held w k \<or> k = slot (mj_name job)" by auto
  with started_exclusive [OF _ _ locked_needs_executor [OF enter(5)] enter(3)] assms(3) enter(1,2) show ?thesis by simp
next
  case (refused i ps name options w w1 e)
  with begin_held [OF assms(1) refused(5)] assms(3) finished_exclusive show ?thesis by simp
next
  case (concluded i ps name options w w1 r res d e w2 ivk e2)
  from begin_held [OF assms(1) concluded(5)] finish_held [OF assms(1) concluded(6)]
  have "\<And>k. held w2 k \<longleftrightarrow> held w k" by simp
  with assms(3) concluded(1,2) finished_exclusive show ?thesis by simp
next
  case (operate i ps job r w w1 ivk e)
  then have o: "operates ps i job" and x: "exclusive rn (w, ps)" using assms(3) by (auto simp: operates_def)
  from operation_held [OF assms(1) operate(5) exclusiveD(1) [OF x o]]
  have "\<And>k. held w1 k \<longleftrightarrow> held w k \<and> k \<noteq> slot (mj_name job)" by blast
  with ended_exclusive [OF x o] operate(1,2) show ?thesis by simp
qed

lemma run_exclusive:
  assumes "(run_step rn)\<^sup>*\<^sup>* s t" and "guards rn" and "exclusive rn s"
  shows "exclusive rn t"
  using assms by (induction rule: rtranclp_induct) (auto intro: step_exclusive)

end

section \<open>The locks of the controller\<close>

text \<open>A world with the lock table in front; the other operations act on the rest.\<close>

definition table_acquire :: "(string \<Rightarrow> error option) \<Rightarrow> string \<Rightarrow> string \<Rightarrow> lock_table \<times> 'x \<Rightarrow> (lock_table \<times> 'x) \<times> error option" where
  "table_acquire prepare directory name w =
     (case local_acquire prepare directory name (fst w) of (table, e) \<Rightarrow> ((table, snd w), e))"

definition table_release :: "string \<Rightarrow> string \<Rightarrow> lock_table \<times> 'x \<Rightarrow> lock_table \<times> 'x" where
  "table_release directory name w = (lease_release (lock_file directory name) (fst w), snd w)"

definition on_rest :: "('x \<Rightarrow> 'x \<times> 'b) \<Rightarrow> 'y \<times> 'x \<Rightarrow> ('y \<times> 'x) \<times> 'b" where
  "on_rest f w = (case f (snd w) of (x, b) \<Rightarrow> ((fst w, x), b))"

definition with_locks :: "(string \<Rightarrow> error option) \<Rightarrow> string \<Rightarrow> 'x runner \<Rightarrow> (lock_table \<times> 'x) runner" where
  "with_locks prepare directory rn =
     \<lparr>rn_jobs = rn_jobs rn, rn_clock = on_rest (rn_clock rn), rn_random = on_rest (rn_random rn),
      rn_append = (\<lambda>r. on_rest (rn_append rn r)),
      rn_acquire = table_acquire prepare directory, rn_release = table_release directory,
      rn_executor = map_option (\<lambda>ex job i. on_rest (ex job i)) (rn_executor rn),
      rn_notifier = map_option (\<lambda>p es. on_rest (p es)) (rn_notifier rn),
      rn_job_digest = rn_job_digest rn, rn_issue_digest = rn_issue_digest rn,
      rn_event_random = (\<lambda>w. rn_event_random rn (snd w)), rn_wall_clock = rn_wall_clock rn\<rparr>"

interpretation controller: job_lock "\<lambda>w f. f \<in> set (fst w)" "lock_file directory" "table_acquire prepare directory"
    "table_release directory" for directory prepare
  by unfold_locales
    (auto simp: table_acquire_def table_release_def local_acquire_def acquire_file_lock_nonblocking lease_release_def
      split: if_splits prod.splits option.splits)

lemma with_locks_guarded: "controller.guards prepare directory (with_locks prepare directory rn)"
  by (auto simp: controller.guards_def with_locks_def on_rest_def fun_eq_iff split: prod.splits option.splits)

section \<open>Properties\<close>

text \<open>
  C18. No job runs twice at the same time: however many invocations of any jobs are started on a
  controller, by hand or by the scheduler, and however their steps interleave, two invocations that
  have begun their operations never belong to the same job.
\<close>

theorem jobs_never_overlap:
  assumes "(run_step (with_locks prepare directory rn))\<^sup>*\<^sup>* (w, ps) (w', ps')"
    and "list_all (\<lambda>p. case p of Waiting name options \<Rightarrow> True | _ \<Rightarrow> False) ps"
    and "operates ps' i a" and "operates ps' j b" and "i \<noteq> j"
  shows "mj_name a \<noteq> mj_name b"
proof -
  have none: "\<not> operates ps k c" for k c
    using assms(2) by (auto simp: operates_def list_all_length split: phase.splits)
  have "controller.exclusive directory (with_locks prepare directory rn) (w, ps)"
    unfolding controller.exclusive_def fst_conv snd_conv using none by blast
  from controller.run_exclusive [OF assms(1) with_locks_guarded this]
  have x: "controller.exclusive directory (with_locks prepare directory rn) (w', ps')" .
  from controller.exclusiveD(3) [OF x assms(3,4,5)] show ?thesis by auto
qed

text \<open>Two jobs of one controller, and both of them running.\<close>

definition ex_pair :: "(lock_table \<times> unit) runner" where
  "ex_pair = with_locks (\<lambda>f. None) ''/h'' (ex_runner\<lparr>rn_jobs :=
     [hd (mt_jobs ex_maintenance), (hd (mt_jobs ex_maintenance))\<lparr>mj_name := ''weekly'', mj_window := None\<rparr>]\<rparr>)"

lemma ex_pair_begins:
  shows "\<exists>job r. mj_name job = ''nightly'' \<and> run_begin ex_pair ''nightly'' \<lparr>ro_origin = [], ro_ignore_window = True\<rparr> ([], ())
      = (([''/h/nightly.lock''], ()), Locked job r)"
    and "\<exists>job r. mj_name job = ''weekly'' \<and> run_begin ex_pair ''weekly'' \<lparr>ro_origin = [], ro_ignore_window = False\<rparr>
      ([''/h/nightly.lock''], ()) = (([''/h/weekly.lock'', ''/h/nightly.lock''], ()), Locked job r)"
  by (simp_all add: run_begin_def ex_pair_def with_locks_def ex_runner_def ex_maintenance_def find_job_def on_rest_def
      table_acquire_def local_acquire_def acquire_file_lock_nonblocking valid_local_id_def eligible_at_def
      lock_file_def path_join_def path_clean_def clean_elements_def push_element_def is_rooted_def char_eval)

lemma jobs_never_overlap_witness:
  "\<exists>w ps a b. (run_step ex_pair)\<^sup>*\<^sup>* (([], ()), [Waiting ''nightly'' \<lparr>ro_origin = [], ro_ignore_window = True\<rparr>,
       Waiting ''weekly'' \<lparr>ro_origin = [], ro_ignore_window = False\<rparr>]) (w, ps)
     \<and> operates ps 0 a \<and> operates ps 1 b \<and> mj_name a \<noteq> mj_name b"
proof -
  let ?ps = "[Waiting ''nightly'' \<lparr>ro_origin = [], ro_ignore_window = True\<rparr>, Waiting ''weekly'' \<lparr>ro_origin = [], ro_ignore_window = False\<rparr>]"
  obtain a q b r where
    x: "run_begin ex_pair ''nightly'' \<lparr>ro_origin = [], ro_ignore_window = True\<rparr> ([], ()) = (([''/h/nightly.lock''], ()), Locked a q)"
    and y: "run_begin ex_pair ''weekly'' \<lparr>ro_origin = [], ro_ignore_window = False\<rparr> ([''/h/nightly.lock''], ())
      = (([''/h/weekly.lock'', ''/h/nightly.lock''], ()), Locked b r)" using ex_pair_begins by blast
  have 1: "run_step ex_pair (([], ()), ?ps) (([''/h/nightly.lock''], ()), ?ps[0 := Running a q])"
    by (rule run_step.enter [OF _ _ x]) simp_all
  have 2: "run_step ex_pair (([''/h/nightly.lock''], ()), ?ps[0 := Running a q])
      (([''/h/weekly.lock'', ''/h/nightly.lock''], ()), ?ps[0 := Running a q, 1 := Running b r])"
    by (rule run_step.enter [OF _ _ y]) simp_all
  have e: "?ps[0 := Running a q, 1 := Running b r] = [Running a q, Running b r]" by simp
  note s = rtranclp.rtrancl_into_rtrancl [of "run_step ex_pair", OF r_into_rtranclp [of "run_step ex_pair", OF 1] 2, unfolded e]
  have o: "operates [Running a q, Running b r] 0 a" "operates [Running a q, Running b r] 1 b" by (simp_all add: operates_def)
  from jobs_never_overlap [OF s [unfolded ex_pair_def] _ o] have "mj_name a \<noteq> mj_name b" by simp
  then show ?thesis using s o by blast
qed

end
