(* ===== verification/Compose_File.thy ===== *)
theory Compose_File
  imports Config "HOL-Library.AList"
begin

text \<open>
  The static checks of a Compose file (\<open>internal/services/source.go\<close>, from \<open>validateCompose\<close> on): which
  files it may be used with, its volumes and bind mounts, and its fixed host ports. The YAML library is
  a parameter of the callers; here a document is the tree of nodes that it gives. A Go map is an
  association list with one entry per key; where the code iterates over a map, the order of the list
  stands for the order that Go happens to choose.
\<close>

section \<open>Nodes\<close>

datatype yaml_kind = Document_Node | Sequence_Node | Mapping_Node | Scalar_Node | Alias_Node

datatype yaml_node = Node (yn_kind: yaml_kind) (yn_tag: string) (yn_value: string) (yn_content: "yaml_node list")

fun contains_alias :: "yaml_node \<Rightarrow> bool" where
  "contains_alias (Node k t v cs) \<longleftrightarrow> k = Alias_Node \<or> list_ex contains_alias cs"

fun node_pairs :: "yaml_node list \<Rightarrow> (yaml_node \<times> yaml_node) list" where
  "node_pairs (k # v # rest) = (k, v) # node_pairs rest"
| "node_pairs _ = []"

definition mapping_value :: "yaml_node option \<Rightarrow> string \<Rightarrow> yaml_node option" where
  "mapping_value node key =
     (case node of
        None \<Rightarrow> None
      | Some m \<Rightarrow>
          if yn_kind m \<noteq> Mapping_Node then None
          else map_option snd (find (\<lambda>(k, v). yn_value k = key) (node_pairs (yn_content m))))"

section \<open>Environment files\<close>

definition secret_env_name :: string where "secret_env_name = ''.bebop-secret.env''"

definition validate_env_file :: "string list \<Rightarrow> bool \<Rightarrow> yaml_node \<Rightarrow> unit result" where
  "validate_env_file source_files secret_configured value =
     rfail_if (yn_kind value \<noteq> Scalar_Node \<or> yn_tag value \<noteq> ''!!str'')
       (errorf ''env_file supports only relative string paths'')
     (if yn_value value = secret_env_name
      then rfail_if (\<not> secret_configured)
        (errorf (''env_file '' @ go_quote secret_env_name @ '' requires service.secret_env_file'')) (Inr ())
      else rfail_if (\<not> is_ok (validate_controller_relative_path (yn_value value) True) \<or> yn_value value \<notin> set source_files)
        (errorf (''env_file '' @ go_quote (yn_value value) @ '' must be a regular file inside the service source'')) (Inr ()))"

definition validate_env_files :: "yaml_node option \<Rightarrow> string list \<Rightarrow> bool \<Rightarrow> unit result" where
  "validate_env_files node source_files secret_configured =
     (case node of
        None \<Rightarrow> Inr ()
      | Some n \<Rightarrow> rforeach (validate_env_file source_files secret_configured)
          (if yn_kind n = Sequence_Node then yn_content n else [n]))"

section \<open>Volumes of a service\<close>

type_synonym environment = "(string \<times> string) list"

definition interpolated :: "string \<Rightarrow> string \<Rightarrow> string \<Rightarrow> string option" where
  "interpolated source name value =
     (if has_prefix source (''${'' @ name @ ''}'') then Some (value @ trim_prefix source (''${'' @ name @ ''}''))
      else if has_prefix source (''$'' @ name) then Some (value @ trim_prefix source (''$'' @ name))
      else None)"

fun first_interpolation :: "string \<Rightarrow> environment \<Rightarrow> string option" where
  "first_interpolation source [] = None"
| "first_interpolation source ((name, value) # env) =
     (case interpolated source name value of
        Some s \<Rightarrow> Some s
      | None \<Rightarrow> first_interpolation source env)"

text \<open>The resolved text, and whether it was interpolated.\<close>

definition resolve_storage_interpolation :: "string \<Rightarrow> environment \<Rightarrow> (string \<times> bool) result" where
  "resolve_storage_interpolation source env =
     (if \<not> has_prefix source ''$'' then Inr (source, False)
      else case first_interpolation source env of
        Some s \<Rightarrow> Inr (s, True)
      | None \<Rightarrow> Inl (errorf (''unknown storage interpolation '' @ go_quote source)))"

definition short_selinux_shared :: "string \<Rightarrow> bool" where
  "short_selinux_shared value =
     (let parts = split_on (CHR '':'') value;
          options = map trim_space (split_on (CHR '','') (join_with '':'' (drop 2 parts)))
      in \<not> length parts < 3 \<and> ''z'' \<in> set options \<and> ''Z'' \<notin> set options)"

definition long_selinux_shared :: "yaml_node \<Rightarrow> bool" where
  "long_selinux_shared value =
     (case mapping_value (Some value) ''bind'' of
        None \<Rightarrow> False
      | Some bind \<Rightarrow>
          yn_kind bind = Mapping_Node
          \<and> (case mapping_value (Some bind) ''selinux'' of
               None \<Rightarrow> False
             | Some option \<Rightarrow> yn_kind option = Scalar_Node \<and> yn_value option = ''z''))"

text \<open>One entry of \<open>volumes\<close> gives a volume key, a bind mount with its shared label, or neither.\<close>

datatype mount = Volume_Key string | Bind_Mount string bool | Anonymous

definition scalar_mount :: "environment \<Rightarrow> string \<Rightarrow> mount result" where
  "scalar_mount env value =
     (case cut_byte (CHR '':'') value of (source, _, found) \<Rightarrow>
       rbind (resolve_storage_interpolation source env) (\<lambda>(resolved, interpolation).
       if found \<and> (source = ''.'' \<or> source = ''..'' \<or> has_prefix source ''./'' \<or> has_prefix source ''../'')
       then Inl (errorf (''relative bind mount '' @ go_quote value @ '' is unsafe; use a named volume or absolute target path''))
       else if found \<and> (has_prefix source ''/'' \<or> interpolation)
       then rfail_if (\<not> has_prefix resolved ''/'')
          (errorf (''storage bind mount '' @ go_quote value @ '' did not resolve to an absolute target path''))
          (Inr (Bind_Mount resolved (short_selinux_shared value)))
       else if found \<and> source \<noteq> []
       then rfail_if (CHR ''$'' \<in> set source)
          (errorf ''bind mount interpolation is only allowed for declared Bebop storage resources'')
          (Inr (Volume_Key source))
       else Inr Anonymous))"

definition mapping_mount :: "environment \<Rightarrow> yaml_node \<Rightarrow> mount result" where
  "mapping_mount env value =
     (let t = mapping_value (Some value) ''type''; source = mapping_value (Some value) ''source'' in
      rfail_if (case t of None \<Rightarrow> False
          | Some n \<Rightarrow> yn_kind n \<noteq> Scalar_Node \<or> (yn_value n \<noteq> ''bind'' \<and> yn_value n \<noteq> ''volume''))
        (errorf ''volume type must be bind or volume'')
      (if (case t of None \<Rightarrow> True | Some n \<Rightarrow> yn_value n = ''volume'')
       then (case source of
           Some s \<Rightarrow> rfail_if (yn_kind s \<noteq> Scalar_Node \<or> yn_value s = [])
               (errorf ''volume mounts require a scalar source'') (Inr (Volume_Key (yn_value s)))
         | None \<Rightarrow> Inl (errorf ''volume mounts require a scalar source''))
       else (case source of
           None \<Rightarrow> Inl (errorf ''bind mounts require an absolute target source path'')
         | Some s \<Rightarrow>
             rfail_if (yn_kind s \<noteq> Scalar_Node) (errorf ''bind mounts require an absolute target source path'')
             (case resolve_storage_interpolation (yn_value s) env of
                Inl _ \<Rightarrow> Inl (errorf ''bind mounts require an absolute target source path or declared Bebop storage interpolation'')
              | Inr (resolved, interpolation) \<Rightarrow>
                  rfail_if ((\<not> has_prefix (yn_value s) ''/'' \<and> \<not> interpolation) \<or> \<not> has_prefix resolved ''/'')
                    (errorf ''bind mounts require an absolute target source path or declared Bebop storage interpolation'')
                    (Inr (Bind_Mount resolved (long_selinux_shared value)))))))"

definition mount_of :: "environment \<Rightarrow> yaml_node \<Rightarrow> mount result" where
  "mount_of env value =
     (if yn_kind value = Scalar_Node then scalar_mount env (yn_value value)
      else if yn_kind value = Mapping_Node then mapping_mount env value
      else Inl (errorf ''volume must use string or long mapping syntax''))"

fun collect_mounts :: "environment \<Rightarrow> yaml_node list \<Rightarrow> string list \<Rightarrow> (string \<times> bool) list
    \<Rightarrow> (string list \<times> (string \<times> bool) list) result" where
  "collect_mounts env [] keys paths = Inr (keys, paths)"
| "collect_mounts env (v # vs) keys paths =
     rbind (mount_of env v) (\<lambda>m. case m of
         Volume_Key k \<Rightarrow> collect_mounts env vs (keys @ [k]) paths
       | Bind_Mount p shared \<Rightarrow> collect_mounts env vs keys (AList.update p shared paths)
       | Anonymous \<Rightarrow> collect_mounts env vs keys paths)"

definition validate_volumes :: "yaml_node option \<Rightarrow> environment \<Rightarrow> (string list \<times> (string \<times> bool) list) result" where
  "validate_volumes node env =
     (case node of
        None \<Rightarrow> Inr ([], [])
      | Some n \<Rightarrow> rfail_if (yn_kind n \<noteq> Sequence_Node) (errorf ''volumes must be a sequence'')
          (collect_mounts env (yn_content n) [] []))"

section \<open>Ports\<close>

definition long_port :: "yaml_node \<Rightarrow> string option result" where
  "long_port node =
     (case mapping_value (Some node) ''published'' of
        None \<Rightarrow> Inl (errorf ''long port syntax requires scalar published'')
      | Some published \<Rightarrow>
          rfail_if (yn_kind published \<noteq> Scalar_Node) (errorf ''long port syntax requires scalar published'')
          (let protocol = (case mapping_value (Some node) ''protocol'' of
                 Some v \<Rightarrow> if yn_kind v = Scalar_Node then to_lower (yn_value v) else ''tcp'' | None \<Rightarrow> ''tcp'');
               host = (case mapping_value (Some node) ''host_ip'' of
                 Some v \<Rightarrow> if yn_kind v = Scalar_Node then yn_value v else ''0.0.0.0'' | None \<Rightarrow> ''0.0.0.0'')
           in Inr (Some (host @ '':'' @ yn_value published @ ''/'' @ protocol))))"

definition short_port :: "string \<Rightarrow> string option result" where
  "short_port text =
     (let cut = cut_byte (CHR ''/'') text;
          value = (if snd (snd cut) then fst cut else text);
          protocol = (if snd (snd cut) then to_lower (fst (snd cut)) else ''tcp'');
          parts = split_on (CHR '':'') value
      in if length parts < 2 then Inr None
         else (let host_port = parts ! (length parts - 2);
                   host = (if length parts > 2 then join_with '':'' (take (length parts - 2) parts) else ''0.0.0.0'')
               in rfail_if (host_port = [] \<or> CHR ''$'' \<in> set host_port) (errorf ''published ports must be fixed values'')
                    (Inr (Some (host @ '':'' @ host_port @ ''/'' @ protocol)))))"

definition fixed_port :: "yaml_node \<Rightarrow> string option result" where
  "fixed_port node =
     (if yn_kind node = Mapping_Node then long_port node
      else rfail_if (yn_kind node \<noteq> Scalar_Node) (errorf ''port must use string or long mapping syntax'') (short_port (yn_value node)))"

fun collect_ports :: "yaml_node list \<Rightarrow> string list result" where
  "collect_ports [] = Inr []"
| "collect_ports (v # vs) =
     rbind (fixed_port v) (\<lambda>b. rbind (collect_ports vs) (\<lambda>bs. Inr (case b of None \<Rightarrow> bs | Some p \<Rightarrow> p # bs)))"

definition parse_ports :: "yaml_node option \<Rightarrow> string list result" where
  "parse_ports node =
     (case node of
        None \<Rightarrow> Inr []
      | Some n \<Rightarrow> rfail_if (yn_kind n \<noteq> Sequence_Node) (errorf ''ports must be a sequence'') (collect_ports (yn_content n)))"

section \<open>Named volumes\<close>

record compose_volume =
  cv_runtime :: string
  cv_used :: bool
  cv_external :: bool

definition volume_name_pattern :: "string \<Rightarrow> bool" where
  "volume_name_pattern = pattern_of is_alnum (\<lambda>c. is_alnum c \<or> c = CHR ''_'' \<or> c = CHR ''.'' \<or> c = CHR ''-'') 0 127"

definition volume_definition :: "string \<Rightarrow> string \<Rightarrow> yaml_node \<Rightarrow> (string \<times> bool) result" where
  "volume_definition project key d =
     (let default = project @ ''_'' @ key in
      if yn_kind d = Scalar_Node \<and> yn_tag d = ''!!null'' then Inr (default, False)
      else rfail_if (yn_kind d \<noteq> Mapping_Node) (errorf (''Compose volume '' @ go_quote key @ '' must be a mapping or null''))
       (rbind (case mapping_value (Some d) ''external'' of
            None \<Rightarrow> Inr False
          | Some e \<Rightarrow> rfail_if (yn_kind e \<noteq> Scalar_Node \<or> (yn_value e \<noteq> ''true'' \<and> yn_value e \<noteq> ''false''))
              (errorf (''Compose volume '' @ go_quote key @ '' external must be true or false'')) (Inr (yn_value e = ''true''))) (\<lambda>external.
        rbind (case mapping_value (Some d) ''name'' of
            None \<Rightarrow> Inr default
          | Some n \<Rightarrow> rfail_if (yn_kind n \<noteq> Scalar_Node \<or> \<not> volume_name_pattern (yn_value n) \<or> CHR ''$'' \<in> set (yn_value n))
              (errorf (''Compose volume '' @ go_quote key @ '' name must be a fixed safe value'')) (Inr (yn_value n))) (\<lambda>runtime.
        Inr (runtime, external)))))"

fun collect_volumes :: "string \<Rightarrow> string list \<Rightarrow> (yaml_node \<times> yaml_node) list \<Rightarrow> (string \<times> compose_volume) list
    \<Rightarrow> (string \<times> compose_volume) list result" where
  "collect_volumes project used [] volumes = Inr volumes"
| "collect_volumes project used ((k, d) # rest) volumes =
     rfail_if (yn_kind k \<noteq> Scalar_Node \<or> \<not> volume_name_pattern (yn_value k)) (errorf ''Compose volume names must be safe identifiers'')
      (rbind (volume_definition project (yn_value k) d) (\<lambda>(runtime, external).
       collect_volumes project used rest
         (AList.update (yn_value k)
            \<lparr>cv_runtime = (if external \<and> runtime = project @ ''_'' @ yn_value k then yn_value k else runtime),
             cv_used = (yn_value k \<in> set used), cv_external = external\<rparr> volumes)))"

definition parse_compose_volumes :: "yaml_node option \<Rightarrow> string \<Rightarrow> string list \<Rightarrow> (string \<times> compose_volume) list result" where
  "parse_compose_volumes node project used =
     (case node of
        None \<Rightarrow> Inr []
      | Some n \<Rightarrow> rfail_if (yn_kind n \<noteq> Mapping_Node) (errorf ''top-level volumes must be a mapping'')
          (collect_volumes project used (node_pairs (yn_content n)) []))"

section \<open>The document\<close>

record compose_validation =
  cp_ports :: "string list"
  cp_volumes :: "(string \<times> compose_volume) list"
  cp_paths :: "(string \<times> bool) list"

text \<open>A path that several services mount is shared only if all of them ask for it.\<close>

definition merge_path :: "string \<times> bool \<Rightarrow> (string \<times> bool) list \<Rightarrow> (string \<times> bool) list" where
  "merge_path pb used =
     (case map_of used (fst pb) of
        None \<Rightarrow> AList.update (fst pb) (snd pb) used
      | Some previous \<Rightarrow> AList.update (fst pb) (previous \<and> snd pb) used)"

definition validate_compose_service :: "string list \<Rightarrow> bool \<Rightarrow> environment \<Rightarrow> yaml_node \<Rightarrow> yaml_node
    \<Rightarrow> (string list \<times> (string \<times> bool) list \<times> string list) result" where
  "validate_compose_service files secret env name d =
     (let at = ''service '' @ go_quote (yn_value name) in
      rfail_if (yn_kind name \<noteq> Scalar_Node \<or> yn_kind d \<noteq> Mapping_Node) (errorf ''Compose services must be named mappings'')
     (rfail_if (mapping_value (Some d) ''build'' \<noteq> None) (errorf (at @ '' uses unsupported build; use an explicit image''))
     (rfail_if (mapping_value (Some d) ''profiles'' \<noteq> None) (errorf (at @ '' uses unsupported profiles''))
     (rfail_if (mapping_value (Some d) ''extends'' \<noteq> None) (errorf (at @ '' uses unsupported extends''))
     (rbind (rmap_err (wrapf (at @ '': '')) (validate_env_files (mapping_value (Some d) ''env_file'') files secret)) (\<lambda>_.
      rbind (rmap_err (wrapf (at @ '': '')) (validate_volumes (mapping_value (Some d) ''volumes'') env)) (\<lambda>(keys, paths).
      rbind (rmap_err (wrapf (at @ '': '')) (parse_ports (mapping_value (Some d) ''ports''))) (\<lambda>ports.
      Inr (keys, paths, ports)))))))))"

fun collect_services :: "string list \<Rightarrow> bool \<Rightarrow> environment \<Rightarrow> (yaml_node \<times> yaml_node) list
    \<Rightarrow> string list \<Rightarrow> (string \<times> bool) list \<Rightarrow> string list \<Rightarrow> (string list \<times> (string \<times> bool) list \<times> string list) result" where
  "collect_services files secret env [] volumes paths ports = Inr (volumes, paths, ports)"
| "collect_services files secret env ((name, d) # rest) volumes paths ports =
     rbind (validate_compose_service files secret env name d) (\<lambda>(keys, ps, bs).
     collect_services files secret env rest (volumes @ keys) (fold merge_path ps paths) (ports @ bs))"

definition validate_compose :: "yaml_node \<Rightarrow> string list \<Rightarrow> bool \<Rightarrow> string \<Rightarrow> environment \<Rightarrow> compose_validation result" where
  "validate_compose document files secret project env =
     rfail_if (contains_alias document) (errorf ''YAML aliases are not supported in managed Compose files'')
     (case yn_content document of
        [root] \<Rightarrow>
          rfail_if (yn_kind root \<noteq> Mapping_Node) (errorf ''Compose document must be a mapping'')
          (case mapping_value (Some root) ''services'' of
             None \<Rightarrow> Inl (errorf ''Compose document must declare at least one service'')
           | Some services \<Rightarrow>
               rfail_if (yn_kind services \<noteq> Mapping_Node \<or> yn_content services = [])
                 (errorf ''Compose document must declare at least one service'')
               (rbind (collect_services files secret env (node_pairs (yn_content services)) [] [] []) (\<lambda>(used, paths, ports).
                rbind (parse_compose_volumes (mapping_value (Some root) ''volumes'') project used) (\<lambda>volumes.
                Inr \<lparr>cp_ports = sort ports, cp_volumes = volumes, cp_paths = paths\<rparr>))))
      | _ \<Rightarrow> Inl (errorf ''Compose document must be a mapping''))"

section \<open>Lemmas\<close>

text \<open>A map of paths that only tightens: what it knew it still knows, shared at most where it was.\<close>

definition tightened :: "(string \<times> bool) list \<Rightarrow> (string \<times> bool) list \<Rightarrow> bool" where
  "tightened paths paths' \<longleftrightarrow> (\<forall>p s. map_of paths p = Some s \<longrightarrow> (\<exists>s'. map_of paths' p = Some s' \<and> (s' \<longrightarrow> s)))"

lemma tightened_refl [simp]: "tightened paths paths"
  by (auto simp: tightened_def)

lemma tightened_trans: "tightened a b \<Longrightarrow> tightened b c \<Longrightarrow> tightened a c"
  unfolding tightened_def by metis

lemma merge_path_map_of:
  "map_of (merge_path (p, b) used) q
   = (if q = p then Some (case map_of used p of None \<Rightarrow> b | Some previous \<Rightarrow> previous \<and> b) else map_of used q)"
  by (simp add: merge_path_def update_conv' split: option.splits)

lemma merge_path_tightened: "tightened used (merge_path pb used)"
  by (cases pb) (auto simp: tightened_def merge_path_map_of)

lemma fold_merge_tightened: "tightened used (fold merge_path ps used)"
  by (induction ps arbitrary: used) (auto intro: tightened_trans merge_path_tightened)

lemma fold_merge_new: "(p, b) \<in> set ps \<Longrightarrow> \<exists>s. map_of (fold merge_path ps used) p = Some s \<and> (s \<longrightarrow> b)"
proof (induction ps arbitrary: used)
  case (Cons x ps)
  show ?case
  proof (cases "x = (p, b)")
    case True
    then have "\<exists>s. map_of (merge_path x used) p = Some s \<and> (s \<longrightarrow> b)"
      by (auto simp: merge_path_map_of split: option.splits)
    with fold_merge_tightened [of "merge_path x used" ps] show ?thesis by (fastforce simp: tightened_def)
  qed (use Cons in auto)
qed simp

lemma fold_merge_dom: "dom (map_of (fold merge_path ps used)) = dom (map_of used) \<union> fst ` set ps"
proof (induction ps arbitrary: used)
  case (Cons x ps)
  have "dom (map_of (merge_path x used)) = insert (fst x) (dom (map_of used))"
    by (cases x) (auto simp: merge_path_map_of split: if_splits)
  with Cons show ?case by auto
qed simp

lemma mount_absolute: "mount_of env v = Inr (Bind_Mount p shared) \<Longrightarrow> has_prefix p ''/''"
  by (auto simp: mount_of_def scalar_mount_def mapping_mount_def Let_def result_simps
      split: if_splits option.splits sum.splits prod.splits)

lemma collect_mounts_absolute:
  assumes "collect_mounts env vs keys paths = Inr (keys', paths')" and "\<forall>p \<in> fst ` set paths. has_prefix p ''/''"
  shows "\<forall>p \<in> fst ` set paths'. has_prefix p ''/''"
  using assms
proof (induction vs arbitrary: keys paths)
  case (Cons v vs)
  then obtain m where m: "mount_of env v = Inr m" by (auto simp: result_simps)
  show ?case
  proof (cases m)
    case (Bind_Mount p b)
    with Cons.prems m have "collect_mounts env vs keys (AList.update p b paths) = Inr (keys', paths')" by simp
    moreover have "\<forall>q \<in> fst ` set (AList.update p b paths). has_prefix q ''/''"
      using Cons.prems(2) mount_absolute [OF m [unfolded Bind_Mount]] by (auto simp: dom_update)
    ultimately show ?thesis by (rule Cons.IH)
  qed (use Cons m in auto)
qed simp

lemma volumes_absolute: "validate_volumes node env = Inr (keys, ps) \<Longrightarrow> p \<in> fst ` set ps \<Longrightarrow> has_prefix p ''/''"
  using collect_mounts_absolute [of env _ "[]" "[]" keys ps]
  by (auto simp: validate_volumes_def result_simps split: option.splits)

text \<open>What is known of a service that was accepted.\<close>

definition service_accepted :: "environment \<Rightarrow> yaml_node \<Rightarrow> string list \<Rightarrow> (string \<times> bool) list \<Rightarrow> string list \<Rightarrow> bool" where
  "service_accepted env d keys ps bs \<longleftrightarrow>
     mapping_value (Some d) ''build'' = None \<and> mapping_value (Some d) ''profiles'' = None
     \<and> mapping_value (Some d) ''extends'' = None
     \<and> validate_volumes (mapping_value (Some d) ''volumes'') env = Inr (keys, ps)
     \<and> parse_ports (mapping_value (Some d) ''ports'') = Inr bs"

definition service_covered :: "environment \<Rightarrow> string list \<Rightarrow> string list \<Rightarrow> (string \<times> bool) list \<Rightarrow> yaml_node \<Rightarrow> bool" where
  "service_covered env used ports paths d \<longleftrightarrow>
     (\<exists>keys ps bs. service_accepted env d keys ps bs \<and> set keys \<subseteq> set used \<and> set bs \<subseteq> set ports
        \<and> (\<forall>p s. (p, s) \<in> set ps \<longrightarrow> (\<exists>s'. map_of paths p = Some s' \<and> (s' \<longrightarrow> s))))"

lemma compose_service_ok:
  "validate_compose_service files secret env name d = Inr (keys, ps, bs) \<Longrightarrow> service_accepted env d keys ps bs"
  by (auto simp: validate_compose_service_def service_accepted_def result_simps Let_def)

lemma collect_services_ok:
  assumes "collect_services files secret env sds volumes paths ports = Inr (volumes', paths', ports')"
  shows "set volumes \<subseteq> set volumes' \<and> tightened paths paths' \<and> set ports \<subseteq> set ports'
    \<and> (\<forall>x\<in>set sds. service_covered env volumes' ports' paths' (snd x))
    \<and> ((\<forall>p\<in>dom (map_of paths). has_prefix p ''/'') \<longrightarrow> (\<forall>p\<in>dom (map_of paths'). has_prefix p ''/''))"
  using assms
proof (induction sds arbitrary: volumes paths ports)
  case (Cons x sds)
  obtain name d where x: "x = (name, d)" by fastforce
  with Cons.prems obtain keys ps bs where v: "validate_compose_service files secret env name d = Inr (keys, ps, bs)"
    and c: "collect_services files secret env sds (volumes @ keys) (fold merge_path ps paths) (ports @ bs)
      = Inr (volumes', paths', ports')" by (auto simp: result_simps)
  note a = compose_service_ok [OF v] and ih = Cons.IH [OF c]
  have t: "tightened (fold merge_path ps paths) paths'" using ih by blast
  have pa: "\<forall>p \<in> fst ` set ps. has_prefix p ''/''"
    using a volumes_absolute unfolding service_accepted_def by blast
  have "\<exists>s'. map_of paths' p = Some s' \<and> (s' \<longrightarrow> s)" if "(p, s) \<in> set ps" for p s
    using fold_merge_new [OF that, of paths] t unfolding tightened_def by blast
  then have "service_covered env volumes' ports' paths' d"
    unfolding service_covered_def using a ih by (intro exI [of _ keys] exI [of _ ps] exI [of _ bs]) simp
  moreover have "tightened paths paths'" using tightened_trans [OF fold_merge_tightened t] .
  moreover have "\<forall>p\<in>dom (map_of paths). has_prefix p ''/'' \<Longrightarrow> \<forall>p\<in>dom (map_of (fold merge_path ps paths)). has_prefix p ''/''"
    unfolding fold_merge_dom using pa by blast
  ultimately show ?case using ih x by simp
qed simp

lemma collect_volumes_used:
  assumes "collect_volumes project used kds volumes = Inr volumes'"
    and "\<forall>k v. map_of volumes k = Some v \<longrightarrow> (cv_used v \<longleftrightarrow> k \<in> set used)"
  shows "\<forall>k v. map_of volumes' k = Some v \<longrightarrow> (cv_used v \<longleftrightarrow> k \<in> set used)"
  using assms
proof (induction kds arbitrary: volumes)
  case (Cons x kds)
  obtain k d where x: "x = (k, d)" by fastforce
  obtain r e where "volume_definition project (yn_value k) d = Inr (r, e)"
    using Cons.prems(1) x by (auto simp: result_simps)
  then have "collect_volumes project used kds (AList.update (yn_value k)
      \<lparr>cv_runtime = (if e \<and> r = project @ ''_'' @ yn_value k then yn_value k else r),
       cv_used = (yn_value k \<in> set used), cv_external = e\<rparr> volumes) = Inr volumes'"
    using Cons.prems(1) x by (simp add: result_simps)
  then obtain v where v: "cv_used v \<longleftrightarrow> yn_value k \<in> set used"
    and c: "collect_volumes project used kds (AList.update (yn_value k) v volumes) = Inr volumes'"
    by (metis compose_volume.select_convs(2))
  have "\<forall>j w. map_of (AList.update (yn_value k) v volumes) j = Some w \<longrightarrow> (cv_used w \<longleftrightarrow> j \<in> set used)"
    using Cons.prems(2) v by (simp add: update_conv')
  with Cons.IH [OF c] show ?case by blast
qed simp

section \<open>Properties\<close>


definition scalar :: "string \<Rightarrow> yaml_node" where "scalar v = Node Scalar_Node ''!!str'' v []"
definition sequence :: "yaml_node list \<Rightarrow> yaml_node" where "sequence vs = Node Sequence_Node ''!!seq'' [] vs"
definition mapping :: "(string \<times> yaml_node) list \<Rightarrow> yaml_node" where
  "mapping kvs = Node Mapping_Node ''!!map'' [] (concat (map (\<lambda>(k, v). [scalar k, v]) kvs))"

lemmas yaml_eval = scalar_def sequence_def mapping_def mapping_value_def

definition ex_document :: yaml_node where
  "ex_document = Node Document_Node [] []
     [mapping [(''services'', mapping [(''app'', mapping
        [(''image'', scalar ''media''), (''ports'', sequence [scalar ''8096:8096'']),
         (''volumes'', sequence [scalar ''${BEBOP_DATA_LIBRARY}:/library:ro,z'', scalar ''cache:/cache''])])]),
      (''volumes'', mapping [(''cache'', Node Scalar_Node ''!!null'' [] [])])]]"

lemmas compose_eval = validate_compose_def validate_compose_service_def validate_env_files_def validate_volumes_def mount_of_def
  scalar_mount_def resolve_storage_interpolation_def interpolated_def trim_prefix_def short_selinux_shared_def
  trim_space_def merge_path_def parse_ports_def fixed_port_def short_port_def parse_compose_volumes_def
  volume_name_pattern_def pattern_of_def volume_definition_def yaml_eval

lemma ex_document_accepted:
  "\<exists>v. validate_compose ex_document [''compose.yaml''] False ''p'' [(''BEBOP_DATA_LIBRARY'', ''/mnt/a/library'')] = Inr v
     \<and> cp_ports v = [''0.0.0.0:8096/tcp''] \<and> cp_paths v = [(''/mnt/a/library'', True)]"
  by (simp add: ex_document_def compose_eval Let_def char_eval)


section \<open>Where the checks fall short\<close>

text \<open>
  Within one service a later mount of a path replaces an earlier one, so a plain mount followed by a
  shared one counts as shared, although each use must ask for it.
\<close>

lemma later_mount_hides_plain:
  "validate_volumes (Some (sequence [scalar ''/srv/a:/one'', scalar ''/srv/a:/two:z''])) [] = Inr ([], [(''/srv/a'', True)])"
  by (simp add: compose_eval Let_def char_eval)

text \<open>A bind mount below the home directory passes as a named volume.\<close>

lemma home_mount_is_volume:
  "validate_volumes (Some (sequence [scalar ''~/data:/data''])) [] = Inr ([''~/data''], [])"
  by (simp add: compose_eval Let_def char_eval)

text \<open>The long syntax of a port accepts an interpolated value that the short syntax refuses.\<close>

lemma long_port_not_fixed:
  "fixed_port (mapping [(''target'', scalar ''80''), (''published'', scalar ''${PORT}'')]) = Inr (Some ''0.0.0.0:${PORT}/tcp'')"
  "\<not> is_ok (fixed_port (scalar ''${PORT}:80''))"
  by (simp_all add: long_port_def compose_eval Let_def char_eval)

text \<open>
  Interpolation takes the first name that is a prefix, in the order in which Go iterates over a map: a
  reference to one storage resource may be read as another one with a shorter name.
\<close>

lemma interpolation_depends_on_order:
  defines "a \<equiv> (''BEBOP_DATA_MEDIA'', ''/mnt/a'')" and "b \<equiv> (''BEBOP_DATA_MEDIA_OLD'', ''/mnt/b'')"
  shows "resolve_storage_interpolation ''$BEBOP_DATA_MEDIA_OLD'' [b, a] = Inr (''/mnt/b'', True)"
    and "resolve_storage_interpolation ''$BEBOP_DATA_MEDIA_OLD'' [a, b] = Inr (''/mnt/a_OLD'', True)"
  by (simp_all add: a_def b_def compose_eval)

text \<open>The names an environment can have.\<close>

definition plain_name :: "string \<Rightarrow> bool" where
  "plain_name n \<longleftrightarrow> n \<noteq> [] \<and> CHR ''{'' \<notin> set n \<and> CHR ''}'' \<notin> set n"

lemma braces_unique:
  assumes "has_prefix source (''${'' @ n @ ''}'')" and "has_prefix source (''${'' @ m @ ''}'')"
    and "CHR ''}'' \<notin> set n" and "CHR ''}'' \<notin> set m"
  shows "n = m"
proof -
  obtain s t where "''${'' @ n @ ''}'' @ s = ''${'' @ m @ ''}'' @ t" using assms(1,2) unfolding has_prefix_iff by (metis append.assoc)
  then have "n @ CHR ''}'' # s = m @ CHR ''}'' # t" by simp
  then have "cut_byte (CHR ''}'') (n @ CHR ''}'' # s) = cut_byte (CHR ''}'') (m @ CHR ''}'' # t)" by simp
  with assms(3,4) show ?thesis by simp
qed

lemma interpolated_unique:
  assumes "interpolated source n v \<noteq> None" and "interpolated source m w \<noteq> None" and "plain_name n" and "plain_name m"
    and "has_prefix source ''${'' \<or> (has_prefix n m \<longrightarrow> n = m) \<and> (has_prefix m n \<longrightarrow> m = n)"
  shows "n = m"
proof (cases "has_prefix source ''${''")
  case True
  then have "\<not> has_prefix source (''$'' @ k)" if "plain_name k" for k
    using that by (cases k) (auto simp: has_prefix_iff plain_name_def)
  with assms(1-4) have "has_prefix source (''${'' @ n @ ''}'')" "has_prefix source (''${'' @ m @ ''}'')"
    by (auto simp: interpolated_def split: if_splits)
  then show ?thesis using assms(3,4) by (intro braces_unique) (auto simp: plain_name_def)
next
  case False
  then have "\<not> has_prefix source (''${'' @ k)" for k by (auto simp: has_prefix_iff)
  with assms(1,2) have "has_prefix source (''$'' @ n)" "has_prefix source (''$'' @ m)"
    by (auto simp: interpolated_def split: if_splits)
  then obtain s t where "n @ s = m @ t" unfolding has_prefix_iff by fastforce
  then have "has_prefix n m \<or> has_prefix m n" unfolding has_prefix_iff by (metis append_eq_append_conv2)
  with assms(5) False show ?thesis by blast
qed

text \<open>
  Interpolation is deterministic wherever references are written with braces or no declared name is
  a prefix of another: then the answer does not depend on the order in which the environment is met.
\<close>

theorem interpolation_deterministic:
  assumes "set env = set env'" and "distinct (map fst env)" and "list_all (\<lambda>x. plain_name (fst x)) env"
    and "has_prefix source ''${'' \<or> (\<forall>a\<in>fst ` set env. \<forall>b\<in>fst ` set env. has_prefix a b \<longrightarrow> a = b)"
  shows "resolve_storage_interpolation source env = resolve_storage_interpolation source env'"
proof -
  have unique: "x = y" if "x \<in> set env" "y \<in> set env" "interpolated source (fst x) (snd x) \<noteq> None"
    "interpolated source (fst y) (snd y) \<noteq> None" for x y
  proof -
    have "fst x = fst y" using that assms(3,4) by (intro interpolated_unique) (auto simp: list_all_iff)
    with that(1,2) assms(2) show ?thesis by (auto simp: distinct_map dest: inj_onD)
  qed
  have first: "first_interpolation source e = Some r \<longleftrightarrow> (\<exists>x\<in>set e. interpolated source (fst x) (snd x) = Some r)"
    if "set e \<subseteq> set env" for e r
    using that
  proof (induction e)
    case (Cons y e)
    then show ?case
    proof (cases "interpolated source (fst y) (snd y)")
      case None
      with Cons show ?thesis by (cases y) auto
    next
      case (Some q)
      then have "x = y" if "x \<in> set e" "interpolated source (fst x) (snd x) = Some r" for x
        using unique [of x y] that Cons.prems by auto
      with Some show ?thesis by (cases y) auto
    qed
  qed simp
  have same: "first_interpolation source env = Some r \<longleftrightarrow> first_interpolation source env' = Some r" for r
    using first [of env r] first [of env' r] assms(1) by simp
  have "first_interpolation source env = first_interpolation source env'"
    using same [of "the (first_interpolation source env)"] same [of "the (first_interpolation source env')"]
    by (cases "first_interpolation source env"; cases "first_interpolation source env'") simp_all
  then show ?thesis by (simp add: resolve_storage_interpolation_def)
qed

lemma interpolation_deterministic_witness:
  "resolve_storage_interpolation ''${BEBOP_DATA_MEDIA_OLD}/x'' [(''BEBOP_DATA_MEDIA'', ''/mnt/a''), (''BEBOP_DATA_MEDIA_OLD'', ''/mnt/b'')]
   = resolve_storage_interpolation ''${BEBOP_DATA_MEDIA_OLD}/x'' [(''BEBOP_DATA_MEDIA_OLD'', ''/mnt/b''), (''BEBOP_DATA_MEDIA'', ''/mnt/a'')]"
  by (rule interpolation_deterministic) (auto simp: plain_name_def)

end
