(* ===== verification/Archive.thy ===== *)
theory Archive
  imports Go_Path
begin

text \<open>
  The archives of a backup (\<open>internal/backup/repository.go\<close>): names and links that are allowed in them,
  and \<open>rewriteArchive\<close>, through which every archive goes when it is stored, when a snapshot is verified
  and when it is restored. A stream is what \<open>tar.Reader\<close> yields, the entries up to the end or to a
  broken header; the context, the writer and its output are answers per entry.
\<close>

section \<open>Names and links\<close>

definition unsafe_bytes :: "string \<Rightarrow> bool" where
  "unsafe_bytes v \<longleftrightarrow> v = [] \<or> contains_byte v (CHR 0x00) \<or> contains_byte v (CHR 0x5C) \<or> is_rooted v"

definition climbs :: "string \<Rightarrow> bool" where
  "climbs p \<longleftrightarrow> p = ''..'' \<or> has_prefix p ''../''"

definition safe_tar_name :: "string \<Rightarrow> string result" where
  "safe_tar_name value =
     (if unsafe_bytes value then Inl (errorf (''archive has unsafe path '' @ go_quote value))
      else if climbs (path_clean value) then Inl (errorf (''archive path escapes root: '' @ go_quote value))
      else Inr (path_clean value))"

definition safe_tar_link :: "string \<Rightarrow> string \<Rightarrow> unit result" where
  "safe_tar_link name link =
     (if unsafe_bytes link then Inl (errorf (''archive symlink '' @ go_quote name @ '' has unsafe target''))
      else if climbs (path_clean (path_join (path_dir name) link))
      then Inl (errorf (''archive symlink '' @ go_quote name @ '' escapes root''))
      else Inr ())"

definition safe_archive_path :: "string \<Rightarrow> string result" where
  "safe_archive_path value =
     (if unsafe_bytes value then Inl (errorf ''must be a relative archive path'')
      else if path_clean value = ''.'' \<or> climbs (path_clean value) then Inl (errorf ''archive path escapes snapshot'')
      else Inr (path_clean value))"

section \<open>Entries\<close>

datatype tar_type = Type_Reg | Type_Reg_A | Type_Dir | Type_Symlink | Type_Other nat

record tar_header =
  th_name :: string
  th_type :: tar_type
  th_linkname :: string
  th_mode :: int
  th_devmajor :: int
  th_devminor :: int
  th_pax :: "(string \<times> string) list"
  th_xattrs :: "(string \<times> string) list"

definition safe_tar_header :: "tar_header \<Rightarrow> string \<Rightarrow> tar_header result" where
  "safe_tar_header h name =
     (let c = h\<lparr>th_name := name, th_pax := [], th_xattrs := [], th_mode := th_mode h mod 512,
                th_devmajor := 0, th_devminor := 0\<rparr>
      in case th_type h of
           Type_Symlink \<Rightarrow> rbind (safe_tar_link name (th_linkname h)) (\<lambda>_. Inr c)
         | Type_Other k \<Rightarrow> Inl (errorf (''archive entry '' @ go_quote name @ '' has unsupported type''))
         | _ \<Rightarrow> Inr (c\<lparr>th_linkname := []\<rparr>))"

text \<open>The contents of an entry are read only for a regular file, and reading may fail.\<close>

type_synonym tar_stream = "(tar_header \<times> string result) list \<times> error option"

record tar_env =
  te_cancelled :: "nat \<Rightarrow> error option"
  te_header_fault :: "nat \<Rightarrow> error option"
  te_data_fault :: "nat \<Rightarrow> error option"
  te_close_fault :: "error option"

definition carries_data :: "tar_type \<Rightarrow> bool" where
  "carries_data t \<longleftrightarrow> t = Type_Reg \<or> t = Type_Reg_A"

definition copied_data :: "tar_env \<Rightarrow> nat \<Rightarrow> tar_type \<Rightarrow> string result \<Rightarrow> string result" where
  "copied_data env i t data =
     (if \<not> carries_data t then Inr []
      else rbind data (\<lambda>bytes. case te_data_fault env i of Some e \<Rightarrow> Inl e | None \<Rightarrow> Inr bytes))"

fun rewrite_entries :: "tar_env \<Rightarrow> nat \<Rightarrow> string list \<Rightarrow> (tar_header \<times> string result) list \<Rightarrow> error option
    \<Rightarrow> (tar_header \<times> string) list result" where
  "rewrite_entries env i seen items ending =
     (case te_cancelled env i of
        Some e \<Rightarrow> Inl e
      | None \<Rightarrow>
          if i > 1000000 then Inl (errorf ''archive contains too many entries'')
          else (case items of
             [] \<Rightarrow> (case ending of
                 Some e \<Rightarrow> Inl (wrapf ''read backup archive: '' e)
               | None \<Rightarrow> (case te_close_fault env of Some e \<Rightarrow> Inl e | None \<Rightarrow> Inr []))
           | (h, data) # rest \<Rightarrow>
               rbind (safe_tar_name (th_name h)) (\<lambda>clean.
               rfail_if (clean \<in> set seen) (errorf (''archive contains duplicate path '' @ go_quote clean)) (
               rbind (safe_tar_header h clean) (\<lambda>c.
               case te_header_fault env i of
                 Some e \<Rightarrow> Inl e
               | None \<Rightarrow>
                   rbind (copied_data env i (th_type c) data) (\<lambda>bytes.
                   rbind (rewrite_entries env (Suc i) (clean # seen) rest ending) (\<lambda>out.
                   Inr ((c, bytes) # out))))))))"

declare rewrite_entries.simps [simp del]

definition rewrite_archive :: "tar_env \<Rightarrow> tar_stream \<Rightarrow> (tar_header \<times> string) list result" where
  "rewrite_archive env s = rewrite_entries env 0 [] (fst s) (snd s)"

definition quiet :: tar_env where
  "quiet = \<lparr>te_cancelled = (\<lambda>_. None), te_header_fault = (\<lambda>_. None), te_data_fault = (\<lambda>_. None), te_close_fault = None\<rparr>"

text \<open>\<open>validateArchive\<close> rewrites to nowhere.\<close>

definition validate_archive :: "tar_stream \<Rightarrow> unit result" where
  "validate_archive s = rbind (rewrite_archive quiet s) (\<lambda>_. Inr ())"

definition stream_of :: "(tar_header \<times> string) list \<Rightarrow> tar_stream" where
  "stream_of out = (map (\<lambda>(h, bytes). (h, Inr bytes)) out, None)"

section \<open>Walking a path the way the kernel does\<close>

text \<open>
  Below a root directory, from a directory given by its elements; symbolic links are replaced by their
  targets, a bounded number of times.
\<close>

datatype walked = Arrived "string list" | Left_Root | Too_Many_Links

fun walk :: "(string list \<Rightarrow> string option) \<Rightarrow> nat \<Rightarrow> string list \<Rightarrow> string list \<Rightarrow> walked" where
  "walk links fuel cur [] = Arrived cur"
| "walk links fuel cur (e # es) =
     (if e = [] \<or> e = ''.'' then walk links fuel cur es
      else if e = ''..'' then (if cur = [] then Left_Root else walk links fuel (butlast cur) es)
      else (case links (cur @ [e]) of
              None \<Rightarrow> walk links fuel (cur @ [e]) es
            | Some target \<Rightarrow>
                (case fuel of 0 \<Rightarrow> Too_Many_Links
                 | Suc f \<Rightarrow> walk links f cur (split_on (CHR ''/'') target @ es))))"

section \<open>Lemmas\<close>

lemma walk_plain:
  assumes "list_all plain cur" and "\<And>x. x \<in> set xs \<Longrightarrow> CHR ''/'' \<notin> set x"
    and "list_all plain (foldl (push_element False) cur xs)"
  shows "walk (\<lambda>_. None) fuel cur xs = Arrived (foldl (push_element False) cur xs)"
  using assms
proof (induction xs arbitrary: cur)
  case (Cons x xs)
  consider "x = [] \<or> x = ''.''" | "x = ''..''" "cur \<noteq> []" | "x = ''..''" "cur = []" | "plain x"
    using Cons.prems(2) by (auto simp: plain_def)
  then show ?case
  proof cases
    case 1
    with Cons show ?thesis by (auto simp: push_element_def)
  next
    case 2
    then have "last cur \<noteq> ''..''" using Cons.prems(1) by (auto simp: list_all_iff plain_def)
    with 2 have "push_element False cur x = butlast cur" by (simp add: push_element_def)
    moreover have "list_all plain (butlast cur)"
      using Cons.prems(1) by (auto simp: list_all_iff dest: in_set_butlastD)
    ultimately show ?thesis using 2 Cons by simp
  next
    case 3
    then have "push_element False cur x = [''..'']" by (simp add: push_element_def)
    with dotdot_stays [of "[''..'']" xs] Cons.prems(3) have False
      by (cases "foldl (push_element False) [''..''] xs") (auto simp: plain_def)
    then show ?thesis ..
  next
    case 4
    moreover have "list_all plain (cur @ [x])" using Cons.prems(1) 4 by simp
    ultimately show ?thesis using Cons.IH [of "cur @ [x]"] Cons.prems by (auto simp: plain_def)
  qed
qed simp

lemma clean_nonempty [simp]: "path_clean p \<noteq> []"
  using join_not_rooted [OF clean_stack_elements, of False p] by (auto simp: path_clean_def Let_def)

lemma clean_rooted_iff [simp]: "is_rooted (path_clean p) \<longleftrightarrow> is_rooted p"
proof (cases "is_rooted p")
  case False
  then show ?thesis
    using join_not_rooted [OF clean_stack_elements, of False p]
    by (cases "clean_elements False p = []") (auto simp: path_clean_def is_rooted_def Let_def)
qed (simp add: path_clean_rooted)

lemma dir_rooted_iff: "is_rooted (path_dir p) \<Longrightarrow> is_rooted p"
proof -
  assume "is_rooted (path_dir p)"
  then have "is_rooted (rev (dropWhile (\<lambda>c. c \<noteq> CHR ''/'') (rev p)))" by (simp add: path_dir_def)
  moreover have "\<exists>t. p = rev (dropWhile (\<lambda>c. c \<noteq> CHR ''/'') (rev p)) @ t"
    by (metis rev_append rev_rev_ident takeWhile_dropWhile_id)
  ultimately show ?thesis unfolding is_rooted_def has_prefix_iff by (metis append.assoc)
qed

lemma clean_bytes: "set (path_clean p) \<subseteq> set p \<union> {CHR ''.'', CHR ''/''}"
proof -
  have e: "set (concat (clean_elements r p)) \<subseteq> set p \<union> {CHR ''.''}" for r
  proof -
    have *: "set (concat (foldl (push_element r) es xs)) \<subseteq> set (concat es) \<union> set (concat xs) \<union> {CHR ''.''}" for es xs
    proof (induction xs arbitrary: es)
      case (Cons x xs)
      have "set (concat (push_element r es x)) \<subseteq> set (concat es) \<union> set x \<union> {CHR ''.''}"
        by (auto simp: push_element_def dest: in_set_butlastD)
      with Cons [of "push_element r es x"] show ?case by auto
    qed auto
    have "set (concat (split_on d s)) \<subseteq> set s" for d s
      by (induction s) (auto simp: Let_def split: list.splits if_splits, blast+)
    with * [of "[]"] show ?thesis unfolding clean_elements_def by fastforce
  qed
  have j: "set (join_with ''/'' es) \<subseteq> set (concat es) \<union> {CHR ''/''}" for es
    by (induction es rule: induct_list012) auto
  have "set (join_with ''/'' (clean_elements r p)) \<subseteq> set p \<union> {CHR ''.'', CHR ''/''}" for r
    using e [of r] j [of "clean_elements r p"] by blast
  then show ?thesis unfolding path_clean_def Let_def by (simp add: subset_iff)
qed

text \<open>An entry that may be stored.\<close>

definition safe_entry :: "tar_header \<Rightarrow> bool" where
  "safe_entry h \<longleftrightarrow>
     \<not> unsafe_bytes (th_name h) \<and> path_clean (th_name h) = th_name h \<and> \<not> climbs (th_name h)
     \<and> (case th_type h of
          Type_Symlink \<Rightarrow> safe_tar_link (th_name h) (th_linkname h) = Inr ()
        | Type_Other k \<Rightarrow> False
        | _ \<Rightarrow> th_linkname h = [])
     \<and> 0 \<le> th_mode h \<and> th_mode h < 512 \<and> th_devmajor h = 0 \<and> th_devminor h = 0
     \<and> th_pax h = [] \<and> th_xattrs h = []"

lemma unsafe_clean: "\<not> unsafe_bytes v \<Longrightarrow> \<not> unsafe_bytes (path_clean v)"
  using clean_bytes [of v] by (auto simp: unsafe_bytes_def contains_byte_def)

lemma safe_tar_name_ok: "safe_tar_name v = Inr n \<longleftrightarrow> \<not> unsafe_bytes v \<and> n = path_clean v \<and> \<not> climbs n"
  by (auto simp: safe_tar_name_def)

lemma safe_tar_link_ok:
  "safe_tar_link n l = Inr () \<longleftrightarrow> \<not> unsafe_bytes l \<and> \<not> climbs (path_clean (path_join (path_dir n) l))"
  by (simp add: safe_tar_link_def)

lemma safe_tar_header_ok:
  assumes "safe_tar_header h n = Inr c" and "safe_tar_name v = Inr n"
  shows "safe_entry c" and "th_name c = n" and "th_type c = th_type h"
  using assms unsafe_clean [of v]
  by (auto simp: safe_tar_header_def safe_entry_def safe_tar_name_ok path_clean_idem result_simps Let_def
      split: tar_type.splits)

lemma safe_entry_accepted:
  assumes "safe_entry h"
  shows "safe_tar_name (th_name h) = Inr (th_name h)" and "safe_tar_header h (th_name h) = Inr h"
proof -
  have m: "th_mode h mod 512 = th_mode h" using assms by (simp add: safe_entry_def)
  show "safe_tar_name (th_name h) = Inr (th_name h)" using assms by (simp add: safe_tar_name_ok safe_entry_def)
  have "h\<lparr>th_name := th_name h, th_pax := [], th_xattrs := [], th_mode := th_mode h mod 512,
      th_devmajor := 0, th_devminor := 0\<rparr> = h"
    using assms m by (cases h) (simp add: safe_entry_def)
  then show "safe_tar_header h (th_name h) = Inr h"
    using assms unfolding safe_tar_header_def Let_def
    by (cases h) (auto simp: safe_entry_def split: tar_type.splits)
qed

lemma rewrite_entries_step:
  "rewrite_entries env i seen ((h, data) # rest) ending = Inr out \<longleftrightarrow>
     te_cancelled env i = None \<and> i \<le> 1000000 \<and> (\<exists>clean c bytes out'.
       safe_tar_name (th_name h) = Inr clean \<and> clean \<notin> set seen \<and> safe_tar_header h clean = Inr c
       \<and> te_header_fault env i = None \<and> copied_data env i (th_type c) data = Inr bytes
       \<and> rewrite_entries env (Suc i) (clean # seen) rest ending = Inr out' \<and> out = (c, bytes) # out')"
  by (subst rewrite_entries.simps) (auto simp: result_simps split: option.splits)

lemma rewrite_entries_end:
  "rewrite_entries env i seen [] ending = Inr out \<longleftrightarrow>
     te_cancelled env i = None \<and> i \<le> 1000000 \<and> ending = None \<and> te_close_fault env = None \<and> out = []"
  by (subst rewrite_entries.simps) (auto split: option.splits)

lemma rewrite_entries_sound:
  assumes "rewrite_entries env i seen items ending = Inr out"
  shows "list_all (safe_entry \<circ> fst) out \<and> distinct (map (th_name \<circ> fst) out)
    \<and> set (map (th_name \<circ> fst) out) \<inter> set seen = {} \<and> i + length out \<le> 1000000
    \<and> list_all (\<lambda>(h, bytes). carries_data (th_type h) \<or> bytes = []) out"
  using assms
proof (induction items arbitrary: i seen out)
  case Nil
  then show ?case by (simp add: rewrite_entries_end)
next
  case (Cons item rest)
  obtain h data where item: "item = (h, data)" by fastforce
  from Cons.prems [unfolded item rewrite_entries_step] obtain clean c bytes out' where
    s: "safe_tar_name (th_name h) = Inr clean" "clean \<notin> set seen" "safe_tar_header h clean = Inr c"
    "copied_data env i (th_type c) data = Inr bytes"
    "rewrite_entries env (Suc i) (clean # seen) rest ending = Inr out'" "out = (c, bytes) # out'" by blast
  note c = safe_tar_header_ok [OF s(3,1)]
  have "carries_data (th_type c) \<or> bytes = []" using s(4) by (simp add: copied_data_def split: if_splits)
  with Cons.IH [OF s(5)] c s(2,6) show ?case by auto
qed

lemma rewrite_entries_again:
  assumes "list_all (safe_entry \<circ> fst) out" and "distinct (map (th_name \<circ> fst) out)"
    and "set (map (th_name \<circ> fst) out) \<inter> set seen = {}" and "i + length out \<le> 1000000"
    and "list_all (\<lambda>(h, bytes). carries_data (th_type h) \<or> bytes = []) out"
  shows "rewrite_entries quiet i seen (fst (stream_of out)) None = Inr out"
  using assms
proof (induction out arbitrary: i seen)
  case Nil
  then show ?case by (simp add: rewrite_entries_end stream_of_def quiet_def)
next
  case (Cons item rest)
  obtain h bytes where item: "item = (h, bytes)" by fastforce
  have h: "safe_entry h" using Cons.prems(1) item by simp
  have "rewrite_entries quiet (Suc i) (th_name h # seen) (fst (stream_of rest)) None = Inr rest"
    using Cons.prems item by (intro Cons.IH) auto
  moreover have "copied_data quiet i (th_type h) (Inr bytes) = Inr bytes"
    using Cons.prems(5) item by (auto simp: copied_data_def quiet_def)
  ultimately show ?case
    using safe_entry_accepted [OF h] Cons.prems item
    by (auto simp: rewrite_entries_step stream_of_def quiet_def)
qed

section \<open>Properties\<close>


definition ex_header :: "string \<Rightarrow> tar_type \<Rightarrow> string \<Rightarrow> tar_header" where
  "ex_header name t link = \<lparr>th_name = name, th_type = t, th_linkname = link, th_mode = 2541, th_devmajor = 0,
     th_devminor = 0, th_pax = [], th_xattrs = [(''user.x'', ''1'')]\<rparr>"

lemmas archive_eval = rewrite_archive_def rewrite_entries_step rewrite_entries_end safe_tar_name_ok safe_tar_header_def
  safe_tar_link_ok unsafe_bytes_def climbs_def contains_byte_def path_clean_def path_join_def path_dir_def
  clean_elements_def push_element_def is_rooted_def copied_data_def carries_data_def quiet_def rbind_eq_Inr


text \<open>
  A symbolic link of an archive leads, on its own, to a place below the root: walked from the
  directory it is in, with no other link on the way, its target never leaves the root at any point and
  arrives at a clean place below it.
\<close>

theorem archive_link_stays:
  assumes "safe_entry h" and "th_type h = Type_Symlink"
  shows "\<exists>place. walk (\<lambda>_. None) fuel (clean_elements False (path_dir (th_name h))) (split_on (CHR ''/'') (th_linkname h))
      = Arrived place \<and> list_all plain place"
proof -
  let ?n = "th_name h" and ?l = "th_linkname h"
  let ?d = "path_dir ?n"
  have l: "\<not> unsafe_bytes ?l" "\<not> climbs (path_clean (path_join ?d ?l))"
    using assms by (auto simp: safe_entry_def safe_tar_link_ok)
  have nr: "\<not> is_rooted ?d" using dir_rooted_iff assms(1) by (auto simp: safe_entry_def unsafe_bytes_def)
  have ne: "?d \<noteq> []" "?l \<noteq> []" using l(1) by (auto simp: path_dir_def unsafe_bytes_def)
  then have j: "path_join ?d ?l = path_clean (?d @ ''/'' @ ?l)" by (simp add: path_join_def)
  have nr2: "\<not> is_rooted (?d @ ''/'' @ ?l)" using nr ne(1) by (cases ?d) (auto simp: is_rooted_def)
  have "list_all plain (clean_elements False (?d @ ''/'' @ ?l))"
    using clean_elements_plain [OF nr2] l(2) by (simp add: j path_clean_idem climbs_def)
  moreover have "clean_elements False (?d @ ''/'' @ ?l)
      = foldl (push_element False) (clean_elements False ?d) (split_on (CHR ''/'') ?l)"
    by (simp add: clean_elements_def split_on_append_sep)
  ultimately have p: "list_all plain (foldl (push_element False) (clean_elements False ?d) (split_on (CHR ''/'') ?l))"
    by simp
  have "hd (clean_elements False ?d) \<noteq> ''..'' \<or> clean_elements False ?d = []"
    using dotdot_stays [of "clean_elements False ?d" "split_on (CHR ''/'') ?l"] p
    by (cases "foldl (push_element False) (clean_elements False ?d) (split_on (CHR ''/'') ?l)") (auto simp: plain_def)
  then have "list_all plain (clean_elements False ?d)"
    using clean_stack_tail [of False "[]" "clean_elements False ?d"] clean_stack_elements by fastforce
  from walk_plain [OF this _ p] split_on_no_sep p show ?thesis by blast
qed

lemma archive_link_stays_witness:
  "\<exists>place. walk (\<lambda>_. None) 8 (clean_elements False (path_dir ''a/c'')) (split_on (CHR ''/'') ''../a/b'') = Arrived place"
  using archive_link_stays [of "(ex_header ''a/c'' Type_Symlink ''../a/b'')\<lparr>th_mode := 420, th_xattrs := []\<rparr>" 8]
  by (auto simp: ex_header_def safe_entry_def archive_eval)

text \<open>
  Two links that are each accepted, and together lead out of the root: the second goes through the
  first, whose real place is higher than its name says.
\<close>

lemma archive_links_escape:
  defines "first \<equiv> ex_header ''d/e/f'' Type_Symlink ''../..''" and "second \<equiv> ex_header ''g'' Type_Symlink ''d/e/f/../x''"
  shows "is_ok (rewrite_archive quiet ([(first, Inr []), (second, Inr [])], None))"
    and "walk (map_of [([''d'', ''e'', ''f''], ''../..''), ([''g''], ''d/e/f/../x'')]) 8 [] [''g''] = Left_Root"
  by (simp_all add: first_def second_def archive_eval ex_header_def is_ok_iff)

end
