(* ===== verification/Repository.thy ===== *)
theory Repository
  imports Archive Host_Facts Event "HOL-Library.Word"
begin

text \<open>
  File \<open>internal/backup/repository.go\<close>: the manifest of a snapshot, the repository of completed
  snapshots, and the staging of a new one.

  A repository is the list of the entries of its \<open>snapshots\<close> directory, in the order of \<open>ReadDir\<close> (by
  name, each name once). An entry that is a real directory has what reading and strictly decoding its
  \<open>manifest.json\<close> gives, and the other files below it as \<open>WalkDir\<close> meets them. The digests, and the tar
  format of the bytes of a file, are a parameter; chmod, rename and removal answer with an optional error.
\<close>

section \<open>Identifiers\<close>

text \<open>
  \<open>time.Parse\<close> of the layout \<open>20060102T150405Z\<close>: fourteen digits in the ranges of a calendar date and
  a time of day.
\<close>

definition leap :: "nat \<Rightarrow> bool" where
  "leap y \<longleftrightarrow> y mod 4 = 0 \<and> (y mod 100 \<noteq> 0 \<or> y mod 400 = 0)"

definition days_in :: "nat \<Rightarrow> nat \<Rightarrow> nat" where
  "days_in month year =
     (if month = 2 then (if leap year then 29 else 28)
      else if month \<in> {4, 6, 9, 11} then 30 else 31)"

definition civil_ok :: "nat \<times> nat \<times> nat \<times> nat \<times> nat \<times> nat \<Rightarrow> bool" where
  "civil_ok t = (case t of (year, month, day, hour, minute, sec) \<Rightarrow>
     year < 10000 \<and> 1 \<le> month \<and> month \<le> 12 \<and> 1 \<le> day \<and> day \<le> days_in month year \<and> hour < 24 \<and> minute < 60 \<and> sec < 60)"

definition valid_stamp :: "string \<Rightarrow> bool" where
  "valid_stamp v \<longleftrightarrow>
     length v = 16 \<and> list_all is_digit (take 8 v) \<and> v ! 8 = CHR ''T'' \<and> list_all is_digit (take 6 (drop 9 v))
     \<and> v ! 15 = CHR ''Z''
     \<and> civil_ok (digits_val (take 4 v), digits_val (take 2 (drop 4 v)), digits_val (take 2 (drop 6 v)),
          digits_val (take 2 (drop 9 v)), digits_val (take 2 (drop 11 v)), digits_val (take 2 (drop 13 v)))"

definition is_lower_hex :: "char \<Rightarrow> bool" where
  "is_lower_hex c \<longleftrightarrow> is_digit c \<or> (CHR ''a'' \<le> c \<and> c \<le> CHR ''f'')"

definition valid_snapshot_id :: "string \<Rightarrow> bool" where
  "valid_snapshot_id v \<longleftrightarrow>
     length v = 29 \<and> valid_stamp (take 16 v) \<and> list_all is_lower_hex (drop 17 v) \<and> v ! 16 = CHR ''-''"

definition pad :: "nat \<Rightarrow> nat \<Rightarrow> string" where
  "pad width n = replicate (width - length (show_nat n)) (CHR ''0'') @ show_nat n"

definition new_snapshot_id :: "nat \<times> nat \<times> nat \<times> nat \<times> nat \<times> nat \<Rightarrow> string \<Rightarrow> string" where
  "new_snapshot_id t hex = (case t of (year, month, day, hour, minute, sec) \<Rightarrow>
     pad 4 year @ pad 2 month @ pad 2 day @ ''T'' @ pad 2 hour @ pad 2 minute @ pad 2 sec @ ''Z-'' @ hex)"

definition hex_decodes :: "string \<Rightarrow> bool" where
  "hex_decodes v \<longleftrightarrow> even (length v) \<and> list_all is_hex v"

definition valid_maintenance_identifier :: "string \<Rightarrow> bool" where
  "valid_maintenance_identifier v \<longleftrightarrow>
     v \<noteq> [] \<and> length v \<le> 128 \<and> list_all (\<lambda>c. is_lower c \<or> is_digit c \<or> c = CHR ''-'') v"

section \<open>The manifest\<close>

record backup_source =
  bs_host_alias :: string
  bs_target :: string
  bs_identity :: identity
  bs_os :: os
  bs_architecture :: string

record resource_manifest =
  rf_name :: string
  rf_type :: string
  rf_archive :: string
  rf_uncompressed_size :: int
  rf_stored_size :: int
  rf_sha256 :: string

record service_manifest =
  sf_name :: string
  sf_configuration_digest :: string
  sf_deployment_digest :: string
  sf_consistency :: string
  sf_resources :: "resource_manifest list"

record maintenance_provenance =
  mp_job :: string
  mp_scope :: string
  mp_run_id :: string
  mp_job_fingerprint :: string

record manifest =
  mf_schema_version :: int
  mf_bebop_version :: string
  mf_snapshot_id :: string
  mf_created_at :: instant
  mf_source :: backup_source
  mf_services :: "service_manifest list"
  mf_maintenance :: "maintenance_provenance option"
  mf_digest :: string

record snapshot_summary =
  su_snapshot_id :: string
  su_created_at :: instant
  su_host_alias :: string
  su_target :: string
  su_services :: "string list"
  su_stored_size :: int
  su_digest :: string

definition valid_maintenance_provenance :: "maintenance_provenance \<Rightarrow> bool" where
  "valid_maintenance_provenance v \<longleftrightarrow>
     valid_maintenance_identifier (mp_job v) \<and> valid_maintenance_identifier (mp_run_id v)
     \<and> length (mp_scope v) = 64 \<and> length (mp_job_fingerprint v) = 64
     \<and> hex_decodes (mp_scope v) \<and> hex_decodes (mp_job_fingerprint v)"

fun validate_resource_manifests :: "string \<Rightarrow> resource_manifest list \<Rightarrow> unit result" where
  "validate_resource_manifests previous [] = Inr ()"
| "validate_resource_manifests previous (r # rs) =
     (if rf_name r = [] \<or> rf_name r \<le> previous \<or> (rf_type r \<noteq> ''volume'' \<and> rf_type r \<noteq> ''path'')
         \<or> rf_stored_size r < 0 \<or> rf_uncompressed_size r < 0 \<or> length (rf_sha256 r) \<noteq> 64
      then Inl (errorf ''invalid backup resource manifest'')
      else if \<not> hex_decodes (rf_sha256 r) then Inl (errorf ''invalid backup resource digest'')
      else rbind (rmap_err (wrapf ''invalid backup archive path: '') (safe_archive_path (rf_archive r))) (\<lambda>_.
           validate_resource_manifests (rf_name r) rs))"

fun validate_service_manifests :: "string \<Rightarrow> service_manifest list \<Rightarrow> unit result" where
  "validate_service_manifests previous [] = Inr ()"
| "validate_service_manifests previous (s # ss) =
     (if sf_name s = [] \<or> sf_name s \<le> previous \<or> (sf_consistency s \<noteq> ''stop'' \<and> sf_consistency s \<noteq> ''live'')
      then Inl (errorf ''invalid backup service manifest'')
      else rbind (validate_resource_manifests [] (sf_resources s)) (\<lambda>_. validate_service_manifests (sf_name s) ss))"

definition validate_manifest :: "manifest \<Rightarrow> unit result" where
  "validate_manifest m =
     (if mf_schema_version m \<noteq> 1
      then Inl (errorf (''unsupported backup snapshot schema version '' @ show_int (mf_schema_version m)))
      else if \<not> valid_snapshot_id (mf_snapshot_id m) \<or> mf_created_at m = zero_time \<or> mf_bebop_version m = []
        \<or> bs_target (mf_source m) = []
      then Inl (errorf ''invalid backup snapshot manifest'')
      else if (case mf_maintenance m of None \<Rightarrow> False | Some v \<Rightarrow> \<not> valid_maintenance_provenance v)
      then Inl (errorf ''invalid backup maintenance provenance'')
      else validate_service_manifests [] (mf_services m))"

section \<open>Snapshots on disk\<close>

record codec =
  cd_manifest_digest :: "manifest \<Rightarrow> string"
  cd_sha :: "string \<Rightarrow> string"
  cd_tar :: "(tar_header \<times> string) list \<Rightarrow> string"
  cd_untar :: "string \<Rightarrow> tar_stream"

datatype manifest_file = Unreadable error | Undecodable error | Decoded manifest

datatype stored = Stored_Link | Stored_Dir | Stored_Special | Stored_File "string result"

record snapshot_dir =
  sn_name :: string
  sn_real_dir :: bool
  sn_manifest :: manifest_file
  sn_files :: "(string \<times> stored) list"

type_synonym repository = "snapshot_dir list"

definition manifest_digest :: "codec \<Rightarrow> manifest \<Rightarrow> string" where
  "manifest_digest cd m = cd_manifest_digest cd (m\<lparr>mf_digest := []\<rparr>)"

definition seal :: "codec \<Rightarrow> manifest \<Rightarrow> manifest result" where
  "seal cd m = rbind (validate_manifest m) (\<lambda>_. Inr (m\<lparr>mf_digest := manifest_digest cd m\<rparr>))"

definition find_snapshot :: "repository \<Rightarrow> string \<Rightarrow> snapshot_dir option" where
  "find_snapshot repo name = find (\<lambda>s. sn_name s = name) repo"

definition load_manifest :: "codec \<Rightarrow> snapshot_dir option \<Rightarrow> manifest result" where
  "load_manifest cd entry =
     (case entry of
        None \<Rightarrow> Inl (Coded ConfigInvalid ''backup snapshot does not exist'' (Some (errorf ''lstat'')))
      | Some s \<Rightarrow>
          if \<not> sn_real_dir s then Inl (coded ConfigInvalid ''backup snapshot is not a real directory'')
          else (case sn_manifest s of
             Unreadable e \<Rightarrow> Inl (Coded ConfigInvalid ''read backup snapshot manifest'' (Some e))
           | Undecodable e \<Rightarrow> Inl (Coded ConfigInvalid ''invalid backup snapshot manifest'' (Some e))
           | Decoded m \<Rightarrow>
               rbind (rmap_err (\<lambda>e. Coded ConfigInvalid ''invalid backup snapshot manifest'' (Some e)) (validate_manifest m)) (\<lambda>_.
               rfail_if (mf_digest m \<noteq> manifest_digest cd m)
                 (coded PlanTampered ''backup manifest digest does not match'') (Inr m))))"

definition manifest_resources :: "manifest \<Rightarrow> resource_manifest list" where
  "manifest_resources m = concat (map sf_resources (mf_services m))"

text \<open>
  The walk over the files of a snapshot: every one must be announced, with its size and digest, and be
  an archive that \<open>rewriteArchive\<close> accepts.
\<close>

definition verify_file :: "codec \<Rightarrow> resource_manifest list \<Rightarrow> string \<Rightarrow> stored \<Rightarrow> unit result" where
  "verify_file cd expected logical f =
     (case f of
        Stored_Link \<Rightarrow> Inl (errorf (''snapshot contains symlink '' @ go_quote logical))
      | Stored_Dir \<Rightarrow> Inr ()
      | Stored_Special \<Rightarrow> Inl (errorf (''snapshot contains unsafe file '' @ go_quote logical))
      | Stored_File contents \<Rightarrow>
          if logical = ''manifest.json'' then Inr ()
          else (case find (\<lambda>r. rf_archive r = logical) expected of
             None \<Rightarrow> Inl (errorf (''snapshot contains unexpected file '' @ go_quote logical))
           | Some r \<Rightarrow>
               rbind contents (\<lambda>bytes.
               rfail_if (int (length bytes) \<noteq> rf_stored_size r \<or> cd_sha cd bytes \<noteq> rf_sha256 r)
                 (errorf (''resource '' @ go_quote (rf_name r) @ '' digest mismatch''))
                 (validate_archive (cd_untar cd bytes)))))"

definition is_file :: "stored \<Rightarrow> bool" where
  "is_file f = (case f of Stored_File c \<Rightarrow> True | _ \<Rightarrow> False)"

definition seen_file :: "(string \<times> stored) list \<Rightarrow> string \<Rightarrow> bool" where
  "seen_file files name \<longleftrightarrow> name \<noteq> ''manifest.json'' \<and> list_ex (\<lambda>e. fst e = name \<and> is_file (snd e)) files"

definition repository_verify_path :: "codec \<Rightarrow> (string \<times> stored) list \<Rightarrow> manifest \<Rightarrow> unit result" where
  "repository_verify_path cd files m =
     (let expected = manifest_resources m in
      rbind (validate_manifest m) (\<lambda>_.
      rfail_if (mf_digest m \<noteq> manifest_digest cd m) (errorf ''manifest digest mismatch'') (
      rfail_if (\<not> distinct (map rf_archive expected)) (errorf ''duplicate archive path'') (
      rbind (rforeach (\<lambda>(logical, f). verify_file cd expected logical f) files) (\<lambda>_.
      (case find (\<lambda>r. \<not> seen_file files (rf_archive r)) expected of
         Some r \<Rightarrow> Inl (errorf (''snapshot is missing archive '' @ go_quote (rf_archive r)))
       | None \<Rightarrow> Inr ()))))))"

definition summary_of :: "manifest \<Rightarrow> snapshot_summary" where
  "summary_of m =
     \<lparr>su_snapshot_id = mf_snapshot_id m, su_created_at = mf_created_at m, su_host_alias = bs_host_alias (mf_source m),
      su_target = bs_target (mf_source m), su_services = map sf_name (mf_services m),
      su_stored_size = sint (word_of_int (sum_list (map rf_stored_size (manifest_resources m))) :: 64 word),
      su_digest = mf_digest m\<rparr>"

section \<open>Operations of the repository\<close>

definition load :: "codec \<Rightarrow> repository \<Rightarrow> string \<Rightarrow> manifest result" where
  "load cd repo snapshot =
     rfail_if (\<not> valid_snapshot_id snapshot) (coded ConfigInvalid ''invalid snapshot identifier'')
       (load_manifest cd (find_snapshot repo snapshot))"

definition listed_entry :: "snapshot_dir \<Rightarrow> bool" where
  "listed_entry s \<longleftrightarrow> sn_real_dir s \<and> valid_snapshot_id (sn_name s)"

definition list_snapshots :: "codec \<Rightarrow> repository \<Rightarrow> snapshot_summary list" where
  "list_snapshots cd repo =
     sort_slice su_snapshot_id
       (concat (map (\<lambda>s. case load_manifest cd (Some s) of Inl _ \<Rightarrow> [] | Inr m \<Rightarrow> [summary_of m]) (filter listed_entry repo)))"

definition verify :: "codec \<Rightarrow> repository \<Rightarrow> string \<Rightarrow> manifest result" where
  "verify cd repo snapshot =
     rfail_if (\<not> valid_snapshot_id snapshot) (coded ConfigInvalid ''invalid snapshot identifier'')
       (rbind (load_manifest cd (find_snapshot repo snapshot)) (\<lambda>m.
        rbind (rmap_err (\<lambda>e. Coded PlanTampered ''backup snapshot verification failed'' (Some e))
            (repository_verify_path cd (case find_snapshot repo snapshot of None \<Rightarrow> [] | Some s \<Rightarrow> sn_files s) m)) (\<lambda>_.
        Inr m)))"

text \<open>What the file system answers to a removal; a removal that fails may leave less than there was.\<close>

datatype removal = Removed | Not_Writable error | Not_Removed error snapshot_dir

definition delete :: "codec \<Rightarrow> removal \<Rightarrow> string \<Rightarrow> repository \<Rightarrow> repository \<times> error option" where
  "delete cd answer snapshot repo =
     (case verify cd repo snapshot of
        Inl e \<Rightarrow> (repo, Some e)
      | Inr _ \<Rightarrow>
          (case answer of
             Not_Writable e \<Rightarrow> (repo, Some (Coded VerificationFailed ''prepare verified backup snapshot for deletion'' (Some e)))
           | Not_Removed e left \<Rightarrow>
               (map (\<lambda>s. if sn_name s = snapshot then left\<lparr>sn_name := snapshot\<rparr> else s) repo,
                Some (Coded ConfigInvalid ''remove verified backup snapshot'' (Some e)))
           | Removed \<Rightarrow> (filter (\<lambda>s. sn_name s \<noteq> snapshot) repo, None)))"

section \<open>Paths\<close>

definition within :: "string \<Rightarrow> string \<Rightarrow> bool" where
  "within root candidate \<longleftrightarrow> \<not> rel_escapes (path_rel root candidate)"

definition path_join_all :: "string list \<Rightarrow> string" where
  "path_join_all parts = foldl path_join [] parts"

definition repository_child :: "string \<Rightarrow> string list \<Rightarrow> string result" where
  "repository_child root parts =
     rfail_if (root = []) (errorf ''backup repository is not initialized'')
       (let joined = path_join_all (root # parts)
        in rfail_if (\<not> within root joined) (errorf ''backup repository path escapes configured destination'') (Inr joined))"

definition snapshot_path :: "string \<Rightarrow> string \<Rightarrow> string result" where
  "snapshot_path root snapshot =
     rfail_if (\<not> valid_snapshot_id snapshot) (coded ConfigInvalid ''invalid snapshot identifier'')
       (repository_child root [''snapshots'', snapshot])"

section \<open>Staging\<close>

record stage =
  sg_id :: string
  sg_path :: string
  sg_manifest :: manifest
  sg_files :: "(string \<times> stored) list"
  sg_closed :: bool

definition begin_stage :: "string \<Rightarrow> nat \<times> nat \<times> nat \<times> nat \<times> nat \<times> nat \<Rightarrow> instant \<Rightarrow> string result \<Rightarrow> error option
    \<Rightarrow> backup_source \<Rightarrow> string \<Rightarrow> stage result" where
  "begin_stage root civil now random mkdir_fault source version =
     rfail_if (root = []) (coded ConfigInvalid ''backup repository is not initialized'')
       (rbind random (\<lambda>hex.
        let ident = new_snapshot_id civil hex in
        rbind (repository_child root [''.staging'', ident]) (\<lambda>place.
        case mkdir_fault of
          Some e \<Rightarrow> Inl (Coded ConfigInvalid ''create backup staging snapshot'' (Some e))
        | None \<Rightarrow> Inr \<lparr>sg_id = ident, sg_path = place,
            sg_manifest = \<lparr>mf_schema_version = 1, mf_bebop_version = version, mf_snapshot_id = ident, mf_created_at = now,
              mf_source = source, mf_services = [], mf_maintenance = None, mf_digest = []\<rparr>,
            sg_files = [], sg_closed = False\<rparr>)))"

definition closed_error :: error where
  "closed_error = errorf ''backup staging snapshot is closed''"

definition set_maintenance :: "maintenance_provenance option \<Rightarrow> stage \<Rightarrow> stage \<times> error option" where
  "set_maintenance v st =
     (if sg_closed st then (st, Some closed_error)
      else let st1 = st\<lparr>sg_manifest := (sg_manifest st)\<lparr>mf_maintenance := v\<rparr>\<rparr>
           in if v = None then (st1, None)
              else (st1, case validate_manifest (sg_manifest st1) of Inl e \<Rightarrow> Some e | Inr _ \<Rightarrow> None))"

definition add_service :: "service_manifest \<Rightarrow> stage \<Rightarrow> stage \<times> error option" where
  "add_service s st =
     (if sg_closed st then (st, Some closed_error)
      else if sf_name s = [] \<or> sf_consistency s = [] \<or> sf_resources s = [] then (st, Some (errorf ''invalid backup service manifest''))
      else if sf_name s \<in> set (map sf_name (mf_services (sg_manifest st)))
      then (st, Some (errorf (''duplicate backup service '' @ go_quote (sf_name s))))
      else (st\<lparr>sg_manifest := (sg_manifest st)\<lparr>mf_services :=
              sort_slice sf_name (mf_services (sg_manifest st) @ [s\<lparr>sf_resources := sort_slice rf_name (sf_resources s)\<rparr>])\<rparr>\<rparr>, None))"

text \<open>
  \<open>WriteArchive\<close>: \<open>create_fault\<close> and \<open>sync_fault\<close> are answers of the file system, and \<open>torn\<close> is what a
  failed rewriting has left in the file.
\<close>

definition write_archive :: "codec \<Rightarrow> tar_env \<Rightarrow> error option \<Rightarrow> error option \<Rightarrow> string \<Rightarrow> string \<Rightarrow> tar_stream \<Rightarrow> stage
    \<Rightarrow> stage \<times> resource_manifest result" where
  "write_archive cd env create_fault sync_fault torn relative input st =
     (if sg_closed st then (st, Inl closed_error)
      else case safe_archive_path relative of
        Inl e \<Rightarrow> (st, Inl (Coded ConfigInvalid ''unsafe backup archive path'' (Some e)))
      | Inr archive \<Rightarrow>
          if \<not> within (sg_path st) (path_join_all [sg_path st, archive])
          then (st, Inl (errorf ''backup staging path escapes snapshot''))
          else case create_fault of
            Some e \<Rightarrow> (st, Inl e)
          | None \<Rightarrow>
              if archive \<in> set (map fst (sg_files st)) then (st, Inl (errorf ''file exists''))
              else (case rewrite_archive env input of
                  Inl e \<Rightarrow> (st\<lparr>sg_files := sg_files st @ [(archive, Stored_File (Inr torn))]\<rparr>, Inl e)
                | Inr out \<Rightarrow>
                    (let bytes = cd_tar cd out; st1 = st\<lparr>sg_files := sg_files st @ [(archive, Stored_File (Inr bytes))]\<rparr>
                     in case sync_fault of
                          Some e \<Rightarrow> (st1, Inl e)
                        | None \<Rightarrow> (st1, Inr \<lparr>rf_name = [], rf_type = [], rf_archive = archive,
                            rf_uncompressed_size = int (length bytes), rf_stored_size = int (length bytes),
                            rf_sha256 = cd_sha cd bytes\<rparr>))))"

record publish_faults =
  pf_write :: "error option"
  pf_protect_files :: "error option"
  pf_rename :: "error option"
  pf_protect_directories :: "error option"
  pf_rollback :: "error option"

definition published :: "stage \<Rightarrow> manifest \<Rightarrow> snapshot_dir" where
  "published st m = \<lparr>sn_name = sg_id st, sn_real_dir = True, sn_manifest = Decoded m, sn_files = sg_files st\<rparr>"

text \<open>\<open>Complete\<close>; renaming onto a snapshot that is already there fails.\<close>

definition complete :: "codec \<Rightarrow> publish_faults \<Rightarrow> stage \<Rightarrow> repository \<Rightarrow> stage \<times> repository \<times> manifest result" where
  "complete cd pf st repo =
     (if sg_closed st then (st, repo, Inl closed_error)
      else let st1 = st\<lparr>sg_closed := True\<rparr> in
        if mf_services (sg_manifest st) = []
        then (st1, repo, Inl (errorf ''backup snapshot contains no declared persistent resources''))
        else case seal cd (sg_manifest st) of
          Inl e \<Rightarrow> (st1, repo, Inl e)
        | Inr m \<Rightarrow>
            (let st2 = st1\<lparr>sg_manifest := m\<rparr> in
             case pf_write pf of
               Some e \<Rightarrow> (st2, repo, Inl e)
             | None \<Rightarrow>
                 (case repository_verify_path cd (sg_files st) m of
                    Inl e \<Rightarrow> (st2, repo, Inl e)
                  | Inr _ \<Rightarrow>
                      (case pf_protect_files pf of
                         Some e \<Rightarrow> (st2, repo, Inl (Coded VerificationFailed ''mark backup snapshot contents immutable'' (Some e)))
                       | None \<Rightarrow>
                           (case (if find_snapshot repo (sg_id st) \<noteq> None then Some (errorf ''file exists'') else pf_rename pf) of
                              Some e \<Rightarrow> (st2, repo, Inl (Coded ConfigInvalid ''publish completed backup snapshot'' (Some e)))
                            | None \<Rightarrow>
                                (let repo1 = sort_slice sn_name (published st2 m # repo) in
                                 case pf_protect_directories pf of
                                   Some e \<Rightarrow> (st2, if pf_rollback pf = None then repo else repo1,
                                     Inl (Coded VerificationFailed ''mark completed backup snapshot immutable'' (Some e)))
                                 | None \<Rightarrow> (st2, repo1, Inr m)))))))"

text \<open>\<open>Abort\<close> closes the stage and removes its directory.\<close>

definition abort_stage :: "stage \<Rightarrow> stage" where
  "abort_stage st = st\<lparr>sg_closed := True, sg_files := []\<rparr>"

text \<open>\<open>OpenArchive\<close>: the bytes of an archive of a snapshot.\<close>

definition open_archive :: "repository \<Rightarrow> string \<Rightarrow> resource_manifest \<Rightarrow> string result" where
  "open_archive repo snapshot r =
     rfail_if (\<not> valid_snapshot_id snapshot) (coded ConfigInvalid ''invalid snapshot identifier'')
       (rbind (safe_archive_path (rf_archive r)) (\<lambda>archive.
        case find_snapshot repo snapshot of
          None \<Rightarrow> Inl (errorf ''lstat'')
        | Some s \<Rightarrow>
            (case map_of (sn_files s) archive of
               None \<Rightarrow> Inl (errorf ''lstat'')
             | Some (Stored_File contents) \<Rightarrow> contents
             | Some _ \<Rightarrow> Inl (errorf ''snapshot archive is not a regular file''))))"

section \<open>Lemmas on loading and verifying\<close>

lemma load_manifest_ok:
  "load_manifest cd entry = Inr m \<longleftrightarrow> (\<exists>s. entry = Some s \<and> sn_real_dir s \<and> sn_manifest s = Decoded m
     \<and> validate_manifest m = Inr () \<and> mf_digest m = manifest_digest cd m)"
  by (auto simp: load_manifest_def result_simps split: option.splits manifest_file.splits)

lemma verify_ok:
  "verify cd repo ident = Inr m \<longleftrightarrow> valid_snapshot_id ident \<and> (\<exists>s. find_snapshot repo ident = Some s
     \<and> load_manifest cd (Some s) = Inr m \<and> repository_verify_path cd (sn_files s) m = Inr ())"
  by (auto simp: verify_def result_simps load_manifest_ok split: option.splits)

lemma find_snapshot_Some: "find_snapshot repo ident = Some s \<Longrightarrow> s \<in> set repo \<and> sn_name s = ident"
  by (auto simp: find_snapshot_def find_Some_iff)

lemma find_snapshot_None: "find_snapshot repo ident = None \<longleftrightarrow> ident \<notin> sn_name ` set repo"
  by (auto simp: find_snapshot_def find_None_iff)

lemma find_snapshot_in:
  "distinct (map sn_name repo) \<Longrightarrow> s \<in> set repo \<Longrightarrow> find_snapshot repo (sn_name s) = Some s"
proof -
  assume d: "distinct (map sn_name repo)" "s \<in> set repo"
  then obtain t where t: "find_snapshot repo (sn_name s) = Some t"
    using find_snapshot_None [of repo "sn_name s"] by (cases "find_snapshot repo (sn_name s)") auto
  from find_snapshot_Some [OF this] d have "t = s" by (auto simp: distinct_map dest: inj_onD)
  with t show ?thesis by simp
qed

lemma find_snapshot_filter:
  "P ident \<Longrightarrow> find_snapshot (filter (\<lambda>s. P (sn_name s)) repo) ident = find_snapshot repo ident"
  by (induction repo) (auto simp: find_snapshot_def)

lemma find_snapshot_sort:
  "distinct (map sn_name repo) \<Longrightarrow> find_snapshot (sort_slice sn_name repo) ident = find_snapshot repo ident"
proof -
  assume d: "distinct (map sn_name repo)"
  show ?thesis
  proof (cases "find_snapshot repo ident")
    case None
    then have "find_snapshot (sort_slice sn_name repo) ident = None" by (simp add: find_snapshot_None)
    with None show ?thesis by simp
  next
    case (Some s)
    with find_snapshot_Some [OF Some] find_snapshot_in [of "sort_slice sn_name repo" s] d show ?thesis by simp
  qed
qed

lemma verify_find: "find_snapshot repo ident = find_snapshot repo' ident \<Longrightarrow> verify cd repo ident = verify cd repo' ident"
  by (simp add: verify_def)

lemma repository_verify_path_ok:
  "repository_verify_path cd files m = Inr () \<longleftrightarrow>
     validate_manifest m = Inr () \<and> mf_digest m = manifest_digest cd m
     \<and> distinct (map rf_archive (manifest_resources m))
     \<and> (\<forall>r\<in>set (manifest_resources m). seen_file files (rf_archive r))
     \<and> (\<forall>(logical, f)\<in>set files. verify_file cd (manifest_resources m) logical f = Inr ())"
  by (auto simp: repository_verify_path_def result_simps Let_def find_None_iff find_Some_iff split: option.splits)

lemma verify_file_ok:
  "verify_file cd expected logical f = Inr () \<longleftrightarrow>
     (case f of Stored_Dir \<Rightarrow> True
      | Stored_File contents \<Rightarrow> logical = ''manifest.json'' \<or> (\<exists>r bytes. find (\<lambda>r. rf_archive r = logical) expected = Some r
          \<and> contents = Inr bytes \<and> int (length bytes) = rf_stored_size r \<and> cd_sha cd bytes = rf_sha256 r
          \<and> validate_archive (cd_untar cd bytes) = Inr ())
      | _ \<Rightarrow> False)"
  by (auto simp: verify_file_def result_simps split: stored.splits option.splits)

lemma find_by_archive:
  assumes "distinct (map rf_archive rs)" and "r \<in> set rs"
  shows "find (\<lambda>q. rf_archive q = rf_archive r) rs = Some r"
proof -
  obtain q where q: "find (\<lambda>q. rf_archive q = rf_archive r) rs = Some q"
    using assms(2) by (cases "find (\<lambda>q. rf_archive q = rf_archive r) rs") (auto simp: find_None_iff)
  then have "q \<in> set rs" "rf_archive q = rf_archive r" by (auto simp: find_Some_iff)
  with assms have "q = r" by (auto simp: distinct_map dest: inj_onD)
  with q show ?thesis by simp
qed

lemma validate_undigested [simp]: "validate_manifest (m\<lparr>mf_digest := d\<rparr>) = validate_manifest m"
  by (simp add: validate_manifest_def)

lemma sealed:
  assumes "seal cd m = Inr m'"
  shows "validate_manifest m' = Inr ()" and "mf_digest m' = manifest_digest cd m'"
    and "mf_snapshot_id m' = mf_snapshot_id m" and "mf_services m' = mf_services m"
  using assms by (auto simp: seal_def result_simps manifest_digest_def)

lemma complete_ok:
  assumes "complete cd pf st repo = (st', repo', Inr m)"
  shows "seal cd (sg_manifest st) = Inr m" and "repository_verify_path cd (sg_files st) m = Inr ()"
    and "find_snapshot repo (sg_id st) = None" and "\<not> sg_closed st" and "sg_closed st'"
    and "repo' = sort_slice sn_name (published st m # repo)"
  using assms by (auto simp: complete_def published_def Let_def split: if_splits sum.splits option.splits)

lemma complete_failed:
  assumes "complete cd pf st repo = (st', repo', Inl e)" and "pf_rollback pf = None"
  shows "repo' = repo"
  using assms by (auto simp: complete_def Let_def split: if_splits sum.splits option.splits)

section \<open>Properties\<close>

text \<open>
  C20. A verified snapshot is exactly what its manifest says: a snapshot passes \<open>Verify\<close> if and only if
  its directory is real, its manifest is valid and carries its own digest, every announced archive is
  there and no other file, link or device, each archive has the announced size and digest and is an
  archive that a restore accepts, and no two archives share a file.
\<close>

theorem verify_iff:
  "verify cd repo ident = Inr m \<longleftrightarrow>
     valid_snapshot_id ident \<and> (\<exists>s. find_snapshot repo ident = Some s \<and> sn_real_dir s \<and> sn_manifest s = Decoded m
       \<and> validate_manifest m = Inr () \<and> mf_digest m = manifest_digest cd m
       \<and> distinct (map rf_archive (manifest_resources m))
       \<and> (\<forall>r\<in>set (manifest_resources m). \<exists>c. (rf_archive r, Stored_File c) \<in> set (sn_files s) \<and> rf_archive r \<noteq> ''manifest.json'')
       \<and> (\<forall>(logical, f)\<in>set (sn_files s). f = Stored_Dir \<or> (\<exists>c. f = Stored_File c \<and> (logical = ''manifest.json''
            \<or> (\<exists>r\<in>set (manifest_resources m). \<exists>bytes. rf_archive r = logical \<and> c = Inr bytes
                \<and> int (length bytes) = rf_stored_size r \<and> cd_sha cd bytes = rf_sha256 r
                \<and> validate_archive (cd_untar cd bytes) = Inr ())))))"
proof -
  have seen: "seen_file files n \<longleftrightarrow> (\<exists>c. (n, Stored_File c) \<in> set files \<and> n \<noteq> ''manifest.json'')" for files n
  proof -
    have i: "is_file f \<longleftrightarrow> (\<exists>c. f = Stored_File c)" for f by (cases f) (auto simp: is_file_def)
    show ?thesis unfolding seen_file_def list_ex_iff i by (auto simp: Bex_def)
  qed
  have vf: "verify_file cd (manifest_resources m) logical f = Inr () \<longleftrightarrow> f = Stored_Dir \<or> (\<exists>c. f = Stored_File c
      \<and> (logical = ''manifest.json'' \<or> (\<exists>r\<in>set (manifest_resources m). \<exists>bytes. rf_archive r = logical \<and> c = Inr bytes
          \<and> int (length bytes) = rf_stored_size r \<and> cd_sha cd bytes = rf_sha256 r
          \<and> validate_archive (cd_untar cd bytes) = Inr ())))"
    if "distinct (map rf_archive (manifest_resources m))" for logical f
  proof -
    have "find (\<lambda>r. rf_archive r = logical) (manifest_resources m) = Some r
        \<longleftrightarrow> r \<in> set (manifest_resources m) \<and> rf_archive r = logical" for r
      using find_by_archive [OF that] by (auto simp: find_Some_iff)
    then show ?thesis by (cases f) (auto simp: verify_file_ok)
  qed
  have "verify cd repo ident = Inr m \<longleftrightarrow> valid_snapshot_id ident \<and> (\<exists>s. find_snapshot repo ident = Some s
      \<and> sn_real_dir s \<and> sn_manifest s = Decoded m \<and> validate_manifest m = Inr () \<and> mf_digest m = manifest_digest cd m
      \<and> distinct (map rf_archive (manifest_resources m))
      \<and> (\<forall>r\<in>set (manifest_resources m). seen_file (sn_files s) (rf_archive r))
      \<and> (\<forall>(logical, f)\<in>set (sn_files s). verify_file cd (manifest_resources m) logical f = Inr ()))"
    by (simp add: verify_ok load_manifest_ok repository_verify_path_ok cong: conj_cong)
  then show ?thesis
    using vf unfolding seen by (cases "distinct (map rf_archive (manifest_resources m))") simp_all
qed

lemma complete_effect:
  assumes "complete cd pf st repo = (st', repo', r)" and "distinct (map sn_name repo)"
    and "mf_snapshot_id (sg_manifest st) = sg_id st" and "pf_rollback pf = None"
  shows "(case r of
      Inr m \<Rightarrow> verify cd repo' (mf_snapshot_id m) = Inr m \<and> mf_snapshot_id m = sg_id st
        \<and> find_snapshot repo (sg_id st) = None
        \<and> (\<forall>other. other \<noteq> sg_id st \<longrightarrow> find_snapshot repo' other = find_snapshot repo other)
    | Inl e \<Rightarrow> repo' = repo) \<and> (\<exists>e. complete cd pf st' repo' = (st', repo', Inl e))"
proof -
  have closed: "sg_closed st'" using assms(1)
    by (auto simp: complete_def Let_def split: if_splits sum.splits option.splits)
  show ?thesis
  proof (cases r)
    case (Inl e)
    with complete_failed [OF assms(1) [unfolded Inl] assms(4)] closed show ?thesis by (simp add: complete_def)
  next
    case (Inr m)
    note c = complete_ok [OF assms(1) [unfolded Inr]]
    have m: "validate_manifest m = Inr ()" "mf_digest m = manifest_digest cd m" "mf_snapshot_id m = sg_id st"
      using sealed [OF c(1)] assms(3) by simp_all
    have d: "distinct (map sn_name (published st m # repo))"
      using assms(2) c(3) by (simp add: find_snapshot_None published_def)
    have f: "find_snapshot repo' x = find_snapshot (published st m # repo) x" for x
      unfolding c(6) by (rule find_snapshot_sort [OF d])
    have "valid_snapshot_id (mf_snapshot_id m)" using m(1) by (auto simp: validate_manifest_def split: if_splits)
    then have "verify cd repo' (mf_snapshot_id m) = Inr m"
      using m c(2) by (simp add: verify_ok f load_manifest_ok) (simp add: find_snapshot_def published_def)
    moreover have "find_snapshot repo' other = find_snapshot repo other" if "other \<noteq> sg_id st" for other
      using that by (simp add: f) (simp add: find_snapshot_def published_def)
    ultimately show ?thesis using Inr m(3) c(3) closed by (simp add: complete_def)
  qed
qed

text \<open>
  C21. A backup is visible exactly when it is complete: if \<open>Complete\<close> succeeds, the new snapshot is in the
  repository under its identifier, passes \<open>Verify\<close> with the manifest that was returned, and every other
  snapshot is as before; if it fails (and a half-made publication can be rolled back), the repository is
  unchanged. A stage can be completed once.
\<close>

theorem complete_publishes:
  assumes "complete cd pf st repo = (st', repo', r)" and "distinct (map sn_name repo)"
    and "mf_snapshot_id (sg_manifest st) = sg_id st" and "pf_rollback pf = None"
  shows "(case r of
      Inr m \<Rightarrow> verify cd repo' (mf_snapshot_id m) = Inr m \<and> mf_snapshot_id m = sg_id st
        \<and> find_snapshot repo (sg_id st) = None
        \<and> (\<forall>other. other \<noteq> sg_id st \<longrightarrow> find_snapshot repo' other = find_snapshot repo other)
    | Inl e \<Rightarrow> repo' = repo) \<and> (\<exists>e. complete cd pf st' repo' = (st', repo', Inl e))"
  using complete_effect [OF assms] .

definition ex_codec :: codec where
  "ex_codec = \<lparr>cd_manifest_digest = (\<lambda>m. mf_snapshot_id m), cd_sha = (\<lambda>_. replicate 64 (CHR ''0'')),
     cd_tar = (\<lambda>_. ''bytes''), cd_untar = (\<lambda>_. ([], None))\<rparr>"

definition ex_snapshot_id :: "string \<Rightarrow> string" where
  "ex_snapshot_id day = ''202401'' @ day @ ''T023000Z-0123456789ab''"

definition ex_manifest :: "string \<Rightarrow> instant \<Rightarrow> manifest" where
  "ex_manifest ident t =
     \<lparr>mf_schema_version = 1, mf_bebop_version = ''dev'', mf_snapshot_id = ident, mf_created_at = t,
      mf_source = \<lparr>bs_host_alias = ''pi'', bs_target = ''pi'', bs_identity = \<lparr>idn_machine_id = [], idn_hostname = [], idn_os_id = [], idn_os_version = []\<rparr>, bs_os = zero_os,
        bs_architecture = ''amd64''\<rparr>,
      mf_services = [\<lparr>sf_name = ''media'', sf_configuration_digest = [], sf_deployment_digest = [], sf_consistency = ''stop'',
        sf_resources = [\<lparr>rf_name = ''library'', rf_type = ''volume'', rf_archive = ''services/media/data/library.tar'',
          rf_uncompressed_size = 5, rf_stored_size = 5, rf_sha256 = replicate 64 (CHR ''0'')\<rparr>]\<rparr>],
      mf_maintenance = Some \<lparr>mp_job = ''nightly'', mp_scope = replicate 64 (CHR ''a''), mp_run_id = ''run-1'',
        mp_job_fingerprint = replicate 64 (CHR ''b'')\<rparr>,
      mf_digest = ident\<rparr>"

lemma ex_snapshot_ids: "valid_snapshot_id (ex_snapshot_id ''15'')" "valid_snapshot_id (ex_snapshot_id ''16'')"
  by (simp_all add: ex_snapshot_id_def valid_snapshot_id_def valid_stamp_def civil_ok_def days_in_def is_lower_hex_def char_eval)

lemma ex_manifest_valid:
  assumes "valid_snapshot_id ident" and "t \<noteq> zero_time"
  shows "validate_manifest (ex_manifest ident t) = Inr ()"
  using assms
  by (simp add: ex_manifest_def validate_manifest_def valid_maintenance_provenance_def valid_maintenance_identifier_def
      hex_decodes_def safe_archive_path_def unsafe_bytes_def contains_byte_def climbs_def path_clean_def clean_elements_def
      push_element_def is_rooted_def list_all_iff char_eval)

lemma ex_validated: "validate_archive ([], None) = Inr ()"
  by (simp add: validate_archive_def rewrite_archive_def rewrite_entries.simps quiet_def)

lemma ex_files_verify:
  assumes "valid_snapshot_id ident" and "t \<noteq> zero_time"
  shows "repository_verify_path ex_codec [(''services/media/data/library.tar'', Stored_File (Inr ''bytes''))] (ex_manifest ident t) = Inr ()"
  using ex_manifest_valid [OF assms]
  by (simp add: repository_verify_path_ok verify_file_ok ex_validated ex_codec_def seen_file_def is_file_def)
    (simp add: ex_manifest_def manifest_resources_def manifest_digest_def ex_codec_def)

definition ex_stage :: stage where
  "ex_stage = \<lparr>sg_id = ex_snapshot_id ''15'', sg_path = ''/b/.staging/x'', sg_manifest = ex_manifest (ex_snapshot_id ''15'') 1,
     sg_files = [(''services/media/data/library.tar'', Stored_File (Inr ''bytes''))], sg_closed = False\<rparr>"

definition no_faults :: publish_faults where
  "no_faults = \<lparr>pf_write = None, pf_protect_files = None, pf_rename = None, pf_protect_directories = None, pf_rollback = None\<rparr>"

lemma complete_publishes_witness:
  "\<exists>st repo m. complete ex_codec no_faults ex_stage [] = (st, repo, Inr m) \<and> verify ex_codec repo (ex_snapshot_id ''15'') = Inr m"
proof -
  have "seal ex_codec (sg_manifest ex_stage) = Inr (ex_manifest (ex_snapshot_id ''15'') 1)"
    using ex_manifest_valid [OF ex_snapshot_ids(1), of 1]
    by (simp add: seal_def ex_stage_def zero_time_def manifest_digest_def ex_codec_def ex_manifest_def)
  moreover have "repository_verify_path ex_codec (sg_files ex_stage) (ex_manifest (ex_snapshot_id ''15'') 1) = Inr ()"
    using ex_files_verify [OF ex_snapshot_ids(1), of 1] by (simp add: ex_stage_def zero_time_def)
  moreover have "mf_services (sg_manifest ex_stage) \<noteq> []" "\<not> sg_closed ex_stage"
    by (simp_all add: ex_stage_def ex_manifest_def)
  ultimately obtain st repo where c: "complete ex_codec no_faults ex_stage [] = (st, repo, Inr (ex_manifest (ex_snapshot_id ''15'') 1))"
    by (simp add: complete_def no_faults_def find_snapshot_def Let_def)
  from complete_publishes [OF c] have "verify ex_codec repo (mf_snapshot_id (ex_manifest (ex_snapshot_id ''15'') 1))
      = Inr (ex_manifest (ex_snapshot_id ''15'') 1)"
    by (simp add: ex_stage_def no_faults_def ex_manifest_def)
  with c show ?thesis by (simp add: ex_manifest_def)
qed

lemma verify_iff_witness:
  "verify ex_codec [published ex_stage (ex_manifest (ex_snapshot_id ''15'') 1)] (ex_snapshot_id ''15'') = Inr (ex_manifest (ex_snapshot_id ''15'') 1)"
  unfolding verify_iff
  using ex_snapshot_ids(1) ex_manifest_valid [OF ex_snapshot_ids(1), of 1] ex_validated
  by (simp add: find_snapshot_def published_def ex_stage_def zero_time_def manifest_digest_def ex_codec_def)
    (simp add: ex_manifest_def manifest_resources_def)

end
