(* ===== verification/Service_Source.thy ===== *)
theory Service_Source
  imports Compose_File Saved_Plan Repository
begin

text \<open>
  File \<open>internal/services/source.go\<close>: from a declared service to its deployment. The files of the
  controller, the YAML reader and the digests are parameters (\<open>source_env\<close>); the files of a source
  directory are the list that \<open>WalkDir\<close> meets.
\<close>

section \<open>Data\<close>

record source_file =
  fl_path :: string
  fl_mode :: string
  fl_digest :: string
  fl_bytes :: int

record persistent_resource =
  pr_name :: string
  pr_type :: string
  pr_volume_key :: string
  pr_runtime_volume :: string
  pr_external :: bool
  pr_path :: string
  pr_storage :: string
  pr_selinux_shared :: bool

text \<open>
  An entry of the payload: name, mode and contents. \<open>se_header\<close> is what the tar writer answers to the header
  of a file: a name that the USTAR format cannot hold is an error.
\<close>

type_synonym payload = "(string \<times> int \<times> string) list"

record deployment =
  dp_name :: string
  dp_project :: string
  dp_state :: string
  dp_compose_file :: string
  dp_source_directory :: string
  dp_files :: "source_file list"
  dp_source_digest :: string
  dp_secret_fingerprint :: string
  dp_placement_fingerprint :: string
  dp_input_fingerprint :: string
  dp_secret_configured :: bool
  dp_ports :: "string list"
  dp_data :: "persistent_resource list"
  dp_backup_consistency :: string
  dp_storage_environment :: environment
  dp_payload :: payload

datatype source_entry =
    Entry_Error error
  | Entry_Link
  | Entry_Dir
  | Entry_Special
  | Entry_File bool "string result"

datatype source_root = Root_Error error | Root_Not_Directory | Root_Directory "(string \<times> source_entry) list"

record source_env =
  se_base :: "string \<Rightarrow> string result"
  se_resolve :: "string \<Rightarrow> string result"
  se_tree :: "string \<Rightarrow> source_root"
  se_read :: "string \<Rightarrow> string result"
  se_header :: "string \<Rightarrow> error option"
  se_read_secret :: "string \<Rightarrow> string result"
  se_yaml :: "string \<Rightarrow> yaml_node result"
  se_sha :: "string \<Rightarrow> string"
  se_hmac :: "string \<Rightarrow> string \<Rightarrow> string"
  se_key :: "string \<Rightarrow> string result"
  se_placement :: "persistent_resource list \<Rightarrow> string"

section \<open>Names\<close>

definition truncate_text :: "string \<Rightarrow> nat \<Rightarrow> string" where
  "truncate_text value maximum = (if length value \<le> maximum then value else take maximum value)"

definition trim_byte :: "char \<Rightarrow> string \<Rightarrow> string" where
  "trim_byte d s = rev (dropWhile (\<lambda>c. c = d) (rev (dropWhile (\<lambda>c. c = d) s)))"

definition project_name :: "(string \<Rightarrow> string) \<Rightarrow> string \<Rightarrow> string \<Rightarrow> string" where
  "project_name sha server service =
     (let clean = trim_byte (CHR ''-'') (map (\<lambda>c. if is_lower c \<or> is_digit c then c else CHR ''-'') (to_lower server));
          host = (if clean = [] then ''host'' else clean)
      in ''bebop-'' @ truncate_text host 24 @ ''-'' @ truncate_text service 20 @ ''-''
         @ take 10 (sha (server @ [CHR 0x00] @ service)))"

definition environment_name :: "string \<Rightarrow> string \<Rightarrow> string" where
  "environment_name prefix name = prefix @ map (\<lambda>c. if c = CHR ''-'' then CHR ''_''
     else if is_lower c then char_of (of_char c - 32 :: nat) else c) name"

fun data_environment :: "storage \<Rightarrow> data_resource list \<Rightarrow> environment result" where
  "data_environment s [] = Inr []"
| "data_environment s (r # rs) =
     (if dr_type r \<noteq> ''path'' \<or> dr_storage r = [] then data_environment s rs
      else rbind (resolve_data_path s r) (\<lambda>p. rbind (data_environment s rs) (\<lambda>env.
        Inr ((environment_name ''BEBOP_DATA_'' (dr_name r), p) # env))))"

definition storage_environment :: "storage \<Rightarrow> data_resource list \<Rightarrow> environment result" where
  "storage_environment s data =
     rbind (data_environment s data) (\<lambda>env.
     Inr (sort_slice fst (map (\<lambda>r. (environment_name ''BEBOP_STORAGE_'' (sr_name r), sr_mount r)) (stg_resources s) @ env)))"

section \<open>The source directory\<close>

definition secret_fingerprint_name :: string where "secret_fingerprint_name = ''.bebop-secret-fingerprint''"
definition placement_fingerprint_name :: string where "placement_fingerprint_name = ''.bebop-placement-fingerprint''"

definition compose_names :: "string list" where
  "compose_names = [''compose.yaml'', ''compose.yml'', ''docker-compose.yaml'', ''docker-compose.yml'']"

fun walk_source :: "(string \<Rightarrow> string) \<Rightarrow> (string \<times> source_entry) list \<Rightarrow> source_file list \<Rightarrow> int \<Rightarrow> string
    \<Rightarrow> (source_file list \<times> int \<times> string) result" where
  "walk_source sha [] files amount compose = Inr (files, amount, compose)"
| "walk_source sha ((logical, e) # rest) files amount compose =
     (case e of
        Entry_Error err \<Rightarrow> Inl err
      | _ \<Rightarrow>
        rfail_if (CHR 0x0A \<in> set logical \<or> CHR 0x00 \<in> set logical)
          (errorf (''path '' @ go_quote logical @ '' contains an unsupported control character''))
        (case e of
           Entry_Link \<Rightarrow> Inl (errorf (''symbolic link '' @ go_quote logical @ '' is not allowed in a deployment source''))
         | Entry_Dir \<Rightarrow>
             rfail_if (logical = ''.git'' \<or> logical = ''node_modules'')
               (errorf (''directory '' @ go_quote logical @ '' is excluded from deployment sources''))
               (walk_source sha rest files amount compose)
         | Entry_Special \<Rightarrow> Inl (errorf (''special file '' @ go_quote logical @ '' is not allowed in a deployment source''))
         | Entry_File executable contents \<Rightarrow>
             rfail_if (logical = secret_env_name \<or> logical = secret_fingerprint_name \<or> logical = placement_fingerprint_name)
               (errorf (''source may not contain reserved file '' @ go_quote logical))
             (rbind contents (\<lambda>bytes.
              let amount' = amount + int (length bytes) in
              rfail_if (amount' > 268435456) (errorf ''source exceeds the 256 MiB deployment limit'')
              (let files' = files @ [\<lparr>fl_path = logical, fl_mode = (if executable then ''755'' else ''644''),
                    fl_digest = sha bytes, fl_bytes = int (length bytes)\<rparr>];
                   is_compose = (path_dir logical = ''.'' \<and> logical \<in> set compose_names)
               in rfail_if (is_compose \<and> compose \<noteq> [])
                    (errorf (''multiple Compose files found ('' @ compose @ '' and '' @ logical @ '')''))
                  (rfail_if (length files' > 10000) (errorf ''source exceeds the 10000-file deployment limit'')
                    (walk_source sha rest files' amount' (if is_compose then logical else compose))))))))"

definition canonical_line :: "source_file \<Rightarrow> string" where
  "canonical_line f = fl_mode f @ [CHR 0x09] @ fl_digest f @ [CHR 0x09] @ fl_path f @ [CHR 0x0A]"

definition canonical_files :: "source_file list \<Rightarrow> string" where
  "canonical_files files = concat (map canonical_line files)"

text \<open>\<open>manifest\<close>: the files, the Compose file, the digest of the source and its size.\<close>

definition source_manifest :: "(string \<Rightarrow> string) \<Rightarrow> source_root \<Rightarrow> (source_file list \<times> string \<times> string \<times> int) result" where
  "source_manifest sha root =
     (case root of
        Root_Error e \<Rightarrow> Inl e
      | Root_Not_Directory \<Rightarrow> Inl (errorf ''source must be a real directory'')
      | Root_Directory entries \<Rightarrow>
          rbind (walk_source sha entries [] 0 []) (\<lambda>(files, amount, compose).
          rfail_if (compose = []) (errorf (''source must contain exactly one of '' @ join_with '', '' compose_names))
          (let sorted = sort_slice fl_path files
           in Inr (sorted, compose, sha (canonical_files sorted), amount))))"

section \<open>Persistent resources\<close>

definition resolve_persistent_resource :: "storage \<Rightarrow> (string \<times> compose_volume) list \<Rightarrow> (string \<times> bool) list \<Rightarrow> data_resource
    \<Rightarrow> persistent_resource result" where
  "resolve_persistent_resource s volumes paths r =
     rbind (if dr_type r = ''path'' then resolve_data_path s r else Inr (dr_path r)) (\<lambda>p.
     let resolved = \<lparr>pr_name = dr_name r, pr_type = dr_type r, pr_volume_key = dr_volume r, pr_runtime_volume = [],
           pr_external = False, pr_path = p, pr_storage = dr_storage r, pr_selinux_shared = False\<rparr>
     in if dr_type r = ''volume''
        then (case map_of volumes (dr_volume r) of
            None \<Rightarrow> Inl (errorf (''declared volume key '' @ go_quote (dr_volume r) @ '' does not exist in the Compose file''))
          | Some v \<Rightarrow>
              rfail_if (\<not> cv_used v)
                (errorf (''declared volume key '' @ go_quote (dr_volume r) @ '' is not mounted by the Compose service''))
                (Inr (resolved\<lparr>pr_runtime_volume := cv_runtime v, pr_external := cv_external v\<rparr>)))
        else (case map_of paths p of
            None \<Rightarrow> Inl (errorf (''declared bind path '' @ go_quote p @ '' is not mounted by the Compose service''))
          | Some shared \<Rightarrow> Inr (resolved\<lparr>pr_selinux_shared := shared\<rparr>)))"

fun resolve_persistent_resources :: "storage \<Rightarrow> (string \<times> compose_volume) list \<Rightarrow> (string \<times> bool) list \<Rightarrow> data_resource list
    \<Rightarrow> persistent_resource list result" where
  "resolve_persistent_resources s volumes paths [] = Inr []"
| "resolve_persistent_resources s volumes paths (r # rs) =
     rbind (resolve_persistent_resource s volumes paths r) (\<lambda>p.
     rbind (resolve_persistent_resources s volumes paths rs) (\<lambda>ps. Inr (p # ps)))"

definition placement_fingerprint :: "(persistent_resource list \<Rightarrow> string) \<Rightarrow> persistent_resource list \<Rightarrow> string" where
  "placement_fingerprint digest rs =
     digest (sort_slice pr_name (map (\<lambda>r. r\<lparr>pr_runtime_volume := [], pr_external := False\<rparr>) rs))"

definition input_text :: "string \<Rightarrow> string \<Rightarrow> string \<Rightarrow> string" where
  "input_text source secret placement =
     ''source='' @ source @ [CHR 0x0A] @ ''secret='' @ secret @ [CHR 0x0A] @ ''placement='' @ placement @ [CHR 0x0A]"

definition input_fingerprint :: "(string \<Rightarrow> string) \<Rightarrow> string \<Rightarrow> string \<Rightarrow> string \<Rightarrow> string" where
  "input_fingerprint sha source secret placement = sha (input_text source secret placement)"

section \<open>The payload\<close>

fun payload_files :: "source_env \<Rightarrow> string \<Rightarrow> source_file list \<Rightarrow> payload result" where
  "payload_files env root [] = Inr []"
| "payload_files env root (f # fs) =
     rbind (se_read env (path_join root (fl_path f))) (\<lambda>bytes.
     rfail_if (se_sha env bytes \<noteq> fl_digest f)
       (errorf (''source file '' @ go_quote (fl_path f) @ '' changed while preparing deployment''))
       (case se_header env (fl_path f) of
          Some e \<Rightarrow> Inl e
        | None \<Rightarrow>
            rbind (payload_files env root fs) (\<lambda>rest.
            Inr ((fl_path f, if fl_mode f = ''755'' then 493 else 420, bytes) # rest))))"

definition archive_payload :: "source_env \<Rightarrow> string \<Rightarrow> source_file list \<Rightarrow> string option \<Rightarrow> string \<Rightarrow> string \<Rightarrow> payload result" where
  "archive_payload env root files secret secret_fingerprint placement =
     rbind (payload_files env root files) (\<lambda>entries.
     Inr (entries @ (case secret of None \<Rightarrow> []
         | Some s \<Rightarrow> [(secret_env_name, 384, s), (secret_fingerprint_name, 384, secret_fingerprint @ [CHR 0x0A])])
       @ [(placement_fingerprint_name, 384, placement @ [CHR 0x0A])]))"

section \<open>Resolution\<close>

definition contained_path :: "source_env \<Rightarrow> string \<Rightarrow> string \<Rightarrow> string result" where
  "contained_path env base relative =
     rbind (validate_controller_relative_path relative False) (\<lambda>_.
     rbind (se_resolve env (path_join base (replace_backslash relative))) (\<lambda>resolved.
     rfail_if (rel_escapes (path_rel base resolved)) (errorf ''path escapes the configuration directory'') (Inr resolved)))"

definition configuration_directory :: "source_env \<Rightarrow> config \<Rightarrow> string result" where
  "configuration_directory env c =
     rfail_if (cfg_source_directory c = [])
       (errorf ''service configuration must be loaded from a file so source paths have a declaration directory'')
       (se_base env (cfg_source_directory c))"

fun absent_data :: "storage \<Rightarrow> data_resource list \<Rightarrow> persistent_resource list result" where
  "absent_data s [] = Inr []"
| "absent_data s (r # rs) =
     rbind (case resolve_data_path s r of Inr p \<Rightarrow> Inr p | Inl e \<Rightarrow> if dr_type r = ''path'' then Inl e else Inr []) (\<lambda>p.
     rbind (absent_data s rs) (\<lambda>ps.
     Inr (\<lparr>pr_name = dr_name r, pr_type = dr_type r, pr_volume_key = dr_volume r, pr_runtime_volume = [], pr_external = False,
       pr_path = p, pr_storage = dr_storage r, pr_selinux_shared = False\<rparr> # ps)))"

definition service_error :: "string \<Rightarrow> string \<Rightarrow> error \<Rightarrow> error" where
  "service_error name what e = Coded ConfigInvalid (''service.'' @ name @ what) (Some e)"

text \<open>The secret, if one is configured, with its keyed fingerprint.\<close>

definition resolve_secret :: "source_env \<Rightarrow> string \<Rightarrow> service \<Rightarrow> (string option \<times> string) result" where
  "resolve_secret env base svc =
     (if svc_secret_env_file svc = [] then Inr (None, [])
      else rbind (rmap_err (\<lambda>e. Coded ConfigInvalid (''resolve service.'' @ svc_name svc @ ''.secret_env_file'') (Some e))
          (contained_path env base (svc_secret_env_file svc))) (\<lambda>place.
        rbind (rmap_err (\<lambda>e. Coded ConfigInvalid (''read service.'' @ svc_name svc @ ''.secret_env_file'') (Some e))
          (se_read_secret env place)) (\<lambda>secret.
        rbind (se_key env base) (\<lambda>key. Inr (Some secret, se_hmac env key secret)))))"

definition resolve_one :: "source_env \<Rightarrow> config \<Rightarrow> service \<Rightarrow> deployment result" where
  "resolve_one env c svc =
     (let name = svc_name svc; project = project_name (se_sha env) (srv_name (cfg_server c)) name;
          bare = \<lparr>dp_name = name, dp_project = project, dp_state = svc_state svc, dp_compose_file = [], dp_source_directory = [],
            dp_files = [], dp_source_digest = [], dp_secret_fingerprint = [], dp_placement_fingerprint = [],
            dp_input_fingerprint = [], dp_secret_configured = False, dp_ports = [], dp_data = [],
            dp_backup_consistency = sbk_consistency (svc_backup svc), dp_storage_environment = [], dp_payload = []\<rparr>
      in if svc_state svc = ''absent''
         then rbind (absent_data (cfg_storage c) (svc_data svc)) (\<lambda>rs. Inr (bare\<lparr>dp_data := rs\<rparr>))
         else
           rbind (configuration_directory env c) (\<lambda>base.
           rbind (rmap_err (\<lambda>e. Coded ConfigInvalid (''resolve service.'' @ name @ ''.source'') (Some e))
             (contained_path env base (svc_source svc))) (\<lambda>source.
           rbind (rmap_err (service_error name '' source is unsafe'') (source_manifest (se_sha env) (se_tree env source)))
             (\<lambda>(files, compose, digest, amount).
           rbind (rmap_err (service_error name '' storage interpolation is invalid'') (storage_environment (cfg_storage c) (svc_data svc)))
             (\<lambda>variables.
           rbind (rmap_err (service_error name '' Compose source is unsupported'')
               (rbind (se_read env (path_join source compose)) (\<lambda>text.
                rbind (se_yaml env text) (\<lambda>document.
                validate_compose document (map fl_path files) (svc_secret_env_file svc \<noteq> []) project
                  (AList.updates (map fst variables) (map snd variables) []))))) (\<lambda>v.
           rbind (rmap_err (service_error name '' persistent data is invalid'')
               (resolve_persistent_resources (cfg_storage c) (cp_volumes v) (cp_paths v) (svc_data svc))) (\<lambda>rs.
           rbind (resolve_secret env base svc) (\<lambda>(secret, mac).
           let placement = placement_fingerprint (se_placement env) rs in
           rbind (archive_payload env source files secret mac placement) (\<lambda>payload.
           rfail_if (amount = 0) (errorf ''Compose source has no files'')
             (Inr (bare\<lparr>dp_source_directory := source, dp_files := files, dp_compose_file := compose, dp_source_digest := digest,
                dp_ports := cp_ports v, dp_storage_environment := variables, dp_data := rs, dp_secret_fingerprint := mac,
                dp_secret_configured := (secret \<noteq> None), dp_placement_fingerprint := placement,
                dp_input_fingerprint := input_fingerprint (se_sha env) digest mac placement, dp_payload := payload\<rparr>)))))))))))"

text \<open>Host ports that are taken, with the service that took them.\<close>

fun claim_ports :: "string \<Rightarrow> string list \<Rightarrow> (string \<times> string) list \<Rightarrow> (string \<times> string) list result" where
  "claim_ports name [] bindings = Inr bindings"
| "claim_ports name (p # ps) bindings =
     (case map_of bindings p of
        Some previous \<Rightarrow> Inl (coded ConfigInvalid (''services '' @ go_quote previous @ '' and '' @ go_quote name
            @ '' both declare host port '' @ p))
      | None \<Rightarrow> claim_ports name ps ((p, name) # bindings))"

fun resolve_services :: "source_env \<Rightarrow> config \<Rightarrow> service list \<Rightarrow> (string \<times> string) list \<Rightarrow> deployment list result" where
  "resolve_services env c [] bindings = Inr []"
| "resolve_services env c (s # ss) bindings =
     rbind (resolve_one env c s) (\<lambda>d.
     rbind (claim_ports (svc_name s) (dp_ports d) bindings) (\<lambda>bindings'.
     rbind (resolve_services env c ss bindings') (\<lambda>ds. Inr (d # ds))))"

definition resolve_deployments :: "source_env \<Rightarrow> config \<Rightarrow> deployment list result" where
  "resolve_deployments env c = rbind (validate c) (\<lambda>_. resolve_services env c (cfg_services c) [])"

definition resolve_deployment :: "source_env \<Rightarrow> config \<Rightarrow> string \<Rightarrow> deployment result" where
  "resolve_deployment env c name =
     rbind (validate c) (\<lambda>_.
     case find (\<lambda>s. svc_name s = name) (cfg_services c) of
       Some s \<Rightarrow> resolve_one env c s
     | None \<Rightarrow> Inl (coded ConfigInvalid (''unknown configured service '' @ name)))"

definition deployment_input :: "deployment \<Rightarrow> service_input" where
  "deployment_input d =
     \<lparr>si_name = dp_name d, si_project = dp_project d, si_state = dp_state d, si_source_digest = dp_source_digest d,
      si_input_fingerprint = dp_input_fingerprint d, si_secret_configured = dp_secret_configured d,
      si_secret_fingerprint = dp_secret_fingerprint d, si_placement_fingerprint = dp_placement_fingerprint d\<rparr>"

text \<open>What the saved plans use as their inputs.\<close>

definition deployment_inputs :: "source_env \<Rightarrow> config \<Rightarrow> service_input list result" where
  "deployment_inputs env c = rbind (resolve_deployments env c) (\<lambda>ds. Inr (map deployment_input ds))"

section \<open>The key of the secret fingerprints\<close>

datatype key_creation = Key_Created | Key_Exists | Key_Failed error

text \<open>One attempt: what creating the directory, reading the key, drawing a new one and writing it answer.\<close>

record key_attempt =
  ka_directory :: "error option"
  ka_read :: "string result option"
  ka_random :: "string result"
  ka_create :: key_creation
  ka_write :: "error option"

fun secret_key :: "string \<Rightarrow> key_attempt list \<Rightarrow> string result option" where
  "secret_key base [] = None"
| "secret_key base (a # as) =
     (case ka_directory a of
        Some e \<Rightarrow> Some (Inl (wrapf ''create local secret-fingerprint cache: '' e))
      | None \<Rightarrow>
          (case ka_read a of
             Some (Inr contents) \<Rightarrow>
               Some (rfail_if (length contents \<noteq> 32)
                 (errorf (''local secret-fingerprint key has invalid length; remove ''
                    @ path_join (path_join base ''.bebop/cache'') ''secret-hmac.key'' @ '' and re-plan'')) (Inr contents))
           | Some (Inl e) \<Rightarrow> Some (Inl e)
           | None \<Rightarrow>
               (case ka_random a of
                  Inl e \<Rightarrow> Some (Inl e)
                | Inr key \<Rightarrow>
                    (case ka_create a of
                       Key_Exists \<Rightarrow> secret_key base as
                     | Key_Failed e \<Rightarrow> Some (Inl e)
                     | Key_Created \<Rightarrow> Some (case ka_write a of Some e \<Rightarrow> Inl e | None \<Rightarrow> Inr key)))))"

section \<open>Lemmas\<close>

lemma claim_ports_ok:
  "claim_ports name ps bindings = Inr bindings' \<Longrightarrow>
     distinct ps \<and> set ps \<inter> fst ` set bindings = {} \<and> fst ` set bindings' = set ps \<union> fst ` set bindings"
proof (induction ps arbitrary: bindings)
  case (Cons p ps)
  then have n: "map_of bindings p = None" by (auto split: option.splits)
  with Cons.prems have "claim_ports name ps ((p, name) # bindings) = Inr bindings'" by simp
  from Cons.IH [OF this] n show ?case by (auto simp: map_of_eq_None_iff)
qed simp

lemma resolve_services_ok:
  assumes "resolve_services env c ss bindings = Inr ds"
  shows "list_all2 (\<lambda>s d. resolve_one env c s = Inr d) ss ds \<and> distinct (concat (map dp_ports ds))
    \<and> set (concat (map dp_ports ds)) \<inter> fst ` set bindings = {}"
  using assms
proof (induction ss arbitrary: bindings ds)
  case (Cons x ss)
  from Cons.prems obtain d b ds' where d: "resolve_one env c x = Inr d"
    and b: "claim_ports (svc_name x) (dp_ports d) bindings = Inr b" and r: "resolve_services env c ss b = Inr ds'"
    and ds: "ds = d # ds'" by (auto simp: result_simps)
  from Cons.IH [OF r] claim_ports_ok [OF b] d ds show ?case by auto
qed simp

lemma resolve_one_present:
  assumes "resolve_one env c svc = Inr d" and "svc_state svc \<noteq> ''absent''"
  obtains base source files compose digest n body document v secret where
    "configuration_directory env c = Inr base" "contained_path env base (svc_source svc) = Inr source"
    "source_manifest (se_sha env) (se_tree env source) = Inr (files, compose, digest, n)"
    "se_read env (path_join source compose) = Inr body" "se_yaml env body = Inr document"
    "validate_compose document (map fl_path files) (svc_secret_env_file svc \<noteq> []) (dp_project d)
       (AList.updates (map fst (dp_storage_environment d)) (map snd (dp_storage_environment d)) []) = Inr v"
    "storage_environment (cfg_storage c) (svc_data svc) = Inr (dp_storage_environment d)"
    "resolve_persistent_resources (cfg_storage c) (cp_volumes v) (cp_paths v) (svc_data svc) = Inr (dp_data d)"
    "resolve_secret env base svc = Inr (secret, dp_secret_fingerprint d)"
    "archive_payload env source files secret (dp_secret_fingerprint d) (dp_placement_fingerprint d) = Inr (dp_payload d)"
    "n \<noteq> 0" "dp_name d = svc_name svc" "dp_project d = project_name (se_sha env) (srv_name (cfg_server c)) (svc_name svc)"
    "dp_state d = svc_state svc" "dp_source_directory d = source" "dp_files d = files" "dp_compose_file d = compose"
    "dp_source_digest d = digest" "dp_ports d = cp_ports v" "dp_secret_configured d = (secret \<noteq> None)"
    "dp_placement_fingerprint d = placement_fingerprint (se_placement env) (dp_data d)"
    "dp_input_fingerprint d = input_fingerprint (se_sha env) digest (dp_secret_fingerprint d) (dp_placement_fingerprint d)"
  using assms(1) unfolding resolve_one_def Let_def if_not_P [OF assms(2)]
  by (clarsimp simp: result_simps)

lemma resolve_one_name: "resolve_one env c svc = Inr d \<Longrightarrow> dp_name d = svc_name svc \<and> dp_state d = svc_state svc"
  by (cases "svc_state svc = ''absent''") (auto simp: resolve_one_def result_simps Let_def)

lemma payload_files_ok:
  "payload_files env root fs = Inr entries \<Longrightarrow>
     list_all2 (\<lambda>f e. fst e = fl_path f \<and> fst (snd e) = (if fl_mode f = ''755'' then 493 else 420)
       \<and> se_sha env (snd (snd e)) = fl_digest f) fs entries"
  by (induction fs arbitrary: entries) (auto simp: result_simps split: option.splits)

lemma persistent_resource_ok:
  assumes "resolve_persistent_resource s volumes paths r = Inr p"
  shows "pr_name p = dr_name r" and "pr_type p = dr_type r"
    and "dr_type r = ''volume'' \<Longrightarrow> \<exists>v. map_of volumes (dr_volume r) = Some v \<and> cv_used v \<and> pr_runtime_volume p = cv_runtime v"
    and "dr_type r = ''path'' \<Longrightarrow> resolve_data_path s r = Inr (pr_path p) \<and> map_of paths (pr_path p) = Some (pr_selinux_shared p)"
  using assms by (auto simp: resolve_persistent_resource_def Let_def result_simps split: if_splits option.splits)

lemma persistent_resources_ok:
  "resolve_persistent_resources s volumes paths rs = Inr ps \<Longrightarrow>
     list_all2 (\<lambda>r p. resolve_persistent_resource s volumes paths r = Inr p) rs ps"
  by (induction rs arbitrary: ps) (auto simp: result_simps)

lemma walk_source_files:
  assumes "walk_source sha es files n compose = Inr (files', n', compose')"
    and "list_all (\<lambda>f. fl_mode f \<in> {''644'', ''755''} \<and> (\<exists>b. fl_digest f = sha b) \<and> CHR 0x0A \<notin> set (fl_path f)) files"
    and "length files \<le> 10000"
  shows "list_all (\<lambda>f. fl_mode f \<in> {''644'', ''755''} \<and> (\<exists>b. fl_digest f = sha b) \<and> CHR 0x0A \<notin> set (fl_path f)) files'
    \<and> length files' \<le> 10000"
  using assms
proof (induction es arbitrary: files n compose)
  case (Cons x es)
  obtain logical e where x: "x = (logical, e)" by fastforce
  show ?case
  proof (cases e)
    case (Entry_File executable contents)
    then obtain bytes m c where w: "walk_source sha es (files @ [\<lparr>fl_path = logical, fl_mode = (if executable then ''755'' else ''644''),
        fl_digest = sha bytes, fl_bytes = int (length bytes)\<rparr>]) m c = Inr (files', n', compose')"
      and l: "Suc (length files) \<le> 10000" "CHR 0x0A \<notin> set logical"
      using Cons.prems(1) x by (auto simp: result_simps Let_def)
    show ?thesis by (rule Cons.IH [OF w]) (use Cons.prems(2) l in auto)
  qed (use Cons x in \<open>auto simp: result_simps\<close>)
qed simp

text \<open>The text that the digest of a source is taken of determines the files.\<close>

definition file_key :: "source_file \<Rightarrow> string \<times> string \<times> string" where
  "file_key f = (fl_mode f, fl_digest f, fl_path f)"

definition keyed :: "source_file \<Rightarrow> bool" where
  "keyed f \<longleftrightarrow> fl_mode f \<in> {''644'', ''755''} \<and> CHR 0x09 \<notin> set (fl_digest f) \<and> CHR 0x0A \<notin> set (fl_path f)"

lemma canonical_line_inj:
  assumes "canonical_line f @ x = canonical_line g @ y" and "keyed f" and "keyed g"
  shows "file_key f = file_key g" and "x = y"
proof -
  have m: "CHR 0x09 \<notin> set (fl_mode f)" "CHR 0x09 \<notin> set (fl_mode g)" using assms(2,3) by (auto simp: keyed_def)
  have "fl_mode f @ CHR 0x09 # fl_digest f @ CHR 0x09 # fl_path f @ CHR 0x0A # x
      = fl_mode g @ CHR 0x09 # fl_digest g @ CHR 0x09 # fl_path g @ CHR 0x0A # y"
    using assms(1) by (simp add: canonical_line_def)
  from arg_cong [OF this, of "cut_byte (CHR 0x09)"] m have
    1: "fl_mode f = fl_mode g" "fl_digest f @ CHR 0x09 # fl_path f @ CHR 0x0A # x = fl_digest g @ CHR 0x09 # fl_path g @ CHR 0x0A # y"
    by simp_all
  from arg_cong [OF 1(2), of "cut_byte (CHR 0x09)"] assms(2,3) have
    2: "fl_digest f = fl_digest g" "fl_path f @ CHR 0x0A # x = fl_path g @ CHR 0x0A # y" by (simp_all add: keyed_def)
  from arg_cong [OF 2(2), of "cut_byte (CHR 0x0A)"] assms(2,3) have "fl_path f = fl_path g" "x = y" by (simp_all add: keyed_def)
  with 1 2 show "file_key f = file_key g" "x = y" by (simp_all add: file_key_def)
qed

lemma canonical_files_inj:
  "canonical_files fs = canonical_files gs \<Longrightarrow> list_all keyed fs \<Longrightarrow> list_all keyed gs \<Longrightarrow> map file_key fs = map file_key gs"
proof (induction fs arbitrary: gs)
  case Nil
  then show ?case by (cases gs) (auto simp: canonical_files_def canonical_line_def)
next
  case (Cons f fs)
  then obtain g gs' where gs: "gs = g # gs'" by (cases gs) (auto simp: canonical_files_def canonical_line_def)
  from Cons.prems gs have "canonical_line f @ canonical_files fs = canonical_line g @ canonical_files gs'" "keyed f" "keyed g"
    by (simp_all add: canonical_files_def)
  note l = canonical_line_inj [OF this]
  with Cons.IH [of gs'] Cons.prems gs show ?case by simp
qed

lemma source_manifest_ok:
  assumes "source_manifest sha root = Inr (files, compose, digest, n)" and "\<And>b. CHR 0x09 \<notin> set (sha b)"
  shows "list_all keyed files" and "digest = sha (canonical_files files)" and "length files \<le> 10000" and "compose \<noteq> []"
proof -
  obtain es fs where w: "walk_source sha es [] 0 [] = Inr (fs, n, compose)" and f: "files = sort_slice fl_path fs"
    and c: "compose \<noteq> []" and d: "digest = sha (canonical_files files)"
    using assms(1) by (auto simp: source_manifest_def result_simps Let_def split: source_root.splits)
  from walk_source_files [OF w] have "list_all (\<lambda>f. fl_mode f \<in> {''644'', ''755''} \<and> (\<exists>b. fl_digest f = sha b) \<and> CHR 0x0A \<notin> set (fl_path f)) fs"
    and l: "length fs \<le> 10000" by auto
  with assms(2) f show "list_all keyed files" by (auto simp: list_all_iff keyed_def)
  from f l show "length files \<le> 10000" by simp
  from c show "compose \<noteq> []" .
  from d show "digest = sha (canonical_files files)" .
qed

text \<open>A declared resource is mounted where the Compose file says.\<close>

definition data_mounted :: "compose_validation \<Rightarrow> data_resource \<Rightarrow> persistent_resource \<Rightarrow> bool" where
  "data_mounted v r p \<longleftrightarrow>
     pr_name p = dr_name r \<and> pr_type p = dr_type r
     \<and> (dr_type r = ''volume'' \<longrightarrow> (\<exists>cv. map_of (cp_volumes v) (dr_volume r) = Some cv \<and> cv_used cv \<and> pr_runtime_volume p = cv_runtime cv))
     \<and> (dr_type r = ''path'' \<longrightarrow> map_of (cp_paths v) (pr_path p) = Some (pr_selinux_shared p))"

text \<open>The payload holds the files of the manifest with the recorded contents, then the generated files.\<close>

definition payload_faithful :: "source_env \<Rightarrow> deployment \<Rightarrow> bool" where
  "payload_faithful env d \<longleftrightarrow>
     (\<exists>entries secret. dp_payload d = entries @ secret @ [(placement_fingerprint_name, 384, dp_placement_fingerprint d @ [CHR 0x0A])]
        \<and> map fst secret = (if dp_secret_configured d then [secret_env_name, secret_fingerprint_name] else [])
        \<and> list_all2 (\<lambda>f e. fst e = fl_path f \<and> se_sha env (snd (snd e)) = fl_digest f) (dp_files d) entries)"

lemma payload_faithfulI:
  assumes "archive_payload env source (dp_files d) secret (dp_secret_fingerprint d) (dp_placement_fingerprint d) = Inr (dp_payload d)"
    and "dp_secret_configured d = (secret \<noteq> None)"
  shows "payload_faithful env d"
proof -
  let ?s = "case secret of None \<Rightarrow> []
    | Some s \<Rightarrow> [(secret_env_name, 384, s), (secret_fingerprint_name, 384, dp_secret_fingerprint d @ [CHR 0x0A])]"
  obtain entries where e: "payload_files env source (dp_files d) = Inr entries"
    and p: "dp_payload d = entries @ ?s @ [(placement_fingerprint_name, 384, dp_placement_fingerprint d @ [CHR 0x0A])]"
    using assms(1) by (auto simp: archive_payload_def result_simps)
  have "map fst ?s = (if dp_secret_configured d then [secret_env_name, secret_fingerprint_name] else [])"
    using assms(2) by (cases secret) auto
  moreover have "list_all2 (\<lambda>f e. fst e = fl_path f \<and> se_sha env (snd (snd e)) = fl_digest f) (dp_files d) entries"
    using payload_files_ok [OF e] by (rule list_all2_mono) simp
  ultimately show ?thesis using p unfolding payload_faithful_def by blast
qed

section \<open>Properties\<close>



text \<open>
  A Compose project has a safe name of bounded length, whatever the server is called: lower case
  letters, digits and dashes, starting with the prefix of the program, and at most 62 characters.
\<close>

theorem project_name_safe:
  assumes "service_name_pattern service" and "list_all (\<lambda>c. is_lower c \<or> is_digit c) (sha (server @ [CHR 0x00] @ service))"
  shows "list_all (\<lambda>c. is_lower c \<or> is_digit c \<or> c = CHR ''-'') (project_name sha server service)
    \<and> has_prefix (project_name sha server service) ''bebop-'' \<and> length (project_name sha server service) \<le> 62"
proof -
  let ?clean = "trim_byte (CHR ''-'') (map (\<lambda>c. if is_lower c \<or> is_digit c then c else CHR ''-'') (to_lower server))"
  let ?host = "if ?clean = [] then ''host'' else ?clean"
  let ?ok = "\<lambda>c. is_lower c \<or> is_digit c \<or> c = CHR ''-''"
  have t: "set (truncate_text v n) \<subseteq> set v" "length (truncate_text v n) \<le> n" for v n
    by (auto simp: truncate_text_def dest: in_set_takeD)
  have "set (trim_byte d s) \<subseteq> set s" for d s by (auto simp: trim_byte_def dest!: set_dropWhileD)
  then have "list_all ?ok ?clean" by (fastforce simp: list_all_iff)
  moreover have "list_all ?ok ''host''" by (simp add: char_eval)
  ultimately have "list_all ?ok ?host" by simp
  then have "list_all ?ok (truncate_text ?host 24)" using t(1) [of ?host 24] unfolding list_all_iff by blast
  moreover have "list_all ?ok (truncate_text service 20)"
    using service_name_bytes [OF assms(1)] t(1) [of service 20] unfolding list_all_iff by blast
  moreover have "list_all ?ok (take 10 (sha (server @ [CHR 0x00] @ service)))"
    using assms(2) unfolding list_all_iff by (blast dest: in_set_takeD)
  moreover have "list_all ?ok ''bebop-''" by (simp add: char_eval)
  ultimately have "list_all ?ok (project_name sha server service)"
    unfolding project_name_def Let_def list_all_append by simp
  moreover have "length (project_name sha server service) \<le> 62"
    using t(2) [of "if ?clean = [] then ''host'' else ?clean" 24] t(2) [of service 20] by (simp add: project_name_def Let_def)
  moreover have "has_prefix (project_name sha server service) ''bebop-''" by (simp add: project_name_def Let_def)
  ultimately show ?thesis by blast
qed

text \<open>A controller with one service that has a Compose file.\<close>

definition ex_env :: source_env where
  "ex_env = \<lparr>se_base = (\<lambda>p. Inr p), se_resolve = (\<lambda>p. Inr p),
     se_tree = (\<lambda>p. Root_Directory [(''compose.yaml'', Entry_File False (Inr ''services:''))]),
     se_read = (\<lambda>p. Inr ''services:''), se_header = (\<lambda>p. None), se_read_secret = (\<lambda>p. Inr []), se_yaml = (\<lambda>t. Inr ex_document),
     se_sha = (\<lambda>t. ''d'' @ show_nat (length t)), se_hmac = (\<lambda>k t. []), se_key = (\<lambda>b. Inr []), se_placement = (\<lambda>rs. ''p'')\<rparr>"

lemma ex_sha_plain: "CHR 0x09 \<notin> set (se_sha ex_env t)"
  using show_nat_digits [of "CHR 0x09"] by (auto simp: ex_env_def is_digit_def less_eq_char_def)

definition ex_deploy_config :: config where
  "ex_deploy_config = ex_config\<lparr>cfg_services := [ex_service\<lparr>svc_data := [\<lparr>dr_name = ''library'', dr_type = ''path'',
     dr_volume = [], dr_path = ''library'', dr_storage = ''disk''\<rparr>]\<rparr>]\<rparr>"

lemma ex_deploy_valid: "validate ex_deploy_config = Inr ()"
  by (simp add: ex_deploy_config_def ex_config_def ex_service_def defaults_def config_eval two_minutes)

lemma ex_source: "source_manifest (se_sha ex_env) (se_tree ex_env p)
    = Inr ([\<lparr>fl_path = ''compose.yaml'', fl_mode = ''644'', fl_digest = se_sha ex_env ''services:'', fl_bytes = 9\<rparr>], ''compose.yaml'',
        se_sha ex_env (canonical_files [\<lparr>fl_path = ''compose.yaml'', fl_mode = ''644'', fl_digest = se_sha ex_env ''services:'', fl_bytes = 9\<rparr>]), 9)"
  by (simp add: source_manifest_def ex_env_def secret_env_name_def secret_fingerprint_name_def placement_fingerprint_name_def
      path_dir_def path_clean_def clean_elements_def push_element_def is_rooted_def compose_names_def Let_def)

lemma ex_contained: "contained_path ex_env ''/home/me/cfg'' ''services/media'' = Inr ''/home/me/cfg/services/media''"
  by (simp add: contained_path_def config_eval ex_env_def path_rel_def rel_escapes_def)

lemma ex_variables: "storage_environment (cfg_storage ex_deploy_config) (svc_data (hd (cfg_services ex_deploy_config)))
    = Inr [(''BEBOP_DATA_LIBRARY'', ''/mnt/disk/library''), (''BEBOP_STORAGE_DISK'', ''/mnt/disk'')]"
  by (simp add: ex_deploy_config_def ex_config_def ex_service_def storage_environment_def environment_name_def config_eval is_lower_def char_of_def bit_iff_odd)

lemma ex_compose: "\<exists>v. validate_compose ex_document [''compose.yaml''] False p (AList.updates [''BEBOP_DATA_LIBRARY'', ''BEBOP_STORAGE_DISK'']
    [''/mnt/disk/library'', ''/mnt/disk''] []) = Inr v
      \<and> cp_ports v = [''0.0.0.0:8096/tcp''] \<and> cp_paths v = [(''/mnt/disk/library'', True)]"
  by (simp add: ex_document_def compose_eval Let_def char_eval)

definition ex_library :: persistent_resource where
  "ex_library = \<lparr>pr_name = ''library'', pr_type = ''path'', pr_volume_key = [], pr_runtime_volume = [], pr_external = False,
     pr_path = ''/mnt/disk/library'', pr_storage = ''disk'', pr_selinux_shared = True\<rparr>"

lemma ex_deployed: "\<exists>d. resolve_deployments ex_env ex_deploy_config = Inr [d] \<and> dp_name d = ''media'' \<and> dp_state d = ''running''
    \<and> dp_data d = [ex_library] \<and> dp_backup_consistency d = ''stop''"
proof -
  let ?svc = "hd (cfg_services ex_deploy_config)"
  have one: "cfg_services ex_deploy_config = [?svc]" by (simp add: ex_deploy_config_def)
  have svc: "svc_source ?svc = ''services/media''" "svc_state ?svc = ''running''"
    "svc_secret_env_file ?svc = []" "cfg_source_directory ex_deploy_config = ''/home/me/cfg''" "svc_name ?svc = ''media''"
    by (simp_all add: ex_deploy_config_def ex_config_def ex_service_def)
  have base: "configuration_directory ex_env ex_deploy_config = Inr ''/home/me/cfg''"
    by (simp add: configuration_directory_def svc ex_env_def)
  obtain v where v: "validate_compose ex_document [''compose.yaml''] False (project_name (se_sha ex_env) (srv_name (cfg_server ex_deploy_config)) ''media'')
      (AList.updates [''BEBOP_DATA_LIBRARY'', ''BEBOP_STORAGE_DISK''] [''/mnt/disk/library'', ''/mnt/disk''] []) = Inr v"
    and p: "cp_paths v = [(''/mnt/disk/library'', True)]" "cp_ports v = [''0.0.0.0:8096/tcp'']" using ex_compose by blast
  have rs: "resolve_persistent_resources (cfg_storage ex_deploy_config) (cp_volumes v) (cp_paths v) (svc_data ?svc) = Inr [ex_library]"
    by (simp add: p ex_deploy_config_def ex_config_def ex_service_def resolve_persistent_resource_def config_eval ex_library_def)
  have read: "se_read ex_env q = Inr ''services:''" "se_yaml ex_env t = Inr ex_document" "se_header ex_env q = None" for q t by (simp_all add: ex_env_def)
  let ?f = "\<lparr>fl_path = ''compose.yaml'', fl_mode = ''644'', fl_digest = se_sha ex_env ''services:'', fl_bytes = 9\<rparr>"
  have pl: "\<exists>e. archive_payload ex_env root [?f] None [] q = Inr e" for root q
    by (simp add: archive_payload_def read)
  obtain e where e: "archive_payload ex_env ''/home/me/cfg/services/media'' [?f] None [] (placement_fingerprint (se_placement ex_env) [ex_library]) = Inr e"
    using pl by blast
  have c: "sbk_consistency (svc_backup ?svc) = ''stop''" by (simp add: ex_deploy_config_def ex_config_def ex_service_def)
  have "\<exists>d. resolve_one ex_env ex_deploy_config ?svc = Inr d \<and> dp_ports d = cp_ports v \<and> dp_name d = ''media'' \<and> dp_state d = ''running''
      \<and> dp_data d = [ex_library] \<and> dp_backup_consistency d = ''stop''"
    unfolding resolve_one_def svc Let_def base ex_contained ex_source ex_variables
    by (simp add: read ex_contained ex_source resolve_secret_def svc v rs e c del: AList.updates_simps AList.updates_key_simp)
  moreover have "\<exists>b. claim_ports ''media'' (cp_ports v) [] = Inr b" by (simp add: p)
  ultimately show ?thesis unfolding resolve_deployments_def ex_deploy_valid by (subst one) (auto simp: svc)
qed

lemma ex_deploys: "\<exists>d. resolve_deployments ex_env ex_deploy_config = Inr [d]"
  using ex_deployed by blast



lemma project_name_safe_witness:
  "list_all (\<lambda>c. is_lower c \<or> is_digit c \<or> c = CHR ''-'') (project_name (se_sha ex_env) ''My Pi'' ''media'')"
proof -
  have "list_all (\<lambda>c. is_lower c \<or> is_digit c) (se_sha ex_env (''My Pi'' @ [CHR 0x00] @ ''media''))"
    using show_nat_digits by (auto simp: ex_env_def list_all_iff is_lower_def less_eq_char_def)
  moreover have "service_name_pattern ''media''" by (simp add: service_name_pattern_def pattern_of_def char_eval)
  ultimately show ?thesis using project_name_safe [of "''media''" "se_sha ex_env" "''My Pi''"] by blast
qed

end
