(* ===== verification/Shell.thy ===== *)
theory Shell
  imports Errs
begin

text \<open>
  Quoting and failure classification of \<open>internal/transport\<close>. Every script the program runs on a
  target is built from fixed text and quoted values. \<open>shell_word\<close> is how a POSIX shell reads one
  word made of single-quoted parts and backslash escapes; reading back a quoted value gives the value,
  and nothing that follows it is consumed.
\<close>

text \<open>\<open>strings.ReplaceAll\<close> of the one-byte pattern that the program uses.\<close>

fun replace_byte :: "char \<Rightarrow> string \<Rightarrow> string \<Rightarrow> string" where
  "replace_byte d r [] = []"
| "replace_byte d r (c # cs) = (if c = d then r else [c]) @ replace_byte d r cs"

definition shell_quote :: "string \<Rightarrow> string" where
  "shell_quote value =
     [CHR 0x27] @ replace_byte (CHR 0x27) [CHR 0x27, CHR 0x5C, CHR 0x27, CHR 0x27] value @ [CHR 0x27]"

text \<open>
  The shell's reader, as far as quoted words need it. Outside quotes a single quote opens a quoted
  part, a backslash takes the next byte literally, and any other byte ends the word here; inside
  quotes every byte but the closing quote stands for itself. An unterminated quote is \<open>None\<close>.
\<close>

fun shell_word :: "bool \<Rightarrow> string \<Rightarrow> (string \<times> string) option" where
  "shell_word True [] = None"
| "shell_word True (c # cs) =
     (if c = CHR 0x27 then shell_word False cs
      else map_option (apfst (Cons c)) (shell_word True cs))"
| "shell_word False [] = Some ([], [])"
| "shell_word False (c # cs) =
     (if c = CHR 0x27 then shell_word True cs
      else if c = CHR 0x5C then
        (case cs of [] \<Rightarrow> None | e # es \<Rightarrow> map_option (apfst (Cons e)) (shell_word False es))
      else Some ([], c # cs))"

text \<open>What follows a quoted value in a script must not extend the word.\<close>

definition word_ends :: "string \<Rightarrow> bool" where
  "word_ends rest \<longleftrightarrow> (case rest of [] \<Rightarrow> True | c # _ \<Rightarrow> c \<noteq> CHR 0x27 \<and> c \<noteq> CHR 0x5C)"

lemma shell_word_quoted_body:
  assumes "word_ends rest"
  shows "shell_word True
           (replace_byte (CHR 0x27) [CHR 0x27, CHR 0x5C, CHR 0x27, CHR 0x27] v @ CHR 0x27 # rest)
         = Some (v, rest)"
proof (induction v)
  case Nil
  show ?case using assms by (cases rest) (auto simp: word_ends_def)
qed auto

datatype failure_kind =
    FailureUnknown | FailureDNS | FailureTimeout | FailureRefused | FailureHostKey
  | FailureAuthentication | FailureSSHClient | FailureSudoUnavailable | FailureSudoAuthentication
  | FailureRemoteCommand

definition contains_any :: "string \<Rightarrow> string list \<Rightarrow> bool" where
  "contains_any text ps = list_ex (str_contains text) ps"

definition classify_failure :: "error option \<Rightarrow> failure_kind" where
  "classify_failure err =
     (case err of None \<Rightarrow> FailureUnknown
      | Some e \<Rightarrow>
        if has_deadline e then FailureTimeout
        else (let text = to_lower (error_text e) in
          if contains_any text [''could not resolve hostname'', ''name or service not known'',
               ''temporary failure in name resolution''] then FailureDNS
          else if contains_any text [''connection timed out'', ''operation timed out'', ''i/o timeout'']
               then FailureTimeout
          else if contains_any text [''connection refused''] then FailureRefused
          else if contains_any text [''host key verification failed'',
               ''remote host identification has changed''] then FailureHostKey
          else if contains_any text [''permission denied'', ''authentication failed'',
               ''too many authentication failures''] then FailureAuthentication
          else if contains_any text [''executable file not found'', ''ssh client''] then FailureSSHClient
          else if contains_any text [''a password is required'', ''no tty present and no askpass'',
               ''doas: authorization required'', ''doas: authentication failed'', ''doas: not permitted'']
               then FailureSudoAuthentication
          else if contains_any text [''sudo: not found'', ''command not found: sudo'', ''doas: not found'',
               ''command not found: doas''] then FailureSudoUnavailable
          else FailureRemoteCommand))"

text \<open>
  C6. Quoting is exact and safe: whatever bytes a value holds, a shell that reads the quoted value,
  followed by anything that does not extend a word, reads exactly that value as one word and leaves
  the rest of the script untouched. No value can end its own quotes.
\<close>

theorem shell_quote_reads_back:
  assumes "word_ends rest"
  shows "shell_word False (shell_quote value @ rest) = Some (value, rest)"
  using shell_word_quoted_body [OF assms] by (simp add: shell_quote_def)

theorem shell_quote_reads_back_witness:
  "word_ends '' -la'' \<and> shell_word False (shell_quote (CHR 0x27 # ''; rm -rf /'') @ '' -la'')
     = Some (CHR 0x27 # ''; rm -rf /'', '' -la'')"
proof -
  have h: "word_ends '' -la''" by (simp add: word_ends_def)
  show ?thesis using h shell_quote_reads_back [OF h] by blast
qed

end
