(* ===== verification/Transport.thy ===== *)
theory Transport
  imports Shell Target
begin

text \<open>
  The local and the SSH transport of \<open>internal/transport\<close>: which program runs with which arguments,
  how its outcome becomes a result and an error, and when the apply lock is held. The operating
  system is a parameter: \<open>run\<close> maps a program and its arguments to an outcome.
\<close>

record request =
  rq_script :: string
  rq_stdin :: string
  rq_privileged :: bool

record command_result =
  cr_stdout :: string
  cr_stderr :: string
  cr_exit_code :: int

text \<open>How a process ended: with status 0, with another status, or it could not be run at all.\<close>

datatype process_end = Succeeded | Exited int | Not_Run error

record process =
  pr_stdout :: string
  pr_stderr :: string
  pr_end :: process_end

type_synonym runner = "string \<Rightarrow> string list \<Rightarrow> string \<Rightarrow> process"

section \<open>Scripts\<close>

definition newline :: string where
  "newline = [CHR 0x0A]"

definition privileged_shell_script :: "string \<Rightarrow> string" where
  "privileged_shell_script script =
     (let quoted = shell_quote script in
      ''if test \"$(id -u)\" -eq 0; then'' @ newline
      @ ''  exec sh -ceu '' @ quoted @ newline
      @ ''elif command -v sudo >/dev/null 2>&1 && sudo -n true >/dev/null 2>&1; then'' @ newline
      @ ''  exec sudo -n sh -ceu '' @ quoted @ newline
      @ ''elif command -v doas >/dev/null 2>&1 && doas -n true >/dev/null 2>&1; then'' @ newline
      @ ''  exec doas -n sh -ceu '' @ quoted @ newline
      @ ''else'' @ newline
      @ ''  printf '' @ [CHR 0x27] @ ''%s'' @ [CHR 0x5C, CHR 0x5C] @ ''n'' @ [CHR 0x27] @ '' ''
      @ [CHR 0x27] @ ''Bebop requires non-interactive root, sudo -n, or doas -n'' @ [CHR 0x27] @ '' >&2'' @ newline
      @ ''  exit 1'' @ newline @ ''fi'')"

definition lock_script :: "string \<Rightarrow> string" where
  "lock_script path =
     ''exec 9>'' @ shell_quote path @ newline @ ''flock -n 9 || exit 75'' @ newline
     @ ''printf '' @ [CHR 0x27] @ ''bebop-lock-acquired'' @ [CHR 0x5C] @ ''n'' @ [CHR 0x27] @ newline
     @ ''cat >/dev/null''"

definition file_exists_script :: "string \<Rightarrow> string" where
  "file_exists_script path =
     ''path='' @ shell_quote path @ newline
     @ ''case \"$path\" in -*) test -e \"./$path\";; *) test -e \"$path\";; esac''"

definition read_file_script :: "string \<Rightarrow> string" where
  "read_file_script path = ''cat -- '' @ shell_quote path"

section \<open>Arguments\<close>

definition string_port :: "int \<Rightarrow> string" where
  "string_port port = (if port = 0 then [] else show_int port)"

definition ssh_options :: "target \<Rightarrow> string list" where
  "ssh_options t = [''-o'', ''BatchMode=yes''] @ (if tg_port t \<noteq> 0 then [''-p'', string_port (tg_port t)] else [])
     @ [tg_user t @ ''@'' @ tg_host t]"

definition ssh_command_args :: "target \<Rightarrow> request \<Rightarrow> string list" where
  "ssh_command_args t r =
     ssh_options t @ [if rq_privileged r then privileged_shell_script (rq_script r)
                      else ''sh -ceu '' @ shell_quote (rq_script r)]"

definition local_command_args :: "request \<Rightarrow> string list" where
  "local_command_args r =
     [''-ceu'', if rq_privileged r then privileged_shell_script (rq_script r) else rq_script r]"

section \<open>Running\<close>

definition process_result :: "process \<Rightarrow> command_result \<times> error option" where
  "process_result p =
     (let r = \<lparr>cr_stdout = pr_stdout p, cr_stderr = trim_space (pr_stderr p), cr_exit_code = 0\<rparr>
      in case pr_end p of
           Succeeded \<Rightarrow> (r, None)
         | Exited n \<Rightarrow> (r\<lparr>cr_exit_code := n\<rparr>, Some (Exit_Error n (cr_stderr r)))
         | Not_Run e \<Rightarrow> (r, Some e))"

definition ssh_run :: "runner \<Rightarrow> target \<Rightarrow> request \<Rightarrow> command_result \<times> error option" where
  "ssh_run run t r = process_result (run ''ssh'' (ssh_command_args t r) (rq_stdin r))"

definition local_run :: "runner \<Rightarrow> request \<Rightarrow> command_result \<times> error option" where
  "local_run run r = process_result (run ''sh'' (local_command_args r) (rq_stdin r))"

text \<open>\<open>ReadFile\<close> and \<open>FileExists\<close>, over the \<open>Run\<close> of either transport.\<close>

definition plain_request :: "string \<Rightarrow> request" where
  "plain_request script = \<lparr>rq_script = script, rq_stdin = [], rq_privileged = False\<rparr>"

definition read_file :: "(request \<Rightarrow> command_result \<times> error option) \<Rightarrow> string \<Rightarrow> string \<times> error option" where
  "read_file run path = (case run (plain_request (read_file_script path)) of (r, e) \<Rightarrow> (cr_stdout r, e))"

definition file_exists :: "(request \<Rightarrow> command_result \<times> error option) \<Rightarrow> string \<Rightarrow> bool result" where
  "file_exists run path =
     (case snd (run (plain_request (file_exists_script path))) of
        None \<Rightarrow> Inr True
      | Some (Exit_Error n err) \<Rightarrow> Inr False
      | Some e \<Rightarrow> Inl e)"

section \<open>The apply lock\<close>

text \<open>
  The lease is a process that holds a kernel lock while its standard input is open. Its start can
  fail; else it prints one line or none, and its exit status is known once its input is closed.
\<close>

record lease_process =
  lp_start :: "error option"
  lp_line :: "string result"
  lp_exit :: process_end
  lp_stderr :: string

definition exit_code :: "process_end \<Rightarrow> int" where
  "exit_code e = (case e of Exited n \<Rightarrow> n | _ \<Rightarrow> 0)"

definition end_error :: "process_end \<Rightarrow> error option" where
  "end_error e = (case e of Succeeded \<Rightarrow> None | Exited n \<Rightarrow> Some (Exit_Error n []) | Not_Run err \<Rightarrow> Some err)"

definition acquire_process_lock :: "lease_process \<Rightarrow> unit result" where
  "acquire_process_lock p =
     (case lp_start p of Some e \<Rightarrow> Inl (Lock_Error False (Some e))
      | None \<Rightarrow>
        if lp_line p = Inr (''bebop-lock-acquired'' @ newline) then Inr ()
        else if exit_code (lp_exit p) = 75 then Inl (Lock_Error True (end_error (lp_exit p)))
        else (case lp_line p of
            Inl e \<Rightarrow> Inl (Lock_Error False (Some (wrapf ''wait for lock lease: '' e)))
          | Inr _ \<Rightarrow> Inl (Lock_Error False (Some (errorf
              (''lock lease did not acknowledge acquisition: '' @ trim_space (lp_stderr p)))))))"

definition ssh_lock_args :: "target \<Rightarrow> string list" where
  "ssh_lock_args t = ssh_options t @ [privileged_shell_script (lock_script ''/run/lock/bebop.lock'')]"

definition local_lock_args :: "string \<Rightarrow> bool \<Rightarrow> string list" where
  "local_lock_args lock_path privileged =
     [''-ceu'', if privileged then privileged_shell_script (lock_script lock_path) else lock_script lock_path]"

section \<open>Properties\<close>

lemma word_ends_newline: "word_ends (newline @ rest)"
  by (simp add: word_ends_def newline_def)

text \<open>Every place where a script holds a quoted value reads back as that value.\<close>

definition quotes_at :: "string \<Rightarrow> string \<Rightarrow> string \<Rightarrow> bool" where
  "quotes_at script lead v \<longleftrightarrow>
     (\<exists>rest. script = lead @ shell_quote v @ rest \<and> shell_word False (drop (length lead) script) = Some (v, rest))"

lemma shell_quote_reads: "word_ends rest \<Longrightarrow> shell_word False (shell_quote v @ rest) = Some (v, rest)"
  using shell_word_quoted_body by (simp add: shell_quote_def)

lemma quotes_atI: "script = lead @ shell_quote v @ rest \<Longrightarrow> word_ends rest \<Longrightarrow> quotes_at script lead v"
  by (auto simp: quotes_at_def shell_quote_reads)

text \<open>
  C7. No script and no path can leave its quotes on the way to a target: in the remote command, in
  each of the three branches of the elevation script, and in the scripts that lock, test and read a
  file, a shell that reads the word at the place of the value reads the value itself, byte for byte,
  and goes on with the fixed text of the program.
\<close>

theorem scripts_are_quoted:
  "quotes_at (last (ssh_command_args t (plain_request v))) ''sh -ceu '' v
   \<and> (\<exists>a b c. quotes_at (privileged_shell_script v) a v \<and> quotes_at (privileged_shell_script v) b v
        \<and> quotes_at (privileged_shell_script v) c v \<and> distinct [length a, length b, length c])
   \<and> quotes_at (lock_script v) ''exec 9>'' v \<and> quotes_at (file_exists_script v) ''path='' v
   \<and> quotes_at (read_file_script v) ''cat -- '' v"
proof -
  let ?q = "shell_quote v"
  let ?a = "''if test \"$(id -u)\" -eq 0; then'' @ newline @ ''  exec sh -ceu ''"
  let ?b = "?a @ ?q @ newline @ ''elif command -v sudo >/dev/null 2>&1 && sudo -n true >/dev/null 2>&1; then''
    @ newline @ ''  exec sudo -n sh -ceu ''"
  let ?c = "?b @ ?q @ newline @ ''elif command -v doas >/dev/null 2>&1 && doas -n true >/dev/null 2>&1; then''
    @ newline @ ''  exec doas -n sh -ceu ''"
  obtain r where r: "privileged_shell_script v = ?c @ ?q @ newline @ r"
    by (simp add: privileged_shell_script_def Let_def)
  have "quotes_at (privileged_shell_script v) ?c v"
    by (rule quotes_atI [OF r]) (rule word_ends_newline)
  moreover have "quotes_at (privileged_shell_script v) ?b v"
    using r by (intro quotes_atI [OF _ word_ends_newline]) (simp only: append_assoc)
  moreover have "quotes_at (privileged_shell_script v) ?a v"
    using r by (intro quotes_atI [OF _ word_ends_newline]) (simp only: append_assoc)
  moreover have "distinct [length ?a, length ?b, length ?c]" by simp
  moreover have "quotes_at (last (ssh_command_args t (plain_request v))) ''sh -ceu '' v"
    "quotes_at (read_file_script v) ''cat -- '' v"
    by (rule quotes_atI [of _ _ _ "[]"];
        simp add: ssh_command_args_def plain_request_def read_file_script_def word_ends_def)+
  moreover have "quotes_at (lock_script v) ''exec 9>'' v"
    unfolding lock_script_def by (rule quotes_atI [OF refl word_ends_newline])
  moreover have "quotes_at (file_exists_script v) ''path='' v"
    unfolding file_exists_script_def by (rule quotes_atI [OF refl word_ends_newline])
  ultimately show ?thesis by blast
qed

text \<open>
  The apply lock is only taken on the acknowledgement: acquiring succeeds exactly when the lease
  process started and its first line is the acknowledgement, and the target is reported busy exactly
  when the process started, did not acknowledge, and ended with the status of a lock held elsewhere.
\<close>

theorem lock_acquired_iff:
  "(acquire_process_lock p = Inr ()
      \<longleftrightarrow> lp_start p = None \<and> lp_line p = Inr (''bebop-lock-acquired'' @ newline))
   \<and> ((\<exists>e. acquire_process_lock p = Inl (Lock_Error True e))
      \<longleftrightarrow> lp_start p = None \<and> lp_line p \<noteq> Inr (''bebop-lock-acquired'' @ newline) \<and> exit_code (lp_exit p) = 75)"
  by (auto simp: acquire_process_lock_def split: option.splits sum.splits)

text \<open>
  The diagnostic \<open>doas: authentication failed\<close> is listed with the elevation failures, but it contains
  the text of an earlier case, so it is always classified as an SSH authentication failure.
\<close>

lemma doas_authentication_misclassified:
  "classify_failure (Some (Exit_Error 1 ''doas: authentication failed'')) = FailureAuthentication"
  by (simp add: classify_failure_def contains_any_def to_lower_def lower_char_def show_int_def
      show_nat.simps char_eval)

end
