(* ===== verification/Module_Common.thy ===== *)
theory Module_Common
  imports Planner Transport Apply
begin

text \<open>
  Files \<open>internal/modules/common.go\<close>, \<open>dinit.go\<close>, \<open>runit.go\<close> and \<open>sysv.go\<close>: how a module runs its reviewed
  action, and the scripts that enable and test a service under each init system.

  A transport is a function from requests and a target to the changed target with the result and the
  error of the command. \<open>recorded\<close> keeps the requests that reached the transport.
\<close>

section \<open>Transport\<close>

type_synonym 'w transport = "request \<Rightarrow> 'w \<Rightarrow> 'w \<times> command_result \<times> error option"

definition run_input :: "'w transport \<Rightarrow> string \<Rightarrow> string \<Rightarrow> bool \<Rightarrow> 'w \<Rightarrow> 'w \<times> error option" where
  "run_input tr script stdin privileged w =
     (case tr \<lparr>rq_script = script, rq_stdin = stdin, rq_privileged = privileged\<rparr> w of (w1, r, e) \<Rightarrow> (w1, e))"

definition run_script :: "'w transport \<Rightarrow> string \<Rightarrow> bool \<Rightarrow> 'w \<Rightarrow> 'w \<times> error option" where
  "run_script tr script privileged w = run_input tr script [] privileged w"

definition run_output :: "'w transport \<Rightarrow> string \<Rightarrow> bool \<Rightarrow> 'w \<Rightarrow> 'w \<times> string \<times> error option" where
  "run_output tr script privileged w =
     (case tr \<lparr>rq_script = script, rq_stdin = [], rq_privileged = privileged\<rparr> w of (w1, r, e) \<Rightarrow> (w1, cr_stdout r, e))"

definition recorded :: "'w transport \<Rightarrow> ('w \<times> request list) transport" where
  "recorded tr rq s = (case tr rq (fst s) of (w1, r, e) \<Rightarrow> ((w1, snd s @ [rq]), r, e))"

section \<open>Texts\<close>

abbreviation squote :: string where "squote \<equiv> [CHR 0x27]"
abbreviation backslash :: string where "backslash \<equiv> [CHR 0x5C]"

definition unlines :: "string list \<Rightarrow> string" where
  "unlines ls = join_with newline ls"

section \<open>The reviewed action\<close>

fun run_preconditions :: "'w transport \<Rightarrow> string \<Rightarrow> string \<Rightarrow> bool \<Rightarrow> precondition list \<Rightarrow> 'w \<Rightarrow> 'w \<times> error option" where
  "run_preconditions tr owner ident privileged [] w = (w, None)"
| "run_preconditions tr owner ident privileged (p # ps) w =
     (if pc_id p = [] \<or> pc_script p = []
      then (w, Some (errorf (owner @ '' refuses invalid precondition for '' @ go_quote ident)))
      else case run_script tr (pc_script p) privileged w of
        (w1, Some e) \<Rightarrow> (w1, Some (wrapf (''precondition '' @ pc_id p @ '' ('' @ pc_description p @ '') failed: '') e))
      | (w1, None) \<Rightarrow> run_preconditions tr owner ident privileged ps w1)"

definition run_action :: "'w transport \<Rightarrow> string list \<Rightarrow> change \<Rightarrow> 'w \<Rightarrow> 'w \<times> error option" where
  "run_action tr allowed c w =
     (if ac_kind (ch_action c) \<notin> set allowed \<or> ac_script (ch_action c) = []
      then (w, Some (errorf (''module refuses unexpected action '' @ go_quote (ac_kind (ch_action c)))))
      else case run_preconditions tr ''module'' (ch_id c) (ch_requires_root c) (ch_preconditions c) w of
        (w1, Some e) \<Rightarrow> (w1, Some e)
      | (w1, None) \<Rightarrow> run_script tr (ac_script (ch_action c)) (ch_requires_root c) w1)"

definition verify_target :: "'w transport \<Rightarrow> string \<Rightarrow> 'w \<Rightarrow> 'w \<times> error option" where
  "verify_target tr script w = run_script tr script True w"

definition root_blocked :: "change \<Rightarrow> bool \<Rightarrow> change" where
  "root_blocked c sudo_available =
     (if ch_requires_root c \<and> \<not> sudo_available
      then c\<lparr>ch_blocked := ''non-interactive root access is unavailable; configure passwordless sudo for the target user or connect as root''\<rparr>
      else c)"

text \<open>The two ways in which the modules block a change: with its script, and without.\<close>

definition block :: "string \<Rightarrow> change \<Rightarrow> change" where
  "block reason c = c\<lparr>ch_blocked := reason\<rparr>"

definition withhold :: "string \<Rightarrow> change \<Rightarrow> change" where
  "withhold reason c = c\<lparr>ch_action := (ch_action c)\<lparr>ac_script := []\<rparr>, ch_blocked := reason\<rparr>"

section \<open>Services under an init system\<close>

definition dinit_enable_and_start_script :: "string \<Rightarrow> string" where
  "dinit_enable_and_start_script service =
     (let description = ''/etc/dinit.d/'' @ service in
     unlines
       [''set -eu'',
        ''test -f '' @ shell_quote description,
        ''test -d /etc/dinit.d/boot.d'',
        ''dinitctl -s enable '' @ shell_quote service,
        ''test -L '' @ shell_quote (''/etc/dinit.d/boot.d/'' @ service),
        ''test \"$(readlink -f '' @ shell_quote (''/etc/dinit.d/boot.d/'' @ service) @ '')\" = '' @ shell_quote description,
        ''dinitctl -s start '' @ shell_quote service,
        ''dinitctl -s is-started '' @ shell_quote service])"

definition dinit_service_ready_script :: "string \<Rightarrow> string" where
  "dinit_service_ready_script service =
     (let description = ''/etc/dinit.d/'' @ service in
     unlines
       [''test -f '' @ shell_quote description,
        ''test -d /etc/dinit.d/boot.d'',
        ''test -L '' @ shell_quote (''/etc/dinit.d/boot.d/'' @ service),
        ''test \"$(readlink -f '' @ shell_quote (''/etc/dinit.d/boot.d/'' @ service) @ '')\" = '' @ shell_quote description,
        ''dinitctl -s is-started '' @ shell_quote service])"

definition runit_enable_and_start_script :: "string \<Rightarrow> string" where
  "runit_enable_and_start_script service =
     (let directory = ''/etc/sv/'' @ service in
     let link = ''/var/service/'' @ service in
     unlines
       [''set -eu'',
        ''test -L /var/service'',
        ''test -d /var/service'',
        ''test \"$(readlink -f /var/service)\" = /run/runit/runsvdir/current'',
        ''test -d '' @ shell_quote directory,
        ''test ! -L '' @ shell_quote directory,
        ''if test -L '' @ shell_quote link @ ''; then'',
        ''  test \"$(readlink -f '' @ shell_quote link @ '')\" = \"$(readlink -f '' @ shell_quote directory @ '')\"'',
        ''elif test -e '' @ shell_quote link @ ''; then'',
        ''  exit 1'',
        ''else'',
        ''  ln -s '' @ shell_quote directory @ '' '' @ shell_quote link,
        ''fi'',
        ''test -L '' @ shell_quote link,
        ''test \"$(readlink -f '' @ shell_quote link @ '')\" = \"$(readlink -f '' @ shell_quote directory @ '')\"'',
        ''sv up '' @ shell_quote service])"

definition runit_service_ready_script :: "string \<Rightarrow> string" where
  "runit_service_ready_script service =
     unlines
       [''test -d '' @ shell_quote (''/etc/sv/'' @ service),
        ''test ! -L '' @ shell_quote (''/etc/sv/'' @ service),
        ''test -L /var/service'',
        ''test \"$(readlink -f /var/service)\" = /run/runit/runsvdir/current'',
        ''test -L '' @ shell_quote (''/var/service/'' @ service),
        ''test \"$(readlink -f '' @ shell_quote (''/var/service/'' @ service) @ '')\" = \"$(readlink -f '' @ shell_quote (''/etc/sv/'' @ service) @ '')\"'',
        ''sv status '' @ shell_quote service @ '' | grep -Eq '^run:'' @ squote]"

definition sysv_enable_and_start_script :: "string \<Rightarrow> string" where
  "sysv_enable_and_start_script service =
     (let init_script = ''/etc/init.d/'' @ service in
     unlines
       [''set -eu'',
        ''test -x '' @ shell_quote init_script,
        ''update-rc.d '' @ shell_quote service @ '' defaults'',
        ''enabled=no'',
        ''for link in /etc/rc[2345].d/S??'' @ service @ ''; do'',
        ''  test -L \"$link\" && test \"$(readlink -f \"$link\")\" = '' @ shell_quote init_script @ '' || continue'',
        ''  enabled=yes'',
        ''  break'',
        ''done'',
        ''test \"$enabled\" = yes'',
        ''service '' @ shell_quote service @ '' start''])"

definition sysv_service_ready_script :: "string \<Rightarrow> string" where
  "sysv_service_ready_script service =
     (let init_script = ''/etc/init.d/'' @ service in
     unlines
       [''test -x '' @ shell_quote init_script,
        ''enabled=no'',
        ''for link in /etc/rc[2345].d/S??'' @ service @ ''; do'',
        ''  test -L \"$link\" && test \"$(readlink -f \"$link\")\" = '' @ shell_quote init_script @ '' || continue'',
        ''  enabled=yes'',
        ''  break'',
        ''done'',
        ''test \"$enabled\" = yes'',
        ''service '' @ shell_quote service @ '' status >/dev/null 2>&1''])"

section \<open>What runs\<close>

text \<open>The requests that a reviewed change stands for, in their order.\<close>

definition reviewed_requests :: "change \<Rightarrow> request list" where
  "reviewed_requests c =
     map (\<lambda>p. \<lparr>rq_script = pc_script p, rq_stdin = [], rq_privileged = ch_requires_root c\<rparr>) (ch_preconditions c)
     @ [\<lparr>rq_script = ac_script (ch_action c), rq_stdin = [], rq_privileged = ch_requires_root c\<rparr>]"

text \<open>A request that was sent and answered without an error.\<close>

lemma run_input_recorded:
  "run_input (recorded tr) script stdin privileged (w, log)
     = (case run_input tr script stdin privileged w of (w1, e) \<Rightarrow>
          ((w1, log @ [\<lparr>rq_script = script, rq_stdin = stdin, rq_privileged = privileged\<rparr>]), e))"
  by (simp add: run_input_def recorded_def split: prod.splits)

lemma run_script_recorded:
  "run_script (recorded tr) script privileged (w, log)
     = (case run_script tr script privileged w of (w1, e) \<Rightarrow>
          ((w1, log @ [\<lparr>rq_script = script, rq_stdin = [], rq_privileged = privileged\<rparr>]), e))"
  by (simp add: run_script_def run_input_recorded)

lemma run_preconditions_recorded:
  "run_preconditions (recorded tr) owner ident privileged ps (w, log) = ((w', log'), e) \<Longrightarrow>
     \<exists>k \<le> length ps. log' = log @ map (\<lambda>p. \<lparr>rq_script = pc_script p, rq_stdin = [], rq_privileged = privileged\<rparr>) (take k ps)
       \<and> (e = None \<longrightarrow> k = length ps \<and> run_preconditions tr owner ident privileged ps w = (w', None))"
proof (induction ps arbitrary: w log)
  case (Cons p ps)
  show ?case
  proof (cases "pc_id p = [] \<or> pc_script p = []")
    case True
    with Cons.prems show ?thesis by (intro exI [of _ 0]) auto
  next
    case False
    obtain w1 e1 where r: "run_script tr (pc_script p) privileged w = (w1, e1)" by fastforce
    show ?thesis
    proof (cases e1)
      case (Some x)
      with Cons.prems False r show ?thesis by (intro exI [of _ 1]) (auto simp: run_script_recorded)
    next
      case None
      with Cons.prems False r have "run_preconditions (recorded tr) owner ident privileged ps
          (w1, log @ [\<lparr>rq_script = pc_script p, rq_stdin = [], rq_privileged = privileged\<rparr>]) = ((w', log'), e)"
        by (simp add: run_script_recorded)
      from Cons.IH [OF this] None False r obtain k where "k \<le> length ps"
        "log' = log @ map (\<lambda>p. \<lparr>rq_script = pc_script p, rq_stdin = [], rq_privileged = privileged\<rparr>) (take (Suc k) (p # ps))"
        "e = None \<longrightarrow> Suc k = length (p # ps) \<and> run_preconditions tr owner ident privileged (p # ps) w = (w', None)"
        by auto
      then show ?thesis by (intro exI [of _ "Suc k"]) simp
    qed
  qed
qed simp


definition ex_package :: change where
  "ex_package = zero_change\<lparr>ch_id := ''docker.engine'', ch_requires_root := True,
     ch_preconditions := [\<lparr>pc_id = ''docker.engine-absent'', pc_description = ''absent'', pc_script = ''! command -v docker''\<rparr>],
     ch_action := zero_action\<lparr>ac_kind := ''docker.install-engine'', ac_script := ''apt-get install -y docker.io''\<rparr>\<rparr>"

definition ex_engine_target :: "bool transport" where
  "ex_engine_target rq installed =
     (if rq_script rq = ''! command -v docker''
      then (installed, \<lparr>cr_stdout = [], cr_stderr = [], cr_exit_code = (if installed then 1 else 0)\<rparr>,
            if installed then Some (errorf ''exit status 1'') else None)
      else (True, \<lparr>cr_stdout = [], cr_stderr = [], cr_exit_code = 0\<rparr>, None))"


section \<open>Plans of modules\<close>

text \<open>
  What the modules promise of the changes they plan: each needs root and is blocked with a reason or has
  an action that \<open>runAction\<close> does not refuse.
\<close>

definition actionable :: "string list \<Rightarrow> change \<Rightarrow> bool" where
  "actionable kinds c \<longleftrightarrow>
     ac_kind (ch_action c) \<in> set kinds \<and> ac_script (ch_action c) \<noteq> []
     \<and> list_all (\<lambda>p. pc_id p \<noteq> [] \<and> pc_script p \<noteq> []) (ch_preconditions c)"

definition planned :: "string list \<Rightarrow> change \<Rightarrow> bool" where
  "planned kinds c \<longleftrightarrow> ch_requires_root c \<and> (ch_blocked c = [] \<longrightarrow> actionable kinds c)"

definition closed_plan :: "change list \<Rightarrow> bool" where
  "closed_plan cs \<longleftrightarrow> distinct (map ch_id cs) \<and> (\<forall>c\<in>set cs. ch_id c \<noteq> [] \<and> set (ch_dependencies c) \<subseteq> set (map ch_id cs))"

lemma adjusted_simps [simp]:
  "ch_id (root_blocked c s) = ch_id c" "ch_dependencies (root_blocked c s) = ch_dependencies c"
  "ch_module (root_blocked c s) = ch_module c" "ch_requires_root (root_blocked c s) = ch_requires_root c"
  "ch_id (block r c) = ch_id c" "ch_dependencies (block r c) = ch_dependencies c"
  "ch_module (block r c) = ch_module c" "ch_requires_root (block r c) = ch_requires_root c"
  "ch_id (withhold r c) = ch_id c" "ch_dependencies (withhold r c) = ch_dependencies c"
  "ch_module (withhold r c) = ch_module c" "ch_requires_root (withhold r c) = ch_requires_root c"
  "ch_blocked (block r c) = r" "ch_blocked (withhold r c) = r"
  by (simp_all add: root_blocked_def block_def withhold_def)

lemma planned_block: "r \<noteq> [] \<Longrightarrow> planned kinds (block r c) = ch_requires_root c"
  by (simp add: planned_def)

lemma planned_withhold: "r \<noteq> [] \<Longrightarrow> planned kinds (withhold r c) = ch_requires_root c"
  by (simp add: planned_def)

lemma planned_root_blocked: "planned kinds c \<Longrightarrow> planned kinds (root_blocked c s)"
  by (simp add: planned_def root_blocked_def)

lemma root_blocked_blocks: "ch_requires_root c \<Longrightarrow> \<not> s \<Longrightarrow> ch_blocked (root_blocked c s) \<noteq> []"
  by (simp add: root_blocked_def)

lemma zero_simps [simp]:
  "ch_dependencies zero_change = []" "ch_preconditions zero_change = []" "ch_blocked zero_change = []"
  "ac_script zero_action = []"
  by (simp_all add: zero_change_def zero_action_def)

lemma unlines_nonempty [simp]: "unlines (a # b # ls) \<noteq> []" "a \<noteq> [] \<Longrightarrow> unlines [a] \<noteq> []"
  by (simp_all add: unlines_def newline_def)

lemma init_scripts [simp]:
  "dinit_enable_and_start_script s \<noteq> []" "runit_enable_and_start_script s \<noteq> []" "sysv_enable_and_start_script s \<noteq> []"
  by (simp_all add: dinit_enable_and_start_script_def runit_enable_and_start_script_def sysv_enable_and_start_script_def Let_def)

text \<open>
  The rules that follow the shape of a plan: what a plan binds is a change, a list of changes or a value
  that the promise does not depend on.
\<close>

named_theorems planning

definition planned_all :: "string list \<Rightarrow> change list \<times> warning list \<Rightarrow> bool" where
  "planned_all kinds p \<longleftrightarrow> list_all (planned kinds) (fst p)"

lemma planned_all_pair [planning]: "list_all (planned kinds) cs \<Longrightarrow> planned_all kinds (cs, ws)"
  by (simp add: planned_all_def)

lemma planned_lists [planning]:
  "list_all (planned kinds) []"
  "planned kinds c \<Longrightarrow> list_all (planned kinds) cs \<Longrightarrow> list_all (planned kinds) (c # cs)"
  "list_all (planned kinds) cs \<Longrightarrow> list_all (planned kinds) ds \<Longrightarrow> list_all (planned kinds) (cs @ ds)"
  by simp_all

lemma planned_branches [planning]:
  "planned_all kinds p \<Longrightarrow> planned_all kinds q \<Longrightarrow> planned_all kinds (if b then p else q)"
  "list_all (planned kinds) cs \<Longrightarrow> list_all (planned kinds) ds \<Longrightarrow> list_all (planned kinds) (if b then cs else ds)"
  "planned kinds c \<Longrightarrow> planned kinds d \<Longrightarrow> planned kinds (if b then c else d)"
  by simp_all

lemma planned_options [planning]:
  "planned_all kinds p \<Longrightarrow> (\<And>x. planned_all kinds (f x)) \<Longrightarrow> planned_all kinds (case_option p f y)"
  "list_all (planned kinds) cs \<Longrightarrow> (\<And>x. list_all (planned kinds) (g x)) \<Longrightarrow> list_all (planned kinds) (case_option cs g y)"
  "planned kinds c \<Longrightarrow> (\<And>x. planned kinds (h x)) \<Longrightarrow> planned kinds (case_option c h y)"
  by (simp_all split: option.splits)

lemma planned_pairs [planning]:
  "(\<And>x y. planned_all kinds (f x y)) \<Longrightarrow> planned_all kinds (case_prod f z)"
  "(\<And>x y. list_all (planned kinds) (g x y)) \<Longrightarrow> list_all (planned kinds) (case_prod g z)"
  "(\<And>x y. planned kinds (h x y)) \<Longrightarrow> planned kinds (case_prod h z)"
  by (simp_all split: prod.splits)

lemma let_changes [planning]:
  fixes cs :: "change list"
  shows "list_all (planned kinds) cs \<Longrightarrow> (\<And>x. list_all (planned kinds) x \<Longrightarrow> planned_all kinds (f x)) \<Longrightarrow> planned_all kinds (Let cs f)"
    and "list_all (planned kinds) cs \<Longrightarrow> (\<And>x. list_all (planned kinds) x \<Longrightarrow> list_all (planned kinds) (g x))
           \<Longrightarrow> list_all (planned kinds) (Let cs g)"
  by simp_all

lemma let_change [planning]:
  fixes c :: change
  shows "planned kinds c \<Longrightarrow> (\<And>x. planned kinds x \<Longrightarrow> planned_all kinds (f x)) \<Longrightarrow> planned_all kinds (Let c f)"
    and "planned kinds c \<Longrightarrow> (\<And>x. planned kinds x \<Longrightarrow> list_all (planned kinds) (g x)) \<Longrightarrow> list_all (planned kinds) (Let c g)"
    and "planned kinds c \<Longrightarrow> (\<And>x. planned kinds x \<Longrightarrow> planned kinds (h x)) \<Longrightarrow> planned kinds (Let c h)"
  by simp_all

lemma let_condition [planning]:
  fixes b :: bool
  shows "(\<And>x. planned_all kinds (f x)) \<Longrightarrow> planned_all kinds (Let b f)"
    and "(\<And>x. list_all (planned kinds) (g x)) \<Longrightarrow> list_all (planned kinds) (Let b g)"
    and "(\<And>x. planned kinds (h x)) \<Longrightarrow> planned kinds (Let b h)"
  by simp_all

lemma let_text [planning]:
  fixes b :: string
  shows "(\<And>x. planned_all kinds (f x)) \<Longrightarrow> planned_all kinds (Let b f)"
    and "(\<And>x. list_all (planned kinds) (g x)) \<Longrightarrow> list_all (planned kinds) (Let b g)"
    and "(\<And>x. planned kinds (h x)) \<Longrightarrow> planned kinds (Let b h)"
  by simp_all

lemma let_texts [planning]:
  fixes b :: "string list"
  shows "(\<And>x. planned_all kinds (f x)) \<Longrightarrow> planned_all kinds (Let b f)"
    and "(\<And>x. list_all (planned kinds) (g x)) \<Longrightarrow> list_all (planned kinds) (Let b g)"
    and "(\<And>x. planned kinds (h x)) \<Longrightarrow> planned kinds (Let b h)"
  by simp_all

lemma let_pair [planning]:
  fixes b :: "string \<times> string"
  shows "(\<And>x. planned_all kinds (f x)) \<Longrightarrow> planned_all kinds (Let b f)"
    and "(\<And>x. list_all (planned kinds) (g x)) \<Longrightarrow> list_all (planned kinds) (Let b g)"
    and "(\<And>x. planned kinds (h x)) \<Longrightarrow> planned kinds (Let b h)"
  by simp_all

lemma let_warnings [planning]:
  fixes b :: "warning list"
  shows "(\<And>x. planned_all kinds (f x)) \<Longrightarrow> planned_all kinds (Let b f)"
  by simp

lemma planned_adjusted [planning]:
  "r \<noteq> [] \<Longrightarrow> planned kinds c \<Longrightarrow> planned kinds (block r c)"
  "r \<noteq> [] \<Longrightarrow> planned kinds c \<Longrightarrow> planned kinds (withhold r c)"
  "planned kinds c \<Longrightarrow> planned kinds (root_blocked c s)"
  by (simp_all add: planned_block planned_withhold planned_root_blocked) (simp_all add: planned_def)

text \<open>A planned change that is not blocked is not refused: only the target can fail it.\<close>

lemma run_script_answered: "(\<And>rq v. snd (snd (tr rq v)) = None) \<Longrightarrow> snd (run_script tr script privileged w) = None"
  by (simp add: run_script_def run_input_def split_beta)

lemma run_preconditions_answered:
  assumes "list_all (\<lambda>p. pc_id p \<noteq> [] \<and> pc_script p \<noteq> []) ps" and "\<And>rq v. snd (snd (tr rq v)) = None"
  shows "snd (run_preconditions tr owner ident privileged ps w) = None"
  using assms(1)
proof (induction ps arbitrary: w)
  case (Cons p ps)
  then show ?case using run_script_answered [of tr, OF assms(2)]
    by (auto split: prod.splits option.splits) (metis option.distinct(1) snd_conv)
qed simp

lemma planned_not_refused:
  assumes "planned kinds c" and "ch_blocked c = []" and "\<And>rq v. snd (snd (tr rq v)) = None"
  shows "snd (run_action tr kinds c w) = None"
proof -
  have a: "actionable kinds c" using assms(1,2) by (simp add: planned_def)
  then have "snd (run_preconditions tr ''module'' (ch_id c) (ch_requires_root c) (ch_preconditions c) w) = None"
    using run_preconditions_answered [of _ tr] assms(3) by (simp add: actionable_def)
  then obtain w1 where "run_preconditions tr ''module'' (ch_id c) (ch_requires_root c) (ch_preconditions c) w = (w1, None)"
    by (metis prod.collapse)
  with a run_script_answered [of tr, OF assms(3)] show ?thesis by (simp add: run_action_def actionable_def)
qed

end
