(* ===== verification/Storage.thy ===== *)
theory Storage
  imports Config Host_Facts Shell
begin

text \<open>
  Package \<open>internal/storage\<close>: whether a declared storage resource may hold data, decided over the
  observed mounts, and where a data resource is placed. Byte counts are Go's \<open>int64\<close>; no sum is
  formed before the test that keeps it in range.
\<close>

datatype storage_state =
    Ready | Unavailable | Missing | RootSpill | WrongUUID | WrongType | ReadOnly | CapacityLow
  | FreeSpaceLow | ConfigConflict | ConfigUnknown | UnsupportedFilesystem

fun storage_state_string :: "storage_state \<Rightarrow> string" where
  "storage_state_string Ready = ''ready''"
| "storage_state_string Unavailable = ''unavailable''"
| "storage_state_string Missing = ''missing''"
| "storage_state_string RootSpill = ''root-spill''"
| "storage_state_string WrongUUID = ''wrong-uuid''"
| "storage_state_string WrongType = ''wrong-filesystem-type''"
| "storage_state_string ReadOnly = ''read-only''"
| "storage_state_string CapacityLow = ''capacity-low''"
| "storage_state_string FreeSpaceLow = ''free-space-low''"
| "storage_state_string ConfigConflict = ''conflicting-mount-config''"
| "storage_state_string ConfigUnknown = ''mount-config-unknown''"
| "storage_state_string UnsupportedFilesystem = ''unsupported-filesystem''"

text \<open>The mount is \<open>None\<close> where the code leaves the zero value.\<close>

record assessment =
  as_resource :: "storage_resource option"
  as_state :: storage_state
  as_mount :: "storage_mount option"
  as_detail :: string

section \<open>Assessment\<close>

definition placement_filesystem_supported :: "string \<Rightarrow> bool" where
  "placement_filesystem_supported filesystem \<longleftrightarrow>
     filesystem \<in> set [''ext2'', ''ext3'', ''ext4'', ''xfs'', ''btrfs'']"

definition assess_mounted :: "storage_resource \<Rightarrow> storage_mount \<Rightarrow> assessment" where
  "assess_mounted r mount =
     (let result = (\<lambda>state detail. \<lparr>as_resource = Some r, as_state = state, as_mount = Some mount, as_detail = detail\<rparr>)
      in if sm_uuid mount = [] \<or> sm_uuid mount \<noteq> sr_filesystem_uuid r
         then result WrongUUID ''mounted filesystem UUID does not match the declared storage resource''
         else if \<not> placement_filesystem_supported (sm_filesystem mount)
         then result UnsupportedFilesystem ''mounted filesystem type is not supported for Bebop persistent-data placement''
         else if sr_filesystem_type r \<noteq> [] \<and> sm_filesystem mount \<noteq> sr_filesystem_type r
         then result WrongType ''mounted filesystem type does not match the declared storage resource''
         else if sm_read_only mount then result ReadOnly ''mounted filesystem is read-only''
         else if sr_minimum_capacity_bytes r > 0 \<and> sm_size_bytes mount < sr_minimum_capacity_bytes r
         then result CapacityLow ''mounted filesystem capacity is unavailable or below its configured capacity threshold''
         else if sr_minimum_free_bytes r > 0 \<and> sm_available_bytes mount < sr_minimum_free_bytes r
         then result FreeSpaceLow ''mounted filesystem free space is unavailable or below its configured free-space threshold''
         else result Ready ''mounted filesystem identity and placement policy are satisfied'')"

text \<open>The first entry of the managed mount that decides the result.\<close>

fun mount_config_verdict :: "string \<Rightarrow> storage_mount_config list \<Rightarrow> storage_state option" where
  "mount_config_verdict name [] = None"
| "mount_config_verdict name (m # ms) =
     (if smc_name m \<noteq> name then mount_config_verdict name ms
      else if smc_state m = ''conflict'' then Some ConfigConflict
      else if smc_state m = ''unknown'' then Some ConfigUnknown
      else mount_config_verdict name ms)"

definition mount_covers :: "storage_mount \<Rightarrow> string \<Rightarrow> bool" where
  "mount_covers m p \<longleftrightarrow> sm_target m = ''/'' \<or> has_prefix p (sm_target m @ ''/'')"

text \<open>The loop over the mounts, with the longest covering mount so far.\<close>

fun assess_loop :: "storage_resource \<Rightarrow> storage_mount option \<Rightarrow> storage_mount list \<Rightarrow> assessment" where
  "assess_loop r covering [] =
     (case covering of
        Some c \<Rightarrow> \<lparr>as_resource = Some r, as_state = RootSpill, as_mount = Some c,
          as_detail = ''configured mount point is currently served by '' @ sm_target c
            @ '' instead of its declared filesystem''\<rparr>
      | None \<Rightarrow> \<lparr>as_resource = Some r, as_state = Missing, as_mount = None,
          as_detail = ''configured filesystem is not mounted''\<rparr>)"
| "assess_loop r covering (m # ms) =
     (if sm_target m = sr_mount r then assess_mounted r m
      else if mount_covers m (sr_mount r)
          \<and> (case covering of None \<Rightarrow> True | Some c \<Rightarrow> length (sm_target m) > length (sm_target c))
        then assess_loop r (Some m) ms
      else assess_loop r covering ms)"

definition assess :: "storage_resource \<Rightarrow> storage_facts \<Rightarrow> assessment" where
  "assess r topology =
     (case (if sr_managed_mount r then mount_config_verdict (sr_name r) (st_mount_configs topology) else None) of
        Some ConfigConflict \<Rightarrow> \<lparr>as_resource = Some r, as_state = ConfigConflict, as_mount = None,
          as_detail = ''fstab has a conflicting mapping for the declared UUID or mount point''\<rparr>
      | Some _ \<Rightarrow> \<lparr>as_resource = Some r, as_state = ConfigUnknown, as_mount = None,
          as_detail = ''Bebop could not determine whether fstab conflicts with the declared mount''\<rparr>
      | None \<Rightarrow>
          if \<not> st_available topology
          then \<lparr>as_resource = Some r, as_state = Unavailable, as_mount = None,
            as_detail = ''target did not provide usable lsblk and findmnt JSON storage facts''\<rparr>
          else assess_loop r None (st_mounts topology))"

definition assess_all :: "storage \<Rightarrow> storage_facts \<Rightarrow> assessment list" where
  "assess_all cfg topology = map (\<lambda>r. assess r topology) (stg_resources cfg)"

definition mount_config_state :: "string \<Rightarrow> string" where
  "mount_config_state output =
     (let state = trim_space output
      in if state \<in> set [''exact'', ''external'', ''absent'', ''conflict''] then state else ''unknown'')"

text \<open>The condition that the module of a mount runs again on the target before it changes anything.\<close>

definition ready_precondition :: "storage_resource \<Rightarrow> string" where
  "ready_precondition r =
     (let mount = shell_quote (sr_mount r); uuid = shell_quote (sr_filesystem_uuid r);
          findmnt = (\<lambda>column wanted. ''test \"$(findmnt -rn -o '' @ column @ '' --target '' @ mount @ '')\" = '' @ wanted)
      in join_with '' && ''
           ([findmnt ''TARGET'' mount, findmnt ''UUID'' uuid, ''test -w '' @ mount]
            @ (if sr_filesystem_type r \<noteq> [] then [findmnt ''FSTYPE'' (shell_quote (sr_filesystem_type r))] else [])))"

section \<open>Placement and capacity\<close>

definition find_storage :: "storage \<Rightarrow> string \<Rightarrow> storage_resource option" where
  "find_storage cfg name = find (\<lambda>r. sr_name r = name) (stg_resources cfg)"

definition not_ready_error :: "storage_resource \<Rightarrow> assessment \<Rightarrow> error" where
  "not_ready_error r a = errorf (''storage '' @ sr_name r @ '' is '' @ storage_state_string (as_state a) @ '': '' @ as_detail a)"

definition escapes_mount :: "string \<Rightarrow> string \<Rightarrow> bool" where
  "escapes_mount mount p \<longleftrightarrow> p = mount \<or> \<not> has_prefix p (mount @ ''/'') \<or> path_clean p \<noteq> p"

definition placement :: "config \<Rightarrow> host_facts \<Rightarrow> data_resource \<Rightarrow> (string \<times> assessment) result" where
  "placement cfg host r =
     rbind (resolve_data_path (cfg_storage cfg) r) (\<lambda>resolved.
     if dr_storage r = []
     then Inr (resolved, \<lparr>as_resource = None, as_state = Ready, as_mount = None,
            as_detail = ''legacy explicit absolute bind path''\<rparr>)
     else case find_storage (cfg_storage cfg) (dr_storage r) of
         None \<Rightarrow> Inl (errorf (''declared storage '' @ go_quote (dr_storage r) @ '' does not exist''))
       | Some sr \<Rightarrow>
           (let a = assess sr (hf_storage host)
            in if as_state a \<noteq> Ready then Inl (not_ready_error sr a)
               else if escapes_mount (sr_mount sr) resolved
               then Inl (errorf ''storage-relative path escapes its declared mount'')
               else Inr (resolved, a)))"

definition validate_resolved_placement :: "storage \<Rightarrow> host_facts \<Rightarrow> string \<Rightarrow> string \<Rightarrow> assessment result" where
  "validate_resolved_placement cfg host name resolved =
     (case find_storage cfg name of
        None \<Rightarrow> Inl (errorf (''declared storage '' @ go_quote name @ '' does not exist''))
      | Some sr \<Rightarrow>
          (let a = assess sr (hf_storage host)
           in if as_state a \<noteq> Ready then Inl (not_ready_error sr a)
              else if escapes_mount (sr_mount sr) resolved
              then Inl (errorf ''storage-relative path escapes its declared mount'')
              else Inr a))"

definition available_bytes :: "assessment \<Rightarrow> int" where
  "available_bytes a = (case as_mount a of None \<Rightarrow> 0 | Some m \<Rightarrow> sm_available_bytes m)"

definition assessed_name :: "assessment \<Rightarrow> string" where
  "assessed_name a = (case as_resource a of None \<Rightarrow> [] | Some r \<Rightarrow> sr_name r)"

definition require_free_capacity :: "assessment \<Rightarrow> int \<Rightarrow> unit result" where
  "require_free_capacity a bytes =
     (if bytes \<le> 0 then Inr ()
      else if available_bytes a \<le> 0
      then Inl (errorf (''available space for storage '' @ assessed_name a @ '' is unavailable''))
      else if available_bytes a < bytes
      then Inl (errorf (''storage '' @ assessed_name a @ '' has '' @ show_int (available_bytes a)
             @ '' available bytes but restore requires at least '' @ show_int bytes @ '' bytes''))
      else Inr ())"

definition restore_capacity_requirement :: "int \<Rightarrow> int result" where
  "restore_capacity_requirement logical_bytes =
     (if logical_bytes < 0 then Inl (errorf ''restore size must not be negative'')
      else if logical_bytes = 0 then Inr 0
      else (let margin = max (logical_bytes div 20) 67108864
            in if logical_bytes > max_int64 - margin
               then Inl (errorf ''restore size overflows capacity requirement'')
               else Inr (logical_bytes + margin)))"

section \<open>Lemmas\<close>

lemma verdict_cases: "mount_config_verdict name ms = None \<or> mount_config_verdict name ms = Some ConfigConflict
    \<or> mount_config_verdict name ms = Some ConfigUnknown"
  by (induction name ms rule: mount_config_verdict.induct) auto

lemma verdict_none_iff:
  "mount_config_verdict name ms = None \<longleftrightarrow>
     (\<forall>m\<in>set ms. smc_name m = name \<longrightarrow> smc_state m \<noteq> ''conflict'' \<and> smc_state m \<noteq> ''unknown'')"
  by (induction name ms rule: mount_config_verdict.induct) auto

lemma assess_verdict:
  "assess r topology =
     (if sr_managed_mount r \<and> mount_config_verdict (sr_name r) (st_mount_configs topology) \<noteq> None
      then assess r topology
      else if \<not> st_available topology then assess r topology
      else assess_loop r None (st_mounts topology))"
  by (auto simp: assess_def)

lemma assess_mounted_state:
  "as_state (assess_mounted r m) = Ready \<longleftrightarrow>
     sm_uuid m \<noteq> [] \<and> sm_uuid m = sr_filesystem_uuid r \<and> placement_filesystem_supported (sm_filesystem m)
     \<and> (sr_filesystem_type r = [] \<or> sm_filesystem m = sr_filesystem_type r) \<and> \<not> sm_read_only m
     \<and> (sr_minimum_capacity_bytes r > 0 \<longrightarrow> sm_size_bytes m \<ge> sr_minimum_capacity_bytes r)
     \<and> (sr_minimum_free_bytes r > 0 \<longrightarrow> sm_available_bytes m \<ge> sr_minimum_free_bytes r)"
  by (auto simp: assess_mounted_def Let_def)

lemma assess_mounted_fields:
  "as_mount (assess_mounted r m) = Some m" "as_resource (assess_mounted r m) = Some r"
  "as_state (assess_mounted r m) \<noteq> RootSpill" "as_state (assess_mounted r m) \<noteq> Missing"
  "as_state (assess_mounted r m) \<noteq> ConfigConflict" "as_state (assess_mounted r m) \<noteq> ConfigUnknown"
  "as_state (assess_mounted r m) \<noteq> Unavailable"
  by (simp_all add: assess_mounted_def Let_def)

text \<open>The mount at the mount point decides alone; without one, the longest covering mount does.\<close>

lemma assess_loop_found:
  "find (\<lambda>m. sm_target m = sr_mount r) ms = Some m \<Longrightarrow> assess_loop r covering ms = assess_mounted r m"
  by (induction r covering ms rule: assess_loop.induct) (auto split: if_splits)

definition longest_cover :: "string \<Rightarrow> storage_mount option \<Rightarrow> storage_mount list \<Rightarrow> bool" where
  "longest_cover p c ms \<longleftrightarrow>
     (case c of None \<Rightarrow> \<not> list_ex (\<lambda>m. mount_covers m p) ms
      | Some c \<Rightarrow> c \<in> set ms \<and> mount_covers c p
          \<and> list_all (\<lambda>m. mount_covers m p \<longrightarrow> length (sm_target m) \<le> length (sm_target c)) ms)"

lemma assess_loop_not_found:
  assumes "\<forall>m\<in>set ms. sm_target m \<noteq> sr_mount r" and "longest_cover (sr_mount r) covering pre"
  shows "\<exists>c. longest_cover (sr_mount r) c (pre @ ms) \<and> as_mount (assess_loop r covering ms) = c
    \<and> as_state (assess_loop r covering ms) = (if c = None then Missing else RootSpill)"
  using assms
proof (induction ms arbitrary: covering pre)
  case Nil
  then show ?case by (cases covering) auto
next
  case (Cons m ms)
  let ?next = "if mount_covers m (sr_mount r)
      \<and> (case covering of None \<Rightarrow> True | Some c \<Rightarrow> length (sm_target m) > length (sm_target c))
    then Some m else covering"
  have "longest_cover (sr_mount r) ?next (pre @ [m])"
    using Cons.prems(2) by (cases covering) (fastforce simp: longest_cover_def list_all_iff list_ex_iff)+
  moreover have "\<forall>x\<in>set ms. sm_target x \<noteq> sr_mount r" using Cons.prems(1) by simp
  ultimately have "\<exists>c. longest_cover (sr_mount r) c ((pre @ [m]) @ ms) \<and> as_mount (assess_loop r ?next ms) = c
      \<and> as_state (assess_loop r ?next ms) = (if c = None then Missing else RootSpill)"
    by (intro Cons.IH)
  then show ?case using Cons.prems(1) by (cases covering) (auto split: if_splits)
qed

lemma find_storage_some: "find_storage cfg name = Some sr \<Longrightarrow> sr \<in> set (stg_resources cfg) \<and> sr_name sr = name"
  by (auto simp: find_storage_def find_Some_iff)

lemma resolve_find:
  assumes "resolve_data_path cfg r = Inr p" and "dr_storage r \<noteq> []"
  shows "\<exists>sr. find_storage cfg (dr_storage r) = Some sr \<and> p = path_join (sr_mount sr) (dr_path r)
    \<and> dr_path r \<noteq> [] \<and> \<not> is_rooted (dr_path r) \<and> path_clean (dr_path r) = dr_path r
    \<and> dr_path r \<noteq> ''.'' \<and> dr_path r \<noteq> ''..'' \<and> \<not> has_prefix (dr_path r) ''../''"
proof -
  have f: "find P xs = (case filter P xs of [] \<Rightarrow> None | y # _ \<Rightarrow> Some y)" for P and xs :: "storage_resource list"
    by (induction xs) auto
  show ?thesis
    using assms by (auto simp: resolve_data_path_def find_storage_def f is_rooted_def
        split: if_splits list.splits)
qed

section \<open>Properties\<close>

text \<open>
  A storage resource is ready exactly when it is safe to write to: the target reported its mounts,
  no fstab entry of a managed mount is conflicting or unknown, and the first mount at the declared
  mount point carries the declared UUID, a supported and (when declared) the declared file system,
  is writable, and meets both thresholds. In particular it is never ready when nothing is mounted
  there.
\<close>

theorem assess_ready_iff:
  "as_state (assess r topology) = Ready \<longleftrightarrow>
     st_available topology
     \<and> \<not> (sr_managed_mount r \<and> list_ex (\<lambda>m. smc_name m = sr_name r \<and> smc_state m \<in> {''conflict'', ''unknown''})
            (st_mount_configs topology))
     \<and> (\<exists>m. find (\<lambda>m. sm_target m = sr_mount r) (st_mounts topology) = Some m
          \<and> sm_uuid m \<noteq> [] \<and> sm_uuid m = sr_filesystem_uuid r \<and> placement_filesystem_supported (sm_filesystem m)
          \<and> (sr_filesystem_type r = [] \<or> sm_filesystem m = sr_filesystem_type r) \<and> \<not> sm_read_only m
          \<and> (sr_minimum_capacity_bytes r \<le> 0 \<or> sm_size_bytes m \<ge> sr_minimum_capacity_bytes r)
          \<and> (sr_minimum_free_bytes r \<le> 0 \<or> sm_available_bytes m \<ge> sr_minimum_free_bytes r))"
proof -
  have verdict: "list_ex (\<lambda>m. smc_name m = sr_name r \<and> smc_state m \<in> {''conflict'', ''unknown''})
      (st_mount_configs topology) \<longleftrightarrow> mount_config_verdict (sr_name r) (st_mount_configs topology) \<noteq> None"
    by (auto simp: list_ex_iff verdict_none_iff)
  have loop: "as_state (assess_loop r None (st_mounts topology)) = Ready \<longleftrightarrow>
      (\<exists>m. find (\<lambda>m. sm_target m = sr_mount r) (st_mounts topology) = Some m
        \<and> as_state (assess_mounted r m) = Ready)"
  proof (cases "find (\<lambda>m. sm_target m = sr_mount r) (st_mounts topology)")
    case None
    then have "\<forall>m\<in>set (st_mounts topology). sm_target m \<noteq> sr_mount r" by (simp add: find_None_iff)
    from assess_loop_not_found [OF this, of None "[]"] None show ?thesis
      by (auto simp: longest_cover_def split: if_splits)
  qed (simp add: assess_loop_found)
  have ready: "as_state (assess r topology) = Ready \<longleftrightarrow> st_available topology
      \<and> \<not> (sr_managed_mount r \<and> mount_config_verdict (sr_name r) (st_mount_configs topology) \<noteq> None)
      \<and> as_state (assess_loop r None (st_mounts topology)) = Ready"
    using verdict_cases [of "sr_name r" "st_mount_configs topology"]
    by (elim disjE) (simp_all add: assess_def)
  show ?thesis
    unfolding verdict ready loop assess_mounted_state by (simp only: not_less [symmetric] imp_conv_disj not_not)
qed

text \<open>
  Spills are told truly: when the configured mount point is not mounted but the path is served by
  another file system, the assessment names the mount that the kernel would use, the longest one that
  covers the path, whatever order the mounts were reported in.
\<close>

theorem root_spill_longest:
  assumes "as_state (assess r topology) = RootSpill"
  shows "\<exists>c. as_mount (assess r topology) = Some c \<and> c \<in> set (st_mounts topology)
    \<and> mount_covers c (sr_mount r)
    \<and> list_all (\<lambda>m. sm_target m \<noteq> sr_mount r
        \<and> (mount_covers m (sr_mount r) \<longrightarrow> length (sm_target m) \<le> length (sm_target c))) (st_mounts topology)"
proof -
  have loop: "assess r topology = assess_loop r None (st_mounts topology)"
    using assms verdict_cases [of "sr_name r" "st_mount_configs topology"]
    by (auto simp: assess_def split: if_splits)
  have none: "\<forall>m\<in>set (st_mounts topology). sm_target m \<noteq> sr_mount r"
  proof (rule ccontr)
    assume "\<not> ?thesis"
    then obtain m where "find (\<lambda>m. sm_target m = sr_mount r) (st_mounts topology) = Some m"
      by (cases "find (\<lambda>m. sm_target m = sr_mount r) (st_mounts topology)") (auto simp: find_None_iff)
    with assms loop assess_loop_found assess_mounted_fields(3) show False by metis
  qed
  from assess_loop_not_found [OF none, of None "[]"] assms loop none show ?thesis
    by (auto simp: longest_cover_def list_all_iff split: option.splits if_splits)
qed

definition ex_mount :: "string \<Rightarrow> storage_mount" where
  "ex_mount t = \<lparr>sm_target = t, sm_source = ''/dev/sda1'', sm_filesystem = ''ext4'', sm_uuid = ''1234-ABCD'',
     sm_options = [''rw''], sm_size_bytes = 1000, sm_available_bytes = 500, sm_read_only = False\<rparr>"

definition ex_topology :: "string list \<Rightarrow> storage_facts" where
  "ex_topology ts = zero_storage_facts\<lparr>st_available := True, st_mounts := map ex_mount ts\<rparr>"

abbreviation ex_disk :: storage_resource where
  "ex_disk \<equiv> hd (stg_resources (cfg_storage ex_config))"

lemma root_spill_longest_witness:
  "as_mount (assess ex_disk (ex_topology [''/'', ''/mnt'', ''/srv''])) = Some (ex_mount ''/mnt'')"
proof -
  let ?t = "ex_topology [''/'', ''/mnt'', ''/srv'']"
  have "as_state (assess ex_disk ?t) = RootSpill"
    by (simp add: assess_def ex_config_def ex_topology_def ex_mount_def mount_covers_def zero_storage_facts_def)
  from root_spill_longest [OF this] show ?thesis
    by (auto simp: ex_config_def ex_topology_def ex_mount_def mount_covers_def)
qed



text \<open>
  A restore that passes the capacity check has room: the requirement computed for a size never wraps
  around, exceeds a positive size by at least 64 MiB and by at least five percent (rounded down), and
  the check accepts an assessed storage only if its known free space covers the requirement. Sizes
  for which the sum would not fit in \<open>int64\<close> are refused.
\<close>

theorem restore_capacity_sound:
  assumes "restore_capacity_requirement n = Inr need" and "n \<noteq> 0"
  shows "0 < n \<and> n + 67108864 \<le> need \<and> n + n div 20 \<le> need \<and> need \<le> max_int64
    \<and> (require_free_capacity a need = Inr () \<longleftrightarrow> need \<le> available_bytes a)"
  using assms
  by (auto simp: restore_capacity_requirement_def require_free_capacity_def Let_def split: if_splits)

lemma restore_capacity_sound_witness:
  "restore_capacity_requirement 2000000000 = Inr 2100000000 \<and> (2000000000::int) + 67108864 \<le> 2100000000"
proof -
  have r: "restore_capacity_requirement 2000000000 = Inr 2100000000"
    by (simp add: restore_capacity_requirement_def)
  from restore_capacity_sound [OF r, of undefined] r show ?thesis by simp
qed

end
