(* ===== verification/Host_Modules.thy ===== *)
theory Host_Modules
  imports Module_Common Storage
begin

text \<open>
  Files \<open>internal/modules/base.go\<close>, \<open>storage.go\<close> and \<open>ssh.go\<close>: the data root, the declared mounts and the SSH
  drop-in.
\<close>

definition base_data_root :: "string \<Rightarrow> string \<Rightarrow> change" where
  "base_data_root root quoted = zero_change\<lparr>ch_id := ''base.data-root'',
      ch_module := ''base'',
      ch_summary := ''create Bebop data root'',
      ch_reason := root @ '' does not exist'',
      ch_risk := Privileged,
      ch_requires_root := True,
      ch_current := ''absent'',
      ch_desired := ''directory mode 0750 owned by root:root'',
      ch_preconditions := [\<lparr>pc_id = ''base.data-root-absent'', pc_description = ''the configured data root is still absent'', pc_script = ''test ! -e '' @ quoted\<rparr>],
      ch_action := zero_action\<lparr>ac_kind := ''base.create-data-root'', ac_resource := root, ac_script := ''install -d -m 0750 -o root -g root -- '' @ quoted\<rparr>,
      ch_verification := ''directory exists with mode 0750 and root ownership''\<rparr>"

definition base_data_root_permissions :: "host_facts \<Rightarrow> string \<Rightarrow> string \<Rightarrow> change" where
  "base_data_root_permissions host root quoted = zero_change\<lparr>ch_id := ''base.data-root.permissions'',
      ch_module := ''base'',
      ch_summary := ''correct Bebop data-root ownership and mode'',
      ch_reason := ''the configured Bebop-owned root does not match its declared permissions'',
      ch_risk := Privileged,
      ch_requires_root := True,
      ch_current := ''mode '' @ dir_mode (hf_data_root host) @ '' uid '' @ show_int (dir_uid (hf_data_root host)) @ '' gid '' @ show_int (dir_gid (hf_data_root host)),
      ch_desired := ''mode 0750 owned by root:root'',
      ch_action := zero_action\<lparr>ac_kind := ''base.set-data-root-permissions'', ac_resource := root, ac_script := unlines
       [''chown root:root -- '' @ quoted,
        ''chmod 0750 -- '' @ quoted]\<rparr>,
      ch_verification := ''directory has mode 0750 and root ownership''\<rparr>"

definition plan_base :: "host_facts \<Rightarrow> config \<Rightarrow> change list \<times> warning list" where
  "plan_base host cfg =
     (let root = stg_data_root (cfg_storage cfg) in
     let quoted = shell_quote root in
     (if \<not> dir_exists (hf_data_root host)
      then let change = base_data_root root quoted in
           let change = root_blocked change (hf_sudo_available host) in
           ([change], [])
      else if dir_mode (hf_data_root host) \<noteq> ''750'' \<or> dir_uid (hf_data_root host) \<noteq> 0 \<or> dir_gid (hf_data_root host) \<noteq> 0
      then let change = base_data_root_permissions host root quoted in
           let change = root_blocked change (hf_sudo_available host) in
           ([change], [])
      else ([], [])))"

definition mount_config_probe :: "storage_resource \<Rightarrow> string" where
  "mount_config_probe resource =
     (let mount = shell_quote (sr_mount resource) in
     let source = shell_quote (''UUID='' @ sr_filesystem_uuid resource) in
     let filesystem = shell_quote (sr_filesystem_type resource) in
     let marker = shell_quote (''# bebop-storage:'' @ sr_name resource) in
     unlines
       [''mount='' @ mount,
        ''source='' @ source,
        ''filesystem='' @ filesystem,
        ''marker='' @ marker,
        ''if ! test -r /etc/fstab; then printf unknown; exit 0; fi'',
        ''if grep -Fqx -- \"$source $mount ${filesystem:-auto} defaults,nofail 0 2 $marker\" /etc/fstab; then printf exact; exit 0; fi'',
        ''awk -v mount=\"$mount\" -v source=\"$source\" -v filesystem=\"$filesystem\" '' @ squote,
        ''  NF && $1 !~ /^#/ {'',
        ''    same_source = $1 == source'',
        ''    same_mount = $2 == mount'',
        ''    same_filesystem = filesystem == \"\" || $3 == filesystem || $3 == \"auto\"'',
        ''    if (same_source && same_mount && same_filesystem) equivalent = 1'',
        ''    else if (same_source || same_mount) conflict = 1'',
        ''  }'',
        ''  END {'',
        ''    if (conflict) print \"conflict\"'',
        ''    else if (equivalent) print \"external\"'',
        ''    else print \"absent\"'',
        ''  }'',
        squote @ '' /etc/fstab''])"

definition storage_blocked_literal_refused :: "storage_resource \<Rightarrow> assessment \<Rightarrow> change" where
  "storage_blocked_literal_refused resource assessment = zero_change\<lparr>ch_id := ''storage.'' @ sr_name resource @ ''.blocked'',
      ch_module := ''storage'',
      ch_summary := ''storage resource requires operator attention'',
      ch_reason := as_detail assessment,
      ch_risk := Privileged,
      ch_requires_root := True,
      ch_current := storage_state_string (as_state assessment),
      ch_desired := ''writable filesystem UUID '' @ sr_filesystem_uuid resource @ '' at '' @ sr_mount resource,
      ch_action := zero_action\<lparr>ac_kind := ''storage.blocked'', ac_resource := sr_name resource\<rparr>,
      ch_verification := ''none; resolve storage placement manually and re-plan'',
      ch_blocked := ''storage resource '' @ sr_name resource @ '' is '' @ storage_state_string (as_state assessment) @ ''; Bebop will not format, repartition, unmount, or replace filesystems''\<rparr>"

definition blocked_storage_change :: "storage_resource \<Rightarrow> assessment \<Rightarrow> change" where
  "blocked_storage_change resource assessment =
     storage_blocked_literal_refused resource assessment"

definition mountpoint_safe_script :: "string \<Rightarrow> string" where
  "mountpoint_safe_script mount =
     (let quoted = shell_quote mount in
     unlines
       [''if test -L '' @ quoted @ ''; then exit 1; fi'',
        ''if test -e '' @ quoted @ '' && ! test -d '' @ quoted @ ''; then exit 1; fi'',
        ''if test -d '' @ quoted @ '' && find '' @ quoted @ '' -xdev -mindepth 1 -print -quit | grep -q .; then exit 1; fi''])"

definition fstab_line :: "storage_resource \<Rightarrow> string" where
  "fstab_line resource =
     (let filesystem = sr_filesystem_type resource in
     let filesystem =
       (if filesystem = []
        then ''auto''
        else filesystem) in
     ''UUID='' @ sr_filesystem_uuid resource @ '' '' @ sr_mount resource @ '' '' @ filesystem @ '' defaults,nofail 0 2 # bebop-storage:'' @ sr_name resource)"

definition fstab_configured_script :: "storage_resource \<Rightarrow> string" where
  "fstab_configured_script resource =
     unlines
       [''state=$('',
        mount_config_probe resource,
        '')'',
        ''test \"$state\" = exact -o \"$state\" = external'']"

definition fstab_safe_script :: "storage_resource \<Rightarrow> string" where
  "fstab_safe_script resource =
     unlines
       [''state=$('',
        mount_config_probe resource,
        '')'',
        ''test \"$state\" = absent -o \"$state\" = exact -o \"$state\" = external'']"

definition fstab_write_script :: "storage_resource \<Rightarrow> string" where
  "fstab_write_script resource =
     (let line = shell_quote (fstab_line resource) in
     unlines ([''set -e'', unlines
       [''state=$('',
        mount_config_probe resource,
        '')''], ''case \"$state\" in exact|external) exit 0 ;; absent) ;; *) exit 1 ;; esac'', ''temporary=$(mktemp /etc/.bebop-fstab.XXXXXX)'', ''trap 'rm -f -- \"$temporary\"' EXIT'', ''cat /etc/fstab > \"$temporary\"'', ''printf '%s'' @ backslash @ ''n' '' @ line @ '' >> \"$temporary\"'', ''findmnt --verify --tab-file \"$temporary\" >/dev/null'', ''chmod 0644 -- \"$temporary\"'', ''mv -f -- \"$temporary\" /etc/fstab'', ''trap - EXIT'']))"

definition ssh_drop_in :: string where
  "ssh_drop_in = unlines
       [''# Managed by Bebop. Manual edits may be replaced.'',
        ''PermitRootLogin no'',
        ''PasswordAuthentication no'']"

definition ssh_hardening_script :: "string \<Rightarrow> string" where
  "ssh_hardening_script service =
     (let reload = [] in
     let reload =
       (if service = ''ssh.service'' \<or> service = ''sshd.service''
        then unlines
       [[],
        ''systemctl reload '' @ service]
        else if service = ''sshd''
        then unlines
       [[],
        ''rc-service sshd reload'']
        else if service = ''runit:sshd''
        then unlines
       [[],
        ''sv restart sshd'',
        ''sv status sshd | grep -Eq '^run:'' @ squote]
        else if service = ''sysv:ssh''
        then unlines
       [[],
        ''service ssh reload'',
        ''service ssh status >/dev/null 2>&1'']
        else if service = ''dinit:sshd''
        then unlines
       [[],
        ''dinitctl -s signal HUP sshd'',
        ''dinitctl -s is-started sshd'']
        else reload) in
     unlines
       [''install -d -m 0755 /etc/ssh/sshd_config.d'',
        [CHR 0x09] @ ''candidate=/etc/ssh/sshd_config.d/00-bebop-validate-$$.conf'',
        ''trap 'rm -f \"$candidate\"' EXIT'',
        ''cat >\"$candidate\" <<'EOF'' @ squote,
        ''# Managed by Bebop. Manual edits may be replaced.'',
        ''PermitRootLogin no'',
        ''PasswordAuthentication no'',
        ''EOF'',
        ''chown root:root \"$candidate\"'',
        ''chmod 0644 \"$candidate\"'',
        ''sshd -t'',
        ''sshd -T | grep -Fqx 'permitrootlogin no'' @ squote,
        ''sshd -T | grep -Fqx 'passwordauthentication no'' @ squote,
        ''mv -f \"$candidate\" /etc/ssh/sshd_config.d/00-bebop.conf'',
        ''trap - EXIT'',
        ''sshd -T | grep -Fqx 'permitrootlogin no'' @ squote,
        ''sshd -T | grep -Fqx 'passwordauthentication no'' @ squote @ reload])"

definition ssh_hardening :: "string \<Rightarrow> host_facts \<Rightarrow> change" where
  "ssh_hardening current host = zero_change\<lparr>ch_id := ''ssh.hardening'',
      ch_module := ''ssh'',
      ch_summary := ''install conservative Bebop SSH hardening drop-in'',
      ch_reason := current,
      ch_risk := NetworkSensitive,
      ch_requires_root := True,
      ch_current := current,
      ch_desired := ''effective PermitRootLogin no and PasswordAuthentication no in a validated Bebop-owned drop-in'',
      ch_action := zero_action\<lparr>ac_kind := ''ssh.write-hardening'', ac_resource := ''/etc/ssh/sshd_config.d/00-bebop.conf'', ac_script := ssh_hardening_script (ssh_service (hf_ssh host))\<rparr>,
      ch_verification := ''sshd validates the resulting configuration, effective sshd -T values are hardened, and the managed drop-in matches desired content''\<rparr>"

definition plan_ssh :: "host_facts \<Rightarrow> config \<Rightarrow> change list \<times> warning list" where
  "plan_ssh host cfg =
     (if \<not> ft_ssh_hardening (cfg_features cfg)
      then ([], [])
      else if \<not> ssh_installed (hf_ssh host)
      then ([], [\<lparr>wa_id = ''ssh.hardening.unavailable'', wa_module = ''ssh'', wa_summary = ''SSH hardening is enabled but no SSH server is installed'', wa_resolution = ''Install and configure an SSH server separately, or set features.ssh_hardening = false.''\<rparr>])
      else if ssh_bebop_drop_in (hf_ssh host) = ssh_drop_in \<and> ssh_hardening_effective (hf_ssh host)
      then ([], [])
      else let current = ''Bebop drop-in is absent or differs'' in
     let current =
       (if ssh_bebop_drop_in (hf_ssh host) = ssh_drop_in \<and> \<not> ssh_hardening_effective (hf_ssh host)
        then ''Bebop drop-in exists but PermitRootLogin/PasswordAuthentication are not effective''
        else current) in
     let change = ssh_hardening current host in
     let change =
       (if hf_effective_user host = ''root''
        then block ''the connected account is root; refusing PermitRootLogin no because Bebop cannot establish a separate non-root recovery path'' change
        else if \<not> ssh_authorized_keys_present (hf_ssh host)
        then block ''the connected target user has no non-empty ~/.ssh/authorized_keys; refusing to disable password authentication'' change
        else if \<not> ssh_config_valid (hf_ssh host)
        then block ''the current SSH configuration does not validate with sshd -t; refusing to install a hardening drop-in'' change
        else if \<not> ssh_drop_in_supported (hf_ssh host)
        then block ''the current SSH configuration does not include /etc/ssh/sshd_config.d/*.conf; refusing to write an ineffective drop-in'' change
        else if ssh_first_drop_in (hf_ssh host) \<noteq> [] \<and> ssh_first_drop_in (hf_ssh host) < ''00-bebop.conf''
        then block (''an earlier SSH drop-in ('' @ ssh_first_drop_in (hf_ssh host) @ '') could override Bebop's hardening; refusing to guess precedence'') change
        else if hf_init_system host = InitSystemRunit \<and> ssh_service (hf_ssh host) \<noteq> ''runit:sshd''
        then block ''Void does not expose the package-provided runit sshd service; refusing to change SSH configuration without a safe service lifecycle'' change
        else if hf_init_system host = InitSystemRunit \<and> (\<not> ssh_service_enabled (hf_ssh host) \<or> \<not> ssh_service_active (hf_ssh host))
        then block ''the Void runit sshd service is not enabled and active; refusing to change SSH configuration without a verified reload path'' change
        else if hf_init_system host = InitSystemSysV \<and> ssh_service (hf_ssh host) \<noteq> ''sysv:ssh''
        then block ''Devuan does not expose the package-provided SysVinit ssh service; refusing to change SSH configuration without a safe service lifecycle'' change
        else if hf_init_system host = InitSystemSysV \<and> (\<not> ssh_service_enabled (hf_ssh host) \<or> \<not> ssh_service_active (hf_ssh host))
        then block ''the Devuan SysVinit ssh service is not enabled and active; refusing to change SSH configuration without a verified reload path'' change
        else if hf_init_system host = InitSystemDinit \<and> ssh_service (hf_ssh host) \<noteq> ''dinit:sshd''
        then block ''Artix does not expose the package-provided dinit sshd service; refusing to change SSH configuration without a safe service lifecycle'' change
        else if hf_init_system host = InitSystemDinit \<and> (\<not> ssh_service_enabled (hf_ssh host) \<or> \<not> ssh_service_active (hf_ssh host))
        then block ''the Artix dinit sshd service is not enabled and active; refusing to change SSH configuration without a verified reload path'' change
        else root_blocked change (hf_sudo_available host)) in
     ([change], []))"

definition ssh_verify_script :: "change \<Rightarrow> string" where
  "ssh_verify_script change =
     unlines
       [''sshd -t'',
        ''sshd -T | grep -Fqx 'permitrootlogin no'' @ squote,
        ''sshd -T | grep -Fqx 'passwordauthentication no'' @ squote,
        ''test \"$(cat /etc/ssh/sshd_config.d/00-bebop.conf)\" = \"$(printf '%s' '' @ squote @ ssh_drop_in @ squote @ '')\"'']"


text \<open>The three changes of a managed mount, in their order.\<close>

definition storage_mountpoint :: "storage_resource \<Rightarrow> assessment \<Rightarrow> string \<Rightarrow> change" where
  "storage_mountpoint resource assessment mountpoint_id = zero_change\<lparr>ch_id := mountpoint_id,
      ch_module := ''storage'',
      ch_summary := ''prepare declared storage mount point'',
      ch_reason := as_detail assessment,
      ch_risk := Privileged,
      ch_requires_root := True,
      ch_current := storage_state_string (as_state assessment),
      ch_desired := ''empty non-symlink directory '' @ sr_mount resource,
      ch_preconditions := [\<lparr>pc_id = mountpoint_id @ ''.safe'', pc_description = ''mount point is absent or an empty non-symlink directory'', pc_script = mountpoint_safe_script (sr_mount resource)\<rparr>],
      ch_action := zero_action\<lparr>ac_kind := ''storage.prepare-mountpoint'', ac_resource := sr_name resource,
        ac_script := ''install -d -m 0750 -o root -g root -- '' @ shell_quote (sr_mount resource)\<rparr>,
      ch_verification := ''mount point is an empty non-symlink directory''\<rparr>"

definition storage_mount_config_change :: "storage_resource \<Rightarrow> string \<Rightarrow> string \<Rightarrow> change" where
  "storage_mount_config_change resource mountpoint_id configure_id = zero_change\<lparr>ch_id := configure_id,
      ch_module := ''storage'',
      ch_summary := ''persist declared filesystem mount'',
      ch_reason := ''managed_mount is enabled for an already-formatted filesystem'',
      ch_risk := Privileged,
      ch_requires_root := True,
      ch_current := ''no Bebop-owned fstab entry'',
      ch_desired := ''UUID '' @ sr_filesystem_uuid resource @ '' mounted at '' @ sr_mount resource,
      ch_dependencies := [mountpoint_id],
      ch_preconditions := [\<lparr>pc_id = configure_id @ ''.safe'', pc_description = ''no conflicting fstab mount entry exists'', pc_script = fstab_safe_script resource\<rparr>],
      ch_action := zero_action\<lparr>ac_kind := ''storage.configure-mount'', ac_resource := sr_name resource, ac_script := fstab_write_script resource\<rparr>,
      ch_verification := ''a validated Bebop-owned fstab entry identifies the declared filesystem UUID''\<rparr>"

definition storage_mount_change :: "storage_resource \<Rightarrow> assessment \<Rightarrow> string \<Rightarrow> change" where
  "storage_mount_change resource assessment configure_id = zero_change\<lparr>ch_id := ''storage.'' @ sr_name resource @ ''.mount'',
      ch_module := ''storage'',
      ch_summary := ''mount declared storage filesystem'',
      ch_reason := ''managed mount is not active'',
      ch_risk := Privileged,
      ch_requires_root := True,
      ch_current := storage_state_string (as_state assessment),
      ch_desired := ''mounted writable filesystem UUID '' @ sr_filesystem_uuid resource,
      ch_dependencies := [configure_id],
      ch_preconditions := [\<lparr>pc_id = ''storage.'' @ sr_name resource @ ''.mount-safe'',
        pc_description = ''mount point remains safe and fstab entry remains compatible'',
        pc_script = mountpoint_safe_script (sr_mount resource) @ newline @ fstab_configured_script resource\<rparr>],
      ch_action := zero_action\<lparr>ac_kind := ''storage.mount'', ac_resource := sr_name resource, ac_script := ''mount '' @ shell_quote (sr_mount resource)\<rparr>,
      ch_verification := ''configured filesystem UUID is mounted writable at its declared mount point''\<rparr>"

definition storage_mount_changes :: "storage_resource \<Rightarrow> assessment \<Rightarrow> bool \<Rightarrow> change list" where
  "storage_mount_changes resource assessment sudo_available =
     (let mountpoint_id = ''storage.'' @ sr_name resource @ ''.mountpoint'' in
     let configure_id = ''storage.'' @ sr_name resource @ ''.mount-config'' in
     map (\<lambda>c. root_blocked c sudo_available)
       [storage_mountpoint resource assessment mountpoint_id,
        storage_mount_config_change resource mountpoint_id configure_id,
        storage_mount_change resource assessment configure_id])"

text \<open>The loop body for one resource. The code reads the resource out of its assessment.\<close>

definition plan_storage_resource :: "storage_resource \<Rightarrow> assessment \<Rightarrow> bool \<Rightarrow> change list" where
  "plan_storage_resource resource assessment sudo_available =
     (if as_state assessment = Ready then []
      else if \<not> sr_managed_mount resource \<or> (as_state assessment \<noteq> Missing \<and> as_state assessment \<noteq> RootSpill)
      then [blocked_storage_change resource assessment]
      else storage_mount_changes resource assessment sudo_available)"

definition plan_storage :: "host_facts \<Rightarrow> config \<Rightarrow> change list \<times> warning list" where
  "plan_storage host cfg =
     (concat (map (\<lambda>assessment. case as_resource assessment of
          None \<Rightarrow> []
        | Some resource \<Rightarrow> plan_storage_resource resource assessment (hf_sudo_available host))
        (assess_all (cfg_storage cfg) (hf_storage host))), [])"

definition verify_storage :: "'w transport \<Rightarrow> config \<Rightarrow> change \<Rightarrow> 'w \<Rightarrow> 'w \<times> error option" where
  "verify_storage tr cfg change w =
     (case find_storage (cfg_storage cfg) (ac_resource (ch_action change)) of
        None \<Rightarrow> (w, Some (errorf (''storage module cannot verify unknown resource '' @ go_quote (ac_resource (ch_action change)))))
      | Some resource \<Rightarrow>
        (if ac_kind (ch_action change) = ''storage.prepare-mountpoint''
         then verify_target tr (mountpoint_safe_script (sr_mount resource)) w
         else if ac_kind (ch_action change) = ''storage.configure-mount''
         then verify_target tr (fstab_configured_script resource) w
         else if ac_kind (ch_action change) = ''storage.mount''
         then verify_target tr (ready_precondition resource) w
         else (w, Some (errorf (''storage module refuses verification for '' @ go_quote (ac_kind (ch_action change)))))))"

definition base_verify_script :: "change \<Rightarrow> string" where
  "base_verify_script change =
     (let root = shell_quote (ac_resource (ch_action change)) in
     unlines
       [''test -d '' @ root,
        ''test \"$(stat -c '%a:%u:%g' -- '' @ root @ '')\" = '750:0:0'' @ squote])"

definition host_kinds :: "string list" where
  "host_kinds = [''base.create-data-root'', ''base.set-data-root-permissions'', ''ssh.write-hardening'', ''storage.prepare-mountpoint'', ''storage.configure-mount'', ''storage.mount'']"

lemma host_scripts [simp]:
  "mountpoint_safe_script a0 \<noteq> []"
  "fstab_configured_script a1 \<noteq> []"
  "fstab_safe_script a2 \<noteq> []"
  "fstab_write_script a3 \<noteq> []"
  "ssh_hardening_script a4 \<noteq> []"
  by (simp_all add: Let_def mountpoint_safe_script_def fstab_configured_script_def fstab_safe_script_def fstab_write_script_def ssh_hardening_script_def)

lemma host_literals [simp]:
  "ch_id (base_data_root root quoted) = ''base.data-root''"
  "ch_dependencies (base_data_root root quoted) = []"
  "ch_requires_root (base_data_root root quoted)"
  "ch_id (base_data_root_permissions host root quoted) = ''base.data-root.permissions''"
  "ch_dependencies (base_data_root_permissions host root quoted) = []"
  "ch_requires_root (base_data_root_permissions host root quoted)"
  "ch_id (storage_blocked_literal_refused resource assessment) = ''storage.'' @ sr_name resource @ ''.blocked''"
  "ch_dependencies (storage_blocked_literal_refused resource assessment) = []"
  "ch_requires_root (storage_blocked_literal_refused resource assessment)"
  "ch_id (ssh_hardening current host) = ''ssh.hardening''"
  "ch_dependencies (ssh_hardening current host) = []"
  "ch_requires_root (ssh_hardening current host)"
  by (simp_all add: base_data_root_def base_data_root_permissions_def storage_blocked_literal_refused_def ssh_hardening_def)

lemma host_planned [simp]:
  "planned host_kinds (base_data_root root quoted)"
  "planned host_kinds (base_data_root_permissions host root quoted)"
  "planned host_kinds (storage_blocked_literal_refused resource assessment)"
  "planned host_kinds (ssh_hardening current host)"
  by (simp_all add: planned_def actionable_def host_kinds_def base_data_root_def base_data_root_permissions_def storage_blocked_literal_refused_def ssh_hardening_def)


section \<open>The modules\<close>

definition base_module :: "'w transport \<Rightarrow> 'w module_ops" where
  "base_module tr = \<lparr>md_name = ''base'', md_plan = (\<lambda>host cfg. Inr (plan_base host cfg)),
     md_apply = (\<lambda>cfg. run_action tr [''base.create-data-root'', ''base.set-data-root-permissions'']),
     md_verify = (\<lambda>cfg change. verify_target tr (base_verify_script change))\<rparr>"

definition storage_module :: "'w transport \<Rightarrow> 'w module_ops" where
  "storage_module tr = \<lparr>md_name = ''storage'', md_plan = (\<lambda>host cfg. Inr (plan_storage host cfg)),
     md_apply = (\<lambda>cfg. run_action tr [''storage.prepare-mountpoint'', ''storage.configure-mount'', ''storage.mount'']),
     md_verify = verify_storage tr\<rparr>"

definition ssh_module :: "'w transport \<Rightarrow> 'w module_ops" where
  "ssh_module tr = \<lparr>md_name = ''ssh'', md_plan = (\<lambda>host cfg. Inr (plan_ssh host cfg)),
     md_apply = (\<lambda>cfg. run_action tr [''ssh.write-hardening'']),
     md_verify = (\<lambda>cfg change. verify_target tr (ssh_verify_script change))\<rparr>"

section \<open>What they plan\<close>

lemma base_literals_planned [simp]:
  "planned [''base.create-data-root'', ''base.set-data-root-permissions''] (base_data_root root quoted)"
  "planned [''base.create-data-root'', ''base.set-data-root-permissions''] (base_data_root_permissions host root quoted)"
  by (simp_all add: planned_def actionable_def base_data_root_def base_data_root_permissions_def)

lemma ssh_literals_planned [simp]: "planned [''ssh.write-hardening''] (ssh_hardening current host)"
  by (simp add: planned_def actionable_def ssh_hardening_def)

lemma storage_literals_planned [simp]:
  "planned [''storage.prepare-mountpoint'', ''storage.configure-mount'', ''storage.mount''] (blocked_storage_change resource assessment)"
  "planned [''storage.prepare-mountpoint'', ''storage.configure-mount'', ''storage.mount''] (storage_mountpoint resource assessment (''storage.'' @ m))"
  "planned [''storage.prepare-mountpoint'', ''storage.configure-mount'', ''storage.mount''] (storage_mount_config_change resource m (''storage.'' @ c))"
  "planned [''storage.prepare-mountpoint'', ''storage.configure-mount'', ''storage.mount''] (storage_mount_change resource assessment c)"
  by (simp_all add: planned_def actionable_def blocked_storage_change_def storage_blocked_literal_refused_def
      storage_mountpoint_def storage_mount_config_change_def storage_mount_change_def)

lemma plan_base_planned: "planned_all [''base.create-data-root'', ''base.set-data-root-permissions''] (plan_base host cfg)"
  unfolding plan_base_def by (intro planning) simp_all

lemma plan_ssh_planned: "planned_all [''ssh.write-hardening''] (plan_ssh host cfg)"
  unfolding plan_ssh_def by (intro planning) simp_all

lemma plan_storage_planned:
  "planned_all [''storage.prepare-mountpoint'', ''storage.configure-mount'', ''storage.mount''] (plan_storage host cfg)"
  by (auto simp: planned_all_def plan_storage_def plan_storage_resource_def storage_mount_changes_def Let_def list_all_iff
      planned_root_blocked simp del: append.simps split: option.splits if_splits)

end
