(* ===== verification/Updates_Module.thy ===== *)
theory Updates_Module
  imports Module_Common
begin

text \<open>
  File \<open>internal/modules/updates.go\<close>: automatic updates on every reviewed distribution.
\<close>

definition updates_script :: string where
  "updates_script = unlines
       [''export DEBIAN_FRONTEND=noninteractive'',
        ''apt-get update'',
        ''apt-get install -y unattended-upgrades'',
        ''tmp=$(mktemp /etc/apt/apt.conf.d/.52-bebop-auto-upgrades.XXXXXX)'',
        ''trap 'rm -f \"$tmp\"' EXIT'',
        ''cat >\"$tmp\" <<'EOF'' @ squote,
        ''// Managed by Bebop. Manual edits may be replaced.'',
        ''APT::Periodic::Update-Package-Lists \"1\";'',
        ''APT::Periodic::Unattended-Upgrade \"1\";'',
        ''EOF'',
        ''chown root:root \"$tmp\"'',
        ''chmod 0644 \"$tmp\"'',
        ''mv -f \"$tmp\" /etc/apt/apt.conf.d/52-bebop-auto-upgrades'',
        ''trap - EXIT'']"

definition devuan_automatic_candidates_script :: string where
  "devuan_automatic_candidates_script = unlines
       [''for package in unattended-upgrades cron; do'',
        ''  candidate=$(LC_ALL=C apt-cache policy \"$package\" 2>/dev/null | awk '/^[[:space:]]*Candidate:/ { print $2; exit }')'',
        ''  test -n \"$candidate\" && test \"$candidate\" != '(none)' || exit 1'',
        ''  LC_ALL=C apt-cache madison \"$package\" 2>/dev/null | awk -v version=\"$candidate\" '' @ squote,
        ''    $3 == version { seen=1; if ($5 != \"http://deb.devuan.org/merged\" || $6 !~ /^excalibur(-updates|-security)?'' @ backslash @ ''//) bad=1; else good=1 }'',
        ''    END { exit !(seen && good && !bad) }'' @ squote,
        ''done'']"

definition devuan_updates_config_safe_script :: string where
  "devuan_updates_config_safe_script = unlines
       [''if test -e /etc/apt/apt.conf.d/52-bebop-auto-upgrades; then'',
        ''  grep -Fqx '// Managed by Bebop. Manual edits may be replaced.' /etc/apt/apt.conf.d/52-bebop-auto-upgrades'',
        ''  grep -Fqx 'APT::Periodic::Update-Package-Lists \"1\";' /etc/apt/apt.conf.d/52-bebop-auto-upgrades'',
        ''  grep -Fqx 'APT::Periodic::Unattended-Upgrade \"1\";' /etc/apt/apt.conf.d/52-bebop-auto-upgrades'',
        ''  grep -Fqx '\"o=Devuan,n=excalibur\";' /etc/apt/apt.conf.d/52-bebop-auto-upgrades'',
        ''  grep -Fqx '\"o=Devuan,n=excalibur-updates\";' /etc/apt/apt.conf.d/52-bebop-auto-upgrades'',
        ''  grep -Fqx '\"o=Devuan,n=excalibur-security\";' /etc/apt/apt.conf.d/52-bebop-auto-upgrades'',
        ''fi'']"

definition devuan_updates_script :: string where
  "devuan_updates_script = unlines
       [''set -eu'',
        devuan_updates_config_safe_script,
        ''export DEBIAN_FRONTEND=noninteractive'',
        ''apt-get update'',
        devuan_automatic_candidates_script,
        ''apt-get install -y unattended-upgrades cron'',
        ''test -x /etc/cron.daily/apt-compat'',
        ''tmp=$(mktemp /etc/apt/apt.conf.d/.52-bebop-auto-upgrades.XXXXXX)'',
        ''trap 'rm -f \"$tmp\"' EXIT'',
        ''cat >\"$tmp\" <<'EOF'' @ squote,
        ''// Managed by Bebop. Manual edits may be replaced.'',
        ''APT::Periodic::Update-Package-Lists \"1\";'',
        ''APT::Periodic::Unattended-Upgrade \"1\";'',
        ''Unattended-Upgrade::Origins-Pattern {'',
        ''  \"o=Devuan,n=excalibur\";'',
        ''  \"o=Devuan,n=excalibur-updates\";'',
        ''  \"o=Devuan,n=excalibur-security\";'',
        ''};'',
        ''EOF'',
        ''chown root:root \"$tmp\"'',
        ''chmod 0644 \"$tmp\"'',
        ''mv -f \"$tmp\" /etc/apt/apt.conf.d/52-bebop-auto-upgrades'',
        ''trap - EXIT'',
        [],
        ''update-rc.d cron defaults'',
        ''service cron start'']"

definition fedora_updates_script :: string where
  "fedora_updates_script = unlines
       [''if test -e /etc/dnf/automatic.conf; then'',
        ''  grep -Fqx '# Managed by Bebop. Manual edits may be replaced.' /etc/dnf/automatic.conf'',
        ''fi'',
        ''dnf5 -y install dnf5-plugin-automatic'',
        ''tmp=$(mktemp /etc/dnf/.automatic.conf.XXXXXX)'',
        ''trap 'rm -f \"$tmp\"' EXIT'',
        ''cat >\"$tmp\" <<'EOF'' @ squote,
        ''# Managed by Bebop. Manual edits may be replaced.'',
        ''[commands]'',
        ''apply_updates = yes'',
        ''EOF'',
        ''chown root:root \"$tmp\"'',
        ''chmod 0644 \"$tmp\"'',
        ''mv -f \"$tmp\" /etc/dnf/automatic.conf'',
        ''trap - EXIT'',
        ''systemctl enable --now dnf5-automatic.timer'']"

definition enterprise_updates_script :: string where
  "enterprise_updates_script = unlines
       [''if test -e /etc/dnf/automatic.conf; then'',
        ''  grep -Fqx '# Managed by Bebop. Manual edits may be replaced.' /etc/dnf/automatic.conf'',
        ''fi'',
        ''for timer in dnf-automatic.timer dnf-automatic-download.timer dnf-automatic-notifyonly.timer; do'',
        ''  if systemctl is-enabled \"$timer\" >/dev/null 2>&1 || systemctl is-active \"$timer\" >/dev/null 2>&1; then exit 1; fi'',
        ''done'',
        ''dnf -y install dnf-automatic'',
        ''tmp=$(mktemp /etc/dnf/.automatic.conf.XXXXXX)'',
        ''trap 'rm -f \"$tmp\"' EXIT'',
        ''cat >\"$tmp\" <<'EOF'' @ squote,
        ''# Managed by Bebop. Manual edits may be replaced.'',
        ''[commands]'',
        ''apply_updates = yes'',
        ''EOF'',
        ''chown root:root \"$tmp\"'',
        ''chmod 0644 \"$tmp\"'',
        ''mv -f \"$tmp\" /etc/dnf/automatic.conf'',
        ''trap - EXIT'',
        ''systemctl enable --now dnf-automatic-install.timer'']"

definition opensuse_leap_updates_script :: string where
  "opensuse_leap_updates_script = unlines
       [''set -eu'',
        ''for file in /etc/systemd/system/bebop-zypper-patch.service /etc/systemd/system/bebop-zypper-patch.timer; do'',
        ''  if test -e \"$file\"; then grep -Fqx '# Managed by Bebop. Manual edits may be replaced.' \"$file\"; fi'',
        ''done'',
        ''if systemctl is-enabled os-update.timer >/dev/null 2>&1 || systemctl is-active os-update.timer >/dev/null 2>&1; then exit 1; fi'',
        ''service_tmp=$(mktemp /etc/systemd/system/.bebop-zypper-patch.service.XXXXXX)'',
        ''timer_tmp=$(mktemp /etc/systemd/system/.bebop-zypper-patch.timer.XXXXXX)'',
        ''trap 'rm -f \"$service_tmp\" \"$timer_tmp\"' EXIT'',
        ''cat >\"$service_tmp\" <<'EOF'' @ squote,
        ''# Managed by Bebop. Manual edits may be replaced.'',
        ''[Unit]'',
        ''Description=Bebop openSUSE Leap patch updates'',
        [],
        ''[Service]'',
        ''Type=oneshot'',
        ''ExecStart=/usr/bin/zypper --non-interactive refresh'',
        ''ExecStart=/usr/bin/zypper --non-interactive patch'',
        ''EOF'',
        ''cat >\"$timer_tmp\" <<'EOF'' @ squote,
        ''# Managed by Bebop. Manual edits may be replaced.'',
        ''[Unit]'',
        ''Description=Bebop openSUSE Leap patch update schedule'',
        [],
        ''[Timer]'',
        ''OnCalendar=*-*-* 03:30:00'',
        ''Persistent=true'',
        [],
        ''[Install]'',
        ''WantedBy=timers.target'',
        ''EOF'',
        ''chown root:root \"$service_tmp\" \"$timer_tmp\"'',
        ''chmod 0644 \"$service_tmp\" \"$timer_tmp\"'',
        ''mv -f \"$service_tmp\" /etc/systemd/system/bebop-zypper-patch.service'',
        ''mv -f \"$timer_tmp\" /etc/systemd/system/bebop-zypper-patch.timer'',
        ''trap - EXIT'',
        ''systemctl daemon-reload'',
        ''systemctl enable --now bebop-zypper-patch.timer'']"

definition opensuse_tumbleweed_updates_script :: string where
  "opensuse_tumbleweed_updates_script = unlines
       [''set -eu'',
        ''if test -e /etc/os-update.conf; then'',
        ''  grep -Fqx '# Managed by Bebop. Manual edits may be replaced.' /etc/os-update.conf'',
        ''fi'',
        ''if systemctl is-enabled bebop-zypper-patch.timer >/dev/null 2>&1 || systemctl is-active bebop-zypper-patch.timer >/dev/null 2>&1; then exit 1; fi'',
        ''zypper --non-interactive install os-update'',
        ''tmp=$(mktemp /etc/.os-update.conf.XXXXXX)'',
        ''trap 'rm -f \"$tmp\"' EXIT'',
        ''cat >\"$tmp\" <<'EOF'' @ squote,
        ''# Managed by Bebop. Manual edits may be replaced.'',
        ''UPDATE_CMD=dup'',
        ''REBOOT_CMD=none'',
        ''EOF'',
        ''chown root:root \"$tmp\"'',
        ''chmod 0644 \"$tmp\"'',
        ''mv -f \"$tmp\" /etc/os-update.conf'',
        ''trap - EXIT'',
        ''systemctl enable --now os-update.timer'']"

definition alpine_automatic_repositories_safe_script :: string where
  "alpine_automatic_repositories_safe_script = unlines
       [''set -eu'',
        ''for repository_file in /etc/apk/repositories /etc/apk/repositories.d/*.list; do'',
        ''  test -f \"$repository_file\" || continue'',
        [CHR 0x09] @ ''while IFS= read -r line || test -n \"$line\"; do'',
        [CHR 0x09] @ [CHR 0x09] @ ''case \"$line\" in '' @ squote @ squote @ ''|'#'*) continue;; esac'',
        [CHR 0x09] @ [CHR 0x09] @ ''case \"$line\" in'',
        [CHR 0x09] @ [CHR 0x09] @ ''  'https://dl-cdn.alpinelinux.org/alpine/v3.24/main'|'https://dl-cdn.alpinelinux.org/alpine/v3.24/community'|'v2 https://dl-cdn.alpinelinux.org/alpine/v3.24 main'|'v2 https://dl-cdn.alpinelinux.org/alpine/v3.24 community'|'v2 @bebop-main https://dl-cdn.alpinelinux.org/alpine/v3.24 main'|'v2 @bebop-community https://dl-cdn.alpinelinux.org/alpine/v3.24 community') ;;'',
        [CHR 0x09] @ [CHR 0x09] @ ''  *) exit 1;;'',
        [CHR 0x09] @ [CHR 0x09] @ ''esac'',
        ''  done < \"$repository_file\"'',
        ''done'']"

definition alpine_updates_script :: string where
  "alpine_updates_script = unlines
       [''set -eu'',
        alpine_automatic_repositories_safe_script,
        ''if test -e /etc/apk/repositories.d/50-bebop.list; then'',
        ''  grep -Fqx '# Managed by Bebop. Manual edits may be replaced.' /etc/apk/repositories.d/50-bebop.list'',
        ''  grep -Fqx 'v2 https://dl-cdn.alpinelinux.org/alpine/v3.24 main' /etc/apk/repositories.d/50-bebop.list'',
        ''  grep -Fqx 'v2 https://dl-cdn.alpinelinux.org/alpine/v3.24 community' /etc/apk/repositories.d/50-bebop.list'',
        ''  grep -Fqx 'v2 @bebop-main https://dl-cdn.alpinelinux.org/alpine/v3.24 main' /etc/apk/repositories.d/50-bebop.list'',
        ''  grep -Fqx 'v2 @bebop-community https://dl-cdn.alpinelinux.org/alpine/v3.24 community' /etc/apk/repositories.d/50-bebop.list'',
        ''  test \"$(grep -Ec '^(# Managed by Bebop'' @ backslash @ backslash @ ''. Manual edits may be replaced'' @ backslash @ backslash @ ''.|v2( @bebop-(main|community))? https://dl-cdn'' @ backslash @ backslash @ ''.alpinelinux'' @ backslash @ backslash @ ''.org/alpine/v3'' @ backslash @ backslash @ ''.24 (main|community))$' /etc/apk/repositories.d/50-bebop.list)\" -eq 5'',
        ''fi'',
        ''install -d -m 0755 /etc/apk/repositories.d'',
        ''tmp=$(mktemp /etc/apk/repositories.d/.50-bebop.list.XXXXXX)'',
        ''trap 'rm -f \"$tmp\"' EXIT'',
        ''cat >\"$tmp\" <<'EOF'' @ squote,
        ''# Managed by Bebop. Manual edits may be replaced.'',
        ''v2 https://dl-cdn.alpinelinux.org/alpine/v3.24 main'',
        ''v2 https://dl-cdn.alpinelinux.org/alpine/v3.24 community'',
        ''v2 @bebop-main https://dl-cdn.alpinelinux.org/alpine/v3.24 main'',
        ''v2 @bebop-community https://dl-cdn.alpinelinux.org/alpine/v3.24 community'',
        ''EOF'',
        ''chown root:root \"$tmp\"'',
        ''chmod 0644 \"$tmp\"'',
        ''mv -f \"$tmp\" /etc/apk/repositories.d/50-bebop.list'',
        ''trap - EXIT'',
        ''apk --interactive=no update --repositories-file /etc/apk/repositories.d/50-bebop.list'',
        ''apk --interactive=no add --repositories-file /etc/apk/repositories.d/50-bebop.list apk-cron@bebop-main'',
        ''apk info -W /etc/periodic/daily/apk | grep -Fq 'apk-cron'' @ squote,
        ''test -f /etc/periodic/daily/apk'',
        ''if apk audit --details /etc/periodic/daily 2>/dev/null | grep -Fxq 'U etc/periodic/daily/apk'; then exit 1; fi'',
        ''rc-update add crond default'',
        ''rc-service crond start'']"

definition updates_arch :: "change" where
  "updates_arch = zero_change\<lparr>ch_id := ''updates.unattended'',
      ch_module := ''updates'',
      ch_summary := ''review Arch rolling system upgrades'',
      ch_reason := ''automatic Arch system upgrades are deliberately unsupported'',
      ch_risk := Privileged,
      ch_requires_root := True,
      ch_current := ''automatic updates requested'',
      ch_desired := ''operator-reviewed full Arch upgrades'',
      ch_action := zero_action\<lparr>ac_kind := ''updates.automatic-unsupported'', ac_resource := ''arch''\<rparr>,
      ch_verification := ''not applicable'',
      ch_blocked := ''Bebop deliberately does not automate Arch rolling system upgrades; perform a reviewed full pacman -Syu manually and retry without automatic_updates''\<rparr>"

definition updates_artix :: "change" where
  "updates_artix = zero_change\<lparr>ch_id := ''updates.unattended'',
      ch_module := ''updates'',
      ch_summary := ''review Artix rolling system upgrades'',
      ch_reason := ''automatic Artix system upgrades are deliberately unsupported'',
      ch_risk := Privileged,
      ch_requires_root := True,
      ch_current := ''automatic updates requested'',
      ch_desired := ''operator-reviewed full Artix upgrades'',
      ch_action := zero_action\<lparr>ac_kind := ''updates.automatic-unsupported'', ac_resource := ''artix''\<rparr>,
      ch_verification := ''not applicable'',
      ch_blocked := ''Bebop deliberately does not automate Artix rolling system upgrades; perform a reviewed full pacman -Syu manually and retry without automatic_updates''\<rparr>"

definition updates_void :: "change" where
  "updates_void = zero_change\<lparr>ch_id := ''updates.unattended'',
      ch_module := ''updates'',
      ch_summary := ''review Void rolling system upgrades'',
      ch_reason := ''automatic Void system upgrades are deliberately unsupported'',
      ch_risk := Privileged,
      ch_requires_root := True,
      ch_current := ''automatic updates requested'',
      ch_desired := ''operator-reviewed full Void upgrades'',
      ch_action := zero_action\<lparr>ac_kind := ''updates.automatic-unsupported'', ac_resource := ''void''\<rparr>,
      ch_verification := ''not applicable'',
      ch_blocked := ''Bebop deliberately does not automate Void rolling system upgrades; perform reviewed xbps-install -Su updates manually (and rerun if XBPS itself changes), then retry without automatic_updates''\<rparr>"

definition updates_alpine :: "change" where
  "updates_alpine = zero_change\<lparr>ch_id := ''updates.unattended'',
      ch_module := ''updates'',
      ch_summary := ''enable automatic updates'',
      ch_reason := ''apk-cron or OpenRC crond is not ready'',
      ch_risk := Privileged,
      ch_requires_root := True,
      ch_current := ''Alpine automatic updates disabled or unmanaged'',
      ch_desired := ''apk-cron applies same-branch Alpine v3.24 updates through OpenRC crond without reboot'',
      ch_preconditions := [\<lparr>pc_id = ''updates.alpine-repositories-safe'', pc_description = ''all active APK repositories remain official Alpine v3.24 main/community'', pc_script = alpine_automatic_repositories_safe_script\<rparr>],
      ch_action := zero_action\<lparr>ac_kind := ''updates.enable-unattended'', ac_resource := ''alpine'', ac_script := alpine_updates_script\<rparr>,
      ch_verification := ''apk-cron is package-owned, active repositories are v3.24-only, and crond is enabled and running''\<rparr>"

definition updates_devuan :: "change" where
  "updates_devuan = zero_change\<lparr>ch_id := ''updates.unattended'',
      ch_module := ''updates'',
      ch_summary := ''enable automatic security updates'',
      ch_reason := ''unattended-upgrades, Devuan Excalibur policy, or SysVinit cron is not ready'',
      ch_risk := Privileged,
      ch_requires_root := True,
      ch_current := ''Devuan automatic updates disabled or unmanaged'',
      ch_desired := ''Devuan unattended-upgrades runs through the package-provided apt periodic cron path without release migration or reboot'',
      ch_preconditions := [\<lparr>pc_id = ''updates.devuan-config-safe'', pc_description = ''Bebop's Devuan automatic-update policy is absent or exact'', pc_script = devuan_updates_config_safe_script\<rparr>, \<lparr>pc_id = ''updates.devuan-candidates'', pc_description = ''automatic-update packages resolve exclusively through Devuan Excalibur merged repositories'', pc_script = devuan_automatic_candidates_script\<rparr>],
      ch_action := zero_action\<lparr>ac_kind := ''updates.enable-unattended'', ac_resource := ''devuan'', ac_script := devuan_updates_script\<rparr>,
      ch_verification := ''Devuan Excalibur origin policy is installed and package-provided cron/apt periodic execution is enabled''\<rparr>"

definition updates_fedora :: "string \<Rightarrow> change" where
  "updates_fedora current = zero_change\<lparr>ch_id := ''updates.unattended'',
      ch_module := ''updates'',
      ch_summary := ''enable automatic updates'',
      ch_reason := current,
      ch_risk := Privileged,
      ch_requires_root := True,
      ch_current := current,
      ch_desired := ''dnf5-plugin-automatic applies updates through the enabled dnf5-automatic.timer'',
      ch_action := zero_action\<lparr>ac_kind := ''updates.enable-unattended'', ac_resource := ''fedora'', ac_script := fedora_updates_script\<rparr>,
      ch_verification := ''dnf5 automatic configuration enables updates and its timer is active''\<rparr>"

definition updates_enterprise_linux :: "string \<Rightarrow> change" where
  "updates_enterprise_linux current = zero_change\<lparr>ch_id := ''updates.unattended'',
      ch_module := ''updates'',
      ch_summary := ''enable automatic updates'',
      ch_reason := current,
      ch_risk := Privileged,
      ch_requires_root := True,
      ch_current := current,
      ch_desired := ''dnf-automatic applies updates through the enabled dnf-automatic-install.timer'',
      ch_action := zero_action\<lparr>ac_kind := ''updates.enable-unattended'', ac_resource := ''enterprise-linux'', ac_script := enterprise_updates_script\<rparr>,
      ch_verification := ''dnf automatic configuration enables updates and only Bebop's install timer is active''\<rparr>"

definition updates_opensuse_leap :: "change" where
  "updates_opensuse_leap = zero_change\<lparr>ch_id := ''updates.unattended'',
      ch_module := ''updates'',
      ch_summary := ''enable automatic updates'',
      ch_reason := ''Bebop's Leap patch timer is not enabled'',
      ch_risk := Privileged,
      ch_requires_root := True,
      ch_current := ''Bebop patch update timer is absent or inactive'',
      ch_desired := ''Bebop-owned noninteractive zypper patch timer enabled without automatic reboot'',
      ch_action := zero_action\<lparr>ac_kind := ''updates.enable-unattended'', ac_resource := ''opensuse-leap'', ac_script := opensuse_leap_updates_script\<rparr>,
      ch_verification := ''Bebop Leap patch timer is enabled and the fixed noninteractive patch service is installed''\<rparr>"

definition updates_opensuse_tumbleweed :: "change" where
  "updates_opensuse_tumbleweed = zero_change\<lparr>ch_id := ''updates.unattended'',
      ch_module := ''updates'',
      ch_summary := ''enable automatic updates'',
      ch_reason := ''os-update is not configured for Tumbleweed distribution upgrades'',
      ch_risk := Privileged,
      ch_requires_root := True,
      ch_current := ''os-update package, Bebop override, or timer is absent'',
      ch_desired := ''os-update performs noninteractive Tumbleweed dup updates with reboot disabled'',
      ch_action := zero_action\<lparr>ac_kind := ''updates.enable-unattended'', ac_resource := ''opensuse-tumbleweed'', ac_script := opensuse_tumbleweed_updates_script\<rparr>,
      ch_verification := ''os-update is configured for dup, reboot is disabled, and os-update.timer is active''\<rparr>"

definition updates_apt :: "string \<Rightarrow> change" where
  "updates_apt current = zero_change\<lparr>ch_id := ''updates.unattended'',
      ch_module := ''updates'',
      ch_summary := ''enable automatic security updates'',
      ch_reason := current,
      ch_risk := Privileged,
      ch_requires_root := True,
      ch_current := current,
      ch_desired := ''unattended-upgrades installed with daily package-list and unattended-upgrade intervals'',
      ch_action := zero_action\<lparr>ac_kind := ''updates.enable-unattended'', ac_script := updates_script\<rparr>,
      ch_verification := ''apt effective configuration enables unattended upgrades''\<rparr>"

definition plan_updates :: "host_facts \<Rightarrow> config \<Rightarrow> change list \<times> warning list" where
  "plan_updates host cfg =
     (if \<not> ft_automatic_updates (cfg_features cfg)
      then ([], [])
      else if os_family (hf_os host) = ''arch'' \<and> hf_package_manager host = ''pacman''
      then ([updates_arch], [])
      else if os_family (hf_os host) = ''artix'' \<and> hf_package_manager host = ''pacman''
      then ([updates_artix], [])
      else if os_family (hf_os host) = ''void'' \<and> hf_package_manager host = ''xbps''
      then ([updates_void], [])
      else if os_family (hf_os host) = ''alpine'' \<and> hf_package_manager host = ''apk''
      then let change = updates_alpine in
           let change =
             (if au_config_state (hf_automatic_updates host) = ''unmanaged'' \<or> dk_repository_state (hf_docker host) = ''unmanaged''
              then withhold ''Alpine APK repository or apk-cron state is unmanaged or unsafe; Bebop will not enable automatic updates across an unreviewed repository policy'' change
              else if \<not> au_service_exists (hf_automatic_updates host)
              then withhold ''Alpine automatic updates require the existing OpenRC crond service; Bebop will not install or replace a scheduler'' change
              else if \<not> au_package_available (hf_automatic_updates host)
              then withhold ''the official Alpine v3.24 main repository does not advertise apk-cron'' change
              else root_blocked change (hf_sudo_available host)) in
           ([change], [])
      else if os_family (hf_os host) = ''devuan'' \<and> hf_package_manager host = ''apt''
      then let change = updates_devuan in
           let change =
             (if au_config_state (hf_automatic_updates host) = ''unmanaged''
              then withhold ''existing /etc/apt/apt.conf.d/52-bebop-auto-upgrades is not Bebop-managed; review it manually before Bebop can take ownership'' change
              else if \<not> au_service_exists (hf_automatic_updates host)
              then withhold ''Devuan automatic updates require the package-provided SysVinit cron service and apt periodic compatibility script; Bebop will not create an arbitrary scheduler'' change
              else if \<not> au_package_available (hf_automatic_updates host)
              then withhold ''the current APT candidates for unattended-upgrades or cron are not exclusively from reviewed Devuan Excalibur merged repositories'' change
              else root_blocked change (hf_sudo_available host)) in
           ([change], [])
      else let managed = (hf_package_manager host \<noteq> ''dnf5'' \<and> hf_package_manager host \<noteq> ''dnf'' \<and> hf_package_manager host \<noteq> ''zypper'') \<or> au_config_state (hf_automatic_updates host) = ''managed'' in
     (if au_installed (hf_automatic_updates host) \<and> au_enabled (hf_automatic_updates host) \<and> managed \<and> \<not> au_conflicting_timers (hf_automatic_updates host)
      then ([], [])
      else if hf_package_manager host = ''dnf5''
      then let current = ''dnf5-plugin-automatic is not installed'' in
           let current =
             (if au_installed (hf_automatic_updates host)
              then ''dnf5-plugin-automatic is installed but Bebop automatic updates are disabled''
              else current) in
           let change = updates_fedora current in
           let change =
             (if au_config_state (hf_automatic_updates host) = ''unmanaged''
              then withhold ''existing /etc/dnf/automatic.conf is not Bebop-managed; review it manually before Bebop can take ownership'' change
              else root_blocked change (hf_sudo_available host)) in
           ([change], [])
      else if hf_package_manager host = ''dnf''
      then let current = ''dnf-automatic is not installed'' in
           let current =
             (if au_installed (hf_automatic_updates host)
              then ''dnf-automatic is installed but Bebop automatic updates are disabled''
              else current) in
           let change = updates_enterprise_linux current in
           let change =
             (if au_config_state (hf_automatic_updates host) = ''unmanaged''
              then withhold ''existing /etc/dnf/automatic.conf is not Bebop-managed; review it manually before Bebop can take ownership'' change
              else if au_conflicting_timers (hf_automatic_updates host)
              then withhold ''another dnf-automatic timer is enabled or active; review and disable the competing automatic-update policy manually before Bebop manages updates'' change
              else root_blocked change (hf_sudo_available host)) in
           ([change], [])
      else if hf_package_manager host = ''zypper'' \<and> os_family (hf_os host) = ''opensuse''
      then (case opensuse_update_policy (hf_os host) of
              None \<Rightarrow> ([], [])
            | Some mode \<Rightarrow>
                (if mode = ''leap''
                 then let change = updates_opensuse_leap in
                      let change =
                        (if au_config_state (hf_automatic_updates host) = ''unmanaged''
                         then withhold ''existing Bebop Leap update unit files are not Bebop-managed; review them manually before Bebop can take ownership'' change
                         else if au_conflicting_timers (hf_automatic_updates host)
                         then withhold ''os-update.timer is enabled or active; review the competing automatic-update policy manually before Bebop manages Leap patches'' change
                         else root_blocked change (hf_sudo_available host)) in
                      ([change], [])
                 else let change = updates_opensuse_tumbleweed in
                let change =
                  (if au_config_state (hf_automatic_updates host) = ''unmanaged''
                   then withhold ''existing /etc/os-update.conf is not Bebop-managed; review it manually before Bebop can take ownership'' change
                   else if au_conflicting_timers (hf_automatic_updates host)
                   then withhold ''a Bebop Leap patch timer is enabled or active; remove the conflicting policy manually before Tumbleweed management'' change
                   else if \<not> au_installed (hf_automatic_updates host) \<and> \<not> au_package_available (hf_automatic_updates host)
                   then withhold ''enabled official openSUSE repositories do not advertise os-update; Bebop will not add another rolling-update scheduler'' change
                   else root_blocked change (hf_sudo_available host)) in
                ([change], [])))
      else let current = ''unattended-upgrades is not installed'' in
     let current =
       (if au_installed (hf_automatic_updates host)
        then ''unattended-upgrades is installed but automatic security updates are disabled''
        else current) in
     let change = updates_apt current in
     let change = root_blocked change (hf_sudo_available host) in
     ([change], [])))"

definition updates_verify_script :: "change \<Rightarrow> string" where
  "updates_verify_script change =
     (if ac_resource (ch_action change) = ''fedora'' \<or> ac_script (ch_action change) = fedora_updates_script
      then unlines
       [''rpm -q dnf5-plugin-automatic >/dev/null'',
        ''grep -Fqx '# Managed by Bebop. Manual edits may be replaced.' /etc/dnf/automatic.conf'',
        ''grep -Eq '^[[:space:]]*apply_updates[[:space:]]*=[[:space:]]*yes[[:space:]]*$' /etc/dnf/automatic.conf'',
        ''systemctl is-enabled dnf5-automatic.timer >/dev/null'',
        ''systemctl is-active dnf5-automatic.timer >/dev/null'']
      else if ac_resource (ch_action change) = ''alpine'' \<or> ac_script (ch_action change) = alpine_updates_script
      then unlines
       [''apk info -e apk-cron >/dev/null'',
        ''apk info -W /etc/periodic/daily/apk | grep -Fq 'apk-cron'' @ squote,
        ''test -f /etc/periodic/daily/apk'',
        ''! apk audit --details /etc/periodic/daily 2>/dev/null | grep -Fxq 'U etc/periodic/daily/apk'' @ squote,
        ''rc-update show default | grep -Eq '^[[:space:]]*crond([[:space:]]|$)'' @ squote,
        ''rc-service crond status >/dev/null'',
        alpine_automatic_repositories_safe_script]
      else if ac_resource (ch_action change) = ''devuan'' \<or> ac_script (ch_action change) = devuan_updates_script
      then unlines
       [''dpkg-query -W -f='${db:Status-Status}' unattended-upgrades cron | grep -qx installed'',
        ''test -x /etc/cron.daily/apt-compat'',
        ''grep -Fqx '// Managed by Bebop. Manual edits may be replaced.' /etc/apt/apt.conf.d/52-bebop-auto-upgrades'',
        ''grep -Fqx '\"o=Devuan,n=excalibur\";' /etc/apt/apt.conf.d/52-bebop-auto-upgrades'',
        ''grep -Fqx '\"o=Devuan,n=excalibur-updates\";' /etc/apt/apt.conf.d/52-bebop-auto-upgrades'',
        ''grep -Fqx '\"o=Devuan,n=excalibur-security\";' /etc/apt/apt.conf.d/52-bebop-auto-upgrades'',
        sysv_service_ready_script ''cron'']
      else if ac_resource (ch_action change) = ''enterprise-linux'' \<or> ac_script (ch_action change) = enterprise_updates_script
      then unlines
       [''rpm -q dnf-automatic >/dev/null'',
        ''grep -Fqx '# Managed by Bebop. Manual edits may be replaced.' /etc/dnf/automatic.conf'',
        ''grep -Eq '^[[:space:]]*apply_updates[[:space:]]*=[[:space:]]*yes[[:space:]]*$' /etc/dnf/automatic.conf'',
        ''systemctl is-enabled dnf-automatic-install.timer >/dev/null'',
        ''systemctl is-active dnf-automatic-install.timer >/dev/null'',
        ''for timer in dnf-automatic.timer dnf-automatic-download.timer dnf-automatic-notifyonly.timer; do'',
        ''  ! systemctl is-enabled \"$timer\" >/dev/null 2>&1'',
        ''  ! systemctl is-active \"$timer\" >/dev/null 2>&1'',
        ''done'']
      else if ac_resource (ch_action change) = ''opensuse-leap'' \<or> ac_script (ch_action change) = opensuse_leap_updates_script
      then unlines
       [''grep -Fqx '# Managed by Bebop. Manual edits may be replaced.' /etc/systemd/system/bebop-zypper-patch.service'',
        ''grep -Fqx 'ExecStart=/usr/bin/zypper --non-interactive refresh' /etc/systemd/system/bebop-zypper-patch.service'',
        ''grep -Fqx 'ExecStart=/usr/bin/zypper --non-interactive patch' /etc/systemd/system/bebop-zypper-patch.service'',
        ''systemctl is-enabled bebop-zypper-patch.timer >/dev/null'',
        ''systemctl is-active bebop-zypper-patch.timer >/dev/null'',
        ''! systemctl is-enabled os-update.timer >/dev/null 2>&1'',
        ''! systemctl is-active os-update.timer >/dev/null 2>&1'']
      else if ac_resource (ch_action change) = ''opensuse-tumbleweed'' \<or> ac_script (ch_action change) = opensuse_tumbleweed_updates_script
      then unlines
       [''rpm -q os-update >/dev/null'',
        ''grep -Fqx '# Managed by Bebop. Manual edits may be replaced.' /etc/os-update.conf'',
        ''grep -Eq '^[[:space:]]*UPDATE_CMD[[:space:]]*=[[:space:]]*dup[[:space:]]*$' /etc/os-update.conf'',
        ''grep -Eq '^[[:space:]]*REBOOT_CMD[[:space:]]*=[[:space:]]*none[[:space:]]*$' /etc/os-update.conf'',
        ''systemctl is-enabled os-update.timer >/dev/null'',
        ''systemctl is-active os-update.timer >/dev/null'']
      else unlines
       [''dpkg-query -W -f='${db:Status-Status}' unattended-upgrades | grep -qx installed'',
        ''apt-config dump | grep -Fqx 'APT::Periodic::Unattended-Upgrade \"1\";'' @ squote,
        ''apt-config dump | grep -Fqx 'APT::Periodic::Update-Package-Lists \"1\";'' @ squote])"

definition updates_kinds :: "string list" where
  "updates_kinds = [''updates.enable-unattended'']"

lemma updates_scripts [simp]:
  "updates_script \<noteq> []"
  "devuan_automatic_candidates_script \<noteq> []"
  "devuan_updates_config_safe_script \<noteq> []"
  "devuan_updates_script \<noteq> []"
  "fedora_updates_script \<noteq> []"
  "enterprise_updates_script \<noteq> []"
  "opensuse_leap_updates_script \<noteq> []"
  "opensuse_tumbleweed_updates_script \<noteq> []"
  "alpine_automatic_repositories_safe_script \<noteq> []"
  "alpine_updates_script \<noteq> []"
  by (simp_all add: Let_def updates_script_def devuan_automatic_candidates_script_def devuan_updates_config_safe_script_def devuan_updates_script_def fedora_updates_script_def enterprise_updates_script_def opensuse_leap_updates_script_def opensuse_tumbleweed_updates_script_def alpine_automatic_repositories_safe_script_def alpine_updates_script_def)

lemma updates_literals [simp]:
  "ch_id updates_arch = ''updates.unattended''"
  "ch_dependencies updates_arch = []"
  "ch_requires_root updates_arch"
  "ch_id updates_artix = ''updates.unattended''"
  "ch_dependencies updates_artix = []"
  "ch_requires_root updates_artix"
  "ch_id updates_void = ''updates.unattended''"
  "ch_dependencies updates_void = []"
  "ch_requires_root updates_void"
  "ch_id updates_alpine = ''updates.unattended''"
  "ch_dependencies updates_alpine = []"
  "ch_requires_root updates_alpine"
  "ch_id updates_devuan = ''updates.unattended''"
  "ch_dependencies updates_devuan = []"
  "ch_requires_root updates_devuan"
  "ch_id (updates_fedora current) = ''updates.unattended''"
  "ch_dependencies (updates_fedora current) = []"
  "ch_requires_root (updates_fedora current)"
  "ch_id (updates_enterprise_linux current) = ''updates.unattended''"
  "ch_dependencies (updates_enterprise_linux current) = []"
  "ch_requires_root (updates_enterprise_linux current)"
  "ch_id updates_opensuse_leap = ''updates.unattended''"
  "ch_dependencies updates_opensuse_leap = []"
  "ch_requires_root updates_opensuse_leap"
  "ch_id updates_opensuse_tumbleweed = ''updates.unattended''"
  "ch_dependencies updates_opensuse_tumbleweed = []"
  "ch_requires_root updates_opensuse_tumbleweed"
  "ch_id (updates_apt current) = ''updates.unattended''"
  "ch_dependencies (updates_apt current) = []"
  "ch_requires_root (updates_apt current)"
  by (simp_all add: updates_arch_def updates_artix_def updates_void_def updates_alpine_def updates_devuan_def updates_fedora_def updates_enterprise_linux_def updates_opensuse_leap_def updates_opensuse_tumbleweed_def updates_apt_def)

lemma updates_planned [simp]:
  "planned updates_kinds updates_arch"
  "planned updates_kinds updates_artix"
  "planned updates_kinds updates_void"
  "planned updates_kinds updates_alpine"
  "planned updates_kinds updates_devuan"
  "planned updates_kinds (updates_fedora current)"
  "planned updates_kinds (updates_enterprise_linux current)"
  "planned updates_kinds updates_opensuse_leap"
  "planned updates_kinds updates_opensuse_tumbleweed"
  "planned updates_kinds (updates_apt current)"
  by (simp_all add: planned_def actionable_def updates_kinds_def updates_arch_def updates_artix_def updates_void_def updates_alpine_def updates_devuan_def updates_fedora_def updates_enterprise_linux_def updates_opensuse_leap_def updates_opensuse_tumbleweed_def updates_apt_def)


definition updates_module :: "'w transport \<Rightarrow> 'w module_ops" where
  "updates_module tr = \<lparr>md_name = ''updates'', md_plan = (\<lambda>host cfg. Inr (plan_updates host cfg)),
     md_apply = (\<lambda>cfg. run_action tr updates_kinds),
     md_verify = (\<lambda>cfg change. verify_target tr (updates_verify_script change))\<rparr>"

lemma plan_updates_planned: "planned_all updates_kinds (plan_updates host cfg)"
  unfolding plan_updates_def by (intro planning) simp_all

end
