(* ===== verification/Docker_Module.thy ===== *)
theory Docker_Module
  imports Module_Common
begin

text \<open>
  File \<open>internal/modules/docker.go\<close>: the Docker engine, its service and the Compose plugin on every
  reviewed distribution.
\<close>

definition docker_ce_signing_key_fingerprint :: string where
  "docker_ce_signing_key_fingerprint = ''060A61C51B558A7F742B77AAC52FEB6B621E9F35''"

definition devuan_docker_packages_available_script :: string where
  "devuan_docker_packages_available_script = unlines
       [''for package in docker.io docker-compose; do'',
        ''  candidate=$(LC_ALL=C apt-cache policy \"$package\" 2>/dev/null | awk '/^[[:space:]]*Candidate:/ { print $2; exit }')'',
        ''  test -n \"$candidate\" && test \"$candidate\" != '(none)' || exit 1'',
        ''  LC_ALL=C apt-cache madison \"$package\" 2>/dev/null | awk -v version=\"$candidate\" '' @ squote,
        ''    $3 == version { seen=1; if ($5 != \"http://deb.devuan.org/merged\" || $6 !~ /^excalibur(-updates|-security)?'' @ backslash @ ''//) bad=1; else good=1 }'',
        ''    END { exit !(seen && good && !bad) }'' @ squote,
        ''done'']"

definition artix_docker_packages_available_script :: string where
  "artix_docker_packages_available_script = unlines
       [''for package in docker docker-compose docker-dinit; do'',
        ''  LC_ALL=C pacman -Si \"world/$package\" 2>/dev/null | awk -F ' *: *' '$1 == \"Repository\" { found=($2 == \"world\") } END { exit !found }' || exit 1'',
        ''done'']"

definition alpine_docker_repository_safe_script :: string where
  "alpine_docker_repository_safe_script = unlines
       [''if test -e /etc/apk/repositories.d/50-bebop.list; then'',
        ''  grep -Fqx '# Managed by Bebop. Manual edits may be replaced.' /etc/apk/repositories.d/50-bebop.list'',
        ''  grep -Fqx 'v2 https://dl-cdn.alpinelinux.org/alpine/v3.24 main' /etc/apk/repositories.d/50-bebop.list'',
        ''  grep -Fqx 'v2 https://dl-cdn.alpinelinux.org/alpine/v3.24 community' /etc/apk/repositories.d/50-bebop.list'',
        ''  grep -Fqx 'v2 @bebop-main https://dl-cdn.alpinelinux.org/alpine/v3.24 main' /etc/apk/repositories.d/50-bebop.list'',
        ''  grep -Fqx 'v2 @bebop-community https://dl-cdn.alpinelinux.org/alpine/v3.24 community' /etc/apk/repositories.d/50-bebop.list'',
        ''  test \"$(grep -Ec '^(# Managed by Bebop'' @ backslash @ backslash @ ''. Manual edits may be replaced'' @ backslash @ backslash @ ''.|v2( @bebop-(main|community))? https://dl-cdn'' @ backslash @ backslash @ ''.alpinelinux'' @ backslash @ backslash @ ''.org/alpine/v3'' @ backslash @ backslash @ ''.24 (main|community))$' /etc/apk/repositories.d/50-bebop.list)\" -eq 5'',
        ''fi'']"

definition alpine_docker_install_script :: string where
  "alpine_docker_install_script = unlines
       [''set -eu'',
        ''if test -e /etc/apk/repositories.d/50-bebop.list; then'',
        ''  grep -Fqx '# Managed by Bebop. Manual edits may be replaced.' /etc/apk/repositories.d/50-bebop.list'',
        ''  grep -Fqx 'v2 https://dl-cdn.alpinelinux.org/alpine/v3.24 main' /etc/apk/repositories.d/50-bebop.list'',
        ''  grep -Fqx 'v2 https://dl-cdn.alpinelinux.org/alpine/v3.24 community' /etc/apk/repositories.d/50-bebop.list'',
        ''  grep -Fqx 'v2 @bebop-main https://dl-cdn.alpinelinux.org/alpine/v3.24 main' /etc/apk/repositories.d/50-bebop.list'',
        ''  grep -Fqx 'v2 @bebop-community https://dl-cdn.alpinelinux.org/alpine/v3.24 community' /etc/apk/repositories.d/50-bebop.list'',
        ''  test \"$(grep -Ec '^(# Managed by Bebop'' @ backslash @ backslash @ ''. Manual edits may be replaced'' @ backslash @ backslash @ ''.|v2( @bebop-(main|community))? https://dl-cdn'' @ backslash @ backslash @ ''.alpinelinux'' @ backslash @ backslash @ ''.org/alpine/v3'' @ backslash @ backslash @ ''.24 (main|community))$' /etc/apk/repositories.d/50-bebop.list)\" -eq 5'',
        ''fi'',
        ''install -d -m 0755 /etc/apk/repositories.d'',
        ''tmp=$(mktemp /etc/apk/repositories.d/.50-bebop.list.XXXXXX)'',
        ''trap 'rm -f \"$tmp\"' EXIT'',
        ''cat >\"$tmp\" <<'EOF'' @ squote,
        ''# Managed by Bebop. Manual edits may be replaced.'',
        ''v2 https://dl-cdn.alpinelinux.org/alpine/v3.24 main'',
        ''v2 https://dl-cdn.alpinelinux.org/alpine/v3.24 community'',
        ''v2 @bebop-main https://dl-cdn.alpinelinux.org/alpine/v3.24 main'',
        ''v2 @bebop-community https://dl-cdn.alpinelinux.org/alpine/v3.24 community'',
        ''EOF'',
        ''chown root:root \"$tmp\"'',
        ''chmod 0644 \"$tmp\"'',
        ''mv -f \"$tmp\" /etc/apk/repositories.d/50-bebop.list'',
        ''trap - EXIT'',
        ''apk --interactive=no update --repositories-file /etc/apk/repositories.d/50-bebop.list'',
        ''apk --interactive=no add --repositories-file /etc/apk/repositories.d/50-bebop.list docker@bebop-community docker-cli-compose@bebop-community docker-openrc@bebop-community'']"

definition void_docker_hold_safety_script :: string where
  "void_docker_hold_safety_script = unlines
       [''! xbps-query -H 2>/dev/null | grep -Eq '(^|[[:space:]])(docker|docker-compose)([<>=~][^[:space:]]*)?([[:space:]]|$)'' @ squote,
        ''! xbps-query --list-repolock-pkgs 2>/dev/null | grep -Eq '(^|[[:space:]])(docker|docker-compose)([<>=~][^[:space:]]*)?([[:space:]]|$)'' @ squote]"

definition arch_docker_packages_available_script :: string where
  "arch_docker_packages_available_script = unlines
       [''LC_ALL=C pacman -Si docker 2>/dev/null | awk -F ' *: *' 'function finish() { if (name != \"\") { if (name == \"docker\" && (repository == \"core\" || repository == \"extra\" || repository == \"multilib\")) count++; else invalid=1; name=\"\"; repository=\"\" } } $1 == \"Repository\" { finish(); repository=$2 } $1 == \"Name\" { name=$2 } END { finish(); exit !(count == 1 && !invalid) }'' @ squote,
        ''LC_ALL=C pacman -Si docker-compose 2>/dev/null | awk -F ' *: *' 'function finish() { if (name != \"\") { if (name == \"docker-compose\" && (repository == \"core\" || repository == \"extra\" || repository == \"multilib\")) count++; else invalid=1; name=\"\"; repository=\"\" } } $1 == \"Repository\" { finish(); repository=$2 } $1 == \"Name\" { name=$2 } END { finish(); exit !(count == 1 && !invalid) }'' @ squote]"

definition opensuse_docker_no_conflict_script :: string where
  "opensuse_docker_no_conflict_script = unlines
       [''for package in docker-ce docker-ce-cli docker-compose-plugin; do'',
        ''  if rpm -q \"$package\" >/dev/null 2>&1; then exit 1; fi'',
        ''done'']"

definition enterprise_docker_no_conflict_script :: string where
  "enterprise_docker_no_conflict_script = unlines
       [''for package in moby-engine moby-cli docker containerd; do'',
        ''  if rpm -q \"$package\" >/dev/null 2>&1; then exit 1; fi'',
        ''done'']"

definition fedora_docker_no_conflict_script :: string where
  "fedora_docker_no_conflict_script = unlines
       [''for package in docker-ce docker-ce-cli containerd.io; do'',
        ''  if rpm -q \"$package\" >/dev/null 2>&1; then exit 1; fi'',
        ''done'']"

definition enterprise_docker_repository_safe_script :: "string \<Rightarrow> string \<Rightarrow> string" where
  "enterprise_docker_repository_safe_script family major =
     (let base_url = ''https://download.docker.com/linux/'' @ family @ ''/'' @ major @ ''/$basearch/stable'' in
     let key_url = ''https://download.docker.com/linux/'' @ family @ ''/gpg'' in
     unlines
       [''if test -e /etc/yum.repos.d/docker-ce-stable.repo; then'',
        ''  grep -Fqx '# Managed by Bebop. Manual edits may be replaced.' /etc/yum.repos.d/docker-ce-stable.repo'',
        ''  grep -Fqx '' @ shell_quote (''baseurl='' @ base_url) @ '' /etc/yum.repos.d/docker-ce-stable.repo'',
        ''  grep -Fqx 'gpgcheck=1' /etc/yum.repos.d/docker-ce-stable.repo'',
        ''  grep -Fqx '' @ shell_quote (''gpgkey='' @ key_url) @ '' /etc/yum.repos.d/docker-ce-stable.repo'',
        ''fi'',
        ''for candidate in /etc/yum.repos.d/*.repo; do'',
        ''  test -f \"$candidate\" || continue'',
        ''  test \"$candidate\" = /etc/yum.repos.d/docker-ce-stable.repo && continue'',
        ''  ! grep -Fq '' @ shell_quote (''download.docker.com/linux/'' @ family @ ''/'') @ '' \"$candidate\" 2>/dev/null'',
        ''done''])"

definition enterprise_docker_install_script :: "string \<Rightarrow> string \<Rightarrow> string" where
  "enterprise_docker_install_script family major =
     (let base_url = ''https://download.docker.com/linux/'' @ family @ ''/'' @ major @ ''/$basearch/stable'' in
     let key_url = ''https://download.docker.com/linux/'' @ family @ ''/gpg'' in
     unlines
       [''set -eu'',
        ''command -v curl >/dev/null 2>&1'',
        ''command -v gpg >/dev/null 2>&1'',
        ''key_tmp=$(mktemp /tmp/.bebop-docker-ce-key.XXXXXX)'',
        ''trap 'rm -f \"$key_tmp\"' EXIT'',
        ''curl --fail --silent --show-error --location '' @ shell_quote key_url @ '' --output \"$key_tmp\"'',
        ''fingerprint=$(gpg --show-keys --with-colons \"$key_tmp\" 2>/dev/null | awk -F: '$1 == \"fpr\" { print $10; exit }')'',
        ''test \"$fingerprint\" = '' @ shell_quote docker_ce_signing_key_fingerprint,
        [CHR 0x09] @ ''rpm --import \"$key_tmp\"'',
        [CHR 0x09] @ ''tmp=$(mktemp /etc/yum.repos.d/.docker-ce-stable.repo.XXXXXX)'',
        [CHR 0x09] @ ''trap 'rm -f \"$key_tmp\" \"$tmp\"' EXIT'',
        ''cat >\"$tmp\" <<'EOF'' @ squote,
        ''# Managed by Bebop. Manual edits may be replaced.'',
        ''[docker-ce-stable]'',
        ''name=Docker CE Stable'',
        ''baseurl='' @ base_url,
        ''enabled=1'',
        ''gpgcheck=1'',
        ''gpgkey='' @ key_url,
        ''EOF'',
        ''chown root:root \"$tmp\"'',
        ''chmod 0644 \"$tmp\"'',
        [CHR 0x09] @ ''mv -f \"$tmp\" /etc/yum.repos.d/docker-ce-stable.repo'',
        ''rm -f \"$key_tmp\"'',
        ''trap - EXIT'',
        ''dnf -y install docker-ce docker-ce-cli containerd.io docker-buildx-plugin docker-compose-plugin'',
        [CHR 0x09] @ ''rpm -qa --qf '%{VERSION}'' @ backslash @ ''n' gpg-pubkey | grep -Fxi '' @ shell_quote docker_ce_signing_key_fingerprint])"

definition void_packages_available_script :: "string \<Rightarrow> string list \<Rightarrow> string" where
  "void_packages_available_script repository packages =
     concat (map (\<lambda>pkg. ''xbps-query --ignore-conf-repos --repository='' @ shell_quote repository @ '' -M -S ''
        @ shell_quote pkg @ '' >/dev/null'' @ newline) packages)"

definition void_package_provenance_safety_script :: "string \<Rightarrow> string list \<Rightarrow> string" where
  "void_package_provenance_safety_script repository packages =
     concat (map (\<lambda>pkg. ''if xbps-query -p pkgver '' @ shell_quote pkg @ '' >/dev/null 2>&1; then xbps-query -p repository ''
        @ shell_quote pkg @ '' 2>/dev/null | grep -Fqx '' @ shell_quote repository @ ''; fi'' @ newline) packages)"

definition void_package_install_script :: "string \<Rightarrow> string list \<Rightarrow> string" where
  "void_package_install_script repository packages =
     ''xbps-install -S -y --ignore-conf-repos --repository='' @ shell_quote repository @ '' ''
     @ join_with '' '' (map shell_quote packages) @ '' </dev/null''"

lemma void_scripts [simp]:
  "packages \<noteq> [] \<Longrightarrow> void_packages_available_script r packages \<noteq> []"
  "packages \<noteq> [] \<Longrightarrow> void_package_provenance_safety_script r packages \<noteq> []"
  "void_package_install_script r packages \<noteq> []"
  by (cases packages; simp add: void_packages_available_script_def void_package_provenance_safety_script_def void_package_install_script_def)+

definition reviewed_compose_package :: "string \<Rightarrow> bool" where
  "reviewed_compose_package candidate =
     (candidate = ''docker-compose-plugin'' \<or> candidate = ''docker-compose-v2'')"

definition devuan_docker_engine :: "change" where
  "devuan_docker_engine = zero_change\<lparr>ch_id := ''docker.engine'',
      ch_module := ''docker'',
      ch_summary := ''install Docker Engine'',
      ch_reason := ''the reviewed Devuan Docker package set is incomplete'',
      ch_risk := Privileged,
      ch_requires_root := True,
      ch_current := ''docker.io or docker-compose is not installed'',
      ch_desired := ''Devuan Excalibur docker.io and Docker Compose v2 packages installed'',
      ch_preconditions := [\<lparr>pc_id = ''docker.devuan-packages-available'', pc_description = ''the current APT candidate versions are exclusively from Devuan Excalibur merged repositories'', pc_script = devuan_docker_packages_available_script\<rparr>],
      ch_action := zero_action\<lparr>ac_kind := ''docker.install-engine'', ac_resource := ''devuan-excalibur'', ac_script := unlines
       [''export DEBIAN_FRONTEND=noninteractive'',
        ''apt-get install -y docker.io docker-compose'']\<rparr>,
      ch_verification := ''reviewed Devuan Docker packages are installed''\<rparr>"

definition devuan_docker_service :: "string list \<Rightarrow> change" where
  "devuan_docker_service dependencies = zero_change\<lparr>ch_id := ''docker.service'',
      ch_module := ''docker'',
      ch_summary := ''enable and start Docker'',
      ch_reason := ''the package-provided Docker SysVinit service is disabled, inactive, or unresponsive'',
      ch_risk := Privileged,
      ch_requires_root := True,
      ch_current := ''Docker SysVinit service not ready'',
      ch_desired := ''Docker enabled in SysV multi-user runlevels and responsive'',
      ch_dependencies := dependencies,
      ch_action := zero_action\<lparr>ac_kind := ''docker.enable-service'', ac_resource := ''devuan'', ac_script := sysv_enable_and_start_script ''docker''\<rparr>,
      ch_verification := ''package-provided Docker SysVinit service is enabled and docker info succeeds as root''\<rparr>"

definition plan_devuan_docker :: "host_facts \<Rightarrow> config \<Rightarrow> change list \<times> warning list" where
  "plan_devuan_docker host cfg =
     (let need_engine = \<not> dk_installed (hf_docker host) \<or> \<not> dk_package_set_complete (hf_docker host) in
     let changes = [] in
     let changes =
       (if need_engine
        then let change = devuan_docker_engine in
             let change =
               (if \<not> dk_package_set_available (hf_docker host)
                then withhold ''the current APT candidates are not exclusively from reviewed Devuan Excalibur merged repositories; Bebop will not use a shadowing repository'' change
                else root_blocked change (hf_sudo_available host)) in
             changes @ [change]
        else changes) in
     let changes =
       (if \<not> dk_service_enabled (hf_docker host) \<or> \<not> dk_service_active (hf_docker host) \<or> \<not> dk_responsive (hf_docker host)
        then let dependencies = [] in
             let dependencies =
               (if need_engine
                then [''docker.engine'']
                else dependencies) in
             let change = devuan_docker_service dependencies in
             let change =
               (if need_engine \<and> ch_blocked (hd changes) \<noteq> []
                then withhold ''Devuan Docker package installation is blocked'' change
                else root_blocked change (hf_sudo_available host)) in
             changes @ [change]
        else changes) in
     (changes, []))"

definition artix_docker_cgroups_refused :: "change" where
  "artix_docker_cgroups_refused = zero_change\<lparr>ch_id := ''docker.cgroups'',
      ch_module := ''docker'',
      ch_summary := ''review Artix cgroup support'',
      ch_reason := ''Docker requires a usable cgroup hierarchy'',
      ch_risk := Privileged,
      ch_requires_root := True,
      ch_current := ''cgroup hierarchy unavailable'',
      ch_desired := ''usable Linux cgroup hierarchy'',
      ch_action := zero_action\<lparr>ac_kind := ''docker.cgroups-blocked'', ac_resource := ''artix''\<rparr>,
      ch_verification := ''not applicable'',
      ch_blocked := ''Artix Docker support requires a usable cgroup hierarchy; Bebop will not rewrite kernel or cgroup configuration''\<rparr>"

definition artix_docker_engine :: "change" where
  "artix_docker_engine = zero_change\<lparr>ch_id := ''docker.engine'',
      ch_module := ''docker'',
      ch_summary := ''install Docker Engine'',
      ch_reason := ''the reviewed Artix Docker package set is incomplete'',
      ch_risk := Privileged,
      ch_requires_root := True,
      ch_current := ''docker, docker-compose, or docker-dinit is not installed'',
      ch_desired := ''official Artix world Docker packages and dinit integration installed'',
      ch_preconditions := [\<lparr>pc_id = ''docker.artix-packages-available'', pc_description = ''the existing Pacman sync database advertises reviewed Artix world packages'', pc_script = artix_docker_packages_available_script\<rparr>],
      ch_action := zero_action\<lparr>ac_kind := ''docker.install-engine'', ac_resource := ''artix-world'', ac_script := ''pacman -S --needed --noconfirm world/docker world/docker-compose world/docker-dinit''\<rparr>,
      ch_verification := ''reviewed Artix Docker packages and packaged dinit service are installed''\<rparr>"

definition artix_docker_service :: "string list \<Rightarrow> change" where
  "artix_docker_service dependencies = zero_change\<lparr>ch_id := ''docker.service'',
      ch_module := ''docker'',
      ch_summary := ''enable and start Docker'',
      ch_reason := ''the packaged Artix dockerd dinit service is disabled, inactive, or unresponsive'',
      ch_risk := Privileged,
      ch_requires_root := True,
      ch_current := ''dockerd dinit service not ready'',
      ch_desired := ''dockerd persistently enabled through dinit and responsive'',
      ch_dependencies := dependencies,
      ch_action := zero_action\<lparr>ac_kind := ''docker.enable-service'', ac_resource := ''artix'', ac_script := dinit_enable_and_start_script ''dockerd''\<rparr>,
      ch_verification := ''packaged dockerd dinit service is enabled and docker info succeeds as root''\<rparr>"

definition plan_artix_docker :: "host_facts \<Rightarrow> config \<Rightarrow> change list \<times> warning list" where
  "plan_artix_docker host cfg =
     (if \<not> dk_cgroups_available (hf_docker host)
      then ([artix_docker_cgroups_refused], [])
      else let need_engine = \<not> dk_installed (hf_docker host) \<or> \<not> dk_package_set_complete (hf_docker host) in
     let changes = [] in
     let changes =
       (if need_engine
        then let change = artix_docker_engine in
             let change =
               (if \<not> dk_package_set_available (hf_docker host)
                then withhold ''the current Pacman sync database does not advertise reviewed Artix world Docker packages; perform a reviewed full Artix upgrade manually and retry (Bebop never runs pacman -Sy)'' change
                else root_blocked change (hf_sudo_available host)) in
             changes @ [change]
        else changes) in
     let changes =
       (if \<not> dk_service_enabled (hf_docker host) \<or> \<not> dk_service_active (hf_docker host) \<or> \<not> dk_responsive (hf_docker host)
        then let dependencies = [] in
             let dependencies =
               (if need_engine
                then [''docker.engine'']
                else dependencies) in
             let change = artix_docker_service dependencies in
             let change =
               (if dk_installed (hf_docker host) \<and> \<not> dk_service_definition (hf_docker host)
                then withhold ''the installed Artix Docker package set does not provide the reviewed /etc/dinit.d/dockerd service; Bebop will not create a replacement'' change
                else if need_engine \<and> ch_blocked (hd changes) \<noteq> []
                then withhold ''Artix Docker package installation is blocked'' change
                else root_blocked change (hf_sudo_available host)) in
             changes @ [change]
        else changes) in
     (changes, []))"

definition alpine_docker_cgroups_refused :: "change" where
  "alpine_docker_cgroups_refused = zero_change\<lparr>ch_id := ''docker.cgroups'',
      ch_module := ''docker'',
      ch_summary := ''review Alpine cgroup support'',
      ch_reason := ''Docker requires a usable cgroup v2 hierarchy'',
      ch_risk := Privileged,
      ch_requires_root := True,
      ch_current := ''cgroup v2 hierarchy unavailable'',
      ch_desired := ''usable Alpine cgroup v2 hierarchy'',
      ch_action := zero_action\<lparr>ac_kind := ''docker.cgroups-blocked'', ac_resource := ''alpine''\<rparr>,
      ch_verification := ''not applicable'',
      ch_blocked := ''Alpine Docker support requires a usable cgroup v2 hierarchy; Bebop will not rewrite a custom cgroup configuration''\<rparr>"

definition alpine_docker_cgroups :: "change" where
  "alpine_docker_cgroups = zero_change\<lparr>ch_id := ''docker.cgroups'',
      ch_module := ''docker'',
      ch_summary := ''enable Alpine cgroups'',
      ch_reason := ''the OpenRC cgroups service is disabled or inactive'',
      ch_risk := Privileged,
      ch_requires_root := True,
      ch_current := ''cgroups service not ready'',
      ch_desired := ''cgroups enabled in OpenRC default runlevel and running'',
      ch_action := zero_action\<lparr>ac_kind := ''docker.enable-cgroups'', ac_resource := ''alpine'', ac_script := unlines
       [''rc-update add cgroups default'',
        ''rc-service cgroups start'']\<rparr>,
      ch_verification := ''cgroups OpenRC service is enabled and running''\<rparr>"

definition alpine_docker_engine :: "change" where
  "alpine_docker_engine = zero_change\<lparr>ch_id := ''docker.engine'',
      ch_module := ''docker'',
      ch_summary := ''install Docker Engine'',
      ch_reason := ''the reviewed Alpine Docker package set or repository definition is incomplete'',
      ch_risk := Privileged,
      ch_requires_root := True,
      ch_current := ''docker, docker-cli-compose, docker-openrc, or Bebop's v3.24 repository file is absent'',
      ch_desired := ''reviewed Alpine v3.24 community Docker packages installed'',
      ch_preconditions := [\<lparr>pc_id = ''docker.alpine-repository-safe'', pc_description = ''Bebop's APK repository definition is absent or exact'', pc_script = alpine_docker_repository_safe_script\<rparr>, \<lparr>pc_id = ''docker.alpine-packages-available'', pc_description = ''the official Alpine v3.24 community repository advertises the reviewed Docker package set'', pc_script = ''for package in docker docker-cli-compose docker-openrc; do apk policy \"$package\" 2>/dev/null | grep -Fq 'https://dl-cdn.alpinelinux.org/alpine/v3.24/community' || exit 1; done''\<rparr>],
      ch_action := zero_action\<lparr>ac_kind := ''docker.install-engine'', ac_resource := ''alpine'', ac_script := alpine_docker_install_script\<rparr>,
      ch_verification := ''reviewed Alpine Docker package set and repository definition are installed''\<rparr>"

definition alpine_docker_service :: "string list \<Rightarrow> change" where
  "alpine_docker_service dependencies = zero_change\<lparr>ch_id := ''docker.service'',
      ch_module := ''docker'',
      ch_summary := ''enable and start Docker'',
      ch_reason := ''OpenRC Docker service is disabled, inactive, or daemon unresponsive'',
      ch_risk := Privileged,
      ch_requires_root := True,
      ch_current := ''Docker OpenRC service not ready'',
      ch_desired := ''Docker enabled in default runlevel, running, and responsive'',
      ch_dependencies := dependencies,
      ch_action := zero_action\<lparr>ac_kind := ''docker.enable-service'', ac_resource := ''alpine'', ac_script := unlines
       [''rc-update add docker default'',
        ''rc-service docker start'']\<rparr>,
      ch_verification := ''Docker OpenRC service is enabled and docker info succeeds as root''\<rparr>"

definition plan_alpine_docker :: "host_facts \<Rightarrow> config \<Rightarrow> change list \<times> warning list" where
  "plan_alpine_docker host cfg =
     (let changes = [] in
     let need_engine = \<not> dk_installed (hf_docker host) \<or> \<not> dk_package_set_complete (hf_docker host) \<or> dk_repository_state (hf_docker host) \<noteq> ''managed'' in
     (if \<not> dk_cgroups_available (hf_docker host)
      then ([alpine_docker_cgroups_refused], [])
      else let changes =
       (if dk_cgroups_service_exists (hf_docker host) \<and> (\<not> dk_cgroups_service_enabled (hf_docker host) \<or> \<not> dk_cgroups_service_active (hf_docker host))
        then let change = alpine_docker_cgroups in
             let change = root_blocked change (hf_sudo_available host) in
             changes @ [change]
        else changes) in
     let changes =
       (if need_engine
        then let change = alpine_docker_engine in
             let change =
               (if dk_repository_state (hf_docker host) = ''unmanaged''
                then withhold ''existing /etc/apk/repositories.d/50-bebop.list is not Bebop-managed; review it manually before Bebop can take ownership'' change
                else if \<not> dk_package_set_available (hf_docker host)
                then withhold ''the target's official Alpine v3.24 community repository does not advertise the reviewed Docker package set'' change
                else root_blocked change (hf_sudo_available host)) in
             changes @ [change]
        else changes) in
     let changes =
       (if \<not> dk_service_enabled (hf_docker host) \<or> \<not> dk_service_active (hf_docker host) \<or> \<not> dk_responsive (hf_docker host)
        then let dependencies = [] in
             let dependencies =
               (if dk_cgroups_service_exists (hf_docker host) \<and> (\<not> dk_cgroups_service_enabled (hf_docker host) \<or> \<not> dk_cgroups_service_active (hf_docker host))
                then dependencies @ [''docker.cgroups'']
                else dependencies) in
             let dependencies =
               (if need_engine
                then dependencies @ [''docker.engine'']
                else dependencies) in
             let change = alpine_docker_service dependencies in
             let change =
               (if need_engine \<and> changes \<noteq> [] \<and> ch_id (last changes) = ''docker.engine'' \<and> ch_blocked (last changes) \<noteq> []
                then block ''Alpine Docker package installation is blocked'' change
                else root_blocked change (hf_sudo_available host)) in
             changes @ [change]
        else changes) in
     (changes, [])))"

definition void_docker_engine_refused :: "change" where
  "void_docker_engine_refused = zero_change\<lparr>ch_id := ''docker.engine'',
      ch_module := ''docker'',
      ch_summary := ''review Void package repository'',
      ch_reason := ''the target architecture/libc has no reviewed Void package mapping'',
      ch_risk := Privileged,
      ch_requires_root := True,
      ch_current := ''unreviewed Void package source'',
      ch_desired := ''reviewed official Void package source'',
      ch_action := zero_action\<lparr>ac_kind := ''docker.install-engine'', ac_resource := ''void''\<rparr>,
      ch_verification := ''not applicable'',
      ch_blocked := ''Bebop does not have a reviewed official Void repository mapping for this architecture/libc combination''\<rparr>"

definition void_docker_engine_refused2 :: "change" where
  "void_docker_engine_refused2 = zero_change\<lparr>ch_id := ''docker.engine'',
      ch_module := ''docker'',
      ch_summary := ''review installed Docker provenance'',
      ch_reason := ''an installed Docker package was not recorded from the reviewed Void repository'',
      ch_risk := Privileged,
      ch_requires_root := True,
      ch_current := ''unmanaged Docker package provenance'',
      ch_desired := ''reviewed official Void Docker packages'',
      ch_action := zero_action\<lparr>ac_kind := ''docker.install-engine'', ac_resource := ''void''\<rparr>,
      ch_verification := ''not applicable'',
      ch_blocked := ''Bebop will not adopt an installed Docker package whose XBPS repository is not the reviewed official Void repository''\<rparr>"

definition void_docker_engine_refused3 :: "change" where
  "void_docker_engine_refused3 = zero_change\<lparr>ch_id := ''docker.engine'',
      ch_module := ''docker'',
      ch_summary := ''review held Docker packages'',
      ch_reason := ''a required Docker package is held or repolocked'',
      ch_risk := Privileged,
      ch_requires_root := True,
      ch_current := ''XBPS hold or repolock prevents reviewed Docker convergence'',
      ch_desired := ''operator-reviewed package constraints'',
      ch_action := zero_action\<lparr>ac_kind := ''docker.install-engine'', ac_resource := ''void''\<rparr>,
      ch_verification := ''not applicable'',
      ch_blocked := ''Bebop will not override an XBPS hold or repolock for docker or docker-compose; review the package constraint manually''\<rparr>"

definition void_docker_cgroups_refused :: "change" where
  "void_docker_cgroups_refused = zero_change\<lparr>ch_id := ''docker.cgroups'',
      ch_module := ''docker'',
      ch_summary := ''review Void cgroup support'',
      ch_reason := ''Docker requires a usable cgroup hierarchy'',
      ch_risk := Privileged,
      ch_requires_root := True,
      ch_current := ''cgroup hierarchy unavailable'',
      ch_desired := ''usable Linux cgroups'',
      ch_action := zero_action\<lparr>ac_kind := ''docker.cgroups-blocked'', ac_resource := ''void''\<rparr>,
      ch_verification := ''not applicable'',
      ch_blocked := ''Void Docker support requires a usable cgroup hierarchy; Bebop will not rewrite kernel or cgroup configuration''\<rparr>"

definition void_docker_engine :: "string \<Rightarrow> change" where
  "void_docker_engine repository = zero_change\<lparr>ch_id := ''docker.engine'',
      ch_module := ''docker'',
      ch_summary := ''install Docker Engine'',
      ch_reason := ''the reviewed Void Docker package set is incomplete'',
      ch_risk := Privileged,
      ch_requires_root := True,
      ch_current := ''docker or docker-compose is not installed'',
      ch_desired := ''official Void docker and docker-compose packages installed'',
      ch_preconditions := [\<lparr>pc_id = ''docker.void-packages-available'', pc_description = ''the reviewed official Void repository advertises Docker packages'', pc_script = void_packages_available_script repository [''docker'', ''docker-compose'']\<rparr>, \<lparr>pc_id = ''docker.void-package-provenance'', pc_description = ''any installed Docker package came from the reviewed official Void repository'', pc_script = void_package_provenance_safety_script repository [''docker'', ''docker-compose'']\<rparr>, \<lparr>pc_id = ''docker.void-package-constraints'', pc_description = ''required Docker packages are not held or repolocked'', pc_script = void_docker_hold_safety_script\<rparr>],
      ch_action := zero_action\<lparr>ac_kind := ''docker.install-engine'', ac_resource := ''void'', ac_script := void_package_install_script repository [''docker'', ''docker-compose'']\<rparr>,
      ch_verification := ''reviewed official Void Docker packages are installed''\<rparr>"

definition void_docker_service :: "string list \<Rightarrow> change" where
  "void_docker_service dependencies = zero_change\<lparr>ch_id := ''docker.service'',
      ch_module := ''docker'',
      ch_summary := ''enable and start Docker'',
      ch_reason := ''runit Docker service is disabled, inactive, or daemon unresponsive'',
      ch_risk := Privileged,
      ch_requires_root := True,
      ch_current := ''Docker runit service not ready'',
      ch_desired := ''Docker enabled under runit, running, and responsive'',
      ch_dependencies := dependencies,
      ch_action := zero_action\<lparr>ac_kind := ''docker.enable-service'', ac_resource := ''void'', ac_script := runit_enable_and_start_script ''docker''\<rparr>,
      ch_verification := ''Docker runit service link is correct and docker info succeeds as root''\<rparr>"

definition void_docker_compose :: "string \<Rightarrow> change" where
  "void_docker_compose repository = zero_change\<lparr>ch_id := ''docker.compose'',
      ch_module := ''docker'',
      ch_summary := ''install Docker Compose v2'',
      ch_reason := ''docker compose is unavailable'',
      ch_risk := Privileged,
      ch_requires_root := True,
      ch_current := ''Compose v2 unavailable'',
      ch_desired := ''Docker Compose v2 available for managed services'',
      ch_dependencies := [''docker.service''],
      ch_action := zero_action\<lparr>ac_kind := ''docker.install-compose'', ac_resource := ''void'', ac_script := void_package_install_script repository [''docker-compose'']\<rparr>,
      ch_verification := ''docker compose version succeeds''\<rparr>"

definition plan_void_docker :: "host_facts \<Rightarrow> config \<Rightarrow> change list \<times> warning list" where
  "plan_void_docker host cfg =
     ((case void_repository (hf_architecture host) (hf_libc host) of
        None \<Rightarrow> ([void_docker_engine_refused], [])
      | Some repository \<Rightarrow>
          (if dk_repository_state (hf_docker host) = ''unmanaged''
           then ([void_docker_engine_refused2], [])
           else if dk_package_held (hf_docker host) \<or> dk_package_repolocked (hf_docker host)
           then ([void_docker_engine_refused3], [])
           else if \<not> dk_cgroups_available (hf_docker host)
           then ([void_docker_cgroups_refused], [])
           else let changes = [] in
          let need_engine = \<not> dk_installed (hf_docker host) \<or> \<not> dk_package_set_complete (hf_docker host) in
          let changes =
            (if need_engine
             then let change = void_docker_engine repository in
                  let change =
                    (if \<not> dk_package_set_available (hf_docker host)
                     then withhold ''the reviewed official Void repository does not advertise docker and docker-compose for this target; Bebop will not use another repository'' change
                     else root_blocked change (hf_sudo_available host)) in
                  changes @ [change]
             else changes) in
          let changes =
            (if \<not> dk_service_enabled (hf_docker host) \<or> \<not> dk_service_active (hf_docker host) \<or> \<not> dk_responsive (hf_docker host)
             then let dependencies = [] in
                  let dependencies =
                    (if need_engine
                     then dependencies @ [''docker.engine'']
                     else dependencies) in
                  let change = void_docker_service dependencies in
                  let change =
                    (if dk_service_link_state (hf_docker host) = ''conflict''
                     then withhold ''existing /var/service/docker does not point exactly to the package-provided /etc/sv/docker; Bebop will not replace it'' change
                     else if \<not> need_engine \<and> \<not> dk_service_definition (hf_docker host)
                     then withhold ''the installed Void Docker package does not provide /etc/sv/docker; Bebop will not create a replacement service definition'' change
                     else if need_engine \<and> changes \<noteq> [] \<and> ch_blocked (hd changes) \<noteq> []
                     then withhold ''Void Docker package installation is blocked'' change
                     else root_blocked change (hf_sudo_available host)) in
                  changes @ [change]
             else changes) in
          let changes =
            (if cfg_services cfg \<noteq> [] \<and> \<not> dk_compose_available (hf_docker host) \<and> \<not> need_engine
             then let change = void_docker_compose repository in
                  let change =
                    (if \<not> dk_package_set_available (hf_docker host)
                     then withhold ''the reviewed official Void repository does not advertise docker-compose for this target'' change
                     else root_blocked change (hf_sudo_available host)) in
                  changes @ [change]
             else changes) in
          (changes, []))))"

definition arch_docker_engine :: "change" where
  "arch_docker_engine = zero_change\<lparr>ch_id := ''docker.engine'',
      ch_module := ''docker'',
      ch_summary := ''install Docker Engine'',
      ch_reason := ''the reviewed Arch Docker package set is incomplete'',
      ch_risk := Privileged,
      ch_requires_root := True,
      ch_current := ''docker or docker-compose is not installed'',
      ch_desired := ''official Arch docker and docker-compose packages installed'',
      ch_preconditions := [\<lparr>pc_id = ''docker.arch-packages-available'', pc_description = ''the existing Pacman sync database advertises the reviewed official packages'', pc_script = arch_docker_packages_available_script\<rparr>],
      ch_action := zero_action\<lparr>ac_kind := ''docker.install-engine'', ac_resource := ''arch'', ac_script := ''pacman -S --needed --noconfirm docker docker-compose''\<rparr>,
      ch_verification := ''official Arch Docker packages are installed''\<rparr>"

definition arch_docker_service :: "string list \<Rightarrow> change" where
  "arch_docker_service dependencies = zero_change\<lparr>ch_id := ''docker.service'',
      ch_module := ''docker'',
      ch_summary := ''enable and start Docker'',
      ch_reason := ''service disabled, inactive, or daemon unresponsive'',
      ch_risk := Privileged,
      ch_requires_root := True,
      ch_current := ''docker.service is not ready'',
      ch_desired := ''docker.service enabled, active, and responsive'',
      ch_dependencies := dependencies,
      ch_action := zero_action\<lparr>ac_kind := ''docker.enable-service'', ac_resource := ''arch'', ac_script := ''systemctl enable --now docker.service''\<rparr>,
      ch_verification := ''docker.service is enabled and docker info succeeds as root''\<rparr>"

definition arch_docker_compose :: "string list \<Rightarrow> change" where
  "arch_docker_compose dependencies = zero_change\<lparr>ch_id := ''docker.compose'',
      ch_module := ''docker'',
      ch_summary := ''install Docker Compose v2'',
      ch_reason := ''docker compose is unavailable'',
      ch_risk := Privileged,
      ch_requires_root := True,
      ch_current := ''Compose v2 unavailable'',
      ch_desired := ''Docker Compose v2 available for managed services'',
      ch_dependencies := dependencies,
      ch_action := zero_action\<lparr>ac_kind := ''docker.install-compose'', ac_resource := ''arch'', ac_script := ''pacman -S --needed --noconfirm docker-compose''\<rparr>,
      ch_verification := ''docker compose version succeeds''\<rparr>"

definition plan_arch_docker :: "host_facts \<Rightarrow> config \<Rightarrow> change list \<times> warning list" where
  "plan_arch_docker host cfg =
     (let changes = [] in
     let need_engine = \<not> dk_installed (hf_docker host) \<or> \<not> dk_package_set_complete (hf_docker host) in
     let changes =
       (if need_engine
        then let change = arch_docker_engine in
             let change =
               (if \<not> dk_package_set_available (hf_docker host)
                then withhold ''the current Pacman sync database does not advertise the reviewed docker and docker-compose packages; perform a reviewed full pacman -Syu manually and retry (Bebop never runs pacman -Sy)'' change
                else root_blocked change (hf_sudo_available host)) in
             changes @ [change]
        else changes) in
     let changes =
       (if \<not> dk_service_enabled (hf_docker host) \<or> \<not> dk_service_active (hf_docker host) \<or> \<not> dk_responsive (hf_docker host)
        then let dependencies = [] in
             let dependencies =
               (if need_engine
                then [''docker.engine'']
                else dependencies) in
             let change = arch_docker_service dependencies in
             let change =
               (if need_engine \<and> changes \<noteq> [] \<and> ch_blocked (hd changes) \<noteq> []
                then block ''Arch Docker package installation is blocked'' change
                else root_blocked change (hf_sudo_available host)) in
             changes @ [change]
        else changes) in
     let changes =
       (if cfg_services cfg \<noteq> [] \<and> \<not> dk_compose_available (hf_docker host)
        then let dependencies = [] in
             let dependencies =
               (if need_engine
                then dependencies @ [''docker.engine'']
                else dependencies) in
             let dependencies =
               (if \<not> dk_service_enabled (hf_docker host) \<or> \<not> dk_service_active (hf_docker host) \<or> \<not> dk_responsive (hf_docker host)
                then dependencies @ [''docker.service'']
                else dependencies) in
             let change = arch_docker_compose dependencies in
             let change =
               (if dk_compose_package_available (hf_docker host) \<noteq> ''docker-compose''
                then withhold ''the current Pacman sync database does not advertise official Arch docker-compose; perform a reviewed full pacman -Syu manually and retry'' change
                else if need_engine \<and> changes \<noteq> [] \<and> ch_blocked (hd changes) \<noteq> []
                then withhold ''Arch Docker package installation is blocked'' change
                else root_blocked change (hf_sudo_available host)) in
             changes @ [change]
        else changes) in
     (changes, []))"

definition opensuse_docker_conflict_refused :: "change" where
  "opensuse_docker_conflict_refused = zero_change\<lparr>ch_id := ''docker.conflict'',
      ch_module := ''docker'',
      ch_summary := ''review conflicting Docker packages'',
      ch_reason := ''an incompatible external Docker CE package is installed'',
      ch_risk := Privileged,
      ch_requires_root := True,
      ch_current := ''external Docker CE package installed'',
      ch_desired := ''reviewed openSUSE docker and docker-compose packages'',
      ch_action := zero_action\<lparr>ac_kind := ''docker.conflict'', ac_resource := ''opensuse''\<rparr>,
      ch_verification := ''external Docker CE packages are absent'',
      ch_blocked := ''openSUSE Docker support will not mix its reviewed distribution packages with an existing Docker CE stack; resolve it manually before apply''\<rparr>"

definition opensuse_docker_engine :: "change" where
  "opensuse_docker_engine = zero_change\<lparr>ch_id := ''docker.engine'',
      ch_module := ''docker'',
      ch_summary := ''install Docker Engine'',
      ch_reason := ''the reviewed openSUSE Docker package set is incomplete'',
      ch_risk := Privileged,
      ch_requires_root := True,
      ch_current := ''docker or docker-compose is not installed'',
      ch_desired := ''openSUSE docker and docker-compose packages installed'',
      ch_preconditions := [\<lparr>pc_id = ''docker.no-external-conflict'', pc_description = ''external Docker CE packages are still absent'', pc_script = opensuse_docker_no_conflict_script\<rparr>],
      ch_action := zero_action\<lparr>ac_kind := ''docker.install-engine'', ac_resource := ''opensuse'', ac_script := ''zypper --non-interactive install docker docker-compose''\<rparr>,
      ch_verification := ''reviewed openSUSE Docker packages are installed''\<rparr>"

definition opensuse_docker_service :: "string list \<Rightarrow> change" where
  "opensuse_docker_service dependencies = zero_change\<lparr>ch_id := ''docker.service'',
      ch_module := ''docker'',
      ch_summary := ''enable and start Docker'',
      ch_reason := ''service disabled, inactive, or daemon unresponsive'',
      ch_risk := Privileged,
      ch_requires_root := True,
      ch_current := ''docker.service is not ready'',
      ch_desired := ''docker.service enabled, active, and responsive'',
      ch_dependencies := dependencies,
      ch_action := zero_action\<lparr>ac_kind := ''docker.enable-service'', ac_resource := ''opensuse'', ac_script := ''systemctl enable --now docker.service''\<rparr>,
      ch_verification := ''docker.service is enabled and docker info succeeds as root''\<rparr>"

definition opensuse_docker_compose :: "string list \<Rightarrow> change" where
  "opensuse_docker_compose dependencies = zero_change\<lparr>ch_id := ''docker.compose'',
      ch_module := ''docker'',
      ch_summary := ''install Docker Compose v2'',
      ch_reason := ''docker compose is unavailable'',
      ch_risk := Privileged,
      ch_requires_root := True,
      ch_current := ''Compose v2 unavailable'',
      ch_desired := ''Docker Compose v2 available for managed services'',
      ch_dependencies := dependencies,
      ch_action := zero_action\<lparr>ac_kind := ''docker.install-compose'', ac_resource := ''opensuse'', ac_script := ''zypper --non-interactive install docker-compose''\<rparr>,
      ch_verification := ''docker compose version succeeds''\<rparr>"

definition plan_opensuse_docker :: "host_facts \<Rightarrow> config \<Rightarrow> change list \<times> warning list" where
  "plan_opensuse_docker host cfg =
     (if dk_conflicting_packages (hf_docker host)
      then ([opensuse_docker_conflict_refused], [])
      else let changes = [] in
     let need_engine = \<not> dk_installed (hf_docker host) \<or> \<not> dk_package_set_complete (hf_docker host) in
     let changes =
       (if need_engine
        then let change = opensuse_docker_engine in
             let change =
               (if \<not> dk_package_set_available (hf_docker host)
                then withhold ''enabled official openSUSE repositories do not advertise the reviewed docker and docker-compose package set'' change
                else root_blocked change (hf_sudo_available host)) in
             changes @ [change]
        else changes) in
     let changes =
       (if \<not> dk_service_enabled (hf_docker host) \<or> \<not> dk_service_active (hf_docker host) \<or> \<not> dk_responsive (hf_docker host)
        then let dependencies = [] in
             let dependencies =
               (if need_engine
                then [''docker.engine'']
                else dependencies) in
             let change = opensuse_docker_service dependencies in
             let change =
               (if need_engine \<and> changes \<noteq> [] \<and> ch_blocked (hd changes) \<noteq> []
                then block ''openSUSE Docker package installation is blocked'' change
                else root_blocked change (hf_sudo_available host)) in
             changes @ [change]
        else changes) in
     let changes =
       (if cfg_services cfg \<noteq> [] \<and> \<not> dk_compose_available (hf_docker host)
        then let dependencies = [] in
             let dependencies =
               (if need_engine
                then dependencies @ [''docker.engine'']
                else dependencies) in
             let dependencies =
               (if \<not> dk_service_enabled (hf_docker host) \<or> \<not> dk_service_active (hf_docker host) \<or> \<not> dk_responsive (hf_docker host)
                then dependencies @ [''docker.service'']
                else dependencies) in
             let change = opensuse_docker_compose dependencies in
             let change =
               (if dk_compose_package_available (hf_docker host) \<noteq> ''docker-compose''
                then withhold ''enabled official openSUSE repositories do not advertise docker-compose'' change
                else if need_engine \<and> changes \<noteq> [] \<and> ch_blocked (hd changes) \<noteq> []
                then withhold ''openSUSE Docker package installation is blocked'' change
                else root_blocked change (hf_sudo_available host)) in
             changes @ [change]
        else changes) in
     (changes, []))"

definition enterprise_linux_docker_conflict_refused :: "change" where
  "enterprise_linux_docker_conflict_refused = zero_change\<lparr>ch_id := ''docker.conflict'',
      ch_module := ''docker'',
      ch_summary := ''review conflicting container packages'',
      ch_reason := ''an incompatible distribution Docker/runtime package is installed'',
      ch_risk := Privileged,
      ch_requires_root := True,
      ch_current := ''a conflicting RPM package is installed'',
      ch_desired := ''the reviewed Docker CE stack is the sole Docker runtime package set'',
      ch_action := zero_action\<lparr>ac_kind := ''docker.conflict'', ac_resource := ''enterprise-linux''\<rparr>,
      ch_verification := ''no conflicting Docker runtime package is installed'',
      ch_blocked := ''Enterprise Linux Docker support will not remove existing distribution Docker/runtime packages automatically; resolve the conflicting package stack manually before apply''\<rparr>"

definition enterprise_linux_docker_repository_refused :: "host_facts \<Rightarrow> change" where
  "enterprise_linux_docker_repository_refused host = zero_change\<lparr>ch_id := ''docker.repository'',
      ch_module := ''docker'',
      ch_summary := ''review Docker repository ownership'',
      ch_reason := ''an unmanaged Docker repository definition exists'',
      ch_risk := Privileged,
      ch_requires_root := True,
      ch_current := ''unmanaged Docker RPM repository'',
      ch_desired := ''Bebop-reviewed Docker CE stable repository'',
      ch_action := zero_action\<lparr>ac_kind := ''docker.repository-conflict'', ac_resource := dk_repository_policy (hf_docker host)\<rparr>,
      ch_verification := ''not applicable until repository ownership is resolved'',
      ch_blocked := ''Bebop will not trust an unmanaged Docker repository definition; review it manually before Docker CE management''\<rparr>"

definition enterprise_linux_docker_engine :: "string \<Rightarrow> string \<Rightarrow> string \<Rightarrow> string \<Rightarrow> string \<Rightarrow> change" where
  "enterprise_linux_docker_engine reason current family major policy_name = zero_change\<lparr>ch_id := ''docker.engine'',
      ch_module := ''docker'',
      ch_summary := ''install Docker Engine'',
      ch_reason := reason,
      ch_risk := Privileged,
      ch_requires_root := True,
      ch_current := current,
      ch_desired := ''Docker CE, CLI, containerd, Buildx, and Compose plugin installed from the reviewed repository'',
      ch_preconditions := [\<lparr>pc_id = ''docker.no-runtime-conflict'', pc_description = ''incompatible distribution Docker/runtime packages are still absent'', pc_script = enterprise_docker_no_conflict_script\<rparr>, \<lparr>pc_id = ''docker.repository-safe'', pc_description = ''the Docker CE repository is absent or Bebop-managed'', pc_script = enterprise_docker_repository_safe_script family major\<rparr>],
      ch_action := zero_action\<lparr>ac_kind := ''docker.install-engine'', ac_resource := policy_name, ac_script := enterprise_docker_install_script family major\<rparr>,
      ch_verification := ''reviewed Docker CE packages are installed''\<rparr>"

definition enterprise_linux_docker_service :: "string \<Rightarrow> string list \<Rightarrow> string \<Rightarrow> change" where
  "enterprise_linux_docker_service current dependencies policy_name = zero_change\<lparr>ch_id := ''docker.service'',
      ch_module := ''docker'',
      ch_summary := ''enable and start Docker'',
      ch_reason := current,
      ch_risk := Privileged,
      ch_requires_root := True,
      ch_current := current,
      ch_desired := ''docker.service enabled, active, and responsive'',
      ch_dependencies := dependencies,
      ch_action := zero_action\<lparr>ac_kind := ''docker.enable-service'', ac_resource := policy_name, ac_script := ''systemctl enable --now docker.service''\<rparr>,
      ch_verification := ''docker.service is enabled and docker info succeeds as root''\<rparr>"

definition enterprise_linux_docker_compose :: "string list \<Rightarrow> string \<Rightarrow> change" where
  "enterprise_linux_docker_compose dependencies policy_name = zero_change\<lparr>ch_id := ''docker.compose'',
      ch_module := ''docker'',
      ch_summary := ''install Docker Compose v2'',
      ch_reason := ''docker compose is unavailable'',
      ch_risk := Privileged,
      ch_requires_root := True,
      ch_current := ''Compose v2 unavailable'',
      ch_desired := ''Docker Compose v2 available for managed services'',
      ch_dependencies := dependencies,
      ch_action := zero_action\<lparr>ac_kind := ''docker.install-compose'', ac_resource := policy_name, ac_script := ''dnf -y install docker-compose-plugin''\<rparr>,
      ch_verification := ''docker compose version succeeds''\<rparr>"

definition plan_enterprise_linux_docker :: "host_facts \<Rightarrow> config \<Rightarrow> change list \<times> warning list" where
  "plan_enterprise_linux_docker host cfg =
     (if dk_conflicting_packages (hf_docker host)
      then ([enterprise_linux_docker_conflict_refused], [])
      else if dk_repository_state (hf_docker host) = ''unmanaged''
      then ([enterprise_linux_docker_repository_refused host], [])
      else (case docker_ce_repository_policy (hf_os host) of
        None \<Rightarrow> ([], [])
      | Some (family, major) \<Rightarrow>
          let policy_name = family @ ''-'' @ major in
          let changes = [] in
          let need_engine = \<not> dk_installed (hf_docker host) \<or> \<not> dk_package_set_complete (hf_docker host) \<or> dk_repository_state (hf_docker host) \<noteq> ''managed'' in
          let changes =
            (if need_engine
             then let reason = ''the reviewed Docker CE package stack is incomplete'' in
                  let current = ''Docker CE engine, CLI, containerd, Buildx, or Compose plugin is not installed'' in
                  let (reason, current) =
                    (if dk_package_set_complete (hf_docker host) \<and> dk_repository_state (hf_docker host) \<noteq> ''managed''
                     then let reason = ''the reviewed Docker CE repository is absent'' in
                          let current = ''Docker CE packages are present without Bebop's reviewed repository'' in
                          (reason, current)
                     else (reason, current)) in
                  let change = enterprise_linux_docker_engine reason current family major policy_name in
                  let change =
                    (if dk_repository_state (hf_docker host) = ''managed'' \<and> \<not> dk_package_set_available (hf_docker host)
                     then withhold ''the reviewed Docker CE repository does not advertise the required package set'' change
                     else root_blocked change (hf_sudo_available host)) in
                  changes @ [change]
             else changes) in
          let changes =
            (if \<not> dk_service_enabled (hf_docker host) \<or> \<not> dk_service_active (hf_docker host) \<or> \<not> dk_responsive (hf_docker host)
             then let dependencies = [] in
                  let dependencies =
                    (if need_engine
                     then [''docker.engine'']
                     else dependencies) in
                  let current = ''service disabled or inactive'' in
                  let current =
                    (if dk_service_enabled (hf_docker host) \<and> dk_service_active (hf_docker host)
                     then ''daemon does not respond to privileged docker info''
                     else current) in
                  let change = enterprise_linux_docker_service current dependencies policy_name in
                  let change =
                    (if need_engine \<and> changes \<noteq> [] \<and> ch_blocked (hd changes) \<noteq> []
                     then block ''Enterprise Linux Docker package installation is blocked'' change
                     else root_blocked change (hf_sudo_available host)) in
                  changes @ [change]
             else changes) in
          let changes =
            (if cfg_services cfg \<noteq> [] \<and> \<not> dk_compose_available (hf_docker host)
             then let dependencies = [] in
                  let dependencies =
                    (if need_engine
                     then dependencies @ [''docker.engine'']
                     else dependencies) in
                  let dependencies =
                    (if \<not> dk_service_enabled (hf_docker host) \<or> \<not> dk_service_active (hf_docker host) \<or> \<not> dk_responsive (hf_docker host)
                     then dependencies @ [''docker.service'']
                     else dependencies) in
                  let change = enterprise_linux_docker_compose dependencies policy_name in
                  let change =
                    (if dk_repository_state (hf_docker host) = ''managed'' \<and> dk_compose_package_available (hf_docker host) \<noteq> ''docker-compose-plugin''
                     then withhold ''the reviewed Docker CE repository does not advertise docker-compose-plugin'' change
                     else if need_engine \<and> changes \<noteq> [] \<and> ch_blocked (hd changes) \<noteq> []
                     then withhold ''Enterprise Linux Docker package installation is blocked'' change
                     else root_blocked change (hf_sudo_available host)) in
                  changes @ [change]
             else changes) in
          (changes, [])))"

definition fedora_docker_conflict_refused :: "change" where
  "fedora_docker_conflict_refused = zero_change\<lparr>ch_id := ''docker.conflict'',
      ch_module := ''docker'',
      ch_summary := ''review conflicting Docker packages'',
      ch_reason := ''a Docker CE package is installed'',
      ch_risk := Privileged,
      ch_requires_root := True,
      ch_current := ''Docker CE or its external containerd package is installed'',
      ch_desired := ''only the reviewed Fedora Moby package stack manages Docker'',
      ch_action := zero_action\<lparr>ac_kind := ''docker.conflict'', ac_resource := ''fedora''\<rparr>,
      ch_verification := ''no conflicting Docker CE package is installed'',
      ch_blocked := ''Fedora Docker support will not mix the reviewed Moby packages with an existing Docker CE installation; remove or migrate the conflicting stack manually before apply''\<rparr>"

definition fedora_docker_engine :: "change" where
  "fedora_docker_engine = zero_change\<lparr>ch_id := ''docker.engine'',
      ch_module := ''docker'',
      ch_summary := ''install Docker Engine'',
      ch_reason := ''the reviewed Fedora Moby package stack is incomplete'',
      ch_risk := Privileged,
      ch_requires_root := True,
      ch_current := ''Moby engine, Docker CLI, or Compose package is not installed'',
      ch_desired := ''moby-engine, docker-cli, and docker-compose installed'',
      ch_preconditions := [\<lparr>pc_id = ''docker.no-ce-conflict'', pc_description = ''Docker CE packages are still absent'', pc_script = fedora_docker_no_conflict_script\<rparr>],
      ch_action := zero_action\<lparr>ac_kind := ''docker.install-engine'', ac_resource := ''fedora'', ac_script := ''dnf5 -y install moby-engine docker-cli docker-compose''\<rparr>,
      ch_verification := ''reviewed Fedora Docker packages are installed''\<rparr>"

definition fedora_docker_service :: "string \<Rightarrow> string list \<Rightarrow> change" where
  "fedora_docker_service current dependencies = zero_change\<lparr>ch_id := ''docker.service'',
      ch_module := ''docker'',
      ch_summary := ''enable and start Docker'',
      ch_reason := current,
      ch_risk := Privileged,
      ch_requires_root := True,
      ch_current := current,
      ch_desired := ''docker.service enabled, active, and responsive'',
      ch_dependencies := dependencies,
      ch_action := zero_action\<lparr>ac_kind := ''docker.enable-service'', ac_resource := ''fedora'', ac_script := ''systemctl enable --now docker.service''\<rparr>,
      ch_verification := ''docker.service is enabled and docker info succeeds as root''\<rparr>"

definition fedora_docker_compose :: "string list \<Rightarrow> change" where
  "fedora_docker_compose dependencies = zero_change\<lparr>ch_id := ''docker.compose'',
      ch_module := ''docker'',
      ch_summary := ''install Docker Compose v2'',
      ch_reason := ''docker compose is unavailable'',
      ch_risk := Privileged,
      ch_requires_root := True,
      ch_current := ''Compose v2 unavailable'',
      ch_desired := ''Docker Compose v2 available for managed services'',
      ch_dependencies := dependencies,
      ch_action := zero_action\<lparr>ac_kind := ''docker.install-compose'', ac_resource := ''docker-compose'', ac_script := ''dnf5 -y install docker-compose''\<rparr>,
      ch_verification := ''docker compose version succeeds''\<rparr>"

definition plan_fedora_docker :: "host_facts \<Rightarrow> config \<Rightarrow> change list \<times> warning list" where
  "plan_fedora_docker host cfg =
     (if dk_conflicting_packages (hf_docker host)
      then ([fedora_docker_conflict_refused], [])
      else let changes = [] in
     let need_engine = \<not> dk_installed (hf_docker host) \<or> \<not> dk_package_set_complete (hf_docker host) in
     let changes =
       (if need_engine
        then let change = fedora_docker_engine in
             let change =
               (if \<not> dk_package_set_available (hf_docker host)
                then withhold ''the target DNF repositories do not advertise the reviewed Fedora Moby package set'' change
                else root_blocked change (hf_sudo_available host)) in
             changes @ [change]
        else changes) in
     let changes =
       (if \<not> dk_service_enabled (hf_docker host) \<or> \<not> dk_service_active (hf_docker host) \<or> \<not> dk_responsive (hf_docker host)
        then let dependencies = [] in
             let dependencies =
               (if need_engine
                then [''docker.engine'']
                else dependencies) in
             let current = ''service disabled or inactive'' in
             let current =
               (if dk_service_enabled (hf_docker host) \<and> dk_service_active (hf_docker host)
                then ''daemon does not respond to privileged docker info''
                else current) in
             let change = fedora_docker_service current dependencies in
             let change =
               (if need_engine \<and> changes \<noteq> [] \<and> ch_blocked (hd changes) \<noteq> []
                then block ''Fedora Docker package installation is blocked'' change
                else root_blocked change (hf_sudo_available host)) in
             changes @ [change]
        else changes) in
     let changes =
       (if cfg_services cfg \<noteq> [] \<and> \<not> dk_compose_available (hf_docker host)
        then let dependencies = [] in
             let dependencies =
               (if need_engine
                then dependencies @ [''docker.engine'']
                else dependencies) in
             let dependencies =
               (if \<not> dk_service_enabled (hf_docker host) \<or> \<not> dk_service_active (hf_docker host) \<or> \<not> dk_responsive (hf_docker host)
                then dependencies @ [''docker.service'']
                else dependencies) in
             let change = fedora_docker_compose dependencies in
             let change =
               (if dk_compose_package_available (hf_docker host) \<noteq> ''docker-compose''
                then withhold ''the target DNF repositories do not advertise the reviewed Fedora docker-compose package'' change
                else root_blocked change (hf_sudo_available host)) in
             changes @ [change]
        else changes) in
     (changes, []))"

definition docker_engine :: "change" where
  "docker_engine = zero_change\<lparr>ch_id := ''docker.engine'',
      ch_module := ''docker'',
      ch_summary := ''install Docker Engine'',
      ch_reason := ''docker.io is not installed'',
      ch_risk := Privileged,
      ch_requires_root := True,
      ch_current := ''not installed'',
      ch_desired := ''distribution-native docker.io package installed'',
      ch_preconditions := [\<lparr>pc_id = ''docker.engine-absent'', pc_description = ''docker.io is still not installed'', pc_script = ''! dpkg-query -W -f='${db:Status-Status}' docker.io 2>/dev/null | grep -qx installed''\<rparr>],
      ch_action := zero_action\<lparr>ac_kind := ''docker.install-engine'', ac_script := unlines
       [''export DEBIAN_FRONTEND=noninteractive'',
        ''apt-get update'',
        ''apt-get install -y docker.io'']\<rparr>,
      ch_verification := ''docker.io package is installed''\<rparr>"

definition docker_service :: "string \<Rightarrow> string list \<Rightarrow> change" where
  "docker_service current dependencies = zero_change\<lparr>ch_id := ''docker.service'',
      ch_module := ''docker'',
      ch_summary := ''enable and start Docker'',
      ch_reason := current,
      ch_risk := Privileged,
      ch_requires_root := True,
      ch_current := current,
      ch_desired := ''docker.service enabled, active, and responsive'',
      ch_dependencies := dependencies,
      ch_action := zero_action\<lparr>ac_kind := ''docker.enable-service'', ac_script := ''systemctl enable --now docker.service''\<rparr>,
      ch_verification := ''docker.service is enabled and docker info succeeds as root''\<rparr>"

definition docker_compose :: "string list \<Rightarrow> host_facts \<Rightarrow> change" where
  "docker_compose dependencies host = zero_change\<lparr>ch_id := ''docker.compose'',
      ch_module := ''docker'',
      ch_summary := ''install Docker Compose v2'',
      ch_reason := ''docker compose is unavailable'',
      ch_risk := Privileged,
      ch_requires_root := True,
      ch_current := ''Compose v2 unavailable'',
      ch_desired := ''Docker Compose v2 available for managed services'',
      ch_dependencies := dependencies,
      ch_action := zero_action\<lparr>ac_kind := ''docker.install-compose'', ac_resource := dk_compose_package_available (hf_docker host)\<rparr>,
      ch_verification := ''docker compose version succeeds''\<rparr>"

definition plan_docker :: "host_facts \<Rightarrow> config \<Rightarrow> change list \<times> warning list" where
  "plan_docker host cfg =
     (if \<not> ft_docker (cfg_features cfg) \<and> cfg_services cfg = []
      then ([], [])
      else if os_family (hf_os host) = ''enterprise-linux'' \<and> hf_package_manager host = ''dnf''
      then plan_enterprise_linux_docker host cfg
      else if os_family (hf_os host) = ''opensuse'' \<and> hf_package_manager host = ''zypper''
      then plan_opensuse_docker host cfg
      else if os_family (hf_os host) = ''arch'' \<and> hf_package_manager host = ''pacman''
      then plan_arch_docker host cfg
      else if os_family (hf_os host) = ''alpine'' \<and> hf_package_manager host = ''apk''
      then plan_alpine_docker host cfg
      else if os_family (hf_os host) = ''void'' \<and> hf_package_manager host = ''xbps''
      then plan_void_docker host cfg
      else if os_family (hf_os host) = ''devuan'' \<and> hf_package_manager host = ''apt''
      then plan_devuan_docker host cfg
      else if os_family (hf_os host) = ''artix'' \<and> hf_package_manager host = ''pacman''
      then plan_artix_docker host cfg
      else if hf_package_manager host = ''dnf5''
      then plan_fedora_docker host cfg
      else let changes = [] in
     let changes =
       (if \<not> dk_installed (hf_docker host)
        then let change = docker_engine in
             let change = root_blocked change (hf_sudo_available host) in
             changes @ [change]
        else changes) in
     let changes =
       (if \<not> dk_service_enabled (hf_docker host) \<or> \<not> dk_service_active (hf_docker host) \<or> \<not> dk_responsive (hf_docker host)
        then let dependencies = [] in
             let dependencies =
               (if \<not> dk_installed (hf_docker host)
                then [''docker.engine'']
                else dependencies) in
             let current = ''service disabled or inactive'' in
             let current =
               (if dk_service_enabled (hf_docker host) \<and> dk_service_active (hf_docker host)
                then ''daemon does not respond to privileged docker info''
                else current) in
             let change = docker_service current dependencies in
             let change = root_blocked change (hf_sudo_available host) in
             changes @ [change]
        else changes) in
     let changes =
       (if cfg_services cfg \<noteq> [] \<and> \<not> dk_compose_available (hf_docker host)
        then let dependencies = [] in
             let dependencies =
               (if \<not> dk_installed (hf_docker host)
                then dependencies @ [''docker.engine'']
                else dependencies) in
             let dependencies =
               (if \<not> dk_service_enabled (hf_docker host) \<or> \<not> dk_service_active (hf_docker host) \<or> \<not> dk_responsive (hf_docker host)
                then dependencies @ [''docker.service'']
                else dependencies) in
             let change = docker_compose dependencies host in
             let change =
               (if \<not> reviewed_compose_package (dk_compose_package_available (hf_docker host))
                then block ''the target apt repositories do not advertise a reviewed Docker Compose v2 package'' change
                else let change = change\<lparr>ch_action := (ch_action change)\<lparr>ac_script := unlines
       [''export DEBIAN_FRONTEND=noninteractive'',
        ''apt-get update'',
        ''apt-get install -y '' @ dk_compose_package_available (hf_docker host)]\<rparr>\<rparr> in
                     root_blocked change (hf_sudo_available host)) in
             changes @ [change]
        else changes) in
     (changes, []))"

definition docker_verify_script :: "change \<Rightarrow> string" where
  "docker_verify_script change =
     (if ac_kind (ch_action change) = ''docker.install-engine''
      then (if ac_resource (ch_action change) = ''void''
            then unlines
       [''xbps-query -p pkgver docker >/dev/null'',
        ''xbps-query -p pkgver docker-compose >/dev/null'']
            else if ac_resource (ch_action change) = ''alpine''
            then unlines
       [''apk info -e docker docker-cli-compose docker-openrc >/dev/null'',
        alpine_docker_repository_safe_script]
            else if ac_resource (ch_action change) = ''arch''
            then ''pacman -Q docker docker-compose >/dev/null''
            else if ac_resource (ch_action change) = ''artix-world''
            then ''pacman -Q docker docker-compose docker-dinit >/dev/null''
            else if ac_resource (ch_action change) = ''devuan-excalibur''
            then unlines
       [''dpkg-query -W -f='${db:Status-Status}' docker.io docker-compose | grep -qx installed'',
        devuan_docker_packages_available_script]
            else if ac_resource (ch_action change) = ''opensuse''
            then ''rpm -q docker docker-compose >/dev/null''
            else if ac_resource (ch_action change) = ''fedora''
            then ''rpm -q moby-engine docker-cli docker-compose >/dev/null''
            else if ac_resource (ch_action change) = ''centos-9'' \<or> ac_resource (ch_action change) = ''centos-10'' \<or> ac_resource (ch_action change) = ''rhel-9'' \<or> ac_resource (ch_action change) = ''rhel-10''
            then unlines
       [''rpm -q docker-ce docker-ce-cli containerd.io docker-buildx-plugin docker-compose-plugin >/dev/null'',
        ''rpm -qa --qf '%{VERSION}'' @ backslash @ ''n' gpg-pubkey | grep -Fxi '' @ shell_quote docker_ce_signing_key_fingerprint]
            else ''dpkg-query -W -f='${db:Status-Status}' docker.io | grep -qx installed'')
      else if ac_kind (ch_action change) = ''docker.install-compose''
      then ''env -i PATH=/usr/local/sbin:/usr/local/bin:/usr/sbin:/usr/bin:/sbin:/bin HOME=/root docker --context default compose version >/dev/null''
      else if ac_resource (ch_action change) = ''void''
      then unlines
       [runit_service_ready_script ''docker'',
        ''env -i PATH=/usr/local/sbin:/usr/local/bin:/usr/sbin:/usr/bin:/sbin:/bin HOME=/root docker info >/dev/null'',
        ''env -i PATH=/usr/local/sbin:/usr/local/bin:/usr/sbin:/usr/bin:/sbin:/bin HOME=/root docker compose version >/dev/null'']
      else if ac_resource (ch_action change) = ''devuan''
      then unlines
       [sysv_service_ready_script ''docker'',
        ''env -i PATH=/usr/local/sbin:/usr/local/bin:/usr/sbin:/usr/bin:/sbin:/bin HOME=/root docker info >/dev/null'',
        ''env -i PATH=/usr/local/sbin:/usr/local/bin:/usr/sbin:/usr/bin:/sbin:/bin HOME=/root docker compose version >/dev/null'']
      else if ac_resource (ch_action change) = ''artix''
      then unlines
       [dinit_service_ready_script ''dockerd'',
        ''env -i PATH=/usr/local/sbin:/usr/local/bin:/usr/sbin:/usr/bin:/sbin:/bin HOME=/root docker info >/dev/null'',
        ''env -i PATH=/usr/local/sbin:/usr/local/bin:/usr/sbin:/usr/bin:/sbin:/bin HOME=/root docker compose version >/dev/null'']
      else if ac_kind (ch_action change) = ''docker.enable-cgroups''
      then unlines
       [''test -r /sys/fs/cgroup/cgroup.controllers'',
        ''rc-update show default | grep -Eq '^[[:space:]]*cgroups([[:space:]]|$)'' @ squote,
        ''rc-service cgroups status >/dev/null'']
      else if ac_resource (ch_action change) = ''alpine''
      then unlines
       [''rc-update show default | grep -Eq '^[[:space:]]*docker([[:space:]]|$)'' @ squote,
        ''rc-service docker status >/dev/null'',
        ''env -i PATH=/usr/local/sbin:/usr/local/bin:/usr/sbin:/usr/bin:/sbin:/bin HOME=/root docker --context default info >/dev/null'',
        ''env -i PATH=/usr/local/sbin:/usr/local/bin:/usr/sbin:/usr/bin:/sbin:/bin HOME=/root docker --context default compose version >/dev/null'']
      else unlines
       [''systemctl is-enabled docker.service >/dev/null'',
        ''systemctl is-active docker.service >/dev/null'',
        ''env -i PATH=/usr/local/sbin:/usr/local/bin:/usr/sbin:/usr/bin:/sbin:/bin HOME=/root docker --context default info >/dev/null''])"

definition docker_kinds :: "string list" where
  "docker_kinds = [''docker.install-engine'', ''docker.enable-service'', ''docker.install-compose'']"

lemma docker_scripts [simp]:
  "devuan_docker_packages_available_script \<noteq> []"
  "artix_docker_packages_available_script \<noteq> []"
  "alpine_docker_repository_safe_script \<noteq> []"
  "alpine_docker_install_script \<noteq> []"
  "void_docker_hold_safety_script \<noteq> []"
  "arch_docker_packages_available_script \<noteq> []"
  "opensuse_docker_no_conflict_script \<noteq> []"
  "enterprise_docker_no_conflict_script \<noteq> []"
  "fedora_docker_no_conflict_script \<noteq> []"
  "enterprise_docker_repository_safe_script a0 b0 \<noteq> []"
  "enterprise_docker_install_script a1 b1 \<noteq> []"
  by (simp_all add: Let_def devuan_docker_packages_available_script_def artix_docker_packages_available_script_def alpine_docker_repository_safe_script_def alpine_docker_install_script_def void_docker_hold_safety_script_def arch_docker_packages_available_script_def opensuse_docker_no_conflict_script_def enterprise_docker_no_conflict_script_def fedora_docker_no_conflict_script_def enterprise_docker_repository_safe_script_def enterprise_docker_install_script_def)

lemma docker_literals [simp]:
  "ch_id devuan_docker_engine = ''docker.engine''"
  "ch_dependencies devuan_docker_engine = []"
  "ch_requires_root devuan_docker_engine"
  "ch_id (devuan_docker_service dependencies) = ''docker.service''"
  "ch_dependencies (devuan_docker_service dependencies) = dependencies"
  "ch_requires_root (devuan_docker_service dependencies)"
  "ch_id artix_docker_cgroups_refused = ''docker.cgroups''"
  "ch_dependencies artix_docker_cgroups_refused = []"
  "ch_requires_root artix_docker_cgroups_refused"
  "ch_id artix_docker_engine = ''docker.engine''"
  "ch_dependencies artix_docker_engine = []"
  "ch_requires_root artix_docker_engine"
  "ch_id (artix_docker_service dependencies) = ''docker.service''"
  "ch_dependencies (artix_docker_service dependencies) = dependencies"
  "ch_requires_root (artix_docker_service dependencies)"
  "ch_id alpine_docker_cgroups_refused = ''docker.cgroups''"
  "ch_dependencies alpine_docker_cgroups_refused = []"
  "ch_requires_root alpine_docker_cgroups_refused"
  "ch_id alpine_docker_cgroups = ''docker.cgroups''"
  "ch_dependencies alpine_docker_cgroups = []"
  "ch_requires_root alpine_docker_cgroups"
  "ch_id alpine_docker_engine = ''docker.engine''"
  "ch_dependencies alpine_docker_engine = []"
  "ch_requires_root alpine_docker_engine"
  "ch_id (alpine_docker_service dependencies) = ''docker.service''"
  "ch_dependencies (alpine_docker_service dependencies) = dependencies"
  "ch_requires_root (alpine_docker_service dependencies)"
  "ch_id void_docker_engine_refused = ''docker.engine''"
  "ch_dependencies void_docker_engine_refused = []"
  "ch_requires_root void_docker_engine_refused"
  "ch_id void_docker_engine_refused2 = ''docker.engine''"
  "ch_dependencies void_docker_engine_refused2 = []"
  "ch_requires_root void_docker_engine_refused2"
  "ch_id void_docker_engine_refused3 = ''docker.engine''"
  "ch_dependencies void_docker_engine_refused3 = []"
  "ch_requires_root void_docker_engine_refused3"
  "ch_id void_docker_cgroups_refused = ''docker.cgroups''"
  "ch_dependencies void_docker_cgroups_refused = []"
  "ch_requires_root void_docker_cgroups_refused"
  "ch_id (void_docker_engine repository) = ''docker.engine''"
  "ch_dependencies (void_docker_engine repository) = []"
  "ch_requires_root (void_docker_engine repository)"
  "ch_id (void_docker_service dependencies) = ''docker.service''"
  "ch_dependencies (void_docker_service dependencies) = dependencies"
  "ch_requires_root (void_docker_service dependencies)"
  "ch_id (void_docker_compose repository) = ''docker.compose''"
  "ch_dependencies (void_docker_compose repository) = [''docker.service'']"
  "ch_requires_root (void_docker_compose repository)"
  "ch_id arch_docker_engine = ''docker.engine''"
  "ch_dependencies arch_docker_engine = []"
  "ch_requires_root arch_docker_engine"
  "ch_id (arch_docker_service dependencies) = ''docker.service''"
  "ch_dependencies (arch_docker_service dependencies) = dependencies"
  "ch_requires_root (arch_docker_service dependencies)"
  "ch_id (arch_docker_compose dependencies) = ''docker.compose''"
  "ch_dependencies (arch_docker_compose dependencies) = dependencies"
  "ch_requires_root (arch_docker_compose dependencies)"
  "ch_id opensuse_docker_conflict_refused = ''docker.conflict''"
  "ch_dependencies opensuse_docker_conflict_refused = []"
  "ch_requires_root opensuse_docker_conflict_refused"
  "ch_id opensuse_docker_engine = ''docker.engine''"
  "ch_dependencies opensuse_docker_engine = []"
  "ch_requires_root opensuse_docker_engine"
  "ch_id (opensuse_docker_service dependencies) = ''docker.service''"
  "ch_dependencies (opensuse_docker_service dependencies) = dependencies"
  "ch_requires_root (opensuse_docker_service dependencies)"
  "ch_id (opensuse_docker_compose dependencies) = ''docker.compose''"
  "ch_dependencies (opensuse_docker_compose dependencies) = dependencies"
  "ch_requires_root (opensuse_docker_compose dependencies)"
  "ch_id enterprise_linux_docker_conflict_refused = ''docker.conflict''"
  "ch_dependencies enterprise_linux_docker_conflict_refused = []"
  "ch_requires_root enterprise_linux_docker_conflict_refused"
  "ch_id (enterprise_linux_docker_repository_refused host) = ''docker.repository''"
  "ch_dependencies (enterprise_linux_docker_repository_refused host) = []"
  "ch_requires_root (enterprise_linux_docker_repository_refused host)"
  "ch_id (enterprise_linux_docker_engine reason current family major policy_name) = ''docker.engine''"
  "ch_dependencies (enterprise_linux_docker_engine reason current family major policy_name) = []"
  "ch_requires_root (enterprise_linux_docker_engine reason current family major policy_name)"
  "ch_id (enterprise_linux_docker_service current dependencies policy_name) = ''docker.service''"
  "ch_dependencies (enterprise_linux_docker_service current dependencies policy_name) = dependencies"
  "ch_requires_root (enterprise_linux_docker_service current dependencies policy_name)"
  "ch_id (enterprise_linux_docker_compose dependencies policy_name) = ''docker.compose''"
  "ch_dependencies (enterprise_linux_docker_compose dependencies policy_name) = dependencies"
  "ch_requires_root (enterprise_linux_docker_compose dependencies policy_name)"
  "ch_id fedora_docker_conflict_refused = ''docker.conflict''"
  "ch_dependencies fedora_docker_conflict_refused = []"
  "ch_requires_root fedora_docker_conflict_refused"
  "ch_id fedora_docker_engine = ''docker.engine''"
  "ch_dependencies fedora_docker_engine = []"
  "ch_requires_root fedora_docker_engine"
  "ch_id (fedora_docker_service current dependencies) = ''docker.service''"
  "ch_dependencies (fedora_docker_service current dependencies) = dependencies"
  "ch_requires_root (fedora_docker_service current dependencies)"
  "ch_id (fedora_docker_compose dependencies) = ''docker.compose''"
  "ch_dependencies (fedora_docker_compose dependencies) = dependencies"
  "ch_requires_root (fedora_docker_compose dependencies)"
  "ch_id docker_engine = ''docker.engine''"
  "ch_dependencies docker_engine = []"
  "ch_requires_root docker_engine"
  "ch_id (docker_service current dependencies) = ''docker.service''"
  "ch_dependencies (docker_service current dependencies) = dependencies"
  "ch_requires_root (docker_service current dependencies)"
  "ch_id (docker_compose dependencies host) = ''docker.compose''"
  "ch_dependencies (docker_compose dependencies host) = dependencies"
  "ch_requires_root (docker_compose dependencies host)"
  by (simp_all add: devuan_docker_engine_def devuan_docker_service_def artix_docker_cgroups_refused_def artix_docker_engine_def artix_docker_service_def alpine_docker_cgroups_refused_def alpine_docker_cgroups_def alpine_docker_engine_def alpine_docker_service_def void_docker_engine_refused_def void_docker_engine_refused2_def void_docker_engine_refused3_def void_docker_cgroups_refused_def void_docker_engine_def void_docker_service_def void_docker_compose_def arch_docker_engine_def arch_docker_service_def arch_docker_compose_def opensuse_docker_conflict_refused_def opensuse_docker_engine_def opensuse_docker_service_def opensuse_docker_compose_def enterprise_linux_docker_conflict_refused_def enterprise_linux_docker_repository_refused_def enterprise_linux_docker_engine_def enterprise_linux_docker_service_def enterprise_linux_docker_compose_def fedora_docker_conflict_refused_def fedora_docker_engine_def fedora_docker_service_def fedora_docker_compose_def docker_engine_def docker_service_def docker_compose_def)

lemma docker_planned [simp]:
  "planned docker_kinds devuan_docker_engine"
  "planned docker_kinds (devuan_docker_service dependencies)"
  "planned docker_kinds artix_docker_cgroups_refused"
  "planned docker_kinds artix_docker_engine"
  "planned docker_kinds (artix_docker_service dependencies)"
  "planned docker_kinds alpine_docker_cgroups_refused"
  "planned docker_kinds alpine_docker_engine"
  "planned docker_kinds (alpine_docker_service dependencies)"
  "planned docker_kinds void_docker_engine_refused"
  "planned docker_kinds void_docker_engine_refused2"
  "planned docker_kinds void_docker_engine_refused3"
  "planned docker_kinds void_docker_cgroups_refused"
  "planned docker_kinds (void_docker_engine repository)"
  "planned docker_kinds (void_docker_service dependencies)"
  "planned docker_kinds (void_docker_compose repository)"
  "planned docker_kinds arch_docker_engine"
  "planned docker_kinds (arch_docker_service dependencies)"
  "planned docker_kinds (arch_docker_compose dependencies)"
  "planned docker_kinds opensuse_docker_conflict_refused"
  "planned docker_kinds opensuse_docker_engine"
  "planned docker_kinds (opensuse_docker_service dependencies)"
  "planned docker_kinds (opensuse_docker_compose dependencies)"
  "planned docker_kinds enterprise_linux_docker_conflict_refused"
  "planned docker_kinds (enterprise_linux_docker_repository_refused host)"
  "planned docker_kinds (enterprise_linux_docker_engine reason current family major policy_name)"
  "planned docker_kinds (enterprise_linux_docker_service current dependencies policy_name)"
  "planned docker_kinds (enterprise_linux_docker_compose dependencies policy_name)"
  "planned docker_kinds fedora_docker_conflict_refused"
  "planned docker_kinds fedora_docker_engine"
  "planned docker_kinds (fedora_docker_service current dependencies)"
  "planned docker_kinds (fedora_docker_compose dependencies)"
  "planned docker_kinds docker_engine"
  "planned docker_kinds (docker_service current dependencies)"
  by (simp_all add: planned_def actionable_def docker_kinds_def devuan_docker_engine_def devuan_docker_service_def artix_docker_cgroups_refused_def artix_docker_engine_def artix_docker_service_def alpine_docker_cgroups_refused_def alpine_docker_cgroups_def alpine_docker_engine_def alpine_docker_service_def void_docker_engine_refused_def void_docker_engine_refused2_def void_docker_engine_refused3_def void_docker_cgroups_refused_def void_docker_engine_def void_docker_service_def void_docker_compose_def arch_docker_engine_def arch_docker_service_def arch_docker_compose_def opensuse_docker_conflict_refused_def opensuse_docker_engine_def opensuse_docker_service_def opensuse_docker_compose_def enterprise_linux_docker_conflict_refused_def enterprise_linux_docker_repository_refused_def enterprise_linux_docker_engine_def enterprise_linux_docker_service_def enterprise_linux_docker_compose_def fedora_docker_conflict_refused_def fedora_docker_engine_def fedora_docker_service_def fedora_docker_compose_def docker_engine_def docker_service_def docker_compose_def)


definition docker_module :: "'w transport \<Rightarrow> 'w module_ops" where
  "docker_module tr = \<lparr>md_name = ''docker'', md_plan = (\<lambda>host cfg. Inr (plan_docker host cfg)),
     md_apply = (\<lambda>cfg. run_action tr docker_kinds),
     md_verify = (\<lambda>cfg change. verify_target tr (docker_verify_script change))\<rparr>"

text \<open>
  The plans also hold changes of the kind \<open>docker.enable-cgroups\<close>, which \<open>Apply\<close> does not know.
\<close>

definition docker_plan_kinds :: "string list" where
  "docker_plan_kinds = ''docker.enable-cgroups'' # docker_kinds"

lemma docker_kinds_planned [simp]: "planned docker_kinds c \<Longrightarrow> planned docker_plan_kinds c"
  by (simp add: planned_def actionable_def docker_plan_kinds_def)

lemma alpine_cgroups_planned [simp]: "planned docker_plan_kinds alpine_docker_cgroups"
  by (simp add: planned_def actionable_def docker_plan_kinds_def alpine_docker_cgroups_def)

lemma plan_devuan_docker_planned [planning]: "planned_all docker_plan_kinds (plan_devuan_docker host cfg)"
  unfolding plan_devuan_docker_def by (intro planning) simp_all

lemma plan_artix_docker_planned [planning]: "planned_all docker_plan_kinds (plan_artix_docker host cfg)"
  unfolding plan_artix_docker_def by (intro planning) simp_all

lemma plan_alpine_docker_planned [planning]: "planned_all docker_plan_kinds (plan_alpine_docker host cfg)"
  unfolding plan_alpine_docker_def by (intro planning) simp_all

lemma plan_void_docker_planned [planning]: "planned_all docker_plan_kinds (plan_void_docker host cfg)"
  unfolding plan_void_docker_def by (intro planning) simp_all

lemma plan_arch_docker_planned [planning]: "planned_all docker_plan_kinds (plan_arch_docker host cfg)"
  unfolding plan_arch_docker_def by (intro planning) simp_all

lemma plan_opensuse_docker_planned [planning]: "planned_all docker_plan_kinds (plan_opensuse_docker host cfg)"
  unfolding plan_opensuse_docker_def by (intro planning) simp_all

lemma plan_enterprise_linux_docker_planned [planning]: "planned_all docker_plan_kinds (plan_enterprise_linux_docker host cfg)"
  unfolding plan_enterprise_linux_docker_def by (intro planning) simp_all

lemma plan_fedora_docker_planned [planning]: "planned_all docker_plan_kinds (plan_fedora_docker host cfg)"
  unfolding plan_fedora_docker_def by (intro planning) simp_all

lemma docker_compose_sketched:
  "planned docker_plan_kinds (block (CHR ''t'' # r) (docker_compose dependencies host))"
  "planned docker_plan_kinds ((docker_compose dependencies host)\<lparr>ch_action := (ch_action (docker_compose dependencies host))\<lparr>ac_script := unlines (a # b # ls)\<rparr>\<rparr>)"
  by (simp_all add: planned_def actionable_def docker_compose_def docker_plan_kinds_def docker_kinds_def)

lemma let_docker_compose:
  "list_all (planned kinds) (g (docker_compose dependencies host)) \<Longrightarrow> list_all (planned kinds) (Let (docker_compose dependencies host) g)"
  by simp

lemmas let_docker_change = let_change(2) [of _ docker_engine] let_change(2) [of _ "docker_service c d" for c d]
  let_change(2) [of _ "if b then c else d" for b c d] let_change(2) [of _ "root_blocked c s" for c s]
  let_change(3) [of _ "c\<lparr>ch_action := a\<rparr>" for c a]

lemma plan_docker_planned: "planned_all docker_plan_kinds (plan_docker host cfg)"
  unfolding plan_docker_def
  by (intro planned_all_pair planned_lists planned_branches let_changes let_text let_texts let_docker_compose
      let_docker_change planned_root_blocked docker_compose_sketched plan_devuan_docker_planned plan_artix_docker_planned
      plan_alpine_docker_planned plan_void_docker_planned plan_arch_docker_planned plan_opensuse_docker_planned
      plan_enterprise_linux_docker_planned plan_fedora_docker_planned) simp_all

end
