(* ===== verification/Tailscale_Module.thy ===== *)
theory Tailscale_Module
  imports Docker_Module
begin

text \<open>
  File \<open>internal/modules/tailscale.go\<close>: the Tailscale package, its repositories and its service.
\<close>

definition tailscale_opensuse_signing_key_fingerprint :: string where
  "tailscale_opensuse_signing_key_fingerprint = ''2596A99EAAB33821893C0A79458CA832957F5868''"

definition devuan_tailscale_key_sha256 :: string where
  "devuan_tailscale_key_sha256 = ''3e03dacf222698c60b8e2f990b809ca1b3e104de127767864284e6c228f1fb39''"

definition devuan_tailscale_distro_candidates :: string where
  "devuan_tailscale_distro_candidates = unlines
       [''for package in ca-certificates curl; do'',
        ''  candidate=$(LC_ALL=C apt-cache policy \"$package\" 2>/dev/null | awk '/^[[:space:]]*Candidate:/ { print $2; exit }')'',
        ''  test -n \"$candidate\" && test \"$candidate\" != '(none)' || exit 1'',
        ''  LC_ALL=C apt-cache madison \"$package\" 2>/dev/null | awk -v version=\"$candidate\" '' @ squote,
        ''    $3 == version { seen=1; if ($5 != \"http://deb.devuan.org/merged\" || $6 !~ /^excalibur(-updates|-security)?'' @ backslash @ ''//) bad=1; else good=1 }'',
        ''    END { exit !(seen && good && !bad) }'' @ squote,
        ''done'']"

definition devuan_tailscale_vendor_candidate :: string where
  "devuan_tailscale_vendor_candidate = unlines
       [''candidate=$(LC_ALL=C apt-cache policy tailscale 2>/dev/null | awk '/^[[:space:]]*Candidate:/ { print $2; exit }')'',
        ''test -n \"$candidate\" && test \"$candidate\" != '(none)'' @ squote,
        ''LC_ALL=C apt-cache madison tailscale 2>/dev/null | awk -v version=\"$candidate\" '' @ squote,
        ''  $3 == version { seen=1; if ($5 != \"https://pkgs.tailscale.com/stable/debian\" || $6 !~ /^trixie'' @ backslash @ ''//) bad=1; else good=1 }'',
        ''  END { exit !(seen && good && !bad) }'' @ squote]"

definition devuan_tailscale_repository_safe_script :: string where
  "devuan_tailscale_repository_safe_script = unlines
       [''if test -e /etc/apt/sources.list.d/tailscale.list; then'',
        ''  grep -Fqx 'deb https://pkgs.tailscale.com/stable/debian trixie main' /etc/apt/sources.list.d/tailscale.list'',
        ''  test \"$(grep -Evc '^[[:space:]]*(#.*)?$|^deb https://pkgs'' @ backslash @ ''.tailscale'' @ backslash @ ''.com/stable/debian trixie main$' /etc/apt/sources.list.d/tailscale.list)\" = 0'',
        ''fi'',
        ''if test -e /usr/share/keyrings/tailscale-archive-keyring.gpg; then'',
        ''  test \"$(sha256sum /usr/share/keyrings/tailscale-archive-keyring.gpg | awk '{print $1}')\" = '' @ devuan_tailscale_key_sha256,
        ''fi'']"

definition devuan_tailscale_install_script :: string where
  "devuan_tailscale_install_script = unlines
       [''set -eu'',
        devuan_tailscale_repository_safe_script,
        devuan_tailscale_distro_candidates,
        ''export DEBIAN_FRONTEND=noninteractive'',
        ''apt-get install -y ca-certificates curl'',
        ''install -d -m 0755 /usr/share/keyrings /etc/apt/sources.list.d'',
        ''key_tmp=$(mktemp /usr/share/keyrings/.tailscale-key.XXXXXX)'',
        ''list_tmp=$(mktemp /etc/apt/sources.list.d/.tailscale.XXXXXX)'',
        ''trap 'rm -f \"$key_tmp\" \"$list_tmp\"' EXIT'',
        ''curl --fail --silent --show-error --location https://pkgs.tailscale.com/stable/debian/trixie.noarmor.gpg --output \"$key_tmp\"'',
        ''test \"$(sha256sum \"$key_tmp\" | awk '{print $1}')\" = '' @ devuan_tailscale_key_sha256,
        ''printf '%s'' @ backslash @ ''n' 'deb https://pkgs.tailscale.com/stable/debian trixie main' >\"$list_tmp\"'',
        ''chown root:root \"$key_tmp\" \"$list_tmp\"'',
        ''chmod 0644 \"$key_tmp\" \"$list_tmp\"'',
        ''if test -e /usr/share/keyrings/tailscale-archive-keyring.gpg; then'',
        ''  test \"$(sha256sum /usr/share/keyrings/tailscale-archive-keyring.gpg | awk '{print $1}')\" = '' @ devuan_tailscale_key_sha256,
        ''else'',
        ''  mv -f \"$key_tmp\" /usr/share/keyrings/tailscale-archive-keyring.gpg'',
        ''fi'',
        ''if test -e /etc/apt/sources.list.d/tailscale.list; then'',
        ''  grep -Fqx 'deb https://pkgs.tailscale.com/stable/debian trixie main' /etc/apt/sources.list.d/tailscale.list'',
        ''  test \"$(grep -Evc '^[[:space:]]*(#.*)?$|^deb https://pkgs'' @ backslash @ ''.tailscale'' @ backslash @ ''.com/stable/debian trixie main$' /etc/apt/sources.list.d/tailscale.list)\" = 0'',
        ''else'',
        ''  mv -f \"$list_tmp\" /etc/apt/sources.list.d/tailscale.list'',
        ''fi'',
        ''trap - EXIT'',
        ''apt-get update'',
        devuan_tailscale_vendor_candidate,
        ''apt-get install -y tailscale'']"

definition devuan_tailscale_sysv_script :: string where
  "devuan_tailscale_sysv_script = unlines
       [''set -eu'',
        ''dpkg-query -S /usr/sbin/tailscaled | grep -Eq '^tailscale: /usr/sbin/tailscaled$'' @ squote,
        ''if test -e /etc/init.d/tailscaled; then'',
        ''  grep -Fqx '# Managed by Bebop. Manual edits may be replaced.' /etc/init.d/tailscaled'',
        ''fi'',
        ''tmp=$(mktemp /etc/init.d/.tailscaled.XXXXXX)'',
        ''trap 'rm -f \"$tmp\"' EXIT'',
        ''cat >\"$tmp\" <<'EOF'' @ squote,
        ''#!/bin/sh'',
        ''# Managed by Bebop. Manual edits may be replaced.'',
        ''### BEGIN INIT INFO'',
        ''# Provides:          tailscaled'',
        ''# Required-Start:    $network $remote_fs'',
        ''# Required-Stop:     $network $remote_fs'',
        ''# Default-Start:     2 3 4 5'',
        ''# Default-Stop:      0 1 6'',
        ''# Short-Description: Tailscale daemon'',
        ''### END INIT INFO'',
        [],
        ''DAEMON=/usr/sbin/tailscaled'',
        ''PIDFILE=/run/tailscale/tailscaled.pid'',
        ''STATE=/var/lib/tailscale/tailscaled.state'',
        ''SOCKET=/run/tailscale/tailscaled.sock'',
        [],
        ''case \"$1\" in'',
        ''  start)'',
        ''    install -d -o root -g root -m 0755 /run/tailscale'',
        ''    install -d -o root -g root -m 0700 /var/lib/tailscale'',
        ''    start-stop-daemon --start --quiet --oknodo --background --make-pidfile --pidfile \"$PIDFILE\" --exec \"$DAEMON\" -- --state=\"$STATE\" --socket=\"$SOCKET\"'',
        ''    ;;'',
        ''  stop)'',
        ''    start-stop-daemon --stop --quiet --oknodo --pidfile \"$PIDFILE\" --exec \"$DAEMON\"'',
        ''    rm -f \"$PIDFILE\"'',
        ''    ;;'',
        ''  restart)'',
        ''    \"$0\" stop'',
        ''    \"$0\" start'',
        ''    ;;'',
        ''  status)'',
        ''    start-stop-daemon --status --pidfile \"$PIDFILE\" --exec \"$DAEMON\"'',
        ''    ;;'',
        ''  *)'',
        ''    exit 2'',
        ''    ;;'',
        ''esac'',
        ''EOF'',
        ''chown root:root \"$tmp\"'',
        ''chmod 0755 \"$tmp\"'',
        ''sh -n \"$tmp\"'',
        ''mv -f \"$tmp\" /etc/init.d/tailscaled'',
        ''trap - EXIT'',
        [],
        ''update-rc.d tailscaled defaults'',
        ''service tailscaled start'']"

definition artix_tailscale_packages_available_script :: string where
  "artix_tailscale_packages_available_script = unlines
       [''for package in tailscale tailscale-dinit; do'',
        ''  LC_ALL=C pacman -Si \"world/$package\" 2>/dev/null | awk -F ' *: *' '$1 == \"Repository\" { found=($2 == \"world\") } END { exit !found }' || exit 1'',
        ''done'']"

definition void_tailscale_hold_safety_script :: string where
  "void_tailscale_hold_safety_script = unlines
       [''! xbps-query -H 2>/dev/null | grep -Eq '(^|[[:space:]])tailscale([<>=~][^[:space:]]*)?([[:space:]]|$)'' @ squote,
        ''! xbps-query --list-repolock-pkgs 2>/dev/null | grep -Eq '(^|[[:space:]])tailscale([<>=~][^[:space:]]*)?([[:space:]]|$)'' @ squote]"

definition alpine_tailscale_install_script :: string where
  "alpine_tailscale_install_script = unlines
       [''set -eu'',
        ''if test -e /etc/apk/repositories.d/50-bebop.list; then'',
        ''  grep -Fqx '# Managed by Bebop. Manual edits may be replaced.' /etc/apk/repositories.d/50-bebop.list'',
        ''  grep -Fqx 'v2 https://dl-cdn.alpinelinux.org/alpine/v3.24 main' /etc/apk/repositories.d/50-bebop.list'',
        ''  grep -Fqx 'v2 https://dl-cdn.alpinelinux.org/alpine/v3.24 community' /etc/apk/repositories.d/50-bebop.list'',
        ''  grep -Fqx 'v2 @bebop-main https://dl-cdn.alpinelinux.org/alpine/v3.24 main' /etc/apk/repositories.d/50-bebop.list'',
        ''  grep -Fqx 'v2 @bebop-community https://dl-cdn.alpinelinux.org/alpine/v3.24 community' /etc/apk/repositories.d/50-bebop.list'',
        ''  test \"$(grep -Ec '^(# Managed by Bebop'' @ backslash @ backslash @ ''. Manual edits may be replaced'' @ backslash @ backslash @ ''.|v2( @bebop-(main|community))? https://dl-cdn'' @ backslash @ backslash @ ''.alpinelinux'' @ backslash @ backslash @ ''.org/alpine/v3'' @ backslash @ backslash @ ''.24 (main|community))$' /etc/apk/repositories.d/50-bebop.list)\" -eq 5'',
        ''fi'',
        ''install -d -m 0755 /etc/apk/repositories.d'',
        ''tmp=$(mktemp /etc/apk/repositories.d/.50-bebop.list.XXXXXX)'',
        ''trap 'rm -f \"$tmp\"' EXIT'',
        ''cat >\"$tmp\" <<'EOF'' @ squote,
        ''# Managed by Bebop. Manual edits may be replaced.'',
        ''v2 https://dl-cdn.alpinelinux.org/alpine/v3.24 main'',
        ''v2 https://dl-cdn.alpinelinux.org/alpine/v3.24 community'',
        ''v2 @bebop-main https://dl-cdn.alpinelinux.org/alpine/v3.24 main'',
        ''v2 @bebop-community https://dl-cdn.alpinelinux.org/alpine/v3.24 community'',
        ''EOF'',
        ''chown root:root \"$tmp\"'',
        ''chmod 0644 \"$tmp\"'',
        ''mv -f \"$tmp\" /etc/apk/repositories.d/50-bebop.list'',
        ''trap - EXIT'',
        ''apk --interactive=no update --repositories-file /etc/apk/repositories.d/50-bebop.list'',
        ''apk --interactive=no add --repositories-file /etc/apk/repositories.d/50-bebop.list tailscale@bebop-community tailscale-openrc@bebop-community'']"

definition arch_tailscale_package_available_script :: string where
  "arch_tailscale_package_available_script = ''LC_ALL=C pacman -Si tailscale 2>/dev/null | awk -F ' *: *' 'function finish() { if (name != \"\") { if (name == \"tailscale\" && (repository == \"core\" || repository == \"extra\" || repository == \"multilib\")) count++; else invalid=1; name=\"\"; repository=\"\" } } $1 == \"Repository\" { finish(); repository=$2 } $1 == \"Name\" { name=$2 } END { finish(); exit !(count == 1 && !invalid) }'' @ squote"

definition fedora_tailscale_install_script :: string where
  "fedora_tailscale_install_script = unlines
       [''tmp=$(mktemp /etc/yum.repos.d/.tailscale.repo.XXXXXX)'',
        ''trap 'rm -f \"$tmp\"' EXIT'',
        ''cat >\"$tmp\" <<'EOF'' @ squote,
        ''# Managed by Bebop. Manual edits may be replaced.'',
        ''[tailscale-stable]'',
        ''name=Tailscale stable'',
        ''baseurl=https://pkgs.tailscale.com/stable/fedora/$basearch'',
        ''enabled=1'',
        ''gpgcheck=1'',
        ''repo_gpgcheck=1'',
        ''gpgkey=https://pkgs.tailscale.com/stable/fedora/repo.gpg'',
        ''EOF'',
        ''chown root:root \"$tmp\"'',
        ''chmod 0644 \"$tmp\"'',
        ''mv -f \"$tmp\" /etc/yum.repos.d/tailscale.repo'',
        ''trap - EXIT'',
        ''dnf5 -y install tailscale'']"

definition opensuse_tailscale_repository_safe_script :: "string \<Rightarrow> string" where
  "opensuse_tailscale_repository_safe_script repository =
     (let base_url = ''https://pkgs.tailscale.com/'' @ repository @ ''/$basearch'' in
     let key_url = ''https://pkgs.tailscale.com/'' @ repository @ ''/repo.gpg'' in
     unlines
       [''if test -e /etc/zypp/repos.d/tailscale.repo; then'',
        ''  grep -Fqx '# Managed by Bebop. Manual edits may be replaced.' /etc/zypp/repos.d/tailscale.repo'',
        ''  grep -Fqx '' @ shell_quote (''baseurl='' @ base_url) @ '' /etc/zypp/repos.d/tailscale.repo'',
        ''  grep -Fqx 'enabled=1' /etc/zypp/repos.d/tailscale.repo'',
        ''  grep -Fqx 'gpgcheck=1' /etc/zypp/repos.d/tailscale.repo'',
        ''  grep -Fqx 'repo_gpgcheck=1' /etc/zypp/repos.d/tailscale.repo'',
        ''  grep -Fqx 'pkg_gpgcheck=1' /etc/zypp/repos.d/tailscale.repo'',
        ''  grep -Fqx '' @ shell_quote (''gpgkey='' @ key_url) @ '' /etc/zypp/repos.d/tailscale.repo'',
        ''fi'',
        ''for candidate in /etc/zypp/repos.d/*.repo; do'',
        ''  test -f \"$candidate\" || continue'',
        ''  test \"$candidate\" = /etc/zypp/repos.d/tailscale.repo && continue'',
        ''  ! grep -Fq 'pkgs.tailscale.com/stable/' \"$candidate\" 2>/dev/null'',
        ''done''])"

definition opensuse_tailscale_install_script :: "string \<Rightarrow> string" where
  "opensuse_tailscale_install_script repository =
     (let base_url = ''https://pkgs.tailscale.com/'' @ repository @ ''/$basearch'' in
     let key_url = ''https://pkgs.tailscale.com/'' @ repository @ ''/repo.gpg'' in
     unlines
       [''set -eu'',
        ''command -v curl >/dev/null 2>&1'',
        ''command -v gpg >/dev/null 2>&1'',
        ''key_tmp=$(mktemp /tmp/.bebop-tailscale-key.XXXXXX)'',
        ''tmp=$(mktemp /etc/zypp/repos.d/.tailscale.repo.XXXXXX)'',
        ''trap 'rm -f \"$key_tmp\" \"$tmp\"' EXIT'',
        ''curl --fail --silent --show-error --location '' @ shell_quote key_url @ '' --output \"$key_tmp\"'',
        ''fingerprint=$(gpg --show-keys --with-colons \"$key_tmp\" 2>/dev/null | awk -F: '$1 == \"fpr\" { print $10; exit }')'',
        ''test \"$fingerprint\" = '' @ shell_quote tailscale_opensuse_signing_key_fingerprint,
        ''rpm --import \"$key_tmp\"'',
        ''cat >\"$tmp\" <<'EOF'' @ squote,
        ''# Managed by Bebop. Manual edits may be replaced.'',
        ''[tailscale-stable]'',
        ''name=Tailscale stable'',
        ''baseurl='' @ base_url,
        ''enabled=1'',
        ''autorefresh=1'',
        ''type=rpm-md'',
        ''gpgcheck=1'',
        ''repo_gpgcheck=1'',
        ''pkg_gpgcheck=1'',
        ''gpgkey='' @ key_url,
        ''EOF'',
        ''chown root:root \"$tmp\"'',
        ''chmod 0644 \"$tmp\"'',
        ''mv -f \"$tmp\" /etc/zypp/repos.d/tailscale.repo'',
        ''rm -f \"$key_tmp\"'',
        ''trap - EXIT'',
        ''zypper --non-interactive install tailscale''])"

definition enterprise_tailscale_repository_safe_script :: "string \<Rightarrow> string \<Rightarrow> string" where
  "enterprise_tailscale_repository_safe_script family major =
     (let base_url = ''https://pkgs.tailscale.com/stable/'' @ family @ ''/'' @ major @ ''/$basearch'' in
     let key_url = ''https://pkgs.tailscale.com/stable/'' @ family @ ''/'' @ major @ ''/repo.gpg'' in
     unlines
       [''if test -e /etc/yum.repos.d/tailscale.repo; then'',
        ''  grep -Fqx '# Managed by Bebop. Manual edits may be replaced.' /etc/yum.repos.d/tailscale.repo'',
        ''  grep -Fqx '' @ shell_quote (''baseurl='' @ base_url) @ '' /etc/yum.repos.d/tailscale.repo'',
        ''  grep -Fqx 'gpgcheck=1' /etc/yum.repos.d/tailscale.repo'',
        ''  grep -Fqx 'repo_gpgcheck=1' /etc/yum.repos.d/tailscale.repo'',
        ''  grep -Fqx '' @ shell_quote (''gpgkey='' @ key_url) @ '' /etc/yum.repos.d/tailscale.repo'',
        ''fi'',
        ''for candidate in /etc/yum.repos.d/*.repo; do'',
        ''  test -f \"$candidate\" || continue'',
        ''  test \"$candidate\" = /etc/yum.repos.d/tailscale.repo && continue'',
        ''  ! grep -Fq 'pkgs.tailscale.com/stable/' \"$candidate\" 2>/dev/null'',
        ''done''])"

definition enterprise_tailscale_install_script :: "string \<Rightarrow> string \<Rightarrow> string" where
  "enterprise_tailscale_install_script family major =
     (let base_url = ''https://pkgs.tailscale.com/stable/'' @ family @ ''/'' @ major @ ''/$basearch'' in
     let key_url = ''https://pkgs.tailscale.com/stable/'' @ family @ ''/'' @ major @ ''/repo.gpg'' in
     unlines
       [''tmp=$(mktemp /etc/yum.repos.d/.tailscale.repo.XXXXXX)'',
        ''trap 'rm -f \"$tmp\"' EXIT'',
        ''cat >\"$tmp\" <<'EOF'' @ squote,
        ''# Managed by Bebop. Manual edits may be replaced.'',
        ''[tailscale-stable]'',
        ''name=Tailscale stable'',
        ''baseurl='' @ base_url,
        ''enabled=1'',
        ''gpgcheck=1'',
        ''repo_gpgcheck=1'',
        ''gpgkey='' @ key_url,
        ''EOF'',
        ''chown root:root \"$tmp\"'',
        ''chmod 0644 \"$tmp\"'',
        ''mv -f \"$tmp\" /etc/yum.repos.d/tailscale.repo'',
        ''trap - EXIT'',
        ''dnf -y install tailscale''])"

definition tailscale_install_script :: "string \<Rightarrow> string \<Rightarrow> string" where
  "tailscale_install_script distribution codename =
     (let base = ''https://pkgs.tailscale.com/stable/'' @ distribution @ ''/'' @ codename in
     unlines
       [''export DEBIAN_FRONTEND=noninteractive'',
        ''apt-get update'',
        ''apt-get install -y ca-certificates curl'',
        ''install -d -m 0755 /usr/share/keyrings'',
        ''key_tmp=$(mktemp /usr/share/keyrings/.tailscale-key.XXXXXX)'',
        ''list_tmp=$(mktemp /etc/apt/sources.list.d/.tailscale.XXXXXX)'',
        ''trap 'rm -f \"$key_tmp\" \"$list_tmp\"' EXIT'',
        ''curl --fail --silent --show-error --location '' @ shell_quote (base @ ''.noarmor.gpg'') @ '' --output \"$key_tmp\"'',
        ''curl --fail --silent --show-error --location '' @ shell_quote (base @ ''.list'') @ '' --output \"$list_tmp\"'',
        ''chown root:root \"$key_tmp\" \"$list_tmp\"'',
        ''chmod 0644 \"$key_tmp\" \"$list_tmp\"'',
        ''mv -f \"$key_tmp\" /usr/share/keyrings/tailscale-archive-keyring.gpg'',
        ''mv -f \"$list_tmp\" /etc/apt/sources.list.d/tailscale.list'',
        ''trap - EXIT'',
        ''apt-get update'',
        ''apt-get install -y tailscale''])"

definition tailscale_repository :: "os \<Rightarrow> (string \<times> string) option" where
  "tailscale_repository os =
     (let codename = (if os_version_codename os \<noteq> [] then os_version_codename os
        else if os_id os = ''debian'' \<or> os_id os = ''raspbian''
        then (if os_version_id os = ''12'' then ''bookworm'' else if os_version_id os = ''13'' then ''trixie'' else [])
        else if os_id os = ''ubuntu''
        then (if os_version_id os = ''22.04'' then ''jammy'' else if os_version_id os = ''24.04'' then ''noble'' else [])
        else [])
      in if (os_id os = ''debian'' \<or> os_id os = ''raspbian'') \<and> (codename = ''bookworm'' \<or> codename = ''trixie'')
         then Some (''debian'', codename)
         else if os_id os = ''ubuntu'' \<and> (codename = ''jammy'' \<or> codename = ''noble'') then Some (''ubuntu'', codename)
         else None)"

definition arch_tailscale_package :: "change" where
  "arch_tailscale_package = zero_change\<lparr>ch_id := ''tailscale.package'',
      ch_module := ''tailscale'',
      ch_summary := ''install Tailscale'',
      ch_reason := ''Tailscale is not installed'',
      ch_risk := Privileged,
      ch_requires_root := True,
      ch_current := ''not installed'',
      ch_desired := ''official Arch tailscale package installed'',
      ch_preconditions := [\<lparr>pc_id = ''tailscale.package-absent'', pc_description = ''tailscale is still not installed'', pc_script = ''! pacman -Q tailscale >/dev/null 2>&1''\<rparr>, \<lparr>pc_id = ''tailscale.arch-package-available'', pc_description = ''the existing Pacman sync database advertises the official tailscale package'', pc_script = arch_tailscale_package_available_script\<rparr>],
      ch_action := zero_action\<lparr>ac_kind := ''tailscale.install'', ac_resource := ''arch'', ac_script := ''pacman -S --needed --noconfirm tailscale''\<rparr>,
      ch_verification := ''tailscale package is installed''\<rparr>"

definition arch_tailscale_change :: "host_facts \<Rightarrow> change" where
  "arch_tailscale_change host =
     (let change = arch_tailscale_package in
     let change =
       (if \<not> ts_package_available (hf_tailscale host)
        then withhold ''the current Pacman sync database does not advertise official Arch tailscale; perform a reviewed full pacman -Syu manually and retry (Bebop never runs pacman -Sy)'' change
        else root_blocked change (hf_sudo_available host)) in
     change)"

definition opensuse_tailscale_package_refused :: "host_facts \<Rightarrow> change" where
  "opensuse_tailscale_package_refused host = zero_change\<lparr>ch_id := ''tailscale.package'',
      ch_module := ''tailscale'',
      ch_summary := ''install Tailscale'',
      ch_reason := ''Tailscale is not installed'',
      ch_risk := Privileged,
      ch_requires_root := True,
      ch_current := ''not installed'',
      ch_desired := ''Tailscale installed from its official signed openSUSE repository'',
      ch_action := zero_action\<lparr>ac_kind := ''tailscale.install'', ac_resource := ''opensuse''\<rparr>,
      ch_verification := ''tailscale package is installed'',
      ch_blocked := ''Bebop does not have a reviewed Tailscale repository mapping for '' @ os_display (hf_os host)\<rparr>"

definition opensuse_tailscale_package :: "string \<Rightarrow> change" where
  "opensuse_tailscale_package repository = zero_change\<lparr>ch_id := ''tailscale.package'',
      ch_module := ''tailscale'',
      ch_summary := ''install Tailscale'',
      ch_reason := ''Tailscale is not installed'',
      ch_risk := Privileged,
      ch_requires_root := True,
      ch_current := ''not installed'',
      ch_desired := ''Tailscale installed from its official signed openSUSE repository'',
      ch_preconditions := [\<lparr>pc_id = ''tailscale.package-absent'', pc_description = ''tailscale is still not installed'', pc_script = ''! rpm -q tailscale >/dev/null 2>&1''\<rparr>, \<lparr>pc_id = ''tailscale.repository-safe'', pc_description = ''the Tailscale repository is absent or Bebop-managed'', pc_script = opensuse_tailscale_repository_safe_script repository\<rparr>],
      ch_action := zero_action\<lparr>ac_kind := ''tailscale.install'', ac_resource := ''opensuse'', ac_script := opensuse_tailscale_install_script repository\<rparr>,
      ch_verification := ''tailscale package is installed''\<rparr>"

definition opensuse_tailscale_change :: "host_facts \<Rightarrow> change" where
  "opensuse_tailscale_change host =
     ((case opensuse_tailscale_repository_policy (hf_os host) of
        None \<Rightarrow> opensuse_tailscale_package_refused host
      | Some repository \<Rightarrow>
          let change = opensuse_tailscale_package repository in
          let change =
            (if ts_repository_state (hf_tailscale host) = ''unmanaged''
             then withhold ''existing /etc/zypp/repos.d/tailscale.repo is not Bebop-managed; review it manually before Bebop can take ownership'' change
             else root_blocked change (hf_sudo_available host)) in
          change))"

definition enterprise_tailscale_package_refused :: "host_facts \<Rightarrow> change" where
  "enterprise_tailscale_package_refused host = zero_change\<lparr>ch_id := ''tailscale.package'',
      ch_module := ''tailscale'',
      ch_summary := ''install Tailscale'',
      ch_reason := ''Tailscale is not installed'',
      ch_risk := Privileged,
      ch_requires_root := True,
      ch_current := ''not installed'',
      ch_desired := ''Tailscale installed from its official signed package repository'',
      ch_action := zero_action\<lparr>ac_kind := ''tailscale.install'', ac_resource := ''enterprise-linux''\<rparr>,
      ch_verification := ''tailscale package is installed'',
      ch_blocked := ''Bebop does not have a reviewed Tailscale RPM repository mapping for '' @ os_display (hf_os host)\<rparr>"

definition enterprise_tailscale_package :: "string \<Rightarrow> string \<Rightarrow> string \<Rightarrow> change" where
  "enterprise_tailscale_package family major policy_name = zero_change\<lparr>ch_id := ''tailscale.package'',
      ch_module := ''tailscale'',
      ch_summary := ''install Tailscale'',
      ch_reason := ''Tailscale is not installed'',
      ch_risk := Privileged,
      ch_requires_root := True,
      ch_current := ''not installed'',
      ch_desired := ''Tailscale installed from its official signed Enterprise Linux repository'',
      ch_preconditions := [\<lparr>pc_id = ''tailscale.package-absent'', pc_description = ''tailscale is still not installed'', pc_script = ''! rpm -q tailscale >/dev/null 2>&1''\<rparr>, \<lparr>pc_id = ''tailscale.repository-safe'', pc_description = ''the Tailscale repository is absent or Bebop-managed'', pc_script = enterprise_tailscale_repository_safe_script family major\<rparr>],
      ch_action := zero_action\<lparr>ac_kind := ''tailscale.install'', ac_resource := policy_name, ac_script := enterprise_tailscale_install_script family major\<rparr>,
      ch_verification := ''tailscale package is installed''\<rparr>"

definition enterprise_tailscale_change :: "host_facts \<Rightarrow> change" where
  "enterprise_tailscale_change host =
     ((case tailscale_rpm_repository_policy (hf_os host) of
        None \<Rightarrow> enterprise_tailscale_package_refused host
      | Some (family, major) \<Rightarrow>
          let policy_name = family @ ''-'' @ major in
          let change = enterprise_tailscale_package family major policy_name in
          let change =
            (if ts_repository_state (hf_tailscale host) = ''unmanaged''
             then withhold ''existing /etc/yum.repos.d/tailscale.repo is not Bebop-managed; review it manually before Bebop can take ownership'' change
             else root_blocked change (hf_sudo_available host)) in
          change))"

definition fedora_tailscale_package :: "change" where
  "fedora_tailscale_package = zero_change\<lparr>ch_id := ''tailscale.package'',
      ch_module := ''tailscale'',
      ch_summary := ''install Tailscale'',
      ch_reason := ''Tailscale is not installed'',
      ch_risk := Privileged,
      ch_requires_root := True,
      ch_current := ''not installed'',
      ch_desired := ''Tailscale installed from its official signed Fedora repository'',
      ch_preconditions := [\<lparr>pc_id = ''tailscale.package-absent'', pc_description = ''tailscale is still not installed'', pc_script = ''! rpm -q tailscale >/dev/null 2>&1''\<rparr>, \<lparr>pc_id = ''tailscale.repository-safe'', pc_description = ''the Tailscale repository is absent or Bebop-managed'', pc_script = ''if test -e /etc/yum.repos.d/tailscale.repo; then grep -Fqx '# Managed by Bebop. Manual edits may be replaced.' /etc/yum.repos.d/tailscale.repo; fi''\<rparr>],
      ch_action := zero_action\<lparr>ac_kind := ''tailscale.install'', ac_resource := ''fedora'', ac_script := fedora_tailscale_install_script\<rparr>,
      ch_verification := ''tailscale package is installed''\<rparr>"

definition fedora_tailscale_change :: "host_facts \<Rightarrow> change" where
  "fedora_tailscale_change host =
     (let change = fedora_tailscale_package in
     let change =
       (if ts_repository_state (hf_tailscale host) = ''unmanaged''
        then withhold ''existing /etc/yum.repos.d/tailscale.repo is not Bebop-managed; review it manually before Bebop can take ownership'' change
        else root_blocked change (hf_sudo_available host)) in
     change)"

definition devuan_tailscale_package_refused :: "change" where
  "devuan_tailscale_package_refused = zero_change\<lparr>ch_id := ''tailscale.package'',
      ch_module := ''tailscale'',
      ch_summary := ''review Tailscale repository ownership'',
      ch_reason := ''an unmanaged Tailscale Debian Trixie repository/keyring exists'',
      ch_risk := Privileged,
      ch_requires_root := True,
      ch_current := ''unmanaged vendor repository state'',
      ch_desired := ''reviewed Trixie vendor repository'',
      ch_action := zero_action\<lparr>ac_kind := ''tailscale.install'', ac_resource := ''devuan-trixie''\<rparr>,
      ch_verification := ''not applicable'',
      ch_blocked := ''Bebop will not replace an unmanaged Tailscale repository definition or signing key; review it manually before enabling Devuan Tailscale management''\<rparr>"

definition devuan_tailscale_package :: "change" where
  "devuan_tailscale_package = zero_change\<lparr>ch_id := ''tailscale.package'',
      ch_module := ''tailscale'',
      ch_summary := ''install Tailscale'',
      ch_reason := ''the reviewed Tailscale package or Trixie vendor repository is absent'',
      ch_risk := Privileged,
      ch_requires_root := True,
      ch_current := ''Tailscale or its reviewed Trixie vendor source is absent'',
      ch_desired := ''Tailscale installed from the reviewed Debian Trixie vendor repository'',
      ch_preconditions := [\<lparr>pc_id = ''tailscale.devuan-repository-safe'', pc_description = ''the Tailscale repository/keyring is absent or exactly reviewed'', pc_script = devuan_tailscale_repository_safe_script\<rparr>, \<lparr>pc_id = ''tailscale.devuan-distro-candidates'', pc_description = ''bootstrap dependencies resolve exclusively through Devuan Excalibur'', pc_script = devuan_tailscale_distro_candidates\<rparr>],
      ch_action := zero_action\<lparr>ac_kind := ''tailscale.install'', ac_resource := ''devuan-trixie'', ac_script := devuan_tailscale_install_script\<rparr>,
      ch_verification := ''tailscale is installed from the reviewed Debian Trixie vendor repository''\<rparr>"

definition devuan_tailscale_service :: "string list \<Rightarrow> change" where
  "devuan_tailscale_service dependencies = zero_change\<lparr>ch_id := ''tailscale.service'',
      ch_module := ''tailscale'',
      ch_summary := ''enable and start Tailscale'',
      ch_reason := ''the Bebop-owned fixed Tailscale SysVinit wrapper is disabled or inactive'',
      ch_risk := Privileged,
      ch_requires_root := True,
      ch_current := ''tailscaled SysVinit service not ready'',
      ch_desired := ''tailscaled enabled through SysVinit and active'',
      ch_dependencies := dependencies,
      ch_action := zero_action\<lparr>ac_kind := ''tailscale.enable-service'', ac_resource := ''devuan'', ac_script := devuan_tailscale_sysv_script\<rparr>,
      ch_verification := ''fixed Bebop-owned tailscaled SysVinit wrapper is enabled and active''\<rparr>"

definition plan_devuan_tailscale :: "host_facts \<Rightarrow> change list \<times> warning list" where
  "plan_devuan_tailscale host =
     (let changes = [] in
     let need_package = \<not> ts_installed (hf_tailscale host) \<or> ts_repository_state (hf_tailscale host) \<noteq> ''managed'' in
     (if ts_repository_state (hf_tailscale host) = ''unmanaged''
      then ([devuan_tailscale_package_refused], [])
      else let changes =
       (if need_package
        then let change = devuan_tailscale_package in
             let change =
               (if ts_repository_state (hf_tailscale host) = ''managed'' \<and> \<not> ts_package_available (hf_tailscale host)
                then withhold ''the reviewed Debian Trixie vendor repository does not advertise tailscale for this target; Bebop will not use another package source'' change
                else root_blocked change (hf_sudo_available host)) in
             changes @ [change]
        else changes) in
     let changes =
       (if \<not> ts_service_enabled (hf_tailscale host) \<or> \<not> ts_service_active (hf_tailscale host)
        then let dependencies = [] in
             let dependencies =
               (if need_package
                then [''tailscale.package'']
                else dependencies) in
             let change = devuan_tailscale_service dependencies in
             let change =
               (if ts_service_link_state (hf_tailscale host) = ''conflict''
                then withhold ''existing /etc/init.d/tailscaled is not Bebop-owned; Bebop will not replace an unmanaged service wrapper'' change
                else if need_package \<and> changes \<noteq> [] \<and> ch_blocked (hd changes) \<noteq> []
                then withhold ''Devuan Tailscale package installation is blocked'' change
                else root_blocked change (hf_sudo_available host)) in
             changes @ [change]
        else changes) in
     let warnings = [] in
     let warnings =
       (if ts_installed (hf_tailscale host) \<and> \<not> ts_connected (hf_tailscale host)
        then warnings @ [\<lparr>wa_id = ''tailscale.authentication'', wa_module = ''tailscale'', wa_summary = ''Tailscale is installed but this node is not authenticated'', wa_resolution = ''Run on the target: sudo tailscale up''\<rparr>]
        else warnings) in
     (changes, warnings)))"

definition artix_tailscale_package :: "change" where
  "artix_tailscale_package = zero_change\<lparr>ch_id := ''tailscale.package'',
      ch_module := ''tailscale'',
      ch_summary := ''install Tailscale'',
      ch_reason := ''the reviewed Artix Tailscale package set is incomplete'',
      ch_risk := Privileged,
      ch_requires_root := True,
      ch_current := ''tailscale or tailscale-dinit is not installed'',
      ch_desired := ''official Artix world Tailscale package and packaged dinit integration installed'',
      ch_preconditions := [\<lparr>pc_id = ''tailscale.artix-packages-available'', pc_description = ''the existing Pacman sync database advertises reviewed Artix world packages'', pc_script = artix_tailscale_packages_available_script\<rparr>],
      ch_action := zero_action\<lparr>ac_kind := ''tailscale.install'', ac_resource := ''artix-world'', ac_script := ''pacman -S --needed --noconfirm world/tailscale world/tailscale-dinit''\<rparr>,
      ch_verification := ''reviewed Artix Tailscale package and dinit service are installed''\<rparr>"

definition artix_tailscale_service :: "string list \<Rightarrow> change" where
  "artix_tailscale_service dependencies = zero_change\<lparr>ch_id := ''tailscale.service'',
      ch_module := ''tailscale'',
      ch_summary := ''enable and start Tailscale'',
      ch_reason := ''the packaged Artix tailscaled dinit service is disabled or inactive'',
      ch_risk := Privileged,
      ch_requires_root := True,
      ch_current := ''tailscaled dinit service not ready'',
      ch_desired := ''tailscaled persistently enabled through dinit and active'',
      ch_dependencies := dependencies,
      ch_action := zero_action\<lparr>ac_kind := ''tailscale.enable-service'', ac_resource := ''artix'', ac_script := dinit_enable_and_start_script ''tailscaled''\<rparr>,
      ch_verification := ''packaged tailscaled dinit service is enabled and active''\<rparr>"

definition plan_artix_tailscale :: "host_facts \<Rightarrow> change list \<times> warning list" where
  "plan_artix_tailscale host =
     (let changes = [] in
     let need_package = \<not> ts_installed (hf_tailscale host) \<or> \<not> ts_service_definition (hf_tailscale host) in
     let changes =
       (if need_package
        then let change = artix_tailscale_package in
             let change =
               (if \<not> ts_package_available (hf_tailscale host)
                then withhold ''the current Pacman sync database does not advertise reviewed Artix world Tailscale packages; perform a reviewed full Artix upgrade manually and retry (Bebop never runs pacman -Sy)'' change
                else root_blocked change (hf_sudo_available host)) in
             changes @ [change]
        else changes) in
     let changes =
       (if \<not> ts_service_enabled (hf_tailscale host) \<or> \<not> ts_service_active (hf_tailscale host)
        then let dependencies = [] in
             let dependencies =
               (if need_package
                then [''tailscale.package'']
                else dependencies) in
             let change = artix_tailscale_service dependencies in
             let change =
               (if ts_installed (hf_tailscale host) \<and> \<not> ts_service_definition (hf_tailscale host)
                then withhold ''the installed Artix Tailscale package does not provide the reviewed /etc/dinit.d/tailscaled service; Bebop will not create a replacement'' change
                else if need_package \<and> changes \<noteq> [] \<and> ch_blocked (hd changes) \<noteq> []
                then withhold ''Artix Tailscale package installation is blocked'' change
                else root_blocked change (hf_sudo_available host)) in
             changes @ [change]
        else changes) in
     let warnings = [] in
     let warnings =
       (if ts_installed (hf_tailscale host) \<and> \<not> ts_connected (hf_tailscale host)
        then warnings @ [\<lparr>wa_id = ''tailscale.authentication'', wa_module = ''tailscale'', wa_summary = ''Tailscale is installed but this node is not authenticated'', wa_resolution = ''Run on the target: sudo tailscale up''\<rparr>]
        else warnings) in
     (changes, warnings))"

definition void_tailscale_package_refused :: "change" where
  "void_tailscale_package_refused = zero_change\<lparr>ch_id := ''tailscale.package'',
      ch_module := ''tailscale'',
      ch_summary := ''review Void package repository'',
      ch_reason := ''the target architecture/libc has no reviewed Void package mapping'',
      ch_risk := Privileged,
      ch_requires_root := True,
      ch_current := ''unreviewed Void package source'',
      ch_desired := ''reviewed official Void repository'',
      ch_action := zero_action\<lparr>ac_kind := ''tailscale.install'', ac_resource := ''void''\<rparr>,
      ch_verification := ''not applicable'',
      ch_blocked := ''Bebop does not have a reviewed official Void repository mapping for this architecture/libc combination''\<rparr>"

definition void_tailscale_package_refused2 :: "change" where
  "void_tailscale_package_refused2 = zero_change\<lparr>ch_id := ''tailscale.package'',
      ch_module := ''tailscale'',
      ch_summary := ''review installed Tailscale provenance'',
      ch_reason := ''the installed Tailscale package was not recorded from the reviewed Void repository'',
      ch_risk := Privileged,
      ch_requires_root := True,
      ch_current := ''unmanaged Tailscale package provenance'',
      ch_desired := ''reviewed official Void tailscale package'',
      ch_action := zero_action\<lparr>ac_kind := ''tailscale.install'', ac_resource := ''void''\<rparr>,
      ch_verification := ''not applicable'',
      ch_blocked := ''Bebop will not adopt an installed Tailscale package whose XBPS repository is not the reviewed official Void repository''\<rparr>"

definition void_tailscale_package :: "string \<Rightarrow> change" where
  "void_tailscale_package repository = zero_change\<lparr>ch_id := ''tailscale.package'',
      ch_module := ''tailscale'',
      ch_summary := ''install Tailscale'',
      ch_reason := ''Tailscale is not installed'',
      ch_risk := Privileged,
      ch_requires_root := True,
      ch_current := ''not installed'',
      ch_desired := ''official Void tailscale package installed'',
      ch_preconditions := [\<lparr>pc_id = ''tailscale.void-package-available'', pc_description = ''the reviewed official Void repository advertises tailscale'', pc_script = void_packages_available_script repository [''tailscale'']\<rparr>, \<lparr>pc_id = ''tailscale.void-package-provenance'', pc_description = ''any installed Tailscale package came from the reviewed official Void repository'', pc_script = void_package_provenance_safety_script repository [''tailscale'']\<rparr>, \<lparr>pc_id = ''tailscale.void-package-constraints'', pc_description = ''tailscale is not held or repolocked'', pc_script = void_tailscale_hold_safety_script\<rparr>],
      ch_action := zero_action\<lparr>ac_kind := ''tailscale.install'', ac_resource := ''void'', ac_script := void_package_install_script repository [''tailscale'']\<rparr>,
      ch_verification := ''official Void tailscale package is installed''\<rparr>"

definition void_tailscale_service :: "string list \<Rightarrow> change" where
  "void_tailscale_service dependencies = zero_change\<lparr>ch_id := ''tailscale.service'',
      ch_module := ''tailscale'',
      ch_summary := ''enable and start Tailscale'',
      ch_reason := ''runit Tailscale service is disabled or inactive'',
      ch_risk := Privileged,
      ch_requires_root := True,
      ch_current := ''tailscaled runit service not ready'',
      ch_desired := ''tailscaled enabled under runit and active'',
      ch_dependencies := dependencies,
      ch_action := zero_action\<lparr>ac_kind := ''tailscale.enable-service'', ac_resource := ''void'', ac_script := runit_enable_and_start_script ''tailscaled''\<rparr>,
      ch_verification := ''tailscaled runit service link is correct and active''\<rparr>"

definition plan_void_tailscale :: "host_facts \<Rightarrow> change list \<times> warning list" where
  "plan_void_tailscale host =
     ((case void_repository (hf_architecture host) (hf_libc host) of
        None \<Rightarrow> ([void_tailscale_package_refused], [])
      | Some repository \<Rightarrow>
          (if ts_repository_state (hf_tailscale host) = ''unmanaged''
           then ([void_tailscale_package_refused2], [])
           else let changes = [] in
          let changes =
            (if \<not> ts_installed (hf_tailscale host)
             then let change = void_tailscale_package repository in
                  let change =
                    (if ts_package_held (hf_tailscale host) \<or> ts_package_repolocked (hf_tailscale host)
                     then withhold ''Bebop will not override an XBPS hold or repolock for tailscale; review the package constraint manually'' change
                     else if \<not> ts_package_available (hf_tailscale host)
                     then withhold ''the reviewed official Void repository does not advertise tailscale for this target; Bebop will not use another repository'' change
                     else root_blocked change (hf_sudo_available host)) in
                  changes @ [change]
             else changes) in
          let changes =
            (if \<not> ts_service_enabled (hf_tailscale host) \<or> \<not> ts_service_active (hf_tailscale host)
             then let dependencies = [] in
                  let dependencies =
                    (if \<not> ts_installed (hf_tailscale host)
                     then dependencies @ [''tailscale.package'']
                     else dependencies) in
                  let change = void_tailscale_service dependencies in
                  let change =
                    (if ts_service_link_state (hf_tailscale host) = ''conflict''
                     then withhold ''existing /var/service/tailscaled does not point exactly to the package-provided /etc/sv/tailscaled; Bebop will not replace it'' change
                     else if ts_installed (hf_tailscale host) \<and> \<not> ts_service_definition (hf_tailscale host)
                     then withhold ''the installed Void tailscale package does not provide /etc/sv/tailscaled; Bebop will not create a replacement service definition'' change
                     else if changes \<noteq> [] \<and> ch_blocked (hd changes) \<noteq> []
                     then withhold ''Void Tailscale package installation is blocked'' change
                     else root_blocked change (hf_sudo_available host)) in
                  changes @ [change]
             else changes) in
          let warnings = [] in
          let warnings =
            (if ts_installed (hf_tailscale host) \<and> \<not> ts_connected (hf_tailscale host)
             then warnings @ [\<lparr>wa_id = ''tailscale.authentication'', wa_module = ''tailscale'', wa_summary = ''Tailscale is installed but this node is not authenticated'', wa_resolution = ''Run on the target: sudo tailscale up''\<rparr>]
             else warnings) in
          (changes, warnings))))"

definition alpine_tailscale_package :: "change" where
  "alpine_tailscale_package = zero_change\<lparr>ch_id := ''tailscale.package'',
      ch_module := ''tailscale'',
      ch_summary := ''install Tailscale'',
      ch_reason := ''the reviewed Alpine Tailscale package set or repository definition is incomplete'',
      ch_risk := Privileged,
      ch_requires_root := True,
      ch_current := ''tailscale, tailscale-openrc, or Bebop's v3.24 repository file is absent'',
      ch_desired := ''official Alpine v3.24 community Tailscale and OpenRC packages installed'',
      ch_preconditions := [\<lparr>pc_id = ''tailscale.alpine-repository-safe'', pc_description = ''Bebop's APK repository definition is absent or exact'', pc_script = alpine_docker_repository_safe_script\<rparr>, \<lparr>pc_id = ''tailscale.alpine-package-available'', pc_description = ''the official Alpine v3.24 community repository advertises Tailscale'', pc_script = ''for package in tailscale tailscale-openrc; do apk policy \"$package\" 2>/dev/null | grep -Fq 'https://dl-cdn.alpinelinux.org/alpine/v3.24/community' || exit 1; done''\<rparr>],
      ch_action := zero_action\<lparr>ac_kind := ''tailscale.install'', ac_resource := ''alpine'', ac_script := alpine_tailscale_install_script\<rparr>,
      ch_verification := ''Tailscale and its Alpine OpenRC package are installed''\<rparr>"

definition alpine_tailscale_service :: "string list \<Rightarrow> change" where
  "alpine_tailscale_service dependencies = zero_change\<lparr>ch_id := ''tailscale.service'',
      ch_module := ''tailscale'',
      ch_summary := ''enable and start Tailscale'',
      ch_reason := ''Alpine Tailscale OpenRC service is disabled or inactive'',
      ch_risk := Privileged,
      ch_requires_root := True,
      ch_current := ''tailscale OpenRC service not ready'',
      ch_desired := ''Tailscale enabled in default runlevel and active'',
      ch_dependencies := dependencies,
      ch_action := zero_action\<lparr>ac_kind := ''tailscale.enable-service'', ac_resource := ''alpine'', ac_script := unlines
       [''rc-update add tailscale default'',
        ''rc-service tailscale start'']\<rparr>,
      ch_verification := ''Tailscale OpenRC service is enabled and active''\<rparr>"

definition plan_alpine_tailscale :: "host_facts \<Rightarrow> change list \<times> warning list" where
  "plan_alpine_tailscale host =
     (let changes = [] in
     let need_package = \<not> ts_installed (hf_tailscale host) \<or> ts_repository_state (hf_tailscale host) \<noteq> ''managed'' in
     let changes =
       (if need_package
        then let change = alpine_tailscale_package in
             let change =
               (if ts_repository_state (hf_tailscale host) = ''unmanaged''
                then withhold ''existing /etc/apk/repositories.d/50-bebop.list is not Bebop-managed; review it manually before Bebop can take ownership'' change
                else if \<not> ts_package_available (hf_tailscale host)
                then withhold ''the target's official Alpine v3.24 community repository does not advertise tailscale and tailscale-openrc'' change
                else root_blocked change (hf_sudo_available host)) in
             changes @ [change]
        else changes) in
     let changes =
       (if \<not> ts_service_enabled (hf_tailscale host) \<or> \<not> ts_service_active (hf_tailscale host)
        then let dependencies = [] in
             let dependencies =
               (if need_package
                then dependencies @ [''tailscale.package'']
                else dependencies) in
             let change = alpine_tailscale_service dependencies in
             let change =
               (if changes \<noteq> [] \<and> ch_blocked (hd changes) \<noteq> []
                then block ''Tailscale package installation is blocked'' change
                else root_blocked change (hf_sudo_available host)) in
             changes @ [change]
        else changes) in
     let warnings = [] in
     let warnings =
       (if ts_installed (hf_tailscale host) \<and> \<not> ts_connected (hf_tailscale host)
        then warnings @ [\<lparr>wa_id = ''tailscale.authentication'', wa_module = ''tailscale'', wa_summary = ''Tailscale is installed but this node is not authenticated'', wa_resolution = ''Run on the target: sudo tailscale up''\<rparr>]
        else warnings) in
     (changes, warnings))"

definition tailscale_repository_refused :: "string \<Rightarrow> string \<Rightarrow> change" where
  "tailscale_repository_refused platform resource = zero_change\<lparr>ch_id := ''tailscale.repository'',
      ch_module := ''tailscale'',
      ch_summary := ''review Tailscale repository ownership'',
      ch_reason := ''an unmanaged '' @ platform @ '' Tailscale repository definition exists'',
      ch_risk := Privileged,
      ch_requires_root := True,
      ch_current := ''unmanaged /etc/yum.repos.d/tailscale.repo'',
      ch_desired := ''Bebop-reviewed signed repository configuration'',
      ch_action := zero_action\<lparr>ac_kind := ''tailscale.repository-conflict'', ac_resource := resource\<rparr>,
      ch_verification := ''not applicable until repository ownership is resolved'',
      ch_blocked := ''Bebop will not accept an unmanaged Tailscale repository definition on '' @ platform @ ''; review it manually before enabling Tailscale management''\<rparr>"

definition tailscale_package_refused :: "host_facts \<Rightarrow> change" where
  "tailscale_package_refused host = zero_change\<lparr>ch_id := ''tailscale.package'',
      ch_module := ''tailscale'',
      ch_summary := ''install Tailscale'',
      ch_reason := ''Tailscale is not installed'',
      ch_risk := Privileged,
      ch_requires_root := True,
      ch_current := ''not installed'',
      ch_desired := ''Tailscale installed from its official signed package repository'',
      ch_action := zero_action\<lparr>ac_kind := ''tailscale.install'', ac_resource := os_id (hf_os host)\<rparr>,
      ch_verification := ''tailscale package is installed'',
      ch_blocked := ''Bebop does not have a reviewed Tailscale repository mapping for '' @ os_display (hf_os host)\<rparr>"

definition tailscale_package :: "string \<Rightarrow> string \<Rightarrow> change" where
  "tailscale_package distribution codename = zero_change\<lparr>ch_id := ''tailscale.package'',
      ch_module := ''tailscale'',
      ch_summary := ''install Tailscale'',
      ch_reason := ''Tailscale is not installed'',
      ch_risk := Privileged,
      ch_requires_root := True,
      ch_current := ''not installed'',
      ch_desired := ''Tailscale installed from its official signed package repository'',
      ch_preconditions := [\<lparr>pc_id = ''tailscale.package-absent'', pc_description = ''tailscale is still not installed'', pc_script = ''! dpkg-query -W -f='${db:Status-Status}' tailscale 2>/dev/null | grep -qx installed''\<rparr>],
      ch_action := zero_action\<lparr>ac_kind := ''tailscale.install'', ac_resource := distribution @ ''/'' @ codename, ac_script := tailscale_install_script distribution codename\<rparr>,
      ch_verification := ''tailscale package is installed''\<rparr>"

definition tailscale_service :: "change" where
  "tailscale_service = zero_change\<lparr>ch_id := ''tailscale.service'',
      ch_module := ''tailscale'',
      ch_summary := ''enable and start Tailscale'',
      ch_reason := ''tailscaled.service is disabled or inactive'',
      ch_risk := Privileged,
      ch_requires_root := True,
      ch_current := ''disabled or inactive'',
      ch_desired := ''tailscaled.service enabled and active'',
      ch_action := zero_action\<lparr>ac_kind := ''tailscale.enable-service'', ac_script := ''systemctl enable --now tailscaled.service''\<rparr>,
      ch_verification := ''tailscaled.service is enabled and active''\<rparr>"

definition tailscale_service2 :: "change" where
  "tailscale_service2 = zero_change\<lparr>ch_id := ''tailscale.service'',
      ch_module := ''tailscale'',
      ch_summary := ''enable and start Tailscale'',
      ch_reason := ''tailscaled.service will be provided by the package'',
      ch_risk := Privileged,
      ch_requires_root := True,
      ch_current := ''unavailable until package install'',
      ch_desired := ''tailscaled.service enabled and active'',
      ch_dependencies := [''tailscale.package''],
      ch_action := zero_action\<lparr>ac_kind := ''tailscale.enable-service'', ac_script := ''systemctl enable --now tailscaled.service''\<rparr>,
      ch_verification := ''tailscaled.service is enabled and active''\<rparr>"

definition plan_tailscale :: "host_facts \<Rightarrow> config \<Rightarrow> change list \<times> warning list" where
  "plan_tailscale host cfg =
     (if \<not> ft_tailscale (cfg_features cfg)
      then ([], [])
      else if os_family (hf_os host) = ''alpine'' \<and> hf_package_manager host = ''apk''
      then plan_alpine_tailscale host
      else if os_family (hf_os host) = ''void'' \<and> hf_package_manager host = ''xbps''
      then plan_void_tailscale host
      else if os_family (hf_os host) = ''devuan'' \<and> hf_package_manager host = ''apt''
      then plan_devuan_tailscale host
      else if os_family (hf_os host) = ''artix'' \<and> hf_package_manager host = ''pacman''
      then plan_artix_tailscale host
      else if (hf_package_manager host = ''dnf5'' \<or> (os_family (hf_os host) = ''enterprise-linux'' \<and> hf_package_manager host = ''dnf'') \<or> (os_family (hf_os host) = ''opensuse'' \<and> hf_package_manager host = ''zypper'')) \<and> ts_repository_state (hf_tailscale host) = ''unmanaged''
      then let platform = ''Fedora'' in
           let resource = ''fedora'' in
           let (platform, resource) =
             (if hf_package_manager host = ''dnf''
              then let platform = ''Enterprise Linux'' in
                   let resource =
                     (case tailscale_rpm_repository_policy (hf_os host) of
                        None \<Rightarrow> resource
                      | Some (family, major) \<Rightarrow> family @ ''-'' @ major) in
                   (platform, resource)
              else (platform, resource)) in
           let (platform, resource) =
             (if hf_package_manager host = ''zypper''
              then let platform = ''openSUSE'' in
                   let resource = ''opensuse'' in
                   (platform, resource)
              else (platform, resource)) in
           ([tailscale_repository_refused platform resource], [])
      else let changes = [] in
     let warnings = [] in
     let needs_rpm_repository = (hf_package_manager host = ''dnf5'' \<or> (os_family (hf_os host) = ''enterprise-linux'' \<and> hf_package_manager host = ''dnf'') \<or> (os_family (hf_os host) = ''opensuse'' \<and> hf_package_manager host = ''zypper'')) \<and> ts_repository_state (hf_tailscale host) \<noteq> ''managed'' in
     let changes =
       (if \<not> ts_installed (hf_tailscale host) \<or> needs_rpm_repository
        then let changes =
               (if hf_package_manager host = ''dnf5''
                then let change = fedora_tailscale_change host in
                     changes @ [change]
                else if os_family (hf_os host) = ''enterprise-linux'' \<and> hf_package_manager host = ''dnf''
                then changes @ [enterprise_tailscale_change host]
                else if os_family (hf_os host) = ''opensuse'' \<and> hf_package_manager host = ''zypper''
                then changes @ [opensuse_tailscale_change host]
                else if os_family (hf_os host) = ''arch'' \<and> hf_package_manager host = ''pacman''
                then changes @ [arch_tailscale_change host]
                else (case tailscale_repository (hf_os host) of
                  None \<Rightarrow> changes @ [tailscale_package_refused host]
                | Some (distribution, codename) \<Rightarrow> let change = tailscale_package distribution codename in
                     let change = root_blocked change (hf_sudo_available host) in
                     changes @ [change])) in
             changes
        else changes) in
     let changes =
       (if ts_installed (hf_tailscale host) \<and> (\<not> ts_service_enabled (hf_tailscale host) \<or> \<not> ts_service_active (hf_tailscale host))
        then let change = tailscale_service in
             let change = root_blocked change (hf_sudo_available host) in
             changes @ [change]
        else if \<not> ts_installed (hf_tailscale host)
        then let change = tailscale_service2 in
             let change =
               (if ch_blocked (hd changes) \<noteq> []
                then block ''Tailscale package installation is blocked'' change
                else root_blocked change (hf_sudo_available host)) in
             changes @ [change]
        else changes) in
     let warnings =
       (if ts_installed (hf_tailscale host) \<and> \<not> ts_connected (hf_tailscale host)
        then warnings @ [\<lparr>wa_id = ''tailscale.authentication'', wa_module = ''tailscale'', wa_summary = ''Tailscale is installed but this node is not authenticated'', wa_resolution = ''Run on the target: sudo tailscale up''\<rparr>]
        else warnings) in
     (changes, warnings))"

definition tailscale_verify_script :: "change \<Rightarrow> string" where
  "tailscale_verify_script change =
     (if ac_kind (ch_action change) = ''tailscale.install''
      then (if ac_resource (ch_action change) = ''void''
            then ''xbps-query -p pkgver tailscale >/dev/null''
            else if ac_resource (ch_action change) = ''alpine''
            then unlines
       [''apk info -e tailscale tailscale-openrc >/dev/null'',
        alpine_docker_repository_safe_script]
            else if ac_resource (ch_action change) = ''arch''
            then ''pacman -Q tailscale >/dev/null''
            else if ac_resource (ch_action change) = ''artix-world''
            then ''pacman -Q tailscale tailscale-dinit >/dev/null''
            else if ac_resource (ch_action change) = ''devuan-trixie''
            then unlines
       [''dpkg-query -W -f='${db:Status-Status}' tailscale | grep -qx installed'',
        devuan_tailscale_vendor_candidate]
            else if ac_resource (ch_action change) = ''fedora''
            then ''rpm -q tailscale >/dev/null''
            else if has_prefix (ac_resource (ch_action change)) ''centos-'' \<or> has_prefix (ac_resource (ch_action change)) ''rhel-''
            then ''rpm -q tailscale >/dev/null''
            else if ac_resource (ch_action change) = ''opensuse''
            then ''rpm -q tailscale >/dev/null''
            else ''dpkg-query -W -f='${db:Status-Status}' tailscale | grep -qx installed'')
      else if ac_resource (ch_action change) = ''alpine''
      then unlines
       [''rc-update show default | grep -Eq '^[[:space:]]*tailscale([[:space:]]|$)'' @ squote,
        ''rc-service tailscale status >/dev/null'']
      else if ac_resource (ch_action change) = ''void''
      then runit_service_ready_script ''tailscaled''
      else if ac_resource (ch_action change) = ''devuan''
      then unlines
       [''grep -Fqx '# Managed by Bebop. Manual edits may be replaced.' /etc/init.d/tailscaled'',
        sysv_service_ready_script ''tailscaled'']
      else if ac_resource (ch_action change) = ''artix''
      then dinit_service_ready_script ''tailscaled''
      else unlines
       [''systemctl is-enabled tailscaled.service >/dev/null'',
        ''systemctl is-active tailscaled.service >/dev/null''])"

definition tailscale_kinds :: "string list" where
  "tailscale_kinds = [''tailscale.install'', ''tailscale.enable-service'']"

lemma tailscale_scripts [simp]:
  "devuan_tailscale_distro_candidates \<noteq> []"
  "devuan_tailscale_vendor_candidate \<noteq> []"
  "devuan_tailscale_repository_safe_script \<noteq> []"
  "devuan_tailscale_install_script \<noteq> []"
  "devuan_tailscale_sysv_script \<noteq> []"
  "artix_tailscale_packages_available_script \<noteq> []"
  "void_tailscale_hold_safety_script \<noteq> []"
  "alpine_tailscale_install_script \<noteq> []"
  "arch_tailscale_package_available_script \<noteq> []"
  "fedora_tailscale_install_script \<noteq> []"
  "opensuse_tailscale_repository_safe_script a0 \<noteq> []"
  "opensuse_tailscale_install_script a1 \<noteq> []"
  "enterprise_tailscale_repository_safe_script a2 b2 \<noteq> []"
  "enterprise_tailscale_install_script a3 b3 \<noteq> []"
  "tailscale_install_script a4 b4 \<noteq> []"
  by (simp_all add: Let_def devuan_tailscale_distro_candidates_def devuan_tailscale_vendor_candidate_def devuan_tailscale_repository_safe_script_def devuan_tailscale_install_script_def devuan_tailscale_sysv_script_def artix_tailscale_packages_available_script_def void_tailscale_hold_safety_script_def alpine_tailscale_install_script_def arch_tailscale_package_available_script_def fedora_tailscale_install_script_def opensuse_tailscale_repository_safe_script_def opensuse_tailscale_install_script_def enterprise_tailscale_repository_safe_script_def enterprise_tailscale_install_script_def tailscale_install_script_def)

lemma tailscale_literals [simp]:
  "ch_id arch_tailscale_package = ''tailscale.package''"
  "ch_dependencies arch_tailscale_package = []"
  "ch_requires_root arch_tailscale_package"
  "ch_id (opensuse_tailscale_package_refused host) = ''tailscale.package''"
  "ch_dependencies (opensuse_tailscale_package_refused host) = []"
  "ch_requires_root (opensuse_tailscale_package_refused host)"
  "ch_id (opensuse_tailscale_package repository) = ''tailscale.package''"
  "ch_dependencies (opensuse_tailscale_package repository) = []"
  "ch_requires_root (opensuse_tailscale_package repository)"
  "ch_id (enterprise_tailscale_package_refused host) = ''tailscale.package''"
  "ch_dependencies (enterprise_tailscale_package_refused host) = []"
  "ch_requires_root (enterprise_tailscale_package_refused host)"
  "ch_id (enterprise_tailscale_package family major policy_name) = ''tailscale.package''"
  "ch_dependencies (enterprise_tailscale_package family major policy_name) = []"
  "ch_requires_root (enterprise_tailscale_package family major policy_name)"
  "ch_id fedora_tailscale_package = ''tailscale.package''"
  "ch_dependencies fedora_tailscale_package = []"
  "ch_requires_root fedora_tailscale_package"
  "ch_id devuan_tailscale_package_refused = ''tailscale.package''"
  "ch_dependencies devuan_tailscale_package_refused = []"
  "ch_requires_root devuan_tailscale_package_refused"
  "ch_id devuan_tailscale_package = ''tailscale.package''"
  "ch_dependencies devuan_tailscale_package = []"
  "ch_requires_root devuan_tailscale_package"
  "ch_id (devuan_tailscale_service dependencies) = ''tailscale.service''"
  "ch_dependencies (devuan_tailscale_service dependencies) = dependencies"
  "ch_requires_root (devuan_tailscale_service dependencies)"
  "ch_id artix_tailscale_package = ''tailscale.package''"
  "ch_dependencies artix_tailscale_package = []"
  "ch_requires_root artix_tailscale_package"
  "ch_id (artix_tailscale_service dependencies) = ''tailscale.service''"
  "ch_dependencies (artix_tailscale_service dependencies) = dependencies"
  "ch_requires_root (artix_tailscale_service dependencies)"
  "ch_id void_tailscale_package_refused = ''tailscale.package''"
  "ch_dependencies void_tailscale_package_refused = []"
  "ch_requires_root void_tailscale_package_refused"
  "ch_id void_tailscale_package_refused2 = ''tailscale.package''"
  "ch_dependencies void_tailscale_package_refused2 = []"
  "ch_requires_root void_tailscale_package_refused2"
  "ch_id (void_tailscale_package repository) = ''tailscale.package''"
  "ch_dependencies (void_tailscale_package repository) = []"
  "ch_requires_root (void_tailscale_package repository)"
  "ch_id (void_tailscale_service dependencies) = ''tailscale.service''"
  "ch_dependencies (void_tailscale_service dependencies) = dependencies"
  "ch_requires_root (void_tailscale_service dependencies)"
  "ch_id alpine_tailscale_package = ''tailscale.package''"
  "ch_dependencies alpine_tailscale_package = []"
  "ch_requires_root alpine_tailscale_package"
  "ch_id (alpine_tailscale_service dependencies) = ''tailscale.service''"
  "ch_dependencies (alpine_tailscale_service dependencies) = dependencies"
  "ch_requires_root (alpine_tailscale_service dependencies)"
  "ch_id (tailscale_repository_refused platform resource) = ''tailscale.repository''"
  "ch_dependencies (tailscale_repository_refused platform resource) = []"
  "ch_requires_root (tailscale_repository_refused platform resource)"
  "ch_id (tailscale_package_refused host) = ''tailscale.package''"
  "ch_dependencies (tailscale_package_refused host) = []"
  "ch_requires_root (tailscale_package_refused host)"
  "ch_id (tailscale_package distribution codename) = ''tailscale.package''"
  "ch_dependencies (tailscale_package distribution codename) = []"
  "ch_requires_root (tailscale_package distribution codename)"
  "ch_id tailscale_service = ''tailscale.service''"
  "ch_dependencies tailscale_service = []"
  "ch_requires_root tailscale_service"
  "ch_id tailscale_service2 = ''tailscale.service''"
  "ch_dependencies tailscale_service2 = [''tailscale.package'']"
  "ch_requires_root tailscale_service2"
  by (simp_all add: arch_tailscale_package_def opensuse_tailscale_package_refused_def opensuse_tailscale_package_def enterprise_tailscale_package_refused_def enterprise_tailscale_package_def fedora_tailscale_package_def devuan_tailscale_package_refused_def devuan_tailscale_package_def devuan_tailscale_service_def artix_tailscale_package_def artix_tailscale_service_def void_tailscale_package_refused_def void_tailscale_package_refused2_def void_tailscale_package_def void_tailscale_service_def alpine_tailscale_package_def alpine_tailscale_service_def tailscale_repository_refused_def tailscale_package_refused_def tailscale_package_def tailscale_service_def tailscale_service2_def)

lemma tailscale_planned [simp]:
  "planned tailscale_kinds arch_tailscale_package"
  "planned tailscale_kinds (opensuse_tailscale_package_refused host)"
  "planned tailscale_kinds (opensuse_tailscale_package repository)"
  "planned tailscale_kinds (enterprise_tailscale_package_refused host)"
  "planned tailscale_kinds (enterprise_tailscale_package family major policy_name)"
  "planned tailscale_kinds fedora_tailscale_package"
  "planned tailscale_kinds devuan_tailscale_package_refused"
  "planned tailscale_kinds devuan_tailscale_package"
  "planned tailscale_kinds (devuan_tailscale_service dependencies)"
  "planned tailscale_kinds artix_tailscale_package"
  "planned tailscale_kinds (artix_tailscale_service dependencies)"
  "planned tailscale_kinds void_tailscale_package_refused"
  "planned tailscale_kinds void_tailscale_package_refused2"
  "planned tailscale_kinds (void_tailscale_package repository)"
  "planned tailscale_kinds (void_tailscale_service dependencies)"
  "planned tailscale_kinds alpine_tailscale_package"
  "planned tailscale_kinds (alpine_tailscale_service dependencies)"
  "planned tailscale_kinds (tailscale_repository_refused platform resource)"
  "planned tailscale_kinds (tailscale_package_refused host)"
  "planned tailscale_kinds (tailscale_package distribution codename)"
  "planned tailscale_kinds tailscale_service"
  "planned tailscale_kinds tailscale_service2"
  by (simp_all add: planned_def actionable_def tailscale_kinds_def arch_tailscale_package_def opensuse_tailscale_package_refused_def opensuse_tailscale_package_def enterprise_tailscale_package_refused_def enterprise_tailscale_package_def fedora_tailscale_package_def devuan_tailscale_package_refused_def devuan_tailscale_package_def devuan_tailscale_service_def artix_tailscale_package_def artix_tailscale_service_def void_tailscale_package_refused_def void_tailscale_package_refused2_def void_tailscale_package_def void_tailscale_service_def alpine_tailscale_package_def alpine_tailscale_service_def tailscale_repository_refused_def tailscale_package_refused_def tailscale_package_def tailscale_service_def tailscale_service2_def)


definition tailscale_module :: "'w transport \<Rightarrow> 'w module_ops" where
  "tailscale_module tr = \<lparr>md_name = ''tailscale'', md_plan = (\<lambda>host cfg. Inr (plan_tailscale host cfg)),
     md_apply = (\<lambda>cfg. run_action tr tailscale_kinds),
     md_verify = (\<lambda>cfg change. verify_target tr (tailscale_verify_script change))\<rparr>"

lemma arch_tailscale_change_planned [planning]: "planned tailscale_kinds (arch_tailscale_change host)"
  unfolding arch_tailscale_change_def by (intro planning) simp_all

lemma opensuse_tailscale_change_planned [planning]: "planned tailscale_kinds (opensuse_tailscale_change host)"
  unfolding opensuse_tailscale_change_def by (intro planning) simp_all

lemma enterprise_tailscale_change_planned [planning]: "planned tailscale_kinds (enterprise_tailscale_change host)"
  unfolding enterprise_tailscale_change_def by (intro planning) simp_all

lemma fedora_tailscale_change_planned [planning]: "planned tailscale_kinds (fedora_tailscale_change host)"
  unfolding fedora_tailscale_change_def by (intro planning) simp_all

lemma plan_devuan_tailscale_planned [planning]: "planned_all tailscale_kinds (plan_devuan_tailscale host)"
  unfolding plan_devuan_tailscale_def by (intro planning) simp_all

lemma plan_artix_tailscale_planned [planning]: "planned_all tailscale_kinds (plan_artix_tailscale host)"
  unfolding plan_artix_tailscale_def by (intro planning) simp_all

lemma plan_void_tailscale_planned [planning]: "planned_all tailscale_kinds (plan_void_tailscale host)"
  unfolding plan_void_tailscale_def by (intro planning) simp_all

lemma plan_alpine_tailscale_planned [planning]: "planned_all tailscale_kinds (plan_alpine_tailscale host)"
  unfolding plan_alpine_tailscale_def by (intro planning) simp_all

lemma plan_tailscale_planned: "planned_all tailscale_kinds (plan_tailscale host cfg)"
  unfolding plan_tailscale_def by (intro planning) simp_all

end
