(* ===== verification/Compose_Module.thy ===== *)
theory Compose_Module
  imports Module_Common Storage Service_Source
begin

text \<open>
  File \<open>internal/modules/compose.go\<close>: the module that deploys, starts, stops and removes Compose services.
  Resolving a deployment reads the controller's files through \<open>source_env\<close>; the tar archive of a payload
  and the JSON reader of a container state are parameters. Waiting is an operation of the world that
  answers with what the \<open>select\<close> of \<open>waitForRunning\<close> received.
\<close>

section \<open>Paths and scripts\<close>

definition service_path :: "string \<Rightarrow> string \<Rightarrow> string list \<Rightarrow> string" where
  "service_path data_root name rest = foldl path_join data_root ([''services'', name] @ rest)"

definition storage_path_safety_script :: "string \<Rightarrow> string \<Rightarrow> string" where
  "storage_path_safety_script mount target =
     unlines
         [''set -e'',
         ''root='' @ shell_quote mount,
         ''target='' @ shell_quote target,
         ''test -d \"$root\"'',
         ''test ! -L \"$root\"'',
         ''case \"$target\" in \"$root\"/*) ;; *) exit 1 ;; esac'',
         ''relative=${target#\"$root\"/}'',
         ''current=$root'',
         ''while test -n \"$relative\"; do'',
         ''  segment=${relative%%/*}'',
         ''  test -n \"$segment\"'',
         ''  current=\"$current/$segment\"'',
         ''  if test -e \"$current\" || test -L \"$current\"; then test -d \"$current\"; test ! -L \"$current\"; fi'',
         ''  if test \"$segment\" = \"$relative\"; then relative=; else relative=${relative#*/}; fi'',
         ''done'',
         ''install -d -m 0750 -o root -g root -- \"$target\"'']"

definition prepare_storage_path :: "config \<Rightarrow> persistent_resource \<Rightarrow> string" where
  "prepare_storage_path cfg r =
     (if pr_type r \<noteq> ''path'' \<or> pr_storage r = [] then []
      else case find_storage (cfg_storage cfg) (pr_storage r) of
        None \<Rightarrow> []
      | Some s \<Rightarrow> ready_precondition s @ newline @ storage_path_safety_script (sr_mount s) (pr_path r) @ newline)"

definition prepare_storage_paths_script :: "config \<Rightarrow> deployment \<Rightarrow> string" where
  "prepare_storage_paths_script cfg d = ''set -e'' @ newline @ concat (map (prepare_storage_path cfg) (dp_data d))"

definition compose_environment :: "deployment \<Rightarrow> string" where
  "compose_environment d = concat (map (\<lambda>(name, value). shell_quote (name @ ''='' @ value) @ '' '') (dp_storage_environment d))"

definition deploy_file_lines :: "source_file \<Rightarrow> string list" where
  "deploy_file_lines f =
     (let path = shell_quote (fl_path f) in
      [''test -f \"$stage\"/'' @ path,
        ''test \"$(stat -c '%a' -- \"$stage\"/'' @ path @ '')\" = '' @ shell_quote (fl_mode f),
        ''test \"$(sha256sum -- \"$stage\"/'' @ path @ '' | awk '{print $1}')\" = '' @ shell_quote (fl_digest f)])"

definition deploy_secret_lines :: "deployment \<Rightarrow> string list" where
  "deploy_secret_lines d =
     (if \<not> dp_secret_configured d then []
      else [''test -f \"$stage\"/'' @ shell_quote secret_env_name,
             ''test \"$(stat -c '%a' -- \"$stage\"/'' @ shell_quote secret_env_name @ '')\" = 600'',
             ''test \"$(tr -d '' @ squote @ backslash @ ''n' < \"$stage\"/'' @ shell_quote secret_fingerprint_name @ '')\" = '' @ shell_quote (dp_secret_fingerprint d)])"

definition deploy_script :: "string \<Rightarrow> deployment \<Rightarrow> string" where
  "deploy_script data_root d =
     (let root = service_path data_root (dp_name d) [];
          releases = path_join root ''releases'';
          release = path_join releases (dp_source_digest d)
      in concat (map (\<lambda>l. l @ newline)
       ([''root='' @ shell_quote root,
         ''releases='' @ shell_quote releases,
         ''release='' @ shell_quote release,
         ''install -d -m 0750 -o root -g root -- \"$root\" \"$releases\"'',
         ''stage=$(mktemp -d \"$root/.stage.XXXXXX\")'',
         ''trap 'rm -rf -- \"$stage\"' EXIT'',
         ''tar -x -f - -C \"$stage\"'']
        @ concat (map deploy_file_lines (dp_files d))
        @ deploy_secret_lines d
        @ [''test -f \"$stage\"/'' @ shell_quote placement_fingerprint_name,
           ''test \"$(tr -d '' @ squote @ backslash @ ''n' < \"$stage\"/'' @ shell_quote placement_fingerprint_name @ '')\" = '' @ shell_quote (dp_placement_fingerprint d),
           ''env -i '' @ compose_environment d @ ''PATH=/usr/local/sbin:/usr/local/bin:/usr/sbin:/usr/bin:/sbin:/bin HOME=/root docker --context default compose --project-name '' @ shell_quote (dp_project d) @ '' --project-directory \"$stage\" -f \"$stage\"/'' @ shell_quote (dp_compose_file d) @ '' config -q'',
           ''if test -e \"$release\"; then rm -rf -- \"$release\"; fi'',
           ''mv -- \"$stage\" \"$release\"'',
           ''link=$(mktemp \"$root/.current.XXXXXX\")'',
           ''rm -f -- \"$link\"'',
           ''ln -s -- \"releases/'' @ dp_source_digest d @ ''\" \"$link\"'',
           ''mv -Tf -- \"$link\" \"$root/current\"'',
           ''trap - EXIT''])))"

definition compose_command :: "string \<Rightarrow> deployment \<Rightarrow> string \<Rightarrow> string" where
  "compose_command data_root d command =
     unlines
         [''current='' @ shell_quote (service_path data_root (dp_name d) [''current'']),
         ''test -L \"$current\"'',
         ''env -i '' @ compose_environment d @ ''PATH=/usr/local/sbin:/usr/local/bin:/usr/sbin:/usr/bin:/sbin:/bin HOME=/root docker --context default compose --project-name '' @ shell_quote (dp_project d) @ '' --project-directory \"$current\" -f \"$current\"/'' @ shell_quote (dp_compose_file d) @ '' '' @ command]"

definition remove_script :: "string \<Rightarrow> deployment \<Rightarrow> string" where
  "remove_script data_root d =
     (let current = shell_quote (service_path data_root (dp_name d) [''current'']);
          project = shell_quote (dp_project d)
      in unlines
         [''current='' @ current,
         ''if test -L \"$current\"; then'',
         ''  compose_file='' @ squote @ squote,
         ''  for candidate in compose.yaml compose.yml docker-compose.yaml docker-compose.yml; do'',
         ''    if test -f \"$current\"/\"$candidate\"; then compose_file=$candidate; break; fi'',
         ''  done'',
         ''  if test -n \"$compose_file\"; then'',
         ''    env -i PATH=/usr/local/sbin:/usr/local/bin:/usr/sbin:/usr/bin:/sbin:/bin HOME=/root docker --context default compose --project-name '' @ project @ '' --project-directory \"$current\" -f \"$current\"/\"$compose_file\" down --remove-orphans'',
         ''  else'',
         ''    ids=$(env -i PATH=/usr/local/sbin:/usr/local/bin:/usr/sbin:/usr/bin:/sbin:/bin HOME=/root docker --context default ps --all --quiet --filter label=com.docker.compose.project='' @ project @ '')'',
         ''    if test -n \"$ids\"; then env -i PATH=/usr/local/sbin:/usr/local/bin:/usr/sbin:/usr/bin:/sbin:/bin HOME=/root docker --context default rm -f -- $ids; fi'',
         ''  fi'',
         ''  rm -f -- \"$current\"'',
         ''else'',
         ''  ids=$(env -i PATH=/usr/local/sbin:/usr/local/bin:/usr/sbin:/usr/bin:/sbin:/bin HOME=/root docker --context default ps --all --quiet --filter label=com.docker.compose.project='' @ project @ '')'',
         ''  if test -n \"$ids\"; then env -i PATH=/usr/local/sbin:/usr/local/bin:/usr/sbin:/usr/bin:/sbin:/bin HOME=/root docker --context default rm -f -- $ids; fi'',
         ''fi''])"

definition deployment_digest_check :: "string \<Rightarrow> string \<Rightarrow> string \<Rightarrow> string" where
  "deployment_digest_check data_root name digest =
     (let root = service_path data_root name [];
          current = path_join root ''current''
      in unlines
         [''root='' @ shell_quote root,
         ''current='' @ shell_quote current,
         ''test -L \"$current\"'',
         ''resolved=$(readlink -f -- \"$current\")'',
         ''case \"$resolved\" in \"$root\"/releases/*) ;; *) exit 1;; esac'',
         ''actual=$(cd -- \"$current\" && find . -type f ! -path './'' @ secret_env_name @ squote @ '' ! -path './'' @ secret_fingerprint_name @ squote @ '' ! -path './'' @ placement_fingerprint_name @ squote @ '' -printf '%P'' @ backslash @ ''n' | LC_ALL=C sort | while IFS= read -r file; do'',
         ''  test -n \"$file\" || continue'',
         ''  mode=$(stat -c '%a' -- \"$file\")'',
         ''  checksum=$(sha256sum -- \"$file\" | awk '{print $1}')'',
         ''  printf '%s'' @ backslash @ ''t%s'' @ backslash @ ''t%s'' @ backslash @ ''n' \"$mode\" \"$checksum\" \"$file\"'',
         ''done | sha256sum | awk '{print $1}')'',
         ''test \"$actual\" = '' @ shell_quote digest])"

definition secret_fingerprint_check :: "string \<Rightarrow> deployment \<Rightarrow> string" where
  "secret_fingerprint_check data_root d =
     (if \<not> dp_secret_configured d then []
      else newline @ ''test \"$(tr -d '' @ squote @ backslash @ ''n' < '' @ shell_quote (service_path data_root (dp_name d) [''current'', secret_fingerprint_name]) @ '')\" = '' @ shell_quote (dp_secret_fingerprint d))"

definition placement_fingerprint_check :: "string \<Rightarrow> deployment \<Rightarrow> string" where
  "placement_fingerprint_check data_root d =
     newline @ ''test \"$(tr -d '' @ squote @ backslash @ ''n' < '' @ shell_quote (service_path data_root (dp_name d) [''current'', placement_fingerprint_name]) @ '')\" = '' @ shell_quote (dp_placement_fingerprint d)"

definition no_running_containers_script :: "string \<Rightarrow> string" where
  "no_running_containers_script project =
     ''! env -i PATH=/usr/local/sbin:/usr/local/bin:/usr/sbin:/usr/bin:/sbin:/bin HOME=/root docker --context default ps --quiet --filter label=com.docker.compose.project='' @ shell_quote project @ '' --filter status=running | grep -q .''"

definition remove_verify_script :: "string \<Rightarrow> deployment \<Rightarrow> string" where
  "remove_verify_script data_root d =
     unlines
         [''test ! -e '' @ shell_quote (service_path data_root (dp_name d) [''current'']),
         ''! env -i PATH=/usr/local/sbin:/usr/local/bin:/usr/sbin:/usr/bin:/sbin:/bin HOME=/root docker --context default ps --all --quiet --filter label=com.docker.compose.project='' @ shell_quote (dp_project d) @ '' | grep -q .'']"

section \<open>What a service depends on\<close>

definition service_verification :: "string \<Rightarrow> string" where
  "service_verification action =
     (if action = ''deploy'' \<or> action = ''update'' then ''Bebop-owned deployment source is active with the expected content digest''
      else if action = ''start'' then ''all project containers are running; healthchecks become healthy before the configured timeout''
      else if action = ''stop'' then ''project containers are stopped while deployment and persistent data remain''
      else ''project containers and active deployment are absent; volumes are preserved'')"

definition service_change :: "deployment \<Rightarrow> string \<Rightarrow> string \<Rightarrow> string \<Rightarrow> string \<Rightarrow> string \<Rightarrow> risk \<Rightarrow> string list \<Rightarrow> string list \<Rightarrow> change" where
  "service_change d suffix summary reason current desired risk dependencies requirements =
     zero_change\<lparr>ch_id := ''service.'' @ dp_name d @ ''.'' @ suffix, ch_module := ''services'', ch_summary := summary,
       ch_reason := reason, ch_risk := risk, ch_requires_root := True, ch_current := current, ch_desired := desired,
       ch_dependencies := dependencies, ch_requirements := requirements, ch_verification := service_verification suffix\<rparr>"

definition missing_service :: "string \<Rightarrow> service_facts" where
  "missing_service name =
     \<lparr>sv_name = name, sv_project = [], sv_desired_state = [], sv_deployment_present = False, sv_deployment_unsafe = False,
      sv_deployment_digest = [], sv_runtime = ''missing'', sv_health = ''missing'', sv_container_count = 0,
      sv_secret_fingerprint = [], sv_placement_fingerprint = []\<rparr>"

definition service_fact :: "host_facts \<Rightarrow> string \<Rightarrow> service_facts" where
  "service_fact host name =
     (case find (\<lambda>s. sv_name s = name) (hf_services host) of Some s \<Rightarrow> s | None \<Rightarrow> missing_service name)"

definition service_current :: "service_facts \<Rightarrow> string" where
  "service_current s =
     (if sv_deployment_unsafe s then ''unsafe managed deployment path''
      else if \<not> sv_deployment_present s then sv_runtime s
      else if sv_deployment_digest s = [] then ''deployment present with unreadable digest''
      else ''source sha256:'' @ sv_deployment_digest s @ ''; runtime '' @ sv_runtime s)"

definition service_dependencies :: "host_facts \<Rightarrow> string \<Rightarrow> string list" where
  "service_dependencies host state =
     (if \<not> dir_exists (hf_data_root host) then [''base.data-root'']
      else if dir_mode (hf_data_root host) \<noteq> ''750'' \<or> dir_uid (hf_data_root host) \<noteq> 0 \<or> dir_gid (hf_data_root host) \<noteq> 0
      then [''base.data-root.permissions''] else [])
     @ (if \<not> dk_installed (hf_docker host) \<or> \<not> dk_service_enabled (hf_docker host) \<or> \<not> dk_service_active (hf_docker host)
           \<or> \<not> dk_responsive (hf_docker host) then [''docker.service''] else [])
     @ (if \<not> dk_compose_available (hf_docker host) then [''docker.compose''] else [])"

definition service_blocked :: "host_facts \<Rightarrow> service_facts \<Rightarrow> string \<Rightarrow> string" where
  "service_blocked host s state =
     (if \<not> dk_compose_available (hf_docker host) \<and> dk_compose_package_available (hf_docker host) = []
      then ''Docker Compose v2 is unavailable and the target does not advertise a reviewed installable Compose package''
      else if state \<noteq> ''absent'' \<and> sv_deployment_unsafe s then ''the managed deployment path is unsafe''
      else [])"

definition service_selinux_blocked :: "host_facts \<Rightarrow> deployment \<Rightarrow> string" where
  "service_selinux_blocked host d =
     (if se_mode (hf_selinux host) \<noteq> ''enforcing'' \<or> dp_state d = ''absent'' then []
      else case find (\<lambda>r. pr_type r = ''path'' \<and> \<not> pr_selinux_shared r) (dp_data d) of
        None \<Rightarrow> []
      | Some r \<Rightarrow> ''SELinux is enforcing: persistent bind resource '' @ pr_name r
          @ '' must use shared z SELinux labeling so the service and Bebop backup/restore helper can both access it'')"

definition storage_check :: "deployment \<Rightarrow> storage_resource \<Rightarrow> string \<Rightarrow> precondition" where
  "storage_check d r description =
     \<lparr>pc_id = ''service.'' @ dp_name d @ ''.storage.'' @ sr_name r, pc_description = description, pc_script = ready_precondition r\<rparr>"

fun storage_policy_loop :: "host_facts \<Rightarrow> config \<Rightarrow> deployment \<Rightarrow> persistent_resource list \<Rightarrow> string list
    \<Rightarrow> string list \<Rightarrow> precondition list \<Rightarrow> string list \<times> precondition list \<times> string" where
  "storage_policy_loop host cfg d [] seen deps pres = (deps, pres, [])"
| "storage_policy_loop host cfg d (data # rest) seen deps pres =
     (if pr_type data \<noteq> ''path'' \<or> pr_storage data = [] \<or> pr_storage data \<in> set seen
      then storage_policy_loop host cfg d rest seen deps pres
      else let seen' = pr_storage data # seen in
        (case find_storage (cfg_storage cfg) (pr_storage data) of
           None \<Rightarrow> (deps, pres, ''declared storage '' @ pr_storage data @ '' is unavailable in the current configuration'')
         | Some r \<Rightarrow>
           (let state = as_state (assess r (hf_storage host)) in
            if state = Ready
            then storage_policy_loop host cfg d rest seen' deps
                   (pres @ [storage_check d r ''declared storage remains mounted with the expected filesystem identity''])
            else if state = Missing \<or> state = RootSpill
            then (if sr_managed_mount r
                  then storage_policy_loop host cfg d rest seen' (deps @ [''storage.'' @ sr_name r @ ''.mount''])
                         (pres @ [storage_check d r ''declared storage was mounted by the reviewed storage actions''])
                  else (deps, pres, ''storage '' @ sr_name r @ '' is '' @ storage_state_string state
                          @ ''; mount the declared filesystem manually or enable managed_mount after review''))
            else (deps, pres, ''storage '' @ sr_name r @ '' is '' @ storage_state_string state
                    @ ''; Bebop will not deploy persistent data there''))))"

definition service_storage_policy :: "host_facts \<Rightarrow> config \<Rightarrow> deployment \<Rightarrow> string list \<times> precondition list \<times> string" where
  "service_storage_policy host cfg d =
     (if dp_state d = ''absent'' then ([], [], []) else storage_policy_loop host cfg d (dp_data d) [] [] [])"

definition has_storage_placement :: "deployment \<Rightarrow> bool" where
  "has_storage_placement d = list_ex (\<lambda>r. pr_type r = ''path'' \<and> pr_storage r \<noteq> []) (dp_data d)"

definition append_dependency :: "string list \<Rightarrow> string \<Rightarrow> string list" where
  "append_dependency dependencies value = (if value \<noteq> [] then dependencies @ [value] else dependencies)"

definition deployment_preconditions :: "string \<Rightarrow> deployment \<Rightarrow> service_facts \<Rightarrow> precondition list" where
  "deployment_preconditions data_root d current =
     (if \<not> sv_deployment_present current
      then [\<lparr>pc_id = ''service.'' @ dp_name d @ ''.deployment-absent'', pc_description = ''the active deployment path is still absent'',
             pc_script = ''test ! -e '' @ shell_quote (service_path data_root (dp_name d) [''current''])\<rparr>]
      else [\<lparr>pc_id = ''service.'' @ dp_name d @ ''.deployment-stable'', pc_description = ''the active deployment digest has not changed'',
             pc_script = deployment_digest_check data_root (dp_name d) (sv_deployment_digest current)\<rparr>])"

section \<open>Plan\<close>

definition service_requirements :: "string list" where
  "service_requirements = [''docker.engine'', ''docker.compose'']"

definition service_risk :: "deployment \<Rightarrow> risk" where
  "service_risk d = (if dp_ports d \<noteq> [] then NetworkSensitive else Privileged)"

definition service_action :: "string \<Rightarrow> deployment \<Rightarrow> action" where
  "service_action kind d = zero_action\<lparr>ac_kind := kind, ac_resource := dp_name d, ac_source_digest := dp_source_digest d,
     ac_input_fingerprint := dp_input_fingerprint d, ac_secret_fingerprint := dp_secret_fingerprint d\<rparr>"

definition selinux_change :: "deployment \<Rightarrow> persistent_resource \<Rightarrow> string \<Rightarrow> change" where
  "selinux_change d r blocked =
     zero_change\<lparr>ch_id := ''service.'' @ dp_name d @ ''.selinux.'' @ pr_name r, ch_module := ''services'',
       ch_summary := ''review SELinux bind labeling'', ch_reason := ''SELinux is enforcing'', ch_risk := Privileged,
       ch_requires_root := True, ch_current := ''persistent bind resource is not shared-labeled'',
       ch_desired := ''persistent bind resource uses Compose shared z SELinux labeling'',
       ch_action := zero_action\<lparr>ac_kind := ''service.selinux-blocked'', ac_resource := dp_name d\<rparr>,
       ch_verification := ''not applicable until the Compose source is corrected'', ch_blocked := blocked\<rparr>"

definition plan_removal :: "host_facts \<Rightarrow> deployment \<Rightarrow> service_facts \<Rightarrow> string list \<Rightarrow> string \<Rightarrow> change list" where
  "plan_removal host d current dependencies blocked =
     (if sv_deployment_present current \<or> sv_deployment_unsafe current \<or> sv_runtime current \<noteq> ''missing''
      then [root_blocked
              ((service_change d ''remove'' ''remove Compose project'' ''managed deployment or Compose containers remain'' (service_current current)
                 ''containers/project removed; persistent volumes and external data preserved'' Privileged dependencies service_requirements)
               \<lparr>ch_action := zero_action\<lparr>ac_kind := ''service.remove'', ac_resource := dp_name d\<rparr>,
                ch_blocked := (if sv_deployment_unsafe current
                  then ''the managed deployment path is not a Bebop current-release symlink; resolve it manually before removal''
                  else blocked)\<rparr>)
              (hf_sudo_available host)]
      else [])"

definition placement_changed :: "deployment \<Rightarrow> service_facts \<Rightarrow> bool" where
  "placement_changed d current \<longleftrightarrow>
     sv_deployment_present current \<and> has_storage_placement d \<and> sv_placement_fingerprint current \<noteq> dp_placement_fingerprint d"

definition deployment_changed :: "deployment \<Rightarrow> service_facts \<Rightarrow> bool" where
  "deployment_changed d current \<longleftrightarrow>
     \<not> sv_deployment_present current \<or> sv_deployment_unsafe current \<or> sv_deployment_digest current \<noteq> dp_source_digest d
     \<or> (dp_secret_configured d \<and> sv_secret_fingerprint current \<noteq> dp_secret_fingerprint d) \<or> placement_changed d current"

definition deploy_wording :: "deployment \<Rightarrow> service_facts \<Rightarrow> string \<times> string \<times> string" where
  "deploy_wording d current =
     (if sv_deployment_unsafe current
      then (''deploy'', ''deploy Compose source'', ''managed deployment path is not a Bebop current-release symlink'')
      else if sv_deployment_present current \<and> sv_deployment_digest current \<noteq> dp_source_digest d
      then (''update'', ''update Compose source'', ''deployment content differs from declared source'')
      else if dp_secret_configured d \<and> sv_secret_fingerprint current \<noteq> dp_secret_fingerprint d
      then (''update'', ''reconcile rotated service secret'', ''secret input changed without exposing its value'')
      else if placement_changed d current
      then (''placement'', ''migrate persistent data placement'', ''persistent data placement differs from the active release'')
      else (''deploy'', ''deploy Compose source'', ''managed deployment is missing''))"

definition plan_deploy :: "host_facts \<Rightarrow> config \<Rightarrow> deployment \<Rightarrow> service_facts \<Rightarrow> string list \<Rightarrow> precondition list \<Rightarrow> string \<Rightarrow> change list" where
  "plan_deploy host cfg d current dependencies storage_preconditions blocked =
     (if deployment_changed d current
      then (case deploy_wording d current of (kind, summary, reason) \<Rightarrow>
             [root_blocked
                ((service_change d kind summary reason (service_current current) (''source sha256:'' @ dp_source_digest d)
                    (service_risk d) dependencies service_requirements)
                 \<lparr>ch_action := service_action ''service.deploy'' d,
                  ch_preconditions := deployment_preconditions (stg_data_root (cfg_storage cfg)) d current @ storage_preconditions,
                  ch_blocked := (if sv_deployment_unsafe current
                    then ''the managed deployment path is not a Bebop current-release symlink; Bebop will not replace an unknown path''
                    else if placement_changed d current
                    then ''persistent data placement changed; use Bebop backup/restore to migrate state before changing service placement''
                    else blocked)\<rparr>)
                (hf_sudo_available host)])
      else [])"

definition plan_runtime :: "host_facts \<Rightarrow> deployment \<Rightarrow> service_facts \<Rightarrow> string list \<Rightarrow> string \<Rightarrow> precondition list \<Rightarrow> string \<Rightarrow> change list" where
  "plan_runtime host d current dependencies deploy_id storage_preconditions blocked =
     (if dp_state d = ''running''
      then (if deploy_id \<noteq> [] \<or> sv_runtime current \<noteq> ''running''
            then [root_blocked
                    ((service_change d ''start'' ''start and reconcile Compose project'' ''desired state is running'' (sv_runtime current)
                       ''running (healthy when a healthcheck exists)'' (service_risk d) (append_dependency dependencies deploy_id) service_requirements)
                     \<lparr>ch_action := service_action ''service.start'' d, ch_preconditions := storage_preconditions, ch_blocked := blocked\<rparr>)
                    (hf_sudo_available host)]
            else [])
      else if dp_state d = ''stopped''
      then (if sv_runtime current \<noteq> ''stopped'' \<and> sv_runtime current \<noteq> ''missing''
            then [root_blocked
                    ((service_change d ''stop'' ''stop Compose project'' ''desired state is stopped'' (sv_runtime current)
                       ''containers stopped; deployment and persistent data preserved'' Privileged (append_dependency dependencies deploy_id)
                       service_requirements)
                     \<lparr>ch_action := service_action ''service.stop'' d, ch_blocked := blocked\<rparr>)
                    (hf_sudo_available host)]
            else [])
      else [])"

definition plan_service :: "host_facts \<Rightarrow> config \<Rightarrow> deployment \<Rightarrow> change list" where
  "plan_service host cfg d =
     (let selinux = service_selinux_blocked host d in
      if selinux \<noteq> []
      then map (\<lambda>r. selinux_change d r selinux) (filter (\<lambda>r. pr_type r = ''path'' \<and> \<not> pr_selinux_shared r) (dp_data d))
      else
        (let current = service_fact host (dp_name d);
             dependencies0 = service_dependencies host (dp_state d);
             blocked0 = service_blocked host current (dp_state d)
         in case service_storage_policy host cfg d of (storage_dependencies, storage_preconditions, storage_blocked) \<Rightarrow>
           (let dependencies = dependencies0 @ storage_dependencies;
                blocked = (if blocked0 = [] then storage_blocked else blocked0)
            in if dp_state d = ''absent''
               then plan_removal host d current dependencies blocked
               else (let deploy = plan_deploy host cfg d current dependencies storage_preconditions blocked;
                         deploy_id = (case deploy of [] \<Rightarrow> [] | c # _ \<Rightarrow> ch_id c)
                     in deploy @ plan_runtime host d current dependencies deploy_id storage_preconditions blocked))))"

definition plan_services :: "source_env \<Rightarrow> host_facts \<Rightarrow> config \<Rightarrow> (change list \<times> warning list) result" where
  "plan_services env host cfg =
     rbind (resolve_deployments env cfg) (\<lambda>ds. Inr (concat (map (plan_service host cfg) ds), []))"

section \<open>Apply\<close>

definition apply_service :: "source_env \<Rightarrow> (payload \<Rightarrow> string) \<Rightarrow> 'w transport \<Rightarrow> config \<Rightarrow> change \<Rightarrow> 'w \<Rightarrow> 'w \<times> error option" where
  "apply_service env tar tr cfg c w =
     (if ch_module c \<noteq> ''services''
      then (w, Some (errorf (''services module refuses change from '' @ go_quote (ch_module c))))
      else case resolve_deployment env cfg (ac_resource (ch_action c)) of
        Inl e \<Rightarrow> (w, Some e)
      | Inr d \<Rightarrow>
        (let a = ch_action c; root = stg_data_root (cfg_storage cfg) in
         if ac_kind a \<noteq> ''service.remove'' \<and> ac_input_fingerprint a \<noteq> dp_input_fingerprint d
         then (w, Some (errorf ''service source or secret input changed after review; generate a new plan''))
         else case run_preconditions tr ''services module'' (ch_id c) True (ch_preconditions c) w of
           (w1, Some e) \<Rightarrow> (w1, Some e)
         | (w1, None) \<Rightarrow>
           (if ac_kind a = ''service.deploy''
            then (if ac_source_digest a \<noteq> dp_source_digest d \<or> ac_secret_fingerprint a \<noteq> dp_secret_fingerprint d
                  then (w1, Some (errorf ''service deployment input does not match reviewed action''))
                  else run_input tr (prepare_storage_paths_script cfg d @ newline @ deploy_script root d) (tar (dp_payload d)) True w1)
            else if ac_kind a = ''service.start'' then run_script tr (compose_command root d ''up -d --remove-orphans'') True w1
            else if ac_kind a = ''service.stop'' then run_script tr (compose_command root d ''stop'') True w1
            else if ac_kind a = ''service.remove'' then run_script tr (remove_script root d) True w1
            else (w1, Some (errorf (''services module refuses unexpected action '' @ go_quote (ac_kind a)))))))"

section \<open>Waiting for containers\<close>

record container_state =
  ct_status :: string
  ct_running :: bool
  ct_restarting :: bool
  ct_dead :: bool
  ct_health :: "string option"

text \<open>The loop of \<open>aggregateComposeRuntime\<close> over its six flags.\<close>

record runtime_flags =
  rf_all_stopped :: bool
  rf_all_running :: bool
  rf_any_starting :: bool
  rf_any_unhealthy :: bool
  rf_any_healthcheck :: bool
  rf_all_healthy :: bool

definition initial_flags :: runtime_flags where
  "initial_flags = \<lparr>rf_all_stopped = True, rf_all_running = True, rf_any_starting = False, rf_any_unhealthy = False,
     rf_any_healthcheck = False, rf_all_healthy = True\<rparr>"

definition note_container :: "container_state \<Rightarrow> runtime_flags \<Rightarrow> runtime_flags" where
  "note_container s f =
     (let f = (if ct_running s then f\<lparr>rf_all_stopped := False\<rparr> else f\<lparr>rf_all_running := False\<rparr>);
          f = (if ct_restarting s \<or> ct_status s = ''created'' then f\<lparr>rf_any_starting := True\<rparr> else f);
          f = (if ct_dead s \<or> ct_health s = Some ''unhealthy'' then f\<lparr>rf_any_unhealthy := True\<rparr> else f)
      in case ct_health s of
           None \<Rightarrow> f
         | Some h \<Rightarrow>
           (let f = f\<lparr>rf_any_healthcheck := True\<rparr>;
                f = (if h = ''starting'' then f\<lparr>rf_any_starting := True\<rparr> else f)
            in if h \<noteq> ''healthy'' then f\<lparr>rf_all_healthy := False\<rparr> else f))"

definition aggregate_compose_runtime :: "container_state list \<Rightarrow> string \<times> string \<times> nat" where
  "aggregate_compose_runtime states =
     (if states = [] then (''missing'', ''missing'', 0)
      else let f = fold note_container states initial_flags; n = length states in
        if rf_any_unhealthy f then (''unhealthy'', ''unhealthy'', n)
        else if rf_any_starting f then (''starting'', ''starting'', n)
        else if rf_all_stopped f then (''stopped'', ''stopped'', n)
        else if \<not> rf_all_running f then (''unknown'', ''unknown'', n)
        else if \<not> rf_any_healthcheck f then (''running'', ''no-healthcheck'', n)
        else if rf_all_healthy f then (''running'', ''healthy'', n)
        else (''starting'', ''starting'', n))"

definition containers_script :: "string \<Rightarrow> string" where
  "containers_script project =
     ''env -i PATH=/usr/local/sbin:/usr/local/bin:/usr/sbin:/usr/bin:/sbin:/bin HOME=/root docker --context default ps --all --quiet --filter label=com.docker.compose.project='' @ shell_quote project"

definition container_script :: "string \<Rightarrow> string" where
  "container_script container =
     ''env -i PATH=/usr/local/sbin:/usr/local/bin:/usr/sbin:/usr/bin:/sbin:/bin HOME=/root docker --context default inspect --format '{{json .State}}' -- '' @ shell_quote container"

fun inspect_containers :: "'w transport \<Rightarrow> (string \<Rightarrow> container_state result) \<Rightarrow> string list \<Rightarrow> container_state list \<Rightarrow> 'w
    \<Rightarrow> 'w \<times> container_state list result" where
  "inspect_containers tr read_state [] states w = (w, Inr states)"
| "inspect_containers tr read_state (i # is) states w =
     (case run_output tr (container_script i) True w of
        (w1, out, Some e) \<Rightarrow> (w1, Inl e)
      | (w1, out, None) \<Rightarrow>
        (case read_state (trim_space out) of
           Inl e \<Rightarrow> (w1, Inl e)
         | Inr s \<Rightarrow> inspect_containers tr read_state is (states @ [s]) w1))"

definition compose_runtime :: "'w transport \<Rightarrow> (string \<Rightarrow> container_state result) \<Rightarrow> string \<Rightarrow> 'w
    \<Rightarrow> 'w \<times> (string \<times> string \<times> nat) \<times> error option" where
  "compose_runtime tr read_state project w =
     (case run_output tr (containers_script project) True w of
        (w1, out, Some e) \<Rightarrow> (w1, (''unknown'', ''unknown'', 0), Some e)
      | (w1, out, None) \<Rightarrow>
        (let ids = Go_Prelude.fields out in
         if ids = [] then (w1, (''missing'', ''missing'', 0), None)
         else case inspect_containers tr read_state ids [] w1 of
           (w2, Inl e) \<Rightarrow> (w2, (''unknown'', ''unknown'', length ids), Some e)
         | (w2, Inr states) \<Rightarrow> (w2, aggregate_compose_runtime states, None)))"

datatype wake = Tick | Deadline | Cancelled error

definition service_health_timeout :: "config \<Rightarrow> string \<Rightarrow> string" where
  "service_health_timeout cfg name =
     (case find (\<lambda>s. svc_name s = name) (cfg_services cfg) of Some s \<Rightarrow> svc_health_timeout s | None \<Rightarrow> ''2m'')"

text \<open>
  \<open>Duration.String\<close>: the fraction without its trailing zeros, and the units in use. The micro sign is
  two bytes.
\<close>

definition fraction_text :: "nat \<Rightarrow> nat \<Rightarrow> string" where
  "fraction_text v digits =
     (let t = show_nat (v mod 10 ^ digits);
          padded = replicate (digits - length t) (CHR ''0'') @ t;
          kept = rev (dropWhile (\<lambda>c. c = CHR ''0'') (rev padded))
      in if kept = [] then [] else ''.'' @ kept)"

definition duration_text :: "int \<Rightarrow> string" where
  "duration_text d =
     (let u = nat \<bar>d\<bar>; sign = (if d < 0 then ''-'' else []) in
      if u = 0 then ''0s''
      else sign @
       (if u < 1000 then show_nat u @ ''ns''
        else if u < 1000000 then show_nat (u div 1000) @ fraction_text u 3 @ [CHR 0xC2, CHR 0xB5] @ ''s''
        else if u < 1000000000 then show_nat (u div 1000000) @ fraction_text u 6 @ ''ms''
        else (let s = u div 1000000000; m = s div 60; h = m div 60 in
              (if h > 0 then show_nat h @ ''h'' else [])
              @ (if m > 0 then show_nat (m mod 60) @ ''m'' else [])
              @ show_nat (s mod 60) @ fraction_text u 9 @ ''s'')))"

text \<open>One look at the containers: an answer, or the wait goes on with this runtime and health.\<close>

definition check_running :: "'w transport \<Rightarrow> (string \<Rightarrow> container_state result) \<Rightarrow> deployment \<Rightarrow> 'w
    \<Rightarrow> 'w \<times> (error option + string \<times> string)" where
  "check_running tr read_state d w =
     (case compose_runtime tr read_state (dp_project d) w of
        (w1, _, Some e) \<Rightarrow> (w1, Inl (Some e))
      | (w1, (runtime, health, number), None) \<Rightarrow>
        (w1,
         if runtime = ''running'' \<and> (health = ''healthy'' \<or> health = ''no-healthcheck'') then Inl None
         else if runtime = ''unhealthy'' then Inl (Some (errorf (''service '' @ dp_name d @ '' is unhealthy after Compose reconciliation'')))
         else if number = 0 \<and> runtime = ''missing''
         then Inl (Some (errorf (''service '' @ dp_name d @ '' has no containers after Compose reconciliation'')))
         else Inr (runtime, health)))"

partial_function (option) wait_loop :: "'w transport \<Rightarrow> ('w \<Rightarrow> 'w \<times> wake) \<Rightarrow> (string \<Rightarrow> container_state result) \<Rightarrow> deployment \<Rightarrow> int
    \<Rightarrow> 'w \<Rightarrow> ('w \<times> error option) option" where
  "wait_loop tr sleep read_state d timeout w =
     (case check_running tr read_state d w of
        (w1, Inl answer) \<Rightarrow> Some (w1, answer)
      | (w1, Inr (runtime, health)) \<Rightarrow>
        (case sleep w1 of
           (w2, Cancelled e) \<Rightarrow> Some (w2, Some e)
         | (w2, Deadline) \<Rightarrow> Some (w2, Some (errorf (''service '' @ dp_name d @ '' did not become ready within ''
               @ duration_text timeout @ '' (runtime '' @ runtime @ '', health '' @ health @ '')'')))
         | (w2, Tick) \<Rightarrow> wait_loop tr sleep read_state d timeout w2))"

definition wait_for_running :: "'w transport \<Rightarrow> ('w \<Rightarrow> 'w \<times> wake) \<Rightarrow> (string \<Rightarrow> container_state result) \<Rightarrow> config \<Rightarrow> deployment
    \<Rightarrow> 'w \<Rightarrow> ('w \<times> error option) option" where
  "wait_for_running tr sleep read_state cfg d w =
     (let t = service_health_timeout cfg (dp_name d) in
      case parse_duration t of
        None \<Rightarrow> Some (w, Some (errorf (''time: invalid duration '' @ go_quote t)))
      | Some timeout \<Rightarrow> wait_loop tr sleep read_state d timeout w)"

section \<open>Verify\<close>

definition verify_service :: "source_env \<Rightarrow> 'w transport \<Rightarrow> ('w \<Rightarrow> 'w \<times> wake) \<Rightarrow> (string \<Rightarrow> container_state result) \<Rightarrow> config
    \<Rightarrow> change \<Rightarrow> 'w \<Rightarrow> ('w \<times> error option) option" where
  "verify_service env tr sleep read_state cfg c w =
     (case resolve_deployment env cfg (ac_resource (ch_action c)) of
        Inl e \<Rightarrow> Some (w, Some e)
      | Inr d \<Rightarrow>
        (let root = stg_data_root (cfg_storage cfg); kind = ac_kind (ch_action c) in
         if kind = ''service.deploy''
         then Some (run_script tr (deployment_digest_check root (dp_name d) (dp_source_digest d)
                @ secret_fingerprint_check root d @ placement_fingerprint_check root d) True w)
         else if kind = ''service.start'' then wait_for_running tr sleep read_state cfg d w
         else if kind = ''service.stop'' then Some (run_script tr (no_running_containers_script (dp_project d)) True w)
         else if kind = ''service.remove'' then Some (run_script tr (remove_verify_script root d) True w)
         else Some (w, Some (errorf (''services module refuses verification for '' @ go_quote kind)))))"

section \<open>What the containers say\<close>

text \<open>What the loop decides, said of the containers as a whole.\<close>

definition project_condition :: "container_state set \<Rightarrow> string \<times> string" where
  "project_condition S =
     (if S = {} then (''missing'', ''missing'')
      else if \<exists>s\<in>S. ct_dead s \<or> ct_health s = Some ''unhealthy'' then (''unhealthy'', ''unhealthy'')
      else if \<exists>s\<in>S. ct_restarting s \<or> ct_status s = ''created'' \<or> ct_health s = Some ''starting'' then (''starting'', ''starting'')
      else if \<forall>s\<in>S. \<not> ct_running s then (''stopped'', ''stopped'')
      else if \<exists>s\<in>S. \<not> ct_running s then (''unknown'', ''unknown'')
      else if \<forall>s\<in>S. ct_health s = None then (''running'', ''no-healthcheck'')
      else if \<forall>s\<in>S. ct_health s = None \<or> ct_health s = Some ''healthy'' then (''running'', ''healthy'')
      else (''starting'', ''starting''))"

lemma note_container_flags [simp]:
  "rf_all_stopped (note_container s f) = (rf_all_stopped f \<and> \<not> ct_running s)"
  "rf_all_running (note_container s f) = (rf_all_running f \<and> ct_running s)"
  "rf_any_starting (note_container s f) = (rf_any_starting f \<or> ct_restarting s \<or> ct_status s = ''created'' \<or> ct_health s = Some ''starting'')"
  "rf_any_unhealthy (note_container s f) = (rf_any_unhealthy f \<or> ct_dead s \<or> ct_health s = Some ''unhealthy'')"
  "rf_any_healthcheck (note_container s f) = (rf_any_healthcheck f \<or> ct_health s \<noteq> None)"
  "rf_all_healthy (note_container s f) = (rf_all_healthy f \<and> (ct_health s = None \<or> ct_health s = Some ''healthy''))"
  by (auto simp: note_container_def Let_def split: option.splits)

lemma fold_note_container:
  "rf_all_stopped (fold note_container ss f) = (rf_all_stopped f \<and> (\<forall>s\<in>set ss. \<not> ct_running s))"
  "rf_all_running (fold note_container ss f) = (rf_all_running f \<and> (\<forall>s\<in>set ss. ct_running s))"
  "rf_any_starting (fold note_container ss f) = (rf_any_starting f
     \<or> (\<exists>s\<in>set ss. ct_restarting s \<or> ct_status s = ''created'' \<or> ct_health s = Some ''starting''))"
  "rf_any_unhealthy (fold note_container ss f) = (rf_any_unhealthy f \<or> (\<exists>s\<in>set ss. ct_dead s \<or> ct_health s = Some ''unhealthy''))"
  "rf_any_healthcheck (fold note_container ss f) = (rf_any_healthcheck f \<or> (\<exists>s\<in>set ss. ct_health s \<noteq> None))"
  "rf_all_healthy (fold note_container ss f) = (rf_all_healthy f \<and> (\<forall>s\<in>set ss. ct_health s = None \<or> ct_health s = Some ''healthy''))"
  by (induction ss arbitrary: f) auto

text \<open>
  C16. The verdict on a project depends on its set of containers alone, not on their order or number: the
  loop over six flags refines the condition of that set, which is running and healthy exactly when there
  are containers, all run, none is dead, restarting, freshly created or starting, and every health check
  that exists says healthy.
\<close>

theorem compose_runtime_refines:
  "fst (aggregate_compose_runtime states) = fst (project_condition (set states))
   \<and> fst (snd (aggregate_compose_runtime states)) = snd (project_condition (set states))
   \<and> snd (snd (aggregate_compose_runtime states)) = length states"
proof -
  let ?f = "fold note_container states initial_flags"
  have f: "rf_all_stopped ?f = (\<forall>s\<in>set states. \<not> ct_running s)"
    "rf_all_running ?f = (\<forall>s\<in>set states. ct_running s)"
    "rf_any_starting ?f = (\<exists>s\<in>set states. ct_restarting s \<or> ct_status s = ''created'' \<or> ct_health s = Some ''starting'')"
    "rf_any_unhealthy ?f = (\<exists>s\<in>set states. ct_dead s \<or> ct_health s = Some ''unhealthy'')"
    "rf_any_healthcheck ?f = (\<exists>s\<in>set states. ct_health s \<noteq> None)"
    "rf_all_healthy ?f = (\<forall>s\<in>set states. ct_health s = None \<or> ct_health s = Some ''healthy'')"
    by (simp_all add: fold_note_container initial_flags_def)
  show ?thesis
    unfolding aggregate_compose_runtime_def project_condition_def Let_def f
    by (simp del: not_None_eq) (auto simp del: not_None_eq)
qed

section \<open>Waiting ends\<close>

text \<open>The containers come up while the wait goes on: each look before says neither success nor failure.\<close>

inductive comes_up :: "'w transport \<Rightarrow> ('w \<Rightarrow> 'w \<times> wake) \<Rightarrow> (string \<Rightarrow> container_state result) \<Rightarrow> deployment \<Rightarrow> 'w \<Rightarrow> 'w \<Rightarrow> bool"
  for tr :: "'w transport" and sleep :: "'w \<Rightarrow> 'w \<times> wake" and read_state :: "string \<Rightarrow> container_state result" and d :: deployment where
  up: "check_running tr read_state d w = (w1, Inl None) \<Longrightarrow> comes_up tr sleep read_state d w w1"
| later: "check_running tr read_state d w = (w1, Inr rh) \<Longrightarrow> sleep w1 = (w2, Tick) \<Longrightarrow> comes_up tr sleep read_state d w2 w' \<Longrightarrow>
    comes_up tr sleep read_state d w w'"

lemma run_output_keeps:
  assumes "\<And>rq v. (left (fst (tr rq v)) :: nat) \<le> left v"
  shows "left (fst (run_output tr script privileged w)) \<le> left w"
  using assms [of "\<lparr>rq_script = script, rq_stdin = [], rq_privileged = privileged\<rparr>" w]
  by (cases "tr \<lparr>rq_script = script, rq_stdin = [], rq_privileged = privileged\<rparr> w") (simp add: run_output_def)

lemma inspect_containers_keeps:
  assumes "\<And>rq v. (left (fst (tr rq v)) :: nat) \<le> left v"
  shows "left (fst (inspect_containers tr read_state is states w)) \<le> left w"
proof (induction "is" arbitrary: states w)
  case (Cons i "is")
  obtain w1 out e where r: "run_output tr (container_script i) True w = (w1, out, e)"
    by (metis prod.exhaust)
  have "left w1 \<le> left w" using run_output_keeps [of left tr, OF assms] r by (metis fst_conv)
  then show ?case
    by (simp add: r split: option.split sum.split) (metis Cons.IH le_trans)
qed simp

lemma compose_runtime_keeps:
  assumes "\<And>rq v. (left (fst (tr rq v)) :: nat) \<le> left v"
  shows "left (fst (compose_runtime tr read_state project w)) \<le> left w"
proof -
  obtain w1 out e where r: "run_output tr (containers_script project) True w = (w1, out, e)"
    by (metis prod.exhaust)
  have 1: "left w1 \<le> left w" using run_output_keeps [of left tr, OF assms] r by (metis fst_conv)
  obtain w2 x where i: "inspect_containers tr read_state (Go_Prelude.fields out) [] w1 = (w2, x)" by fastforce
  have 2: "left w2 \<le> left w" using inspect_containers_keeps [of left tr, OF assms] i 1 by (metis fst_conv le_trans)
  show ?thesis
    by (cases e; cases x; simp add: compose_runtime_def r i 1 2 Let_def)
qed

lemma check_running_keeps:
  assumes "\<And>rq v. (left (fst (tr rq v)) :: nat) \<le> left v" and "check_running tr read_state d w = (w1, r)"
  shows "left w1 \<le> left w"
proof -
  obtain w2 x y z e where c: "compose_runtime tr read_state (dp_project d) w = (w2, (x, y, z), e)" by (metis prod.exhaust)
  have "left w2 \<le> left w" using compose_runtime_keeps [of left tr, OF assms(1)] c by (metis fst_conv)
  moreover have "w1 = w2" using assms(2) c by (cases e) (simp_all add: check_running_def)
  ultimately show ?thesis by simp
qed

lemma wait_loop_returns:
  assumes "\<And>rq v. (left (fst (tr rq v)) :: nat) \<le> left v" and "\<And>v v'. sleep v = (v', Tick) \<Longrightarrow> left v' < left v"
  shows "\<exists>w' e. wait_loop tr sleep read_state d timeout w = Some (w', e)"
proof (induction "left w" arbitrary: w rule: less_induct)
  case less
  obtain w1 r where c: "check_running tr read_state d w = (w1, r)" by fastforce
  obtain w2 k where s: "sleep w1 = (w2, k)" by fastforce
  have "left w1 \<le> left w" using check_running_keeps [of left tr, OF assms(1) c] .
  then have "k = Tick \<Longrightarrow> \<exists>w' e. wait_loop tr sleep read_state d timeout w2 = Some (w', e)"
    using less assms(2) s by fastforce
  then show ?case using c s by (subst wait_loop.simps) (auto split: sum.splits prod.splits wake.splits)
qed

lemma wait_loop_comes_up: "comes_up tr sleep read_state d w w' \<Longrightarrow> wait_loop tr sleep read_state d timeout w = Some (w', None)"
  by (induction rule: comes_up.induct) (subst wait_loop.simps, simp split: prod.splits)+

lemma wait_loop_only_comes_up:
  assumes "\<And>rq v. (left (fst (tr rq v)) :: nat) \<le> left v" and "\<And>v v'. sleep v = (v', Tick) \<Longrightarrow> left v' < left v"
  shows "wait_loop tr sleep read_state d timeout w = Some (w', None) \<Longrightarrow> comes_up tr sleep read_state d w w'"
proof (induction "left w" arbitrary: w rule: less_induct)
  case less
  obtain w1 r where c: "check_running tr read_state d w = (w1, r)" by fastforce
  show ?case
  proof (cases r)
    case (Inl answer)
    with less.prems c have "answer = None" "w1 = w'" by (simp_all add: wait_loop.simps [of _ _ _ _ _ w])
    with c Inl show ?thesis by (simp add: up)
  next
    case (Inr rh)
    obtain w2 k where s: "sleep w1 = (w2, k)" by fastforce
    have k: "k = Tick" and l: "wait_loop tr sleep read_state d timeout w2 = Some (w', None)"
      using less.prems c Inr s by (cases rh; cases k; simp add: wait_loop.simps [of _ _ _ _ _ w])+
    have "left w2 < left w"
      using check_running_keeps [of left tr, OF assms(1) c] assms(2) s k by fastforce
    then have "comes_up tr sleep read_state d w2 w'" using less.hyps l by blast
    with c Inr s k show ?thesis by (simp add: later)
  qed
qed


section \<open>Storage comes before services\<close>

text \<open>What a plan holds for one declared storage: it is ready, or its mount comes first; and it is tested.\<close>

definition storage_guarded :: "host_facts \<Rightarrow> config \<Rightarrow> string list \<Rightarrow> precondition list \<Rightarrow> string \<Rightarrow> bool" where
  "storage_guarded host cfg deps pres name \<longleftrightarrow>
     (\<exists>s. find_storage (cfg_storage cfg) name = Some s \<and> ready_precondition s \<in> pc_script ` set pres
        \<and> (as_state (assess s (hf_storage host)) = Ready
           \<or> as_state (assess s (hf_storage host)) \<in> {Missing, RootSpill} \<and> sr_managed_mount s \<and> ''storage.'' @ sr_name s @ ''.mount'' \<in> set deps))"

lemma storage_guarded_mono:
  "storage_guarded host cfg deps pres name \<Longrightarrow> set deps \<subseteq> set deps' \<Longrightarrow> set pres \<subseteq> set pres' \<Longrightarrow> storage_guarded host cfg deps' pres' name"
  unfolding storage_guarded_def by blast

lemma storage_check_script [simp]: "pc_script (storage_check d r t) = ready_precondition r"
  by (simp add: storage_check_def)

lemma storage_policy_loop_guards:
  "storage_policy_loop host cfg d rs seen deps pres = (deps', pres', []) \<Longrightarrow>
     set deps \<subseteq> set deps' \<and> set pres \<subseteq> set pres'
     \<and> (\<forall>r\<in>set rs. pr_type r = ''path'' \<and> pr_storage r \<noteq> [] \<and> pr_storage r \<notin> set seen \<longrightarrow> storage_guarded host cfg deps' pres' (pr_storage r))"
proof (induction rs arbitrary: seen deps pres)
  case (Cons data rest)
  show ?case
  proof (cases "pr_type data \<noteq> ''path'' \<or> pr_storage data = [] \<or> pr_storage data \<in> set seen")
    case True
    with Cons.prems have "storage_policy_loop host cfg d rest seen deps pres = (deps', pres', [])" by auto
    from Cons.IH [OF this] True show ?thesis by auto
  next
    case False
    then obtain r where r: "find_storage (cfg_storage cfg) (pr_storage data) = Some r"
      using Cons.prems by (auto simp: Let_def split: option.splits)
    let ?state = "as_state (assess r (hf_storage host))" and ?seen = "pr_storage data # seen"
    have "\<exists>t deps1. storage_policy_loop host cfg d rest ?seen deps1 (pres @ [storage_check d r t]) = (deps', pres', [])
        \<and> set deps \<subseteq> set deps1
        \<and> (?state = Ready \<or> ?state \<in> {Missing, RootSpill} \<and> sr_managed_mount r \<and> ''storage.'' @ sr_name r @ ''.mount'' \<in> set deps1)"
    proof (cases "?state = Ready")
      case True
      then show ?thesis using Cons.prems False r by (auto simp: Let_def)
    next
      case not_ready: False
      with Cons.prems False r have s: "?state = Missing \<or> ?state = RootSpill" "sr_managed_mount r"
        by (auto simp: Let_def split: if_splits)
      then have "storage_policy_loop host cfg d rest ?seen (deps @ [''storage.'' @ sr_name r @ ''.mount''])
          (pres @ [storage_check d r ''declared storage was mounted by the reviewed storage actions'']) = (deps', pres', [])"
        using Cons.prems False r by (auto simp: Let_def)
      with s show ?thesis
        by (intro exI [of _ "''declared storage was mounted by the reviewed storage actions''"]
            exI [of _ "deps @ [''storage.'' @ sr_name r @ ''.mount'']"]) auto
    qed
    then obtain t deps1 where l: "storage_policy_loop host cfg d rest ?seen deps1 (pres @ [storage_check d r t]) = (deps', pres', [])"
      and d1: "set deps \<subseteq> set deps1" and s: "?state = Ready \<or> ?state \<in> {Missing, RootSpill} \<and> sr_managed_mount r \<and> ''storage.'' @ sr_name r @ ''.mount'' \<in> set deps1"
      by blast
    note ih = Cons.IH [OF l]
    have "storage_guarded host cfg deps1 (pres @ [storage_check d r t]) (pr_storage data)"
      using r s by (auto simp: storage_guarded_def)
    then have "storage_guarded host cfg deps' pres' (pr_storage data)" using ih storage_guarded_mono by blast
    with ih d1 show ?thesis by auto
  qed
qed simp

lemma root_blocked_fields [simp]:
  "ch_preconditions (root_blocked c s) = ch_preconditions c" "ch_action (root_blocked c s) = ch_action c"
  "ch_blocked (root_blocked c s) = [] \<longleftrightarrow> ch_blocked c = [] \<and> (ch_requires_root c \<longrightarrow> s)"
  by (simp_all add: root_blocked_def)

lemma plan_deploy_unblocked:
  assumes "ch_blocked c = []" and "c \<in> set (plan_deploy host cfg d current dependencies storage_preconditions blocked)"
  shows "blocked = [] \<and> ch_dependencies c = dependencies \<and> set storage_preconditions \<subseteq> set (ch_preconditions c)"
proof -
  obtain kind summary reason where w: "deploy_wording d current = (kind, summary, reason)" by (metis prod.exhaust)
  show ?thesis
    using assms
    by (cases "sv_deployment_unsafe current"; cases "placement_changed d current"; cases "deployment_changed d current")
       (simp_all add: plan_deploy_def w service_change_def)
qed

text \<open>
  A deployment or a start that is planned without being blocked is guarded for every declared storage that
  the service keeps data on.
\<close>

lemma storage_before_services:
  assumes "c \<in> set (plan_service host cfg d)" and "ch_blocked c = []"
    and "ac_kind (ch_action c) \<in> {''service.deploy'', ''service.start''}"
    and "r \<in> set (dp_data d)" and "pr_type r = ''path''" and "pr_storage r \<noteq> []"
  shows "storage_guarded host cfg (ch_dependencies c) (ch_preconditions c) (pr_storage r)"
proof -
  let ?current = "service_fact host (dp_name d)"
  have selinux: "service_selinux_blocked host d = []"
  proof (rule ccontr)
    assume "service_selinux_blocked host d \<noteq> []"
    with assms(1) obtain x where "c = selinux_change d x (service_selinux_blocked host d)" by (auto simp: plan_service_def Let_def)
    with assms(3) show False by (simp add: selinux_change_def)
  qed
  have present: "dp_state d \<noteq> ''absent''"
  proof
    assume a: "dp_state d = ''absent''"
    have "ac_kind (ch_action c) = ''service.remove''"
      using assms(1) selinux a
      by (simp add: plan_service_def Let_def service_storage_policy_def plan_removal_def service_change_def split: if_splits)
    with assms(3) show False by simp
  qed
  obtain sdeps pres why where p: "service_storage_policy host cfg d = (sdeps, pres, why)" by (metis prod.exhaust)
  define deps where "deps = service_dependencies host (dp_state d) @ sdeps"
  define blocked where "blocked = (if service_blocked host ?current (dp_state d) = [] then why else service_blocked host ?current (dp_state d))"
  obtain id where c: "c \<in> set (plan_deploy host cfg d ?current deps pres blocked) \<or> c \<in> set (plan_runtime host d ?current deps id pres blocked)"
    using assms(1) selinux present p by (auto simp: plan_service_def Let_def deps_def blocked_def)
  have "blocked = [] \<and> set sdeps \<subseteq> set (ch_dependencies c) \<and> set pres \<subseteq> set (ch_preconditions c)"
    using c
  proof
    assume "c \<in> set (plan_deploy host cfg d ?current deps pres blocked)"
    with assms(2) have "blocked = [] \<and> ch_dependencies c = deps \<and> set pres \<subseteq> set (ch_preconditions c)"
      by (rule plan_deploy_unblocked)
    then show ?thesis by (simp add: deps_def)
  next
    assume "c \<in> set (plan_runtime host d ?current deps id pres blocked)"
    with assms(2,3) show ?thesis
      by (auto simp: plan_runtime_def service_change_def deps_def service_action_def append_dependency_def
          split: if_splits)
  qed
  moreover from this have "storage_policy_loop host cfg d (dp_data d) [] [] [] = (sdeps, pres, [])"
    using p present by (auto simp: service_storage_policy_def blocked_def split: if_splits)
  from storage_policy_loop_guards [OF this] have "storage_guarded host cfg sdeps pres (pr_storage r)" using assms(4-6) by auto
  ultimately show ?thesis using storage_guarded_mono by blast
qed

section \<open>What reaches the target\<close>

text \<open>The request that a reviewed change of a service stands for, when it matches the deployment.\<close>

definition service_request :: "(payload \<Rightarrow> string) \<Rightarrow> config \<Rightarrow> change \<Rightarrow> deployment \<Rightarrow> request option" where
  "service_request tar cfg c d =
     (let a = ch_action c; root = stg_data_root (cfg_storage cfg);
          send = (\<lambda>script stdin. Some \<lparr>rq_script = script, rq_stdin = stdin, rq_privileged = True\<rparr>) in
      if ac_kind a = ''service.deploy''
      then (if ac_source_digest a = dp_source_digest d \<and> ac_secret_fingerprint a = dp_secret_fingerprint d
            then send (prepare_storage_paths_script cfg d @ newline @ deploy_script root d) (tar (dp_payload d)) else None)
      else if ac_kind a = ''service.start'' then send (compose_command root d ''up -d --remove-orphans'') []
      else if ac_kind a = ''service.stop'' then send (compose_command root d ''stop'') []
      else if ac_kind a = ''service.remove'' then send (remove_script root d) []
      else None)"

definition checks_of :: "change \<Rightarrow> request list" where
  "checks_of c = map (\<lambda>p. \<lparr>rq_script = pc_script p, rq_stdin = [], rq_privileged = True\<rparr>) (ch_preconditions c)"

definition service_refusal :: "change \<Rightarrow> error" where
  "service_refusal c =
     (if ac_kind (ch_action c) = ''service.deploy'' then errorf ''service deployment input does not match reviewed action''
      else errorf (''services module refuses unexpected action '' @ go_quote (ac_kind (ch_action c))))"

lemma apply_service_sends:
  assumes "ch_module c = ''services''" and "resolve_deployment env cfg (ac_resource (ch_action c)) = Inr d"
    and "ac_kind (ch_action c) = ''service.remove'' \<or> ac_input_fingerprint (ch_action c) = dp_input_fingerprint d"
    and "run_preconditions tr ''services module'' (ch_id c) True (ch_preconditions c) w = (w1, None)"
  shows "apply_service env tar tr cfg c w =
    (case service_request tar cfg c d of
       None \<Rightarrow> (w1, Some (service_refusal c))
     | Some rq \<Rightarrow> run_input tr (rq_script rq) (rq_stdin rq) (rq_privileged rq) w1)"
proof -
  have "\<not> (ac_kind (ch_action c) \<noteq> ''service.remove'' \<and> ac_input_fingerprint (ch_action c) \<noteq> dp_input_fingerprint d)"
    using assms(3) by blast
  with assms(1,2,4) show ?thesis
    by (simp only: apply_service_def Let_def sum.case prod.case option.case simp_thms if_True if_False)
       (simp add: service_request_def service_refusal_def run_script_def Let_def)
qed

lemma service_request_privileged: "service_request tar cfg c d = Some rq \<Longrightarrow> rq_privileged rq"
  by (auto simp: service_request_def Let_def split: if_splits)

lemma apply_service_cases:
  assumes "apply_service env tar tr cfg c w = (w', e)"
  shows "(w' = w \<and> e \<noteq> None)
    \<or> (\<exists>d w1 e1. ch_module c = ''services'' \<and> resolve_deployment env cfg (ac_resource (ch_action c)) = Inr d
        \<and> (ac_kind (ch_action c) = ''service.remove'' \<or> ac_input_fingerprint (ch_action c) = dp_input_fingerprint d)
        \<and> run_preconditions tr ''services module'' (ch_id c) True (ch_preconditions c) w = (w1, e1)
        \<and> (e1 \<noteq> None \<and> w' = w1 \<and> e \<noteq> None
           \<or> e1 = None \<and> (case service_request tar cfg c d of
                None \<Rightarrow> w' = w1 \<and> e \<noteq> None
              | Some rq \<Rightarrow> run_input tr (rq_script rq) (rq_stdin rq) (rq_privileged rq) w1 = (w', e))))"
proof (cases "ch_module c = ''services''")
  case False
  with assms show ?thesis by (auto simp: apply_service_def)
next
  case True
  show ?thesis
  proof (cases "resolve_deployment env cfg (ac_resource (ch_action c))")
    case (Inl x)
    with assms True show ?thesis by (auto simp: apply_service_def)
  next
    case (Inr d)
    obtain w1 e1 where p: "run_preconditions tr ''services module'' (ch_id c) True (ch_preconditions c) w = (w1, e1)" by fastforce
    show ?thesis
    proof (cases "ac_kind (ch_action c) = ''service.remove'' \<or> ac_input_fingerprint (ch_action c) = dp_input_fingerprint d")
      case False
      with assms True Inr show ?thesis by (auto simp: apply_service_def Let_def)
    next
      case m: True
      show ?thesis
      proof (cases e1)
        case None
        with apply_service_sends [OF True Inr m p [unfolded None], of tar] assms
        have "case service_request tar cfg c d of
                None \<Rightarrow> w' = w1 \<and> e \<noteq> None
              | Some rq \<Rightarrow> run_input tr (rq_script rq) (rq_stdin rq) (rq_privileged rq) w1 = (w', e)"
          by (cases "service_request tar cfg c d") simp_all
        with True Inr m p None show ?thesis by blast
      next
        case (Some x)
        with assms True Inr m p have "w' = w1" "e = Some x" by (auto simp: apply_service_def Let_def)
        with True Inr m p Some show ?thesis by blast
      qed
    qed
  qed
qed


section \<open>Examples\<close>

definition ex_deployment :: deployment where
  "ex_deployment = \<lparr>dp_name = ''media'', dp_project = ''p'', dp_state = ''running'', dp_compose_file = ''compose.yaml'',
     dp_source_directory = [], dp_files = [], dp_source_digest = ''d'', dp_secret_fingerprint = [], dp_placement_fingerprint = ''p'',
     dp_input_fingerprint = ''i'', dp_secret_configured = False, dp_ports = [], dp_data = [ex_library],
     dp_backup_consistency = ''stop'', dp_storage_environment = [], dp_payload = []\<rparr>"

text \<open>A target with Docker whose declared disk is not mounted: \<open>findmnt\<close> reports the root file system only.\<close>

definition ex_bare_target :: host_facts where
  "ex_bare_target = zero_host_facts\<lparr>hf_sudo_available := True, hf_storage := ex_topology [''/''],
     hf_docker := (hf_docker zero_host_facts)\<lparr>dk_compose_available := True\<rparr>\<rparr>"

lemma ex_first_change:
  "hd (plan_service ex_bare_target ex_config ex_deployment) \<in> set (plan_service ex_bare_target ex_config ex_deployment)
   \<and> ch_blocked (hd (plan_service ex_bare_target ex_config ex_deployment)) = []
   \<and> ac_kind (ch_action (hd (plan_service ex_bare_target ex_config ex_deployment))) = ''service.deploy''"
proof -
  have s: "as_state (assess ex_disk (ex_topology [''/''])) = RootSpill"
    by (simp add: assess_def ex_config_def ex_topology_def ex_mount_def mount_covers_def zero_storage_facts_def)
  have p: "service_storage_policy ex_bare_target ex_config ex_deployment
      = ([''storage.disk.mount''], [storage_check ex_deployment ex_disk ''declared storage was mounted by the reviewed storage actions''], [])"
    using s by (simp add: service_storage_policy_def ex_deployment_def ex_library_def find_storage_def ex_config_def ex_bare_target_def Let_def)
  have b: "service_blocked ex_bare_target (service_fact ex_bare_target ''media'') ''running'' = []"
    by (simp add: service_blocked_def ex_bare_target_def service_fact_def missing_service_def zero_host_facts_def)
  have f: "service_fact ex_bare_target ''media'' = missing_service ''media''"
    by (simp add: service_fact_def ex_bare_target_def zero_host_facts_def)
  have x: "service_selinux_blocked ex_bare_target ex_deployment = []"
    by (simp add: service_selinux_blocked_def ex_deployment_def ex_library_def)
  have n: "dp_name ex_deployment = ''media''" "dp_state ex_deployment = ''running''" "dp_data ex_deployment = [ex_library]"
    by (simp_all add: ex_deployment_def)
  have w: "deploy_wording ex_deployment (missing_service ''media'') = (''deploy'', ''deploy Compose source'', ''managed deployment is missing'')"
    "placement_changed ex_deployment (missing_service ''media'') = False" "deployment_changed ex_deployment (missing_service ''media'')"
    "sv_deployment_unsafe (missing_service ''media'') = False"
    by (simp_all add: deploy_wording_def placement_changed_def deployment_changed_def missing_service_def ex_deployment_def)
  have sudo: "hf_sudo_available ex_bare_target" by (simp add: ex_bare_target_def)
  let ?cs = "plan_service ex_bare_target ex_config ex_deployment"
  have "?cs \<noteq> [] \<and> ch_blocked (hd ?cs) = [] \<and> ac_kind (ch_action (hd ?cs)) = ''service.deploy''"
    using sudo b by (simp add: plan_service_def x p n f w plan_deploy_def service_change_def service_action_def Let_def)
  then show ?thesis by simp
qed

text \<open>A clock that counts down, and a container that comes up when one tick is left.\<close>

definition ex_starting :: "nat transport" where
  "ex_starting rq left = (left, \<lparr>cr_stdout = (if rq_script rq = containers_script ''p'' then ''c1'' else if left \<le> 1 then ''up'' else ''down''),
     cr_stderr = [], cr_exit_code = 0\<rparr>, None)"

definition ex_sleep :: "nat \<Rightarrow> nat \<times> wake" where
  "ex_sleep left = (if left = 0 then (0, Deadline) else (left - 1, Tick))"

definition ex_read_state :: "string \<Rightarrow> container_state result" where
  "ex_read_state t = Inr \<lparr>ct_status = ''running'', ct_running = (t = ''up''), ct_restarting = (t \<noteq> ''up''), ct_dead = False, ct_health = None\<rparr>"

lemma ex_check_running:
  "check_running ex_starting ex_read_state ex_deployment n = (n, if n \<le> 1 then Inl None else Inr (''starting'', ''starting''))"
proof -
  have "containers_script ''p'' \<noteq> container_script ''c1''" by (simp add: containers_script_def container_script_def)
  moreover have "Go_Prelude.fields ''c1'' = [''c1'']" "trim_space ''up'' = ''up''" "trim_space ''down'' = ''down''"
    by (simp_all add: Go_Prelude.fields_def is_space_def trim_space_def char_eval)
  ultimately show ?thesis
    by (simp add: check_running_def compose_runtime_def run_output_def ex_starting_def ex_read_state_def ex_deployment_def Let_def
        aggregate_compose_runtime_def note_container_def initial_flags_def)
qed


lemma ex_resolves: "\<exists>d. resolve_deployment ex_env ex_deploy_config ''media'' = Inr d"
proof -
  let ?svc = "hd (cfg_services ex_deploy_config)"
  have one: "cfg_services ex_deploy_config = [?svc]" "svc_name ?svc = ''media''"
    by (simp_all add: ex_deploy_config_def ex_config_def ex_service_def)
  obtain ds where "resolve_services ex_env ex_deploy_config [?svc] [] = Inr ds"
    using ex_deploys ex_deploy_valid one(1) by (auto simp: resolve_deployments_def)
  then obtain d where "resolve_one ex_env ex_deploy_config ?svc = Inr d" by (auto simp: result_simps)
  moreover have "find (\<lambda>s. svc_name s = ''media'') (cfg_services ex_deploy_config) = Some ?svc"
    by (subst one(1)) (simp add: one(2))
  ultimately show ?thesis using ex_deploy_valid by (simp add: resolve_deployment_def)
qed

definition ex_answering :: "unit transport" where
  "ex_answering rq w = (w, \<lparr>cr_stdout = [], cr_stderr = [], cr_exit_code = 0\<rparr>, None)"



end
