(* ===== verification/Modules.thy ===== *)
theory Modules
  imports Host_Modules Updates_Module Tailscale_Module Compose_Module
begin

text \<open>
  File \<open>internal/modules/modules.go\<close>: the modules that the program plans with, and what holds across them.
\<close>

text \<open>
  \<open>Verify\<close> of the Compose module may wait; the record of a module has no place for a call that does not
  return, so \<open>the\<close> leaves that case open. It does not arise on a clock that reaches its deadlines.
\<close>

definition compose_module :: "source_env \<Rightarrow> (payload \<Rightarrow> string) \<Rightarrow> ('w \<Rightarrow> 'w \<times> wake) \<Rightarrow> (string \<Rightarrow> container_state result)
    \<Rightarrow> 'w transport \<Rightarrow> 'w module_ops" where
  "compose_module env tar sleep read_state tr =
     \<lparr>md_name = ''services'', md_plan = plan_services env, md_apply = apply_service env tar tr,
      md_verify = (\<lambda>cfg c w. the (verify_service env tr sleep read_state cfg c w))\<rparr>"

definition default_modules :: "source_env \<Rightarrow> (payload \<Rightarrow> string) \<Rightarrow> ('w \<Rightarrow> 'w \<times> wake) \<Rightarrow> (string \<Rightarrow> container_state result)
    \<Rightarrow> 'w transport \<Rightarrow> 'w module_ops list" where
  "default_modules env tar sleep read_state tr =
     [base_module tr, updates_module tr, docker_module tr, tailscale_module tr, ssh_module tr, storage_module tr,
      compose_module env tar sleep read_state tr]"

section \<open>Planned changes run\<close>

lemma planned_member: "planned_all kinds (cs, ws) \<Longrightarrow> c \<in> set cs \<Longrightarrow> planned kinds c"
  by (simp add: planned_all_def list_all_iff)

lemma planned_known: "planned docker_plan_kinds c \<Longrightarrow> ac_kind (ch_action c) \<noteq> ''docker.enable-cgroups'' \<Longrightarrow> planned docker_kinds c"
  by (auto simp: planned_def actionable_def docker_plan_kinds_def)

lemma scripted_plans:
  assumes "m \<in> set (default_modules env tar sleep read_state tr)" and "md_name m \<noteq> ''services''"
    and "md_plan m host cfg = Inr (cs, ws)" and "c \<in> set cs" and "ac_kind (ch_action c) \<noteq> ''docker.enable-cgroups''"
  shows "\<exists>kinds. md_apply m cfg = run_action tr kinds \<and> planned kinds c"
proof -
  from assms(1,2) consider "m = base_module tr" | "m = updates_module tr" | "m = docker_module tr" | "m = tailscale_module tr"
    | "m = ssh_module tr" | "m = storage_module tr"
    by (auto simp: default_modules_def compose_module_def)
  then show ?thesis
  proof cases
    case 1
    with assms(3) have p: "plan_base host cfg = (cs, ws)" by (simp add: base_module_def)
    from plan_base_planned [of host cfg] p assms(4) planned_member 1 show ?thesis
      by (intro exI conjI [rotated]) (simp, erule planned_member, assumption, simp add: base_module_def)
  next
    case 2
    with assms(3) have p: "plan_updates host cfg = (cs, ws)" by (simp add: updates_module_def)
    from plan_updates_planned [of host cfg] p assms(4) planned_member 2 show ?thesis
      by (intro exI conjI [rotated]) (simp, erule planned_member, assumption, simp add: updates_module_def)
  next
    case 3
    with assms(3) have p: "plan_docker host cfg = (cs, ws)" by (simp add: docker_module_def)
    from planned_known [OF planned_member [OF plan_docker_planned [of host cfg, unfolded p] assms(4)] assms(5)] 3 show ?thesis
      by (auto simp: docker_module_def)
  next
    case 4
    with assms(3) have p: "plan_tailscale host cfg = (cs, ws)" by (simp add: tailscale_module_def)
    from planned_member [OF plan_tailscale_planned [of host cfg, unfolded p] assms(4)] 4 show ?thesis
      by (auto simp: tailscale_module_def)
  next
    case 5
    with assms(3) have p: "plan_ssh host cfg = (cs, ws)" by (simp add: ssh_module_def)
    from planned_member [OF plan_ssh_planned [of host cfg, unfolded p] assms(4)] 5 show ?thesis
      by (auto simp: ssh_module_def)
  next
    case 6
    with assms(3) have p: "plan_storage host cfg = (cs, ws)" by (simp add: storage_module_def)
    from planned_member [OF plan_storage_planned [of host cfg, unfolded p] assms(4)] 6 show ?thesis
      by (auto simp: storage_module_def)
  qed
qed

text \<open>
  C12. What a module plans it also carries out. Every change that the base, updates, docker, tailscale, ssh
  or storage module plans for any host and configuration needs root; and if it is not blocked then its own
  module accepts it: on a target that answers every request without an error \<open>Apply\<close> returns no error. The
  one exception is the cgroups service of Alpine, which is planned under a kind that \<open>Apply\<close> refuses.
\<close>

theorem planned_changes_run:
  assumes "m \<in> set (default_modules env tar sleep read_state tr)" and "md_name m \<noteq> ''services''"
    and "md_plan m host cfg = Inr (cs, ws)" and "c \<in> set cs" and "ac_kind (ch_action c) \<noteq> ''docker.enable-cgroups''"
    and "\<And>rq v. snd (snd (tr rq v)) = None"
  shows "ch_requires_root c \<and> (ch_blocked c = [] \<longrightarrow> snd (md_apply m cfg c w) = None)"
proof -
  obtain kinds where k: "md_apply m cfg = run_action tr kinds" "planned kinds c"
    using scripted_plans [OF assms(1-5)] by blast
  have "ch_requires_root c" using k(2) by (simp add: planned_def)
  with planned_not_refused [of kinds c tr w] k assms(6) show ?thesis by simp
qed

lemma planned_changes_run_witness:
  "ch_blocked (hd (fst (plan_base (zero_host_facts\<lparr>hf_sudo_available := True\<rparr>) ex_config))) = []
   \<and> snd (md_apply (base_module ex_answering) ex_config (hd (fst (plan_base (zero_host_facts\<lparr>hf_sudo_available := True\<rparr>) ex_config))) ()) = None"
proof -
  let ?h = "zero_host_facts\<lparr>hf_sudo_available := True\<rparr>" and ?m = "base_module ex_answering"
  let ?c = "root_blocked (base_data_root ''/srv/bebop'' (shell_quote ''/srv/bebop'')) True"
  have p: "plan_base ?h ex_config = ([?c], [])"
    by (simp add: plan_base_def zero_host_facts_def ex_config_def Let_def zero_directory_def)
  have b: "ch_blocked ?c = []" "ac_kind (ch_action ?c) \<noteq> ''docker.enable-cgroups''" by (simp_all add: base_data_root_def)
  have m: "?m \<in> set (default_modules ex_env (\<lambda>_. []) (\<lambda>w. (w, Deadline)) ex_read_state ex_answering)" "md_name ?m \<noteq> ''services''"
    "md_plan ?m ?h ex_config = Inr ([?c], [])"
    using p by (simp_all add: default_modules_def base_module_def)
  have "snd (snd (ex_answering rq v)) = None" for rq v by (simp add: ex_answering_def)
  with planned_changes_run [OF m, of ?c "()"] b p show ?thesis by simp
qed

text \<open>The exception: whatever the target answers, the module refuses the change that it planned.\<close>

lemma alpine_cgroups_refused:
  "run_action tr docker_kinds (root_blocked alpine_docker_cgroups s) w
     = (w, Some (errorf (''module refuses unexpected action '' @ go_quote ''docker.enable-cgroups'')))"
  by (simp add: run_action_def docker_kinds_def alpine_docker_cgroups_def)

section \<open>Data is only written to mounted storage\<close>

lemma assess_loop_resource: "as_resource (assess_loop r cover ms) = Some r"
  by (induction r cover ms rule: assess_loop.induct) (auto simp: assess_mounted_def Let_def split: option.splits)

lemma assess_resource: "as_resource (assess r topology) = Some r"
  by (auto simp: assess_def assess_loop_resource split: option.splits storage_state.splits)

lemma plan_storage_mounts:
  assumes "find_storage (cfg_storage cfg) name = Some s" and "sr_managed_mount s" and "as_state (assess s (hf_storage host)) \<in> {Missing, RootSpill}"
  shows "\<exists>m\<in>set (fst (plan_storage host cfg)). ch_id m = ''storage.'' @ sr_name s @ ''.mount''
    \<and> ch_preconditions m = ch_preconditions (storage_mount_change s (assess s (hf_storage host)) (''storage.'' @ sr_name s @ ''.mount-config''))"
proof -
  let ?a = "assess s (hf_storage host)"
  have mem: "s \<in> set (stg_resources (cfg_storage cfg))" using assms(1) by (auto simp: find_storage_def find_Some_iff)
  have r: "as_resource ?a = Some s" by (rule assess_resource)
  have "plan_storage_resource s ?a (hf_sudo_available host) = storage_mount_changes s ?a (hf_sudo_available host)"
    using assms(2,3) by (auto simp: plan_storage_resource_def)
  moreover have "root_blocked (storage_mount_change s ?a (''storage.'' @ sr_name s @ ''.mount-config'')) (hf_sudo_available host)
      \<in> set (storage_mount_changes s ?a (hf_sudo_available host))"
    by (simp add: storage_mount_changes_def Let_def)
  ultimately have "root_blocked (storage_mount_change s ?a (''storage.'' @ sr_name s @ ''.mount-config'')) (hf_sudo_available host)
      \<in> set (fst (plan_storage host cfg))"
    using mem r by (auto simp: plan_storage_def assess_all_def intro!: bexI [of _ s])
  moreover have "ch_id (storage_mount_change s ?a (''storage.'' @ sr_name s @ ''.mount-config'')) = ''storage.'' @ sr_name s @ ''.mount''"
    by (simp add: storage_mount_change_def)
  ultimately show ?thesis by (intro bexI) simp_all
qed

text \<open>
  C13. No data is written where its file system is not mounted. A deployment or a start of a service that is
  planned without being blocked tests, before it changes anything, the mount of every declared storage that
  the service keeps data on. That storage was ready when the target was inspected; or the storage module
  plans its mount for the same host and configuration, and the change depends on that mount.
\<close>

theorem service_storage_secured:
  assumes "c \<in> set (plan_service host cfg d)" and "ch_blocked c = []"
    and "ac_kind (ch_action c) \<in> {''service.deploy'', ''service.start''}"
    and "r \<in> set (dp_data d)" and "pr_type r = ''path''" and "pr_storage r \<noteq> []"
  shows "\<exists>s. find_storage (cfg_storage cfg) (pr_storage r) = Some s
    \<and> ready_precondition s \<in> pc_script ` set (ch_preconditions c)
    \<and> (as_state (assess s (hf_storage host)) = Ready
       \<or> (\<exists>m\<in>set (fst (plan_storage host cfg)). ch_id m = ''storage.'' @ sr_name s @ ''.mount'' \<and> ch_id m \<in> set (ch_dependencies c)))"
proof -
  obtain s where s: "find_storage (cfg_storage cfg) (pr_storage r) = Some s" "ready_precondition s \<in> pc_script ` set (ch_preconditions c)"
    "as_state (assess s (hf_storage host)) = Ready
     \<or> as_state (assess s (hf_storage host)) \<in> {Missing, RootSpill} \<and> sr_managed_mount s \<and> ''storage.'' @ sr_name s @ ''.mount'' \<in> set (ch_dependencies c)"
    using storage_before_services [OF assms] unfolding storage_guarded_def by blast
  from s(3) plan_storage_mounts [OF s(1), of host] s(1,2) show ?thesis by (metis (no_types, lifting))
qed

lemma service_storage_secured_witness:
  "ready_precondition ex_disk \<in> pc_script ` set (ch_preconditions (hd (plan_service ex_bare_target ex_config ex_deployment)))"
proof -
  have r: "ex_library \<in> set (dp_data ex_deployment)" "pr_type ex_library = ''path''" "pr_storage ex_library \<noteq> []"
    by (simp_all add: ex_deployment_def ex_library_def)
  have k: "ac_kind (ch_action (hd (plan_service ex_bare_target ex_config ex_deployment))) \<in> {''service.deploy'', ''service.start''}"
    using ex_first_change by simp
  from service_storage_secured [of "hd (plan_service ex_bare_target ex_config ex_deployment)", OF _ _ k r] ex_first_change
  obtain s where "find_storage (cfg_storage ex_config) (pr_storage ex_library) = Some s"
    "ready_precondition s \<in> pc_script ` set (ch_preconditions (hd (plan_service ex_bare_target ex_config ex_deployment)))" by blast
  moreover have "find_storage (cfg_storage ex_config) (pr_storage ex_library) = Some ex_disk"
    by (simp add: find_storage_def ex_config_def ex_library_def)
  ultimately show ?thesis by simp
qed

section \<open>Dependencies that no module plans\<close>

text \<open>
  A service depends on \<open>docker.compose\<close> whenever Compose is not available, but the plans for Alpine,
  Devuan and Artix, where the engine comes with Compose, never have a change of that name.
\<close>

lemma compose_never_planned:
  "''docker.compose'' \<notin> ch_id ` set (fst (plan_devuan_docker host cfg))"
  "''docker.compose'' \<notin> ch_id ` set (fst (plan_artix_docker host cfg))"
  "''docker.compose'' \<notin> ch_id ` set (fst (plan_alpine_docker host cfg))"
  and compose_required: "\<not> dk_compose_available (hf_docker host) \<Longrightarrow> ''docker.compose'' \<in> set (service_dependencies host state)"
  by (simp_all add: plan_devuan_docker_def plan_artix_docker_def plan_alpine_docker_def Let_def service_dependencies_def)
    auto

end
