(* ===== verification/Retention.thy ===== *)
theory Retention
  imports Repository
begin

text \<open>
  File \<open>internal/backup/retention.go\<close>: which snapshots of a maintenance job are removed, and the
  removal through \<open>Delete\<close>.
\<close>

section \<open>Retention\<close>

record retention_plan =
  rp_scope :: string
  rp_keep_last :: int
  rp_remove :: "snapshot_summary list"
  rp_corrupt_skipped :: "string list"

definition in_scope :: "codec \<Rightarrow> string \<Rightarrow> snapshot_dir \<Rightarrow> manifest option" where
  "in_scope cd scope s =
     (if \<not> listed_entry s then None
      else (case load_manifest cd (Some s) of
              Inl _ \<Rightarrow> None
            | Inr m \<Rightarrow> (case mf_maintenance m of
                          None \<Rightarrow> None
                        | Some v \<Rightarrow> if mp_scope v = scope then Some m else None)))"

definition plan_retention :: "codec \<Rightarrow> repository \<Rightarrow> string \<Rightarrow> int \<Rightarrow> retention_plan result" where
  "plan_retention cd repo scope keep_last =
     rfail_if (length scope \<noteq> 64 \<or> keep_last < 1) (errorf ''invalid backup retention policy'')
       (let ms = List.map_filter (in_scope cd scope) repo;
            candidates = sort_slice (\<lambda>c. (su_created_at c, su_snapshot_id c))
              (map summary_of (filter (\<lambda>m. is_ok (verify cd repo (mf_snapshot_id m))) ms))
        in Inr \<lparr>rp_scope = scope, rp_keep_last = keep_last,
                rp_remove = (if int (length candidates) > keep_last then take (length candidates - nat keep_last) candidates else []),
                rp_corrupt_skipped = sort_slice id (map mf_snapshot_id (filter (\<lambda>m. \<not> is_ok (verify cd repo (mf_snapshot_id m))) ms))\<rparr>)"

fun remove_snapshots :: "codec \<Rightarrow> (string \<Rightarrow> removal) \<Rightarrow> snapshot_summary list \<Rightarrow> repository \<Rightarrow> repository \<times> error option" where
  "remove_snapshots cd answer [] repo = (repo, None)"
| "remove_snapshots cd answer (s # ss) repo =
     (case delete cd (answer (su_snapshot_id s)) (su_snapshot_id s) repo of
        (repo1, Some e) \<Rightarrow> (repo1, Some e)
      | (repo1, None) \<Rightarrow> remove_snapshots cd answer ss repo1)"

definition apply_retention :: "codec \<Rightarrow> (string \<Rightarrow> removal) \<Rightarrow> retention_plan \<Rightarrow> repository \<Rightarrow> repository \<times> error option" where
  "apply_retention cd answer p repo = remove_snapshots cd answer (rp_remove p) repo"

section \<open>Lemmas\<close>

text \<open>Every manifest that can be loaded lies in the directory of its own identifier.\<close>

definition self_named :: "codec \<Rightarrow> repository \<Rightarrow> bool" where
  "self_named cd repo \<longleftrightarrow>
     distinct (map sn_name repo)
     \<and> list_all (\<lambda>s. case load_manifest cd (Some s) of Inl _ \<Rightarrow> True | Inr m \<Rightarrow> mf_snapshot_id m = sn_name s) repo"

text \<open>The snapshots that a retention run counts: of the scope, and verified.\<close>

definition counted :: "codec \<Rightarrow> string \<Rightarrow> repository \<Rightarrow> snapshot_dir \<Rightarrow> bool" where
  "counted cd scope repo s \<longleftrightarrow> in_scope cd scope s \<noteq> None \<and> is_ok (verify cd repo (sn_name s))"

definition age_key :: "snapshot_summary \<Rightarrow> instant \<times> string" where
  "age_key s = (su_created_at s, su_snapshot_id s)"

definition summary_at :: "snapshot_dir \<Rightarrow> snapshot_summary" where
  "summary_at s = (case sn_manifest s of Decoded m \<Rightarrow> summary_of m | _ \<Rightarrow> undefined)"

lemma in_scope_Some:
  "in_scope cd scope s = Some m \<longleftrightarrow> listed_entry s \<and> load_manifest cd (Some s) = Inr m
     \<and> (\<exists>v. mf_maintenance m = Some v \<and> mp_scope v = scope)"
  by (auto simp: in_scope_def split: sum.splits option.splits if_splits)

lemma in_scope_named:
  assumes "self_named cd repo" and "s \<in> set repo" and "in_scope cd scope s = Some m"
  shows "mf_snapshot_id m = sn_name s" and "summary_at s = summary_of m" and "su_snapshot_id (summary_at s) = sn_name s"
proof -
  show n: "mf_snapshot_id m = sn_name s"
    using assms by (auto simp: self_named_def list_all_iff in_scope_Some split: sum.splits)
  show s: "summary_at s = summary_of m"
    using assms(3) by (auto simp: in_scope_Some load_manifest_ok summary_at_def)
  show "su_snapshot_id (summary_at s) = sn_name s" using n s by (simp add: summary_of_def)
qed

lemma verify_without:
  "P ident \<Longrightarrow> verify cd (filter (\<lambda>s. P (sn_name s)) repo) ident = verify cd repo ident"
  by (rule verify_find) (rule find_snapshot_filter)

lemma filter_replaced:
  "filter (\<lambda>s. sn_name s \<noteq> ident) (map (\<lambda>s. if sn_name s = ident then left\<lparr>sn_name := ident\<rparr> else s) repo)
   = filter (\<lambda>s. sn_name s \<noteq> ident) repo"
  by (induction repo) auto

lemma delete_effect:
  assumes "delete cd answer ident repo = (repo', err)"
  shows "filter (\<lambda>s. sn_name s \<noteq> ident) repo' = filter (\<lambda>s. sn_name s \<noteq> ident) repo"
    and "err = None \<Longrightarrow> repo' = filter (\<lambda>s. sn_name s \<noteq> ident) repo"
    and "is_ok (verify cd repo ident) \<Longrightarrow> answer = Removed \<Longrightarrow> err = None"
  using assms filter_replaced by (auto simp: delete_def is_ok_iff split: sum.splits removal.splits)

text \<open>The entries that a plan removes.\<close>

definition gone :: "snapshot_summary list \<Rightarrow> snapshot_dir \<Rightarrow> bool" where
  "gone ss s \<longleftrightarrow> sn_name s \<in> su_snapshot_id ` set ss"

lemma remove_snapshots_effect:
  assumes "remove_snapshots cd answer ss repo = (repo', err)"
  shows "filter (\<lambda>s. \<not> gone ss s) repo' = filter (\<lambda>s. \<not> gone ss s) repo"
    and "err = None \<Longrightarrow> repo' = filter (\<lambda>s. \<not> gone ss s) repo"
    and "\<lbrakk>distinct (map su_snapshot_id ss); \<forall>s\<in>set ss. is_ok (verify cd repo (su_snapshot_id s)); \<forall>i. answer i = Removed\<rbrakk>
      \<Longrightarrow> err = None"
proof -
  have "filter (\<lambda>s. \<not> gone ss s) repo' = filter (\<lambda>s. \<not> gone ss s) repo
    \<and> (err = None \<longrightarrow> repo' = filter (\<lambda>s. \<not> gone ss s) repo)
    \<and> (distinct (map su_snapshot_id ss) \<and> (\<forall>s\<in>set ss. is_ok (verify cd repo (su_snapshot_id s))) \<and> (\<forall>i. answer i = Removed)
       \<longrightarrow> err = None)"
    using assms
  proof (induction ss arbitrary: repo)
    case Nil
    then show ?case by (simp add: gone_def)
  next
    case (Cons x ss)
    let ?i = "su_snapshot_id x"
    have g: "filter (\<lambda>s. \<not> gone (x # ss) s) r = filter (\<lambda>s. \<not> gone ss s) (filter (\<lambda>s. sn_name s \<noteq> ?i) r)" for r
      by (auto simp: gone_def intro: filter_cong)
    obtain repo1 e where d: "delete cd (answer ?i) ?i repo = (repo1, e)" by fastforce
    note de = delete_effect [OF d]
    show ?case
    proof (cases e)
      case None
      with Cons.prems d have "remove_snapshots cd answer ss repo1 = (repo', err)" by simp
      note ih = Cons.IH [OF this] and r1 = de(2) [OF None]
      have ok: "\<forall>s\<in>set ss. is_ok (verify cd repo1 (su_snapshot_id s))"
        if "distinct (map su_snapshot_id (x # ss))" "\<forall>s\<in>set (x # ss). is_ok (verify cd repo (su_snapshot_id s))"
      proof
        fix s assume "s \<in> set ss"
        with that(1) have "su_snapshot_id s \<noteq> ?i" by (metis distinct.simps(2) image_eqI list.set_map list.simps(9))
        then show "is_ok (verify cd repo1 (su_snapshot_id s))"
          using that(2) \<open>s \<in> set ss\<close> verify_without [of "\<lambda>n. n \<noteq> ?i" "su_snapshot_id s" cd repo] by (simp add: r1)
      qed
      have "filter (\<lambda>s. \<not> gone (x # ss) s) repo' = filter (\<lambda>s. sn_name s \<noteq> ?i) (filter (\<lambda>s. \<not> gone ss s) repo')"
        by (auto simp: gone_def intro: filter_cong)
      also have "\<dots> = filter (\<lambda>s. \<not> gone (x # ss) s) repo"
        using ih r1 by (auto simp: gone_def intro: filter_cong)
      finally show ?thesis using ih r1 ok unfolding g by auto
    next
      case (Some e')
      with Cons.prems d have "repo' = repo1" "err = Some e'" by auto
      then show ?thesis using de Some by (auto simp: g)
    qed
  qed
  then show "filter (\<lambda>s. \<not> gone ss s) repo' = filter (\<lambda>s. \<not> gone ss s) repo"
    and "err = None \<Longrightarrow> repo' = filter (\<lambda>s. \<not> gone ss s) repo"
    and "\<lbrakk>distinct (map su_snapshot_id ss); \<forall>s\<in>set ss. is_ok (verify cd repo (su_snapshot_id s)); \<forall>i. answer i = Removed\<rbrakk>
      \<Longrightarrow> err = None" by blast+
qed

lemma candidates_counted:
  assumes "self_named cd repo"
  shows "map summary_of (filter (\<lambda>m. is_ok (verify cd repo (mf_snapshot_id m))) (List.map_filter (in_scope cd scope) repo))
    = map summary_at (filter (counted cd scope repo) repo)"
proof -
  have "map summary_of (filter (\<lambda>m. is_ok (verify cd repo (mf_snapshot_id m))) (List.map_filter (in_scope cd scope) xs))
    = map summary_at (filter (counted cd scope repo) xs)" if "set xs \<subseteq> set repo" for xs
    using that
  proof (induction xs)
    case (Cons x xs)
    then show ?case
      using in_scope_named [OF assms, of x scope] by (cases "in_scope cd scope x") (auto simp: counted_def map_filter_simps)
  qed (simp add: map_filter_simps)
  then show ?thesis by blast
qed

text \<open>The counted snapshots from the oldest to the newest.\<close>

definition by_age :: "codec \<Rightarrow> string \<Rightarrow> repository \<Rightarrow> snapshot_summary list" where
  "by_age cd scope repo = sort_slice age_key (map summary_at (filter (counted cd scope repo) repo))"

lemma plan_retention_ok:
  assumes "self_named cd repo" and "plan_retention cd repo scope n = Inr p"
  shows "rp_remove p = take (length (by_age cd scope repo) - nat n) (by_age cd scope repo)"
proof -
  have "(\<lambda>c. (su_created_at c, su_snapshot_id c)) = age_key" by (simp add: age_key_def fun_eq_iff)
  then have c: "sort_slice (\<lambda>c. (su_created_at c, su_snapshot_id c)) (map summary_of (filter (\<lambda>m. is_ok (verify cd repo (mf_snapshot_id m)))
      (List.map_filter (in_scope cd scope) repo))) = by_age cd scope repo"
    by (simp only: candidates_counted [OF assms(1)] by_age_def)
  show ?thesis
    using assms(2) unfolding plan_retention_def Let_def c by (auto simp: result_simps)
qed

lemma by_age_names:
  assumes "self_named cd repo"
  shows "mset (map su_snapshot_id (by_age cd scope repo)) = mset (map sn_name (filter (counted cd scope repo) repo))"
    and "distinct (map su_snapshot_id (by_age cd scope repo))"
proof -
  have "map su_snapshot_id (map summary_at (filter (counted cd scope repo) repo)) = map sn_name (filter (counted cd scope repo) repo)"
    using in_scope_named(3) [OF assms] by (auto simp: counted_def)
  moreover have "mset (map su_snapshot_id (by_age cd scope repo)) = mset (map su_snapshot_id (map summary_at (filter (counted cd scope repo) repo)))"
    by (simp only: by_age_def mset_map mset_sort)
  ultimately show m: "mset (map su_snapshot_id (by_age cd scope repo)) = mset (map sn_name (filter (counted cd scope repo) repo))"
    by (simp only:)
  have "distinct (map sn_name (filter (counted cd scope repo) repo))"
    using assms by (simp add: self_named_def distinct_map_filter)
  with m show "distinct (map su_snapshot_id (by_age cd scope repo))" by (metis mset_eq_imp_distinct_iff)
qed

lemma gone_counted:
  assumes "self_named cd repo" and "set ss \<subseteq> set (by_age cd scope repo)" and "s \<in> set repo" and "gone ss s"
  shows "counted cd scope repo s" and "summary_at s \<in> set ss"
proof -
  obtain c where c: "c \<in> set ss" "su_snapshot_id c = sn_name s" using assms(4) by (auto simp: gone_def)
  then obtain t where t: "t \<in> set repo" "counted cd scope repo t" "c = summary_at t"
    using assms(2) by (auto simp: by_age_def)
  then have "sn_name t = sn_name s" using c(2) in_scope_named(3) [OF assms(1)] by (auto simp: counted_def)
  then have "t = s" using assms(1,3) t(1) by (auto simp: self_named_def distinct_map dest: inj_onD)
  with t c show "counted cd scope repo s" "summary_at s \<in> set ss" by auto
qed

lemma sorted_split:
  assumes "sorted (map f xs)" and "a \<in> set (take k xs)" and "b \<in> set (drop k xs)"
  shows "f a \<le> f b"
proof -
  have "sorted (map f (take k xs) @ map f (drop k xs))" using assms(1) by (metis append_take_drop_id map_append)
  with assms(2,3) show ?thesis by (auto simp: sorted_append)
qed

lemma survivors_length:
  assumes "self_named cd repo" and "ss = take k (by_age cd scope repo)"
  shows "length (filter (\<lambda>s. counted cd scope repo s \<and> \<not> gone ss s) repo) = length (by_age cd scope repo) - k"
proof -
  let ?ids = "map su_snapshot_id (by_age cd scope repo)" and ?I = "su_snapshot_id ` set ss"
  have "filter (\<lambda>s. counted cd scope repo s \<and> \<not> gone ss s) repo = filter (\<lambda>s. sn_name s \<notin> ?I) (filter (counted cd scope repo) repo)"
    by (auto simp: gone_def intro: filter_cong)
  then have "length (filter (\<lambda>s. counted cd scope repo s \<and> \<not> gone ss s) repo)
      = length (filter (\<lambda>x. x \<notin> ?I) (map sn_name (filter (counted cd scope repo) repo)))"
    by (simp add: filter_map comp_def)
  also have "\<dots> = size (filter_mset (\<lambda>x. x \<notin> ?I) (mset ?ids))"
    unfolding by_age_names(1) [OF assms(1)] by (simp only: mset_filter [symmetric] size_mset)
  also have "\<dots> = length (filter (\<lambda>x. x \<notin> ?I) ?ids)" by (simp only: mset_filter [symmetric] size_mset)
  also have "filter (\<lambda>x. x \<notin> ?I) ?ids = drop k ?ids"
  proof -
    have "distinct (take k ?ids @ drop k ?ids)" using by_age_names(2) [OF assms(1)] by simp
    moreover have I: "?I = set (take k ?ids)" using assms(2) by (simp add: take_map)
    ultimately have "filter (\<lambda>x. x \<notin> ?I) (take k ?ids @ drop k ?ids) = drop k ?ids"
      unfolding filter_append I by (auto simp: filter_empty_conv filter_id_conv simp del: append_take_drop_id)
    then show ?thesis by simp
  qed
  finally show ?thesis by simp
qed

section \<open>Properties\<close>

lemma retention_effect:
  assumes "self_named cd repo" and "plan_retention cd repo scope n = Inr p"
    and "apply_retention cd answer p repo = (repo', err)"
  shows "(\<forall>r\<in>set repo. gone (rp_remove p) r \<longrightarrow> counted cd scope repo r
        \<and> (\<forall>k\<in>set repo. counted cd scope repo k \<and> \<not> gone (rp_remove p) k \<longrightarrow> age_key (summary_at r) \<le> age_key (summary_at k)))
    \<and> filter (\<lambda>s. \<not> gone (rp_remove p) s) repo' = filter (\<lambda>s. \<not> gone (rp_remove p) s) repo
    \<and> (err = None \<longrightarrow> repo' = filter (\<lambda>s. \<not> gone (rp_remove p) s) repo
        \<and> length (filter (counted cd scope repo') repo') = min (nat n) (length (filter (counted cd scope repo) repo)))
    \<and> ((\<forall>i. answer i = Removed) \<longrightarrow> err = None)"
proof -
  let ?c = "by_age cd scope repo" and ?ss = "rp_remove p"
  define k where "k = length ?c - nat n"
  have ss: "?ss = take k ?c" using plan_retention_ok [OF assms(1,2)] by (simp add: k_def)
  then have sub: "set ?ss \<subseteq> set ?c" by (simp add: set_take_subset)
  note gc = gone_counted [OF assms(1) sub]
  note rs = remove_snapshots_effect [OF assms(3) [unfolded apply_retention_def]]
  have len: "length ?c = length (filter (counted cd scope repo) repo)"
    using arg_cong [OF by_age_names(1) [OF assms(1), of scope], of size] by (simp only: size_mset length_map)
  have order: "age_key (summary_at r) \<le> age_key (summary_at s)"
    if "r \<in> set repo" "gone ?ss r" "s \<in> set repo" "counted cd scope repo s" "\<not> gone ?ss s" for r s
  proof -
    have "summary_at s \<in> set ?c" using that(3,4) by (simp add: by_age_def)
    moreover have "su_snapshot_id (summary_at s) = sn_name s"
      using in_scope_named(3) [OF assms(1)] that(3,4) by (auto simp: counted_def)
    then have "summary_at s \<notin> set (take k ?c)" using that(5) ss by (force simp: gone_def)
    ultimately have "summary_at s \<in> set (drop k ?c)" by (metis Un_iff append_take_drop_id set_append)
    moreover have "sorted (map age_key ?c)" by (simp add: by_age_def)
    ultimately show ?thesis using sorted_split [of age_key ?c _ k] gc(2) [OF that(1,2)] ss by auto
  qed
  have count: "counted cd scope repo' s \<longleftrightarrow> counted cd scope repo s"
    if "repo' = filter (\<lambda>s. \<not> gone ?ss s) repo" "\<not> gone ?ss s" for s
    using verify_without [of "\<lambda>i. i \<notin> su_snapshot_id ` set ?ss" "sn_name s" cd repo] that
    by (simp add: counted_def gone_def)
  have left: "length (filter (counted cd scope repo') repo') = min (nat n) (length (filter (counted cd scope repo) repo))"
    if r: "repo' = filter (\<lambda>s. \<not> gone ?ss s) repo"
  proof -
    have "filter (counted cd scope repo') repo' = filter (\<lambda>s. counted cd scope repo s \<and> \<not> gone ?ss s) repo"
      using count [OF r] unfolding r filter_filter by (intro filter_cong) auto
    with survivors_length [OF assms(1) ss] len show ?thesis by (simp add: k_def)
  qed
  have "is_ok (verify cd repo (su_snapshot_id s))" if "s \<in> set ?ss" for s
  proof -
    obtain t where "t \<in> set repo" "counted cd scope repo t" "s = summary_at t" using sub \<open>s \<in> set ?ss\<close> by (auto simp: by_age_def)
    with in_scope_named(3) [OF assms(1)] show ?thesis by (auto simp: counted_def)
  qed
  moreover have "distinct (map su_snapshot_id ?ss)" using by_age_names(2) [OF assms(1), of scope] ss by (simp add: take_map [symmetric])
  ultimately have "(\<forall>i. answer i = Removed) \<longrightarrow> err = None" using rs(3) by blast
  with order gc(1) rs(1,2) left show ?thesis by blast
qed


definition ex_snapshot :: "string \<Rightarrow> string \<Rightarrow> instant \<Rightarrow> snapshot_dir" where
  "ex_snapshot name ident t = \<lparr>sn_name = name, sn_real_dir = True, sn_manifest = Decoded (ex_manifest ident t),
     sn_files = [(''services/media/data/library.tar'', Stored_File (Inr ''bytes''))]\<rparr>"

abbreviation old_id :: string where "old_id \<equiv> ex_snapshot_id ''15''"
abbreviation new_id :: string where "new_id \<equiv> ex_snapshot_id ''16''"

lemma ex_ids_differ: "old_id \<noteq> new_id" "\<not> new_id \<le> old_id"
  by (simp_all add: ex_snapshot_id_def less_eq_char_def)

lemma ex_loads: "valid_snapshot_id ident \<Longrightarrow> t \<noteq> zero_time \<Longrightarrow>
    load_manifest ex_codec (Some (ex_snapshot name ident t)) = Inr (ex_manifest ident t)"
  using ex_manifest_valid [of ident t]
  by (simp add: load_manifest_ok ex_snapshot_def) (simp add: manifest_digest_def ex_codec_def ex_manifest_def)

lemma ex_verifies:
  assumes "valid_snapshot_id name" and "valid_snapshot_id ident" and "t \<noteq> zero_time"
    and "find_snapshot repo name = Some (ex_snapshot name ident t)"
  shows "verify ex_codec repo name = Inr (ex_manifest ident t)"
  using assms ex_files_verify [OF assms(2,3)] by (simp add: verify_ok ex_loads) (simp add: ex_snapshot_def)

lemma ex_in_scope: "valid_snapshot_id name \<Longrightarrow> valid_snapshot_id ident \<Longrightarrow> t \<noteq> zero_time \<Longrightarrow>
    in_scope ex_codec (replicate 64 (CHR ''a'')) (ex_snapshot name ident t) = Some (ex_manifest ident t)"
  by (simp add: in_scope_Some ex_loads) (simp add: listed_entry_def ex_snapshot_def ex_manifest_def)

lemma ex_summary: "su_snapshot_id (summary_of (ex_manifest ident t)) = ident" "su_created_at (summary_of (ex_manifest ident t)) = t"
  "mf_snapshot_id (ex_manifest ident t) = ident"
  by (simp_all add: summary_of_def ex_manifest_def)

definition ex_repository :: repository where
  "ex_repository = [ex_snapshot old_id old_id 1, ex_snapshot new_id new_id 2]"


text \<open>
  The manifest of a snapshot is never compared with the name of its directory: a copy of a snapshot
  under another name counts as a second snapshot with the identifier of the original, and retention
  for one removes the original; what is left is still listed under an identifier that cannot be loaded.
\<close>

lemma copied_snapshot_misleads:
  defines "repo \<equiv> [ex_snapshot old_id old_id 1, ex_snapshot new_id old_id 1]"
  shows "\<exists>p. plan_retention ex_codec repo (replicate 64 (CHR ''a'')) 1 = Inr p
    \<and> apply_retention ex_codec (\<lambda>_. Removed) p repo = ([ex_snapshot new_id old_id 1], None)
    \<and> map su_snapshot_id (list_snapshots ex_codec [ex_snapshot new_id old_id 1]) = [old_id]
    \<and> \<not> is_ok (load ex_codec [ex_snapshot new_id old_id 1] old_id)"
proof -
  have f: "find_snapshot repo old_id = Some (ex_snapshot old_id old_id 1)"
    by (simp add: find_snapshot_def repo_def ex_snapshot_def)
  note v = ex_verifies [OF ex_snapshot_ids(1) ex_snapshot_ids(1) _ f]
  have m: "List.map_filter (in_scope ex_codec (replicate 64 (CHR ''a''))) repo = [ex_manifest old_id 1, ex_manifest old_id 1]"
    by (simp add: repo_def map_filter_simps ex_in_scope ex_snapshot_ids zero_time_def)
  obtain p where p: "plan_retention ex_codec repo (replicate 64 (CHR ''a'')) 1 = Inr p"
    and r: "rp_remove p = [summary_of (ex_manifest old_id 1)]"
    using v by (simp add: plan_retention_def m Let_def is_ok_iff zero_time_def ex_summary sort_key_def)
  have "filter (\<lambda>s. sn_name s \<noteq> old_id) repo = [ex_snapshot new_id old_id 1]"
    using ex_ids_differ by (simp add: repo_def ex_snapshot_def)
  then have "apply_retention ex_codec (\<lambda>_. Removed) p repo = ([ex_snapshot new_id old_id 1], None)"
    using v by (simp add: apply_retention_def r ex_summary delete_def zero_time_def)
  moreover have "listed_entry (ex_snapshot new_id old_id 1)" using ex_snapshot_ids by (simp add: listed_entry_def ex_snapshot_def)
  then have "map su_snapshot_id (list_snapshots ex_codec [ex_snapshot new_id old_id 1]) = [old_id]"
    by (simp add: list_snapshots_def ex_loads ex_snapshot_ids zero_time_def ex_summary sort_key_def)
  moreover have "find_snapshot [ex_snapshot new_id old_id 1] old_id = None"
    using ex_ids_differ by (simp add: find_snapshot_def ex_snapshot_def)
  then have "\<not> is_ok (load ex_codec [ex_snapshot new_id old_id 1] old_id)"
    by (simp add: load_def load_manifest_def ex_snapshot_ids)
  ultimately show ?thesis using p by - (rule exI [of _ p], intro conjI)
qed

end
