(* ===== verification/Backup_Create.thy ===== *)
theory Backup_Create
  imports Retention Modules
begin

text \<open>
  File \<open>internal/backup/create.go\<close>: a backup of the declared data of services. The target is a world with
  requests, streams, the apply lock and the clock of the wait for a service; the answers of the
  controller's file system to the staging of a snapshot are given beforehand. A wait that never ends makes
  the whole backup not return, so \<open>create\<close> is an option.
\<close>

section \<open>The target and the controller\<close>

record 'w backup_target =
  bt_transport :: "'w transport"
  bt_stream :: "(string \<Rightarrow> string \<Rightarrow> 'w \<Rightarrow> 'w \<times> tar_stream \<times> error option) option"
  bt_locker :: "'w locker option"
  bt_sleep :: "'w \<Rightarrow> 'w \<times> wake"

record service_configuration =
  scf_name :: string
  scf_source :: string
  scf_data :: "persistent_resource list"
  scf_consistency :: string

record backup_env =
  bv_source :: source_env
  bv_codec :: codec
  bv_configuration_digest :: "service_configuration \<Rightarrow> string"
  bv_read_state :: "string \<Rightarrow> container_state result"
  bv_version :: string

record stage_answers =
  sa_civil :: "nat \<times> nat \<times> nat \<times> nat \<times> nat \<times> nat"
  sa_now :: instant
  sa_random :: "string result"
  sa_mkdir :: "error option"
  sa_tar :: "string \<Rightarrow> tar_env"
  sa_create :: "string \<Rightarrow> error option"
  sa_sync :: "string \<Rightarrow> error option"
  sa_torn :: "string \<Rightarrow> string"
  sa_publish :: publish_faults

record 'w create_request =
  cq_host_alias :: string
  cq_target :: string
  cq_host :: host_facts
  cq_config :: config
  cq_service :: string
  cq_transport :: "'w backup_target option"
  cq_maintenance :: "maintenance_provenance option"

record create_result =
  ce_snapshot :: "manifest option"
  ce_services :: "string list"

section \<open>Scripts\<close>

definition docker_prefix :: string where
  "docker_prefix = ''env -i PATH=/usr/local/sbin:/usr/local/bin:/usr/sbin:/usr/bin:/sbin:/bin HOME=/root docker --context default''"

definition helper_image :: string where "helper_image = ''busybox:1.36.1''"

definition helper_script :: string where
  "helper_script = docker_prefix @ '' image inspect '' @ shell_quote helper_image @ '' >/dev/null 2>&1 || ''
     @ docker_prefix @ '' pull '' @ shell_quote helper_image"

definition volume_labels_script :: "string \<Rightarrow> string" where
  "volume_labels_script volume =
     docker_prefix @ '' volume inspect --format '{{ index .Labels \"com.docker.compose.project\" }}{{ printf \"''
     @ backslash @ ''t\" }}{{ index .Labels \"com.docker.compose.volume\" }}' '' @ shell_quote volume"

definition volume_identity :: "deployment \<Rightarrow> persistent_resource \<Rightarrow> string" where
  "volume_identity d r = shell_quote (dp_project d @ [CHR 0x09] @ pr_volume_key r)"

definition real_directory_script :: "string \<Rightarrow> string" where
  "real_directory_script p = unlines
     [''test -d '' @ shell_quote p, ''test ! -L '' @ shell_quote p, ''actual=$(readlink -f -- '' @ shell_quote p @ '')'',
      ''test \"$actual\" = '' @ shell_quote p]"

definition source_volume_script :: "deployment \<Rightarrow> persistent_resource \<Rightarrow> string" where
  "source_volume_script d r =
     docker_prefix @ '' volume inspect '' @ shell_quote (pr_runtime_volume r) @ '' >/dev/null'' @ newline
     @ (if pr_external r then []
        else ''actual=$('' @ volume_labels_script (pr_runtime_volume r) @ '')'' @ newline @ ''test \"$actual\" = '' @ volume_identity d r)"

definition backup_archive_script :: "persistent_resource \<Rightarrow> string" where
  "backup_archive_script r =
     (let mount = (if pr_type r = ''path'' then pr_path r @ '':/data:ro'' @ (if pr_selinux_shared r then '',z'' else [])
                   else pr_runtime_volume r @ '':/data:ro'')
      in docker_prefix @ '' run --rm -i --network none --read-only -v '' @ shell_quote mount @ '' '' @ shell_quote helper_image
         @ '' tar -C /data -cf - .'')"

section \<open>Parts of a backup\<close>

fun lock_error_in :: "error \<Rightarrow> (bool \<times> string) option" where
  "lock_error_in (Lock_Error b e) = Some (b, error_text (Lock_Error b e))"
| "lock_error_in (Coded c m (Some e)) = lock_error_in e"
| "lock_error_in (Errorf m (Some e)) = lock_error_in e"
| "lock_error_in _ = None"

definition classify_lock :: "error \<Rightarrow> error" where
  "classify_lock e =
     (case lock_error_in e of
        Some (True, text) \<Rightarrow> Coded ApplyLocked text (Some e)
      | _ \<Rightarrow> Coded ApplyLocked ''acquire target apply lock for backup'' (Some e))"

definition resource_label :: "persistent_resource \<Rightarrow> string" where
  "resource_label r = (if pr_type r = ''volume'' then ''named volume '' @ pr_runtime_volume r else ''bind path '' @ pr_path r)"

definition service_configuration_digest :: "backup_env \<Rightarrow> deployment \<Rightarrow> string" where
  "service_configuration_digest env d = bv_configuration_digest env
     \<lparr>scf_name = dp_name d, scf_source = dp_source_digest d,
      scf_data = map (\<lambda>r. r\<lparr>pr_runtime_volume := [], pr_path := [], pr_storage := []\<rparr>) (dp_data d),
      scf_consistency = dp_backup_consistency d\<rparr>"

definition select_deployments :: "deployment list \<Rightarrow> string \<Rightarrow> deployment list result" where
  "select_deployments all name =
     (let selected = filter (\<lambda>d. (name = [] \<or> dp_name d = name) \<and> dp_data d \<noteq> []) all in
      if name \<noteq> [] \<and> selected = [] then Inl (coded ConfigInvalid (''service '' @ name @ '' has no declared persistent data''))
      else if selected = [] then Inl (coded ConfigInvalid ''no services declare persistent data for backup'')
      else Inr selected)"

definition backup_service_fact :: "host_facts \<Rightarrow> string \<Rightarrow> service_facts" where
  "backup_service_fact host name =
     (case find (\<lambda>s. sv_name s = name) (hf_services host) of Some s \<Rightarrow> s | None \<Rightarrow> (missing_service name)\<lparr>sv_health := []\<rparr>)"

definition service_is_running :: "service_facts \<Rightarrow> bool" where
  "service_is_running s \<longleftrightarrow> sv_runtime s = ''running'' \<or> sv_runtime s = ''starting''"

definition validate_source_resource :: "'w transport \<Rightarrow> deployment \<Rightarrow> persistent_resource \<Rightarrow> 'w \<Rightarrow> 'w \<times> error option" where
  "validate_source_resource tr d r w =
     (if pr_type r = ''volume'' then run_script tr (source_volume_script d r) True w
      else if pr_type r = ''path'' then run_script tr (real_directory_script (pr_path r)) True w
      else (w, Some (errorf (''unsupported persistent resource type '' @ go_quote (pr_type r)))))"

fun check_sources :: "'w transport \<Rightarrow> config \<Rightarrow> host_facts \<Rightarrow> deployment \<Rightarrow> persistent_resource list \<Rightarrow> 'w \<Rightarrow> 'w \<times> error option" where
  "check_sources tr cfg host d [] w = (w, None)"
| "check_sources tr cfg host d (r # rs) w =
     (case (if pr_type r = ''path'' \<and> pr_storage r \<noteq> []
            then (case validate_resolved_placement (cfg_storage cfg) host (pr_storage r) (pr_path r) of Inl e \<Rightarrow> Some e | Inr _ \<Rightarrow> None)
            else None) of
        Some e \<Rightarrow> (w, Some (Coded PlanBlocked (''backup resource '' @ dp_name d @ ''/'' @ pr_name r @ '' storage placement is not ready'') (Some e)))
      | None \<Rightarrow>
        (case validate_source_resource tr d r w of
           (w1, Some e) \<Rightarrow> (w1, Some (Coded PlanBlocked (''backup resource '' @ dp_name d @ ''/'' @ pr_name r @ '' is not ready'') (Some e)))
         | (w1, None) \<Rightarrow> check_sources tr cfg host d rs w1))"

text \<open>
  One archive: what the stream of the target yields is what \<open>WriteArchive\<close> reads; the error of the stream
  comes before the error of the archive.
\<close>

definition capture :: "backup_env \<Rightarrow> stage_answers \<Rightarrow> (string \<Rightarrow> string \<Rightarrow> 'w \<Rightarrow> 'w \<times> tar_stream \<times> error option) \<Rightarrow> deployment
    \<Rightarrow> persistent_resource \<Rightarrow> 'w \<Rightarrow> stage \<Rightarrow> 'w \<times> stage \<times> resource_manifest result" where
  "capture env ans stream d r w st =
     (let name = path_join (path_join (path_join ''services'' (dp_name d)) ''data'') (pr_name r @ ''.tar'') in
      case stream (backup_archive_script r) [] w of
        (w1, input, fault) \<Rightarrow>
          (case write_archive (bv_codec env) (sa_tar ans name) (sa_create ans name) (sa_sync ans name) (sa_torn ans name) name input st of
             (st1, written) \<Rightarrow>
               (w1, st1,
                case fault of
                  Some e \<Rightarrow> Inl (wrapf (''stream '' @ pr_name r @ '' from '' @ resource_label r @ '': '') e)
                | None \<Rightarrow>
                  (case written of
                     Inl e \<Rightarrow> Inl (wrapf (''sanitize '' @ pr_name r @ '' archive: '') e)
                   | Inr m \<Rightarrow> Inr (m\<lparr>rf_name := pr_name r, rf_type := pr_type r\<rparr>)))))"

fun capture_all :: "backup_env \<Rightarrow> stage_answers \<Rightarrow> (string \<Rightarrow> string \<Rightarrow> 'w \<Rightarrow> 'w \<times> tar_stream \<times> error option) \<Rightarrow> deployment
    \<Rightarrow> persistent_resource list \<Rightarrow> resource_manifest list \<Rightarrow> 'w \<Rightarrow> stage \<Rightarrow> 'w \<times> stage \<times> resource_manifest list result" where
  "capture_all env ans stream d [] acc w st = (w, st, Inr acc)"
| "capture_all env ans stream d (r # rs) acc w st =
     (case capture env ans stream d r w st of
        (w1, st1, Inl e) \<Rightarrow> (w1, st1, Inl e)
      | (w1, st1, Inr m) \<Rightarrow> capture_all env ans stream d rs (acc @ [m]) w1 st1)"

definition stop_request :: "config \<Rightarrow> deployment \<Rightarrow> request" where
  "stop_request cfg d = \<lparr>rq_script = compose_command (stg_data_root (cfg_storage cfg)) d ''stop'', rq_stdin = [], rq_privileged = True\<rparr>"

definition up_request :: "config \<Rightarrow> deployment \<Rightarrow> request" where
  "up_request cfg d =
     \<lparr>rq_script = compose_command (stg_data_root (cfg_storage cfg)) d ''up -d --remove-orphans'', rq_stdin = [], rq_privileged = True\<rparr>"

definition send :: "'w transport \<Rightarrow> request \<Rightarrow> 'w \<Rightarrow> 'w \<times> error option" where
  "send tr rq w = run_input tr (rq_script rq) (rq_stdin rq) (rq_privileged rq) w"

definition restart_and_verify :: "backup_env \<Rightarrow> 'w transport \<Rightarrow> ('w \<Rightarrow> 'w \<times> wake) \<Rightarrow> config \<Rightarrow> deployment \<Rightarrow> 'w \<Rightarrow> ('w \<times> error option) option" where
  "restart_and_verify env tr sleep cfg d w =
     (case send tr (up_request cfg d) w of
        (w1, Some e) \<Rightarrow> Some (w1, Some e)
      | (w1, None) \<Rightarrow> verify_service (bv_source env) tr sleep (bv_read_state env) cfg
          (zero_change\<lparr>ch_module := ''services'', ch_action := zero_action\<lparr>ac_kind := ''service.start'', ac_resource := dp_name d\<rparr>\<rparr>) w1)"

text \<open>The error that is returned when a service was stopped and restarted.\<close>

definition after_restart :: "string \<Rightarrow> string \<Rightarrow> error option \<Rightarrow> error option \<Rightarrow> error option" where
  "after_restart what name work restart =
     (case (work, restart) of
        (Some e, Some x) \<Rightarrow> Some (wrapf (what @ '' service '' @ name @ '': '' @ error_text e @ ''; recovery restart also failed: '') x)
      | (None, Some x) \<Rightarrow> Some (wrapf (what @ '' service '' @ name @ (if what = ''backup'' then '' succeeded but recovery restart failed: '' else '' succeeded but restart failed: '')) x)
      | (_, None) \<Rightarrow> work)"

section \<open>Create\<close>

definition capture_service :: "backup_env \<Rightarrow> stage_answers \<Rightarrow> (string \<Rightarrow> string \<Rightarrow> 'w \<Rightarrow> 'w \<times> tar_stream \<times> error option) \<Rightarrow> host_facts
    \<Rightarrow> deployment \<Rightarrow> 'w \<Rightarrow> stage \<Rightarrow> 'w \<times> stage \<times> error option" where
  "capture_service env ans stream host d w st =
     (case capture_all env ans stream d (dp_data d) [] w st of
        (w1, st1, Inl e) \<Rightarrow> (w1, st1, Some e)
      | (w1, st1, Inr resources) \<Rightarrow>
        (case add_service \<lparr>sf_name = dp_name d, sf_configuration_digest = service_configuration_digest env d,
             sf_deployment_digest = sv_deployment_digest (backup_service_fact host (dp_name d)),
             sf_consistency = dp_backup_consistency d, sf_resources = resources\<rparr> st1 of
           (st2, e) \<Rightarrow> (w1, st2, e)))"

definition stops_for_backup :: "host_facts \<Rightarrow> deployment \<Rightarrow> bool" where
  "stops_for_backup host d \<longleftrightarrow> dp_backup_consistency d = ''stop'' \<and> service_is_running (backup_service_fact host (dp_name d))"

definition backup_service :: "backup_env \<Rightarrow> stage_answers \<Rightarrow> 'w backup_target \<Rightarrow> (string \<Rightarrow> string \<Rightarrow> 'w \<Rightarrow> 'w \<times> tar_stream \<times> error option)
    \<Rightarrow> config \<Rightarrow> host_facts \<Rightarrow> deployment \<Rightarrow> 'w \<Rightarrow> stage \<Rightarrow> ('w \<times> stage \<times> error option) option" where
  "backup_service env ans target stream cfg host d w st =
     (let tr = bt_transport target in
      if dp_state d = ''absent'' then Some (w, st, Some (coded PlanBlocked (''cannot back up absent service '' @ dp_name d)))
      else case check_sources tr cfg host d (dp_data d) w of
        (w1, Some e) \<Rightarrow> Some (w1, st, Some e)
      | (w1, None) \<Rightarrow>
        (if \<not> stops_for_backup host d then Some (capture_service env ans stream host d w1 st)
         else case send tr (stop_request cfg d) w1 of
           (w2, Some e) \<Rightarrow> Some (w2, st, Some (wrapf (''stop service '' @ dp_name d @ '' for consistent backup: '') e))
         | (w2, None) \<Rightarrow>
           (case capture_service env ans stream host d w2 st of
              (w3, st1, work) \<Rightarrow>
                (case restart_and_verify env tr (bt_sleep target) cfg d w3 of
                   None \<Rightarrow> None
                 | Some (w4, restart) \<Rightarrow> Some (w4, st1, after_restart ''backup'' (dp_name d) work restart)))))"

fun backup_services :: "backup_env \<Rightarrow> stage_answers \<Rightarrow> 'w backup_target \<Rightarrow> (string \<Rightarrow> string \<Rightarrow> 'w \<Rightarrow> 'w \<times> tar_stream \<times> error option)
    \<Rightarrow> config \<Rightarrow> host_facts \<Rightarrow> deployment list \<Rightarrow> string list \<Rightarrow> 'w \<Rightarrow> stage \<Rightarrow> ('w \<times> stage \<times> string list \<times> error option) option" where
  "backup_services env ans target stream cfg host [] names w st = Some (w, st, names, None)"
| "backup_services env ans target stream cfg host (d # ds) names w st =
     (case backup_service env ans target stream cfg host d w st of
        None \<Rightarrow> None
      | Some (w1, st1, Some e) \<Rightarrow> Some (w1, st1, names, Some e)
      | Some (w1, st1, None) \<Rightarrow> backup_services env ans target stream cfg host ds (names @ [dp_name d]) w1 st1)"

definition no_snapshot :: create_result where "no_snapshot = \<lparr>ce_snapshot = None, ce_services = []\<rparr>"

text \<open>The part of \<open>Create\<close> that runs with the lock of the target held. The stage is what staging has left.\<close>

definition create_locked :: "backup_env \<Rightarrow> stage_answers \<Rightarrow> string \<Rightarrow> 'w create_request \<Rightarrow> 'w backup_target
    \<Rightarrow> (string \<Rightarrow> string \<Rightarrow> 'w \<Rightarrow> 'w \<times> tar_stream \<times> error option) \<Rightarrow> deployment list \<Rightarrow> 'w \<Rightarrow> repository
    \<Rightarrow> ('w \<times> repository \<times> stage option \<times> create_result \<times> error option) option" where
  "create_locked env ans root request target stream selected w repo =
     (case run_script (bt_transport target) helper_script True w of
        (w1, Some e) \<Rightarrow> Some (w1, repo, None, no_snapshot, Some (Coded PlanBlocked ''backup helper image is unavailable'' (Some e)))
      | (w1, None) \<Rightarrow>
        (let host = cq_host request in
         case begin_stage root (sa_civil ans) (sa_now ans) (sa_random ans) (sa_mkdir ans)
             \<lparr>bs_host_alias = cq_host_alias request, bs_target = cq_target request, bs_identity = host_identity host,
              bs_os = hf_os host, bs_architecture = hf_architecture host\<rparr> (bv_version env) of
           Inl e \<Rightarrow> Some (w1, repo, None, no_snapshot, Some e)
         | Inr st \<Rightarrow>
           (case set_maintenance (cq_maintenance request) st of
              (st1, Some e) \<Rightarrow> Some (w1, repo, Some st1, no_snapshot, Some e)
            | (st1, None) \<Rightarrow>
              (case backup_services env ans target stream (cq_config request) host selected [] w1 st1 of
                 None \<Rightarrow> None
               | Some (w2, st2, names, Some e) \<Rightarrow> Some (w2, repo, Some (abort_stage st2), no_snapshot\<lparr>ce_services := names\<rparr>, Some e)
               | Some (w2, st2, names, None) \<Rightarrow>
                 (case complete (bv_codec env) (sa_publish ans) st2 repo of
                    (st3, repo1, Inl e) \<Rightarrow>
                      Some (w2, repo1, Some (abort_stage st3), no_snapshot\<lparr>ce_services := names\<rparr>,
                        Some (Coded VerificationFailed ''verify completed backup snapshot'' (Some e)))
                  | (st3, repo1, Inr m) \<Rightarrow> Some (w2, repo1, Some st3, \<lparr>ce_snapshot = Some m, ce_services = names\<rparr>, None))))))"

definition create :: "backup_env \<Rightarrow> stage_answers \<Rightarrow> string \<Rightarrow> 'w create_request \<Rightarrow> 'w \<Rightarrow> repository
    \<Rightarrow> ('w \<times> repository \<times> stage option \<times> create_result \<times> error option) option" where
  "create env ans root request w repo =
     (let fail = (\<lambda>e. Some (w, repo, None, no_snapshot, Some e)); docker = hf_docker (cq_host request) in
      case cq_transport request of
        None \<Rightarrow> fail (errorf ''backup requires a target transport'')
      | Some target \<Rightarrow>
        (case bt_stream target of
           None \<Rightarrow> fail (errorf ''target transport does not support streaming backup archives'')
         | Some stream \<Rightarrow>
           (if \<not> dk_responsive docker \<or> \<not> dk_compose_available docker
            then fail (coded PlanBlocked ''backup requires a responsive Docker Engine and Docker Compose v2'')
            else case rbind (resolve_deployments (bv_source env) (cq_config request)) (\<lambda>ds. select_deployments ds (cq_service request)) of
              Inl e \<Rightarrow> fail e
            | Inr selected \<Rightarrow>
              (case bt_locker target of
                 None \<Rightarrow> fail (coded ApplyLocked ''backup requires a transport with the Bebop target apply lock'')
               | Some l \<Rightarrow>
                 (case lk_acquire l w of
                    (w1, Some e) \<Rightarrow> Some (w1, repo, None, no_snapshot, Some (classify_lock e))
                  | (w1, None) \<Rightarrow>
                    (case create_locked env ans root request target stream selected w1 repo of
                       None \<Rightarrow> None
                     | Some (w2, repo1, st, r, e) \<Rightarrow> Some (lk_release l w2, repo1, st, r, e)))))))"

section \<open>Waiting for a service\<close>

lemma wait_loop_invariant:
  assumes "wait_loop tr sleep read_state d timeout w = Some y"
    and "\<forall>v v' r. check_running tr read_state d v = (v', r) \<longrightarrow> I v \<longrightarrow> I v'" and "\<forall>v. I v \<longrightarrow> I (fst (sleep v))" and "I w"
  shows "I (fst y)"
proof -
  have "(\<forall>v v' r. check_running tr read_state d v = (v', r) \<longrightarrow> I v \<longrightarrow> I v') \<longrightarrow> (\<forall>v. I v \<longrightarrow> I (fst (sleep v))) \<longrightarrow> I w \<longrightarrow> I (fst y)"
  proof (rule wait_loop.raw_induct [OF _ assms(1)], intro impI, goal_cases)
    case (1 loop tr sleep read_state d timeout w y)
    note again = 1(1) and run = 1(2) and checks = 1(3) and sleeps = 1(4) and start = 1(5)
    obtain w1 r where c: "check_running tr read_state d w = (w1, r)" by fastforce
    obtain w2 k where k: "sleep w1 = (w2, k)" by fastforce
    from checks start c have i1: "I w1" by blast
    with sleeps k have i2: "I w2" by (metis fst_conv)
    show ?case
    proof (cases "\<exists>rh. r = Inr rh \<and> k = Tick")
      case True
      with run c k have "loop tr sleep read_state d timeout w2 = Some y" by auto
      with again checks sleeps i2 show ?thesis by blast
    next
      case False
      with run c k i1 i2 show ?thesis by (cases r; cases k) auto
    qed
  qed
  with assms(2-4) show ?thesis by blast
qed

section \<open>What a stage collects\<close>

text \<open>Writing archives keeps the manifest of the stage.\<close>

definition same_manifest :: "stage \<Rightarrow> stage \<Rightarrow> bool" where
  "same_manifest st st' \<longleftrightarrow> sg_id st' = sg_id st \<and> sg_manifest st' = sg_manifest st"

lemma same_manifest_refl [simp]: "same_manifest st st"
  by (simp add: same_manifest_def)

lemma same_manifest_trans: "same_manifest st st1 \<Longrightarrow> same_manifest st1 st2 \<Longrightarrow> same_manifest st st2"
  by (simp add: same_manifest_def)

lemma write_archive_same: "write_archive cd env f g torn name input st = (st', r) \<Longrightarrow> same_manifest st st'"
  by (auto simp: write_archive_def same_manifest_def Let_def split: if_splits sum.splits option.splits)

lemma capture_same:
  assumes "capture env ans stream d r w st = (w', st', res)"
  shows "same_manifest st st' \<and> (\<forall>m. res = Inr m \<longrightarrow> rf_name m = pr_name r \<and> rf_type m = pr_type r)"
proof -
  let ?name = "path_join (path_join (path_join ''services'' (dp_name d)) ''data'') (pr_name r @ ''.tar'')"
  obtain w1 input fault where s: "stream (backup_archive_script r) [] w = (w1, input, fault)" by (metis prod.exhaust)
  obtain st1 x where a: "write_archive (bv_codec env) (sa_tar ans ?name) (sa_create ans ?name) (sa_sync ans ?name) (sa_torn ans ?name) ?name input st = (st1, x)"
    by fastforce
  from write_archive_same [OF a] assms s a show ?thesis
    by (auto simp: capture_def Let_def split: option.splits sum.splits)
qed

lemma capture_all_same:
  "capture_all env ans stream d rs acc w st = (w', st', res) \<Longrightarrow>
     same_manifest st st' \<and> (\<forall>ms. res = Inr ms \<longrightarrow> map rf_name ms = map rf_name acc @ map pr_name rs)"
proof (induction rs arbitrary: acc w st)
  case (Cons r rs)
  obtain w1 st1 x where c: "capture env ans stream d r w st = (w1, st1, x)" by (metis prod.exhaust)
  show ?case
  proof (cases x)
    case (Inl e)
    with Cons.prems c capture_same [OF c] show ?thesis by auto
  next
    case (Inr m)
    with Cons.prems c have "capture_all env ans stream d rs (acc @ [m]) w1 st1 = (w', st', res)" by simp
    from Cons.IH [OF this] capture_same [OF c] Inr show ?thesis using same_manifest_trans by auto
  qed
qed auto

text \<open>A service as a snapshot holds it.\<close>

definition holds_service :: "backup_env \<Rightarrow> deployment \<Rightarrow> service_manifest \<Rightarrow> bool" where
  "holds_service env d s \<longleftrightarrow> sf_name s = dp_name d \<and> sf_configuration_digest s = service_configuration_digest env d
     \<and> sf_consistency s = dp_backup_consistency d \<and> mset (map rf_name (sf_resources s)) = mset (map pr_name (dp_data d))"

definition gained :: "backup_env \<Rightarrow> deployment list \<Rightarrow> stage \<Rightarrow> stage \<Rightarrow> bool" where
  "gained env ds st st' \<longleftrightarrow> sg_id st' = sg_id st \<and> mf_snapshot_id (sg_manifest st') = mf_snapshot_id (sg_manifest st)
     \<and> mf_maintenance (sg_manifest st') = mf_maintenance (sg_manifest st)
     \<and> (\<exists>ss. list_all2 (holds_service env) ds ss
          \<and> mset (mf_services (sg_manifest st')) = mset (mf_services (sg_manifest st)) + mset ss)"

lemma capture_service_gains:
  assumes "capture_service env ans stream host d w st = (w', st', None)"
  shows "gained env [d] st st'"
proof -
  obtain w1 st1 x where c: "capture_all env ans stream d (dp_data d) [] w st = (w1, st1, x)" by (metis prod.exhaust)
  with assms obtain rs where x: "x = Inr rs" by (cases x) (auto simp: capture_service_def)
  from capture_all_same [OF c] x have k: "same_manifest st st1" "map rf_name rs = map pr_name (dp_data d)" by simp_all
  let ?s = "\<lparr>sf_name = dp_name d, sf_configuration_digest = service_configuration_digest env d,
     sf_deployment_digest = sv_deployment_digest (backup_service_fact host (dp_name d)),
     sf_consistency = dp_backup_consistency d, sf_resources = rs\<rparr>"
  have a: "add_service ?s st1 = (st', None)"
    using assms c x by (simp add: capture_service_def split: prod.splits)
  then have "mf_services (sg_manifest st') = sort_slice sf_name (mf_services (sg_manifest st1) @ [?s\<lparr>sf_resources := sort_slice rf_name rs\<rparr>])"
    "sg_id st' = sg_id st1" "mf_snapshot_id (sg_manifest st') = mf_snapshot_id (sg_manifest st1)"
    "mf_maintenance (sg_manifest st') = mf_maintenance (sg_manifest st1)"
    by (auto simp: add_service_def split: if_splits)
  moreover have "holds_service env d (?s\<lparr>sf_resources := sort_slice rf_name rs\<rparr>)"
    using arg_cong [OF k(2), of mset] by (simp add: holds_service_def)
  ultimately show ?thesis
    using k(1) unfolding gained_def same_manifest_def
    by (intro conjI exI [of _ "[?s\<lparr>sf_resources := sort_slice rf_name rs\<rparr>]"]) simp_all
qed

lemma after_restart_none: "after_restart what name work restart = None \<Longrightarrow> work = None \<and> restart = None"
  by (auto simp: after_restart_def split: option.splits)

lemma backup_service_gains:
  assumes "backup_service env ans target stream cfg host d w st = Some (w', st', None)"
  shows "gained env [d] st st'"
proof -
  have p: "dp_state d \<noteq> ''absent''" using assms by (auto simp: backup_service_def Let_def)
  obtain w1 e1 where c: "check_sources (bt_transport target) cfg host d (dp_data d) w = (w1, e1)" by fastforce
  with assms p have e: "e1 = None" by (cases e1) (simp_all add: backup_service_def Let_def)
  obtain w2 e2 where s: "send (bt_transport target) (stop_request cfg d) w1 = (w2, e2)" by fastforce
  show ?thesis
  proof (cases "stops_for_backup host d")
    case False
    with assms p c e have "capture_service env ans stream host d w1 st = (w', st', None)"
      by (simp add: backup_service_def Let_def)
    then show ?thesis by (rule capture_service_gains)
  next
    case True
    with assms p c e s have "e2 = None" by (cases e2) (simp_all add: backup_service_def Let_def)
    obtain w3 st1 work where k: "capture_service env ans stream host d w2 st = (w3, st1, work)" by (metis prod.exhaust)
    obtain x where "restart_and_verify env (bt_transport target) (bt_sleep target) cfg d w3 = Some x"
      using assms True p c e s k \<open>e2 = None\<close>
      by (cases "restart_and_verify env (bt_transport target) (bt_sleep target) cfg d w3") (simp_all add: backup_service_def Let_def)
    moreover obtain w4 restart where "x = (w4, restart)" by fastforce
    ultimately have "restart_and_verify env (bt_transport target) (bt_sleep target) cfg d w3 = Some (w4, restart)" by simp
    with assms True p c e s k \<open>e2 = None\<close> have "st1 = st'" "after_restart ''backup'' (dp_name d) work restart = None"
      by (simp_all add: backup_service_def Let_def)
    with k after_restart_none have "capture_service env ans stream host d w2 st = (w3, st', None)" by blast
    then show ?thesis by (rule capture_service_gains)
  qed
qed

lemma gained_trans: "gained env ds st st1 \<Longrightarrow> gained env es st1 st2 \<Longrightarrow> gained env (ds @ es) st st2"
  unfolding gained_def by (elim conjE exE, intro conjI exI) (auto intro: list_all2_appendI)

lemma backup_services_gain:
  "backup_services env ans target stream cfg host ds names w st = Some (w', st', names', None) \<Longrightarrow>
     gained env ds st st' \<and> names' = names @ map dp_name ds"
proof (induction ds arbitrary: names w st)
  case Nil
  then show ?case by (simp add: gained_def)
next
  case (Cons d ds)
  then obtain w1 st1 where b: "backup_service env ans target stream cfg host d w st = Some (w1, st1, None)"
    by (auto split: option.splits prod.splits)
  with Cons.prems have "backup_services env ans target stream cfg host ds (names @ [dp_name d]) w1 st1 = Some (w', st', names', None)" by simp
  from Cons.IH [OF this] backup_service_gains [OF b] show ?case using gained_trans [of env "[d]"] by auto
qed

lemma set_maintenance_keeps:
  "set_maintenance v st = (st', e) \<Longrightarrow> sg_id st' = sg_id st \<and> mf_snapshot_id (sg_manifest st') = mf_snapshot_id (sg_manifest st)
     \<and> mf_services (sg_manifest st') = mf_services (sg_manifest st) \<and> (e = None \<longrightarrow> mf_maintenance (sg_manifest st') = v)"
  by (auto simp: set_maintenance_def Let_def split: if_splits)

lemma begin_stage_fresh:
  "begin_stage root civil now random mk src version = Inr st \<Longrightarrow> mf_snapshot_id (sg_manifest st) = sg_id st \<and> mf_services (sg_manifest st) = []"
  by (auto simp: begin_stage_def result_simps Let_def split: option.splits)

section \<open>Properties\<close>

text \<open>What a successful backup adds to the repository.\<close>

definition backed_up :: "backup_env \<Rightarrow> maintenance_provenance option \<Rightarrow> repository \<Rightarrow> repository \<Rightarrow> deployment list \<Rightarrow> create_result \<Rightarrow> bool" where
  "backed_up env maintenance repo repo' selected r \<longleftrightarrow>
     (\<exists>m s ss. ce_snapshot r = Some m \<and> verify (bv_codec env) repo' (mf_snapshot_id m) = Inr m
        \<and> find_snapshot repo (mf_snapshot_id m) = None
        \<and> sn_name s = mf_snapshot_id m \<and> repo' = sort_slice sn_name (s # repo) \<and> mf_maintenance m = maintenance
        \<and> ce_services r = map dp_name selected
        \<and> mset (mf_services m) = mset ss \<and> list_all2 (holds_service env) selected ss)"

lemma create_locked_ok:
  assumes "create_locked env ans root request target stream selected w repo = Some (w', repo', st, r, e)"
    and "distinct (map sn_name repo)" and "pf_rollback (sa_publish ans) = None"
  shows "case e of Some _ \<Rightarrow> repo' = repo \<and> ce_snapshot r = None | None \<Rightarrow> backed_up env (cq_maintenance request) repo repo' selected r"
proof -
  obtain w1 e1 where h: "run_script (bt_transport target) helper_script True w = (w1, e1)" by fastforce
  define b where "b = begin_stage root (sa_civil ans) (sa_now ans) (sa_random ans) (sa_mkdir ans)
    \<lparr>bs_host_alias = cq_host_alias request, bs_target = cq_target request, bs_identity = host_identity (cq_host request),
     bs_os = hf_os (cq_host request), bs_architecture = hf_architecture (cq_host request)\<rparr> (bv_version env)"
  show ?thesis
  proof (cases "e1 = None \<and> (\<exists>st0. b = Inr st0)")
    case False
    with assms(1) h show ?thesis unfolding create_locked_def Let_def b_def [symmetric]
      by (cases e1; cases b) (auto simp: no_snapshot_def)
  next
    case True
    then obtain st0 where b: "e1 = None" "b = Inr st0" by blast
    obtain st1 e2 where m: "set_maintenance (cq_maintenance request) st0 = (st1, e2)" by fastforce
    show ?thesis
    proof (cases e2)
      case (Some x)
      with assms(1) h b m show ?thesis unfolding create_locked_def Let_def b_def [symmetric] by (auto simp: no_snapshot_def)
    next
      case None
      define bs where "bs = backup_services env ans target stream (cq_config request) (cq_host request) selected [] w1 st1"
      have eq: "(case bs of
                 None \<Rightarrow> None
               | Some (w2, st2, names, Some e) \<Rightarrow> Some (w2, repo, Some (abort_stage st2), no_snapshot\<lparr>ce_services := names\<rparr>, Some e)
               | Some (w2, st2, names, None) \<Rightarrow>
                 (case complete (bv_codec env) (sa_publish ans) st2 repo of
                    (st3, repo1, Inl e) \<Rightarrow>
                      Some (w2, repo1, Some (abort_stage st3), no_snapshot\<lparr>ce_services := names\<rparr>,
                        Some (Coded VerificationFailed ''verify completed backup snapshot'' (Some e)))
                  | (st3, repo1, Inr m) \<Rightarrow> Some (w2, repo1, Some st3, \<lparr>ce_snapshot = Some m, ce_services = names\<rparr>, None)))
          = Some (w', repo', st, r, e)"
        using assms(1) h b m None unfolding create_locked_def Let_def b_def [symmetric] by (simp add: bs_def)
      then obtain w2 st2 names e3 where bs: "bs = Some (w2, st2, names, e3)" by (cases bs) auto
      show ?thesis
      proof (cases e3)
        case (Some x)
        with eq bs show ?thesis by (auto simp: no_snapshot_def)
      next
        case e3: None
        from backup_services_gain [OF bs [unfolded bs_def e3]]
        have g: "gained env selected st1 st2" "names = map dp_name selected" by simp_all
        have i: "mf_snapshot_id (sg_manifest st2) = sg_id st2" "mf_services (sg_manifest st1) = []"
          "mf_maintenance (sg_manifest st2) = cq_maintenance request"
          using g(1) begin_stage_fresh [OF b(2) [unfolded b_def]] set_maintenance_keeps [OF m] None by (simp_all add: gained_def)
        obtain st3 repo1 res where c: "complete (bv_codec env) (sa_publish ans) st2 repo = (st3, repo1, res)" by (metis prod.exhaust)
        note cp = complete_effect [OF c assms(2) i(1) assms(3)]
        show ?thesis
        proof (cases res)
          case (Inl x)
          with eq bs e3 c cp show ?thesis by (auto simp: no_snapshot_def)
        next
          case (Inr mf)
          note ok = complete_ok [OF c [unfolded Inr]]
          have v: "mf_services mf = mf_services (sg_manifest st2)" "mf_maintenance mf = cq_maintenance request"
            using ok(1) i(3) by (auto simp: seal_def result_simps)
          have n: "sn_name (published st2 mf) = mf_snapshot_id mf"
            using sealed(3) [OF ok(1)] i(1) by (simp add: published_def)
          obtain ss where ss: "list_all2 (holds_service env) selected ss" "mset (mf_services mf) = mset ss"
            using g(1) i(2) v by (auto simp: gained_def)
          have r: "repo' = repo1" "r = \<lparr>ce_snapshot = Some mf, ce_services = names\<rparr>" "e = None"
            using eq bs e3 c Inr by simp_all
          have "verify (bv_codec env) repo' (mf_snapshot_id mf) = Inr mf" "find_snapshot repo (mf_snapshot_id mf) = None"
            using cp [unfolded Inr] r(1) by auto
          with r ss g(2) v(2) n ok(6) show ?thesis unfolding backed_up_def by auto
        qed
      qed
    qed
  qed
qed

lemma create_ok:
  assumes "create env ans root request w repo = Some (w', repo', st, r, e)"
    and "distinct (map sn_name repo)" and "pf_rollback (sa_publish ans) = None"
  shows "case e of
      Some _ \<Rightarrow> repo' = repo \<and> ce_snapshot r = None
    | None \<Rightarrow> \<exists>ds selected. resolve_deployments (bv_source env) (cq_config request) = Inr ds
        \<and> select_deployments ds (cq_service request) = Inr selected \<and> backed_up env (cq_maintenance request) repo repo' selected r"
proof (cases "e = None \<or> repo' \<noteq> repo \<or> ce_snapshot r \<noteq> None")
  case False
  then show ?thesis by auto
next
  case True
  then have n: "\<not> (repo' = repo \<and> r = no_snapshot \<and> e \<noteq> None)" by (auto simp: no_snapshot_def)
  obtain target where t: "cq_transport request = Some target"
    using assms(1) n by (cases "cq_transport request") (auto simp: create_def Let_def)
  obtain stream where s: "bt_stream target = Some stream"
    using assms(1) n t by (cases "bt_stream target") (auto simp: create_def Let_def)
  have k: "dk_responsive (hf_docker (cq_host request))" "dk_compose_available (hf_docker (cq_host request))"
    using assms(1) n t s by (auto simp: create_def Let_def split: if_split_asm)
  obtain selected where d: "rbind (resolve_deployments (bv_source env) (cq_config request)) (\<lambda>ds. select_deployments ds (cq_service request)) = Inr selected"
    using assms(1) n t s k
    by (cases "rbind (resolve_deployments (bv_source env) (cq_config request)) (\<lambda>ds. select_deployments ds (cq_service request))")
       (auto simp: create_def Let_def)
  obtain l where l: "bt_locker target = Some l"
    using assms(1) n t s k d by (cases "bt_locker target") (auto simp: create_def Let_def)
  obtain w1 where a: "lk_acquire l w = (w1, None)"
    using assms(1) n t s k d l by (cases "lk_acquire l w"; cases "snd (lk_acquire l w)") (auto simp: create_def Let_def)
  obtain w2 where c: "create_locked env ans root request target stream selected w1 repo = Some (w2, repo', st, r, e)"
    using assms(1) t s k d l a
    by (cases "create_locked env ans root request target stream selected w1 repo") (auto simp: create_def Let_def)
  from create_locked_ok [OF c assms(2,3)] d show ?thesis by (cases e) (auto simp: result_simps)
qed


section \<open>A backup that succeeds\<close>

definition ex_backup_env :: backup_env where
  "ex_backup_env = \<lparr>bv_source = ex_env, bv_codec = ex_codec, bv_configuration_digest = (\<lambda>c. scf_name c),
     bv_read_state = ex_read_state, bv_version = ''dev''\<rparr>"

definition ex_answers :: stage_answers where
  "ex_answers = \<lparr>sa_civil = (2024, 1, 15, 2, 30, 0), sa_now = 1, sa_random = Inr ''0123456789ab'', sa_mkdir = None,
     sa_tar = (\<lambda>_. quiet), sa_create = (\<lambda>_. None), sa_sync = (\<lambda>_. None), sa_torn = (\<lambda>_. []), sa_publish = no_faults\<rparr>"

definition ex_stream :: "string \<Rightarrow> string \<Rightarrow> unit \<Rightarrow> unit \<times> tar_stream \<times> error option" where
  "ex_stream script input w = (w, ([], None), None)"

definition ex_target :: "unit backup_target" where
  "ex_target = \<lparr>bt_transport = ex_answering, bt_stream = Some ex_stream,
     bt_locker = Some \<lparr>lk_acquire = (\<lambda>w. (w, None)), lk_release = (\<lambda>w. w)\<rparr>, bt_sleep = (\<lambda>w. (w, Deadline))\<rparr>"

definition ex_create_request :: "unit create_request" where
  "ex_create_request = \<lparr>cq_host_alias = ''pi'', cq_target = ''pi'',
     cq_host = zero_host_facts\<lparr>hf_storage := ex_topology [''/mnt/disk''],
       hf_docker := zero_docker\<lparr>dk_responsive := True, dk_compose_available := True\<rparr>\<rparr>,
     cq_config = ex_deploy_config, cq_service = [], cq_transport = Some ex_target, cq_maintenance = None\<rparr>"

lemma ex_source_placed:
  "validate_resolved_placement (cfg_storage ex_deploy_config) (cq_host ex_create_request) ''disk'' ''/mnt/disk/library''
    = Inr (assess ex_disk (ex_topology [''/mnt/disk'']))"
  by (simp add: validate_resolved_placement_def ex_create_request_def ex_deploy_config_def ex_config_def find_storage_def
      assess_def ex_topology_def ex_mount_def mount_covers_def zero_storage_facts_def
      assess_mounted_def placement_filesystem_supported_def escapes_mount_def config_eval)

lemma ex_source_checked:
  "check_sources ex_answering ex_deploy_config (cq_host ex_create_request) d [ex_library] () = ((), None)"
  using ex_source_placed
  by (simp add: ex_library_def validate_source_resource_def run_script_def run_input_def ex_answering_def)

definition ex_captured :: resource_manifest where
  "ex_captured = \<lparr>rf_name = ''library'', rf_type = ''path'', rf_archive = ''services/media/data/library.tar'',
     rf_uncompressed_size = 5, rf_stored_size = 5, rf_sha256 = replicate 64 (CHR ''0'')\<rparr>"

text \<open>The stage of a backup of \<open>ex_library\<close>, when it starts and when it is filled.\<close>

definition ex_stage_at :: "string \<Rightarrow> backup_source \<Rightarrow> maintenance_provenance option \<Rightarrow> stage" where
  "ex_stage_at place source v = \<lparr>sg_id = ex_snapshot_id ''15'', sg_path = place,
     sg_manifest = \<lparr>mf_schema_version = 1, mf_bebop_version = ''dev'', mf_snapshot_id = ex_snapshot_id ''15'', mf_created_at = 1,
       mf_source = source, mf_services = [], mf_maintenance = v, mf_digest = []\<rparr>,
     sg_files = [], sg_closed = False\<rparr>"

definition ex_saved :: service_manifest where
  "ex_saved = \<lparr>sf_name = ''media'', sf_configuration_digest = ''media'', sf_deployment_digest = [], sf_consistency = ''stop'',
     sf_resources = [ex_captured]\<rparr>"

definition ex_filled_at :: "string \<Rightarrow> backup_source \<Rightarrow> maintenance_provenance option \<Rightarrow> stage" where
  "ex_filled_at place source v = (ex_stage_at place source v)
     \<lparr>sg_files := [(''services/media/data/library.tar'', Stored_File (Inr ''bytes''))],
      sg_manifest := (sg_manifest (ex_stage_at place source v))\<lparr>mf_services := [ex_saved]\<rparr>\<rparr>"

definition holds_archives :: "string \<Rightarrow> bool" where
  "holds_archives place \<longleftrightarrow> within place (path_join_all [place, ''services/media/data/library.tar''])"

lemma ex_capture:
  assumes "dp_name d = ''media''" and "\<not> sg_closed st" and "holds_archives (sg_path st)" and "sg_files st = []"
  shows "capture ex_backup_env ex_answers ex_stream d ex_library () st
    = ((), st\<lparr>sg_files := [(''services/media/data/library.tar'', Stored_File (Inr ''bytes''))]\<rparr>, Inr ex_captured)"
proof -
  have "safe_archive_path ''services/media/data/library.tar'' = Inr ''services/media/data/library.tar''"
    by (simp add: safe_archive_path_def unsafe_bytes_def contains_byte_def climbs_def path_clean_def clean_elements_def
        push_element_def is_rooted_def char_eval)
  moreover have "path_join (path_join (path_join ''services'' ''media'') ''data'') ''library.tar'' = ''services/media/data/library.tar''"
    by (simp add: config_eval)
  moreover have "rewrite_archive quiet ([], None) = Inr []" by (simp add: rewrite_archive_def rewrite_entries.simps quiet_def)
  ultimately show ?thesis using assms
    by (simp add: capture_def ex_stream_def Let_def write_archive_def ex_backup_env_def ex_answers_def ex_codec_def ex_library_def ex_captured_def holds_archives_def)
qed

lemma ex_staging: "new_snapshot_id (2024, 1, 15, 2, 30, 0) ''0123456789ab'' = ex_snapshot_id ''15''"
  by (simp add: new_snapshot_id_def pad_def ex_snapshot_id_def show_nat.simps char_of_def bit_iff_odd)

lemma ex_place:
  "repository_child ''/b'' [''.staging'', ex_snapshot_id ''15''] = Inr ''/b/.staging/20240115T023000Z-0123456789ab''"
  "holds_archives ''/b/.staging/20240115T023000Z-0123456789ab''"
  by (simp_all add: ex_snapshot_id_def repository_child_def holds_archives_def path_join_all_def within_def config_eval path_rel_def rel_escapes_def)

lemma ex_begun:
  assumes "root \<noteq> []" and "repository_child root [''.staging'', ex_snapshot_id ''15''] = Inr place"
  shows "begin_stage root (sa_civil ex_answers) (sa_now ex_answers) (sa_random ex_answers) (sa_mkdir ex_answers) source (bv_version ex_backup_env)
    = Inr (ex_stage_at place source None)"
  using assms ex_staging by (simp add: begin_stage_def ex_answers_def ex_backup_env_def ex_stage_at_def Let_def)

lemma ex_backed_up:
  assumes "dp_name d = ''media''" "dp_state d = ''running''" "dp_data d = [ex_library]" "dp_backup_consistency d = ''stop''"
    and "holds_archives place"
  shows "backup_service ex_backup_env ex_answers ex_target ex_stream ex_deploy_config (cq_host ex_create_request) d () (ex_stage_at place source v)
    = Some ((), ex_filled_at place source v, None)"
proof -
  let ?st = "ex_stage_at place source v"
  have f: "backup_service_fact (cq_host ex_create_request) ''media'' = (missing_service ''media'')\<lparr>sv_health := []\<rparr>"
    by (simp add: backup_service_fact_def ex_create_request_def zero_host_facts_def)
  then have s: "\<not> stops_for_backup (cq_host ex_create_request) d" "sv_deployment_digest (backup_service_fact (cq_host ex_create_request) ''media'') = []"
    by (simp_all add: stops_for_backup_def assms service_is_running_def missing_service_def)
  have "capture ex_backup_env ex_answers ex_stream d ex_library () ?st
    = ((), ?st\<lparr>sg_files := [(''services/media/data/library.tar'', Stored_File (Inr ''bytes''))]\<rparr>, Inr ex_captured)"
    by (rule ex_capture) (simp_all add: assms ex_stage_at_def)
  moreover have "service_configuration_digest ex_backup_env d = ''media''"
    by (simp add: service_configuration_digest_def ex_backup_env_def assms)
  ultimately have "capture_service ex_backup_env ex_answers ex_stream (cq_host ex_create_request) d () ?st = ((), ex_filled_at place source v, None)"
    by (simp add: capture_service_def assms s add_service_def ex_stage_at_def ex_filled_at_def ex_saved_def)
  then show ?thesis
    using ex_source_checked [of d] s(1) by (simp add: backup_service_def assms Let_def ex_target_def)
qed

lemma ex_filled_valid:
  assumes "bs_target source \<noteq> []" and "\<forall>x. v = Some x \<longrightarrow> valid_maintenance_provenance x"
  shows "validate_manifest ((sg_manifest (ex_filled_at place source v))\<lparr>mf_digest := dg\<rparr>) = Inr ()"
  using ex_snapshot_ids(1) assms
  by (simp add: ex_filled_at_def ex_stage_at_def ex_saved_def ex_captured_def validate_manifest_def zero_time_def
    hex_decodes_def safe_archive_path_def unsafe_bytes_def contains_byte_def climbs_def path_clean_def clean_elements_def
    push_element_def is_rooted_def list_all_iff char_eval split: option.split)

lemma ex_filled_verifies:
  assumes "validate_manifest m = Inr ()" and "m = (sg_manifest (ex_filled_at place source v))\<lparr>mf_digest := manifest_digest cd m\<rparr>"
    and "cd_sha cd = cd_sha ex_codec" and "cd_untar cd = cd_untar ex_codec"
  shows "repository_verify_path cd (sg_files (ex_filled_at place source v)) m = Inr ()"
proof -
  have "manifest_resources m = [ex_captured]" "mf_digest m = manifest_digest cd m"
    by (subst assms(2), simp add: manifest_resources_def ex_filled_at_def ex_saved_def) (subst assms(2), simp)
  then show ?thesis
    using assms(1,3,4) ex_validated
    by (simp add: repository_verify_path_ok verify_file_ok ex_codec_def seen_file_def is_file_def ex_filled_at_def ex_captured_def)
qed

lemma ex_completed:
  assumes "bs_target source \<noteq> []" and "\<forall>x. v = Some x \<longrightarrow> valid_maintenance_provenance x"
  shows "\<exists>st repo m. complete ex_codec no_faults (ex_filled_at place source v) [] = (st, repo, Inr m)"
proof -
  let ?f = "ex_filled_at place source v"
  let ?m = "(sg_manifest ?f)\<lparr>mf_digest := ex_snapshot_id ''15''\<rparr>"
  have d: "manifest_digest ex_codec x = mf_snapshot_id x" for x by (simp add: manifest_digest_def ex_codec_def)
  have i: "mf_snapshot_id (sg_manifest ?f) = ex_snapshot_id ''15''" "mf_digest (sg_manifest ?f) = []"
    by (simp_all add: ex_filled_at_def ex_stage_at_def)
  have v: "validate_manifest (sg_manifest ?f) = Inr ()"
    using ex_filled_valid [OF assms, of "[]" place] by (simp add: ex_filled_at_def ex_stage_at_def)
  then have "seal ex_codec (sg_manifest ?f) = Inr ?m" by (simp add: seal_def d i)
  moreover have "repository_verify_path ex_codec (sg_files ?f) ?m = Inr ()"
    by (rule ex_filled_verifies) (simp_all add: v ex_filled_valid [OF assms] d i)
  moreover have "mf_services (sg_manifest ?f) \<noteq> []" "\<not> sg_closed ?f"
    by (simp_all add: ex_filled_at_def ex_stage_at_def)
  ultimately show ?thesis
    by (simp add: complete_def no_faults_def find_snapshot_def Let_def)
qed

text \<open>A whole backup, wherever the repository is and whoever asks for it.\<close>

lemma ex_create_runs:
  assumes "cq_host request = cq_host ex_create_request" "cq_config request = ex_deploy_config" "cq_service request = []"
    "cq_transport request = Some ex_target" "cq_target request \<noteq> []"
    and "\<forall>x. cq_maintenance request = Some x \<longrightarrow> valid_maintenance_provenance x"
    and "root \<noteq> []" and "repository_child root [''.staging'', ex_snapshot_id ''15''] = Inr place" and "holds_archives place"
    and "resolve_deployments ex_env ex_deploy_config = Inr [d]"
    and "dp_name d = ''media''" "dp_state d = ''running''" "dp_data d = [ex_library]" "dp_backup_consistency d = ''stop''"
  shows "\<exists>repo' st r. create ex_backup_env ex_answers root request () [] = Some ((), repo', st, r, None) \<and> ce_services r = [''media'']
    \<and> select_deployments [d] (cq_service request) = Inr [d]"
proof -
  define source where "source = \<lparr>bs_host_alias = cq_host_alias request, bs_target = cq_target request, bs_identity = host_identity (cq_host request),
      bs_os = hf_os (cq_host request), bs_architecture = hf_architecture (cq_host request)\<rparr>"
  have target: "bs_target source \<noteq> []" using assms(5) by (simp add: source_def)
  obtain st repo' m where c: "complete ex_codec no_faults (ex_filled_at place source (cq_maintenance request)) [] = (st, repo', Inr m)"
    using ex_completed [OF target assms(6)] by blast
  have sel: "select_deployments [d] [] = Inr [d]" by (simp add: select_deployments_def assms)
  have m: "set_maintenance (cq_maintenance request) (ex_stage_at place source None) = (ex_stage_at place source (cq_maintenance request), None)"
  proof (cases "cq_maintenance request")
    case None
    then show ?thesis by (simp add: set_maintenance_def ex_stage_at_def)
  next
    case (Some v)
    then have "validate_manifest (sg_manifest (ex_stage_at place source (Some v))) = Inr ()"
      using ex_snapshot_ids(1) assms(6) target by (simp add: validate_manifest_def ex_stage_at_def zero_time_def)
    with Some show ?thesis by (simp add: set_maintenance_def ex_stage_at_def)
  qed
  have h: "run_script (bt_transport ex_target) helper_script True () = ((), None)"
    by (simp add: run_script_def run_input_def ex_target_def ex_answering_def)
  have b: "backup_services ex_backup_env ex_answers ex_target ex_stream ex_deploy_config (cq_host ex_create_request) [d] [] ()
      (ex_stage_at place source (cq_maintenance request)) = Some ((), ex_filled_at place source (cq_maintenance request), [''media''], None)"
    using ex_backed_up [OF assms(11-14,9)] by (simp add: assms(11))
  have e: "bv_codec ex_backup_env = ex_codec" "sa_publish ex_answers = no_faults" by (simp_all add: ex_backup_env_def ex_answers_def)
  have "create_locked ex_backup_env ex_answers root request ex_target ex_stream [d] () []
      = Some ((), repo', Some st, \<lparr>ce_snapshot = Some m, ce_services = [''media'']\<rparr>, None)"
    unfolding create_locked_def Let_def source_def [symmetric] h ex_begun [OF assms(7,8)]
    by (simp add: assms(1,2) m b e c del: backup_services.simps)
  then show ?thesis
    using assms(1-4,10) sel
    by (simp add: create_def Let_def ex_backup_env_def) (simp add: ex_create_request_def ex_target_def)
qed


end
