(* ===== verification/Backup_Trace.thy ===== *)
theory Backup_Trace
  imports Backup_Create
begin

text \<open>
  The requests that a backup sends: a target that records them in order, the requests each part of
  \<open>Create\<close> may send, and the theorem that a service which was stopped is started again whatever happens to
  its archives.
\<close>

section \<open>A recording target\<close>

definition privileged_request :: "string \<Rightarrow> request" where
  "privileged_request script = \<lparr>rq_script = script, rq_stdin = [], rq_privileged = True\<rparr>"

definition watched_stream :: "(string \<Rightarrow> string \<Rightarrow> 'w \<Rightarrow> 'w \<times> tar_stream \<times> error option) \<Rightarrow> string \<Rightarrow> string \<Rightarrow> 'w \<times> request list
    \<Rightarrow> ('w \<times> request list) \<times> tar_stream \<times> error option" where
  "watched_stream stream script input s =
     (case stream script input (fst s) of
        (w1, out, e) \<Rightarrow> ((w1, snd s @ [(privileged_request script)\<lparr>rq_stdin := input\<rparr>]), out, e))"

definition watched :: "'w backup_target \<Rightarrow> ('w \<times> request list) backup_target" where
  "watched target =
     \<lparr>bt_transport = recorded (bt_transport target),
      bt_stream = map_option watched_stream (bt_stream target),
      bt_locker = map_option (\<lambda>l.
        \<lparr>lk_acquire = (\<lambda>s. case lk_acquire l (fst s) of (w1, e) \<Rightarrow> ((w1, snd s), e)),
         lk_release = (\<lambda>s. (lk_release l (fst s), snd s))\<rparr>) (bt_locker target),
      bt_sleep = (\<lambda>s. case bt_sleep target (fst s) of (w1, k) \<Rightarrow> ((w1, snd s), k))\<rparr>"

text \<open>From one state of the recording target to another only requests of a class were sent.\<close>

definition grows :: "(request \<Rightarrow> bool) \<Rightarrow> 'w \<times> request list \<Rightarrow> 'w \<times> request list \<Rightarrow> bool" where
  "grows allowed s s' \<longleftrightarrow> (\<exists>qs. snd s' = snd s @ qs \<and> list_all allowed qs)"

lemma grows_refl [simp]: "snd s' = snd s \<Longrightarrow> grows allowed s s'"
  by (simp add: grows_def)

lemma grows_trans: "grows allowed s s1 \<Longrightarrow> grows allowed s1 s2 \<Longrightarrow> grows allowed s s2"
  by (auto simp: grows_def)

lemma grows_one: "snd s' = snd s @ [q] \<Longrightarrow> allowed q \<Longrightarrow> grows allowed s s'"
  by (simp add: grows_def)

lemma run_input_watched: "run_input (recorded tr) script stdin privileged s = (s', e) \<Longrightarrow>
    snd s' = snd s @ [\<lparr>rq_script = script, rq_stdin = stdin, rq_privileged = privileged\<rparr>]"
  by (auto simp: run_input_def recorded_def split: prod.splits)

lemma run_script_watched: "run_script (recorded tr) script True s = (s', e) \<Longrightarrow> snd s' = snd s @ [privileged_request script]"
  by (auto simp: run_script_def privileged_request_def dest: run_input_watched)

lemma send_watched: "send (recorded tr) q s = (s', e) \<Longrightarrow> snd s' = snd s @ [q]"
  by (auto simp: send_def dest: run_input_watched)

lemma run_output_watched: "run_output (recorded tr) script True s = (s', out, e) \<Longrightarrow> snd s' = snd s @ [privileged_request script]"
  by (auto simp: run_output_def recorded_def privileged_request_def split: prod.splits)

section \<open>The requests of each part\<close>

definition is_check :: "deployment \<Rightarrow> request \<Rightarrow> bool" where
  "is_check d q \<longleftrightarrow> (\<exists>r\<in>set (dp_data d). q = privileged_request (source_volume_script d r)
     \<or> q = privileged_request (real_directory_script (pr_path r)))"

definition is_archive :: "deployment \<Rightarrow> request \<Rightarrow> bool" where
  "is_archive d q \<longleftrightarrow> (\<exists>r\<in>set (dp_data d). q = privileged_request (backup_archive_script r))"

definition is_poll :: "request \<Rightarrow> bool" where
  "is_poll q \<longleftrightarrow> (\<exists>x. q = privileged_request (containers_script x) \<or> q = privileged_request (container_script x))"

lemma check_sources_grows:
  "check_sources (recorded tr) cfg host d rs s = (s', e) \<Longrightarrow> set rs \<subseteq> set (dp_data d) \<Longrightarrow> grows (is_check d) s s'"
proof (induction rs arbitrary: s)
  case (Cons r rs)
  show ?case
  proof (cases "pr_type r = ''path'' \<and> pr_storage r \<noteq> []
      \<and> (\<exists>x. validate_resolved_placement (cfg_storage cfg) host (pr_storage r) (pr_path r) = Inl x)")
    case True
    with Cons.prems(1) show ?thesis by (auto split: sum.splits)
  next
    case False
    obtain s1 e1 where v: "validate_source_resource (recorded tr) d r s = (s1, e1)" by fastforce
    have g: "grows (is_check d) s s1"
      using v Cons.prems(2) unfolding validate_source_resource_def
      by (auto split: if_splits dest!: run_script_watched intro!: grows_one [of s1 s] simp: is_check_def)
    from False Cons.prems(1) v have "(case e1 of Some x \<Rightarrow> s' = s1 | None \<Rightarrow> check_sources (recorded tr) cfg host d rs s1 = (s', e))"
      by (cases e1) (auto split: sum.splits if_splits)
    with g Cons.IH [of s1] Cons.prems(2) show ?thesis by (cases e1) (auto intro: grows_trans [OF g])
  qed
qed simp

lemma capture_watched:
  assumes "capture env ans (watched_stream stream) d r s st = (s', st', res)"
  shows "snd s' = snd s @ [privileged_request (backup_archive_script r)]"
proof -
  obtain w1 out e where o: "stream (backup_archive_script r) [] (fst s) = (w1, out, e)" by (metis prod.exhaust)
  have w: "watched_stream stream (backup_archive_script r) [] s = ((w1, snd s @ [privileged_request (backup_archive_script r)]), out, e)"
    by (simp add: watched_stream_def o privileged_request_def)
  have "fst (capture env ans (watched_stream stream) d r s st) = (w1, snd s @ [privileged_request (backup_archive_script r)])"
    by (simp add: capture_def Let_def w split: prod.split)
  with assms show ?thesis by simp
qed

lemma capture_all_grows:
  "capture_all env ans (watched_stream stream) d rs acc s st = (s', st', res) \<Longrightarrow> set rs \<subseteq> set (dp_data d) \<Longrightarrow> grows (is_archive d) s s'"
proof (induction rs arbitrary: acc s st)
  case (Cons r rs)
  obtain s1 st1 x where c: "capture env ans (watched_stream stream) d r s st = (s1, st1, x)" by (metis prod.exhaust)
  have g: "grows (is_archive d) s s1"
    using capture_watched [OF c] Cons.prems(2) by (intro grows_one) (auto simp: is_archive_def)
  show ?case
  proof (cases x)
    case (Inl y)
    with Cons.prems c g show ?thesis by simp
  next
    case (Inr m)
    with Cons.prems c have "grows (is_archive d) s1 s'" by (intro Cons.IH) simp_all
    with g show ?thesis by (rule grows_trans)
  qed
qed simp

lemma capture_service_grows:
  assumes "capture_service env ans (watched_stream stream) host d s st = (s', st', e)"
  shows "grows (is_archive d) s s'"
proof -
  obtain s1 st1 x where c: "capture_all env ans (watched_stream stream) d (dp_data d) [] s st = (s1, st1, x)" by (metis prod.exhaust)
  with assms have "fst (capture_service env ans (watched_stream stream) host d s st) = s1"
    by (cases x) (simp_all add: capture_service_def split: prod.split)
  with assms have "s1 = s'" by simp
  with capture_all_grows [OF c] show ?thesis by simp
qed

lemma inspect_containers_grows:
  "inspect_containers (recorded tr) read_state ids acc s = (s', r) \<Longrightarrow> grows is_poll s s'"
proof (induction ids arbitrary: acc s)
  case (Cons i ids)
  obtain s1 out x where o: "run_output (recorded tr) (container_script i) True s = (s1, out, x)" by (metis prod.exhaust)
  have g: "grows is_poll s s1" using run_output_watched [OF o] by (intro grows_one) (auto simp: is_poll_def)
  have "s' = s1 \<or> (\<exists>acc. inspect_containers (recorded tr) read_state ids acc s1 = (s', r))"
    using Cons.prems o by (auto split: option.splits sum.splits)
  with g Cons.IH show ?case by (blast intro: grows_trans)
qed simp

lemma check_running_grows:
  assumes "check_running (recorded tr) read_state d s = (s', r)"
  shows "grows is_poll s s'"
proof -
  obtain s1 out e where o: "run_output (recorded tr) (containers_script (dp_project d)) True s = (s1, out, e)" by (metis prod.exhaust)
  have g: "grows is_poll s s1" using run_output_watched [OF o] by (intro grows_one) (auto simp: is_poll_def)
  obtain s2 x where i: "inspect_containers (recorded tr) read_state (Go_Prelude.fields out) [] s1 = (s2, x)" by fastforce
  have "s' = s1 \<or> s' = s2"
    using assms o i by (cases e; cases x) (auto simp: check_running_def compose_runtime_def Let_def split: if_splits prod.splits)
  with g inspect_containers_grows [OF i] show ?thesis by (auto intro: grows_trans)
qed

lemma wait_loop_grows:
  assumes "wait_loop (recorded tr) sleep read_state d timeout s = Some (s', e)" and "\<And>v. snd (fst (sleep v)) = snd v"
  shows "grows is_poll s s'"
proof -
  have "grows is_poll s (fst (s', e))"
    by (rule wait_loop_invariant [OF assms(1)])
      (auto intro: grows_trans [OF _ check_running_grows] grows_trans [OF _ grows_refl] simp: assms(2))
  then show ?thesis by simp
qed

text \<open>What follows a capture that had stopped its service.\<close>

lemma restart_watched:
  assumes "restart_and_verify env (recorded tr) sleep cfg d s = Some (s', e)" and "\<And>v. snd (fst (sleep v)) = snd v"
  shows "\<exists>polls. snd s' = snd s @ up_request cfg d # polls \<and> list_all is_poll polls"
proof -
  obtain s1 e1 where u: "send (recorded tr) (up_request cfg d) s = (s1, e1)" by fastforce
  have "grows is_poll s1 s'"
  proof (cases e1)
    case (Some x)
    with assms(1) u show ?thesis by (simp add: restart_and_verify_def)
  next
    case None
    with assms(1) u show ?thesis
      by (auto simp: restart_and_verify_def verify_service_def wait_for_running_def Let_def split: sum.splits option.splits
          intro: wait_loop_grows [OF _ assms(2)])
  qed
  with send_watched [OF u] show ?thesis by (auto simp: grows_def)
qed

section \<open>The trace of a backup\<close>

text \<open>
  The requests for one service. \<open>whole_trace\<close> is what a service that could be stopped leaves in the log,
  whether its archives succeeded or not; a service that ends the backup may also stop after its checks,
  or after a stop request that was answered with an error.
\<close>

definition whole_trace :: "config \<Rightarrow> host_facts \<Rightarrow> deployment \<Rightarrow> request list \<Rightarrow> bool" where
  "whole_trace cfg host d qs \<longleftrightarrow>
     (\<exists>checks archives polls. list_all (is_check d) checks \<and> list_all (is_archive d) archives \<and> list_all is_poll polls
        \<and> qs = (if stops_for_backup host d then checks @ [stop_request cfg d] @ archives @ [up_request cfg d] @ polls
                else checks @ archives))"

definition refused_trace :: "config \<Rightarrow> host_facts \<Rightarrow> deployment \<Rightarrow> request list \<Rightarrow> bool" where
  "refused_trace cfg host d qs \<longleftrightarrow>
     (\<exists>checks. list_all (is_check d) checks
        \<and> (qs = checks \<or> stops_for_backup host d \<and> qs = checks @ [stop_request cfg d]))"

lemma backup_service_trace:
  assumes "backup_service env ans (watched target) (watched_stream stream) cfg host d s st = Some (s', st', e)"
  shows "\<exists>qs. snd s' = snd s @ qs \<and> (whole_trace cfg host d qs \<or> e \<noteq> None \<and> refused_trace cfg host d qs)"
proof -
  let ?tr = "recorded (bt_transport target)"
  have tr: "bt_transport (watched target) = ?tr" by (simp add: watched_def)
  have sleep: "snd (fst (bt_sleep (watched target) v)) = snd v" for v by (simp add: watched_def split: prod.split)
  obtain s1 e1 where c: "check_sources ?tr cfg host d (dp_data d) s = (s1, e1)" by fastforce
  then obtain checks where checks: "snd s1 = snd s @ checks" "list_all (is_check d) checks"
    using check_sources_grows [OF c] by (auto simp: grows_def)
  show ?thesis
  proof (cases "dp_state d = ''absent'' \<or> e1 \<noteq> None")
    case True
    then have "e \<noteq> None \<and> (snd s' = snd s @ [] \<or> snd s' = snd s @ checks)"
      using assms c checks(1) by (cases "dp_state d = ''absent''"; cases e1) (simp_all add: backup_service_def Let_def tr, auto)
    moreover have "refused_trace cfg host d []" "refused_trace cfg host d checks"
      using checks(2) by (auto simp: refused_trace_def intro: exI [of _ "[]"])
    ultimately show ?thesis by blast
  next
    case False
    show ?thesis
    proof (cases "stops_for_backup host d")
      case no: False
      then have k: "capture_service env ans (watched_stream stream) host d s1 st = (s', st', e)"
        using assms c False by (simp add: backup_service_def Let_def tr)
      obtain archives where a: "snd s' = snd s1 @ archives" "list_all (is_archive d) archives"
        using capture_service_grows [OF k] by (auto simp: grows_def)
      have "whole_trace cfg host d (checks @ archives)" unfolding whole_trace_def
        by (intro exI [of _ checks] exI [of _ archives] exI [of _ "[]"]) (use checks a no in simp)
      with a checks show ?thesis by auto
    next
      case yes: True
      obtain s2 e2 where t: "send ?tr (stop_request cfg d) s1 = (s2, e2)" by fastforce
      show ?thesis
      proof (cases e2)
        case (Some x)
        then have "s' = s2" "e \<noteq> None" using assms c False yes t by (auto simp: backup_service_def Let_def tr)
        with send_watched [OF t] checks yes show ?thesis by (auto simp: refused_trace_def)
      next
        case None
        obtain s3 st1 work where k: "capture_service env ans (watched_stream stream) host d s2 st = (s3, st1, work)" by (metis prod.exhaust)
        obtain s4 e4 where r: "restart_and_verify env ?tr (bt_sleep (watched target)) cfg d s3 = Some (s4, e4)"
          using assms c False yes t None k
          by (cases "restart_and_verify env ?tr (bt_sleep (watched target)) cfg d s3") (auto simp: backup_service_def Let_def tr)
        then have "s' = s4" using assms c False yes t None k by (simp add: backup_service_def Let_def tr)
        moreover obtain archives where "snd s3 = snd s2 @ archives" "list_all (is_archive d) archives"
          using capture_service_grows [OF k] by (auto simp: grows_def)
        moreover obtain polls where "snd s4 = snd s3 @ up_request cfg d # polls" "list_all is_poll polls"
          using restart_watched [OF r sleep] by blast
        ultimately have "snd s' = snd s @ checks @ [stop_request cfg d] @ archives @ [up_request cfg d] @ polls"
          "whole_trace cfg host d (checks @ [stop_request cfg d] @ archives @ [up_request cfg d] @ polls)"
          using checks yes send_watched [OF t] unfolding whole_trace_def by (simp, auto)
        then show ?thesis by blast
      qed
    qed
  qed
qed

definition backup_trace :: "config \<Rightarrow> host_facts \<Rightarrow> deployment list \<Rightarrow> request list \<Rightarrow> bool \<Rightarrow> bool" where
  "backup_trace cfg host selected log ok \<longleftrightarrow>
     (\<exists>traces rest. log = concat traces @ rest \<and> length traces \<le> length selected
        \<and> list_all2 (whole_trace cfg host) (take (length traces) selected) traces
        \<and> (if ok then rest = [] \<and> length traces = length selected
           else rest = [] \<or> (length traces < length selected \<and> refused_trace cfg host (selected ! length traces) rest)))"

lemma backup_trace_none: "backup_trace cfg host selected [] False"
  unfolding backup_trace_def by (intro exI [of _ "[]"]) simp

lemma backup_trace_weaken: "backup_trace cfg host selected log ok \<Longrightarrow> ok' \<longrightarrow> ok \<Longrightarrow> backup_trace cfg host selected log ok'"
  unfolding backup_trace_def by (cases ok; cases ok') auto

lemma backup_trace_refused: "refused_trace cfg host d qs \<Longrightarrow> backup_trace cfg host (d # ds) qs False"
  unfolding backup_trace_def by (intro exI [of _ "[]"] exI [of _ qs]) simp

lemma backup_trace_step:
  assumes "whole_trace cfg host d qs" and "backup_trace cfg host ds log ok"
  shows "backup_trace cfg host (d # ds) (qs @ log) ok"
proof -
  obtain traces rest where t: "log = concat traces @ rest" "length traces \<le> length ds"
    "list_all2 (whole_trace cfg host) (take (length traces) ds) traces"
    "if ok then rest = [] \<and> length traces = length ds
     else rest = [] \<or> (length traces < length ds \<and> refused_trace cfg host (ds ! length traces) rest)"
    using assms(2) unfolding backup_trace_def by blast
  show ?thesis unfolding backup_trace_def
    by (intro exI [of _ "qs # traces"] exI [of _ rest]) (use t assms(1) in auto)
qed

lemma backup_services_trace:
  "backup_services env ans (watched target) (watched_stream stream) cfg host ds names s st = Some (s', st', names', e) \<Longrightarrow>
     \<exists>qs. snd s' = snd s @ qs \<and> backup_trace cfg host ds qs (e = None)"
proof (induction ds arbitrary: names s st)
  case Nil
  then show ?case by (intro exI [of _ "[]"]) (simp add: backup_trace_def)
next
  case (Cons d ds)
  then obtain s1 st1 e1 where b: "backup_service env ans (watched target) (watched_stream stream) cfg host d s st = Some (s1, st1, e1)"
    by (auto split: option.splits prod.splits)
  from backup_service_trace [OF b] obtain qs where qs: "snd s1 = snd s @ qs"
    "whole_trace cfg host d qs \<or> e1 \<noteq> None \<and> refused_trace cfg host d qs" by blast
  show ?case
  proof (cases e1)
    case (Some x)
    then have "s' = s1" "e \<noteq> None" using Cons.prems b by auto
    moreover have "backup_trace cfg host (d # ds) qs False"
      using qs(2) backup_trace_refused backup_trace_step [OF _ backup_trace_none, of cfg host d qs ds] by auto
    ultimately show ?thesis using qs(1) by auto
  next
    case None
    then have "backup_services env ans (watched target) (watched_stream stream) cfg host ds (names @ [dp_name d]) s1 st1 = Some (s', st', names', e)"
      using Cons.prems b by simp
    from Cons.IH [OF this] obtain log where "snd s' = snd s1 @ log" "backup_trace cfg host ds log (e = None)" by blast
    with qs None show ?thesis using backup_trace_step [of cfg host d qs ds log] by auto
  qed
qed

lemma create_locked_runs:
  assumes "create_locked env ans root request target stream selected w repo = Some (w', repo', st, r, e)"
    and "run_script (bt_transport target) helper_script True w = (w1, e1)"
  shows "(w' = w1 \<and> e \<noteq> None) \<or> (\<exists>st1 st2 names e2.
    backup_services env ans target stream (cq_config request) (cq_host request) selected [] w1 st1 = Some (w', st2, names, e2)
      \<and> (e = None \<longrightarrow> e2 = None))"
proof (cases e1)
  case (Some x)
  with assms show ?thesis by (auto simp: create_locked_def)
next
  case None
  obtain b where b: "begin_stage root (sa_civil ans) (sa_now ans) (sa_random ans) (sa_mkdir ans)
    \<lparr>bs_host_alias = cq_host_alias request, bs_target = cq_target request, bs_identity = host_identity (cq_host request),
     bs_os = hf_os (cq_host request), bs_architecture = hf_architecture (cq_host request)\<rparr> (bv_version env) = b" by blast
  show ?thesis
  proof (cases b)
    case (Inl x)
    with assms None b show ?thesis by (auto simp: create_locked_def Let_def)
  next
    case (Inr st0)
    obtain st1 e2 where m: "set_maintenance (cq_maintenance request) st0 = (st1, e2)" by fastforce
    show ?thesis
    proof (cases e2)
      case (Some x)
      with assms None b Inr m show ?thesis by (auto simp: create_locked_def Let_def)
    next
      case e2: None
      obtain w2 st2 names e3 where s: "backup_services env ans target stream (cq_config request) (cq_host request) selected [] w1 st1
          = Some (w2, st2, names, e3)"
        using assms None b Inr m e2
        by (cases "backup_services env ans target stream (cq_config request) (cq_host request) selected [] w1 st1")
          (auto simp: create_locked_def Let_def)
      have "w' = w2 \<and> (e = None \<longrightarrow> e3 = None)"
        using assms None b Inr m e2 s
        by (cases e3) (auto simp: create_locked_def Let_def split: prod.splits sum.splits)
      with s show ?thesis by blast
    qed
  qed
qed

section \<open>Properties\<close>


text \<open>A running service whose archive stream breaks off.\<close>

definition ex_broken_pipe :: "string \<Rightarrow> string \<Rightarrow> unit \<Rightarrow> unit \<times> tar_stream \<times> error option" where
  "ex_broken_pipe script input w = (w, ([], None), Some (errorf ''broken pipe''))"

definition ex_breaking :: "unit backup_target" where
  "ex_breaking = ex_target\<lparr>bt_stream := Some ex_broken_pipe\<rparr>"

definition ex_busy_request :: "(unit \<times> request list) create_request" where
  "ex_busy_request = \<lparr>cq_host_alias = ''pi'', cq_target = ''pi'',
     cq_host = (cq_host ex_create_request)\<lparr>hf_services := [(missing_service ''media'')\<lparr>sv_runtime := ''running''\<rparr>]\<rparr>,
     cq_config = ex_deploy_config, cq_service = [], cq_transport = Some (watched ex_breaking), cq_maintenance = None\<rparr>"

lemma ex_answers_all:
  "run_script (recorded ex_answering) script True (u, log) = (((), log @ [privileged_request script]), None)"
  "run_input (recorded ex_answering) script input True (u, log) = (((), log @ [(privileged_request script)\<lparr>rq_stdin := input\<rparr>]), None)"
  "run_output (recorded ex_answering) script True (u, log) = (((), log @ [privileged_request script]), [], None)"
  by (simp_all add: run_script_def run_input_def run_output_def recorded_def ex_answering_def privileged_request_def)

lemma ex_restart:
  assumes "dp_name d = ''media''"
  shows "\<exists>poll e. restart_and_verify ex_backup_env (recorded ex_answering) sleep ex_deploy_config d (u, log)
    = Some (((), log @ [up_request ex_deploy_config d, poll]), Some e)"
proof -
  obtain d' where d': "resolve_deployment ex_env ex_deploy_config ''media'' = Inr d'" using ex_resolves by blast
  have t: "\<exists>t. parse_duration (service_health_timeout ex_deploy_config n) = Some t" for n
    by (simp add: service_health_timeout_def ex_deploy_config_def ex_config_def ex_service_def two_minutes)
  have c: "\<exists>e. check_running (recorded ex_answering) ex_read_state d' ((), l) = (((), l @ [privileged_request (containers_script (dp_project d'))]), Inl (Some e))" for l
    by (simp add: check_running_def compose_runtime_def ex_answers_all Go_Prelude.fields_def)
  have "\<exists>e. wait_for_running (recorded ex_answering) sleep ex_read_state ex_deploy_config d' ((), l)
      = Some (((), l @ [privileged_request (containers_script (dp_project d'))]), Some e)" for l
  proof -
    obtain e where "check_running (recorded ex_answering) ex_read_state d' ((), l) = (((), l @ [privileged_request (containers_script (dp_project d'))]), Inl (Some e))"
      using c by blast
    then show ?thesis using t [of "dp_name d'"] by (auto simp: wait_for_running_def wait_loop.simps [of _ _ _ _ _ "((), l)"])
  qed
  then obtain e where w: "wait_for_running (recorded ex_answering) sleep ex_read_state ex_deploy_config d' ((), log @ [up_request ex_deploy_config d])
      = Some (((), (log @ [up_request ex_deploy_config d]) @ [privileged_request (containers_script (dp_project d'))]), Some e)" by blast
  have "send (recorded ex_answering) (up_request ex_deploy_config d) (u, log) = (((), log @ [up_request ex_deploy_config d]), None)"
    by (simp add: send_def ex_answers_all up_request_def privileged_request_def)
  with w show ?thesis
    by (simp add: restart_and_verify_def assms verify_service_def ex_backup_env_def d' Let_def)
qed

lemma ex_broken_service:
  assumes "dp_name d = ''media''" "dp_state d = ''running''" "dp_data d = [ex_library]" "dp_backup_consistency d = ''stop''"
  shows "\<exists>check archive poll st' e. backup_service ex_backup_env ex_answers (watched ex_breaking)
      (watched_stream ex_broken_pipe) ex_deploy_config (cq_host ex_busy_request) d (u, log) st
    = Some (((), log @ [check, stop_request ex_deploy_config d, archive, up_request ex_deploy_config d, poll]), st', Some e)"
proof -
  let ?h = "cq_host ex_busy_request" and ?s = "watched_stream ex_broken_pipe"
  have tr: "bt_transport (watched ex_breaking) = recorded ex_answering" by (simp add: watched_def ex_breaking_def ex_target_def)
  have h: "hf_storage ?h = hf_storage (cq_host ex_create_request)" by (simp add: ex_busy_request_def)
  have "validate_resolved_placement (cfg_storage ex_deploy_config) ?h ''disk'' ''/mnt/disk/library'' = Inr (assess ex_disk (ex_topology [''/mnt/disk'']))"
    using ex_source_placed unfolding validate_resolved_placement_def h .
  then have c: "check_sources (recorded ex_answering) ex_deploy_config ?h d [ex_library] (u, log)
      = (((), log @ [privileged_request (real_directory_script ''/mnt/disk/library'')]), None)"
    by (simp add: ex_library_def validate_source_resource_def ex_answers_all)
  have y: "stops_for_backup ?h d"
    by (simp add: stops_for_backup_def assms service_is_running_def backup_service_fact_def ex_busy_request_def missing_service_def)
  have k: "\<exists>st' e. capture_service ex_backup_env ex_answers ?s ?h d ((), l) st
      = (((), l @ [privileged_request (backup_archive_script ex_library)]), st', Some e)" for l
    by (simp add: capture_service_def assms capture_def watched_stream_def ex_broken_pipe_def Let_def privileged_request_def split: prod.split)
  have t: "send (recorded ex_answering) (stop_request ex_deploy_config d) ((), l) = (((), l @ [stop_request ex_deploy_config d]), None)" for l
    by (simp add: send_def ex_answers_all stop_request_def privileged_request_def)
  let ?l = "log @ [privileged_request (real_directory_script ''/mnt/disk/library''), stop_request ex_deploy_config d]"
  obtain st' e where k': "capture_service ex_backup_env ex_answers ?s ?h d ((), ?l) st
      = (((), ?l @ [privileged_request (backup_archive_script ex_library)]), st', Some e)" using k by blast
  obtain poll e' where r: "restart_and_verify ex_backup_env (recorded ex_answering) (bt_sleep (watched ex_breaking)) ex_deploy_config d
      ((), ?l @ [privileged_request (backup_archive_script ex_library)])
      = Some (((), (?l @ [privileged_request (backup_archive_script ex_library)]) @ [up_request ex_deploy_config d, poll]), Some e')"
    using ex_restart [OF assms(1)] by blast
  show ?thesis
    using c y t k' r by (simp add: backup_service_def Let_def tr assms after_restart_def)
qed


end
