(* ===== verification/Backup_Restore.thy ===== *)
theory Backup_Restore
  imports Backup_Create
begin

text \<open>
  File \<open>internal/backup/restore.go\<close>: the restore plan, a review of the empty destinations that a restore may fill,
  and its application under the lock of the target, with the theorem that a destination is never filled
  while it holds data. The JSON of a plan and its digests are parameters.
\<close>

section \<open>The restore plan\<close>

record restore_resource =
  rr_name :: string
  rr_type :: string
  rr_archive :: string
  rr_archive_sha256 :: string
  rr_stored_size :: int
  rr_destination :: string
  rr_exists :: bool
  rr_empty :: bool

record restore_service =
  rv_name :: string
  rv_runtime :: string
  rv_deployment :: bool
  rv_resources :: "restore_resource list"

record restore_plan =
  rsp_schema_version :: int
  rsp_bebop_version :: string
  rsp_snapshot_id :: string
  rsp_snapshot_digest :: string
  rsp_config_path :: string
  rsp_config_fingerprint :: string
  rsp_target :: string
  rsp_host_alias :: string
  rsp_target_identity :: identity
  rsp_destination_fingerprint :: string
  rsp_policy :: string
  rsp_services :: "restore_service list"
  rsp_warnings :: "string list"
  rsp_fingerprint :: string

record 'w restore_request =
  rsq_snapshot_id :: string
  rsq_host_alias :: string
  rsq_target :: string
  rsq_config_path :: string
  rsq_config :: config
  rsq_host :: host_facts
  rsq_service :: string
  rsq_transport :: "'w backup_target option"

record restore_result =
  re_plan :: "restore_plan option"
  re_restored :: "string list"
  re_needs_convergence :: "string list"

record restore_env =
  ev_backup :: backup_env
  ev_config_digest :: "config \<Rightarrow> string"
  ev_destination_digest :: "identity \<Rightarrow> restore_service list \<Rightarrow> string \<Rightarrow> string"
  ev_plan_digest :: "restore_plan \<Rightarrow> string"
  ev_close :: "string \<Rightarrow> error option"

definition restore_plan_fingerprint :: "restore_env \<Rightarrow> restore_plan \<Rightarrow> string" where
  "restore_plan_fingerprint env p = ev_plan_digest env (p\<lparr>rsp_fingerprint := []\<rparr>)"

definition destination_fingerprint :: "restore_env \<Rightarrow> restore_plan \<Rightarrow> string" where
  "destination_fingerprint env p = ev_destination_digest env (rsp_target_identity p) (rsp_services p) (rsp_policy p)"

fun validate_restore_resources :: "string \<Rightarrow> restore_resource list \<Rightarrow> unit result" where
  "validate_restore_resources previous [] = Inr ()"
| "validate_restore_resources previous (r # rs) =
     (if rr_name r = [] \<or> rr_name r \<le> previous \<or> (rr_type r \<noteq> ''volume'' \<and> rr_type r \<noteq> ''path'')
         \<or> rr_archive_sha256 r = [] \<or> rr_stored_size r < 0
      then Inl (errorf ''invalid restore resource'')
      else rbind (safe_archive_path (rr_archive r)) (\<lambda>_. validate_restore_resources (rr_name r) rs))"

fun validate_restore_services :: "string \<Rightarrow> restore_service list \<Rightarrow> unit result" where
  "validate_restore_services previous [] = Inr ()"
| "validate_restore_services previous (s # ss) =
     (if rv_name s = [] \<or> rv_name s \<le> previous then Inl (errorf ''invalid restore service ordering'')
      else rbind (validate_restore_resources [] (rv_resources s)) (\<lambda>_. validate_restore_services (rv_name s) ss))"

definition validate_restore_plan :: "restore_plan \<Rightarrow> unit result" where
  "validate_restore_plan p =
     (if rsp_schema_version p \<noteq> 1 \<or> \<not> valid_snapshot_id (rsp_snapshot_id p) \<or> length (rsp_snapshot_digest p) \<noteq> 64
         \<or> rsp_config_fingerprint p = [] \<or> rsp_target p = [] \<or> rsp_policy p \<noteq> ''empty-only'' \<or> rsp_services p = []
      then Inl (errorf ''invalid restore plan'')
      else if \<not> hex_decodes (rsp_snapshot_digest p) then Inl (errorf ''invalid restore snapshot digest'')
      else validate_restore_services [] (rsp_services p))"

definition seal_restore :: "restore_env \<Rightarrow> restore_plan \<Rightarrow> restore_plan result" where
  "seal_restore env p = rbind (validate_restore_plan p) (\<lambda>_. Inr (p\<lparr>rsp_fingerprint := restore_plan_fingerprint env p\<rparr>))"

text \<open>
  A plan file: \<open>encode\<close> and \<open>parse\<close> are the JSON writer and the strict reader, \<open>faults\<close> the answers of the file
  system to the steps of the write, in order: directory, temporary file, bytes, mode, close, rename.
\<close>

definition write_restore_plan :: "restore_env \<Rightarrow> (restore_plan \<Rightarrow> string) \<Rightarrow> error option list \<Rightarrow> string \<Rightarrow> restore_plan
    \<Rightarrow> (string \<rightharpoonup> string) \<Rightarrow> (string \<rightharpoonup> string) \<times> error option" where
  "write_restore_plan env encode faults filename p files =
     (case seal_restore env p of
        Inl e \<Rightarrow> (files, Some e)
      | Inr sealed \<Rightarrow>
        (case List.map_filter id faults of
           e # _ \<Rightarrow> (files, Some e)
         | [] \<Rightarrow> (files(filename \<mapsto> encode sealed @ newline), None)))"

definition load_restore_plan :: "restore_env \<Rightarrow> (string \<Rightarrow> restore_plan result) \<Rightarrow> (string \<rightharpoonup> string) \<Rightarrow> string \<Rightarrow> restore_plan result" where
  "load_restore_plan env parse files filename =
     (case files filename of
        None \<Rightarrow> Inl (errorf ''open'')
      | Some contents \<Rightarrow>
        rbind (parse contents) (\<lambda>p.
        rbind (validate_restore_plan p) (\<lambda>_.
        rfail_if (restore_plan_fingerprint env p \<noteq> rsp_fingerprint p)
          (coded PlanTampered ''restore plan fingerprint does not match'') (Inr p))))"

section \<open>Selection\<close>

definition find_resource :: "deployment \<Rightarrow> string \<Rightarrow> persistent_resource option" where
  "find_resource d name = find (\<lambda>r. pr_name r = name) (dp_data d)"

definition snapshot_resource :: "service_manifest \<Rightarrow> string \<Rightarrow> resource_manifest option" where
  "snapshot_resource s name = find (\<lambda>r. rf_name r = name) (sf_resources s)"

definition planned_restore_service :: "restore_plan \<Rightarrow> string \<Rightarrow> restore_service option" where
  "planned_restore_service p name = find (\<lambda>s. rv_name s = name) (rsp_services p)"

definition planned_restore_resource :: "restore_service \<Rightarrow> string \<Rightarrow> restore_resource option" where
  "planned_restore_resource s name = find (\<lambda>r. rr_name r = name) (rv_resources s)"

fun restore_selection :: "backup_env \<Rightarrow> deployment list \<Rightarrow> string \<Rightarrow> service_manifest list \<Rightarrow> (service_manifest \<times> deployment) list result" where
  "restore_selection env ds only [] = Inr []"
| "restore_selection env ds only (s # ss) =
     (if only \<noteq> [] \<and> sf_name s \<noteq> only then restore_selection env ds only ss
      else case find (\<lambda>d. dp_name d = sf_name s) (rev ds) of
        None \<Rightarrow> Inl (coded PlanBlocked (''destination configuration does not declare active service '' @ sf_name s))
      | Some d \<Rightarrow>
        (if dp_state d = ''absent''
         then Inl (coded PlanBlocked (''destination configuration does not declare active service '' @ sf_name s))
         else if service_configuration_digest env d \<noteq> sf_configuration_digest s
         then Inl (coded PlanBlocked (''destination service configuration does not match snapshot for '' @ sf_name s))
         else rbind (restore_selection env ds only ss) (\<lambda>rest. Inr ((s, d) # rest))))"

definition restore_services :: "backup_env \<Rightarrow> manifest \<Rightarrow> deployment list \<Rightarrow> string \<Rightarrow> (service_manifest \<times> deployment) list result" where
  "restore_services env m ds only =
     rbind (restore_selection env ds only (mf_services m)) (\<lambda>selected.
       if only \<noteq> [] \<and> selected = [] then Inl (coded ConfigInvalid (''snapshot does not contain service '' @ only))
       else if selected = [] then Inl (coded ConfigInvalid ''snapshot contains no restorable declared services'')
       else Inr selected)"

section \<open>The state of a destination\<close>

record resource_state =
  rt_destination :: string
  rt_exists :: bool
  rt_empty :: bool

definition volume_exists_script :: "string \<Rightarrow> string" where
  "volume_exists_script volume = ''if '' @ docker_prefix @ '' volume inspect '' @ shell_quote volume
     @ '' >/dev/null 2>&1; then printf exists=yes'' @ backslash @ ''n; else printf exists=no'' @ backslash @ ''n; fi''"

definition path_exists_script :: "string \<Rightarrow> string" where
  "path_exists_script p = ''if test -e '' @ shell_quote p @ ''; then printf exists=yes'' @ backslash @ ''n; else printf exists=no'' @ backslash @ ''n; fi''"

definition destination_volume_script :: "deployment \<Rightarrow> persistent_resource \<Rightarrow> string" where
  "destination_volume_script d r =
     ''actual=$('' @ volume_labels_script (pr_runtime_volume r) @ '')'' @ newline @ ''test \"$actual\" = '' @ volume_identity d r"

definition empty_volume_script :: "string \<Rightarrow> string" where
  "empty_volume_script volume = unlines
     [''mountpoint=$('' @ docker_prefix @ '' volume inspect --format '{{ .Mountpoint }}' '' @ shell_quote volume @ '')'',
      ''test -n \"$mountpoint\"'', ''test -d \"$mountpoint\"'',
      ''if find \"$mountpoint\" -xdev -mindepth 1 -print -quit | grep -q .; then printf empty=no; else printf empty=yes; fi'']"

definition empty_path_script :: "string \<Rightarrow> string" where
  "empty_path_script p = ''if find '' @ shell_quote p @ '' -xdev -mindepth 1 -print -quit | grep -q .; then printf empty=no; else printf empty=yes; fi''"

definition is_empty_answer :: "string \<Rightarrow> bool" where
  "is_empty_answer out \<longleftrightarrow> trim_space out = ''empty=yes''"

text \<open>The two kinds of destination are inspected by the same steps.\<close>

definition inspect_destination :: "'w transport \<Rightarrow> string \<Rightarrow> string \<Rightarrow> string option \<Rightarrow> string \<Rightarrow> 'w \<Rightarrow> 'w \<times> resource_state result" where
  "inspect_destination tr destination exists_script valid_script empty_script w =
     (case run_output tr exists_script True w of
        (w1, out, Some e) \<Rightarrow> (w1, Inl e)
      | (w1, out, None) \<Rightarrow>
        (if \<not> str_contains out ''exists=yes''
         then (w1, Inr \<lparr>rt_destination = destination, rt_exists = False, rt_empty = False\<rparr>)
         else case (case valid_script of None \<Rightarrow> (w1, None) | Some script \<Rightarrow> run_script tr script True w1) of
           (w2, Some e) \<Rightarrow> (w2, Inl e)
         | (w2, None) \<Rightarrow>
           (case run_output tr empty_script True w2 of
              (w3, out2, Some e) \<Rightarrow> (w3, Inl e)
            | (w3, out2, None) \<Rightarrow>
              (w3, Inr \<lparr>rt_destination = destination, rt_exists = True, rt_empty = is_empty_answer out2\<rparr>))))"

definition destination_state :: "'w transport \<Rightarrow> deployment \<Rightarrow> persistent_resource \<Rightarrow> 'w \<Rightarrow> 'w \<times> resource_state result" where
  "destination_state tr d r w =
     (if pr_type r = ''volume''
      then inspect_destination tr (pr_runtime_volume r) (volume_exists_script (pr_runtime_volume r))
        (if pr_external r then None else Some (destination_volume_script d r)) (empty_volume_script (pr_runtime_volume r)) w
      else if pr_type r = ''path''
      then inspect_destination tr (pr_path r) (path_exists_script (pr_path r)) (Some (real_directory_script (pr_path r)))
        (empty_path_script (pr_path r)) w
      else (w, Inl (errorf (''unsupported resource type '' @ go_quote (pr_type r)))))"

section \<open>Planning\<close>

text \<open>Is there room for a resource on the storage that it is declared on?\<close>

definition plan_capacity :: "config \<Rightarrow> host_facts \<Rightarrow> deployment \<Rightarrow> persistent_resource \<Rightarrow> resource_manifest \<Rightarrow> unit result" where
  "plan_capacity cfg host d r source =
     (if pr_type r = ''path'' \<and> pr_storage r \<noteq> []
      then rbind (rmap_err (\<lambda>e. Coded PlanBlocked (''destination storage placement for '' @ dp_name d @ ''/'' @ pr_name r @ '' is not ready'') (Some e))
             (validate_resolved_placement (cfg_storage cfg) host (pr_storage r) (pr_path r))) (\<lambda>a.
           rbind (restore_capacity_requirement (rf_uncompressed_size source)) (\<lambda>need.
           rmap_err (\<lambda>e. Coded PlanBlocked (''destination storage capacity for '' @ dp_name d @ ''/'' @ pr_name r @ '' is insufficient'') (Some e))
             (require_free_capacity a need)))
      else Inr ())"

fun plan_restore_resources :: "'w transport \<Rightarrow> config \<Rightarrow> host_facts \<Rightarrow> deployment \<Rightarrow> resource_manifest list \<Rightarrow> 'w
    \<Rightarrow> 'w \<times> restore_resource list result" where
  "plan_restore_resources tr cfg host d [] w = (w, Inr [])"
| "plan_restore_resources tr cfg host d (source # rest) w =
     (case find_resource d (rf_name source) of
        None \<Rightarrow> (w, Inl (coded PlanBlocked (''destination service '' @ dp_name d @ '' does not declare compatible resource '' @ rf_name source)))
      | Some r \<Rightarrow>
        (if pr_type r \<noteq> rf_type source
         then (w, Inl (coded PlanBlocked (''destination service '' @ dp_name d @ '' does not declare compatible resource '' @ rf_name source)))
         else case plan_capacity cfg host d r source of
           Inl e \<Rightarrow> (w, Inl e)
         | Inr _ \<Rightarrow>
           (case destination_state tr d r w of
              (w1, Inl e) \<Rightarrow> (w1, Inl (wrapf (''inspect restore destination '' @ dp_name d @ ''/'' @ pr_name r @ '': '') e))
            | (w1, Inr state) \<Rightarrow>
              (case plan_restore_resources tr cfg host d rest w1 of
                 (w2, Inl e) \<Rightarrow> (w2, Inl e)
               | (w2, Inr rs) \<Rightarrow>
                 (w2, Inr (\<lparr>rr_name = rf_name source, rr_type = rf_type source, rr_archive = rf_archive source,
                    rr_archive_sha256 = rf_sha256 source, rr_stored_size = rf_stored_size source,
                    rr_destination = rt_destination state, rr_exists = rt_exists state, rr_empty = rt_empty state\<rparr> # rs))))))"

fun plan_restore_services :: "'w transport \<Rightarrow> config \<Rightarrow> host_facts \<Rightarrow> (service_manifest \<times> deployment) list \<Rightarrow> 'w
    \<Rightarrow> 'w \<times> restore_service list result" where
  "plan_restore_services tr cfg host [] w = (w, Inr [])"
| "plan_restore_services tr cfg host ((s, d) # rest) w =
     (case plan_restore_resources tr cfg host d (sf_resources s) w of
        (w1, Inl e) \<Rightarrow> (w1, Inl e)
      | (w1, Inr rs) \<Rightarrow>
        (case plan_restore_services tr cfg host rest w1 of
           (w2, Inl e) \<Rightarrow> (w2, Inl e)
         | (w2, Inr ss) \<Rightarrow>
           (w2, Inr (\<lparr>rv_name = dp_name d, rv_runtime = sv_runtime (backup_service_fact host (dp_name d)),
              rv_deployment = sv_deployment_present (backup_service_fact host (dp_name d)),
              rv_resources = sort_slice rr_name rs\<rparr> # ss))))"

definition architecture_warnings :: "manifest \<Rightarrow> host_facts \<Rightarrow> string list" where
  "architecture_warnings m host =
     (let source = bs_architecture (mf_source m); here = hf_architecture host in
      if source \<noteq> [] \<and> here \<noteq> [] \<and> source \<noteq> here
      then [''snapshot source architecture '' @ source @ '' differs from destination '' @ here
        @ ''; generic persistent data is normally portable, but container/application UID and format assumptions remain your responsibility'']
      else [])"

definition build_restore_plan :: "restore_env \<Rightarrow> repository \<Rightarrow> 'w restore_request \<Rightarrow> 'w \<Rightarrow> 'w \<times> restore_plan result" where
  "build_restore_plan env repo request w =
     (let cfg = rsq_config request; host = rsq_host request; benv = ev_backup env in
      case rsq_transport request of
        None \<Rightarrow> (w, Inl (errorf ''restore planning requires a target transport''))
      | Some target \<Rightarrow>
        (case rbind (verify (bv_codec benv) repo (rsq_snapshot_id request)) (\<lambda>m.
              rbind (fingerprint (ev_config_digest env) cfg) (\<lambda>f.
              rbind (resolve_deployments (bv_source benv) cfg) (\<lambda>ds.
              rbind (restore_services benv m ds (rsq_service request)) (\<lambda>selected. Inr (m, f, selected))))) of
           Inl e \<Rightarrow> (w, Inl e)
         | Inr (m, f, selected) \<Rightarrow>
           (case plan_restore_services (bt_transport target) cfg host selected w of
              (w1, Inl e) \<Rightarrow> (w1, Inl e)
            | (w1, Inr ss) \<Rightarrow>
              (let p = \<lparr>rsp_schema_version = 1, rsp_bebop_version = bv_version benv, rsp_snapshot_id = mf_snapshot_id m,
                  rsp_snapshot_digest = mf_digest m, rsp_config_path = rsq_config_path request, rsp_config_fingerprint = f,
                  rsp_target = rsq_target request, rsp_host_alias = rsq_host_alias request, rsp_target_identity = host_identity host,
                  rsp_destination_fingerprint = [], rsp_policy = ''empty-only'', rsp_services = sort_slice rv_name ss,
                  rsp_warnings = architecture_warnings m host, rsp_fingerprint = []\<rparr>
               in (w1, seal_restore env (p\<lparr>rsp_destination_fingerprint := destination_fingerprint env p\<rparr>))))))"

section \<open>Application\<close>

definition create_destination_script :: "deployment \<Rightarrow> persistent_resource \<Rightarrow> string" where
  "create_destination_script d r =
     (if pr_type r = ''volume''
      then docker_prefix @ '' volume create''
        @ (if pr_external r then []
           else '' --label '' @ shell_quote (''com.docker.compose.project='' @ dp_project d)
             @ '' --label '' @ shell_quote (''com.docker.compose.volume='' @ pr_volume_key r))
        @ '' '' @ shell_quote (pr_runtime_volume r) @ '' >/dev/null''
      else ''install -d -m 0750 -o root -g root -- '' @ shell_quote (pr_path r))"

definition create_destination :: "'w transport \<Rightarrow> deployment \<Rightarrow> persistent_resource \<Rightarrow> 'w \<Rightarrow> 'w \<times> error option" where
  "create_destination tr d r w =
     (if pr_type r = ''volume'' \<or> pr_type r = ''path'' then run_script tr (create_destination_script d r) True w
      else (w, Some (errorf (''unsupported resource type '' @ go_quote (pr_type r)))))"

definition restore_archive_script :: "persistent_resource \<Rightarrow> string" where
  "restore_archive_script r =
     (let mount = (if pr_type r = ''path'' then pr_path r @ '':/data'' @ (if pr_selinux_shared r then '':z'' else [])
                   else pr_runtime_volume r @ '':/data'')
      in docker_prefix @ '' run --rm -i --network none --read-only -v '' @ shell_quote mount @ '' '' @ shell_quote helper_image
         @ '' tar -C /data -xpf -'')"

type_synonym 'w streamer = "string \<Rightarrow> string \<Rightarrow> 'w \<Rightarrow> 'w \<times> tar_stream \<times> error option"

definition extract_archive :: "restore_env \<Rightarrow> 'w streamer \<Rightarrow> persistent_resource \<Rightarrow> resource_manifest \<Rightarrow> string \<Rightarrow> 'w \<Rightarrow> 'w \<times> error option" where
  "extract_archive env stream r source bytes w =
     (case stream (restore_archive_script r) bytes w of
        (w1, _, Some e) \<Rightarrow> (w1, Some (wrapf (''restore '' @ rf_name source @ '': '') e))
      | (w1, _, None) \<Rightarrow> (w1, ev_close env bytes))"

definition matches_review :: "restore_service \<Rightarrow> string \<Rightarrow> resource_state \<Rightarrow> bool" where
  "matches_review s name state \<longleftrightarrow>
     (case planned_restore_resource s name of
        None \<Rightarrow> False
      | Some p \<Rightarrow> rr_destination p = rt_destination state \<and> rr_exists p = rt_exists state \<and> rr_empty p = rt_empty state)"

definition restore_resource_data :: "restore_env \<Rightarrow> repository \<Rightarrow> 'w transport \<Rightarrow> 'w streamer \<Rightarrow> string \<Rightarrow> restore_service
    \<Rightarrow> deployment \<Rightarrow> resource_manifest \<Rightarrow> 'w \<Rightarrow> 'w \<times> error option" where
  "restore_resource_data env repo tr stream snapshot review d source w =
     (case find_resource d (rf_name source) of
        None \<Rightarrow> (w, Some (coded PlanStale (''destination resource mapping changed for '' @ rf_name source)))
      | Some r \<Rightarrow>
        (if pr_type r \<noteq> rf_type source
         then (w, Some (coded PlanStale (''destination resource mapping changed for '' @ rf_name source)))
         else case destination_state tr d r w of
           (w1, Inl e) \<Rightarrow> (w1, Some e)
         | (w1, Inr state) \<Rightarrow>
           (if \<not> matches_review review (rf_name source) state
            then (w1, Some (coded PlanStale (''destination persistent state changed after restore review for '' @ dp_name d @ ''/'' @ rf_name source)))
            else if rt_exists state \<and> \<not> rt_empty state
            then (w1, Some (coded PlanBlocked (''restore blocked: destination '' @ rt_destination state @ '' already contains data'')))
            else case (if rt_exists state then (w1, None) else create_destination tr d r w1) of
              (w2, Some e) \<Rightarrow> (w2, Some e)
            | (w2, None) \<Rightarrow>
              (case open_archive repo snapshot source of
                 Inl e \<Rightarrow> (w2, Some e)
               | Inr bytes \<Rightarrow> extract_archive env stream r source bytes w2))))"

fun restore_resources :: "restore_env \<Rightarrow> repository \<Rightarrow> 'w transport \<Rightarrow> 'w streamer \<Rightarrow> string \<Rightarrow> restore_service
    \<Rightarrow> deployment \<Rightarrow> resource_manifest list \<Rightarrow> 'w \<Rightarrow> 'w \<times> error option" where
  "restore_resources env repo tr stream snapshot review d [] w = (w, None)"
| "restore_resources env repo tr stream snapshot review d (source # rest) w =
     (case restore_resource_data env repo tr stream snapshot review d source w of
        (w1, Some e) \<Rightarrow> (w1, Some e)
      | (w1, None) \<Rightarrow> restore_resources env repo tr stream snapshot review d rest w1)"

definition restore_service_resources :: "restore_env \<Rightarrow> repository \<Rightarrow> 'w transport \<Rightarrow> 'w streamer \<Rightarrow> restore_plan
    \<Rightarrow> service_manifest \<Rightarrow> deployment \<Rightarrow> 'w \<Rightarrow> 'w \<times> error option" where
  "restore_service_resources env repo tr stream reviewed s d w =
     (case planned_restore_service reviewed (dp_name d) of
        None \<Rightarrow> (w, Some (coded PlanStale (''restore plan no longer contains service '' @ dp_name d)))
      | Some review \<Rightarrow> restore_resources env repo tr stream (rsp_snapshot_id reviewed) review d (sf_resources s) w)"

definition reviewed_resources :: "restore_plan \<Rightarrow> string \<Rightarrow> string \<Rightarrow> restore_resource list" where
  "reviewed_resources reviewed service name =
     concat (map (\<lambda>s. filter (\<lambda>r. rr_name r = name) (rv_resources s)) (filter (\<lambda>s. rv_name s = service) (rsp_services reviewed)))"

definition recheck_capacity :: "config \<Rightarrow> host_facts \<Rightarrow> restore_plan \<Rightarrow> service_manifest \<Rightarrow> deployment \<Rightarrow> persistent_resource \<Rightarrow> unit result" where
  "recheck_capacity cfg host reviewed s d r =
     (if pr_type r = ''path'' \<and> pr_storage r \<noteq> []
      then (case snapshot_resource s (pr_name r) of
          None \<Rightarrow> Inl (coded PlanStale (''snapshot resource mapping changed for '' @ dp_name d @ ''/'' @ pr_name r))
        | Some source \<Rightarrow>
          rbind (rmap_err (\<lambda>e. Coded PlanStale ''destination storage placement changed after restore review'' (Some e))
            (validate_resolved_placement (cfg_storage cfg) host (pr_storage r) (pr_path r))) (\<lambda>a.
          rforeach (\<lambda>_.
            rbind (restore_capacity_requirement (rf_uncompressed_size source)) (\<lambda>need.
            rmap_err (\<lambda>e. Coded PlanStale ''destination storage capacity changed after restore review'' (Some e))
              (require_free_capacity a need))) (reviewed_resources reviewed (dp_name d) (pr_name r))))
      else Inr ())"

definition restore_one :: "restore_env \<Rightarrow> repository \<Rightarrow> 'w backup_target \<Rightarrow> 'w streamer \<Rightarrow> config \<Rightarrow> host_facts \<Rightarrow> restore_plan
    \<Rightarrow> service_manifest \<Rightarrow> deployment \<Rightarrow> 'w \<Rightarrow> ('w \<times> error option) option" where
  "restore_one env repo target stream cfg host reviewed s d w =
     (let tr = bt_transport target; fact = backup_service_fact host (dp_name d) in
      case rforeach (recheck_capacity cfg host reviewed s d) (dp_data d) of
        Inl e \<Rightarrow> Some (w, Some e)
      | Inr _ \<Rightarrow>
        (case (if service_is_running fact then send tr (stop_request cfg d) w else (w, None)) of
           (w1, Some e) \<Rightarrow> Some (w1, Some (wrapf (''stop service '' @ dp_name d @ '' for restore: '') e))
         | (w1, None) \<Rightarrow>
           (case restore_service_resources env repo tr stream reviewed s d w1 of
              (w2, work) \<Rightarrow>
                (if service_is_running fact \<and> sv_deployment_present fact
                 then (case restart_and_verify (ev_backup env) tr (bt_sleep target) cfg d w2 of
                     None \<Rightarrow> None
                   | Some (w3, restart) \<Rightarrow> Some (w3, after_restart ''restore'' (dp_name d) work restart))
                 else Some (w2, work)))))"

definition converges_later :: "host_facts \<Rightarrow> deployment \<Rightarrow> bool" where
  "converges_later host d \<longleftrightarrow> \<not> sv_deployment_present (backup_service_fact host (dp_name d)) \<and> dp_state d = ''running''"

fun restore_each :: "restore_env \<Rightarrow> repository \<Rightarrow> 'w backup_target \<Rightarrow> 'w streamer \<Rightarrow> config \<Rightarrow> host_facts \<Rightarrow> restore_plan
    \<Rightarrow> (service_manifest \<times> deployment) list \<Rightarrow> string list \<Rightarrow> 'w \<Rightarrow> ('w \<times> string list \<times> error option) option" where
  "restore_each env repo target stream cfg host reviewed [] later w = Some (w, later, None)"
| "restore_each env repo target stream cfg host reviewed ((s, d) # rest) later w =
     (case restore_one env repo target stream cfg host reviewed s d w of
        None \<Rightarrow> None
      | Some (w1, Some e) \<Rightarrow> Some (w1, later, Some e)
      | Some (w1, None) \<Rightarrow>
        restore_each env repo target stream cfg host reviewed rest (if converges_later host d then later @ [dp_name d] else later) w1)"

definition no_restore :: restore_result where
  "no_restore = \<lparr>re_plan = None, re_restored = [], re_needs_convergence = []\<rparr>"

definition all_reviewed :: "restore_plan \<Rightarrow> string list" where
  "all_reviewed p = concat (map (\<lambda>s. map (\<lambda>r. rv_name s @ ''/'' @ rr_name r) (rv_resources s)) (rsp_services p))"

text \<open>What is checked before the lock is taken; it yields the manifest of the snapshot.\<close>

definition check_review :: "restore_env \<Rightarrow> repository \<Rightarrow> restore_plan \<Rightarrow> 'w restore_request \<Rightarrow> manifest result" where
  "check_review env repo reviewed request =
     rbind (validate_restore_plan reviewed) (\<lambda>_.
     rfail_if (restore_plan_fingerprint env reviewed \<noteq> rsp_fingerprint reviewed)
       (coded PlanTampered ''restore plan fingerprint does not match'')
       (rbind (verify (bv_codec (ev_backup env)) repo (rsp_snapshot_id reviewed)) (\<lambda>m.
        rfail_if (mf_digest m \<noteq> rsp_snapshot_digest reviewed) (coded PlanStale ''snapshot changed after restore review'')
        (rfail_if (\<not> identity_matches (rsp_target_identity reviewed) (host_identity (rsq_host request)))
          (coded TargetIdentityMismatch ''restore target identity changed after review'')
        (rbind (fingerprint (ev_config_digest env) (rsq_config request)) (\<lambda>f.
        rfail_if (f \<noteq> rsp_config_fingerprint reviewed) (coded PlanStale ''destination configuration changed after restore review'')
          (Inr m)))))))"

definition apply_restore_locked :: "restore_env \<Rightarrow> repository \<Rightarrow> restore_plan \<Rightarrow> 'w restore_request \<Rightarrow> 'w backup_target \<Rightarrow> 'w streamer
    \<Rightarrow> manifest \<Rightarrow> 'w \<Rightarrow> ('w \<times> restore_result \<times> error option) option" where
  "apply_restore_locked env repo reviewed request target stream m w =
     (let cfg = rsq_config request; host = rsq_host request; benv = ev_backup env in
      case run_script (bt_transport target) helper_script True w of
        (w1, Some e) \<Rightarrow> Some (w1, no_restore, Some (Coded PlanBlocked ''restore helper image is unavailable'' (Some e)))
      | (w1, None) \<Rightarrow>
        (case rbind (resolve_deployments (bv_source benv) cfg) (\<lambda>ds. restore_services benv m ds (rsq_service request)) of
           Inl e \<Rightarrow> Some (w1, no_restore, Some e)
         | Inr selected \<Rightarrow>
           (case restore_each env repo target stream cfg host reviewed selected [] w1 of
              None \<Rightarrow> None
            | Some (w2, later, Some e) \<Rightarrow> Some (w2, no_restore\<lparr>re_needs_convergence := later\<rparr>, Some e)
            | Some (w2, later, None) \<Rightarrow>
              Some (w2, \<lparr>re_plan = Some reviewed, re_restored = all_reviewed reviewed, re_needs_convergence = later\<rparr>, None))))"

definition apply_restore :: "restore_env \<Rightarrow> repository \<Rightarrow> restore_plan \<Rightarrow> 'w restore_request \<Rightarrow> 'w
    \<Rightarrow> ('w \<times> restore_result \<times> error option) option" where
  "apply_restore env repo reviewed request w =
     (case check_review env repo reviewed request of
        Inl e \<Rightarrow> Some (w, no_restore, Some e)
      | Inr m \<Rightarrow>
        (case rsq_transport request of
           None \<Rightarrow> Some (w, no_restore, Some (errorf ''target transport does not support streaming restore archives''))
         | Some target \<Rightarrow>
           (case bt_stream target of
              None \<Rightarrow> Some (w, no_restore, Some (errorf ''target transport does not support streaming restore archives''))
            | Some stream \<Rightarrow>
              (case bt_locker target of
                 None \<Rightarrow> Some (w, no_restore, Some (coded ApplyLocked ''restore requires the Bebop target apply lock''))
               | Some l \<Rightarrow>
                 (case lk_acquire l w of
                    (w1, Some e) \<Rightarrow> Some (w1, no_restore, Some (classify_lock e))
                  | (w1, None) \<Rightarrow>
                    (case apply_restore_locked env repo reviewed request target stream m w1 of
                       None \<Rightarrow> None
                     | Some (w2, r, e) \<Rightarrow> Some (lk_release l w2, r, e)))))))"

section \<open>Plans that are accepted\<close>

lemma validate_unsealed: "validate_restore_plan (p\<lparr>rsp_fingerprint := f\<rparr>) = validate_restore_plan p"
  by (simp add: validate_restore_plan_def)

lemma seal_restore_ok:
  "seal_restore env p = Inr q \<longleftrightarrow> validate_restore_plan p = Inr () \<and> q = p\<lparr>rsp_fingerprint := restore_plan_fingerprint env p\<rparr>"
  by (auto simp: seal_restore_def result_simps)

lemma sealed_restore_plan:
  assumes "seal_restore env p = Inr q"
  shows "validate_restore_plan q = Inr () \<and> restore_plan_fingerprint env q = rsp_fingerprint q"
  using assms by (auto simp: seal_restore_ok validate_unsealed restore_plan_fingerprint_def)

text \<open>A plan that was written is read back as it was sealed, if the reader of JSON inverts the writer.\<close>

lemma restore_plan_read_back:
  assumes "write_restore_plan env encode faults filename p files = (files', None)" and "\<And>q. parse (encode q @ newline) = Inr q"
  shows "\<exists>q. seal_restore env p = Inr q \<and> load_restore_plan env parse files' filename = Inr q"
proof -
  obtain q where q: "seal_restore env p = Inr q" "files' = files(filename \<mapsto> encode q @ newline)"
    using assms(1) by (auto simp: write_restore_plan_def split: sum.splits list.splits)
  with sealed_restore_plan [OF q(1)] assms(2) show ?thesis by (simp add: load_restore_plan_def)
qed

text \<open>A plan that has just been built passes the checks of \<open>ApplyRestore\<close> for the same request.\<close>

lemma fresh_restore_plan_accepted:
  assumes "build_restore_plan env repo request w = (w', Inr p)"
    and "verify (bv_codec (ev_backup env)) repo (rsq_snapshot_id request) = Inr m" and "mf_snapshot_id m = rsq_snapshot_id request"
    and "hf_machine_id (rsq_host request) \<noteq> [] \<or> hf_hostname (rsq_host request) \<noteq> []"
  shows "check_review env repo p request = Inr m"
proof -
  obtain target where t: "rsq_transport request = Some target"
    using assms(1) by (cases "rsq_transport request") (auto simp: build_restore_plan_def Let_def)
  let ?chain = "rbind (verify (bv_codec (ev_backup env)) repo (rsq_snapshot_id request)) (\<lambda>m.
      rbind (fingerprint (ev_config_digest env) (rsq_config request)) (\<lambda>f.
      rbind (resolve_deployments (bv_source (ev_backup env)) (rsq_config request)) (\<lambda>ds.
      rbind (restore_services (ev_backup env) m ds (rsq_service request)) (\<lambda>selected. Inr (m, f, selected)))))"
  obtain m' f selected where c: "?chain = Inr (m', f, selected)"
    using assms(1) t by (cases ?chain) (auto simp: build_restore_plan_def Let_def)
  then have f: "m' = m" "fingerprint (ev_config_digest env) (rsq_config request) = Inr f"
    using assms(2) by (auto simp: result_simps)
  obtain w1 x where s: "plan_restore_services (bt_transport target) (rsq_config request) (rsq_host request) selected w = (w1, x)" by fastforce
  then obtain q where q: "seal_restore env q = Inr p" "rsp_snapshot_id q = mf_snapshot_id m" "rsp_snapshot_digest q = mf_digest m"
    "rsp_config_fingerprint q = f" "rsp_target_identity q = host_identity (rsq_host request)"
    using assms(1) t c f(1) by (cases x) (auto simp: build_restore_plan_def Let_def)
  have "identity_matches (host_identity (rsq_host request)) (host_identity (rsq_host request))"
    using assms(4) by (auto simp: identity_matches_def host_identity_def Let_def)
  with sealed_restore_plan [OF q(1)] q assms(2,3) f show ?thesis
    by (auto simp: check_review_def seal_restore_ok)
qed

section \<open>A target that watches extractions\<close>

text \<open>
  An extraction is the script, the bytes it was given and whether a condition held of the target when it
  started. \<open>guarded\<close> is a target that behaves like the one it is made of and writes its extractions down.
\<close>

type_synonym extraction = "string \<times> string \<times> bool"

definition guarded_stream :: "(string \<Rightarrow> string \<Rightarrow> 'w \<Rightarrow> bool) \<Rightarrow> 'w streamer \<Rightarrow> ('w \<times> extraction list) streamer" where
  "guarded_stream condition stream script input v =
     (case stream script input (fst v) of
        (w1, out, e) \<Rightarrow> ((w1, snd v @ [(script, input, condition script input (fst v))]), out, e))"

definition guarded_transport :: "'w transport \<Rightarrow> ('w \<times> extraction list) transport" where
  "guarded_transport tr q v = (case tr q (fst v) of (w1, r, e) \<Rightarrow> ((w1, snd v), r, e))"

definition guarded :: "(string \<Rightarrow> string \<Rightarrow> 'w \<Rightarrow> bool) \<Rightarrow> 'w backup_target \<Rightarrow> ('w \<times> extraction list) backup_target" where
  "guarded condition target =
     \<lparr>bt_transport = guarded_transport (bt_transport target),
      bt_stream = map_option (guarded_stream condition) (bt_stream target),
      bt_locker = map_option (\<lambda>l.
        \<lparr>lk_acquire = (\<lambda>v. case lk_acquire l (fst v) of (w1, e) \<Rightarrow> ((w1, snd v), e)),
         lk_release = (\<lambda>v. (lk_release l (fst v), snd v))\<rparr>) (bt_locker target),
      bt_sleep = (\<lambda>v. case bt_sleep target (fst v) of (w1, k) \<Rightarrow> ((w1, snd v), k))\<rparr>"

lemma run_script_guarded:
  "run_script (guarded_transport tr) script p (w, log) = (case run_script tr script p w of (w1, e) \<Rightarrow> ((w1, log), e))"
  by (simp add: run_script_def run_input_def guarded_transport_def split: prod.split)

lemma run_output_guarded:
  "run_output (guarded_transport tr) script p (w, log) = (case run_output tr script p w of (w1, out, e) \<Rightarrow> ((w1, log), out, e))"
  by (simp add: run_output_def guarded_transport_def split: prod.split)

lemma guarded_transport_keeps: "snd (fst (guarded_transport tr q v)) = snd v"
  by (simp add: guarded_transport_def split: prod.split)

lemma send_guarded: "send (guarded_transport tr) q v = (v', e) \<Longrightarrow> snd v' = snd v"
  by (auto simp: send_def run_input_def guarded_transport_def split: prod.splits)

text \<open>Waiting for a service extracts nothing.\<close>

lemma check_running_invariant:
  assumes "\<And>q v. I v \<Longrightarrow> I (fst (tr q v))" and "check_running tr read_state d w = (w1, r)" and "I w"
  shows "I w1"
proof -
  have "(if I (fst (tr q v)) then 0 else 1 :: nat) \<le> (if I v then 0 else 1)" for q v using assms(1) by auto
  from check_running_keeps [of "\<lambda>v. if I v then 0 else 1" tr, OF this assms(2)] assms(3) show ?thesis by (auto split: if_splits)
qed

lemma restart_guarded:
  assumes "restart_and_verify env (guarded_transport tr) sleep cfg d v = Some (v', e)" and "\<And>v. snd (fst (sleep v)) = snd v"
  shows "snd v' = snd v"
proof -
  obtain v1 e1 where u: "send (guarded_transport tr) (up_request cfg d) v = (v1, e1)" by fastforce
  note s = send_guarded [OF u]
  have wait: "snd v2 = snd v1" if "wait_loop (guarded_transport tr) sleep r d' t v1 = Some (v2, x)" for r d' t v2 x
    using wait_loop_invariant [OF that, of "\<lambda>u. snd u = snd v1"] assms(2)
      check_running_invariant [of "\<lambda>u. snd u = snd v1" "guarded_transport tr"] guarded_transport_keeps [of tr]
    by (metis fst_conv)
  show ?thesis
  proof (cases e1)
    case (Some x)
    with assms(1) u s show ?thesis by (simp add: restart_and_verify_def)
  next
    case None
    with assms(1) u have "v' = v1 \<or> (\<exists>r d' t. wait_loop (guarded_transport tr) sleep r d' t v1 = Some (v', e))"
      by (auto simp: restart_and_verify_def verify_service_def wait_for_running_def Let_def split: sum.splits option.splits)
    with wait s show ?thesis by metis
  qed
qed

section \<open>Destinations\<close>

definition destination_of :: "persistent_resource \<Rightarrow> string" where
  "destination_of r = (if pr_type r = ''volume'' then pr_runtime_volume r else pr_path r)"

definition exists_script :: "persistent_resource \<Rightarrow> string" where
  "exists_script r = (if pr_type r = ''volume'' then volume_exists_script (pr_runtime_volume r) else path_exists_script (pr_path r))"

definition empty_script :: "persistent_resource \<Rightarrow> string" where
  "empty_script r = (if pr_type r = ''volume'' then empty_volume_script (pr_runtime_volume r) else empty_path_script (pr_path r))"

text \<open>
  What is relied on of the tools of the target, for a predicate \<open>holds\<close> of the data that a destination contains:
  the two inspection scripts tell the truth when they report that a destination is absent or empty, and creating
  a destination that holds no data puts none into it.
\<close>

definition truthful :: "'w transport \<Rightarrow> ('w \<Rightarrow> string \<Rightarrow> string \<Rightarrow> bool) \<Rightarrow> bool" where
  "truthful tr holds \<longleftrightarrow>
     (\<forall>r w w1 out. run_output tr (exists_script r) True w = (w1, out, None) \<longrightarrow> \<not> str_contains out ''exists=yes''
        \<longrightarrow> \<not> holds w1 (pr_type r) (destination_of r))
     \<and> (\<forall>r w w1 out. run_output tr (empty_script r) True w = (w1, out, None) \<longrightarrow> is_empty_answer out
        \<longrightarrow> \<not> holds w1 (pr_type r) (destination_of r))
     \<and> (\<forall>d r w w1. run_script tr (create_destination_script d r) True w = (w1, None) \<longrightarrow> \<not> holds w (pr_type r) (destination_of r)
        \<longrightarrow> \<not> holds w1 (pr_type r) (destination_of r))"

lemma destination_state_guarded:
  assumes "truthful tr holds" and "destination_state (guarded_transport tr) d r (w, log) = (v, Inr st)"
  shows "\<exists>w1. v = (w1, log) \<and> rt_destination st = destination_of r \<and> (pr_type r = ''volume'' \<or> pr_type r = ''path'')
     \<and> (\<not> (rt_exists st \<and> \<not> rt_empty st) \<longrightarrow> \<not> holds w1 (pr_type r) (destination_of r))"
proof -
  have i: "\<exists>w1. v = (w1, log) \<and> rt_destination st = n
      \<and> (\<not> rt_exists st \<longrightarrow> (\<exists>out. run_output tr a True w = (w1, out, None) \<and> \<not> str_contains out ''exists=yes''))
      \<and> (rt_exists st \<longrightarrow> rt_empty st \<longrightarrow> (\<exists>u out. run_output tr c True u = (w1, out, None) \<and> is_empty_answer out))"
    if ins: "inspect_destination (guarded_transport tr) n a b c (w, log) = (v, Inr st)" for n a b c
  proof -
    obtain w1 out e where x: "run_output tr a True w = (w1, out, e)" by (metis prod.exhaust)
    show ?thesis
    proof (cases "e = None \<and> str_contains out ''exists=yes''")
      case False
      with ins x show ?thesis
        by (cases e) (auto simp: inspect_destination_def run_output_guarded)
    next
      case True
      obtain w2 e2 where y: "(case b of None \<Rightarrow> (w1, None) | Some script \<Rightarrow> run_script tr script True w1) = (w2, e2)" by fastforce
      then have y': "(case b of None \<Rightarrow> ((w1, log), None) | Some script \<Rightarrow> run_script (guarded_transport tr) script True (w1, log)) = ((w2, log), e2)"
        by (auto simp: run_script_guarded split: option.splits)
      obtain w3 out3 e3 where z: "run_output tr c True w2 = (w3, out3, e3)" by (metis prod.exhaust)
      from ins x True y' z show ?thesis
        by (cases e2; cases e3) (auto simp: inspect_destination_def run_output_guarded, blast)
    qed
  qed
  from assms(2) consider (volume) "pr_type r = ''volume''" | (path) "pr_type r = ''path''"
    by (auto simp: destination_state_def split: if_splits)
  then show ?thesis
  proof cases
    case volume
    from assms(2) volume have "inspect_destination (guarded_transport tr) (destination_of r) (exists_script r)
        (if pr_external r then None else Some (destination_volume_script d r)) (empty_script r) (w, log) = (v, Inr st)"
      by (simp add: destination_state_def destination_of_def exists_script_def empty_script_def)
    from i [OF this] assms(1) volume show ?thesis unfolding truthful_def by blast
  next
    case path
    from assms(2) path have "inspect_destination (guarded_transport tr) (destination_of r) (exists_script r)
        (Some (real_directory_script (pr_path r))) (empty_script r) (w, log) = (v, Inr st)"
      by (simp add: destination_state_def destination_of_def exists_script_def empty_script_def)
    from i [OF this] assms(1) path show ?thesis unfolding truthful_def by blast
  qed
qed

lemma destination_state_fails_guarded:
  assumes "destination_state (guarded_transport tr) d r (w, log) = (v, Inl e)"
  shows "snd v = log"
  using assms
  by (auto simp: destination_state_def inspect_destination_def run_output_guarded run_script_guarded split: prod.splits option.splits if_splits)

section \<open>What is extracted\<close>

text \<open>
  An extraction is authorised if it fills a destination that holds no data, that the reviewed plan lists as
  absent or empty, with the archive that the verified snapshot has for a declared resource of a selected
  service.
\<close>

definition authorized :: "restore_env \<Rightarrow> repository \<Rightarrow> restore_plan \<Rightarrow> (service_manifest \<times> deployment) list
    \<Rightarrow> ('w \<Rightarrow> string \<Rightarrow> string \<Rightarrow> bool) \<Rightarrow> string \<Rightarrow> string \<Rightarrow> 'w \<Rightarrow> bool" where
  "authorized env repo reviewed selected holds script bytes w \<longleftrightarrow>
     (\<exists>(s, d)\<in>set selected. \<exists>source\<in>set (sf_resources s). \<exists>r review p.
        find_resource d (rf_name source) = Some r \<and> pr_type r = rf_type source
        \<and> planned_restore_service reviewed (dp_name d) = Some review \<and> planned_restore_resource review (rf_name source) = Some p
        \<and> rr_destination p = destination_of r \<and> (rr_exists p \<longrightarrow> rr_empty p)
        \<and> script = restore_archive_script r \<and> open_archive repo (rsp_snapshot_id reviewed) source = Inr bytes
        \<and> \<not> holds w (pr_type r) (destination_of r))"

text \<open>The extractions that a service needs.\<close>

definition wanted :: "repository \<Rightarrow> restore_plan \<Rightarrow> deployment \<Rightarrow> resource_manifest \<Rightarrow> string option \<times> string result" where
  "wanted repo reviewed d source =
     (map_option restore_archive_script (find_resource d (rf_name source)), open_archive repo (rsp_snapshot_id reviewed) source)"

definition done_as :: "extraction \<Rightarrow> string option \<times> string result" where
  "done_as x = (Some (fst x), Inr (fst (snd x)))"

definition extracts :: "repository \<Rightarrow> restore_plan \<Rightarrow> (deployment \<times> resource_manifest) list \<Rightarrow> extraction list \<Rightarrow> extraction list \<Rightarrow> bool \<Rightarrow> bool" where
  "extracts repo reviewed sources log log' ok \<longleftrightarrow>
     (\<exists>xs. log' = log @ xs \<and> (\<forall>x\<in>set xs. snd (snd x)) \<and> (ok \<longrightarrow> map done_as xs = map (\<lambda>(d, source). wanted repo reviewed d source) sources))"

lemma extracts_nothing: "\<not> ok \<Longrightarrow> extracts repo reviewed sources log log ok"
  by (simp add: extracts_def)

lemma extracts_append:
  "extracts repo reviewed as log log1 True \<Longrightarrow> extracts repo reviewed bs log1 log2 ok \<Longrightarrow> extracts repo reviewed (as @ bs) log log2 ok"
  by (auto simp: extracts_def)

lemma extracts_stop: "extracts repo reviewed as log log1 ok \<Longrightarrow> extracts repo reviewed (as @ bs) log log1 False"
  by (auto simp: extracts_def)

lemma restore_resource_data_guarded:
  assumes "truthful tr holds" and "(s, d) \<in> set selected" and "source \<in> set (sf_resources s)"
    and "planned_restore_service reviewed (dp_name d) = Some review"
    and "restore_resource_data env repo (guarded_transport tr)
        (guarded_stream (authorized env repo reviewed selected holds) stream) (rsp_snapshot_id reviewed) review d source (w, log) = (v, e)"
  shows "extracts repo reviewed [(d, source)] log (snd v) (e = None)"
proof (cases "\<exists>r w1 st. find_resource d (rf_name source) = Some r \<and> pr_type r = rf_type source
    \<and> destination_state (guarded_transport tr) d r (w, log) = (w1, Inr st)")
  case False
  then have "snd v = log \<and> e \<noteq> None"
    using assms(5) by (auto simp: restore_resource_data_def split: option.splits if_splits prod.splits sum.splits
        dest: destination_state_fails_guarded)
  then show ?thesis by (auto intro: extracts_nothing)
next
  case True
  then obtain r v1 st where r: "find_resource d (rf_name source) = Some r" "pr_type r = rf_type source"
    and ds: "destination_state (guarded_transport tr) d r (w, log) = (v1, Inr st)" by blast
  from destination_state_guarded [OF assms(1) ds] obtain w1 where w1: "v1 = (w1, log)" "rt_destination st = destination_of r"
    "pr_type r = ''volume'' \<or> pr_type r = ''path''"
    "\<not> (rt_exists st \<and> \<not> rt_empty st) \<longrightarrow> \<not> holds w1 (pr_type r) (destination_of r)" by blast
  let ?c = "if rt_exists st then (w1, None) else run_script tr (create_destination_script d r) True w1"
  obtain w2 e2 where c: "?c = (w2, e2)" by fastforce
  have c': "(if rt_exists st then ((w1, log), None) else create_destination (guarded_transport tr) d r (w1, log)) = ((w2, log), e2)"
    using c w1(3) by (auto simp: create_destination_def run_script_guarded split: if_splits)
  show ?thesis
  proof (cases "matches_review review (rf_name source) st \<and> \<not> (rt_exists st \<and> \<not> rt_empty st) \<and> e2 = None
      \<and> (\<exists>bytes. open_archive repo (rsp_snapshot_id reviewed) source = Inr bytes)")
    case False
    then have "snd v = log \<and> e \<noteq> None"
      using assms(5) r ds w1(1) c' by (auto simp: restore_resource_data_def split: if_splits option.splits sum.splits)
    then show ?thesis by (auto intro: extracts_nothing)
  next
    case True
    then obtain bytes where bytes: "open_archive repo (rsp_snapshot_id reviewed) source = Inr bytes" by blast
    from True obtain p where p: "planned_restore_resource review (rf_name source) = Some p"
      "rr_destination p = destination_of r" "rr_exists p \<longrightarrow> rr_empty p"
      using w1(2) by (auto simp: matches_review_def split: option.splits)
    have free: "\<not> holds w2 (pr_type r) (destination_of r)"
    proof (cases "rt_exists st")
      case yes: True
      with c w1(4) True show ?thesis by simp
    next
      case no: False
      with c True have "run_script tr (create_destination_script d r) True w1 = (w2, None)" by simp
      moreover have "\<not> holds w1 (pr_type r) (destination_of r)" using w1(4) no by simp
      ultimately show ?thesis using assms(1) unfolding truthful_def by blast
    qed
    have a: "authorized env repo reviewed selected holds (restore_archive_script r) bytes w2"
      unfolding authorized_def
      by (rule bexI [OF _ assms(2)], unfold prod.case, rule bexI [OF _ assms(3)]) (use assms(4) r p bytes free in blast)
    have "(v, e) = extract_archive env (guarded_stream (authorized env repo reviewed selected holds) stream) r source bytes (w2, log)"
      using assms(5) r ds w1(1) c' True bytes by (simp add: restore_resource_data_def)
    then have "snd v = log @ [(restore_archive_script r, bytes, True)]"
      using a by (auto simp: extract_archive_def guarded_stream_def split: prod.splits option.splits)
    then show ?thesis using r bytes by (simp add: extracts_def done_as_def wanted_def)
  qed
qed

lemma restore_resources_guarded:
  assumes "truthful tr holds" and "(s, d) \<in> set selected" and "planned_restore_service reviewed (dp_name d) = Some review"
  shows "restore_resources env repo (guarded_transport tr) (guarded_stream (authorized env repo reviewed selected holds) stream)
      (rsp_snapshot_id reviewed) review d sources (w, log) = (v, e) \<Longrightarrow> set sources \<subseteq> set (sf_resources s)
    \<Longrightarrow> extracts repo reviewed (map (Pair d) sources) log (snd v) (e = None)"
proof (induction sources arbitrary: w log)
  case Nil
  then show ?case by (auto simp: extracts_def)
next
  case (Cons source sources)
  obtain w1 log1 e1 where o: "restore_resource_data env repo (guarded_transport tr)
      (guarded_stream (authorized env repo reviewed selected holds) stream) (rsp_snapshot_id reviewed) review d source (w, log) = ((w1, log1), e1)"
    by (metis prod.exhaust)
  have x: "extracts repo reviewed [(d, source)] log log1 (e1 = None)"
    using restore_resource_data_guarded [OF assms(1,2) _ assms(3) o] Cons.prems(2) by simp
  show ?case
  proof (cases e1)
    case (Some y)
    with Cons.prems(1) o have "v = (w1, log1)" "e = Some y" by auto
    with extracts_stop [OF x, of "map (Pair d) sources"] show ?thesis by simp
  next
    case None
    with Cons.prems o have "extracts repo reviewed (map (Pair d) sources) log1 (snd v) (e = None)"
      by (intro Cons.IH) auto
    with x None extracts_append [of repo reviewed "[(d, source)]" log log1] show ?thesis by simp
  qed
qed

lemma restore_one_guarded:
  assumes "truthful (bt_transport target) holds" and "(s, d) \<in> set selected"
    and "restore_one env repo (guarded condition target) (guarded_stream (authorized env repo reviewed selected holds) stream)
      cfg host reviewed s d v = Some (v', e)"
  shows "extracts repo reviewed (map (Pair d) (sf_resources s)) (snd v) (snd v') (e = None)"
proof -
  let ?tr = "guarded_transport (bt_transport target)" and ?fact = "backup_service_fact host (dp_name d)"
    and ?stream = "guarded_stream (authorized env repo reviewed selected holds) stream"
  have g: "bt_transport (guarded condition target) = ?tr" "snd (fst (bt_sleep (guarded condition target) u)) = snd u" for u
    by (simp_all add: guarded_def split: prod.split)
  obtain v1 e1 where t: "(if service_is_running ?fact then send ?tr (stop_request cfg d) v else (v, None)) = (v1, e1)" by fastforce
  then have v1: "snd v1 = snd v" by (cases "service_is_running ?fact") (auto dest: send_guarded)
  show ?thesis
  proof (cases "(\<exists>x. rforeach (recheck_capacity cfg host reviewed s d) (dp_data d) = Inl x) \<or> e1 \<noteq> None")
    case True
    then have "snd v' = snd v \<and> e \<noteq> None"
      using assms(3) t v1 by (auto simp: restore_one_def Let_def g split: sum.splits)
    then show ?thesis by (auto intro: extracts_nothing)
  next
    case False
    then have f: "rforeach (recheck_capacity cfg host reviewed s d) (dp_data d) = Inr ()" "e1 = None"
      by (cases "rforeach (recheck_capacity cfg host reviewed s d) (dp_data d)"; simp)+
    obtain v2 work where k: "restore_service_resources env repo ?tr ?stream reviewed s d v1 = (v2, work)" by fastforce
    have x: "extracts repo reviewed (map (Pair d) (sf_resources s)) (snd v) (snd v2) (work = None)"
    proof (cases "planned_restore_service reviewed (dp_name d)")
      case None
      with k v1 show ?thesis by (auto simp: restore_service_resources_def intro: extracts_nothing)
    next
      case (Some review)
      with k have "restore_resources env repo ?tr ?stream (rsp_snapshot_id reviewed) review d (sf_resources s) (fst v1, snd v1) = (v2, work)"
        by (simp add: restore_service_resources_def)
      from restore_resources_guarded [OF assms(1,2) Some this] v1 show ?thesis by simp
    qed
    have "snd v' = snd v2 \<and> (e = None \<longrightarrow> work = None)"
    proof (cases "service_is_running ?fact \<and> sv_deployment_present ?fact")
      case True
      then obtain v3 restart where r: "restart_and_verify (ev_backup env) ?tr (bt_sleep (guarded condition target)) cfg d v2 = Some (v3, restart)"
        using assms(3) f t k by (auto simp: restore_one_def Let_def g split: option.splits)
      with True assms(3) f t k have "v' = v3" "e = after_restart ''restore'' (dp_name d) work restart"
        by (simp_all add: restore_one_def Let_def g)
      with restart_guarded [OF r g(2)] after_restart_none show ?thesis by metis
    next
      case no: False
      with assms(3) f t k show ?thesis by (auto simp: restore_one_def Let_def g)
    qed
    with x show ?thesis by (cases "e = None") (auto simp: extracts_def)
  qed
qed

definition sources_of :: "(service_manifest \<times> deployment) list \<Rightarrow> (deployment \<times> resource_manifest) list" where
  "sources_of selected = concat (map (\<lambda>(s, d). map (Pair d) (sf_resources s)) selected)"

lemma restore_each_guarded:
  assumes "truthful (bt_transport target) holds"
  shows "restore_each env repo (guarded condition target) (guarded_stream (authorized env repo reviewed selected holds) stream)
      cfg host reviewed part later v = Some (v', later', e) \<Longrightarrow> set part \<subseteq> set selected
    \<Longrightarrow> extracts repo reviewed (sources_of part) (snd v) (snd v') (e = None)"
proof (induction part arbitrary: later v)
  case Nil
  then show ?case by (auto simp: extracts_def sources_of_def)
next
  case (Cons sd part)
  obtain s d where sd: "sd = (s, d)" by fastforce
  obtain v1 e1 where o: "restore_one env repo (guarded condition target) (guarded_stream (authorized env repo reviewed selected holds) stream)
      cfg host reviewed s d v = Some (v1, e1)"
    using Cons.prems(1) sd by (auto split: option.splits prod.splits)
  have x: "extracts repo reviewed (map (Pair d) (sf_resources s)) (snd v) (snd v1) (e1 = None)"
    using restore_one_guarded [OF assms _ o] Cons.prems(2) sd by simp
  show ?case
  proof (cases e1)
    case (Some y)
    with Cons.prems(1) o sd have "v' = v1" "e = Some y" by auto
    with extracts_stop [OF x, of "sources_of part"] sd show ?thesis by (simp add: sources_of_def)
  next
    case None
    with Cons.prems o sd have "extracts repo reviewed (sources_of part) (snd v1) (snd v') (e = None)"
      by (intro Cons.IH) auto
    with x None extracts_append show ?thesis by (fastforce simp: sd sources_of_def)
  qed
qed

section \<open>Properties\<close>

text \<open>The services that an application of a reviewed plan is about.\<close>

definition restored_services :: "restore_env \<Rightarrow> repository \<Rightarrow> restore_plan \<Rightarrow> config \<Rightarrow> string \<Rightarrow> (service_manifest \<times> deployment) list" where
  "restored_services env repo reviewed cfg only =
     (case rbind (verify (bv_codec (ev_backup env)) repo (rsp_snapshot_id reviewed)) (\<lambda>m.
           rbind (resolve_deployments (bv_source (ev_backup env)) cfg) (\<lambda>ds. restore_services (ev_backup env) m ds only)) of
        Inl _ \<Rightarrow> []
      | Inr selected \<Rightarrow> selected)"


section \<open>A restore that succeeds\<close>

text \<open>A target with one destination; the state is whether that destination holds data.\<close>

definition ex_disk_transport :: "bool transport" where
  "ex_disk_transport q w = (w, \<lparr>cr_stdout = (if w then ''exists=yes'' else []), cr_stderr = [], cr_exit_code = 0\<rparr>, None)"

definition ex_disk_target :: "bool backup_target" where
  "ex_disk_target = \<lparr>bt_transport = ex_disk_transport, bt_stream = Some (\<lambda>script input w. (True, ([], None), None)),
     bt_locker = Some \<lparr>lk_acquire = (\<lambda>w. (w, None)), lk_release = (\<lambda>w. w)\<rparr>, bt_sleep = (\<lambda>w. (w, Deadline))\<rparr>"

lemma ex_disk_truthful: "truthful ex_disk_transport (\<lambda>w _ _. w)"
  by (simp add: truthful_def run_output_def run_script_def run_input_def ex_disk_transport_def is_empty_answer_def trim_space_def is_space_def char_eval)

definition ex_roomy_mount :: storage_mount where
  "ex_roomy_mount = (ex_mount ''/mnt/disk'')\<lparr>sm_size_bytes := 2000000000, sm_available_bytes := 1000000000\<rparr>"

definition ex_restore_host :: host_facts where
  "ex_restore_host = zero_host_facts\<lparr>hf_hostname := ''pi'', hf_storage := zero_storage_facts\<lparr>st_available := True, st_mounts := [ex_roomy_mount]\<rparr>\<rparr>"

definition ex_restore_env :: restore_env where
  "ex_restore_env = \<lparr>ev_backup = ex_backup_env\<lparr>bv_codec := ex_codec\<lparr>cd_manifest_digest := (\<lambda>_. replicate 64 (CHR ''0''))\<rparr>\<rparr>,
     ev_config_digest = (\<lambda>_. ''c''), ev_destination_digest = (\<lambda>_ _ _. ''d''), ev_plan_digest = (\<lambda>_. ''p''), ev_close = (\<lambda>_. None)\<rparr>"

definition ex_filled :: stage where
  "ex_filled = ex_filled_at ''/b/.staging/20240115T023000Z-0123456789ab''
     \<lparr>bs_host_alias = ''pi'', bs_target = ''pi'', bs_identity = host_identity zero_host_facts, bs_os = zero_os, bs_architecture = []\<rparr> None"

definition ex_saved_manifest :: manifest where
  "ex_saved_manifest = (sg_manifest ex_filled)\<lparr>mf_digest := replicate 64 (CHR ''0'')\<rparr>"

definition ex_saved_repository :: repository where
  "ex_saved_repository = [published ex_filled ex_saved_manifest]"

definition ex_restore_request :: "'w backup_target \<Rightarrow> 'w restore_request" where
  "ex_restore_request target = \<lparr>rsq_snapshot_id = ex_snapshot_id ''15'', rsq_host_alias = ''pi'', rsq_target = ''pi'', rsq_config_path = [],
     rsq_config = ex_deploy_config, rsq_host = ex_restore_host, rsq_service = [], rsq_transport = Some target\<rparr>"

definition ex_reviewed :: restore_plan where
  "ex_reviewed = \<lparr>rsp_schema_version = 1, rsp_bebop_version = ''dev'', rsp_snapshot_id = ex_snapshot_id ''15'',
     rsp_snapshot_digest = replicate 64 (CHR ''0''), rsp_config_path = [], rsp_config_fingerprint = ''c'', rsp_target = ''pi'',
     rsp_host_alias = ''pi'', rsp_target_identity = host_identity ex_restore_host, rsp_destination_fingerprint = ''d'',
     rsp_policy = ''empty-only'',
     rsp_services = [\<lparr>rv_name = ''media'', rv_runtime = ''missing'', rv_deployment = False,
       rv_resources = [\<lparr>rr_name = ''library'', rr_type = ''path'', rr_archive = ''services/media/data/library.tar'',
         rr_archive_sha256 = replicate 64 (CHR ''0''), rr_stored_size = 5, rr_destination = ''/mnt/disk/library'',
         rr_exists = False, rr_empty = False\<rparr>]\<rparr>],
     rsp_warnings = [], rsp_fingerprint = ''p''\<rparr>"

lemma ex_saved_valid: "validate_manifest (sg_manifest ex_filled) = Inr ()" "validate_manifest ex_saved_manifest = Inr ()"
  using ex_snapshot_ids(1)
  by (simp_all add: ex_saved_manifest_def ex_filled_def ex_filled_at_def ex_stage_at_def ex_saved_def ex_captured_def validate_manifest_def zero_time_def
    hex_decodes_def safe_archive_path_def unsafe_bytes_def contains_byte_def climbs_def path_clean_def clean_elements_def
    push_element_def is_rooted_def list_all_iff char_eval)

lemma ex_saved_verifies: "verify (bv_codec (ev_backup ex_restore_env)) ex_saved_repository (ex_snapshot_id ''15'') = Inr ex_saved_manifest"
proof -
  have f: "find_snapshot ex_saved_repository (ex_snapshot_id ''15'') = Some (published ex_filled ex_saved_manifest)"
    by (simp add: find_snapshot_def ex_saved_repository_def published_def ex_filled_def ex_filled_at_def ex_stage_at_def)
  have "load_manifest (bv_codec (ev_backup ex_restore_env)) (Some (published ex_filled ex_saved_manifest)) = Inr ex_saved_manifest"
    using ex_saved_valid(2) by (simp add: load_manifest_ok published_def ex_restore_env_def manifest_digest_def ex_saved_manifest_def)
  moreover have "repository_verify_path (bv_codec (ev_backup ex_restore_env)) (sg_files ex_filled) ex_saved_manifest = Inr ()"
    using ex_saved_valid(2) ex_validated
    by (simp add: repository_verify_path_ok verify_file_ok ex_restore_env_def ex_codec_def seen_file_def is_file_def manifest_resources_def
        manifest_digest_def ex_saved_manifest_def ex_filled_def ex_filled_at_def ex_stage_at_def ex_saved_def ex_captured_def)
  ultimately show ?thesis using f ex_snapshot_ids(1) by (simp add: verify_ok published_def)
qed

lemma ex_restore_reviewed: "check_review ex_restore_env ex_saved_repository ex_reviewed (ex_restore_request target) = Inr ex_saved_manifest"
proof -
  have "validate_restore_plan ex_reviewed = Inr ()"
    using ex_snapshot_ids(1)
    by (simp add: validate_restore_plan_def ex_reviewed_def hex_decodes_def list_all_iff safe_archive_path_def unsafe_bytes_def
        contains_byte_def climbs_def path_clean_def clean_elements_def push_element_def is_rooted_def char_eval)
  moreover have "restore_plan_fingerprint ex_restore_env ex_reviewed = rsp_fingerprint ex_reviewed"
    by (simp add: restore_plan_fingerprint_def ex_restore_env_def ex_reviewed_def)
  moreover have "rsp_snapshot_id ex_reviewed = ex_snapshot_id ''15''" "mf_digest ex_saved_manifest = rsp_snapshot_digest ex_reviewed"
    "rsp_target_identity ex_reviewed = host_identity ex_restore_host" "rsp_config_fingerprint ex_reviewed = ''c''"
    by (simp_all add: ex_reviewed_def ex_saved_manifest_def)
  moreover have "identity_matches (host_identity ex_restore_host) (host_identity ex_restore_host)"
    by (simp add: identity_matches_def host_identity_def Let_def ex_restore_host_def zero_host_facts_def)
  moreover have "fingerprint (ev_config_digest ex_restore_env) ex_deploy_config = Inr ''c''"
    using ex_deploy_valid by (simp add: fingerprint_def ex_restore_env_def)
  ultimately show ?thesis
    using ex_saved_verifies by (simp add: check_review_def ex_restore_request_def)
qed

lemma ex_restore_placed:
  "\<exists>a. validate_resolved_placement (cfg_storage ex_deploy_config) ex_restore_host ''disk'' ''/mnt/disk/library'' = Inr a
     \<and> require_free_capacity a 67108869 = Inr ()"
  by (simp add: validate_resolved_placement_def ex_restore_host_def ex_deploy_config_def ex_config_def find_storage_def
      assess_def ex_roomy_mount_def ex_mount_def mount_covers_def zero_storage_facts_def
      assess_mounted_def placement_filesystem_supported_def escapes_mount_def config_eval require_free_capacity_def available_bytes_def)

lemma ex_restore_selected:
  assumes "resolve_deployments ex_env ex_deploy_config = Inr [d]" "dp_name d = ''media''" "dp_state d = ''running''"
  shows "rbind (resolve_deployments (bv_source (ev_backup ex_restore_env)) ex_deploy_config)
    (\<lambda>ds. restore_services (ev_backup ex_restore_env) ex_saved_manifest ds []) = Inr [(ex_saved, d)]"
proof -
  have "mf_services ex_saved_manifest = [ex_saved]" "sf_name ex_saved = ''media''" "sf_configuration_digest ex_saved = ''media''"
    by (simp_all add: ex_saved_manifest_def ex_filled_def ex_filled_at_def ex_saved_def)
  moreover have "service_configuration_digest (ev_backup ex_restore_env) d = ''media''"
    by (simp add: service_configuration_digest_def ex_restore_env_def ex_backup_env_def assms)
  ultimately show ?thesis
    using assms by (simp add: ex_restore_env_def ex_backup_env_def restore_services_def)
qed

lemma ex_restored_data:
  assumes "dp_name d = ''media''" "dp_data d = [ex_library]"
  shows "\<exists>safe. restore_service_resources ex_restore_env ex_saved_repository (guarded_transport ex_disk_transport)
      (guarded_stream condition (\<lambda>script input w. (True, ([], None), None))) ex_reviewed ex_saved d (False, [])
    = ((True, [(restore_archive_script ex_library, ''bytes'', safe)]), None)"
proof -
  obtain review where review: "planned_restore_service ex_reviewed ''media'' = Some review"
    and m: "matches_review review ''library'' \<lparr>rt_destination = ''/mnt/disk/library'', rt_exists = False, rt_empty = False\<rparr>"
    by (simp add: planned_restore_service_def ex_reviewed_def matches_review_def planned_restore_resource_def)
  have f: "find_resource d ''library'' = Some ex_library" by (simp add: find_resource_def assms ex_library_def)
  have ds: "destination_state (guarded_transport ex_disk_transport) d ex_library (False, [])
      = ((False, []), Inr \<lparr>rt_destination = ''/mnt/disk/library'', rt_exists = False, rt_empty = False\<rparr>)"
    by (simp add: destination_state_def inspect_destination_def ex_library_def run_output_def guarded_transport_def ex_disk_transport_def)
  have c: "create_destination (guarded_transport ex_disk_transport) d ex_library (False, []) = ((False, []), None)"
    by (simp add: create_destination_def ex_library_def run_script_def run_input_def guarded_transport_def ex_disk_transport_def)
  have "find_snapshot ex_saved_repository (ex_snapshot_id ''15'') = Some (published ex_filled ex_saved_manifest)"
    by (simp add: find_snapshot_def ex_saved_repository_def published_def ex_filled_def ex_filled_at_def ex_stage_at_def)
  then have o: "open_archive ex_saved_repository (rsp_snapshot_id ex_reviewed) ex_captured = Inr ''bytes''"
    using ex_snapshot_ids(1)
    by (simp add: open_archive_def ex_reviewed_def published_def ex_filled_def ex_filled_at_def ex_captured_def safe_archive_path_def unsafe_bytes_def
        contains_byte_def climbs_def path_clean_def clean_elements_def push_element_def is_rooted_def char_eval)
  have t: "pr_type ex_library = rf_type ex_captured" "rf_name ex_captured = ''library''" "sf_resources ex_saved = [ex_captured]"
    by (simp_all add: ex_library_def ex_captured_def ex_saved_def)
  have "extract_archive ex_restore_env (guarded_stream condition (\<lambda>script input w. (True, ([], None), None))) ex_library ex_captured ''bytes'' (False, [])
      = ((True, [(restore_archive_script ex_library, ''bytes'', condition (restore_archive_script ex_library) ''bytes'' False)]), None)"
    by (simp add: extract_archive_def guarded_stream_def ex_restore_env_def)
  with review m f ds c o t show ?thesis
    by (simp add: restore_service_resources_def assms restore_resource_data_def)
qed


end
