(* ===== verification/Spec2Isabelle.thy ===== *)
theory Spec2Isabelle
  imports Saved_Plan Apply Fleet Inventory Webhook Maintenance_Locking Service_Source
    Modules Backup_Trace Backup_Restore
begin

text \<open>
  Bebop (\<open>github.com/bebop-home/bebop\<close>) configures home servers from a controller. It inspects a target,
  compares what it found with a declared configuration, shows a plan of changes, and applies exactly the
  plan that was reviewed. Around this core it keeps an inventory of hosts, saves plans, deploys Compose
  services, takes and verifies backups, runs maintenance jobs and reports their results.

  How the parts work together. \<open>config\<close> decodes and validates the declared state, \<open>facts\<close> holds what was
  found on the target and recognises the platform. Each module of \<open>modules\<close> turns both into changes;
  \<open>planner\<close> collects them, \<open>plan\<close> orders them by their dependencies, \<open>artifact\<close> and \<open>savedplan\<close> bind a plan
  to its inputs, and \<open>apply\<close> takes the lock of the target, has every change applied and verified by its
  module, and plans again. Everything that reaches a target goes through \<open>transport\<close>, whose scripts are made
  of fixed text and quoted values. \<open>maintenance\<close> runs jobs under a lock per job, writes their records and
  hands findings to \<open>notification\<close>; \<open>backup\<close> keeps the snapshots that jobs create and prune.

  The theories, in the order of their imports, with the Go files (below \<open>src/internal\<close>) they model:
    \<^item> \<open>Go_Prelude\<close>, \<open>Go_Path\<close>: Go's strings, \<open>strings\<close>, \<open>path\<close>, \<open>filepath\<close>, durations, results with an error.
    \<^item> \<open>Errs\<close>: \<open>errs/errors.go\<close> and the error values of \<open>transport\<close>. \<open>Shell\<close>: \<open>transport/quote.go\<close>, failure kinds.
    \<^item> \<open>Plan\<close>: \<open>plan/plan.go\<close>, with the ordering \<open>SortChanges\<close>.
    \<^item> \<open>Platform\<close>, \<open>Host_Facts\<close>: \<open>facts/platform.go\<close>, \<open>facts/osrelease.go\<close>, \<open>facts/facts.go\<close>.
    \<^item> \<open>Target\<close>, \<open>Transport\<close>: \<open>target/target.go\<close>, \<open>transport/transport.go\<close>, \<open>local.go\<close>, \<open>ssh.go\<close>.
    \<^item> \<open>Config_Base\<close>, \<open>Config\<close>, \<open>Maintenance_Config\<close>, \<open>Notification_Config\<close>: \<open>config/*.go\<close>.
    \<^item> \<open>Storage\<close>: \<open>storage/storage.go\<close>. \<open>Inventory\<close>: \<open>inventory/inventory.go\<close>, \<open>resolve/resolve.go\<close>.
    \<^item> \<open>Planner\<close>, \<open>Apply\<close>, \<open>Saved_Plan\<close>: \<open>planner\<close>, \<open>module\<close>, \<open>apply\<close>, \<open>artifact\<close>, \<open>savedplan\<close>. \<open>Fleet\<close>: \<open>fleet/fleet.go\<close>.
    \<^item> \<open>Module_Common\<close>, \<open>Host_Modules\<close>, \<open>Updates_Module\<close>, \<open>Docker_Module\<close>, \<open>Tailscale_Module\<close>,
      \<open>Compose_Module\<close>, \<open>Modules\<close>: \<open>modules/*.go\<close>.
    \<^item> \<open>Event\<close>, \<open>Delivery\<close>, \<open>Notifier\<close>, \<open>Webhook\<close>: \<open>notification/*.go\<close>.
    \<^item> \<open>Bounded_Log\<close>, \<open>Maintenance_History\<close>, \<open>Maintenance\<close>, \<open>Maintenance_Locking\<close>: \<open>lease\<close>, \<open>maintenance/history.go\<close>,
      \<open>lock.go\<close>, \<open>model.go\<close>.
    \<^item> \<open>Archive\<close>, \<open>Repository\<close>, \<open>Retention\<close>: \<open>backup/repository.go\<close>, \<open>backup/retention.go\<close>.
    \<^item> \<open>Compose_File\<close>, \<open>Service_Source\<close>: \<open>services/source.go\<close>.
    \<^item> \<open>Backup_Create\<close>, \<open>Backup_Trace\<close>: \<open>backup/create.go\<close>, and the requests that a backup sends to its target.
    \<^item> \<open>Backup_Restore\<close>: \<open>backup/restore.go\<close>.

  Conventions. A Go string is a list of bytes and an error a value; a function that returns a value and an
  error is a sum. A definition that acts on the world takes it and returns it changed: the target of an
  apply, the directories of the controller, the table of locks. Goroutines and concurrent invocations are
  step relations (\<open>Fleet\<close>, \<open>Maintenance_Locking\<close>), with invariants by rule induction over every interleaving.

  Parameters. TOML, YAML and JSON readers, SHA-256, HMAC, tar headers, clocks, random identifiers, HTTP, the
  operating system and the target are arguments of the definitions that use them: maps from requests to
  answers, or operations on the world. Where a theorem needs more of them it says so in a hypothesis (digests
  that do not collide on the texts at hand, an executor that terminates with a known result) and has an
  instance with concrete functions.

  Interfaces. The locale \<open>bounded_log\<close> is what the maintenance history and the history of deliveries promise,
  interpreted on both; a second locale in \<open>Maintenance_Locking\<close> is what concurrent jobs expect of their locks,
  interpreted on the table of advisory file locks.

  What the lemmas show. Plans: an order is found exactly when there is one, it respects the dependencies and does
  not depend on the registration of the modules. Apply: the reviewed changes, in order, each verified before the
  next, nothing without the lock or with a blocked change. Modules: the target receives the reviewed
  preconditions and script and nothing else, what a module plans is not refused by its own \<open>Apply\<close>, and a
  service is only deployed onto storage that is mounted or whose mount is planned before it.
  Configuration: declared paths, storage and backups stay where they are allowed. Services: what is resolved can
  be deployed together. Backups: publication is atomic, verification is exact, retention keeps the newest, a backup
  adds one verified snapshot or nothing, every service it stops is started again, and a restore fills only
  destinations that hold no data.
  Maintenance and notification: the protocol of a run, exclusion of jobs, bounded logs, suppression and recovery.

  Bounds and fuel. The loop of \<open>sort_changes\<close> has fuel one more than the number of changes, which never runs out
  (\<open>kahn_enough_fuel\<close>). The wait for a service is a partial function of the option monad, with a theorem that it
  returns on a clock that reaches its deadline. Every other loop is structural or has a measure. Byte counts and ports are tested before
  any sum is formed, as in the code, so the integers stay in the range of \<open>int64\<close>.

  Not modelled. \<open>inspect\<close> runs probe scripts and parses their output into the facts that the model starts from;
  \<open>cli\<close> and \<open>bebop/service.go\<close> parse flags, print, and call what is modelled. The executor of maintenance jobs and
  the generators of systemd and launchd units, \<open>preflight\<close> and \<open>recipes\<close> are listed as such in the manifest.
  Directory permissions and the atomic replacement of files by rename are answers of the environment.
\<close>

end
